(* ===== verification/Prelude.thy ===== *)
theory Prelude
  imports Complex_Main "HOL-Library.AList" "HOL-Library.Char_ord"
    "HOL-Library.List_Lexorder" "HOL-Library.Product_Lexorder"
begin

text \<open>
  What the component theories share: the Python values the services exchange (JSON, dicts,
  optional request fields), errors as values, the string operations of the standard library
  the source calls, database tables as lists of rows with a primary key, and the interface
  (\<open>keyed_store\<close>) through which the components use them.

  Conventions. A \<open>dict\<close> is an association list, in insertion order, as Python keeps it.
  An f-string that only ends in an error detail or a log is kept as the list of its parts.
  A datetime is its number of microseconds since the epoch (the resolution of Python's
  datetime), and \<open>JIso t\<close> is the text \<open>isoformat()\<close> gives for it.
  Floats are rationals, exact except where \<open>Doubles\<close> rounds; infinities and NaN are not modelled. Characters are bytes
  and the case mapping is the ASCII one.
\<close>

named_theorems frame_simps \<open>which fields an operation leaves unchanged\<close>
named_theorems store_simps \<open>lookups after table operations\<close>

subsection \<open>JSON values and Python dicts\<close>

datatype json =
    JNull | JBool bool | JInt int | JNum rat | JStr string | JIso int
  | JArr "json list" | JObj "(string \<times> json) list"

type_synonym dict = "(string \<times> json) list"

text \<open>\<open>d.get(k)\<close>, \<open>d.get(k, default)\<close>, \<open>k in d\<close>, \<open>d[k] = v\<close>.\<close>

definition dget :: "dict \<Rightarrow> string \<Rightarrow> json" where
  "dget d k = (case map_of d k of None \<Rightarrow> JNull | Some v \<Rightarrow> v)"

definition dget_or :: "dict \<Rightarrow> string \<Rightarrow> json \<Rightarrow> json" where
  "dget_or d k v = (case map_of d k of None \<Rightarrow> v | Some w \<Rightarrow> w)"

definition dhas :: "dict \<Rightarrow> string \<Rightarrow> bool" where
  "dhas d k \<longleftrightarrow> map_of d k \<noteq> None"

definition dset :: "dict \<Rightarrow> string \<Rightarrow> json \<Rightarrow> dict" where
  "dset d k v = AList.update k v d"

lemma dget_dset: "dget (dset d k v) k' = (if k' = k then v else dget d k')"
  by (simp add: dget_def dset_def update_conv')

lemma dhas_dset: "dhas (dset d k v) k' \<longleftrightarrow> k' = k \<or> dhas d k'"
  by (auto simp: dhas_def dset_def update_conv')

lemma keys_dset: "fst ` set (dset d k v) = insert k (fst ` set d)"
  by (induction d) (auto simp: dset_def)

lemma distinct_dset: "distinct (map fst d) \<Longrightarrow> distinct (map fst (dset d k v))"
  by (simp add: dset_def distinct_update)

text \<open>Truth value, \<open>a or b\<close>.\<close>

fun truthy :: "json \<Rightarrow> bool" where
  "truthy JNull = False"
| "truthy (JBool b) = b"
| "truthy (JInt i) = (i \<noteq> 0)"
| "truthy (JNum r) = (r \<noteq> 0)"
| "truthy (JStr s) = (s \<noteq> [])"
| "truthy (JIso t) = True"
| "truthy (JArr xs) = (xs \<noteq> [])"
| "truthy (JObj d) = (d \<noteq> [])"

definition jor :: "json \<Rightarrow> json \<Rightarrow> json" where
  "jor a b = (if truthy a then a else b)"

text \<open>The number a value compares as: in Python \<open>True == 1 == 1.0\<close>.\<close>

fun num_of :: "json \<Rightarrow> rat option" where
  "num_of (JBool b) = Some (if b then 1 else 0)"
| "num_of (JInt i) = Some (of_int i)"
| "num_of (JNum r) = Some r"
| "num_of _ = None"

text \<open>Python's \<open>==\<close>: numbers by value, lists by position, dicts as maps.\<close>

fun py_eq :: "json \<Rightarrow> json \<Rightarrow> bool"
  and py_eq_list :: "json list \<Rightarrow> json list \<Rightarrow> bool"
  and py_eq_dict :: "(string \<times> json) list \<Rightarrow> (string \<times> json) list \<Rightarrow> bool" where
  "py_eq JNull y = (y = JNull)"
| "py_eq (JBool b) y = (num_of y = Some (if b then 1 else 0))"
| "py_eq (JInt i) y = (num_of y = Some (of_int i))"
| "py_eq (JNum r) y = (num_of y = Some r)"
| "py_eq (JStr s) y = (y = JStr s)"
| "py_eq (JIso t) y = (y = JIso t)"
| "py_eq (JArr xs) y = (case y of JArr ys \<Rightarrow> py_eq_list xs ys | _ \<Rightarrow> False)"
| "py_eq (JObj d) y =
     (case y of JObj e \<Rightarrow> length d = length e \<and> py_eq_dict d e | _ \<Rightarrow> False)"
| "py_eq_list [] ys = (ys = [])"
| "py_eq_list (x # xs) ys = (case ys of [] \<Rightarrow> False | y # zs \<Rightarrow> py_eq x y \<and> py_eq_list xs zs)"
| "py_eq_dict [] e = True"
| "py_eq_dict ((k, v) # d) e =
     ((case map_of e k of None \<Rightarrow> False | Some w \<Rightarrow> py_eq v w) \<and> py_eq_dict d e)"

text \<open>A value whose dicts, at every depth, have no repeated key, as Python's have.\<close>

fun wf_json :: "json \<Rightarrow> bool" where
  "wf_json (JArr xs) = (\<forall>x \<in> set xs. wf_json x)"
| "wf_json (JObj d) = (distinct (map fst d) \<and> (\<forall>p \<in> set d. wf_json (snd p)))"
| "wf_json _ = True"

lemma py_eq_list_self: "(\<And>x. x \<in> set xs \<Longrightarrow> py_eq x x) \<Longrightarrow> py_eq_list xs xs"
  by (induction xs) auto

lemma py_eq_dict_self:
  "\<forall>p \<in> set d. py_eq (snd p) (snd p) \<and> map_of e (fst p) = Some (snd p) \<Longrightarrow> py_eq_dict d e"
  by (induction d) auto

lemma py_eq_refl: "wf_json v \<Longrightarrow> py_eq v v"
proof (induction v)
  case (JArr xs)
  then show ?case by (auto intro: py_eq_list_self)
next
  case (JObj d)
  then have "py_eq_dict d d"
    by (intro py_eq_dict_self ballI) (auto simp: map_of_eq_Some_iff intro: snds.intros)
  then show ?case by simp
qed auto

subsection \<open>Errors as values\<close>

text \<open>
  \<open>Http status detail\<close> is \<open>HTTPException\<close>; \<open>PyExc name\<close> is any other exception,
  which FastAPI turns into status 500. The detail is the list of the parts of the f-string.
\<close>

datatype error = Http nat "json list" | PyExc string

type_synonym 'a res = "error + 'a"

abbreviation http :: "nat \<Rightarrow> string \<Rightarrow> error" where
  "http c msg \<equiv> Http c [JStr msg]"

fun is_http :: "error \<Rightarrow> bool" where
  "is_http (Http c d) = True"
| "is_http (PyExc n) = False"

definition is_ok :: "'a res \<Rightarrow> bool" where
  "is_ok r \<longleftrightarrow> (case r of Inl e \<Rightarrow> False | Inr v \<Rightarrow> True)"

lemma is_ok_simps [simp]: "is_ok (Inr v)" "\<not> is_ok (Inl e)"
  by (simp_all add: is_ok_def)

lemma is_okE [elim?]: "is_ok r \<Longrightarrow> (\<And>v. r = Inr v \<Longrightarrow> P) \<Longrightarrow> P"
  by (cases r) auto

subsection \<open>Optional request fields\<close>

text \<open>
  A key of a request body is absent, null or a value: \<open>payload.get(k)\<close> does not tell the
  first two apart, \<open>payload.get(k, default)\<close> and \<open>k in payload\<close> do.
\<close>

datatype 'a field = Absent | Null | Val 'a

fun fget :: "'a field \<Rightarrow> 'a option" where
  "fget (Val v) = Some v"
| "fget _ = None"

fun fget_or :: "'a field \<Rightarrow> 'a option \<Rightarrow> 'a option" where
  "fget_or Absent d = d"
| "fget_or Null d = None"
| "fget_or (Val v) d = Some v"

fun present :: "'a field \<Rightarrow> bool" where
  "present Absent = False"
| "present _ = True"

text \<open>\<open>setattr\<close> of a given field that the caller has checked not to be null.\<close>

fun fset :: "'a field \<Rightarrow> 'a \<Rightarrow> 'a" where
  "fset (Val v) d = v"
| "fset _ d = d"

text \<open>\<open>bool(payload.get(k, default))\<close>.\<close>

definition fbool :: "json field \<Rightarrow> bool \<Rightarrow> bool" where
  "fbool f d = (case f of Absent \<Rightarrow> d | Null \<Rightarrow> False | Val v \<Rightarrow> truthy v)"

text \<open>A field set to a value that may be None.\<close>

definition set_field :: "'a option \<Rightarrow> 'a field" where
  "set_field v = (case v of None \<Rightarrow> Null | Some x \<Rightarrow> Val x)"

lemma fget_set_field [simp]: "fget (set_field v) = v"
  by (cases v) (simp_all add: set_field_def)

text \<open>The truth value of an optional string, \<open>s or default\<close>, and an f-string of it.\<close>

fun nonempty :: "string option \<Rightarrow> bool" where
  "nonempty None = False"
| "nonempty (Some s) = (s \<noteq> [])"

definition sor :: "string option \<Rightarrow> string \<Rightarrow> string" where
  "sor s d = (case s of None \<Rightarrow> d | Some t \<Rightarrow> if t = [] then d else t)"

lemma sor_simps [simp]: "sor None d = d" "t \<noteq> [] \<Longrightarrow> sor (Some t) d = t" "sor (Some []) d = d"
  by (simp_all add: sor_def)

fun jstr :: "string option \<Rightarrow> json" where
  "jstr None = JNull"
| "jstr (Some s) = JStr s"

lemma jstr_inject [simp]: "jstr a = jstr b \<longleftrightarrow> a = b"
  by (cases a; cases b) simp_all

fun jtime :: "int option \<Rightarrow> json" where
  "jtime None = JNull"
| "jtime (Some t) = JIso t"

definition fstr :: "string option \<Rightarrow> string" where
  "fstr s = (case s of None \<Rightarrow> ''None'' | Some t \<Rightarrow> t)"

subsection \<open>Strings\<close>

definition code :: "char \<Rightarrow> nat" where
  "code c = of_char c"

definition is_space :: "char \<Rightarrow> bool" where
  "is_space c \<longleftrightarrow> code c = 32 \<or> (9 \<le> code c \<and> code c \<le> 13) \<or> (28 \<le> code c \<and> code c \<le> 31)"

definition lstrip :: "string \<Rightarrow> string" where
  "lstrip s = dropWhile is_space s"

definition strip :: "string \<Rightarrow> string" where
  "strip s = rev (lstrip (rev (lstrip s)))"

definition lower_char :: "char \<Rightarrow> char" where
  "lower_char c = (if 65 \<le> code c \<and> code c \<le> 90 then char_of (code c + 32) else c)"

definition lower :: "string \<Rightarrow> string" where
  "lower s = map lower_char s"

definition startswith :: "string \<Rightarrow> string \<Rightarrow> bool" where
  "startswith s p \<longleftrightarrow> take (length p) s = p"

fun contains :: "string \<Rightarrow> string \<Rightarrow> bool" where
  "contains [] p = (p = [])"
| "contains (c # s) p = (startswith (c # s) p \<or> contains s p)"

fun split_on :: "char \<Rightarrow> string \<Rightarrow> string list" where
  "split_on d [] = [[]]"
| "split_on d (c # s) =
     (if c = d then [] # split_on d s
      else case split_on d s of [] \<Rightarrow> [[c]] | w # ws \<Rightarrow> (c # w) # ws)"

fun join :: "string \<Rightarrow> string list \<Rightarrow> string" where
  "join sep [] = []"
| "join sep [w] = w"
| "join sep (w # v # ws) = w @ sep @ join sep (v # ws)"

lemma split_on_not_Nil [simp]: "split_on d s \<noteq> []"
  by (induction s) (auto split: list.splits)

lemma split_on_no_sep: "d \<notin> set s \<Longrightarrow> split_on d s = [s]"
  by (induction s) auto

lemma split_on_append:
  "d \<notin> set w \<Longrightarrow> split_on d (w @ d # s) = w # split_on d s"
  by (induction w) auto

lemma join_split_on: "join [d] (split_on d s) = s"
proof (induction s)
  case (Cons c s)
  obtain w ws where w: "split_on d s = w # ws" by (cases "split_on d s") auto
  then show ?case using Cons by (cases ws) auto
qed simp

text \<open>Splitting undoes joining when no part holds the separator.\<close>

lemma split_on_join:
  "ws \<noteq> [] \<Longrightarrow> \<forall>w \<in> set ws. d \<notin> set w \<Longrightarrow> split_on d (join [d] ws) = ws"
  by (induction "[d]" ws rule: join.induct) (auto simp: split_on_no_sep split_on_append)

lemma strip_no_space:
  assumes "s \<noteq> []" "\<not> is_space (hd s)" "\<not> is_space (last s)"
  shows "strip s = s"
proof -
  have "lstrip s = s" using assms by (cases s) (auto simp: lstrip_def)
  moreover have "lstrip (rev s) = rev s"
    using assms by (cases s rule: rev_cases) (auto simp: lstrip_def)
  ultimately show ?thesis by (simp add: strip_def)
qed

lemma strip_Nil [simp]: "strip [] = []"
  by (simp add: strip_def lstrip_def)

lemma strip_nonspaces: "\<forall>c \<in> set s. \<not> is_space c \<Longrightarrow> strip s = s"
  by (cases "s = []") (auto intro!: strip_no_space)

text \<open>\<open>int(s)\<close> on a string: surrounding blanks, a sign, decimal digits. Underscores between
  digits, which Python also takes, are read as an error here.\<close>

definition is_digit :: "char \<Rightarrow> bool" where
  "is_digit c \<longleftrightarrow> 48 \<le> code c \<and> code c \<le> 57"

definition digits_to_int :: "string \<Rightarrow> int" where
  "digits_to_int s = foldl (\<lambda>n c. 10 * n + (int (code c) - 48)) 0 s"

definition unsigned_int :: "string \<Rightarrow> int option" where
  "unsigned_int s = (if s \<noteq> [] \<and> list_all is_digit s then Some (digits_to_int s) else None)"

definition str_to_int :: "string \<Rightarrow> int option" where
  "str_to_int s = (case strip s of
       [] \<Rightarrow> None
     | c # t \<Rightarrow> (if c = CHR ''-'' then map_option uminus (unsigned_int t)
                else if c = CHR ''+'' then unsigned_int t else unsigned_int (c # t)))"

text \<open>\<open>int(v)\<close> on a JSON value (truncation towards zero on floats).\<close>

definition trunc_rat :: "rat \<Rightarrow> int" where
  "trunc_rat r = (if r < 0 then - \<lfloor>- r\<rfloor> else \<lfloor>r\<rfloor>)"

fun py_int :: "json \<Rightarrow> int res" where
  "py_int (JBool b) = Inr (if b then 1 else 0)"
| "py_int (JInt i) = Inr i"
| "py_int (JNum r) = Inr (trunc_rat r)"
| "py_int (JStr s) = (case str_to_int s of None \<Rightarrow> Inl (PyExc ''ValueError'') | Some i \<Rightarrow> Inr i)"
| "py_int (JIso t) = Inl (PyExc ''ValueError'')"
| "py_int _ = Inl (PyExc ''TypeError'')"

text \<open>\<open>str(v)\<close>: decimal integers, and \<open>show\<close> for floats, lists and dicts, whose text
  the model leaves open.\<close>

fun show_nat :: "nat \<Rightarrow> string" where
  "show_nat n = (if n < 10 then [char_of (48 + n)] else show_nat (n div 10) @ [char_of (48 + n mod 10)])"

declare show_nat.simps [simp del]

definition show_int :: "int \<Rightarrow> string" where
  "show_int i = (if i < 0 then CHR ''-'' # show_nat (nat (- i)) else show_nat (nat i))"

definition py_str :: "(json \<Rightarrow> string) \<Rightarrow> json \<Rightarrow> string" where
  "py_str shw v = (case v of JStr s \<Rightarrow> s | JNull \<Rightarrow> ''None'' | JInt i \<Rightarrow> show_int i
     | JBool b \<Rightarrow> (if b then ''True'' else ''False'') | _ \<Rightarrow> shw v)"

text \<open>\<open>float(v)\<close>; \<open>flt\<close> reads a string.\<close>

fun py_float :: "(string \<Rightarrow> rat option) \<Rightarrow> json \<Rightarrow> rat res" where
  "py_float flt (JBool b) = Inr (if b then 1 else 0)"
| "py_float flt (JInt i) = Inr (of_int i)"
| "py_float flt (JNum r) = Inr r"
| "py_float flt (JStr s) = (case flt s of None \<Rightarrow> Inl (PyExc ''ValueError'') | Some r \<Rightarrow> Inr r)"
| "py_float flt (JIso t) = Inl (PyExc ''ValueError'')"
| "py_float flt _ = Inl (PyExc ''TypeError'')"

text \<open>\<open>round(x, n)\<close>: to the nearest, ties to even.\<close>

definition round_half_even :: "rat \<Rightarrow> int" where
  "round_half_even x = (let f = \<lfloor>x\<rfloor>; d = x - of_int f in
     if d < 1 / 2 then f else if 1 / 2 < d then f + 1 else if even f then f else f + 1)"

definition round_to :: "nat \<Rightarrow> rat \<Rightarrow> rat" where
  "round_to n x = of_int (round_half_even (x * 10 ^ n)) / 10 ^ n"

lemma round_half_even_error: "\<bar>of_int (round_half_even x) - x\<bar> \<le> 1 / 2"
proof -
  have "0 \<le> x - of_int \<lfloor>x\<rfloor>" "x - of_int \<lfloor>x\<rfloor> < 1" by linarith+
  then show ?thesis by (auto simp: round_half_even_def Let_def abs_le_iff)
qed

lemma round_to_error: "\<bar>round_to n x - x\<bar> \<le> 1 / (2 * 10 ^ n)"
proof -
  have "round_to n x - x = (of_int (round_half_even (x * 10 ^ n)) - x * 10 ^ n) / 10 ^ n"
    by (simp add: round_to_def diff_divide_distrib)
  then have "\<bar>round_to n x - x\<bar> = \<bar>of_int (round_half_even (x * 10 ^ n)) - x * 10 ^ n\<bar> / 10 ^ n"
    by (simp add: abs_divide)
  also have "\<dots> \<le> (1 / 2) / 10 ^ n"
    by (rule divide_right_mono [OF round_half_even_error]) simp
  finally show ?thesis by simp
qed

text \<open>Reading a shown integer gives it back.\<close>

lemma code_digit: "k < 10 \<Longrightarrow> code (char_of (48 + k)) = 48 + k"
  by (simp add: code_def)

lemma digits_to_int_append: "digits_to_int (s @ [c]) = 10 * digits_to_int s + (int (code c) - 48)"
  by (simp add: digits_to_int_def)

lemma show_nat_digits:
  "show_nat n \<noteq> [] \<and> list_all is_digit (show_nat n) \<and> digits_to_int (show_nat n) = int n"
proof (induction n rule: show_nat.induct)
  case (1 n)
  show ?case
  proof (cases "n < 10")
    case True
    then show ?thesis
      by (simp add: show_nat.simps [of n] is_digit_def code_digit) (simp add: digits_to_int_def code_digit)
  next
    case False
    then have "show_nat n = show_nat (n div 10) @ [char_of (48 + n mod 10)]"
      by (simp add: show_nat.simps [of n])
    moreover have "n mod 10 < 10" "10 * int (n div 10) + int (n mod 10) = int n" by simp_all presburger
    ultimately show ?thesis
      using 1 [OF False] by (simp only: digits_to_int_append) (simp add: is_digit_def code_digit)
  qed
qed

lemma digit_not_space: "is_digit c \<Longrightarrow> \<not> is_space c"
  by (auto simp: is_digit_def is_space_def)

lemma str_to_int_show_int: "str_to_int (show_int i) = Some i"
proof -
  have d: "show_nat n \<noteq> []" "list_all is_digit (show_nat n)" "digits_to_int (show_nat n) = int n" for n
    using show_nat_digits [of n] by simp_all
  have sp: "\<forall>c \<in> set (show_nat n). \<not> is_space c" for n
    using d(2) [of n] digit_not_space by (auto simp: list_all_iff)
  show ?thesis
  proof (cases "i < 0")
    case True
    have "\<not> is_space CHR ''-''" by (simp add: is_space_def code_def)
    then have "strip (show_int i) = CHR ''-'' # show_nat (nat (- i))"
      using True sp [of "nat (- i)"] by (simp add: show_int_def strip_nonspaces)
    then show ?thesis using True d [of "nat (- i)"] by (simp add: str_to_int_def unsigned_int_def)
  next
    case False
    then have s: "strip (show_int i) = show_nat (nat i)"
      using sp [of "nat i"] by (simp add: show_int_def strip_nonspaces)
    obtain c t where ct: "show_nat (nat i) = c # t" using d(1) by (cases "show_nat (nat i)") auto
    then have "is_digit c" using d(2) [of "nat i"] by simp
    then have "c \<noteq> CHR ''-''" "c \<noteq> CHR ''+''" by (auto simp: is_digit_def code_def)
    then show ?thesis
      using False s ct d [of "nat i"] by (simp add: str_to_int_def unsigned_int_def)
  qed
qed

text \<open>Rounding to an integer keeps integer bounds.\<close>

lemma round_half_even_bounds:
  "of_int a \<le> x \<Longrightarrow> x \<le> of_int b \<Longrightarrow> a \<le> round_half_even x \<and> round_half_even x \<le> b"
proof -
  assume a: "of_int a \<le> x" and b: "x \<le> of_int b"
  have "a \<le> \<lfloor>x\<rfloor>" using a by (simp add: le_floor_iff)
  moreover have "round_half_even x \<le> b"
  proof (cases "x = of_int b")
    case True
    then show ?thesis by (simp add: round_half_even_def)
  next
    case False
    then have "\<lfloor>x\<rfloor> < b" using b by (simp add: floor_less_iff)
    then show ?thesis by (auto simp: round_half_even_def Let_def)
  qed
  moreover have "\<lfloor>x\<rfloor> \<le> round_half_even x" by (auto simp: round_half_even_def Let_def)
  ultimately show ?thesis by simp
qed

text \<open>\<open>[f(x) for x in xs]\<close> when f may raise: the first exception ends it.\<close>

fun map_res :: "('a \<Rightarrow> 'b res) \<Rightarrow> 'a list \<Rightarrow> 'b list res" where
  "map_res f [] = Inr []"
| "map_res f (x # xs) =
     (case f x of Inl err \<Rightarrow> Inl err
      | Inr y \<Rightarrow> (case map_res f xs of Inl err \<Rightarrow> Inl err | Inr ys \<Rightarrow> Inr (y # ys)))"

lemma map_res_Inr: "map_res f xs = Inr ys \<longleftrightarrow> list_all2 (\<lambda>x y. f x = Inr y) xs ys"
proof (induction xs arbitrary: ys)
  case (Cons x xs)
  show ?case
    by (cases "f x"; cases "map_res f xs") (auto simp: list_all2_Cons1 Cons.IH [symmetric])
qed auto

lemma map_res_length: "map_res f xs = Inr ys \<Longrightarrow> length ys = length xs"
  by (simp add: map_res_Inr list_all2_lengthD)

text \<open>\<open>s in v\<close> for a string and a JSON value, and \<open>v.get(k)\<close>.\<close>

fun py_in :: "string \<Rightarrow> json \<Rightarrow> bool res" where
  "py_in s (JArr xs) = Inr (\<exists>x \<in> set xs. py_eq (JStr s) x)"
| "py_in s (JStr t) = Inr (contains t s)"
| "py_in s (JObj d) = Inr (dhas d s)"
| "py_in s _ = Inl (PyExc ''TypeError'')"

fun py_get :: "json \<Rightarrow> string \<Rightarrow> json res" where
  "py_get (JObj d) k = Inr (dget d k)"
| "py_get _ k = Inl (PyExc ''AttributeError'')"

text \<open>A value whose \<open>get\<close> is called.\<close>

definition as_object :: "json \<Rightarrow> dict res" where
  "as_object v = (case v of JObj d \<Rightarrow> Inr d | _ \<Rightarrow> Inl (PyExc ''AttributeError''))"

lemma as_object_simps [simp]:
  "as_object (JObj d) = Inr d" "as_object JNull = Inl (PyExc ''AttributeError'')"
  "as_object (JBool b) = Inl (PyExc ''AttributeError'')" "as_object (JInt i) = Inl (PyExc ''AttributeError'')"
  "as_object (JNum r) = Inl (PyExc ''AttributeError'')" "as_object (JStr s) = Inl (PyExc ''AttributeError'')"
  "as_object (JIso t) = Inl (PyExc ''AttributeError'')" "as_object (JArr xs) = Inl (PyExc ''AttributeError'')"
  by (simp_all add: as_object_def)

text \<open>The values a \<open>for\<close> loop over a JSON value yields.\<close>

definition iter_json :: "json \<Rightarrow> json list res" where
  "iter_json v = (case v of JArr xs \<Rightarrow> Inr xs | JObj d \<Rightarrow> Inr (map (\<lambda>p. JStr (fst p)) d)
     | JStr s \<Rightarrow> Inr (map (\<lambda>c. JStr [c]) s) | _ \<Rightarrow> Inl (PyExc ''TypeError''))"

lemma map_sum_Inr: "map_sum id f r = Inr y \<longleftrightarrow> (\<exists>x. r = Inr x \<and> y = f x)"
  by (cases r) auto

subsection \<open>Pages\<close>

lemma concat_pages:
  "concat (map (\<lambda>k. take s (drop (k * s) xs)) [0..<n]) = take (n * s) xs"
proof (induction n)
  case (Suc n)
  have "take (Suc n * s) xs = take (n * s) xs @ take s (drop (n * s) xs)"
    by (simp only: mult_Suc add.commute [of s] take_add)
  with Suc show ?case by simp
qed simp

subsection \<open>Tables\<close>

text \<open>
  A database table is the list of its rows in insertion order; \<open>key\<close> is the primary key.
  \<open>db.get\<close>, an UPDATE of one row at commit, \<open>db.add\<close> and \<open>db.delete\<close>.
\<close>

definition tbl_get :: "('r \<Rightarrow> 'k) \<Rightarrow> 'k \<Rightarrow> 'r list \<Rightarrow> 'r option" where
  "tbl_get key k rs = find (\<lambda>r. key r = k) rs"

definition tbl_put :: "('r \<Rightarrow> 'k) \<Rightarrow> 'r \<Rightarrow> 'r list \<Rightarrow> 'r list" where
  "tbl_put key r rs = map (\<lambda>x. if key x = key r then r else x) rs"

definition tbl_add :: "'r \<Rightarrow> 'r list \<Rightarrow> 'r list" where
  "tbl_add r rs = rs @ [r]"

definition tbl_del :: "('r \<Rightarrow> 'k) \<Rightarrow> 'k \<Rightarrow> 'r list \<Rightarrow> 'r list" where
  "tbl_del key k rs = filter (\<lambda>r. key r \<noteq> k) rs"

lemma tbl_get_Nil [simp]: "tbl_get key k [] = None"
  by (simp add: tbl_get_def)

lemma tbl_get_Cons: "tbl_get key k (r # rs) = (if key r = k then Some r else tbl_get key k rs)"
  by (simp add: tbl_get_def)

lemma tbl_get_key: "tbl_get key k rs = Some r \<Longrightarrow> key r = k"
  by (induction rs) (auto simp: tbl_get_Cons split: if_splits)

lemma tbl_get_mem: "tbl_get key k rs = Some r \<Longrightarrow> r \<in> set rs"
  by (induction rs) (auto simp: tbl_get_Cons split: if_splits)

lemma tbl_get_None: "tbl_get key k rs = None \<longleftrightarrow> k \<notin> key ` set rs"
  by (induction rs) (auto simp: tbl_get_Cons)

lemma tbl_get_distinct:
  "distinct (map key rs) \<Longrightarrow> r \<in> set rs \<Longrightarrow> tbl_get key (key r) rs = Some r"
  by (induction rs) (auto simp: tbl_get_Cons)

lemma tbl_get_put: "tbl_get key k (tbl_put key r rs) =
    (if key r = k then (case tbl_get key k rs of None \<Rightarrow> None | Some _ \<Rightarrow> Some r)
     else tbl_get key k rs)"
  by (induction rs) (auto simp: tbl_put_def tbl_get_Cons)

lemma tbl_get_add: "tbl_get key k (tbl_add r rs) =
    (case tbl_get key k rs of Some x \<Rightarrow> Some x | None \<Rightarrow> if key r = k then Some r else None)"
  by (induction rs) (auto simp: tbl_add_def tbl_get_Cons)

lemma tbl_get_del: "tbl_get key k (tbl_del key j rs) = (if k = j then None else tbl_get key k rs)"
  by (induction rs) (auto simp: tbl_del_def tbl_get_Cons)

lemma keys_tbl_put [simp]: "map key (tbl_put key r rs) = map key rs"
  by (induction rs) (auto simp: tbl_put_def)

lemma keyset_tbl_put [simp]: "key ` set (tbl_put key r rs) = key ` set rs"
  using keys_tbl_put [of key r rs] by (metis set_map)

lemma keys_tbl_add [simp]: "map key (tbl_add r rs) = map key rs @ [key r]"
  by (simp add: tbl_add_def)

lemma distinct_tbl_del: "distinct (map key rs) \<Longrightarrow> distinct (map key (tbl_del key k rs))"
  by (simp add: tbl_del_def distinct_map_filter)

lemma set_tbl_put: "set (tbl_put key r rs) \<subseteq> insert r (set rs)"
  by (auto simp: tbl_put_def)

lemma set_tbl_add [simp]: "set (tbl_add r rs) = insert r (set rs)"
  by (simp add: tbl_add_def)

lemma set_tbl_del: "set (tbl_del key k rs) \<subseteq> set rs"
  by (auto simp: tbl_del_def)

lemma tbl_put_fresh: "key r \<notin> key ` set rs \<Longrightarrow> tbl_put key r rs = rs"
  by (induction rs) (auto simp: tbl_put_def)

lemma tbl_put_append: "tbl_put key r (rs @ ss) = tbl_put key r rs @ tbl_put key r ss"
  by (simp add: tbl_put_def)

lemma tbl_get_map:
  "(\<And>r. key (f r) = key r) \<Longrightarrow> tbl_get key k (map f rs) = map_option f (tbl_get key k rs)"
  by (induction rs) (auto simp: tbl_get_Cons)

lemma find_Some_mem: "find P rs = Some r \<Longrightarrow> r \<in> set rs \<and> P r"
  by (induction rs) (auto split: if_splits)

lemma find_unique:
  assumes "x \<in> set xs" "P x" "\<And>y. y \<in> set xs \<Longrightarrow> P y \<Longrightarrow> y = x"
  shows "find P xs = Some x"
proof (cases "find P xs")
  case None
  then show ?thesis using assms(1,2) by (simp add: find_None_iff)
next
  case (Some y)
  then show ?thesis using assms(3) find_Some_mem [OF Some] by simp
qed

lemma find_append_new: "find P rs = None \<Longrightarrow> find P (rs @ [r]) = (if P r then Some r else None)"
  by (induction rs) (auto split: if_splits)

text \<open>Counting the rows that satisfy a condition.\<close>

definition count_rows :: "('r \<Rightarrow> bool) \<Rightarrow> 'r list \<Rightarrow> nat" where
  "count_rows P rs = length (filter P rs)"

lemma count_rows_simps [simp]:
  "count_rows P [] = 0"
  "count_rows P (r # rs) = (if P r then Suc (count_rows P rs) else count_rows P rs)"
  by (simp_all add: count_rows_def)

lemma count_rows_append [simp]: "count_rows P (xs @ ys) = count_rows P xs + count_rows P ys"
  by (simp add: count_rows_def)

lemma tbl_get_append_new:
  "key r \<notin> key ` set rs \<Longrightarrow> tbl_get key (key r) (rs @ [r]) = Some r"
  by (induction rs) (auto simp: tbl_get_Cons)

lemma count_rows_add: "count_rows P (tbl_add r rs) = count_rows P rs + (if P r then 1 else 0)"
  by (simp add: count_rows_def tbl_add_def)

lemma count_rows_del: "count_rows P (tbl_del key k rs) \<le> count_rows P rs"
  by (induction rs) (auto simp: tbl_del_def)

lemma count_rows_map:
  "(\<And>r. r \<in> set rs \<Longrightarrow> P (f r) \<Longrightarrow> P r) \<Longrightarrow> count_rows P (map f rs) \<le> count_rows P rs"
  by (induction rs) fastforce+

lemma count_rows_put:
  assumes "distinct (map key rs)" "tbl_get key (key r) rs = Some old" "P r \<Longrightarrow> P old"
  shows "count_rows P (tbl_put key r rs) \<le> count_rows P rs"
  unfolding tbl_put_def
proof (rule count_rows_map)
  fix x assume "x \<in> set rs" and "P (if key x = key r then r else x)"
  then show "P x"
    using assms tbl_get_distinct [OF assms(1), of x] by (auto split: if_splits)
qed

subsection \<open>The interface of a keyed table\<close>

text \<open>
  What the handlers rely on when they read, update, insert and delete rows by primary key.
  Each component interprets it on its own table.
\<close>

locale keyed_store =
  fixes get :: "'k \<Rightarrow> 's \<Rightarrow> 'r option"
    and put :: "'r \<Rightarrow> 's \<Rightarrow> 's"
    and add :: "'r \<Rightarrow> 's \<Rightarrow> 's"
    and del :: "'k \<Rightarrow> 's \<Rightarrow> 's"
    and key :: "'r \<Rightarrow> 'k"
  assumes get_key: "get k s = Some r \<Longrightarrow> key r = k"
    and get_put: "get k (put r s) =
      (if key r = k then (case get k s of None \<Rightarrow> None | Some _ \<Rightarrow> Some r) else get k s)"
    and get_add: "get k (add r s) =
      (case get k s of Some x \<Rightarrow> Some x | None \<Rightarrow> if key r = k then Some r else None)"
    and get_del: "get k (del j s) = (if k = j then None else get k s)"
begin

lemma get_put_same: "get k s = Some r \<Longrightarrow> key r' = k \<Longrightarrow> get k (put r' s) = Some r'"
  by (simp add: get_put)

lemma get_put_other: "key r \<noteq> k \<Longrightarrow> get k (put r s) = get k s"
  by (simp add: get_put)

lemma get_add_fresh: "get (key r) s = None \<Longrightarrow> get (key r) (add r s) = Some r"
  by (simp add: get_add)

lemma get_add_old: "get k s = Some x \<Longrightarrow> get k (add r s) = Some x"
  by (simp add: get_add)

lemma get_del_same: "get k (del k s) = None"
  by (simp add: get_del)

text \<open>A property of every stored row survives an update whose row has it, an insertion of a
  row that has it and a deletion.\<close>

lemma all_put:
  assumes "\<forall>k x. get k s = Some x \<longrightarrow> P x" "P r"
  shows "\<forall>k x. get k (put r s) = Some x \<longrightarrow> P x"
proof (intro allI impI)
  fix k x assume "get k (put r s) = Some x"
  with assms show "P x"
    by (cases "key r = k"; cases "get k s") (auto simp: get_put)
qed

lemma all_add:
  assumes "\<forall>k x. get k s = Some x \<longrightarrow> P x" "P r"
  shows "\<forall>k x. get k (add r s) = Some x \<longrightarrow> P x"
proof (intro allI impI)
  fix k x assume "get k (add r s) = Some x"
  with assms show "P x"
    by (cases "get k s"; cases "key r = k") (auto simp: get_add)
qed

lemma all_del:
  assumes "\<forall>k x. get k s = Some x \<longrightarrow> P x"
  shows "\<forall>k x. get k (del j s) = Some x \<longrightarrow> P x"
  using assms by (metis get_del option.distinct(1))

text \<open>Read, change, write back: only that row changes, and it becomes the changed row.\<close>

lemma modify:
  assumes "get k s = Some r" "key (f r) = key r"
  shows "get j (put (f r) s) = (if j = k then Some (f r) else get j s)"
proof -
  have "key (f r) = k" using assms get_key [OF assms(1)] by simp
  then show ?thesis using assms(1) by (cases "j = k") (simp_all add: get_put)
qed

end

lemma keyed_table: "keyed_store (tbl_get key) (tbl_put key) tbl_add (tbl_del key) key"
  by unfold_locales (erule tbl_get_key, rule tbl_get_put, rule tbl_get_add, rule tbl_get_del)

end
