(* ===== verification/Events.thy ===== *)
theory Events
  imports Prelude
begin

text \<open>
  The side effects every service shares: publishing on Kafka with bounded retries
  (\<open>core/events.py\<close>, the same text in execution-, fleet-, dns-, network- and
  webservice-service) and the append-only audit log of \<open>common/audit.py\<close>. Whether the
  n-th send succeeds is the broker's choice: the parameter \<open>ok\<close>.
\<close>

subsection \<open>Publishing\<close>

record kafka_event =
  ev_topic :: string
  ev_event_type :: string
  ev_service :: string
  ev_resource :: string
  ev_action :: string
  ev_resource_id :: string
  ev_payload :: dict
  ev_occurred_at :: int

record publisher_cfg =
  kafka_topic_prefix :: string
  kafka_retry_attempts :: int
  kafka_retry_delay_seconds :: rat
  service_name :: string
  resource_name :: string

text \<open>The producer as the service sees it: connected or not, sends tried so far, seconds slept
  between retries, events the broker confirmed.\<close>

record bus =
  producer_up :: bool
  sends :: nat
  slept :: rat
  published :: "kafka_event list"

text \<open>
  The retry loop. \<open>left\<close> attempts remain, the next is number \<open>att\<close>; the loop sleeps
  after a failed attempt unless it was the last.
\<close>

fun send_loop :: "(nat \<Rightarrow> bool) \<Rightarrow> rat \<Rightarrow> nat \<Rightarrow> nat \<Rightarrow> nat \<Rightarrow> rat \<Rightarrow> bool \<times> nat \<times> rat" where
  "send_loop ok delay att 0 n s = (False, n, s)"
| "send_loop ok delay att (Suc left) n s =
     (if ok n then (True, Suc n, s)
      else send_loop ok delay (Suc att) left (Suc n)
             (if 0 < left then s + delay * of_nat att else s))"

definition make_event :: "publisher_cfg \<Rightarrow> int \<Rightarrow> string \<Rightarrow> string \<Rightarrow> dict \<Rightarrow> kafka_event" where
  "make_event cfg now action resource_id payload =
     (let event_type = resource_name cfg @ ''.'' @ action
      in \<lparr>ev_topic = kafka_topic_prefix cfg @ ''.'' @ event_type,
          ev_event_type = event_type,
          ev_service = service_name cfg,
          ev_resource = resource_name cfg,
          ev_action = action,
          ev_resource_id = resource_id,
          ev_payload = payload,
          ev_occurred_at = now\<rparr>)"

definition publish_event ::
  "publisher_cfg \<Rightarrow> (nat \<Rightarrow> bool) \<Rightarrow> int \<Rightarrow> string \<Rightarrow> string \<Rightarrow> dict \<Rightarrow>
     'a bus_scheme \<Rightarrow> 'a bus_scheme" where
  "publish_event cfg ok now action resource_id payload b =
     (if \<not> producer_up b then b
      else let (sent, n, s) =
                 send_loop ok (kafka_retry_delay_seconds cfg) 1
                   (nat (kafka_retry_attempts cfg)) (sends b) (slept b)
           in b\<lparr>sends := n, slept := s,
                published := (if sent
                  then published b @ [make_event cfg now action resource_id payload]
                  else published b)\<rparr>)"

lemma send_loop_count:
  "send_loop ok delay att left n s = (sent, n', s') \<Longrightarrow>
     n \<le> n' \<and> n' \<le> n + left \<and> (sent \<longleftrightarrow> (\<exists>i < left. ok (n + i)))"
proof (induction left arbitrary: att n s)
  case (Suc left)
  show ?case
  proof (cases "ok n")
    case True
    with Suc.prems show ?thesis by (auto intro: exI [of _ 0])
  next
    case False
    with Suc.prems have "send_loop ok delay (Suc att) left (Suc n)
        (if 0 < left then s + delay * of_nat att else s) = (sent, n', s')" by simp
    then have *: "Suc n \<le> n' \<and> n' \<le> Suc n + left \<and> (sent \<longleftrightarrow> (\<exists>i < left. ok (Suc n + i)))"
      by (rule Suc.IH)
    have "(\<exists>i < Suc left. ok (n + i)) \<longleftrightarrow> (\<exists>i < left. ok (Suc n + i))"
      using False by (auto simp: less_Suc_eq_0_disj)
    with * show ?thesis by auto
  qed
qed auto

text \<open>The sleep of a whole loop is at most \<open>delay * (1 + \<dots> + (N - 1))\<close>, reached when every
  attempt fails.\<close>

lemma send_loop_sleep:
  "send_loop ok delay att left n s = (sent, n', s') \<Longrightarrow> 0 \<le> delay \<Longrightarrow>
     s \<le> s' \<and> s' \<le> s + delay * of_nat (\<Sum>k = att..<att + left - 1. k)"
proof (induction left arbitrary: att n s)
  case (Suc left)
  show ?case
  proof (cases "ok n \<or> left = 0")
    case True
    with Suc.prems show ?thesis by (auto split: if_splits intro!: mult_nonneg_nonneg sum_nonneg)
  next
    case False
    then obtain m where m: "left = Suc m" by (cases left) auto
    have "(\<Sum>k = att..<att + Suc left - 1. k) = att + (\<Sum>k = Suc att..<Suc att + left - 1. k)"
      using m by (simp add: sum.atLeast_Suc_lessThan)
    moreover have "s + delay * of_nat att \<le> s' \<and>
        s' \<le> s + delay * of_nat att + delay * of_nat (\<Sum>k = Suc att..<Suc att + left - 1. k)"
      using Suc.IH [of "Suc att" "Suc n" "s + delay * of_nat att"] Suc.prems False by simp
    moreover have "0 \<le> delay * of_nat att" using Suc.prems by simp
    ultimately show ?thesis by (simp add: distrib_left)
  qed
qed auto

lemma publish_down [simp]: "\<not> producer_up b \<Longrightarrow> publish_event cfg ok now a r p b = b"
  by (simp add: publish_event_def)

lemma published_publish_event:
  "published (publish_event cfg ok now a r p b) \<in>
     {published b, published b @ [make_event cfg now a r p]}"
  by (auto simp: publish_event_def split: prod.splits)

lemma published_eq:
  "published (publish_event cfg ok now a r p b) =
     (if producer_up b \<and> (\<exists>i < nat (kafka_retry_attempts cfg). ok (sends b + i))
      then published b @ [make_event cfg now a r p] else published b)"
  by (auto simp: publish_event_def split: prod.splits dest: send_loop_count)

lemma producer_up_publish [frame_simps]:
  "producer_up (publish_event cfg ok now a r p b) = producer_up b"
  by (auto simp: publish_event_def split: prod.splits)

lemma more_publish [frame_simps]:
  "bus.more (publish_event cfg ok now a r p b) = bus.more b"
  by (auto simp: publish_event_def split: prod.splits)

subsection \<open>The audit log\<close>

record audit_event =
  au_timestamp :: string
  au_service :: string
  au_actor_user_id :: string
  au_actor_tenant_id :: string
  au_actor_roles :: "string list"
  au_action :: string
  au_resource_type :: string
  au_resource_id :: "string option"
  au_tenant_id :: "string option"
  au_correlation_id :: "string option"
  au_outcome :: string
  au_reason :: "string option"

text \<open>The caller's identity as \<open>emit_audit_event\<close> receives it.\<close>

record actor =
  actor_user_id :: "string option"
  actor_tenant_id :: "string option"
  actor_roles :: "string list"
  actor_correlation_id :: "string option"

definition make_audit_event ::
  "string \<Rightarrow> string \<Rightarrow> string \<Rightarrow> string \<Rightarrow> string option \<Rightarrow> string option \<Rightarrow> actor \<Rightarrow>
     string \<Rightarrow> string option \<Rightarrow> audit_event" where
  "make_audit_event ts service action resource_type resource_id tenant_id who outcome reason =
     \<lparr>au_timestamp = ts,
      au_service = service,
      au_actor_user_id = sor (actor_user_id who) ''system'',
      au_actor_tenant_id = sor (actor_tenant_id who) (sor tenant_id ''system''),
      au_actor_roles = actor_roles who,
      au_action = action,
      au_resource_type = resource_type,
      au_resource_id = resource_id,
      au_tenant_id = tenant_id,
      au_correlation_id = actor_correlation_id who,
      au_outcome = outcome,
      au_reason = reason\<rparr>"

text \<open>What every service's state holds beside its tables: the producer, the audit file and how
  many identifiers \<open>uuid4\<close> has given out.\<close>

record svc_state = bus +
  audit_log :: "audit_event list"
  uuids :: nat

definition emit_audit_event ::
  "string \<Rightarrow> string \<Rightarrow> string \<Rightarrow> string \<Rightarrow> string option \<Rightarrow> string option \<Rightarrow> actor \<Rightarrow>
     string option \<Rightarrow> 'a svc_state_scheme \<Rightarrow> 'a svc_state_scheme" where
  "emit_audit_event ts service action resource_type resource_id tenant_id who reason s =
     s\<lparr>audit_log := audit_log s @
        [make_audit_event ts service action resource_type resource_id tenant_id who
           ''success'' reason]\<rparr>"

record audit_filter =
  fl_tenant_id :: "string option"
  fl_actor_user_id :: "string option"
  fl_action :: "string option"
  fl_resource_type :: "string option"
  fl_resource_id :: "string option"
  fl_from_ts :: "string option"
  fl_to_ts :: "string option"

text \<open>A filter that is None or the empty string is off.\<close>

fun passes :: "string option \<Rightarrow> string option \<Rightarrow> bool" where
  "passes wanted value = (nonempty wanted \<longrightarrow> value = wanted)"

definition audit_matches :: "audit_filter \<Rightarrow> audit_event \<Rightarrow> bool" where
  "audit_matches f e \<longleftrightarrow>
     passes (fl_tenant_id f) (au_tenant_id e)
   \<and> passes (fl_actor_user_id f) (Some (au_actor_user_id e))
   \<and> passes (fl_action f) (Some (au_action e))
   \<and> passes (fl_resource_type f) (Some (au_resource_type e))
   \<and> passes (fl_resource_id f) (au_resource_id e)
   \<and> (case fl_from_ts f of None \<Rightarrow> True | Some t \<Rightarrow> t = [] \<or> \<not> au_timestamp e < t)
   \<and> (case fl_to_ts f of None \<Rightarrow> True | Some t \<Rightarrow> t = [] \<or> \<not> t < au_timestamp e)"

definition read_audit_events :: "audit_filter \<Rightarrow> audit_event list \<Rightarrow> audit_event list" where
  "read_audit_events f evs = filter (audit_matches f) evs"

lemma audit_log_emit:
  "audit_log (emit_audit_event ts sv ac rt ri te who rs s) =
     audit_log s @ [make_audit_event ts sv ac rt ri te who ''success'' rs]"
  by (simp add: emit_audit_event_def)

lemma frame_emit [frame_simps]:
  "producer_up (emit_audit_event ts sv ac rt ri te who rs s) = producer_up s"
  "published (emit_audit_event ts sv ac rt ri te who rs s) = published s"
  "sends (emit_audit_event ts sv ac rt ri te who rs s) = sends s"
  "uuids (emit_audit_event ts sv ac rt ri te who rs s) = uuids s"
  "svc_state.more (emit_audit_event ts sv ac rt ri te who rs s) = svc_state.more s"
  by (simp_all add: emit_audit_event_def)

lemma svc_publish [frame_simps]:
  "audit_log (publish_event cfg ok now a r p s) = audit_log s"
  "uuids (publish_event cfg ok now a r p s) = uuids s"
  "svc_state.more (publish_event cfg ok now a r p s) = svc_state.more s"
  by (auto simp: publish_event_def split: prod.splits)

text \<open>What a consumer reads from the topic: the event as JSON.\<close>

definition event_value :: "kafka_event \<Rightarrow> dict" where
  "event_value ev =
     [(''event_type'', JStr (ev_event_type ev)), (''service'', JStr (ev_service ev)),
      (''resource'', JStr (ev_resource ev)), (''action'', JStr (ev_action ev)),
      (''resource_id'', JStr (ev_resource_id ev)), (''payload'', JObj (ev_payload ev)),
      (''occurred_at'', JNum (of_int (ev_occurred_at ev) / 1000000))]"

lemma event_value_payload [simp]:
  "dget_or (event_value ev) ''payload'' (JObj []) = JObj (ev_payload ev)"
  by (simp add: event_value_def dget_or_def)

end
