(* ===== verification/InternalAuth.thy ===== *)
theory InternalAuth
  imports Prelude
begin

text \<open>
  Service-to-service authentication (\<open>common/internal_auth.py\<close>, mirrored in
  \<open>execution_service/core/internal_auth.py\<close>): the shared key and the bootstrap tokens
  \<open>id:secret:expiry,...\<close>.
\<close>

record internal_cfg =
  internal_service_key :: string
  agent_bootstrap_tokens :: string

definition valid_internal_key :: "internal_cfg \<Rightarrow> string option \<Rightarrow> bool" where
  "valid_internal_key cfg value =
     (if internal_service_key cfg = [] then True
      else nonempty value \<and> value = Some (internal_service_key cfg))"

text \<open>The loop over the configured entries; \<open>now\<close> is in microseconds, expiries in seconds.
  A third part that is no integer raises ValueError, whatever the token.\<close>

fun scan_tokens :: "int \<Rightarrow> string \<Rightarrow> string list \<Rightarrow> bool res" where
  "scan_tokens now token [] = Inr False"
| "scan_tokens now token (entry # entries) =
     (case split_on CHR '':'' (strip entry) of
        token_id # secret # rest \<Rightarrow>
          (case (case rest of [] \<Rightarrow> Inr 0 | e # _ \<Rightarrow> py_int (JStr e)) of
             Inl err \<Rightarrow> Inl err
           | Inr expiry \<Rightarrow>
               if token = token_id @ '':'' @ secret \<and> (expiry = 0 \<or> now < expiry * 1000000)
               then Inr True else scan_tokens now token entries)
      | _ \<Rightarrow> scan_tokens now token entries)"

definition valid_bootstrap_token :: "internal_cfg \<Rightarrow> int \<Rightarrow> string option \<Rightarrow> bool res" where
  "valid_bootstrap_token cfg now token =
     (if agent_bootstrap_tokens cfg = [] then Inr (internal_service_key cfg = [])
      else if \<not> nonempty token then Inr False
      else scan_tokens now (the token) (split_on CHR '','' (agent_bootstrap_tokens cfg)))"

definition require_internal :: "internal_cfg \<Rightarrow> string option \<Rightarrow> unit res" where
  "require_internal cfg x_internal_key =
     (if valid_internal_key cfg x_internal_key then Inr ()
      else Inl (http 403 ''Missing or invalid internal service key''))"

definition require_internal_or_bootstrap ::
  "internal_cfg \<Rightarrow> int \<Rightarrow> string option \<Rightarrow> string option \<Rightarrow> unit res" where
  "require_internal_or_bootstrap cfg now x_internal_key x_bootstrap_token =
     (if valid_internal_key cfg x_internal_key then Inr ()
      else case valid_bootstrap_token cfg now x_bootstrap_token of
             Inl err \<Rightarrow> Inl err
           | Inr True \<Rightarrow> Inr ()
           | Inr False \<Rightarrow> Inl (http 403 ''Missing or invalid internal authentication''))"

text \<open>An entry that lets a token in at a given time.\<close>

definition entry_grants :: "int \<Rightarrow> string \<Rightarrow> string \<Rightarrow> bool" where
  "entry_grants now token entry \<longleftrightarrow>
     (case split_on CHR '':'' (strip entry) of
        token_id # secret # rest \<Rightarrow>
          token = token_id @ '':'' @ secret \<and>
          (case rest of [] \<Rightarrow> True
           | e # _ \<Rightarrow> (case str_to_int e of None \<Rightarrow> False
                      | Some x \<Rightarrow> x = 0 \<or> now < x * 1000000))
      | _ \<Rightarrow> False)"

text \<open>An entry whose expiry can be read.\<close>

definition entry_readable :: "string \<Rightarrow> bool" where
  "entry_readable entry \<longleftrightarrow>
     (case split_on CHR '':'' (strip entry) of
        token_id # secret # e # _ \<Rightarrow> str_to_int e \<noteq> None | _ \<Rightarrow> True)"

lemma scan_readable:
  "entry_readable e \<Longrightarrow> scan_tokens now token (e # es) =
     (if entry_grants now token e then Inr True else scan_tokens now token es)"
  by (auto simp: entry_grants_def entry_readable_def split: list.splits option.splits)

lemma scan_unreadable:
  "\<not> entry_readable e \<Longrightarrow> scan_tokens now token (e # es) = Inl (PyExc ''ValueError'')"
  by (simp add: entry_readable_def split: list.splits)

lemma scan_tokens_sound:
  "scan_tokens now token entries = Inr True \<Longrightarrow> \<exists>e \<in> set entries. entry_grants now token e"
proof (induction entries)
  case (Cons e es)
  then show ?case
    by (cases "entry_readable e") (auto simp del: scan_tokens.simps(2)
      simp: scan_readable scan_unreadable split: if_splits)
qed simp

lemma scan_tokens_complete:
  "\<forall>e \<in> set entries. entry_readable e \<Longrightarrow>
     scan_tokens now token entries = Inr (\<exists>e \<in> set entries. entry_grants now token e)"
  by (induction entries) (auto simp del: scan_tokens.simps(2) simp: scan_readable)

end
