(* ===== verification/Execution.thy ===== *)
theory Execution
  imports Events InternalAuth
begin

text \<open>
  The execution service (\<open>services/execution-service\<close>): the Execution row and its
  serialisation, the status machine, the guardrail policy, and the handlers that create, read,
  dispatch, complete, cancel, delete and time out executions.

  A handler takes the configuration (the module constants of \<open>core/config.py\<close>), the
  environment (clock, uuid4, the broker, HMAC, the other services), the request and the state,
  and returns the response or the error together with the new state: dispatch commits before
  it can fail, so an error does not undo the state.
\<close>

subsection \<open>Configuration, environment, state\<close>

record exec_cfg =
  auth_enabled :: bool
  max_executions_per_device :: int
  dispatched_timeout_seconds :: int
  running_timeout_seconds :: int
  guardrails_enabled :: bool
  deny_command_prefixes :: "string list"
  blocked_execution_types :: "string list"
  agent_callback_secret :: string
  callback_replay_required :: bool
  publisher :: publisher_cfg
  internal :: internal_cfg

text \<open>The reply of another service to an HTTP call, its JSON object decoded, or the text of the
  transport error.\<close>

datatype http_reply = Reply nat dict | Unreachable string

record exec_env =
  now :: int
  now_text :: string
  uuid4 :: "nat \<Rightarrow> string"
  send_ok :: "nat \<Rightarrow> bool"
  hmac_sha256_hex :: "string \<Rightarrow> string \<Rightarrow> string"
  trace_headers :: dict
  plugin_reply :: "string \<Rightarrow> http_reply"
  device_reply :: "string \<Rightarrow> http_reply"
  fleet_members_reply :: "string \<Rightarrow> http_reply"

text \<open>\<open>request.state\<close> after the auth middleware; None is an attribute never set.\<close>

record request =
  rq_user_id :: "string option"
  rq_tenant_id :: "string option"
  rq_is_operator :: "bool option"
  rq_roles :: "string list"
  rq_correlation_id :: "string option"

record execution =
  ex_id :: string
  ex_device_id :: "string option"
  ex_command :: "string option"
  ex_status :: string
  ex_correlation_id :: "string option"
  ex_idempotency_key :: "string option"
  ex_exit_code :: json
  ex_result_stdout :: json
  ex_result_stderr :: json
  ex_tenant_id :: "string option"
  ex_owner_id :: "string option"
  ex_created_at :: "int option"
  ex_dispatched_at :: "int option"
  ex_running_at :: "int option"
  ex_execution_type :: "string option"
  ex_plugin_id :: "string option"
  ex_args :: "json option"
  ex_function_result :: "json option"
  ex_invocation_mode :: "string option"

record trigger =
  tr_id :: string
  tr_event_type :: string
  tr_function_id :: string
  tr_target_type :: "string option"
  tr_target_id :: "string option"
  tr_filter_expr :: "json option"
  tr_is_active :: bool
  tr_tenant_id :: "string option"
  tr_created_at :: "int option"

record exec_state = svc_state +
  executions :: "execution list"
  triggers :: "trigger list"

text \<open>The environment variables that hold comma separated lists.\<close>

definition csv_values :: "string \<Rightarrow> string list" where
  "csv_values raw = map (\<lambda>p. lower (strip p)) (filter (\<lambda>p. strip p \<noteq> []) (split_on CHR '','' raw))"

subsection \<open>Status machine\<close>

definition terminal_statuses :: "string list" where
  "terminal_statuses = [''succeeded'', ''failed'', ''timeout'', ''cancelled'']"

definition valid_statuses :: "string list" where
  "valid_statuses = [''queued'', ''dispatched'', ''running'', ''succeeded'', ''failed'',
     ''timeout'', ''cancelled'']"

definition active_statuses :: "string list" where
  "active_statuses = [''queued'', ''dispatched'', ''running'']"

definition allowed_transitions :: "string \<Rightarrow> string list" where
  "allowed_transitions from_status =
     (if from_status = ''queued'' then [''dispatched'', ''cancelled'']
      else if from_status = ''dispatched'' then [''running'', ''failed'', ''timeout'', ''cancelled'']
      else if from_status = ''running'' then [''succeeded'', ''failed'', ''timeout'', ''cancelled'']
      else [])"

definition transition_allowed :: "string \<Rightarrow> string \<Rightarrow> bool" where
  "transition_allowed from_status to_status \<longleftrightarrow> to_status \<in> set (allowed_transitions from_status)"

subsection \<open>Serialisation\<close>

text \<open>
  Text columns that hold JSON keep the value they serialise. With \<open>include_payload\<close> false
  the result is privacy level 3: the command history without exit code, output and result.
\<close>

definition dispatch_latency :: "execution \<Rightarrow> json" where
  "dispatch_latency e =
     (case (ex_dispatched_at e, ex_running_at e) of
        (Some d, Some r) \<Rightarrow> JNum (of_int (r - d) / 1000000)
      | _ \<Rightarrow> JNull)"

definition execution_to_dict :: "bool \<Rightarrow> execution \<Rightarrow> dict" where
  "execution_to_dict include_payload e =
    [(''id'', JStr (ex_id e)),
     (''device_id'', jstr (ex_device_id e)),
     (''command'', jstr (ex_command e)),
     (''status'', JStr (ex_status e)),
     (''execution_type'', JStr (sor (ex_execution_type e) ''command'')),
     (''plugin_id'', jstr (ex_plugin_id e)),
     (''args'', (case ex_args e of None \<Rightarrow> JNull | Some v \<Rightarrow> v)),
     (''invocation_mode'', JStr (sor (ex_invocation_mode e) ''async'')),
     (''correlation_id'', jstr (ex_correlation_id e)),
     (''idempotency_key'', jstr (ex_idempotency_key e)),
     (''exit_code'', if include_payload then ex_exit_code e else JNull),
     (''result_stdout'', if include_payload then ex_result_stdout e else JNull),
     (''result_stderr'', if include_payload then ex_result_stderr e else JNull),
     (''function_result'',
        (case ex_function_result e of None \<Rightarrow> JNull
         | Some v \<Rightarrow> if include_payload then v else JNull)),
     (''tenant_id'', jstr (ex_tenant_id e)),
     (''owner_id'', jstr (ex_owner_id e)),
     (''created_at'', jtime (ex_created_at e)),
     (''dispatched_at'', jtime (ex_dispatched_at e)),
     (''running_at'', jtime (ex_running_at e)),
     (''dispatch_latency_seconds'', dispatch_latency e)]"

subsection \<open>Guardrails\<close>

definition quoted :: "string \<Rightarrow> string" where
  "quoted s = CHR 0x27 # s @ [CHR 0x27]"

definition guardrails_violation ::
  "exec_cfg \<Rightarrow> string option \<Rightarrow> string option \<Rightarrow> string option" where
  "guardrails_violation cfg execution_type command =
     (if \<not> guardrails_enabled cfg then None
      else let normalized_type = lower (strip (sor execution_type ''command''))
           in if normalized_type \<in> set (blocked_execution_types cfg)
              then Some (''execution type '' @ quoted normalized_type @ '' blocked by policy'')
              else if normalized_type = ''command''
              then map_option
                     (\<lambda>prefix. ''command blocked by policy (prefix '' @ quoted prefix @ '')'')
                     (find (startswith (lower (strip (sor command [])))) (deny_command_prefixes cfg))
              else None)"

subsection \<open>Creating\<close>

record create_payload =
  p_idempotency_key :: "string field"
  p_device_id :: "string field"
  p_type :: "string field"
  p_execution_type :: "string field"
  p_command :: "string field"
  p_plugin_id :: "string field"
  p_args :: "json field"
  p_mode :: "string field"

definition empty_payload :: create_payload where
  "empty_payload = \<lparr>p_idempotency_key = Absent, p_device_id = Absent, p_type = Absent,
     p_execution_type = Absent, p_command = Absent, p_plugin_id = Absent, p_args = Absent,
     p_mode = Absent\<rparr>"

definition is_function_type :: "string option \<Rightarrow> bool" where
  "is_function_type t \<longleftrightarrow> t = Some ''function.install'' \<or> t = Some ''function.invoke''"

definition is_active_on :: "string \<Rightarrow> execution \<Rightarrow> bool" where
  "is_active_on device_id e \<longleftrightarrow>
     ex_device_id e = Some device_id \<and> ex_status e \<in> set active_statuses"

definition count_active_for_device :: "'a exec_state_scheme \<Rightarrow> string \<Rightarrow> nat" where
  "count_active_for_device st device_id = count_rows (is_active_on device_id) (executions st)"

definition find_idempotent :: "string option \<Rightarrow> exec_state \<Rightarrow> execution option" where
  "find_idempotent key st =
     (if nonempty key then find (\<lambda>e. ex_idempotency_key e = key) (executions st) else None)"

text \<open>INSERT at commit: \<open>command\<close> is NOT NULL, \<open>id\<close> and \<open>idempotency_key\<close> are unique
  (NULL keys do not clash, empty ones do).\<close>

definition insert_execution :: "execution \<Rightarrow> exec_state \<Rightarrow> exec_state res" where
  "insert_execution ex st =
     (if ex_command ex = None
         \<or> (\<exists>e \<in> set (executions st). ex_id e = ex_id ex
              \<or> (ex_idempotency_key ex \<noteq> None \<and> ex_idempotency_key e = ex_idempotency_key ex))
      then Inl (PyExc ''IntegrityError'')
      else Inr (st\<lparr>executions := tbl_add ex (executions st)\<rparr>))"

definition caller_tenant :: "exec_cfg \<Rightarrow> request \<Rightarrow> string option \<Rightarrow> string option" where
  "caller_tenant cfg req x_tenant_id =
     (if auth_enabled cfg \<or> nonempty (rq_tenant_id req) then rq_tenant_id req else x_tenant_id)"

definition new_execution ::
  "exec_cfg \<Rightarrow> exec_env \<Rightarrow> request \<Rightarrow> string option \<Rightarrow> create_payload \<Rightarrow> nat \<Rightarrow> execution" where
  "new_execution cfg env req x_tenant_id p n =
     \<lparr>ex_id = uuid4 env n,
      ex_device_id = fget (p_device_id p),
      ex_command = fget_or (p_command p) (Some ''noop''),
      ex_status = ''queued'',
      ex_correlation_id = Some (uuid4 env (Suc n)),
      ex_idempotency_key = fget (p_idempotency_key p),
      ex_exit_code = JNull, ex_result_stdout = JNull, ex_result_stderr = JNull,
      ex_tenant_id = caller_tenant cfg req x_tenant_id,
      ex_owner_id = rq_user_id req,
      ex_created_at = Some (now env),
      ex_dispatched_at = None, ex_running_at = None,
      ex_execution_type = fget_or (p_type p) (fget_or (p_execution_type p) (Some ''command'')),
      ex_plugin_id = fget (p_plugin_id p),
      ex_args = (case fget (p_args p) of Some JNull \<Rightarrow> None | a \<Rightarrow> a),
      ex_function_result = None,
      ex_invocation_mode = fget_or (p_mode p) (Some ''async'')\<rparr>"

text \<open>Audit record and event of a handler called by a user.\<close>

definition user_actor :: "request \<Rightarrow> actor" where
  "user_actor req = \<lparr>actor_user_id = rq_user_id req, actor_tenant_id = rq_tenant_id req,
     actor_roles = rq_roles req, actor_correlation_id = rq_correlation_id req\<rparr>"

definition audit ::
  "exec_env \<Rightarrow> string \<Rightarrow> string \<Rightarrow> string option \<Rightarrow> actor \<Rightarrow> exec_state \<Rightarrow> exec_state" where
  "audit env action eid tenant who st =
     emit_audit_event (now_text env) ''execution-service'' (''execution.'' @ action)
       ''execution'' (Some eid) tenant who None st"

definition publish ::
  "exec_cfg \<Rightarrow> exec_env \<Rightarrow> string \<Rightarrow> string \<Rightarrow> dict \<Rightarrow> exec_state \<Rightarrow> exec_state" where
  "publish cfg env action eid payload st =
     publish_event (publisher cfg) (send_ok env) (now env) action eid payload st"

definition create_execution ::
  "exec_cfg \<Rightarrow> exec_env \<Rightarrow> request \<Rightarrow> string option \<Rightarrow> create_payload \<Rightarrow> exec_state \<Rightarrow>
     dict res \<times> exec_state" where
  "create_execution cfg env req x_tenant_id p st =
     (case find_idempotent (fget (p_idempotency_key p)) st of
        Some existing \<Rightarrow> (Inr (execution_to_dict True existing), st)
      | None \<Rightarrow>
        let device_id = fget (p_device_id p);
            active_count = count_active_for_device st (sor device_id [])
        in
        if nonempty device_id \<and> max_executions_per_device cfg \<le> int active_count
        then (Inl (Http 429 [JStr ''device '', jstr device_id, JStr '' has '',
                JInt (int active_count), JStr '' active executions (limit '',
                JInt (max_executions_per_device cfg), JStr '')'']), st)
        else
        let n = uuids st;
            ex = new_execution cfg env req x_tenant_id p n;
            st1 = st\<lparr>uuids := Suc n\<rparr>
        in
        case guardrails_violation cfg (ex_execution_type ex) (ex_command ex) of
          Some violation \<Rightarrow> (Inl (http 403 violation), st1)
        | None \<Rightarrow>
          if is_function_type (ex_execution_type ex) \<and> \<not> nonempty (ex_plugin_id ex)
          then (Inl (http 400 ''plugin_id is required for function executions''), st1)
          else
          let st2 = st\<lparr>uuids := Suc (Suc n)\<rparr> in
          case insert_execution ex st2 of
            Inl err \<Rightarrow> (Inl err, st2)
          | Inr st3 \<Rightarrow>
            let response = execution_to_dict True ex;
                who = \<lparr>actor_user_id = ex_owner_id ex, actor_tenant_id = ex_tenant_id ex,
                       actor_roles = rq_roles req, actor_correlation_id = rq_correlation_id req\<rparr>
            in (Inr response,
                publish cfg env ''created'' (ex_id ex) response
                  (audit env ''created'' (ex_id ex) (ex_tenant_id ex) who st3)))"

subsection \<open>Reading\<close>

definition list_executions :: "request \<Rightarrow> exec_state \<Rightarrow> dict list" where
  "list_executions req st =
     (let is_operator = (case rq_is_operator req of None \<Rightarrow> True | Some b \<Rightarrow> b);
          owner = rq_user_id req;
          rows = (if \<not> is_operator \<and> nonempty owner
                  then filter (\<lambda>e. ex_owner_id e = owner) (executions st)
                  else executions st)
      in map (\<lambda>e. execution_to_dict (is_operator \<or> ex_owner_id e = owner) e) rows)"

definition get_execution :: "request \<Rightarrow> string \<Rightarrow> exec_state \<Rightarrow> dict res" where
  "get_execution req execution_id st =
     (case tbl_get ex_id execution_id (executions st) of
        None \<Rightarrow> Inl (http 404 ''execution not found'')
      | Some e \<Rightarrow>
        let is_operator = (case rq_is_operator req of None \<Rightarrow> True | Some b \<Rightarrow> b);
            owner = rq_user_id req
        in if \<not> is_operator \<and> nonempty (ex_owner_id e) \<and> ex_owner_id e \<noteq> owner
              \<and> ex_tenant_id e \<noteq> rq_tenant_id req
           then Inl (http 404 ''execution not found'')
           else Inr (execution_to_dict (is_operator \<or> ex_owner_id e = owner) e))"

subsection \<open>Deleting and cancelling\<close>

definition delete_execution ::
  "exec_cfg \<Rightarrow> exec_env \<Rightarrow> request \<Rightarrow> string \<Rightarrow> exec_state \<Rightarrow> unit res \<times> exec_state" where
  "delete_execution cfg env req execution_id st =
     (case tbl_get ex_id execution_id (executions st) of
        None \<Rightarrow> (Inl (http 404 ''execution not found''), st)
      | Some e \<Rightarrow>
        let st1 = st\<lparr>executions := tbl_del ex_id execution_id (executions st)\<rparr>
        in (Inr (), publish cfg env ''deleted'' execution_id (execution_to_dict True e)
              (audit env ''deleted'' execution_id (ex_tenant_id e) (user_actor req) st1)))"

definition cannot_transition :: "string \<Rightarrow> string \<Rightarrow> error" where
  "cannot_transition from_status to_status =
     http 409 (''cannot transition from '' @ from_status @ '' to '' @ to_status)"

definition update_execution :: "execution \<Rightarrow> exec_state \<Rightarrow> exec_state" where
  "update_execution e st = st\<lparr>executions := tbl_put ex_id e (executions st)\<rparr>"

definition cancel_execution ::
  "exec_cfg \<Rightarrow> exec_env \<Rightarrow> request \<Rightarrow> string \<Rightarrow> exec_state \<Rightarrow> dict res \<times> exec_state" where
  "cancel_execution cfg env req execution_id st =
     (case tbl_get ex_id execution_id (executions st) of
        None \<Rightarrow> (Inl (http 404 ''execution not found''), st)
      | Some e \<Rightarrow>
        if \<not> transition_allowed (ex_status e) ''cancelled''
        then (Inl (cannot_transition (ex_status e) ''cancelled''), st)
        else
        let e1 = e\<lparr>ex_status := ''cancelled''\<rparr>;
            response = execution_to_dict True e1
        in (Inr response,
            publish cfg env ''cancelled'' (ex_id e1) response
              (audit env ''cancelled'' execution_id (ex_tenant_id e1) (user_actor req)
                 (update_execution e1 st))))"

end
