(* ===== verification/ExecLifecycle.thy ===== *)
theory ExecLifecycle
  imports Execution
begin

text \<open>
  The execution service, second part: dispatching an execution to its device (with the plugin
  and capability lookups of function executions), the agent's callback, the timeout sweep, and
  what the handlers have in common: each is a sequence of single-row updates along the allowed
  transitions.
\<close>

subsection \<open>Dispatch\<close>

definition plugin_block :: "string option \<Rightarrow> dict \<Rightarrow> dict" where
  "plugin_block plugin_id d =
    [(''id'', jstr plugin_id),
     (''name'', dget d ''name''),
     (''version'', dget d ''version''),
     (''runtime_type'', dget d ''runtime_type''),
     (''artifact_uri'', dget d ''artifact_uri''),
     (''artifact_checksum'', dget d ''artifact_checksum''),
     (''entrypoint'', dget d ''entrypoint''),
     (''timeout_seconds'', dget_or d ''timeout_seconds'' (JInt 30)),
     (''memory_limit_mb'', dget_or d ''memory_limit_mb'' (JInt 64)),
     (''permissions'', dget_or d ''permissions'' (JArr [])),
     (''required_capabilities'', dget_or d ''required_capabilities'' (JArr []))]"

definition fetch_plugin :: "exec_env \<Rightarrow> execution \<Rightarrow> dict res" where
  "fetch_plugin env e =
     (case plugin_reply env (fstr (ex_plugin_id e)) of
        Unreachable exc \<Rightarrow> Inl (Http 503 [JStr ''plugin-service unavailable: '', JStr exc])
      | Reply c d \<Rightarrow>
          if c \<noteq> 200 then Inl (http 502 ''plugin not found in registry'')
          else if dget d ''status'' \<noteq> JStr ''active''
          then Inl (Http 409 [JStr ''plugin status is '', dget d ''status'', JStr '', must be active''])
          else Inr (plugin_block (ex_plugin_id e) d))"

text \<open>The capability check: the device must declare \<open>wasm_wasi\<close> when the plugin requires it.
  An unreachable device service, or any status but 200, skips the check.\<close>

definition add_capabilities :: "exec_env \<Rightarrow> execution \<Rightarrow> dict \<Rightarrow> dict \<Rightarrow> dict res" where
  "add_capabilities env e plugin envelope =
     (if \<not> nonempty (ex_device_id e) then Inr envelope
      else case device_reply env (fstr (ex_device_id e)) of
        Unreachable exc \<Rightarrow> Inr envelope
      | Reply c d \<Rightarrow>
          if c \<noteq> 200 then Inr envelope
          else
          let caps = jor (dget d ''capabilities'') (JObj []) in
          case py_in ''wasm_wasi'' (jor (dget plugin ''required_capabilities'') (JArr [])) of
            Inl err \<Rightarrow> Inl err
          | Inr False \<Rightarrow> Inr (dset envelope ''device_capabilities'' caps)
          | Inr True \<Rightarrow>
              (case py_get caps ''wasm_wasi'' of
                 Inl err \<Rightarrow> Inl err
               | Inr v \<Rightarrow>
                   if \<not> truthy v
                   then Inl (Http 400 [JStr ''device '', jstr (ex_device_id e),
                              JStr '' does not declare wasm_wasi capability''])
                   else Inr (dset envelope ''device_capabilities'' caps)))"

definition base_envelope :: "exec_env \<Rightarrow> execution \<Rightarrow> dict" where
  "base_envelope env e =
    [(''execution_id'', JStr (ex_id e)),
     (''device_id'', jstr (ex_device_id e)),
     (''command'', jstr (ex_command e)),
     (''execution_type'', JStr (sor (ex_execution_type e) ''command'')),
     (''correlation_id'', jstr (ex_correlation_id e)),
     (''kafka_dispatched_at'', JNum (of_int (now env) / 1000000))] @ trace_headers env"

text \<open>What happens after the commit: for a function execution the plugin and the arguments are
  added to the envelope, and any of these steps may fail.\<close>

definition complete_envelope :: "exec_env \<Rightarrow> execution \<Rightarrow> dict res" where
  "complete_envelope env e =
     (if \<not> is_function_type (Some (sor (ex_execution_type e) ''command''))
      then Inr (base_envelope env e)
      else case fetch_plugin env e of
        Inl err \<Rightarrow> Inl err
      | Inr plugin \<Rightarrow>
          (case add_capabilities env e plugin (dset (base_envelope env e) ''plugin'' (JObj plugin)) of
             Inl err \<Rightarrow> Inl err
           | Inr envelope \<Rightarrow>
               Inr (case ex_args e of None \<Rightarrow> envelope | Some v \<Rightarrow> dset envelope ''args'' v)))"

text \<open>The auditor of a dispatch: the caller, or the system when a trigger fires it without a
  request.\<close>

definition dispatch_actor :: "request option \<Rightarrow> execution \<Rightarrow> actor" where
  "dispatch_actor req e =
     (case req of
        Some r \<Rightarrow> user_actor r
      | None \<Rightarrow> \<lparr>actor_user_id = Some ''system'', actor_tenant_id = ex_tenant_id e,
                 actor_roles = [''system''], actor_correlation_id = ex_correlation_id e\<rparr>)"

definition mark_dispatched :: "exec_env \<Rightarrow> execution \<Rightarrow> execution" where
  "mark_dispatched env e =
     e\<lparr>ex_status := ''dispatched'', ex_dispatched_at := Some (now env)\<rparr>"

definition dispatch_execution ::
  "exec_cfg \<Rightarrow> exec_env \<Rightarrow> string \<Rightarrow> request option \<Rightarrow> exec_state \<Rightarrow> dict res \<times> exec_state" where
  "dispatch_execution cfg env execution_id req st =
     (case tbl_get ex_id execution_id (executions st) of
        None \<Rightarrow> (Inl (http 404 ''execution not found''), st)
      | Some e \<Rightarrow>
        case guardrails_violation cfg (Some (sor (ex_execution_type e) ''command'')) (ex_command e) of
          Some violation \<Rightarrow> (Inl (http 403 violation), st)
        | None \<Rightarrow>
          if \<not> transition_allowed (ex_status e) ''dispatched''
          then (Inl (cannot_transition (ex_status e) ''dispatched''), st)
          else
          let e1 = mark_dispatched env e;
              st1 = update_execution e1 st
          in case complete_envelope env e1 of
               Inl err \<Rightarrow> (Inl err, st1)
             | Inr envelope \<Rightarrow>
                 (Inr (execution_to_dict True e1),
                  publish cfg env ''dispatched'' (ex_id e1) envelope
                    (audit env ''dispatched'' execution_id (ex_tenant_id e1)
                       (dispatch_actor req e1) st1)))"

subsection \<open>Callback\<close>

definition callback_allowed_fields :: "string list" where
  "callback_allowed_fields =
     [''status'', ''exit_code'', ''stdout'', ''stderr'', ''callback_key'', ''function_result'']"

text \<open>The error detail names the unknown fields in order; a status that cannot be hashed (a list
  or a dict) raises TypeError.\<close>

definition validate_callback_payload :: "dict \<Rightarrow> json list option res" where
  "validate_callback_payload payload =
     (let unknown = filter (\<lambda>k. k \<notin> set callback_allowed_fields) (map fst payload) in
      if unknown \<noteq> []
      then Inr (Some [JStr ''unknown fields: '', JStr (join '', '' (sort (remdups unknown)))])
      else case dget payload ''status'' of
        JNull \<Rightarrow> Inr None
      | JStr s \<Rightarrow> Inr (if s \<in> set valid_statuses then None
                      else Some [JStr ''invalid status: '', JStr s])
      | JArr xs \<Rightarrow> Inl (PyExc ''TypeError'')
      | JObj d \<Rightarrow> Inl (PyExc ''TypeError'')
      | v \<Rightarrow> Inr (Some [JStr ''invalid status: '', v]))"

text \<open>\<open>getattr(execution, "callback_received", False)\<close>: the row has no such column, and nothing
  sets the attribute.\<close>

definition callback_received :: "execution \<Rightarrow> bool" where
  "callback_received e = False"

definition check_and_store_callback_key ::
  "exec_cfg \<Rightarrow> exec_env \<Rightarrow> execution \<Rightarrow> json \<Rightarrow> string option res" where
  "check_and_store_callback_key cfg env e key =
     (if agent_callback_secret cfg = [] then Inr None
      else if \<not> truthy key then Inr (Some ''callback_key is required'')
      else case key of
        JStr k \<Rightarrow>
          Inr (if k \<noteq> hmac_sha256_hex env (agent_callback_secret cfg) (ex_id e)
               then Some ''invalid callback_key''
               else if callback_replay_required cfg \<and> callback_received e
               then Some ''callback already received'' else None)
      | _ \<Rightarrow> Inl (PyExc ''TypeError''))"

definition apply_callback :: "exec_env \<Rightarrow> dict \<Rightarrow> string \<Rightarrow> execution \<Rightarrow> execution" where
  "apply_callback env payload new_status e =
     e\<lparr>ex_status := new_status,
       ex_running_at := (if new_status = ''running'' then Some (now env) else ex_running_at e),
       ex_exit_code := (if dhas payload ''exit_code'' then dget payload ''exit_code''
                        else ex_exit_code e),
       ex_result_stdout := (if dhas payload ''stdout'' then dget payload ''stdout''
                            else ex_result_stdout e),
       ex_result_stderr := (if dhas payload ''stderr'' then dget payload ''stderr''
                            else ex_result_stderr e),
       ex_function_result := (if dget payload ''function_result'' \<noteq> JNull
                              then Some (dget payload ''function_result'')
                              else ex_function_result e)\<rparr>"

definition callback_execution ::
  "exec_cfg \<Rightarrow> exec_env \<Rightarrow> string option \<Rightarrow> string option \<Rightarrow> string \<Rightarrow> dict \<Rightarrow> exec_state \<Rightarrow>
     dict res \<times> exec_state" where
  "callback_execution cfg env x_internal_key x_bootstrap_token execution_id payload st =
     (case require_internal_or_bootstrap (internal cfg) (now env) x_internal_key x_bootstrap_token of
        Inl err \<Rightarrow> (Inl err, st)
      | Inr _ \<Rightarrow>
        case validate_callback_payload payload of
          Inl err \<Rightarrow> (Inl err, st)
        | Inr (Some detail) \<Rightarrow> (Inl (Http 422 detail), st)
        | Inr None \<Rightarrow>
          case dget payload ''status'' of
            JStr new_status \<Rightarrow>
              (case tbl_get ex_id execution_id (executions st) of
                 None \<Rightarrow> (Inl (http 404 ''execution not found''), st)
               | Some e \<Rightarrow>
                 case check_and_store_callback_key cfg env e (dget payload ''callback_key'') of
                   Inl err \<Rightarrow> (Inl err, st)
                 | Inr (Some key_err) \<Rightarrow> (Inl (http 422 key_err), st)
                 | Inr None \<Rightarrow>
                   if \<not> transition_allowed (ex_status e) new_status
                   then (Inl (cannot_transition (ex_status e) new_status), st)
                   else
                   let e1 = apply_callback env payload new_status e;
                       response = execution_to_dict True e1
                   in (Inr response,
                       publish cfg env ''callback'' (ex_id e1) response (update_execution e1 st)))
          | _ \<Rightarrow> (Inl (http 422 ''status is required''), st))"

subsection \<open>Timeout sweep\<close>

text \<open>One iteration of \<open>_timeout_loop\<close>: the elapsed time and its threshold, in microseconds.\<close>

definition overdue :: "exec_cfg \<Rightarrow> int \<Rightarrow> execution \<Rightarrow> bool" where
  "overdue cfg t e =
     (if ex_status e = ''dispatched'' then
        (case ex_dispatched_at e of None \<Rightarrow> False
         | Some d \<Rightarrow> dispatched_timeout_seconds cfg * 1000000 < t - d)
      else if ex_status e = ''running'' then
        (case ex_running_at e of None \<Rightarrow> False
         | Some r \<Rightarrow> running_timeout_seconds cfg * 1000000 < t - r)
      else False)"

definition sweep_row :: "exec_cfg \<Rightarrow> int \<Rightarrow> execution \<Rightarrow> execution" where
  "sweep_row cfg t e = (if overdue cfg t e then e\<lparr>ex_status := ''timeout''\<rparr> else e)"

definition timeout_sweep :: "exec_cfg \<Rightarrow> exec_env \<Rightarrow> exec_state \<Rightarrow> exec_state" where
  "timeout_sweep cfg env st = st\<lparr>executions := map (sweep_row cfg (now env)) (executions st)\<rparr>"

end
