(* ===== verification/ExecInvariants.thy ===== *)
theory ExecInvariants
  imports ExecLifecycle
begin

text \<open>
  What the execution service guarantees: an abstract machine on the table of executions
  (\<open>row_step\<close>), the proof that every handler implements it, and the invariants of the
  reachable states that follow: unique ids, valid statuses, timestamps, the per-device limit
  and the guardrail policy.
\<close>

interpretation execs: keyed_store "tbl_get ex_id" "tbl_put ex_id" tbl_add "tbl_del ex_id" ex_id
  by (rule keyed_table)

subsection \<open>Frame lemmas\<close>

lemma executions_publish [frame_simps]: "executions (publish cfg env a i p st) = executions st"
  "triggers (publish cfg env a i p st) = triggers st"
  "uuids (publish cfg env a i p st) = uuids st"
  "audit_log (publish cfg env a i p st) = audit_log st"
  by (auto simp: publish_def publish_event_def split: prod.splits)

lemma executions_audit [frame_simps]: "executions (audit env a i t w st) = executions st"
  "triggers (audit env a i t w st) = triggers st"
  "uuids (audit env a i t w st) = uuids st"
  "published (audit env a i t w st) = published st"
  "producer_up (audit env a i t w st) = producer_up st"
  "sends (audit env a i t w st) = sends st"
  by (auto simp: audit_def emit_audit_event_def)

lemma audit_log_audit: "audit_log (audit env a i t w st) = audit_log st @
    [make_audit_event (now_text env) ''execution-service'' (''execution.'' @ a) ''execution''
       (Some i) t w ''success'' None]"
  by (simp add: audit_def audit_log_emit)

lemma published_publish: "published (publish cfg env a i p st) =
    published (publish_event (publisher cfg) (send_ok env) (now env) a i p st)"
  by (simp add: publish_def)

lemma update_execution_simps [frame_simps]:
  "executions (update_execution e st) = tbl_put ex_id e (executions st)"
  "triggers (update_execution e st) = triggers st"
  "uuids (update_execution e st) = uuids st"
  "published (update_execution e st) = published st"
  "audit_log (update_execution e st) = audit_log st"
  "producer_up (update_execution e st) = producer_up st"
  "sends (update_execution e st) = sends st"
  by (simp_all add: update_execution_def)

lemma transition_allowed_cases:
  "transition_allowed s t \<longleftrightarrow>
     (s = ''queued'' \<and> t \<in> {''dispatched'', ''cancelled''})
   \<or> (s = ''dispatched'' \<and> t \<in> {''running'', ''failed'', ''timeout'', ''cancelled''})
   \<or> (s = ''running'' \<and> t \<in> {''succeeded'', ''failed'', ''timeout'', ''cancelled''})"
  by (auto simp: transition_allowed_def allowed_transitions_def)

lemma terminal_no_transition: "s \<in> set terminal_statuses \<Longrightarrow> \<not> transition_allowed s t"
  by (auto simp: terminal_statuses_def transition_allowed_cases)

subsection \<open>The abstract machine on the table\<close>

text \<open>What no handler changes in a stored execution.\<close>

definition same_identity :: "execution \<Rightarrow> execution \<Rightarrow> bool" where
  "same_identity e e' \<longleftrightarrow>
     ex_id e' = ex_id e \<and> ex_device_id e' = ex_device_id e \<and> ex_command e' = ex_command e
   \<and> ex_tenant_id e' = ex_tenant_id e \<and> ex_owner_id e' = ex_owner_id e
   \<and> ex_execution_type e' = ex_execution_type e \<and> ex_plugin_id e' = ex_plugin_id e
   \<and> ex_idempotency_key e' = ex_idempotency_key e \<and> ex_created_at e' = ex_created_at e
   \<and> ex_args e' = ex_args e"

text \<open>A running execution has its timestamp. (A dispatched one need not: a callback may set
  \<open>dispatched\<close>, and only the dispatch handler stamps it.)\<close>

definition stamped :: "execution \<Rightarrow> bool" where
  "stamped e \<longleftrightarrow> (ex_status e = ''running'' \<longrightarrow> ex_running_at e \<noteq> None)"

definition passes_guardrails :: "exec_cfg \<Rightarrow> execution \<Rightarrow> bool" where
  "passes_guardrails cfg e \<longleftrightarrow> guardrails_violation cfg (ex_execution_type e) (ex_command e) = None"

definition below_limit :: "exec_cfg \<Rightarrow> execution \<Rightarrow> execution list \<Rightarrow> bool" where
  "below_limit cfg e rows \<longleftrightarrow>
     (\<forall>d. ex_device_id e = Some d \<longrightarrow> d \<noteq> [] \<longrightarrow>
        int (count_rows (is_active_on d) rows) < max_executions_per_device cfg)"

inductive row_step :: "exec_cfg \<Rightarrow> execution list \<Rightarrow> execution list \<Rightarrow> bool" for cfg where
  keep: "row_step cfg rows rows"
| insert: "\<lbrakk>ex_id e \<notin> ex_id ` set rows; ex_status e = ''queued''; ex_command e \<noteq> None;
     passes_guardrails cfg e; below_limit cfg e rows\<rbrakk> \<Longrightarrow> row_step cfg rows (rows @ [e])"
| update: "\<lbrakk>tbl_get ex_id i rows = Some e; same_identity e e'; stamped e';
     transition_allowed (ex_status e) (ex_status e')\<rbrakk> \<Longrightarrow>
     row_step cfg rows (tbl_put ex_id e' rows)"
| delete: "row_step cfg rows (tbl_del ex_id i rows)"
| sweep: "row_step cfg rows (map (sweep_row cfg t) rows)"

inductive_cases row_stepE: "row_step cfg rows rows'"

definition row_ok :: "exec_cfg \<Rightarrow> execution \<Rightarrow> bool" where
  "row_ok cfg e \<longleftrightarrow> ex_status e \<in> set valid_statuses \<and> stamped e \<and> passes_guardrails cfg e"

definition within_limit :: "exec_cfg \<Rightarrow> execution list \<Rightarrow> string \<Rightarrow> bool" where
  "within_limit cfg rows d \<longleftrightarrow>
     int (count_rows (is_active_on d) rows) \<le> max 0 (max_executions_per_device cfg)"

definition rows_inv :: "exec_cfg \<Rightarrow> execution list \<Rightarrow> bool" where
  "rows_inv cfg rows \<longleftrightarrow>
     distinct (map ex_id rows) \<and> list_all (row_ok cfg) rows
   \<and> (\<forall>d. d \<noteq> [] \<longrightarrow> within_limit cfg rows d)"

lemma rows_invI:
  "distinct (map ex_id rows) \<Longrightarrow> (\<And>e. e \<in> set rows \<Longrightarrow> row_ok cfg e) \<Longrightarrow>
   (\<And>d. d \<noteq> [] \<Longrightarrow> within_limit cfg rows d) \<Longrightarrow> rows_inv cfg rows"
  by (simp add: rows_inv_def list_all_iff)

lemma rows_inv_distinct: "rows_inv cfg rows \<Longrightarrow> distinct (map ex_id rows)"
  by (simp add: rows_inv_def)

lemma rows_inv_row: "rows_inv cfg rows \<Longrightarrow> e \<in> set rows \<Longrightarrow> row_ok cfg e"
  by (simp add: rows_inv_def list_all_iff)

lemma rows_inv_limit: "rows_inv cfg rows \<Longrightarrow> d \<noteq> [] \<Longrightarrow> within_limit cfg rows d"
  by (simp add: rows_inv_def)

lemma within_limit_mono:
  "within_limit cfg rows d \<Longrightarrow> count_rows (is_active_on d) rows' \<le> count_rows (is_active_on d) rows \<Longrightarrow>
   within_limit cfg rows' d"
  by (simp add: within_limit_def)

lemma rows_inv_Nil: "rows_inv cfg []"
  by (simp add: rows_inv_def within_limit_def)

lemma sweep_row_simps [simp]:
  "ex_id (sweep_row cfg t e) = ex_id e"
  "ex_device_id (sweep_row cfg t e) = ex_device_id e"
  "ex_command (sweep_row cfg t e) = ex_command e"
  "ex_execution_type (sweep_row cfg t e) = ex_execution_type e"
  "ex_dispatched_at (sweep_row cfg t e) = ex_dispatched_at e"
  "ex_running_at (sweep_row cfg t e) = ex_running_at e"
  by (simp_all add: sweep_row_def)

lemma sweep_row_status:
  "ex_status (sweep_row cfg t e) = (if overdue cfg t e then ''timeout'' else ex_status e)"
  by (simp add: sweep_row_def)

lemma overdue_transition: "overdue cfg t e \<Longrightarrow> transition_allowed (ex_status e) ''timeout''"
  by (auto simp: overdue_def transition_allowed_cases split: if_splits)

lemma active_after_transition:
  "transition_allowed s t \<Longrightarrow> t \<in> set active_statuses \<Longrightarrow> s \<in> set active_statuses"
  by (auto simp: transition_allowed_cases active_statuses_def)

lemma valid_after_transition: "transition_allowed s t \<Longrightarrow> t \<in> set valid_statuses"
  by (auto simp: transition_allowed_cases valid_statuses_def)

lemma rows_inv_add:
  assumes inv: "rows_inv cfg rows" and fresh: "ex_id e \<notin> ex_id ` set rows"
    and q: "ex_status e = ''queued''" and g: "passes_guardrails cfg e"
    and lim: "below_limit cfg e rows"
  shows "rows_inv cfg (rows @ [e])"
proof (rule rows_invI)
  show "distinct (map ex_id (rows @ [e]))" using rows_inv_distinct [OF inv] fresh by simp
next
  have "row_ok cfg e" using q g by (simp add: row_ok_def stamped_def valid_statuses_def)
  then show "row_ok cfg x" if "x \<in> set (rows @ [e])" for x
    using rows_inv_row [OF inv] that by auto
next
  fix d :: string assume d: "d \<noteq> []"
  show "within_limit cfg (rows @ [e]) d"
  proof (cases "ex_device_id e = Some d")
    case True
    with lim d have "int (count_rows (is_active_on d) rows) < max_executions_per_device cfg"
      by (simp add: below_limit_def)
    moreover have "count_rows (is_active_on d) (rows @ [e]) \<le> Suc (count_rows (is_active_on d) rows)"
      by (simp add: count_rows_def)
    ultimately show ?thesis unfolding within_limit_def by linarith
  next
    case False
    then have "count_rows (is_active_on d) (rows @ [e]) = count_rows (is_active_on d) rows"
      by (simp add: count_rows_def is_active_on_def)
    then show ?thesis using within_limit_mono [OF rows_inv_limit [OF inv d]] by simp
  qed
qed

lemma rows_inv_update:
  assumes inv: "rows_inv cfg rows" and get: "tbl_get ex_id i rows = Some e"
    and same: "same_identity e e'" and st: "stamped e'"
    and tr: "transition_allowed (ex_status e) (ex_status e')"
  shows "rows_inv cfg (tbl_put ex_id e' rows)"
proof (rule rows_invI)
  show "distinct (map ex_id (tbl_put ex_id e' rows))" using rows_inv_distinct [OF inv] by simp
next
  have "passes_guardrails cfg e"
    using rows_inv_row [OF inv tbl_get_mem [OF get]] by (simp add: row_ok_def)
  then have "row_ok cfg e'"
    using same st valid_after_transition [OF tr]
    by (simp add: row_ok_def passes_guardrails_def same_identity_def)
  then show "row_ok cfg x" if "x \<in> set (tbl_put ex_id e' rows)" for x
    using that set_tbl_put [of ex_id e' rows] rows_inv_row [OF inv] by blast
next
  fix d :: string assume d: "d \<noteq> []"
  have id: "ex_id e' = i" using same tbl_get_key [OF get] by (simp add: same_identity_def)
  have "count_rows (is_active_on d) (tbl_put ex_id e' rows) \<le> count_rows (is_active_on d) rows"
  proof (rule count_rows_put [OF rows_inv_distinct [OF inv]])
    show "tbl_get ex_id (ex_id e') rows = Some e" using get id by simp
    show "is_active_on d e' \<Longrightarrow> is_active_on d e"
      using same active_after_transition [OF tr] by (simp add: is_active_on_def same_identity_def)
  qed
  then show "within_limit cfg (tbl_put ex_id e' rows) d"
    by (rule within_limit_mono [OF rows_inv_limit [OF inv d]])
qed

lemma row_ok_sweep: "row_ok cfg e \<Longrightarrow> row_ok cfg (sweep_row cfg t e)"
  by (cases "overdue cfg t e")
    (simp_all add: row_ok_def sweep_row_def stamped_def passes_guardrails_def valid_statuses_def)

lemma active_sweep: "is_active_on d (sweep_row cfg t e) \<Longrightarrow> is_active_on d e"
  by (cases "overdue cfg t e") (simp_all add: is_active_on_def sweep_row_def active_statuses_def)

lemma rows_inv_sweep:
  assumes inv: "rows_inv cfg rows"
  shows "rows_inv cfg (map (sweep_row cfg t) rows)"
proof (rule rows_invI)
  show "distinct (map ex_id (map (sweep_row cfg t) rows))"
    using rows_inv_distinct [OF inv] by (simp add: comp_def)
next
  show "row_ok cfg x" if "x \<in> set (map (sweep_row cfg t) rows)" for x
    using that row_ok_sweep rows_inv_row [OF inv] by auto
next
  fix d :: string assume d: "d \<noteq> []"
  show "within_limit cfg (map (sweep_row cfg t) rows) d"
    by (rule within_limit_mono [OF rows_inv_limit [OF inv d]])
      (rule count_rows_map, erule active_sweep)
qed

lemma rows_inv_del:
  assumes inv: "rows_inv cfg rows"
  shows "rows_inv cfg (tbl_del ex_id i rows)"
proof (rule rows_invI)
  show "distinct (map ex_id (tbl_del ex_id i rows))"
    by (rule distinct_tbl_del [OF rows_inv_distinct [OF inv]])
next
  show "row_ok cfg x" if "x \<in> set (tbl_del ex_id i rows)" for x
    using that set_tbl_del [of ex_id i rows] rows_inv_row [OF inv] by blast
next
  fix d :: string assume d: "d \<noteq> []"
  show "within_limit cfg (tbl_del ex_id i rows) d"
    by (rule within_limit_mono [OF rows_inv_limit [OF inv d] count_rows_del])
qed

lemma row_step_inv: "row_step cfg rows rows' \<Longrightarrow> rows_inv cfg rows \<Longrightarrow> rows_inv cfg rows'"
  by (induction rule: row_step.induct)
    (auto intro: rows_inv_add rows_inv_update rows_inv_del rows_inv_sweep)

text \<open>One step of the machine moves an execution along an allowed transition or leaves it as it
  is.\<close>

lemma row_step_transition:
  assumes step: "row_step cfg rows rows'" and dist: "distinct (map ex_id rows)"
    and before: "tbl_get ex_id i rows = Some e" and after: "tbl_get ex_id i rows' = Some e'"
  shows "e' = e \<or> transition_allowed (ex_status e) (ex_status e')"
  using step
proof cases
  case keep
  with before after show ?thesis by simp
next
  case (insert x)
  with before after show ?thesis
    by (simp add: execs.get_add_old [unfolded tbl_add_def])
next
  case (update j x x')
  then have "ex_id x' = j" using tbl_get_key [OF update(2)] by (simp add: same_identity_def)
  with update before after show ?thesis
    by (cases "i = j") (auto simp: tbl_get_put split: if_splits)
next
  case (delete j)
  with before after show ?thesis by (simp add: execs.get_del split: if_splits)
next
  case (sweep t)
  have "tbl_get ex_id i (map (sweep_row cfg t) rs) = map_option (sweep_row cfg t) (tbl_get ex_id i rs)"
    for rs by (induction rs) (auto simp: tbl_get_Cons)
  with sweep before after have "e' = sweep_row cfg t e" by simp
  then show ?thesis using overdue_transition [of cfg t e] by (simp add: sweep_row_def)
qed

end
