(* ===== verification/ExecProperties.thy ===== *)
theory ExecProperties
  imports ExecInvariants
begin

text \<open>
  The handlers of the execution service as steps of one machine, the proof that each step is a
  step of \<open>row_step\<close>, and the properties of the service: transitions, the per-device
  limit, the guardrail policy, idempotent replay, what dispatch and callback do on each outcome,
  who may read an output, and that no execution stays overdue after a sweep.
\<close>

subsection \<open>The handlers as steps\<close>

inductive exec_step :: "exec_cfg \<Rightarrow> exec_state \<Rightarrow> exec_state \<Rightarrow> bool" for cfg where
  create: "exec_step cfg st (snd (create_execution cfg env req x_tenant_id p st))"
| dispatch: "exec_step cfg st (snd (dispatch_execution cfg env i req st))"
| callback: "exec_step cfg st (snd (callback_execution cfg env key token i payload st))"
| cancel: "exec_step cfg st (snd (cancel_execution cfg env req i st))"
| delete: "exec_step cfg st (snd (delete_execution cfg env req i st))"
| sweep: "exec_step cfg st (timeout_sweep cfg env st)"

inductive exec_reach :: "exec_cfg \<Rightarrow> exec_state \<Rightarrow> bool" for cfg where
  start: "executions st = [] \<Longrightarrow> exec_reach cfg st"
| step: "exec_reach cfg st \<Longrightarrow> exec_step cfg st st' \<Longrightarrow> exec_reach cfg st'"

subsection \<open>Each handler implements the machine\<close>

lemma insert_execution_step:
  assumes "insert_execution ex st' = Inr st3" "executions st' = rows" "ex_status ex = ''queued''"
    "guardrails_violation cfg (ex_execution_type ex) (ex_command ex) = None"
    "below_limit cfg ex rows"
  shows "row_step cfg rows (executions st3)"
proof -
  have "executions st3 = rows @ [ex] \<and> ex_command ex \<noteq> None \<and> ex_id ex \<notin> ex_id ` set rows"
    using assms(1,2) by (auto simp: insert_execution_def tbl_add_def split: if_splits)
  then show ?thesis using assms(3,4,5) by (simp add: row_step.insert passes_guardrails_def)
qed

lemma new_execution_simps [simp]:
  "ex_status (new_execution cfg env req t p n) = ''queued''"
  "ex_device_id (new_execution cfg env req t p n) = fget (p_device_id p)"
  "ex_id (new_execution cfg env req t p n) = uuid4 env n"
  "ex_idempotency_key (new_execution cfg env req t p n) = fget (p_idempotency_key p)"
  "ex_owner_id (new_execution cfg env req t p n) = rq_user_id req"
  by (simp_all add: new_execution_def)

lemma below_limit_create:
  "\<not> (nonempty (fget (p_device_id p)) \<and> max_executions_per_device cfg
        \<le> int (count_active_for_device st (sor (fget (p_device_id p)) []))) \<Longrightarrow>
   below_limit cfg (new_execution cfg env req t p n) (executions st)"
  by (auto simp: below_limit_def count_active_for_device_def)

lemma create_refines:
  "row_step cfg (executions st) (executions (snd (create_execution cfg env req t p st)))"
proof (cases "nonempty (fget (p_device_id p)) \<and> max_executions_per_device cfg
        \<le> int (count_active_for_device st (sor (fget (p_device_id p)) []))")
  case True
  then show ?thesis
    by (auto simp: create_execution_def Let_def row_step.keep split: option.split)
next
  case False
  note lim = below_limit_create [OF False]
  show ?thesis
    unfolding create_execution_def Let_def if_not_P [OF False]
    by (auto simp: frame_simps row_step.keep split: option.split sum.split
        intro: insert_execution_step [OF _ _ _ _ lim])
qed

lemma mark_dispatched_ok:
  "same_identity e (mark_dispatched env e)" "stamped (mark_dispatched env e)"
  "ex_status (mark_dispatched env e) = ''dispatched''"
  by (simp_all add: mark_dispatched_def same_identity_def stamped_def)

lemma dispatch_refines:
  "row_step cfg (executions st) (executions (snd (dispatch_execution cfg env i req st)))"
  unfolding dispatch_execution_def Let_def
  by (auto simp: frame_simps mark_dispatched_ok row_step.keep
      intro: row_step.update split: option.split sum.split)

lemma apply_callback_ok:
  "same_identity e (apply_callback env payload s e)"
  "ex_status (apply_callback env payload s e) = s"
  by (simp_all add: apply_callback_def same_identity_def)

lemma stamped_callback: "transition_allowed t s \<Longrightarrow> stamped (apply_callback env payload s e)"
  by (simp add: apply_callback_def stamped_def)

lemma callback_refines:
  "row_step cfg (executions st) (executions (snd (callback_execution cfg env k t i payload st)))"
  unfolding callback_execution_def Let_def
  by (auto simp: frame_simps apply_callback_ok stamped_callback row_step.keep
      intro: row_step.update split: option.split sum.split json.split)

lemma cancel_refines:
  "row_step cfg (executions st) (executions (snd (cancel_execution cfg env req i st)))"
proof (cases "tbl_get ex_id i (executions st)")
  case (Some e)
  have "same_identity e (e\<lparr>ex_status := ''cancelled''\<rparr>)" "stamped (e\<lparr>ex_status := ''cancelled''\<rparr>)"
    by (simp_all add: same_identity_def stamped_def)
  with Some show ?thesis
    by (auto simp: cancel_execution_def Let_def frame_simps row_step.keep
        intro: row_step.update [OF Some])
qed (simp add: cancel_execution_def row_step.keep)

lemma delete_refines:
  "row_step cfg (executions st) (executions (snd (delete_execution cfg env req i st)))"
  by (auto simp: delete_execution_def Let_def frame_simps row_step.keep row_step.delete
      split: option.split)

lemma exec_step_refines: "exec_step cfg st st' \<Longrightarrow> row_step cfg (executions st) (executions st')"
  by (induction rule: exec_step.induct)
    (auto simp: create_refines dispatch_refines callback_refines cancel_refines delete_refines
      timeout_sweep_def row_step.sweep)

lemma exec_reach_inv: "exec_reach cfg st \<Longrightarrow> rows_inv cfg (executions st)"
  by (induction rule: exec_reach.induct)
    (auto simp: rows_inv_Nil intro: row_step_inv exec_step_refines)

text \<open>A successful creation is a replay or an insertion.\<close>

lemma create_ok_cases:
  assumes "create_execution cfg env req t p st = (Inr d, st')"
  obtains (replay) e where "find_idempotent (fget (p_idempotency_key p)) st = Some e"
      "d = execution_to_dict True e" "st' = st"
  | (fresh) "find_idempotent (fget (p_idempotency_key p)) st = None"
      "d = execution_to_dict True (new_execution cfg env req t p (uuids st))"
      "executions st' = executions st @ [new_execution cfg env req t p (uuids st)]"
proof (cases "find_idempotent (fget (p_idempotency_key p)) st")
  case None
  let ?ex = "new_execution cfg env req t p (uuids st)"
  let ?ins = "insert_execution ?ex (st\<lparr>uuids := Suc (Suc (uuids st))\<rparr>)"
  have lim: "\<not> (nonempty (fget (p_device_id p)) \<and> max_executions_per_device cfg
      \<le> int (count_active_for_device st (sor (fget (p_device_id p)) [])))"
    using assms None by (intro notI) (simp add: create_execution_def Let_def)
  have g: "guardrails_violation cfg (ex_execution_type ?ex) (ex_command ?ex) = None"
  proof (rule ccontr)
    assume "guardrails_violation cfg (ex_execution_type ?ex) (ex_command ?ex) \<noteq> None"
    then show False using assms None lim by (auto simp: create_execution_def Let_def)
  qed
  have f: "\<not> (is_function_type (ex_execution_type ?ex) \<and> \<not> nonempty (ex_plugin_id ?ex))"
    using assms None lim g by (intro notI) (simp add: create_execution_def Let_def)
  obtain st3 where ins: "?ins = Inr st3"
    using assms None lim g f
    by (cases "?ins") (simp_all add: create_execution_def Let_def)
  from ins have "executions st3 = executions st @ [?ex]"
    by (auto simp: insert_execution_def tbl_add_def split: if_splits)
  moreover have "d = execution_to_dict True ?ex \<and> executions st' = executions st3"
    using assms None lim g f ins by (auto simp: create_execution_def Let_def frame_simps)
  ultimately show thesis using fresh [OF None] by simp
next
  case (Some e)
  with assms have "d = execution_to_dict True e" "st' = st" by (simp_all add: create_execution_def)
  with Some show thesis by (rule replay)
qed

subsection \<open>Concrete inputs\<close>

definition demo_publisher :: publisher_cfg where
  "demo_publisher = \<lparr>kafka_topic_prefix = ''nexora'', kafka_retry_attempts = 3,
     kafka_retry_delay_seconds = 1, service_name = ''execution-service'',
     resource_name = ''execution''\<rparr>"

definition demo_cfg :: exec_cfg where
  "demo_cfg = \<lparr>auth_enabled = True, max_executions_per_device = 1,
     dispatched_timeout_seconds = 60, running_timeout_seconds = 300, guardrails_enabled = True,
     deny_command_prefixes = [''rm -rf''], blocked_execution_types = [],
     agent_callback_secret = [], callback_replay_required = False, publisher = demo_publisher,
     internal = \<lparr>internal_service_key = [], agent_bootstrap_tokens = []\<rparr>\<rparr>"

definition demo_env :: exec_env where
  "demo_env = \<lparr>now = 1000000, now_text = ''t'', uuid4 = (\<lambda>n. replicate n CHR ''u''),
     send_ok = (\<lambda>n. True), hmac_sha256_hex = (\<lambda>k m. k @ m), trace_headers = [],
     plugin_reply = (\<lambda>p. Unreachable ''down''), device_reply = (\<lambda>d. Unreachable ''down''),
     fleet_members_reply = (\<lambda>f. Unreachable ''down'')\<rparr>"

definition demo_request :: request where
  "demo_request = \<lparr>rq_user_id = Some ''ann'', rq_tenant_id = Some ''t1'',
     rq_is_operator = Some True, rq_roles = [], rq_correlation_id = None\<rparr>"

definition demo_payload :: create_payload where
  "demo_payload = empty_payload\<lparr>p_device_id := Val ''d1'', p_command := Val ''ls'',
     p_idempotency_key := Val ''k1''\<rparr>"

definition demo_state :: exec_state where
  "demo_state = \<lparr>producer_up = True, sends = 0, slept = 0, published = [], audit_log = [],
     uuids = 0, executions = [], triggers = []\<rparr>"

definition demo_created :: exec_state where
  "demo_created = snd (create_execution demo_cfg demo_env demo_request None demo_payload demo_state)"

lemmas demo_defs = demo_publisher_def demo_cfg_def demo_env_def demo_request_def demo_payload_def
  demo_state_def empty_payload_def

lemma demo_created_rows:
  "executions demo_created =
     [new_execution demo_cfg demo_env demo_request None demo_payload 0]"
  by (simp add: demo_created_def create_execution_def find_idempotent_def count_active_for_device_def
      guardrails_violation_def insert_execution_def new_execution_def demo_defs frame_simps
      is_function_type_def tbl_add_def Let_def sor_def strip_def lstrip_def lower_def lower_char_def
      is_space_def code_def startswith_def)

lemma demo_created_ok:
  "\<exists>d. create_execution demo_cfg demo_env demo_request None demo_payload demo_state
     = (Inr d, demo_created)"
  by (simp add: demo_created_def create_execution_def find_idempotent_def count_active_for_device_def
      guardrails_violation_def insert_execution_def new_execution_def demo_defs frame_simps
      is_function_type_def tbl_add_def Let_def sor_def strip_def lstrip_def lower_def lower_char_def
      is_space_def code_def startswith_def)

lemma demo_reach: "exec_reach demo_cfg demo_created"
  unfolding demo_created_def
  by (rule exec_reach.step [OF exec_reach.start exec_step.create]) (simp add: demo_state_def)

subsection \<open>Properties\<close>

text \<open>C1. From every reachable state, a handler call moves a stored execution along an allowed
  transition of the status machine or leaves the row exactly as it is.\<close>

theorem exec_step_transition:
  assumes "exec_reach cfg st" "exec_step cfg st st'"
    and "tbl_get ex_id i (executions st) = Some e"
    and "tbl_get ex_id i (executions st') = Some e'"
  shows "e' = e \<or> transition_allowed (ex_status e) (ex_status e')"
  using row_step_transition [OF exec_step_refines [OF assms(2)]
      rows_inv_distinct [OF exec_reach_inv [OF assms(1)]] assms(3,4)] .

lemma exec_step_transition_witness:
  "\<exists>e e'. tbl_get ex_id [] (executions demo_created) = Some e
     \<and> tbl_get ex_id [] (executions
          (snd (cancel_execution demo_cfg demo_env demo_request [] demo_created))) = Some e'
     \<and> (e' = e \<or> transition_allowed (ex_status e) (ex_status e'))"
proof -
  let ?st' = "snd (cancel_execution demo_cfg demo_env demo_request [] demo_created)"
  let ?e = "new_execution demo_cfg demo_env demo_request None demo_payload 0"
  have before: "tbl_get ex_id [] (executions demo_created) = Some ?e"
    by (simp add: demo_created_rows tbl_get_Cons) (simp add: demo_env_def)
  then have after: "tbl_get ex_id [] (executions ?st') = Some (?e\<lparr>ex_status := ''cancelled''\<rparr>)"
    by (simp add: cancel_execution_def transition_allowed_cases frame_simps Let_def)
      (simp add: demo_created_rows tbl_put_def tbl_get_Cons, simp add: demo_env_def)
  show ?thesis
    using exec_step_transition [OF demo_reach exec_step.cancel before after] before after by blast
qed

text \<open>A terminal execution never changes again: a handler call leaves its row as it is or
  deletes it.\<close>

theorem exec_terminal_final:
  assumes "exec_reach cfg st" "exec_step cfg st st'"
    and "tbl_get ex_id i (executions st) = Some e" "ex_status e \<in> set terminal_statuses"
  shows "tbl_get ex_id i (executions st') \<in> {None, Some e}"
proof (cases "tbl_get ex_id i (executions st')")
  case (Some e')
  then have "e' = e \<or> transition_allowed (ex_status e) (ex_status e')"
    using row_step_transition [OF exec_step_refines [OF assms(2)]
      rows_inv_distinct [OF exec_reach_inv [OF assms(1)]] assms(3)] by blast
  then show ?thesis using Some terminal_no_transition [OF assms(4)] by auto
qed simp

lemma exec_terminal_final_witness:
  "\<exists>st e. exec_reach demo_cfg st \<and> tbl_get ex_id [] (executions st) = Some e
     \<and> ex_status e = ''cancelled''
     \<and> tbl_get ex_id [] (executions (timeout_sweep demo_cfg demo_env st)) \<in> {None, Some e}"
proof -
  let ?st = "snd (cancel_execution demo_cfg demo_env demo_request [] demo_created)"
  let ?e = "(new_execution demo_cfg demo_env demo_request None demo_payload 0)
      \<lparr>ex_status := ''cancelled''\<rparr>"
  have reach: "exec_reach demo_cfg ?st"
    by (rule exec_reach.step [OF demo_reach exec_step.cancel])
  have get: "tbl_get ex_id [] (executions ?st) = Some ?e"
    by (simp add: cancel_execution_def transition_allowed_cases frame_simps Let_def
        demo_created_rows tbl_get_Cons tbl_put_def) (simp add: demo_env_def)
  have "ex_status ?e \<in> set terminal_statuses" by (simp add: terminal_statuses_def)
  then show ?thesis
    using exec_terminal_final [OF reach exec_step.sweep get, of demo_env] reach get
    by (metis (no_types) execution.select_convs(4) execution.update_convs(4) execution.surjective)
qed





text \<open>C3. Creating twice with the same idempotency key is creating once: after a successful call,
  any call with that key returns the same response and changes nothing, whatever else it asks.\<close>

theorem create_idempotent:
  assumes "create_execution cfg env req t p st = (Inr d, st')"
    and "fget (p_idempotency_key p) = Some k" "k \<noteq> []"
    and "fget (p_idempotency_key p') = Some k"
  shows "create_execution cfg' env' req' t' p' st' = (Inr d, st')"
proof -
  have "\<exists>e. find_idempotent (Some k) st' = Some e \<and> execution_to_dict True e = d"
    using assms(1)
  proof (cases rule: create_ok_cases)
    case (replay e)
    with assms show ?thesis by auto
  next
    case fresh
    with assms show ?thesis by (simp add: find_idempotent_def find_append_new)
  qed
  with assms(4) show ?thesis by (auto simp: create_execution_def)
qed

lemma create_idempotent_witness:
  "\<exists>d. create_execution demo_cfg demo_env demo_request None demo_payload demo_state
       = (Inr d, demo_created)
   \<and> create_execution demo_cfg demo_env demo_request None
       (demo_payload\<lparr>p_command := Val ''reboot''\<rparr>) demo_created = (Inr d, demo_created)"
proof -
  obtain d where d: "create_execution demo_cfg demo_env demo_request None demo_payload demo_state
      = (Inr d, demo_created)"
    using demo_created_ok by blast
  show ?thesis
    using create_idempotent [OF d, of "''k1''" "demo_payload\<lparr>p_command := Val ''reboot''\<rparr>"
        demo_cfg demo_env demo_request None] d
    by (simp add: demo_payload_def)
qed

text \<open>A dispatch that fails publishes nothing and writes no audit record; it changes the
  table only when the failure comes after the commit, in the plugin or capability lookup of a
  function execution, and then the execution stays dispatched although no agent was told.\<close>

theorem dispatch_failure:
  assumes "dispatch_execution cfg env i req st = (Inl err, st')"
  shows "published st' = published st \<and> audit_log st' = audit_log st
   \<and> (st' = st
      \<or> (\<exists>e. tbl_get ex_id i (executions st) = Some e \<and> ex_status e = ''queued''
           \<and> is_function_type (ex_execution_type e)
           \<and> complete_envelope env (mark_dispatched env e) = Inl err
           \<and> st' = update_execution (mark_dispatched env e) st))"
proof -
  have fn: "is_function_type (ex_execution_type e)"
    if "complete_envelope env (mark_dispatched env e) = Inl err" for e
    using that by (cases "ex_execution_type e")
      (auto simp: complete_envelope_def is_function_type_def mark_dispatched_def sor_def
        split: if_splits)
  show ?thesis
    using assms unfolding dispatch_execution_def Let_def
    by (auto simp: frame_simps transition_allowed_cases fn
        split: option.splits if_splits sum.splits)
qed

lemma dispatch_success_cond:
  assumes "tbl_get ex_id i (executions st) = Some e"
  shows "case dispatch_execution cfg env i req st of (r, st') \<Rightarrow>
    (is_ok r \<longleftrightarrow>
        guardrails_violation cfg (Some (sor (ex_execution_type e) ''command'')) (ex_command e) = None
      \<and> ex_status e = ''queued'' \<and> is_ok (complete_envelope env (mark_dispatched env e)))
  \<and> (is_ok r \<longrightarrow>
        tbl_get ex_id i (executions st') = Some (mark_dispatched env e)
      \<and> length (audit_log st') = Suc (length (audit_log st))
      \<and> (\<exists>envelope. complete_envelope env (mark_dispatched env e) = Inr envelope
          \<and> published st' =
             (if producer_up st \<and> (\<exists>k < nat (kafka_retry_attempts (publisher cfg)).
                   send_ok env (sends st + k))
              then published st @ [make_event (publisher cfg) (now env) ''dispatched'' i envelope]
              else published st)))"
proof -
  have id: "ex_id (mark_dispatched env e) = i"
    using tbl_get_key [OF assms] by (simp add: mark_dispatched_def)
  have put: "tbl_get ex_id i (tbl_put ex_id (mark_dispatched env e) (executions st))
      = Some (mark_dispatched env e)"
    by (rule execs.get_put_same [OF assms id])
  show ?thesis
  proof (cases "guardrails_violation cfg (Some (sor (ex_execution_type e) ''command'')) (ex_command e)")
    case (Some v)
    with assms show ?thesis by (simp add: dispatch_execution_def)
  next
    case None
    show ?thesis
    proof (cases "ex_status e = ''queued''")
      case False
      then have "\<not> transition_allowed (ex_status e) ''dispatched''"
        by (simp add: transition_allowed_cases)
      with None False assms show ?thesis by (simp add: dispatch_execution_def)
    next
      case True
      then have "transition_allowed (ex_status e) ''dispatched''"
        by (simp add: transition_allowed_cases)
      with None True assms show ?thesis
        by (cases "complete_envelope env (mark_dispatched env e)")
          (simp_all add: dispatch_execution_def Let_def frame_simps put id audit_log_audit
            published_publish published_eq)
    qed
  qed
qed

text \<open>C4. A dispatch succeeds exactly on a queued execution that passes the policy and whose
  envelope can be completed; then the row is dispatched and stamped, one audit record is
  appended, and the command reaches the broker unless every attempt fails.\<close>

theorem dispatch_success:
  assumes "tbl_get ex_id i (executions st) = Some e"
  shows "case dispatch_execution cfg env i req st of (r, st') \<Rightarrow>
    (is_ok r \<longleftrightarrow>
        guardrails_violation cfg (Some (sor (ex_execution_type e) ''command'')) (ex_command e) = None
      \<and> ex_status e = ''queued'' \<and> is_ok (complete_envelope env (mark_dispatched env e)))
  \<and> (is_ok r \<longrightarrow>
        tbl_get ex_id i (executions st') = Some (mark_dispatched env e)
      \<and> length (audit_log st') = Suc (length (audit_log st))
      \<and> (\<exists>envelope. complete_envelope env (mark_dispatched env e) = Inr envelope
          \<and> published st' =
             (if producer_up st \<and> (\<exists>k < nat (kafka_retry_attempts (publisher cfg)).
                   send_ok env (sends st + k))
              then published st @ [make_event (publisher cfg) (now env) ''dispatched'' i envelope]
              else published st)))"
  by (rule dispatch_success_cond [OF assms])

lemma demo_row:
  "tbl_get ex_id [] (executions demo_created)
     = Some (new_execution demo_cfg demo_env demo_request None demo_payload 0)"
  by (simp add: demo_created_rows tbl_get_Cons) (simp add: demo_env_def)

text \<open>A function execution whose plugin cannot be looked up.\<close>

definition demo_function_row :: execution where
  "demo_function_row = (new_execution demo_cfg demo_env demo_request None demo_payload 0)
     \<lparr>ex_execution_type := Some ''function.invoke'', ex_plugin_id := Some ''p1''\<rparr>"

definition demo_function_state :: exec_state where
  "demo_function_state = demo_state\<lparr>executions := [demo_function_row]\<rparr>"

lemma demo_function_get: "tbl_get ex_id [] (executions demo_function_state) = Some demo_function_row"
  by (simp add: demo_function_state_def demo_function_row_def tbl_get_Cons) (simp add: demo_env_def)

lemma demo_function_fails:
  "dispatch_execution demo_cfg demo_env [] None demo_function_state
     = (Inl (Http 503 [JStr ''plugin-service unavailable: '', JStr ''down'']),
        update_execution (mark_dispatched demo_env demo_function_row) demo_function_state)"
  by (simp add: dispatch_execution_def demo_function_get Let_def)
    (simp add: demo_function_row_def guardrails_violation_def transition_allowed_cases
      complete_envelope_def is_function_type_def fetch_plugin_def mark_dispatched_def demo_defs
      sor_def strip_def lstrip_def lower_def lower_char_def is_space_def code_def)

lemma dispatch_failure_witness:
  "\<exists>err st'. dispatch_execution demo_cfg demo_env [] None demo_function_state = (Inl err, st')
     \<and> published st' = [] \<and> st' \<noteq> demo_function_state"
proof -
  let ?st' = "update_execution (mark_dispatched demo_env demo_function_row) demo_function_state"
  have "published ?st' = []"
    using dispatch_failure [OF demo_function_fails]
    by (simp add: demo_function_state_def demo_state_def)
  moreover have "executions ?st' = [mark_dispatched demo_env demo_function_row]"
    by (simp add: update_execution_def demo_function_state_def tbl_put_def mark_dispatched_def)
  then have "map ex_status (executions ?st') \<noteq> map ex_status (executions demo_function_state)"
    by (simp add: mark_dispatched_def demo_function_state_def demo_function_row_def)
  then have "?st' \<noteq> demo_function_state" by metis
  ultimately show ?thesis using demo_function_fails by blast
qed

lemma dispatch_success_witness:
  "is_ok (fst (dispatch_execution demo_cfg demo_env [] (Some demo_request) demo_created))"
proof -
  let ?e = "new_execution demo_cfg demo_env demo_request None demo_payload 0"
  have "guardrails_violation demo_cfg (Some (sor (ex_execution_type ?e) ''command''))
      (ex_command ?e) = None"
    by (simp add: new_execution_def guardrails_violation_def demo_defs sor_def strip_def lstrip_def
      lower_def lower_char_def is_space_def code_def startswith_def)
  moreover have "is_ok (complete_envelope demo_env (mark_dispatched demo_env ?e))"
    by (simp add: complete_envelope_def mark_dispatched_def new_execution_def demo_payload_def
      empty_payload_def is_function_type_def)
  ultimately show ?thesis
    using dispatch_success [OF demo_row, of demo_cfg demo_env "Some demo_request"]
    by (simp add: case_prod_beta)
qed

lemma callback_accepts_cond:
  "is_ok (fst (callback_execution cfg env key token i payload st)) \<longleftrightarrow>
     is_ok (require_internal_or_bootstrap (internal cfg) (now env) key token)
   \<and> (\<forall>k \<in> fst ` set payload. k \<in> set callback_allowed_fields)
   \<and> (\<exists>s e. dget payload ''status'' = JStr s
        \<and> tbl_get ex_id i (executions st) = Some e
        \<and> check_and_store_callback_key cfg env e (dget payload ''callback_key'') = Inr None
        \<and> transition_allowed (ex_status e) s)"
proof -
  have unknown: "(filter (\<lambda>k. k \<notin> set callback_allowed_fields) (map fst payload) = [])
      \<longleftrightarrow> (\<forall>k \<in> fst ` set payload. k \<in> set callback_allowed_fields)"
    by (auto simp: filter_empty_conv)
  have valid: "validate_callback_payload payload = Inr None \<longleftrightarrow>
      (\<forall>k \<in> fst ` set payload. k \<in> set callback_allowed_fields)
      \<and> (dget payload ''status'' = JNull \<or> (\<exists>s \<in> set valid_statuses. dget payload ''status'' = JStr s))"
    unfolding validate_callback_payload_def Let_def unknown [symmetric]
    by (cases "dget payload ''status''") auto
  show ?thesis
  proof (cases "is_ok (require_internal_or_bootstrap (internal cfg) (now env) key token)
      \<and> validate_callback_payload payload = Inr None")
    case False
    then have "\<not> is_ok (fst (callback_execution cfg env key token i payload st))"
      by (auto simp: callback_execution_def split: sum.splits option.splits)
    moreover have "validate_callback_payload payload = Inr None"
      if "\<forall>k \<in> fst ` set payload. k \<in> set callback_allowed_fields"
        "dget payload ''status'' = JStr s" "transition_allowed t s" for s t
      using that valid valid_after_transition by auto
    ultimately show ?thesis using False by blast
  next
    case True
    then obtain u where "require_internal_or_bootstrap (internal cfg) (now env) key token = Inr u"
      by (auto elim: is_okE)
    with True valid show ?thesis
      by (auto simp: callback_execution_def Let_def
          split: json.splits option.splits sum.splits)
  qed
qed

text \<open>The callback of an agent is accepted exactly when the caller is authenticated as an
  internal service or by a bootstrap token, the body has only known fields and names a valid
  status, the execution exists, the callback key is right and the status machine allows the
  step.\<close>

theorem callback_accepts_iff:
  "is_ok (fst (callback_execution cfg env key token i payload st)) \<longleftrightarrow>
     is_ok (require_internal_or_bootstrap (internal cfg) (now env) key token)
   \<and> fst ` set payload \<subseteq> set callback_allowed_fields
   \<and> (\<exists>s e. dget payload ''status'' = JStr s
        \<and> tbl_get ex_id i (executions st) = Some e
        \<and> check_and_store_callback_key cfg env e (dget payload ''callback_key'') = Inr None
        \<and> transition_allowed (ex_status e) s)"
  by (simp add: callback_accepts_cond subset_eq)

text \<open>The fields of privacy level 4.\<close>

definition hides_payload :: "dict \<Rightarrow> bool" where
  "hides_payload d \<longleftrightarrow> dget d ''exit_code'' = JNull \<and> dget d ''result_stdout'' = JNull
     \<and> dget d ''result_stderr'' = JNull \<and> dget d ''function_result'' = JNull"

lemma hides_payload_to_dict: "hides_payload (execution_to_dict False e)"
  by (simp add: hides_payload_def execution_to_dict_def dget_def split: option.split)

lemma owner_to_dict: "dget (execution_to_dict b e) ''owner_id'' = jstr (ex_owner_id e)"
  by (simp add: execution_to_dict_def dget_def)



lemma tbl_get_sweep:
  "tbl_get ex_id i (map (sweep_row cfg t) rs) = map_option (sweep_row cfg t) (tbl_get ex_id i rs)"
  by (induction rs) (auto simp: tbl_get_Cons)

text \<open>C6. A sweep leaves no execution overdue, times out exactly the overdue ones and keeps the
  rest; and every running execution of a reachable state is timed out by any sweep late enough,
  so none runs for ever.\<close>

theorem sweep_times_out:
  assumes "exec_reach cfg st"
  shows "(\<forall>e \<in> set (executions (timeout_sweep cfg env st)). \<not> overdue cfg (now env) e)
   \<and> (\<forall>i e. tbl_get ex_id i (executions st) = Some e \<longrightarrow>
        tbl_get ex_id i (executions (timeout_sweep cfg env st)) =
          Some (if overdue cfg (now env) e then e\<lparr>ex_status := ''timeout''\<rparr> else e))
   \<and> (\<forall>e \<in> set (executions st). ex_status e = ''running'' \<longrightarrow>
        (\<exists>deadline. \<forall>t > deadline. overdue cfg t e))"
proof (intro conjI)
  show "\<forall>e \<in> set (executions (timeout_sweep cfg env st)). \<not> overdue cfg (now env) e"
    by (auto simp: timeout_sweep_def sweep_row_def overdue_def)
  show "\<forall>i e. tbl_get ex_id i (executions st) = Some e \<longrightarrow>
        tbl_get ex_id i (executions (timeout_sweep cfg env st)) =
          Some (if overdue cfg (now env) e then e\<lparr>ex_status := ''timeout''\<rparr> else e)"
    by (simp add: timeout_sweep_def tbl_get_sweep sweep_row_def)
  show "\<forall>e \<in> set (executions st). ex_status e = ''running'' \<longrightarrow>
        (\<exists>deadline. \<forall>t > deadline. overdue cfg t e)"
  proof (intro ballI impI)
    fix e assume e: "e \<in> set (executions st)" and r: "ex_status e = ''running''"
    then obtain started where "ex_running_at e = Some started"
      using rows_inv_row [OF exec_reach_inv [OF assms] e] by (auto simp: row_ok_def stamped_def)
    with r show "\<exists>deadline. \<forall>t > deadline. overdue cfg t e"
      by (auto simp: overdue_def
          intro!: exI [of _ "started + running_timeout_seconds cfg * 1000000"])
  qed
qed

lemma sweep_times_out_witness:
  "list_all (\<lambda>e. \<not> overdue demo_cfg (now demo_env) e)
     (executions (timeout_sweep demo_cfg demo_env demo_created))"
  using sweep_times_out [OF demo_reach] by (simp add: list_all_iff)

text \<open>A callback may report \<open>dispatched\<close> on a queued execution; the row then has no
  dispatch time, and no sweep, at any time, ever times it out.\<close>

theorem callback_dispatched_never_swept:
  assumes "callback_execution cfg env key token i payload st = (Inr d, st')"
    and "dget payload ''status'' = JStr ''dispatched''"
    and "tbl_get ex_id i (executions st) = Some e" "ex_dispatched_at e = None"
  shows "\<exists>e'. tbl_get ex_id i (executions st') = Some e' \<and> ex_status e' = ''dispatched''
     \<and> (\<forall>cfg' env'. tbl_get ex_id i (executions (timeout_sweep cfg' env' st')) = Some e')"
proof -
  let ?e = "apply_callback env payload ''dispatched'' e"
  have id: "ex_id ?e = i" using tbl_get_key [OF assms(3)] by (simp add: apply_callback_def)
  have "executions st' = tbl_put ex_id ?e (executions st)"
    using assms(1,2,3) by (auto simp: callback_execution_def Let_def frame_simps
      split: sum.splits option.splits if_splits)
  then have get: "tbl_get ex_id i (executions st') = Some ?e"
    using execs.get_put_same [OF assms(3) id] by simp
  have "\<not> overdue cfg' t ?e" for cfg' t
    using assms(4) by (simp add: overdue_def apply_callback_def)
  with get show ?thesis
    by (simp add: timeout_sweep_def tbl_get_sweep sweep_row_def)
      (simp add: apply_callback_def)
qed

lemma callback_dispatched_never_swept_witness:
  "\<exists>st' e'. snd (callback_execution demo_cfg demo_env None None [] [(''status'', JStr ''dispatched'')]
         demo_created) = st' \<and> tbl_get ex_id [] (executions st') = Some e'
     \<and> tbl_get ex_id [] (executions (timeout_sweep demo_cfg (demo_env\<lparr>now := 10 ^ 20\<rparr>) st')) = Some e'"
proof -
  let ?p = "[(''status'', JStr ''dispatched'')]"
  have "is_ok (fst (callback_execution demo_cfg demo_env None None [] ?p demo_created))"
    unfolding callback_accepts_cond
    by (simp add: demo_row dget_def callback_allowed_fields_def check_and_store_callback_key_def
      transition_allowed_cases) (simp add: demo_cfg_def require_internal_or_bootstrap_def
      valid_internal_key_def)
  then obtain d st' where c: "callback_execution demo_cfg demo_env None None [] ?p demo_created
      = (Inr d, st')" by (metis is_okE prod.collapse)
  show ?thesis
    using callback_dispatched_never_swept [OF c _ demo_row] c
    by (auto simp: dget_def new_execution_def)
qed

end
