(* ===== verification/Launch.thy ===== *)
theory Launch
  imports Prelude
begin

text \<open>
  The loop that rollouts, runbooks and fleet invocations share: attempt an operation on each
  target, record an \<open>HTTPException\<close> as a failed result, stop after a failure when asked to,
  and let any other exception end the whole request. The locale \<open>launcher\<close> states what the
  loop needs of the operation it repeats and what the caller may conclude.
\<close>

text \<open>An attempt: done, failed in a way the loop records, or ending the request.\<close>

datatype 'r outcome = Done 'r | Failed error | Abort error

fun caught :: "'r res \<Rightarrow> 'r outcome" where
  "caught (Inr r) = Done r"
| "caught (Inl (Http c d)) = Failed (Http c d)"
| "caught (Inl (PyExc n)) = Abort (PyExc n)"

type_synonym ('d, 'r) result = "'d \<times> (error + 'r)"

fun attempt_all ::
  "('d \<Rightarrow> 's \<Rightarrow> 'r outcome \<times> 's) \<Rightarrow> bool \<Rightarrow> 'd list \<Rightarrow> 's \<Rightarrow> ('d, 'r) result list res \<times> 's"
  where
  "attempt_all launch stop [] st = (Inr [], st)"
| "attempt_all launch stop (d # ds) st =
     (case launch d st of
        (Abort err, st1) \<Rightarrow> (Inl err, st1)
      | (Failed err, st1) \<Rightarrow>
          if stop then (Inr [(d, Inl err)], st1)
          else (case attempt_all launch stop ds st1 of
                  (Inl exc, st2) \<Rightarrow> (Inl exc, st2)
                | (Inr rs, st2) \<Rightarrow> (Inr ((d, Inl err) # rs), st2))
      | (Done r, st1) \<Rightarrow>
          (case attempt_all launch stop ds st1 of
             (Inl exc, st2) \<Rightarrow> (Inl exc, st2)
           | (Inr rs, st2) \<Rightarrow> (Inr ((d, Inr r) # rs), st2)))"

definition dispatched_count :: "('d, 'r) result list \<Rightarrow> nat" where
  "dispatched_count rs = length (filter (\<lambda>r. is_ok (snd r)) rs)"

definition failed_count :: "('d, 'r) result list \<Rightarrow> nat" where
  "failed_count rs = length (filter (\<lambda>r. \<not> is_ok (snd r)) rs)"

lemma counts_sum: "dispatched_count rs + failed_count rs = length rs"
  by (simp add: dispatched_count_def failed_count_def sum_length_filter_compl)

text \<open>Every target is attempted in order; with \<open>stop\<close>, up to the first failure, which is then
  the last result.\<close>

lemma attempt_all_prefix:
  assumes "attempt_all launch stop ds st = (Inr rs, st')"
  shows "map fst rs = take (length rs) ds
   \<and> (\<not> stop \<or> failed_count rs = 0 \<longrightarrow> length rs = length ds)
   \<and> (stop \<longrightarrow> list_all (\<lambda>r. is_ok (snd r)) (butlast rs))"
  using assms
proof (induction ds arbitrary: st rs)
  case (Cons d ds)
  obtain o1 st1 where l: "launch d st = (o1, st1)" by (cases "launch d st")
  show ?case
  proof (cases o1)
    case (Done r)
    with Cons.prems l obtain rs' where rs: "rs = (d, Inr r) # rs'"
      and rec: "attempt_all launch stop ds st1 = (Inr rs', st')"
      by (auto split: prod.splits sum.splits)
    show ?thesis
      using Cons.IH [OF rec] by (cases "rs' = []") (auto simp: rs failed_count_def)
  next
    case (Failed err)
    show ?thesis
    proof (cases stop)
      case True
      with Cons.prems l Failed show ?thesis by (auto simp: failed_count_def)
    next
      case False
      with Cons.prems l Failed obtain rs' where rs: "rs = (d, Inl err) # rs'"
        and rec: "attempt_all launch stop ds st1 = (Inr rs', st')"
        by (auto split: prod.splits sum.splits)
      show ?thesis using Cons.IH [OF rec] False by (auto simp: rs)
    qed
  next
    case (Abort err)
    with Cons.prems l show ?thesis by simp
  qed
qed simp

lemma attempt_all_all:
  assumes "attempt_all launch False ds st = (Inr rs, st')"
  shows "map fst rs = ds"
proof -
  have "length rs = length ds" "map fst rs = take (length rs) ds"
    using attempt_all_prefix [OF assms] by simp_all
  then show ?thesis by simp
qed

text \<open>What the loop needs of the operation: its effect on the state stays within a reflexive and
  transitive relation, and a recorded success is what it claims in the state it leaves and stays
  so.\<close>

locale launcher =
  fixes launch :: "'d \<Rightarrow> 's \<Rightarrow> 'r outcome \<times> 's"
    and evolves :: "'s \<Rightarrow> 's \<Rightarrow> bool"
    and holds :: "'d \<Rightarrow> 'r \<Rightarrow> 's \<Rightarrow> bool"
  assumes evolves_refl: "evolves s s"
    and evolves_trans: "evolves s t \<Longrightarrow> evolves t u \<Longrightarrow> evolves s u"
    and launch_evolves: "launch d s = (x, s') \<Longrightarrow> evolves s s'"
    and launch_holds: "launch d s = (Done r, s') \<Longrightarrow> holds d r s'"
    and holds_stable: "holds d r s \<Longrightarrow> launch e s = (x, s') \<Longrightarrow> holds d r s'"
begin

lemma attempt_all_evolves: "attempt_all launch stop ds s = (res, s') \<Longrightarrow> evolves s s'"
proof (induction ds arbitrary: s res)
  case (Cons d ds)
  obtain o1 s1 where l: "launch d s = (o1, s1)" by (cases "launch d s")
  have first: "evolves s s1" by (rule launch_evolves [OF l])
  have rest: "evolves s1 s'" if "attempt_all launch stop ds s1 = (x, s')" for x
    by (rule Cons.IH [OF that])
  show ?case
    using Cons.prems l first evolves_trans [OF first rest]
    by (auto split: outcome.splits prod.splits sum.splits if_splits)
qed (simp add: evolves_refl)

lemma attempt_all_stable:
  "attempt_all launch stop ds s = (res, s') \<Longrightarrow> holds d r s \<Longrightarrow> holds d r s'"
proof (induction ds arbitrary: s res)
  case (Cons e ds)
  obtain o1 s1 where l: "launch e s = (o1, s1)" by (cases "launch e s")
  have first: "holds d r s1" by (rule holds_stable [OF Cons.prems(2) l])
  have rest: "holds d r s'" if "attempt_all launch stop ds s1 = (x, s')" for x
    by (rule Cons.IH [OF that first])
  show ?case
    using Cons.prems l first rest
    by (auto split: outcome.splits prod.splits sum.splits if_splits)
qed simp

lemma attempt_all_holds:
  "attempt_all launch stop ds s = (Inr rs, s') \<Longrightarrow> (d, Inr r) \<in> set rs \<Longrightarrow> holds d r s'"
proof (induction ds arbitrary: s rs)
  case (Cons e ds)
  obtain o1 s1 where l: "launch e s = (o1, s1)" by (cases "launch e s")
  have here: "holds e r' s'" if "o1 = Done r'" "attempt_all launch stop ds s1 = (x, s')" for r' x
    using attempt_all_stable [OF that(2)] launch_holds that(1) l by blast
  show ?case
    using Cons.prems l here Cons.IH
    by (fastforce split: outcome.splits prod.splits sum.splits if_splits)
qed simp

end

end
