(* ===== verification/Rollout.thy ===== *)
theory Rollout
  imports ExecProperties Launch
begin

text \<open>
  What the execution service builds on top of create and dispatch: invocations of a function,
  runbooks, and the fleet operations (canary rollout in rings, deploy, invoke, deploy status).
  They call the handlers of \<open>Execution\<close> and \<open>ExecLifecycle\<close> directly, as the code does.
\<close>

subsection \<open>Create and dispatch\<close>

definition id_of :: "dict \<Rightarrow> string" where
  "id_of d = (case dget d ''id'' of JStr s \<Rightarrow> s | _ \<Rightarrow> [])"

definition create_and_dispatch ::
  "exec_cfg \<Rightarrow> exec_env \<Rightarrow> request \<Rightarrow> create_payload \<Rightarrow> exec_state \<Rightarrow> string res \<times> exec_state" where
  "create_and_dispatch cfg env req p st =
     (case create_execution cfg env req None p st of
        (Inl err, st1) \<Rightarrow> (Inl err, st1)
      | (Inr created, st1) \<Rightarrow>
          (case dispatch_execution cfg env (id_of created) (Some req) st1 of
             (Inl err, st2) \<Rightarrow> (Inl err, st2)
           | (Inr dispatched, st2) \<Rightarrow> (Inr (id_of created), st2)))"

definition invoke_payload :: "string \<Rightarrow> string option \<Rightarrow> json field \<Rightarrow> string field \<Rightarrow> create_payload" where
  "invoke_payload plugin_id device_id args mode =
     empty_payload\<lparr>p_type := Val ''function.invoke'',
       p_plugin_id := Val plugin_id,
       p_device_id := set_field device_id,
       p_args := Val (case fget args of None \<Rightarrow> JObj [] | Some v \<Rightarrow> jor v (JObj [])),
       p_mode := set_field (fget_or mode (Some ''async'')),
       p_command := Val (''function.invoke:'' @ plugin_id)\<rparr>"

text \<open>\<open>invoke_function\<close> and \<open>invoke_function_on_device\<close> return the dispatched execution;
  only the source of the device id differs.\<close>

definition invoke_function ::
  "exec_cfg \<Rightarrow> exec_env \<Rightarrow> request \<Rightarrow> string \<Rightarrow> string option \<Rightarrow> json field \<Rightarrow> string field \<Rightarrow>
     exec_state \<Rightarrow> string res \<times> exec_state" where
  "invoke_function cfg env req plugin_id device_id args mode st =
     create_and_dispatch cfg env req (invoke_payload plugin_id device_id args mode) st"

subsection \<open>Fleet members\<close>

text \<open>The fleet service serialises a string column, so an item whose \<open>device_id\<close> is missing or
  is no string counts as a malformed reply.\<close>

fun member_device :: "json \<Rightarrow> string res" where
  "member_device (JObj d) =
     (case dget d ''device_id'' of JStr s \<Rightarrow> Inr s | _ \<Rightarrow> Inl (PyExc ''KeyError''))"
| "member_device _ = Inl (PyExc ''TypeError'')"

definition fleet_unavailable :: "string \<Rightarrow> error" where
  "fleet_unavailable exc = Http 503 [JStr ''fleet-service unavailable: '', JStr exc]"

definition get_fleet_members :: "exec_env \<Rightarrow> string \<Rightarrow> string list res" where
  "get_fleet_members env fleet_id =
     (case fleet_members_reply env fleet_id of
        Unreachable exc \<Rightarrow> Inl (fleet_unavailable exc)
      | Reply c d \<Rightarrow>
          if c = 404 then Inl (http 404 ''fleet not found'')
          else if c < 200 \<or> 300 \<le> c then Inl (fleet_unavailable ''HTTPStatusError'')
          else (case dget_or d ''items'' (JArr []) of
                  JArr items \<Rightarrow>
                    (case map_res member_device items of
                       Inl (PyExc n) \<Rightarrow> Inl (fleet_unavailable n)
                     | Inl err \<Rightarrow> Inl err
                     | Inr ids \<Rightarrow> Inr ids)
                | _ \<Rightarrow> Inl (fleet_unavailable ''TypeError'')))"

subsection \<open>Canary rings\<close>

record rollout_request =
  ro_execution_type :: "string field"
  ro_command :: "string field"
  ro_plugin_id :: "string field"
  ro_args :: "json field"
  ro_mode :: "string field"
  ro_stop_on_failure :: "json field"
  ro_ring_sizes :: json
  ro_ring_size :: "json field"
  ro_max_rings :: json

function chunk_sizes :: "int \<Rightarrow> int \<Rightarrow> int list" where
  "chunk_sizes ring_size left =
     (if left \<le> 0 \<or> ring_size \<le> 0 then []
      else min ring_size left # chunk_sizes ring_size (left - min ring_size left))"
  by auto
termination
  by (relation "measure (\<lambda>(r, l). nat l)") auto

declare chunk_sizes.simps [simp del]

definition explicit_sizes :: "json list \<Rightarrow> int list res" where
  "explicit_sizes ring_sizes =
     (case map_res py_int ring_sizes of
        Inl err \<Rightarrow> Inl err
      | Inr ns \<Rightarrow>
          if filter (\<lambda>n. 0 < n) ns = []
          then Inl (http 400 ''ring_sizes must contain positive integers'')
          else Inr (filter (\<lambda>n. 0 < n) ns))"

definition uniform_sizes :: "int \<Rightarrow> json field \<Rightarrow> int list res" where
  "uniform_sizes fleet_size ring_size_field =
     (case (case ring_size_field of
              Absent \<Rightarrow> Inr 1 | Null \<Rightarrow> Inl (PyExc ''TypeError'') | Val v \<Rightarrow> py_int v) of
        Inl err \<Rightarrow> Inl err
      | Inr ring_size \<Rightarrow>
          if ring_size \<le> 0 then Inl (http 400 ''ring_size must be > 0'')
          else Inr (chunk_sizes ring_size fleet_size))"

definition planned_sizes :: "int \<Rightarrow> rollout_request \<Rightarrow> int list res" where
  "planned_sizes fleet_size ro =
     (case ro_ring_sizes ro of
        JArr (x # xs) \<Rightarrow> explicit_sizes (x # xs)
      | _ \<Rightarrow> uniform_sizes fleet_size (ro_ring_size ro))"

definition compute_canary_rings :: "int \<Rightarrow> rollout_request \<Rightarrow> int list res" where
  "compute_canary_rings fleet_size ro =
     (if fleet_size \<le> 0 then Inr []
      else case planned_sizes fleet_size ro of
        Inl err \<Rightarrow> Inl err
      | Inr sizes \<Rightarrow>
          if ro_max_rings ro = JNull
          then Inr (if sum_list sizes < fleet_size then sizes @ [fleet_size - sum_list sizes] else sizes)
          else (case py_int (ro_max_rings ro) of
                  Inl err \<Rightarrow> Inl err
                | Inr max_rings \<Rightarrow>
                    if max_rings \<le> 0 then Inl (http 400 ''max_rings must be > 0'')
                    else Inr (take (nat max_rings) sizes)))"

subsection \<open>Rollout\<close>

record ring_result =
  rr_ring :: nat
  rr_ring_size :: nat
  rr_dispatched :: nat
  rr_failed :: nat
  rr_results :: "(string, string) result list"

text \<open>The loop over the rings, each the next slice of the fleet: the results and whether it
  stopped early.\<close>

fun rollout_rings ::
  "(string \<Rightarrow> 's \<Rightarrow> string outcome \<times> 's) \<Rightarrow> bool \<Rightarrow> string list \<Rightarrow> int list \<Rightarrow> nat \<Rightarrow> nat \<Rightarrow> 's \<Rightarrow>
     (ring_result list \<times> bool) res \<times> 's" where
  "rollout_rings launch stop devices [] ring cursor st = (Inr ([], False), st)"
| "rollout_rings launch stop devices (n # sizes) ring cursor st =
     (let ring_devices = take (nat n) (drop cursor devices) in
      case attempt_all launch False ring_devices st of
        (Inl exc, st1) \<Rightarrow> (Inl exc, st1)
      | (Inr items, st1) \<Rightarrow>
          let r = \<lparr>rr_ring = ring, rr_ring_size = length ring_devices,
                   rr_dispatched = dispatched_count items, rr_failed = failed_count items,
                   rr_results = items\<rparr> in
          if stop \<and> 0 < failed_count items then (Inr ([r], True), st1)
          else (case rollout_rings launch stop devices sizes (Suc ring) (cursor + nat n) st1 of
                  (Inl exc, st2) \<Rightarrow> (Inl exc, st2)
                | (Inr (rs, stopped), st2) \<Rightarrow> (Inr (r # rs, stopped), st2)))"

record rollout_response =
  ror_rollout_id :: string
  ror_fleet_id :: string
  ror_execution_type :: "string option"
  ror_total :: nat
  ror_planned_rings :: nat
  ror_completed_rings :: nat
  ror_dispatched :: nat
  ror_failed :: nat
  ror_status :: string
  ror_rings :: "ring_result list"

definition rollout_payload ::
  "string option \<Rightarrow> string \<Rightarrow> rollout_request \<Rightarrow> string \<Rightarrow> create_payload" where
  "rollout_payload execution_type command ro device_id =
     empty_payload\<lparr>p_device_id := Val device_id,
       p_execution_type := set_field execution_type,
       p_command := Val command,
       p_mode := set_field (fget_or (ro_mode ro) (Some ''async'')),
       p_plugin_id := (if nonempty (fget (ro_plugin_id ro)) then ro_plugin_id ro else Absent),
       p_args := (case fget (ro_args ro) of None \<Rightarrow> Absent | Some JNull \<Rightarrow> Absent | Some v \<Rightarrow> Val v)\<rparr>"

text \<open>The command to run, or the reason the request is refused.\<close>

definition rollout_command :: "rollout_request \<Rightarrow> string res" where
  "rollout_command ro =
     (let execution_type = fget_or (ro_execution_type ro) (Some ''command'');
          command = fget (ro_command ro);
          plugin_id = fget (ro_plugin_id ro)
      in if is_function_type execution_type then
           if \<not> nonempty plugin_id
           then Inl (http 400 ''plugin_id is required for function rollouts'')
           else Inr (sor command (fstr execution_type @ '':'' @ fstr plugin_id))
         else if \<not> nonempty command
         then Inl (http 400 ''command is required for command rollouts'')
         else Inr (the command))"

definition rollout_launch ::
  "exec_cfg \<Rightarrow> exec_env \<Rightarrow> request \<Rightarrow> (string \<Rightarrow> create_payload) \<Rightarrow> string \<Rightarrow> exec_state \<Rightarrow>
     string outcome \<times> exec_state" where
  "rollout_launch cfg env req pay device_id st =
     (case create_and_dispatch cfg env req (pay device_id) st of (r, st1) \<Rightarrow> (caught r, st1))"

definition rollout_execution_to_fleet ::
  "exec_cfg \<Rightarrow> exec_env \<Rightarrow> request \<Rightarrow> string \<Rightarrow> rollout_request \<Rightarrow> exec_state \<Rightarrow>
     rollout_response res \<times> exec_state" where
  "rollout_execution_to_fleet cfg env req fleet_id ro st =
     (case get_fleet_members env fleet_id of
        Inl err \<Rightarrow> (Inl err, st)
      | Inr device_ids \<Rightarrow>
        if device_ids = [] then (Inl (http 400 ''fleet has no members''), st)
        else case rollout_command ro of
          Inl err \<Rightarrow> (Inl err, st)
        | Inr command \<Rightarrow>
          (case compute_canary_rings (int (length device_ids)) ro of
             Inl err \<Rightarrow> (Inl err, st)
           | Inr sizes \<Rightarrow>
             let execution_type = fget_or (ro_execution_type ro) (Some ''command'');
                 rollout_id = uuid4 env (uuids st);
                 pay = rollout_payload execution_type command ro
             in case rollout_rings (rollout_launch cfg env req pay)
                       (fbool (ro_stop_on_failure ro) True) device_ids sizes 1 0
                       (st\<lparr>uuids := Suc (uuids st)\<rparr>) of
                  (Inl exc, st1) \<Rightarrow> (Inl exc, st1)
                | (Inr (rings, stopped), st1) \<Rightarrow>
                    (Inr \<lparr>ror_rollout_id = rollout_id, ror_fleet_id = fleet_id,
                       ror_execution_type = execution_type,
                       ror_total = length device_ids,
                       ror_planned_rings = length sizes,
                       ror_completed_rings = length rings,
                       ror_dispatched = dispatched_count (concat (map rr_results rings)),
                       ror_failed = failed_count (concat (map rr_results rings)),
                       ror_status = (if stopped then ''stopped_on_failure'' else ''rolling_out''),
                       ror_rings = rings\<rparr>, st1)))"

end
