(* ===== verification/Drift.thy ===== *)
theory Drift
  imports Rollout
begin

text \<open>
  Drift analysis (\<open>analyze_drift\<close>, \<open>_parse_expected_plugins\<close>): which devices lack a
  successful or recent install of the expected functions, with a score from 0 to 100.
\<close>

subsection \<open>The request\<close>

record expected_plugin =
  xp_plugin_id :: string
  xp_max_age_hours :: "rat option"

text \<open>One item: None for a blank name, which is skipped. \<open>shw\<close> and \<open>flt\<close> are Python's text of a
  float or container and its reading of a float.\<close>

fun parse_expected_item ::
  "(json \<Rightarrow> string) \<Rightarrow> (string \<Rightarrow> rat option) \<Rightarrow> json \<Rightarrow> expected_plugin option res" where
  "parse_expected_item shw flt (JStr s) =
     Inr (if strip s = [] then None else Some \<lparr>xp_plugin_id = strip s, xp_max_age_hours = None\<rparr>)"
| "parse_expected_item shw flt (JObj item) =
     (let plugin_id = strip (py_str shw (dget_or item ''plugin_id'' (JStr []))) in
      if plugin_id = [] then Inl (http 400 ''expected_plugins item requires plugin_id'')
      else if dget item ''max_last_install_age_hours'' = JNull
      then Inr (Some \<lparr>xp_plugin_id = plugin_id, xp_max_age_hours = None\<rparr>)
      else case py_float flt (dget item ''max_last_install_age_hours'') of
        Inl err \<Rightarrow> Inl err
      | Inr max_age \<Rightarrow>
          if max_age \<le> 0 then Inl (http 400 ''max_last_install_age_hours must be > 0'')
          else Inr (Some \<lparr>xp_plugin_id = plugin_id, xp_max_age_hours = Some max_age\<rparr>))"
| "parse_expected_item shw flt _ = Inl (http 400 ''expected_plugins items must be string or object'')"

definition parse_expected_plugins ::
  "(json \<Rightarrow> string) \<Rightarrow> (string \<Rightarrow> rat option) \<Rightarrow> json \<Rightarrow> expected_plugin list res" where
  "parse_expected_plugins shw flt raw =
     (case raw of
        JArr (x # xs) \<Rightarrow>
          (case map_res (parse_expected_item shw flt) (x # xs) of
             Inl err \<Rightarrow> Inl err
           | Inr items \<Rightarrow>
               let parsed = concat (map (\<lambda>i. case i of None \<Rightarrow> [] | Some p \<Rightarrow> [p]) items) in
               if parsed = [] then Inl (http 400 ''expected_plugins produced no valid plugin_id'')
               else Inr parsed)
      | _ \<Rightarrow> Inl (http 400 ''expected_plugins must be a non-empty list''))"

subsection \<open>The analysis\<close>

datatype drift_issue =
    Missing_install string
  | Latest_install_failed string string
  | Stale_install string rat rat

record device_drift =
  dd_device_id :: string
  dd_drift_score :: int
  dd_missing :: nat
  dd_stale :: nat
  dd_failed :: nat
  dd_issues :: "drift_issue list"
  dd_has_drift :: bool

text \<open>The installs of a function on a device, the newest first: the sort is stable, and a row
  without a time sorts last.\<close>

definition newest_first :: "execution \<Rightarrow> nat \<times> int" where
  "newest_first e = (case ex_created_at e of None \<Rightarrow> (1, 0) | Some t \<Rightarrow> (0, - t))"

definition installs ::
  "execution list \<Rightarrow> string \<Rightarrow> string \<Rightarrow> execution list" where
  "installs rows device_id plugin_id =
     sort_key newest_first
       (filter (\<lambda>e. ex_execution_type e = Some ''function.install''
          \<and> ex_device_id e = Some device_id \<and> ex_plugin_id e = Some plugin_id) rows)"

definition age_hours :: "int \<Rightarrow> int \<Rightarrow> rat" where
  "age_hours t0 created = of_int (t0 - created) / 3600000000"

text \<open>The issues of one expected function: no successful install (and perhaps a failed latest
  one), or a latest install that is too old. The policy is the last one listed for the id.\<close>

definition plugin_issues ::
  "int \<Rightarrow> execution list \<Rightarrow> (string \<Rightarrow> rat option) \<Rightarrow> string \<Rightarrow> string \<Rightarrow> drift_issue list" where
  "plugin_issues t0 rows max_age device_id plugin_id =
     (let xs = installs rows device_id plugin_id in
      if \<not> (\<exists>e \<in> set xs. ex_status e = ''succeeded'') then
        Missing_install plugin_id #
        (case xs of [] \<Rightarrow> []
         | latest # _ \<Rightarrow>
             if ex_status latest \<in> {''failed'', ''timeout'', ''cancelled''}
             then [Latest_install_failed plugin_id (ex_status latest)] else [])
      else
        (case (max_age plugin_id, xs) of
           (Some h, latest # _) \<Rightarrow>
             (case ex_created_at latest of
                None \<Rightarrow> []
              | Some t \<Rightarrow>
                  if h \<noteq> 0 \<and> h < age_hours t0 t
                  then [Stale_install plugin_id (age_hours t0 t) h] else [])
         | _ \<Rightarrow> []))"

fun is_missing :: "drift_issue \<Rightarrow> bool" where
  "is_missing (Missing_install p) = True"
| "is_missing _ = False"

fun is_stale :: "drift_issue \<Rightarrow> bool" where
  "is_stale (Stale_install p a h) = True"
| "is_stale _ = False"

fun is_failed_issue :: "drift_issue \<Rightarrow> bool" where
  "is_failed_issue (Latest_install_failed p s) = True"
| "is_failed_issue _ = False"

definition drift_score :: "nat \<Rightarrow> nat \<Rightarrow> nat \<Rightarrow> int" where
  "drift_score missing stale failed = min 100 (int missing * 60 + int stale * 25 + int failed * 20)"

lemma drift_score_range:
  "0 \<le> drift_score m s f \<and> drift_score m s f \<le> 100
   \<and> (drift_score m s f = 0 \<longleftrightarrow> m = 0 \<and> s = 0 \<and> f = 0)"
  unfolding drift_score_def by linarith

definition analyze_device ::
  "int \<Rightarrow> execution list \<Rightarrow> expected_plugin list \<Rightarrow> string \<Rightarrow> device_drift" where
  "analyze_device t0 rows expected device_id =
     (let max_age = (\<lambda>p. case find (\<lambda>x. xp_plugin_id x = p) (rev expected) of
                           None \<Rightarrow> None | Some x \<Rightarrow> xp_max_age_hours x);
          issues = concat (map (\<lambda>x. plugin_issues t0 rows max_age device_id (xp_plugin_id x)) expected);
          missing = count_rows is_missing issues;
          stale = count_rows is_stale issues;
          failed = count_rows is_failed_issue issues;
          score = drift_score missing stale failed
      in \<lparr>dd_device_id = device_id, dd_drift_score = score, dd_missing = missing, dd_stale = stale,
          dd_failed = failed, dd_issues = issues, dd_has_drift = 0 < score\<rparr>)"

record drift_report =
  dp_expected :: "expected_plugin list"
  dp_total_devices :: nat
  dp_devices_with_drift :: nat
  dp_missing :: nat
  dp_stale :: nat
  dp_failed :: nat
  dp_devices :: "device_drift list"

definition drift_devices ::
  "exec_env \<Rightarrow> (json \<Rightarrow> string) \<Rightarrow> json \<Rightarrow> json \<Rightarrow> string list res" where
  "drift_devices env shw fleet_id device_ids =
     (if truthy fleet_id then get_fleet_members env (py_str shw fleet_id)
      else case device_ids of
        JArr (x # xs) \<Rightarrow> Inr (filter (\<lambda>d. d \<noteq> []) (map (\<lambda>d. strip (py_str shw d)) (x # xs)))
      | _ \<Rightarrow> Inl (http 400 ''provide fleet_id or non-empty device_ids''))"

definition analyze_drift ::
  "exec_env \<Rightarrow> (json \<Rightarrow> string) \<Rightarrow> (string \<Rightarrow> rat option) \<Rightarrow> dict \<Rightarrow> exec_state \<Rightarrow> drift_report res" where
  "analyze_drift env shw flt payload st =
     (case drift_devices env shw (dget payload ''fleet_id'') (dget payload ''device_ids'') of
        Inl err \<Rightarrow> Inl err
      | Inr device_ids \<Rightarrow>
        if device_ids = [] then Inl (http 400 ''no devices found for drift analysis'')
        else case parse_expected_plugins shw flt (dget payload ''expected_plugins'') of
          Inl err \<Rightarrow> Inl err
        | Inr expected \<Rightarrow>
            let ds = map (analyze_device (now env) (executions st) expected) device_ids in
            Inr \<lparr>dp_expected = expected, dp_total_devices = length device_ids,
              dp_devices_with_drift = count_rows dd_has_drift ds,
              dp_missing = sum_list (map dd_missing ds), dp_stale = sum_list (map dd_stale ds),
              dp_failed = sum_list (map dd_failed ds), dp_devices = ds\<rparr>)"

subsection \<open>Properties\<close>

lemma plugin_issues_counts:
  "count_rows is_missing (plugin_issues t0 rows m d p)
     + count_rows is_stale (plugin_issues t0 rows m d p) \<le> 1
   \<and> count_rows is_failed_issue (plugin_issues t0 rows m d p)
       \<le> count_rows is_missing (plugin_issues t0 rows m d p)"
  by (auto simp: plugin_issues_def Let_def split: list.splits option.splits)

lemma issue_kinds:
  "count_rows is_missing xs + count_rows is_stale xs + count_rows is_failed_issue xs = length xs"
proof (induction xs)
  case (Cons x xs)
  then show ?case by (cases x) auto
qed simp

lemma concat_counts:
  "count_rows is_missing (concat (map (\<lambda>x. plugin_issues t0 rows m d (f x)) es))
     + count_rows is_stale (concat (map (\<lambda>x. plugin_issues t0 rows m d (f x)) es)) \<le> length es
   \<and> count_rows is_failed_issue (concat (map (\<lambda>x. plugin_issues t0 rows m d (f x)) es))
       \<le> count_rows is_missing (concat (map (\<lambda>x. plugin_issues t0 rows m d (f x)) es))"
proof (induction es)
  case (Cons e es)
  then show ?case using plugin_issues_counts [of t0 rows m d "f e"] by simp
qed simp

lemma installs_newest:
  "installs rows d p = latest # rest \<Longrightarrow> e \<in> set rest \<Longrightarrow> newest_first latest \<le> newest_first e"
proof -
  assume i: "installs rows d p = latest # rest" and e: "e \<in> set rest"
  have "sorted (map newest_first (installs rows d p))" by (simp add: installs_def)
  with i e show ?thesis by (auto simp: sorted_wrt_map)
qed

lemma drift_score_sound_cond:
  "let r = analyze_device t0 rows expected d in
     0 \<le> dd_drift_score r \<and> dd_drift_score r \<le> 100
   \<and> (dd_drift_score r = 0 \<longleftrightarrow> dd_issues r = [])
   \<and> (dd_has_drift r \<longleftrightarrow> dd_issues r \<noteq> [])
   \<and> dd_missing r + dd_stale r \<le> length expected \<and> dd_failed r \<le> dd_missing r
   \<and> length (dd_issues r) = dd_missing r + dd_stale r + dd_failed r"
proof -
  let ?m = "\<lambda>p. case find (\<lambda>x. xp_plugin_id x = p) (rev expected) of
      None \<Rightarrow> None | Some x \<Rightarrow> xp_max_age_hours x"
  define issues where
    "issues = concat (map (\<lambda>x. plugin_issues t0 rows ?m d (xp_plugin_id x)) expected)"
  define r where "r = analyze_device t0 rows expected d"
  have fields: "dd_missing r = count_rows is_missing issues" "dd_stale r = count_rows is_stale issues"
      "dd_failed r = count_rows is_failed_issue issues" "dd_issues r = issues"
      "dd_drift_score r = drift_score (dd_missing r) (dd_stale r) (dd_failed r)"
      "dd_has_drift r \<longleftrightarrow> 0 < dd_drift_score r"
    by (simp_all add: r_def issues_def analyze_device_def Let_def)
  have len: "length issues = dd_missing r + dd_stale r + dd_failed r"
    using issue_kinds [of issues] fields by simp
  have "dd_missing r + dd_stale r \<le> length expected \<and> dd_failed r \<le> dd_missing r"
    using concat_counts [of t0 rows ?m d xp_plugin_id expected] fields by (simp add: issues_def)
  moreover have none: "issues = [] \<longleftrightarrow> dd_missing r = 0 \<and> dd_stale r = 0 \<and> dd_failed r = 0"
    using len by (metis add_is_0 length_0_conv)
  moreover have score: "0 \<le> dd_drift_score r \<and> dd_drift_score r \<le> 100
      \<and> (dd_drift_score r = 0 \<longleftrightarrow> issues = [])"
    using drift_score_range [of "dd_missing r" "dd_stale r" "dd_failed r"] none
    unfolding fields(5) by simp
  moreover have "dd_has_drift r \<longleftrightarrow> issues \<noteq> []"
    unfolding fields(6) using score by linarith
  ultimately show ?thesis
    using len fields(4) unfolding Let_def r_def [symmetric] by simp
qed

text \<open>The drift score of a device is between 0 and 100 and is 0 exactly when the device has no
  issue; each expected function counts at most once as missing or stale, a failed latest install
  only where the install is missing; and a device drifts exactly when some expected function has
  an issue.\<close>

theorem drift_score_sound:
  "let r = analyze_device t0 rows expected d in
     0 \<le> dd_drift_score r \<and> dd_drift_score r \<le> 100
   \<and> (dd_drift_score r = 0 \<longleftrightarrow> dd_issues r = [])
   \<and> (dd_has_drift r \<longleftrightarrow> dd_issues r \<noteq> [])
   \<and> dd_missing r + dd_stale r \<le> length expected \<and> dd_failed r \<le> dd_missing r
   \<and> length (dd_issues r) = dd_missing r + dd_stale r + dd_failed r"
  by (rule drift_score_sound_cond)

text \<open>Without age limits, a device has no drift exactly when every expected function has a
  successful install on it.\<close>

theorem drift_means_missing_install:
  assumes "list_all (\<lambda>x. xp_max_age_hours x = None) expected"
  shows "\<not> dd_has_drift (analyze_device t0 rows expected d) \<longleftrightarrow>
     (\<forall>x \<in> set expected. \<exists>e \<in> set rows. ex_execution_type e = Some ''function.install''
        \<and> ex_device_id e = Some d \<and> ex_plugin_id e = Some (xp_plugin_id x)
        \<and> ex_status e = ''succeeded'')"
proof -
  let ?m = "\<lambda>p. case find (\<lambda>x. xp_plugin_id x = p) (rev expected) of
      None \<Rightarrow> None | Some x \<Rightarrow> xp_max_age_hours x"
  have m: "?m p = None" for p
    using assms by (auto simp: list_all_iff dest: find_Some_mem split: option.split)
  have one: "plugin_issues t0 rows ?m d p = [] \<longleftrightarrow>
      (\<exists>e \<in> set rows. ex_execution_type e = Some ''function.install''
        \<and> ex_device_id e = Some d \<and> ex_plugin_id e = Some p \<and> ex_status e = ''succeeded'')" for p
    by (auto simp: plugin_issues_def Let_def m installs_def)
  have "dd_issues (analyze_device t0 rows expected d)
      = concat (map (\<lambda>x. plugin_issues t0 rows ?m d (xp_plugin_id x)) expected)"
    by (simp add: analyze_device_def Let_def)
  then have empty: "dd_issues (analyze_device t0 rows expected d) = [] \<longleftrightarrow>
      (\<forall>x \<in> set expected. plugin_issues t0 rows ?m d (xp_plugin_id x) = [])" by auto
  have "dd_has_drift (analyze_device t0 rows expected d) \<longleftrightarrow>
      dd_issues (analyze_device t0 rows expected d) \<noteq> []"
    using drift_score_sound_cond [of t0 rows expected d] unfolding Let_def by blast
  then show ?thesis unfolding empty one by blast
qed

lemma drift_means_missing_install_witness:
  "dd_has_drift (analyze_device 0 [] [\<lparr>xp_plugin_id = ''p'', xp_max_age_hours = None\<rparr>] ''d'')"
  using drift_means_missing_install [of "[\<lparr>xp_plugin_id = ''p'', xp_max_age_hours = None\<rparr>]" 0 "[]" "''d''"]
  by simp

end
