(* ===== verification/FleetOps.thy ===== *)
theory FleetOps
  imports Rollout
begin

text \<open>
  Runbooks, the fleet deploy and invoke loops, the deploy status and the operator's aggregations
  of the execution service.
\<close>

subsection \<open>Runbooks\<close>

record runbook_step =
  st_name :: "string field"
  st_execution_type :: "string field"
  st_command :: "string field"
  st_plugin_id :: "string field"
  st_mode :: "string field"
  st_args :: "json field"

text \<open>A step that is no object is None; \<open>steps\<close> that is no list is None.\<close>

record runbook_request =
  rb_device_id :: "string field"
  rb_steps :: "runbook_step option list option"
  rb_stop_on_failure :: "json field"
  rb_name :: "string field"

definition step_label :: "runbook_step \<Rightarrow> string" where
  "step_label step = fstr (fget_or (st_name step) (Some ''unnamed''))"

definition build_runbook_step_payload :: "runbook_step \<Rightarrow> string \<Rightarrow> create_payload res" where
  "build_runbook_step_payload step device_id =
     (let execution_type = fstr (fget_or (st_execution_type step) (Some ''command''));
          command = fget (st_command step);
          plugin_id = fget (st_plugin_id step);
          payload = (\<lambda>c. empty_payload\<lparr>p_device_id := Val device_id,
             p_execution_type := Val execution_type,
             p_command := Val c,
             p_mode := set_field (fget_or (st_mode step) (Some ''async'')),
             p_plugin_id := (if nonempty plugin_id then st_plugin_id step else Absent),
             p_args := st_args step\<rparr>)
      in if is_function_type (Some execution_type) then
           if \<not> nonempty plugin_id
           then Inl (http 400 (''step '' @ quoted (step_label step) @ '' requires plugin_id''))
           else Inr (payload (sor command (execution_type @ '':'' @ fstr plugin_id)))
         else if \<not> nonempty command
         then Inl (http 400 (''step '' @ quoted (step_label step) @ '' requires command''))
         else Inr (payload (the command)))"

text \<open>One step: a step that is no object ends the request (the exception is raised outside the
  try block), any other HTTP error is recorded.\<close>

definition runbook_launch ::
  "exec_cfg \<Rightarrow> exec_env \<Rightarrow> request \<Rightarrow> string \<Rightarrow> nat \<times> runbook_step option \<Rightarrow> exec_state \<Rightarrow>
     string outcome \<times> exec_state" where
  "runbook_launch cfg env req device_id istep st =
     (case istep of
        (idx, None) \<Rightarrow> (Abort (Http 400 [JStr ''step '', JInt (int idx), JStr '' must be an object'']), st)
      | (idx, Some step) \<Rightarrow>
          (case build_runbook_step_payload step device_id of
             Inl err \<Rightarrow> (caught (Inl err), st)
           | Inr p \<Rightarrow> (case create_and_dispatch cfg env req p st of (r, st1) \<Rightarrow> (caught r, st1))))"

record runbook_response =
  rbr_runbook_id :: string
  rbr_name :: "string option"
  rbr_device_id :: string
  rbr_total_steps :: nat
  rbr_completed_steps :: nat
  rbr_dispatched :: nat
  rbr_failed :: nat
  rbr_status :: string
  rbr_results :: "(nat \<times> runbook_step option, string) result list"

definition execute_runbook ::
  "exec_cfg \<Rightarrow> exec_env \<Rightarrow> request \<Rightarrow> runbook_request \<Rightarrow> exec_state \<Rightarrow>
     runbook_response res \<times> exec_state" where
  "execute_runbook cfg env req rb st =
     (if \<not> nonempty (fget (rb_device_id rb)) then (Inl (http 400 ''device_id is required''), st)
      else case rb_steps rb of
        None \<Rightarrow> (Inl (http 400 ''steps must be a non-empty list''), st)
      | Some steps \<Rightarrow>
        if steps = [] then (Inl (http 400 ''steps must be a non-empty list''), st)
        else
        let device_id = the (fget (rb_device_id rb));
            stop = fbool (rb_stop_on_failure rb) True
        in case attempt_all (runbook_launch cfg env req device_id) stop
                  (enumerate 1 steps) (st\<lparr>uuids := Suc (uuids st)\<rparr>) of
             (Inl exc, st1) \<Rightarrow> (Inl exc, st1)
           | (Inr rs, st1) \<Rightarrow>
               (Inr \<lparr>rbr_runbook_id = uuid4 env (uuids st),
                  rbr_name = fget_or (rb_name rb) (Some ''runbook''),
                  rbr_device_id = device_id,
                  rbr_total_steps = length steps,
                  rbr_completed_steps = length rs,
                  rbr_dispatched = dispatched_count rs,
                  rbr_failed = failed_count rs,
                  rbr_status = (if 0 < failed_count rs \<and> stop then ''stopped_on_failure''
                                else ''running''),
                  rbr_results = rs\<rparr>, st1))"

subsection \<open>Deploy\<close>

definition install_payload :: "string \<Rightarrow> string \<Rightarrow> create_payload" where
  "install_payload function_id device_id =
     empty_payload\<lparr>p_type := Val ''function.install'', p_plugin_id := Val function_id,
       p_device_id := Val device_id, p_command := Val (''function.install:'' @ function_id)\<rparr>"

text \<open>The loop calls \<open>dispatch_execution(exec_id)\<close> and \<open>cancel_execution(eid)\<close> without
  their required argument \<open>request\<close>: Python raises TypeError before either runs. The cancel
  loop swallows it.\<close>

definition dispatch_without_request :: "string \<Rightarrow> exec_state \<Rightarrow> dict res \<times> exec_state" where
  "dispatch_without_request execution_id st = (Inl (PyExc ''TypeError''), st)"

definition cancel_without_request :: "string \<Rightarrow> exec_state \<Rightarrow> dict res \<times> exec_state" where
  "cancel_without_request execution_id st = (Inl (PyExc ''TypeError''), st)"

definition deploy_device ::
  "exec_cfg \<Rightarrow> exec_env \<Rightarrow> request \<Rightarrow> string \<Rightarrow> string \<Rightarrow> exec_state \<Rightarrow> string res \<times> exec_state" where
  "deploy_device cfg env req function_id device_id st =
     (case create_execution cfg env req None (install_payload function_id device_id) st of
        (Inl err, st1) \<Rightarrow> (Inl err, st1)
      | (Inr created, st1) \<Rightarrow>
          (case dispatch_without_request (id_of created) st1 of
             (Inl err, st2) \<Rightarrow> (Inl err, st2)
           | (Inr d, st2) \<Rightarrow> (Inr (id_of created), st2)))"

fun deploy_loop ::
  "exec_cfg \<Rightarrow> exec_env \<Rightarrow> request \<Rightarrow> string \<Rightarrow> bool \<Rightarrow> string list \<Rightarrow> string list \<Rightarrow> exec_state \<Rightarrow>
     string list res \<times> exec_state" where
  "deploy_loop cfg env req function_id stop created_ids [] st = (Inr created_ids, st)"
| "deploy_loop cfg env req function_id stop created_ids (d # ds) st =
     (case deploy_device cfg env req function_id d st of
        (Inl (PyExc n), st1) \<Rightarrow> (Inl (PyExc n), st1)
      | (Inl (Http c detail), st1) \<Rightarrow>
          if stop
          then (Inl (Http c (JStr (''deploy stopped at device '' @ d @ '': '') # detail)),
                fold (\<lambda>i s. snd (cancel_without_request i s)) created_ids st1)
          else deploy_loop cfg env req function_id stop created_ids ds st1
      | (Inr i, st1) \<Rightarrow> deploy_loop cfg env req function_id stop (created_ids @ [i]) ds st1)"

record deploy_response =
  dr_deployment_id :: string
  dr_fleet_id :: string
  dr_function_id :: string
  dr_total :: nat
  dr_dispatched :: nat
  dr_execution_ids :: "string list"
  dr_status :: string

definition deploy_function_to_fleet ::
  "exec_cfg \<Rightarrow> exec_env \<Rightarrow> request \<Rightarrow> string \<Rightarrow> string \<Rightarrow> json field \<Rightarrow> exec_state \<Rightarrow>
     deploy_response res \<times> exec_state" where
  "deploy_function_to_fleet cfg env req fleet_id function_id stop_on_failure st =
     (case get_fleet_members env fleet_id of
        Inl err \<Rightarrow> (Inl err, st)
      | Inr device_ids \<Rightarrow>
        if device_ids = [] then (Inl (http 400 ''fleet has no members''), st)
        else case deploy_loop cfg env req function_id (fbool stop_on_failure False) [] device_ids
                    (st\<lparr>uuids := Suc (uuids st)\<rparr>) of
          (Inl err, st1) \<Rightarrow> (Inl err, st1)
        | (Inr created_ids, st1) \<Rightarrow>
            (Inr \<lparr>dr_deployment_id = uuid4 env (uuids st), dr_fleet_id = fleet_id,
               dr_function_id = function_id, dr_total = length device_ids,
               dr_dispatched = length created_ids, dr_execution_ids = created_ids,
               dr_status = ''deploying''\<rparr>, st1))"

definition install_rows :: "string \<Rightarrow> string list \<Rightarrow> exec_state \<Rightarrow> execution list" where
  "install_rows function_id device_ids st =
     filter (\<lambda>e. ex_plugin_id e = Some function_id
        \<and> ex_execution_type e = Some ''function.install''
        \<and> (\<exists>d \<in> set device_ids. ex_device_id e = Some d)) (executions st)"

definition status_count :: "string \<Rightarrow> execution list \<Rightarrow> nat" where
  "status_count s rows = count_rows (\<lambda>e. ex_status e = s) rows"

record deploy_status =
  ds_total :: nat
  ds_installed :: nat
  ds_pending :: nat
  ds_failed :: nat
  ds_by_status :: "(string \<times> nat) list"

definition fleet_deploy_status ::
  "exec_env \<Rightarrow> string \<Rightarrow> string \<Rightarrow> exec_state \<Rightarrow> deploy_status res" where
  "fleet_deploy_status env fleet_id function_id st =
     (case get_fleet_members env fleet_id of
        Inl err \<Rightarrow> Inl err
      | Inr device_ids \<Rightarrow>
          let rows = install_rows function_id device_ids st in
          Inr \<lparr>ds_total = length device_ids,
            ds_installed = status_count ''succeeded'' rows,
            ds_pending = status_count ''queued'' rows + status_count ''dispatched'' rows
                         + status_count ''running'' rows,
            ds_failed = status_count ''failed'' rows,
            ds_by_status = map (\<lambda>s. (s, status_count s rows)) (remdups (map ex_status rows))\<rparr>)"

subsection \<open>Invoke on a fleet\<close>

definition invoke_function_on_fleet ::
  "exec_cfg \<Rightarrow> exec_env \<Rightarrow> request \<Rightarrow> string \<Rightarrow> string \<Rightarrow> json field \<Rightarrow> string field \<Rightarrow> exec_state \<Rightarrow>
     (nat \<times> (string, string) result list) res \<times> exec_state" where
  "invoke_function_on_fleet cfg env req fleet_id function_id args mode st =
     (case get_fleet_members env fleet_id of
        Inl err \<Rightarrow> (Inl err, st)
      | Inr device_ids \<Rightarrow>
        if device_ids = [] then (Inl (http 400 ''fleet has no members''), st)
        else case attempt_all
                    (rollout_launch cfg env req (\<lambda>d. invoke_payload function_id (Some d) args mode))
                    False device_ids st of
          (Inl exc, st1) \<Rightarrow> (Inl exc, st1)
        | (Inr rs, st1) \<Rightarrow> (Inr (length device_ids, rs), st1))"

subsection \<open>Operator aggregations\<close>

definition require_operator :: "request \<Rightarrow> unit res" where
  "require_operator req =
     (if rq_is_operator req = Some True then Inr () else Inl (http 403 ''operator role required''))"

text \<open>One item per plugin and status, with the number of its rows.\<close>

definition operator_function_deployments ::
  "request \<Rightarrow> exec_state \<Rightarrow> ((string option \<times> string) \<times> nat) list res" where
  "operator_function_deployments req st =
     (case require_operator req of
        Inl err \<Rightarrow> Inl err
      | Inr _ \<Rightarrow>
          let rows = filter (\<lambda>e. ex_execution_type e = Some ''function.install'') (executions st);
              group = (\<lambda>e. (ex_plugin_id e, ex_status e))
          in Inr (map (\<lambda>g. (g, count_rows (\<lambda>e. group e = g) rows)) (remdups (map group rows))))"

definition operator_function_failures ::
  "exec_env \<Rightarrow> request \<Rightarrow> int \<Rightarrow> exec_state \<Rightarrow> execution list res" where
  "operator_function_failures env req days st =
     (case require_operator req of
        Inl err \<Rightarrow> Inl err
      | Inr _ \<Rightarrow>
          Inr (sort_key (\<lambda>e. - the (ex_created_at e))
            (filter (\<lambda>e. is_function_type (ex_execution_type e) \<and> ex_status e = ''failed''
                \<and> (case ex_created_at e of None \<Rightarrow> False
                   | Some t \<Rightarrow> now env - days * 86400 * 1000000 \<le> t)) (executions st))))"

text \<open>Newest first; a filter that is empty does not filter, a negative limit is an error of the database.\<close>

definition operator_function_invocations ::
  "request \<Rightarrow> string option \<Rightarrow> string option \<Rightarrow> string option \<Rightarrow> int \<Rightarrow> exec_state \<Rightarrow> execution list res" where
  "operator_function_invocations req plugin_id device_id status limit st =
     (case require_operator req of
        Inl err \<Rightarrow> Inl err
      | Inr _ \<Rightarrow>
          if limit < 0 then Inl (PyExc ''ProgrammingError'')
          else Inr (take (nat limit)
            (sort_key (\<lambda>e. case ex_created_at e of None \<Rightarrow> (0 :: nat, 0) | Some t \<Rightarrow> (1, - t))
              (filter (\<lambda>e. ex_execution_type e = Some ''function.invoke''
                  \<and> (nonempty plugin_id \<longrightarrow> ex_plugin_id e = plugin_id)
                  \<and> (nonempty device_id \<longrightarrow> ex_device_id e = device_id)
                  \<and> (nonempty status \<longrightarrow> Some (ex_status e) = status)) (executions st)))))"

text \<open>The probe of the function runtime: an exception, or a status with a body that may be no JSON.\<close>

definition operator_runtime_health :: "request \<Rightarrow> string \<Rightarrow> string + (nat \<times> (string + json)) \<Rightarrow> dict res" where
  "operator_runtime_health req runtime_url probe =
     (let report = (\<lambda>status detail. [(''runtime_url'', JStr runtime_url), (''status'', JStr status), (''detail'', detail)]) in
      case require_operator req of
        Inl err \<Rightarrow> Inl err
      | Inr _ \<Rightarrow> Inr (case probe of
          Inl exc \<Rightarrow> report ''unreachable'' (JStr exc)
        | Inr (sc, Inl exc) \<Rightarrow> report ''unreachable'' (JStr exc)
        | Inr (sc, Inr body) \<Rightarrow> report (if sc = 200 then ''healthy'' else ''unhealthy'') body))"

end
