(* ===== verification/RolloutProperties.thy ===== *)
theory RolloutProperties
  imports FleetOps
begin

text \<open>
  The launches of the execution service satisfy the interface \<open>launcher\<close>: their effect is a
  sequence of handler steps, and an execution they report as dispatched is a dispatched row of
  its device that later launches do not touch. From it: rollouts, runbooks and fleet invocations
  report what is in the table, canary rings partition the fleet, and the fleet deploy fails.
\<close>

subsection \<open>Launching\<close>

definition dispatched_on :: "string \<Rightarrow> string \<Rightarrow> exec_state \<Rightarrow> bool" where
  "dispatched_on device_id i st \<longleftrightarrow>
     (\<exists>e. tbl_get ex_id i (executions st) = Some e \<and> ex_device_id e = Some device_id
        \<and> ex_status e = ''dispatched'' \<and> ex_dispatched_at e \<noteq> None)"

lemma id_of_to_dict [simp]: "id_of (execution_to_dict b e) = ex_id e"
  by (simp add: id_of_def execution_to_dict_def dget_def)

lemma dispatch_other:
  "j \<noteq> i \<Longrightarrow> tbl_get ex_id j (executions (snd (dispatch_execution cfg env i req st)))
     = tbl_get ex_id j (executions st)"
  unfolding dispatch_execution_def Let_def
  by (auto simp: frame_simps tbl_get_put mark_dispatched_def dest: tbl_get_key
      split: option.split sum.split)

definition grown :: "execution list \<Rightarrow> execution list \<Rightarrow> bool" where
  "grown rows rows' \<longleftrightarrow> rows' = rows \<or> (\<exists>x. ex_id x \<notin> ex_id ` set rows \<and> rows' = rows @ [x])"

lemma insert_grown:
  "insert_execution ex s = Inr s' \<Longrightarrow> executions s = rows \<Longrightarrow> grown rows (executions s')"
proof -
  assume "insert_execution ex s = Inr s'" "executions s = rows"
  then have "executions s' = rows @ [ex] \<and> ex_id ex \<notin> ex_id ` set rows"
    by (auto simp: insert_execution_def tbl_add_def split: if_splits)
  then show ?thesis by (auto simp: grown_def)
qed

lemma create_grown:
  "grown (executions st) (executions (snd (create_execution cfg env req t p st)))"
proof -
  have refl: "grown rows rows" for rows by (simp add: grown_def)
  show ?thesis
    unfolding create_execution_def Let_def
    by (auto simp: frame_simps refl intro: insert_grown split: option.split sum.split)
qed

lemma grown_get: "grown rows rows' \<Longrightarrow> tbl_get ex_id j rows = Some e \<Longrightarrow> tbl_get ex_id j rows' = Some e"
  by (auto simp: grown_def execs.get_add_old [unfolded tbl_add_def])

text \<open>Creating and dispatching leaves every earlier row as it was, and on success the new row is
  dispatched.\<close>

lemma create_fresh:
  assumes c: "create_execution cfg env req t p st = (Inr d, st1)"
    and key: "fget (p_idempotency_key p) = None"
  shows "tbl_get ex_id (id_of d) (executions st) = None
     \<and> (\<exists>e. tbl_get ex_id (id_of d) (executions st1) = Some e \<and> ex_device_id e = fget (p_device_id p)
          \<and> ex_status e = ''queued'')"
proof -
  let ?x = "new_execution cfg env req t p (uuids st)"
  from c have new: "id_of d = ex_id ?x \<and> executions st1 = executions st @ [?x]"
  proof (cases rule: create_ok_cases)
    case (replay e)
    with key show ?thesis by (simp add: find_idempotent_def)
  next
    case fresh
    then show ?thesis by (simp del: new_execution_simps)
  qed
  moreover have "grown (executions st) (executions st1)"
    using create_grown [of st cfg env req t p] c by simp
  ultimately have none: "tbl_get ex_id (id_of d) (executions st) = None"
    by (auto simp: grown_def tbl_get_None)
  with new have "tbl_get ex_id (id_of d) (executions st1) = Some ?x"
    by (simp add: execs.get_add_fresh [unfolded tbl_add_def] del: new_execution_simps)
  with none show ?thesis by simp
qed

lemma create_and_dispatch_steps:
  assumes "create_and_dispatch cfg env req p st = (r, st')"
  shows "(exec_step cfg)\<^sup>*\<^sup>* st st'"
proof -
  obtain r1 st1 where c: "create_execution cfg env req None p st = (r1, st1)"
    by (cases "create_execution cfg env req None p st")
  have one: "exec_step cfg st st1" using exec_step.create [of cfg st env req None p] c by simp
  show ?thesis
  proof (cases r1)
    case (Inl err)
    with assms c one show ?thesis by (simp add: create_and_dispatch_def)
  next
    case (Inr d)
    have "st' = snd (dispatch_execution cfg env (id_of d) (Some req) st1)"
      using assms c Inr by (auto simp: create_and_dispatch_def split: prod.splits sum.splits)
    then have "exec_step cfg st1 st'" by (simp add: exec_step.dispatch)
    with one show ?thesis by (meson rtranclp.rtrancl_into_rtrancl rtranclp.rtrancl_refl)
  qed
qed

lemma create_and_dispatch_old:
  assumes "create_and_dispatch cfg env req p st = (r, st')" "fget (p_idempotency_key p) = None"
    and "tbl_get ex_id j (executions st) = Some e"
  shows "tbl_get ex_id j (executions st') = Some e"
proof -
  obtain r1 st1 where c: "create_execution cfg env req None p st = (r1, st1)"
    by (cases "create_execution cfg env req None p st")
  have one: "tbl_get ex_id j (executions st1) = Some e"
    using grown_get [OF create_grown assms(3), of cfg env req None p] c by simp
  show ?thesis
  proof (cases r1)
    case (Inl err)
    with assms(1) c one show ?thesis by (simp add: create_and_dispatch_def)
  next
    case (Inr d)
    have "st' = snd (dispatch_execution cfg env (id_of d) (Some req) st1)"
      using assms(1) c Inr by (auto simp: create_and_dispatch_def split: prod.splits sum.splits)
    moreover have "j \<noteq> id_of d"
      using create_fresh [OF c [unfolded Inr] assms(2)] assms(3) by auto
    ultimately show ?thesis using one by (simp add: dispatch_other)
  qed
qed

lemma create_and_dispatch_done:
  assumes "create_and_dispatch cfg env req p st = (Inr i, st')" "fget (p_idempotency_key p) = None"
    and "fget (p_device_id p) = Some d"
  shows "dispatched_on d i st'"
proof -
  from assms(1) obtain created st1 x where c: "create_execution cfg env req None p st = (Inr created, st1)"
    and disp: "dispatch_execution cfg env (id_of created) (Some req) st1 = (Inr x, st')"
    and i: "i = id_of created"
    by (auto simp: create_and_dispatch_def split: prod.splits sum.splits)
  from create_fresh [OF c assms(2)] obtain e where
    e: "tbl_get ex_id i (executions st1) = Some e" "ex_device_id e = Some d"
    using assms(3) i by auto
  have "tbl_get ex_id i (executions st') = Some (mark_dispatched env e)"
    using dispatch_success_cond [OF e(1), of cfg env "Some req"] disp i by simp
  with e(2) show ?thesis by (simp add: dispatched_on_def mark_dispatched_def)
qed

lemma caught_Done [simp]: "caught r = Done i \<longleftrightarrow> r = Inr i"
  by (cases r rule: caught.cases) auto

lemma dispatched_on_keep:
  "dispatched_on d i st \<Longrightarrow>
   (\<And>e. tbl_get ex_id i (executions st) = Some e \<Longrightarrow> tbl_get ex_id i (executions st') = Some e) \<Longrightarrow>
   dispatched_on d i st'"
  by (auto simp: dispatched_on_def)

text \<open>Payloads without an idempotency key, addressed to their target.\<close>

lemma rollout_launcher:
  assumes "\<And>d. fget (p_idempotency_key (pay d)) = None" "\<And>d. fget (p_device_id (pay d)) = Some d"
  shows "launcher (rollout_launch cfg env req pay) (exec_step cfg)\<^sup>*\<^sup>* dispatched_on"
proof
  fix s t u :: exec_state and d e i x
  show "(exec_step cfg)\<^sup>*\<^sup>* s s" by simp
  show "(exec_step cfg)\<^sup>*\<^sup>* s t \<Longrightarrow> (exec_step cfg)\<^sup>*\<^sup>* t u \<Longrightarrow> (exec_step cfg)\<^sup>*\<^sup>* s u" by simp
  show "rollout_launch cfg env req pay d s = (x, t) \<Longrightarrow> (exec_step cfg)\<^sup>*\<^sup>* s t"
    by (auto simp: rollout_launch_def dest: create_and_dispatch_steps split: prod.splits)
  show "rollout_launch cfg env req pay d s = (Done i, t) \<Longrightarrow> dispatched_on d i t"
    using create_and_dispatch_done assms by (auto simp: rollout_launch_def split: prod.splits)
  show "dispatched_on d i s \<Longrightarrow> rollout_launch cfg env req pay e s = (x, t) \<Longrightarrow> dispatched_on d i t"
    using create_and_dispatch_old assms(1) dispatched_on_keep
    by (auto simp: rollout_launch_def split: prod.splits)
qed

subsection \<open>Rings\<close>

fun ring_slices :: "nat \<Rightarrow> int list \<Rightarrow> 'd list \<Rightarrow> 'd list list" where
  "ring_slices cursor [] devices = []"
| "ring_slices cursor (n # sizes) devices =
     take (nat n) (drop cursor devices) # ring_slices (cursor + nat n) sizes devices"

lemma concat_ring_slices:
  "(\<And>n. n \<in> set sizes \<Longrightarrow> 0 < n) \<Longrightarrow>
     concat (ring_slices cursor sizes devices) = take (nat (sum_list sizes)) (drop cursor devices)"
proof (induction sizes arbitrary: cursor)
  case (Cons n sizes)
  have "0 \<le> sum_list sizes" using Cons.prems by (intro sum_list_nonneg) (auto simp: less_imp_le)
  moreover have "0 < n" using Cons.prems by simp
  ultimately have "nat (n + sum_list sizes) = nat n + nat (sum_list sizes)" by simp
  with Cons show ?case by (simp add: take_add add.commute)
qed simp

lemma chunk_sizes_sum:
  "0 < r \<Longrightarrow> 0 \<le> left \<Longrightarrow> sum_list (chunk_sizes r left) = left
     \<and> list_all (\<lambda>n. 0 < n \<and> n \<le> r) (chunk_sizes r left)"
proof (induction r left rule: chunk_sizes.induct)
  case (1 r left)
  show ?case
  proof (cases "left = 0")
    case True
    then show ?thesis by (simp add: chunk_sizes.simps [of r 0])
  next
    case False
    with 1 show ?thesis by (simp add: chunk_sizes.simps [of r left])
  qed
qed

lemma explicit_sizes_pos: "explicit_sizes xs = Inr sizes \<Longrightarrow> list_all (\<lambda>n. 0 < n) sizes"
  by (auto simp: explicit_sizes_def list_all_iff split: sum.splits if_splits)

lemma uniform_sizes_chunk:
  "uniform_sizes k f = Inr sizes \<Longrightarrow> \<exists>r. 0 < r \<and> sizes = chunk_sizes r k"
  unfolding uniform_sizes_def by (auto simp: not_le split: sum.splits if_splits)

lemma planned_sizes_cases:
  assumes "planned_sizes k ro = Inr sizes"
  shows "explicit_sizes (case ro_ring_sizes ro of JArr xs \<Rightarrow> xs | _ \<Rightarrow> []) = Inr sizes
    \<or> uniform_sizes k (ro_ring_size ro) = Inr sizes"
  using assms unfolding planned_sizes_def
  by (cases "ro_ring_sizes ro") (auto split: list.splits)

lemma planned_sizes_pos:
  assumes "planned_sizes k ro = Inr sizes" "0 < k"
  shows "list_all (\<lambda>n. 0 < n) sizes"
  using planned_sizes_cases [OF assms(1)]
proof
  assume "uniform_sizes k (ro_ring_size ro) = Inr sizes"
  then obtain r where "0 < r" "sizes = chunk_sizes r k" using uniform_sizes_chunk by blast
  then show ?thesis using chunk_sizes_sum [of r k] assms(2) by (simp add: list_all_iff)
qed (rule explicit_sizes_pos)

lemma canary_rings_pos:
  assumes "compute_canary_rings k ro = Inr sizes"
  shows "list_all (\<lambda>n. 0 < n) sizes"
proof (cases "0 < k")
  case True
  then obtain ns where ns: "planned_sizes k ro = Inr ns"
    using assms by (auto simp: compute_canary_rings_def split: sum.splits)
  show ?thesis
    using planned_sizes_pos [OF ns True] assms ns True
    by (auto simp: compute_canary_rings_def list_all_iff split: sum.splits if_splits
        dest: in_set_takeD)
qed (use assms in \<open>simp add: compute_canary_rings_def\<close>)

lemma canary_rings_cover:
  assumes "compute_canary_rings k ro = Inr sizes" "ro_max_rings ro = JNull"
  shows "k \<le> sum_list sizes"
proof (cases "0 < k")
  case True
  with assms show ?thesis
    by (auto simp: compute_canary_rings_def split: sum.splits if_splits)
qed (use assms in \<open>simp add: compute_canary_rings_def\<close>)

lemma rollout_rings_slices:
  "rollout_rings launch stop devices sizes ring cursor st = (Inr (rs, stopped), st') \<Longrightarrow>
     map (\<lambda>r. map fst (rr_results r)) rs = take (length rs) (ring_slices cursor sizes devices)
   \<and> (\<not> stopped \<longrightarrow> length rs = length sizes)
   \<and> (stopped \<longrightarrow> stop \<and> rs \<noteq> [] \<and> 0 < rr_failed (last rs))
   \<and> list_all (\<lambda>r. stop \<longrightarrow> rr_failed r = 0) (butlast rs)
   \<and> list_all (\<lambda>r. rr_dispatched r + rr_failed r = rr_ring_size r
        \<and> rr_ring_size r = length (rr_results r)) rs"
proof (induction sizes arbitrary: ring cursor st rs)
  case (Cons n sizes)
  let ?ds = "take (nat n) (drop cursor devices)"
  obtain items st1 where a: "attempt_all launch False ?ds st = (Inr items, st1)"
    using Cons.prems by (auto simp: Let_def split: prod.splits sum.splits)
  have items: "map fst items = ?ds" by (rule attempt_all_all [OF a])
  then have len: "length ?ds = length items" by (metis length_map)
  show ?case
  proof (cases "stop \<and> 0 < failed_count items")
    case True
    with Cons.prems a items counts_sum [of items] show ?thesis by (auto simp: Let_def len simp del: length_take)
  next
    case False
    with Cons.prems a obtain rs' where
      rec: "rollout_rings launch stop devices sizes (Suc ring) (cursor + nat n) st1
              = (Inr (rs', stopped), st')"
      and rs: "rs = \<lparr>rr_ring = ring, rr_ring_size = length ?ds,
                   rr_dispatched = dispatched_count items, rr_failed = failed_count items,
                   rr_results = items\<rparr> # rs'"
      by (auto simp: Let_def split: prod.splits sum.splits)
    show ?thesis
      using Cons.IH [OF rec] False items counts_sum [of items] by (auto simp: rs len simp del: length_take)
  qed
qed simp

lemma take_ring_slices: "take k (ring_slices cursor sizes devices) = ring_slices cursor (take k sizes) devices"
  by (induction sizes arbitrary: k cursor) (auto simp: take_Cons')

text \<open>A launcher of devices by name: what holds of the loop holds of a rollout.\<close>

locale ring_launcher = launcher launch evolves holds
  for launch :: "string \<Rightarrow> 's \<Rightarrow> string outcome \<times> 's"
    and evolves :: "'s \<Rightarrow> 's \<Rightarrow> bool"
    and holds :: "string \<Rightarrow> string \<Rightarrow> 's \<Rightarrow> bool"
begin

lemma rollout_rings_evolves:
  "rollout_rings launch stop devices sizes ring cursor s = (res, s') \<Longrightarrow> evolves s s'"
proof (induction sizes arbitrary: ring cursor s res)
  case (Cons n sizes)
  obtain r1 s1 where a: "attempt_all launch False (take (nat n) (drop cursor devices)) s = (r1, s1)"
    by (cases "attempt_all launch False (take (nat n) (drop cursor devices)) s")
  note first = attempt_all_evolves [OF a]
  have rest: "evolves s s'"
    if "rollout_rings launch stop devices sizes (Suc ring) (cursor + nat n) s1 = (x, s')" for x
    by (rule evolves_trans [OF first Cons.IH [OF that]])
  show ?case
    using Cons.prems a first rest by (auto simp: Let_def split: prod.splits sum.splits if_splits)
qed (simp add: evolves_refl)

lemma rollout_rings_stable:
  "rollout_rings launch stop devices sizes ring cursor s = (res, s') \<Longrightarrow> holds d r s \<Longrightarrow> holds d r s'"
proof (induction sizes arbitrary: ring cursor s res)
  case (Cons n sizes)
  obtain r1 s1 where a: "attempt_all launch False (take (nat n) (drop cursor devices)) s = (r1, s1)"
    by (cases "attempt_all launch False (take (nat n) (drop cursor devices)) s")
  note first = attempt_all_stable [OF a Cons.prems(2)]
  have rest: "holds d r s'"
    if "rollout_rings launch stop devices sizes (Suc ring) (cursor + nat n) s1 = (x, s')" for x
    by (rule Cons.IH [OF that first])
  show ?case
    using Cons.prems(1) a first rest by (auto simp: Let_def split: prod.splits sum.splits if_splits)
qed simp

lemma rollout_rings_holds:
  "rollout_rings launch stop devices sizes ring cursor s = (Inr (rs, stopped), s') \<Longrightarrow>
     (d, Inr r) \<in> set (concat (map rr_results rs)) \<Longrightarrow> holds d r s'"
proof (induction sizes arbitrary: ring cursor s rs)
  case (Cons n sizes)
  obtain items s1 where a: "attempt_all launch False (take (nat n) (drop cursor devices)) s = (Inr items, s1)"
    using Cons.prems(1) by (auto simp: Let_def split: prod.splits sum.splits)
  show ?case
  proof (cases "stop \<and> 0 < failed_count items")
    case True
    with Cons.prems a attempt_all_holds [OF a] show ?thesis by (auto simp: Let_def)
  next
    case False
    with Cons.prems(1) a obtain rs' where
      rec: "rollout_rings launch stop devices sizes (Suc ring) (cursor + nat n) s1
              = (Inr (rs', stopped), s')"
      and rs: "concat (map rr_results rs) = items @ concat (map rr_results rs')"
      by (auto simp: Let_def split: prod.splits sum.splits)
    show ?thesis
    proof (cases "(d, Inr r) \<in> set items")
      case True
      then show ?thesis
        using rollout_rings_stable [OF rec] attempt_all_holds [OF a] by blast
    next
      case False
      with Cons.prems(2) rs have "(d, Inr r) \<in> set (concat (map rr_results rs'))" by auto
      then show ?thesis by (rule Cons.IH [OF rec])
    qed
  qed
qed simp

end

lemma payload_key [simp]:
  "p_idempotency_key (rollout_payload t c ro d) = Absent"
  "p_device_id (rollout_payload t c ro d) = Val d"
  "p_idempotency_key (invoke_payload f dev a m) = Absent"
  "p_device_id (invoke_payload f dev a m) = set_field dev"
  by (simp_all add: rollout_payload_def invoke_payload_def empty_payload_def)

interpretation rollout: ring_launcher "rollout_launch cfg env req (rollout_payload t c ro)"
  "(exec_step cfg)\<^sup>*\<^sup>*" dispatched_on for cfg env req t c ro
  by (rule ring_launcher.intro, rule rollout_launcher) simp_all

interpretation fleet_invoke: launcher "rollout_launch cfg env req (\<lambda>d. invoke_payload f (Some d) a m)"
  "(exec_step cfg)\<^sup>*\<^sup>*" dispatched_on for cfg env req f a m
  by (rule rollout_launcher) simp_all

subsection \<open>Properties\<close>

lemma rollout_ok:
  assumes "rollout_execution_to_fleet cfg env req fleet ro st = (Inr r, st')"
    and "get_fleet_members env fleet = Inr devices"
  obtains command sizes stopped where
    "compute_canary_rings (int (length devices)) ro = Inr sizes"
    "rollout_rings (rollout_launch cfg env req
        (rollout_payload (fget_or (ro_execution_type ro) (Some ''command'')) command ro))
      (fbool (ro_stop_on_failure ro) True) devices sizes 1 0 (st\<lparr>uuids := Suc (uuids st)\<rparr>)
      = (Inr (ror_rings r, stopped), st')"
    "ror_status r = (if stopped then ''stopped_on_failure'' else ''rolling_out'')"
    "ror_dispatched r = dispatched_count (concat (map rr_results (ror_rings r)))"
    "ror_failed r = failed_count (concat (map rr_results (ror_rings r)))"
    "ror_total r = length devices"
  using assms unfolding rollout_execution_to_fleet_def Let_def
  by (auto split: sum.splits if_splits prod.splits)

lemma rollout_devices:
  assumes rr: "rollout_rings launch stop devices sizes 1 0 s = (Inr (rs, stopped), s')"
    and pos: "list_all (\<lambda>n. 0 < n) sizes"
  shows "map fst (concat (map rr_results rs))
     = take (nat (sum_list (take (length rs) sizes))) devices"
proof -
  have "map (\<lambda>r. map fst (rr_results r)) rs = ring_slices 0 (take (length rs) sizes) devices"
    using rollout_rings_slices [OF rr] by (simp add: take_ring_slices)
  then have "map fst (concat (map rr_results rs)) = concat (ring_slices 0 (take (length rs) sizes) devices)"
    by (simp add: map_concat comp_def)
  also have "\<dots> = take (nat (sum_list (take (length rs) sizes))) (drop 0 devices)"
    by (rule concat_ring_slices) (use pos in \<open>auto simp: list_all_iff dest: in_set_takeD\<close>)
  finally show ?thesis by simp
qed

lemma rollout_parts:
  assumes "rollout_execution_to_fleet cfg env req fleet ro st = (Inr r, st')"
    and "get_fleet_members env fleet = Inr devices"
  shows "(\<exists>k. map fst (concat (map rr_results (ror_rings r))) = take k devices)"
    and "ror_status r = ''rolling_out'' \<Longrightarrow> ro_max_rings ro = JNull \<Longrightarrow>
           map fst (concat (map rr_results (ror_rings r))) = devices"
    and "ror_status r = ''stopped_on_failure'' \<Longrightarrow>
           ror_rings r \<noteq> [] \<and> 0 < rr_failed (last (ror_rings r))
         \<and> list_all (\<lambda>x. rr_failed x = 0) (butlast (ror_rings r))"
    and "(d, Inr i) \<in> set (concat (map rr_results (ror_rings r))) \<Longrightarrow> dispatched_on d i st'"
    and "(exec_step cfg)\<^sup>*\<^sup>* (st\<lparr>uuids := Suc (uuids st)\<rparr>) st'"
proof -
  obtain command sizes stopped where
    sizes: "compute_canary_rings (int (length devices)) ro = Inr sizes"
    and rr: "rollout_rings (rollout_launch cfg env req
        (rollout_payload (fget_or (ro_execution_type ro) (Some ''command'')) command ro))
      (fbool (ro_stop_on_failure ro) True) devices sizes 1 0 (st\<lparr>uuids := Suc (uuids st)\<rparr>)
      = (Inr (ror_rings r, stopped), st')"
    and status: "ror_status r = (if stopped then ''stopped_on_failure'' else ''rolling_out'')"
    using rollout_ok [OF assms] by metis
  note pos = canary_rings_pos [OF sizes]
  note slices = rollout_rings_slices [OF rr]
  show "\<exists>k. map fst (concat (map rr_results (ror_rings r))) = take k devices"
    using rollout_devices [OF rr pos] by blast
  show "map fst (concat (map rr_results (ror_rings r))) = devices"
    if "ror_status r = ''rolling_out''" "ro_max_rings ro = JNull"
  proof -
    have "length (ror_rings r) = length sizes" using that status slices by (auto split: if_splits)
    moreover have "length devices \<le> nat (sum_list sizes)"
      using canary_rings_cover [OF sizes that(2)] by simp
    ultimately show ?thesis using rollout_devices [OF rr pos] by simp
  qed
  show "ror_rings r \<noteq> [] \<and> 0 < rr_failed (last (ror_rings r))
      \<and> list_all (\<lambda>x. rr_failed x = 0) (butlast (ror_rings r))"
    if "ror_status r = ''stopped_on_failure''"
    using that status slices by (auto split: if_splits)
  show "dispatched_on d i st'" if "(d, Inr i) \<in> set (concat (map rr_results (ror_rings r)))"
    by (rule rollout.rollout_rings_holds [OF rr that])
  show "(exec_step cfg)\<^sup>*\<^sup>* (st\<lparr>uuids := Suc (uuids st)\<rparr>) st'"
    by (rule rollout.rollout_rings_evolves [OF rr])
qed

text \<open>C9. The report of a rollout is true: the devices reported are an initial part of the fleet,
  each once and in order; all of it when the rollout was not stopped and no \<open>max_rings\<close> cuts
  it; a stopped rollout ends with a ring that had a failure; and every execution reported as
  dispatched is a dispatched row of its device in the state the rollout leaves.\<close>

theorem rollout_report:
  assumes "rollout_execution_to_fleet cfg env req fleet ro st = (Inr r, st')"
    and "get_fleet_members env fleet = Inr devices"
  shows "(\<exists>k. map fst (concat (map rr_results (ror_rings r))) = take k devices)
   \<and> (ror_status r = ''rolling_out'' \<and> ro_max_rings ro = JNull \<longrightarrow>
        map fst (concat (map rr_results (ror_rings r))) = devices)
   \<and> (ror_status r = ''stopped_on_failure'' \<longrightarrow>
        ror_rings r \<noteq> [] \<and> 0 < rr_failed (last (ror_rings r))
      \<and> list_all (\<lambda>x. rr_failed x = 0) (butlast (ror_rings r)))
   \<and> (\<forall>d i. (d, Inr i) \<in> set (concat (map rr_results (ror_rings r))) \<longrightarrow> dispatched_on d i st')
   \<and> (exec_step cfg)\<^sup>*\<^sup>* (st\<lparr>uuids := Suc (uuids st)\<rparr>) st'"
  using rollout_parts [OF assms] by blast

definition demo_fleet_env :: exec_env where
  "demo_fleet_env = demo_env\<lparr>fleet_members_reply := (\<lambda>f. Reply 200
     [(''items'', JArr [JObj [(''device_id'', JStr ''d1'')]])])\<rparr>"

definition demo_rollout :: rollout_request where
  "demo_rollout = \<lparr>ro_execution_type = Absent, ro_command = Val ''ls'', ro_plugin_id = Absent,
     ro_args = Absent, ro_mode = Absent, ro_stop_on_failure = Absent, ro_ring_sizes = JNull,
     ro_ring_size = Absent, ro_max_rings = JNull\<rparr>"

lemma demo_fleet_members: "get_fleet_members demo_fleet_env ''f'' = Inr [''d1'']"
  by (simp add: get_fleet_members_def demo_fleet_env_def dget_or_def dget_def)

lemmas demo_eval = create_execution_def find_idempotent_def count_active_for_device_def
  guardrails_violation_def insert_execution_def new_execution_def frame_simps is_function_type_def
  tbl_add_def Let_def sor_def strip_def lstrip_def lower_def lower_char_def is_space_def code_def
  startswith_def

text \<open>Creating and dispatching a plain command from the empty table.\<close>

lemma demo_launch:
  "\<exists>i st'. create_and_dispatch demo_cfg demo_fleet_env demo_request
     (rollout_payload (Some ''command'') ''ls'' demo_rollout ''d1'')
     (demo_state\<lparr>uuids := Suc 0\<rparr>) = (Inr i, st')"
proof -
  let ?p = "rollout_payload (Some ''command'') ''ls'' demo_rollout ''d1''"
  let ?st = "demo_state\<lparr>uuids := Suc 0\<rparr>"
  let ?e = "new_execution demo_cfg demo_fleet_env demo_request None ?p (Suc 0)"
  obtain st1 where c: "create_execution demo_cfg demo_fleet_env demo_request None ?p ?st
      = (Inr (execution_to_dict True ?e), st1)" and rows: "executions st1 = [?e]"
    by (simp add: demo_eval demo_defs demo_fleet_env_def rollout_payload_def set_field_def
      demo_rollout_def)
  have get: "tbl_get ex_id (ex_id ?e) (executions st1) = Some ?e"
    by (simp add: rows tbl_get_Cons)
  have "guardrails_violation demo_cfg (Some (sor (ex_execution_type ?e) ''command''))
      (ex_command ?e) = None" "is_ok (complete_envelope demo_fleet_env (mark_dispatched demo_fleet_env ?e))"
    by (simp_all add: demo_eval demo_defs demo_fleet_env_def rollout_payload_def set_field_def
      demo_rollout_def complete_envelope_def mark_dispatched_def)
  then have "is_ok (fst (dispatch_execution demo_cfg demo_fleet_env (ex_id ?e) (Some demo_request) st1))"
    using dispatch_success_cond [OF get, of demo_cfg demo_fleet_env "Some demo_request"]
    by (simp add: case_prod_beta)
  then obtain d st2 where "dispatch_execution demo_cfg demo_fleet_env (ex_id ?e) (Some demo_request) st1
      = (Inr d, st2)" by (metis is_okE prod.collapse)
  with c show ?thesis by (simp add: create_and_dispatch_def del: new_execution_simps)
qed

lemma demo_rollout_runs:
  "\<exists>r st'. rollout_execution_to_fleet demo_cfg demo_fleet_env demo_request ''f'' demo_rollout demo_state
     = (Inr r, st')"
proof -
  have sizes: "compute_canary_rings 1 demo_rollout = Inr [1]"
    by (simp add: compute_canary_rings_def planned_sizes_def uniform_sizes_def demo_rollout_def
      chunk_sizes.simps [of 1 1] chunk_sizes.simps [of 1 0])
  have command: "rollout_command demo_rollout = Inr ''ls''"
    "fget_or (ro_execution_type demo_rollout) (Some ''command'') = Some ''command''"
    by (simp_all add: rollout_command_def demo_rollout_def is_function_type_def)
  have u: "uuids demo_state = 0" by (simp add: demo_state_def)
  from demo_launch show ?thesis
    by (auto simp: rollout_execution_to_fleet_def demo_fleet_members sizes command u Let_def
      rollout_launch_def failed_count_def)
qed

lemma rollout_report_witness:
  "\<exists>r st' k. rollout_execution_to_fleet demo_cfg demo_fleet_env demo_request ''f'' demo_rollout demo_state
       = (Inr r, st')
     \<and> map fst (concat (map rr_results (ror_rings r))) = take k [''d1'']"
  using demo_rollout_runs rollout_report [OF _ demo_fleet_members] by blast

text \<open>The ring sizes are positive; without \<open>max_rings\<close> they cover the fleet, so cutting the
  fleet into rings of these sizes loses no device and repeats none; with the uniform
  \<open>ring_size\<close> they add up to the fleet exactly.\<close>

theorem canary_rings_partition:
  assumes "compute_canary_rings (int (length devices)) ro = Inr sizes"
  shows "list_all (\<lambda>n. 0 < n) sizes
   \<and> (\<exists>k. concat (ring_slices 0 sizes devices) = take k devices)
   \<and> (ro_max_rings ro = JNull \<longrightarrow> concat (ring_slices 0 sizes devices) = devices)
   \<and> (ro_max_rings ro = JNull \<and> ro_ring_sizes ro = JNull \<longrightarrow> sum_list sizes = int (length devices))"
proof -
  note pos = canary_rings_pos [OF assms]
  have slices: "concat (ring_slices 0 sizes devices) = take (nat (sum_list sizes)) devices"
    using concat_ring_slices [of sizes 0 devices] pos by (simp add: list_all_iff)
  have cover: "ro_max_rings ro = JNull \<longrightarrow> concat (ring_slices 0 sizes devices) = devices"
  proof
    assume "ro_max_rings ro = JNull"
    then have "length devices \<le> nat (sum_list sizes)"
      using canary_rings_cover [OF assms] by linarith
    with slices show "concat (ring_slices 0 sizes devices) = devices" by simp
  qed
  have "sum_list sizes = int (length devices)" if "ro_max_rings ro = JNull" "ro_ring_sizes ro = JNull"
  proof (cases "devices = []")
    case True
    with assms show ?thesis by (simp add: compute_canary_rings_def)
  next
    case False
    with assms that obtain ns where ns: "uniform_sizes (int (length devices)) (ro_ring_size ro) = Inr ns"
      and sizes: "sizes = (if sum_list ns < int (length devices)
             then ns @ [int (length devices) - sum_list ns] else ns)"
      by (auto simp: compute_canary_rings_def planned_sizes_def split: sum.splits)
    from uniform_sizes_chunk [OF ns] have "sum_list ns = int (length devices)"
      using chunk_sizes_sum by force
    with sizes show ?thesis by simp
  qed
  with pos slices cover show ?thesis by blast
qed

lemma canary_rings_partition_witness:
  "concat (ring_slices 0 [1] [''d1'']) = [''d1'']"
proof -
  have "compute_canary_rings (int (length [''d1''])) demo_rollout = Inr [1]"
    by (simp add: compute_canary_rings_def planned_sizes_def uniform_sizes_def demo_rollout_def
      chunk_sizes.simps [of 1 1] chunk_sizes.simps [of 1 0])
  from canary_rings_partition [OF this] show ?thesis by (simp add: demo_rollout_def)
qed

subsection \<open>Runbooks\<close>

lemma runbook_payload_key:
  "build_runbook_step_payload step d = Inr p \<Longrightarrow>
     fget (p_idempotency_key p) = None \<and> fget (p_device_id p) = Some d"
  by (auto simp: build_runbook_step_payload_def Let_def empty_payload_def split: if_splits)

lemma caught_error [simp]: "caught (Inl err) \<noteq> Done i"
  by (cases err) auto

lemma runbook_launch_cases:
  assumes "runbook_launch cfg env req device istep s = (x, t)"
  shows "(t = s \<and> (\<forall>i. x \<noteq> Done i))
   \<or> (\<exists>p r. fget (p_idempotency_key p) = None \<and> fget (p_device_id p) = Some device
        \<and> create_and_dispatch cfg env req p s = (r, t) \<and> x = caught r)"
proof -
  obtain idx ostep where split: "istep = (idx, ostep)" by (cases istep)
  show ?thesis
  proof (cases ostep)
    case None
    with assms split show ?thesis by (auto simp: runbook_launch_def)
  next
    case (Some step)
    show ?thesis
    proof (cases "build_runbook_step_payload step device")
      case (Inl err)
      with assms split Some show ?thesis by (auto simp: runbook_launch_def)
    next
      case (Inr p)
      with assms split Some have "\<exists>r. create_and_dispatch cfg env req p s = (r, t) \<and> x = caught r"
        by (auto simp: runbook_launch_def split: prod.splits)
      with runbook_payload_key [OF Inr] show ?thesis by blast
    qed
  qed
qed

interpretation runbook: launcher "runbook_launch cfg env req device"
  "(exec_step cfg)\<^sup>*\<^sup>*" "\<lambda>d i. dispatched_on device i" for cfg env req device
proof
  fix s t u :: exec_state and d e i x
  show "(exec_step cfg)\<^sup>*\<^sup>* s s" by simp
  show "(exec_step cfg)\<^sup>*\<^sup>* s t \<Longrightarrow> (exec_step cfg)\<^sup>*\<^sup>* t u \<Longrightarrow> (exec_step cfg)\<^sup>*\<^sup>* s u" by simp
  show "(exec_step cfg)\<^sup>*\<^sup>* s t" if "runbook_launch cfg env req device d s = (x, t)"
    using runbook_launch_cases [OF that] create_and_dispatch_steps by auto
  show "dispatched_on device i t" if "runbook_launch cfg env req device d s = (Done i, t)"
    using runbook_launch_cases [OF that] create_and_dispatch_done
    by (metis caught_Done)
  show "dispatched_on device i t"
    if "dispatched_on device i s" "runbook_launch cfg env req device e s = (x, t)"
    using runbook_launch_cases [OF that(2)] create_and_dispatch_old
      dispatched_on_keep [OF that(1)] that(1) by metis
qed

text \<open>A runbook runs its steps in order, each at most once: all of them when none failed or
  when it does not stop on failure, otherwise up to the first failure; its status says which, and
  every step reported as dispatched is a dispatched execution of the runbook's device.\<close>

theorem runbook_report:
  assumes "execute_runbook cfg env req rb st = (Inr r, st')"
    and "rb_steps rb = Some steps"
  shows "map fst (rbr_results r) = take (rbr_completed_steps r) (enumerate 1 steps)
   \<and> rbr_dispatched r + rbr_failed r = rbr_completed_steps r
   \<and> (rbr_status r = ''running'' \<longrightarrow> rbr_completed_steps r = rbr_total_steps r)
   \<and> (rbr_status r = ''stopped_on_failure'' \<longrightarrow>
        rbr_failed r = 1 \<and> \<not> is_ok (snd (last (rbr_results r))))
   \<and> (\<forall>n i. (n, Inr i) \<in> set (rbr_results r) \<longrightarrow> dispatched_on (rbr_device_id r) i st')"
proof -
  let ?stop = "fbool (rb_stop_on_failure rb) True"
  let ?device = "the (fget (rb_device_id rb))"
  from assms have a: "attempt_all (runbook_launch cfg env req ?device) ?stop (enumerate 1 steps)
      (st\<lparr>uuids := Suc (uuids st)\<rparr>) = (Inr (rbr_results r), st')"
    and r: "rbr_completed_steps r = length (rbr_results r)"
      "rbr_dispatched r = dispatched_count (rbr_results r)"
      "rbr_failed r = failed_count (rbr_results r)" "rbr_total_steps r = length steps"
      "rbr_device_id r = ?device"
      "rbr_status r = (if 0 < failed_count (rbr_results r) \<and> ?stop then ''stopped_on_failure''
         else ''running'')"
    unfolding execute_runbook_def Let_def by (auto split: if_splits prod.splits sum.splits)
  note prefix = attempt_all_prefix [OF a]
  have one: "failed_count rs = 1 \<and> \<not> is_ok (snd (last rs))"
    if "0 < failed_count rs" "list_all (\<lambda>x. is_ok (snd x)) (butlast rs)"
    for rs :: "(nat \<times> runbook_step option, string) result list"
    using that by (cases rs rule: rev_cases) (auto simp: failed_count_def list_all_iff filter_empty_conv
        split: if_splits)
  have held: "\<forall>n i. (n, Inr i) \<in> set (rbr_results r) \<longrightarrow> dispatched_on ?device i st'"
    using runbook.attempt_all_holds [OF a] by blast
  have stopped: "rbr_failed r = 1 \<and> \<not> is_ok (snd (last (rbr_results r)))"
    if "rbr_status r = ''stopped_on_failure''"
    using that one [of "rbr_results r"] prefix r by (auto split: if_splits)
  show ?thesis
    using prefix counts_sum [of "rbr_results r"] held stopped r
    by (auto split: if_splits)
qed

definition demo_runbook :: runbook_request where
  "demo_runbook = \<lparr>rb_device_id = Val ''d1'',
     rb_steps = Some [Some \<lparr>st_name = Absent, st_execution_type = Absent, st_command = Absent,
       st_plugin_id = Absent, st_mode = Absent, st_args = Absent\<rparr>, None],
     rb_stop_on_failure = Absent, rb_name = Absent\<rparr>"

lemma runbook_report_witness:
  "\<exists>r st'. execute_runbook demo_cfg demo_env demo_request demo_runbook demo_state = (Inr r, st')
     \<and> rbr_failed r = 1 \<and> rbr_completed_steps r = 1"
proof -
  obtain r st' where run: "execute_runbook demo_cfg demo_env demo_request demo_runbook demo_state
      = (Inr r, st')" and r: "rbr_status r = ''stopped_on_failure''" "rbr_completed_steps r = 1"
    by (simp add: execute_runbook_def demo_runbook_def fbool_def runbook_launch_def
      build_runbook_step_payload_def is_function_type_def fstr_def Let_def failed_count_def)
  from run have "rbr_failed r = 1"
    using runbook_report [OF run, of "the (rb_steps demo_runbook)"] r by (simp add: demo_runbook_def)
  with run r show ?thesis by blast
qed

subsection \<open>Deploy\<close>

lemma deploy_device_error: "\<exists>err st'. deploy_device cfg env req f d st = (Inl err, st')"
  by (auto simp: deploy_device_def dispatch_without_request_def split: prod.split sum.split)

lemma deploy_loop_ids:
  "deploy_loop cfg env req f stop ids ds st = (Inr ids', st') \<Longrightarrow> ids' = ids"
proof (induction ds arbitrary: st)
  case (Cons d ds)
  obtain err st1 where d: "deploy_device cfg env req f d st = (Inl err, st1)"
    using deploy_device_error by blast
  with Cons show ?case by (cases err) (auto split: if_splits)
qed simp

text \<open>The fleet deploy never dispatches: a deploy that returns reports no execution, and as soon
  as the creation for the first device succeeds the request ends with the TypeError of the missing
  argument, leaving that execution queued.\<close>

theorem deploy_never_dispatches:
  assumes "get_fleet_members env fleet = Inr (d # ds)"
  shows "(\<forall>r st'. deploy_function_to_fleet cfg env req fleet f stop st = (Inr r, st') \<longrightarrow>
            dr_execution_ids r = [] \<and> dr_dispatched r = 0)
   \<and> (\<forall>created st1. create_execution cfg env req None (install_payload f d)
              (st\<lparr>uuids := Suc (uuids st)\<rparr>) = (Inr created, st1) \<longrightarrow>
            deploy_function_to_fleet cfg env req fleet f stop st = (Inl (PyExc ''TypeError''), st1)
          \<and> (\<exists>e. tbl_get ex_id (id_of created) (executions st1) = Some e
               \<and> ex_status e = ''queued''))"
proof (intro conjI allI impI)
  fix r st'
  assume "deploy_function_to_fleet cfg env req fleet f stop st = (Inr r, st')"
  with assms obtain ids where "dr_execution_ids r = ids" "dr_dispatched r = length ids"
    "deploy_loop cfg env req f (fbool stop False) [] (d # ds) (st\<lparr>uuids := Suc (uuids st)\<rparr>) = (Inr ids, st')"
      "ids = []"
    using deploy_loop_ids
    by (auto simp: deploy_function_to_fleet_def simp del: deploy_loop.simps
        split: prod.splits sum.splits)
  then show "dr_execution_ids r = []" "dr_dispatched r = 0"
    by (simp_all add: deploy_loop_ids del: deploy_loop.simps)
next
  fix created st1
  assume c: "create_execution cfg env req None (install_payload f d)
    (st\<lparr>uuids := Suc (uuids st)\<rparr>) = (Inr created, st1)"
  then show "deploy_function_to_fleet cfg env req fleet f stop st = (Inl (PyExc ''TypeError''), st1)"
    using assms by (simp add: deploy_function_to_fleet_def deploy_device_def dispatch_without_request_def)
  have "fget (p_idempotency_key (install_payload f d)) = None"
    by (simp add: install_payload_def empty_payload_def)
  then show "\<exists>e. tbl_get ex_id (id_of created) (executions st1) = Some e \<and> ex_status e = ''queued''"
    using create_fresh [OF c] by blast
qed

lemma deploy_never_dispatches_witness:
  "\<exists>st'. deploy_function_to_fleet demo_cfg demo_fleet_env demo_request ''f'' ''fn'' Absent demo_state
     = (Inl (PyExc ''TypeError''), st')"
proof -
  have "\<exists>created st1. create_execution demo_cfg demo_fleet_env demo_request None
      (install_payload ''fn'' ''d1'') (demo_state\<lparr>uuids := Suc (uuids demo_state)\<rparr>) = (Inr created, st1)"
    by (simp add: demo_eval demo_defs demo_fleet_env_def install_payload_def)
  then show ?thesis using deploy_never_dispatches [OF demo_fleet_members] by blast
qed

end
