(* ===== verification/Triggers.thy ===== *)
theory Triggers
  imports RolloutProperties
begin

text \<open>
  Event triggers of the execution service: the CRUD handlers, the filter, firing, and the
  consumer of Kafka events. A trigger inserts its execution directly, past the limit per device
  of the create handler; the topics the consumer subscribes to are none of
  those the service publishes on.
\<close>

subsection \<open>CRUD\<close>

record trigger_payload =
  tp_event_type :: "string field"
  tp_function_id :: "string field"
  tp_target_type :: "string field"
  tp_target_id :: "string field"
  tp_filter_expr :: json

text \<open>The filter is stored as JSON text; the column keeps the value it serialises.\<close>

definition new_trigger :: "exec_env \<Rightarrow> request \<Rightarrow> trigger_payload \<Rightarrow> nat \<Rightarrow> trigger" where
  "new_trigger env req p n =
     \<lparr>tr_id = uuid4 env n,
      tr_event_type = fstr (fget (tp_event_type p)),
      tr_function_id = fstr (fget (tp_function_id p)),
      tr_target_type = fget_or (tp_target_type p) (Some ''same_device''),
      tr_target_id = fget (tp_target_id p),
      tr_filter_expr = (if truthy (tp_filter_expr p) then Some (tp_filter_expr p) else None),
      tr_is_active = True,
      tr_tenant_id = rq_tenant_id req,
      tr_created_at = Some (now env)\<rparr>"

definition trigger_to_dict :: "trigger \<Rightarrow> dict" where
  "trigger_to_dict t =
    [(''id'', JStr (tr_id t)), (''event_type'', JStr (tr_event_type t)),
     (''function_id'', JStr (tr_function_id t)), (''target_type'', jstr (tr_target_type t)),
     (''target_id'', jstr (tr_target_id t)),
     (''filter_expr'', (case tr_filter_expr t of None \<Rightarrow> JNull | Some v \<Rightarrow> v)),
     (''is_active'', JBool (tr_is_active t)), (''tenant_id'', jstr (tr_tenant_id t)),
     (''created_at'', jtime (tr_created_at t))]"

definition create_trigger ::
  "exec_env \<Rightarrow> request \<Rightarrow> trigger_payload \<Rightarrow> exec_state \<Rightarrow> dict res \<times> exec_state" where
  "create_trigger env req p st =
     (if \<not> nonempty (fget (tp_event_type p)) then (Inl (http 400 ''event_type is required''), st)
      else if \<not> nonempty (fget (tp_function_id p)) then (Inl (http 400 ''function_id is required''), st)
      else
      let t = new_trigger env req p (uuids st);
          st1 = st\<lparr>uuids := Suc (uuids st)\<rparr>
      in if tbl_get tr_id (tr_id t) (triggers st) \<noteq> None
         then (Inl (PyExc ''IntegrityError''), st1)
         else (Inr (trigger_to_dict t), st1\<lparr>triggers := tbl_add t (triggers st)\<rparr>))"

definition list_triggers :: "string option \<Rightarrow> exec_state \<Rightarrow> dict list" where
  "list_triggers event_type st =
     map trigger_to_dict
       (if nonempty event_type
        then filter (\<lambda>t. Some (tr_event_type t) = event_type) (triggers st) else triggers st)"

definition get_trigger :: "string \<Rightarrow> exec_state \<Rightarrow> dict res" where
  "get_trigger trigger_id st =
     (case tbl_get tr_id trigger_id (triggers st) of
        None \<Rightarrow> Inl (http 404 ''trigger not found'') | Some t \<Rightarrow> Inr (trigger_to_dict t))"

definition delete_trigger :: "string \<Rightarrow> exec_state \<Rightarrow> unit res \<times> exec_state" where
  "delete_trigger trigger_id st =
     (case tbl_get tr_id trigger_id (triggers st) of
        None \<Rightarrow> (Inl (http 404 ''trigger not found''), st)
      | Some t \<Rightarrow> (Inr (), st\<lparr>triggers := tbl_del tr_id trigger_id (triggers st)\<rparr>))"

text \<open>\<open>enable_trigger\<close> and \<open>disable_trigger\<close>.\<close>

definition set_trigger_active :: "bool \<Rightarrow> string \<Rightarrow> exec_state \<Rightarrow> dict res \<times> exec_state" where
  "set_trigger_active b trigger_id st =
     (case tbl_get tr_id trigger_id (triggers st) of
        None \<Rightarrow> (Inl (http 404 ''trigger not found''), st)
      | Some t \<Rightarrow>
          let t1 = t\<lparr>tr_is_active := b\<rparr>
          in (Inr (trigger_to_dict t1), st\<lparr>triggers := tbl_put tr_id t1 (triggers st)\<rparr>))"

subsection \<open>Firing\<close>

text \<open>No filter, or a filter that raises, matches; a filter that is no object raises.\<close>

definition trigger_matches_filter :: "json option \<Rightarrow> dict \<Rightarrow> bool" where
  "trigger_matches_filter filter_expr event =
     (case filter_expr of
        Some (JObj conditions) \<Rightarrow> (\<forall>(k, v) \<in> set conditions. py_eq (dget event k) v)
      | _ \<Rightarrow> True)"

text \<open>The device an event is about; a \<open>payload\<close> that is no object raises AttributeError.\<close>

definition event_device :: "dict \<Rightarrow> json res" where
  "event_device event =
     (if truthy (dget event ''device_id'') then Inr (dget event ''device_id'')
      else py_get (dget_or event ''payload'' (JObj [])) ''device_id'')"

text \<open>The device id a trigger uses, as text: \<open>shw\<close> gives the text of a value that is no string.\<close>

definition trigger_device :: "(json \<Rightarrow> string) \<Rightarrow> trigger \<Rightarrow> dict \<Rightarrow> string option res" where
  "trigger_device shw t event =
     (if tr_target_type t = Some ''same_device'' then
        (case event_device event of
           Inl err \<Rightarrow> Inl err
         | Inr v \<Rightarrow> Inr (if truthy v then Some (py_str shw v) else None))
      else if tr_target_type t = Some ''device'' then Inr (tr_target_id t)
      else Inr None)"

definition trigger_execution :: "exec_env \<Rightarrow> trigger \<Rightarrow> string option \<Rightarrow> nat \<Rightarrow> execution" where
  "trigger_execution env t device_id n =
     \<lparr>ex_id = uuid4 env n, ex_device_id = device_id,
      ex_command = Some (''trigger:'' @ tr_id t), ex_status = ''queued'',
      ex_correlation_id = Some (uuid4 env (Suc n)), ex_idempotency_key = None,
      ex_exit_code = JNull, ex_result_stdout = JNull, ex_result_stderr = JNull,
      ex_tenant_id = tr_tenant_id t, ex_owner_id = Some ''trigger-system'',
      ex_created_at = Some (now env), ex_dispatched_at = None, ex_running_at = None,
      ex_execution_type = Some ''function.invoke'', ex_plugin_id = Some (tr_function_id t),
      ex_args = Some (JObj []), ex_function_result = None, ex_invocation_mode = Some ''async''\<rparr>"

text \<open>Everything after the device is known is inside a try block whose handler only logs; only
  finding the device may raise.\<close>

definition fire_trigger ::
  "exec_cfg \<Rightarrow> exec_env \<Rightarrow> (json \<Rightarrow> string) \<Rightarrow> trigger \<Rightarrow> dict \<Rightarrow> exec_state \<Rightarrow> unit res \<times> exec_state" where
  "fire_trigger cfg env shw t event st =
     (case trigger_device shw t event of
        Inl err \<Rightarrow> (Inl err, st)
      | Inr device_id \<Rightarrow>
        if \<not> nonempty device_id \<and> tr_target_type t \<in> {Some ''same_device'', Some ''device''}
        then (Inr (), st)
        else
        let n = uuids st;
            e = trigger_execution env t device_id n;
            st1 = st\<lparr>uuids := Suc (Suc n)\<rparr>
        in case insert_execution e st1 of
             Inl err \<Rightarrow> (Inr (), st1)
           | Inr st2 \<Rightarrow> (Inr (), snd (dispatch_execution cfg env (ex_id e) None st2)))"

subsection \<open>The consumer\<close>

definition trigger_topics :: "string \<Rightarrow> string list" where
  "trigger_topics prefix =
     map (\<lambda>t. prefix @ ''.'' @ t) [''execution.succeeded'', ''execution.failed'', ''device.registered'']"

text \<open>A subscribed topic starts with the prefix, so replacing its first occurrence drops it.\<close>

definition topic_suffix :: "string \<Rightarrow> string \<Rightarrow> string" where
  "topic_suffix prefix topic = drop (length prefix + 1) topic"

fun fire_all ::
  "exec_cfg \<Rightarrow> exec_env \<Rightarrow> (json \<Rightarrow> string) \<Rightarrow> trigger list \<Rightarrow> dict \<Rightarrow> exec_state \<Rightarrow> exec_state" where
  "fire_all cfg env shw [] event st = st"
| "fire_all cfg env shw (t # ts) event st =
     (if trigger_matches_filter (tr_filter_expr t) event
      then (case fire_trigger cfg env shw t event st of
              (Inl err, st1) \<Rightarrow> st1
            | (Inr _, st1) \<Rightarrow> fire_all cfg env shw ts event st1)
      else fire_all cfg env shw ts event st)"

text \<open>One message of the consumer loop.\<close>

definition consume_event ::
  "exec_cfg \<Rightarrow> exec_env \<Rightarrow> (json \<Rightarrow> string) \<Rightarrow> string \<Rightarrow> dict \<Rightarrow> exec_state \<Rightarrow> exec_state" where
  "consume_event cfg env shw topic event st =
     fire_all cfg env shw
       (filter (\<lambda>t. tr_event_type t = topic_suffix (kafka_topic_prefix (publisher cfg)) topic
                  \<and> tr_is_active t) (triggers st))
       event st"

subsection \<open>Properties\<close>

text \<open>The events the service publishes.\<close>

definition own_event :: "exec_cfg \<Rightarrow> kafka_event \<Rightarrow> bool" where
  "own_event cfg ev \<longleftrightarrow>
     (\<exists>a \<in> {''created'', ''dispatched'', ''callback'', ''cancelled'', ''deleted''}.
        ev_topic ev = kafka_topic_prefix (publisher cfg) @ ''.'' @ resource_name (publisher cfg) @ ''.'' @ a)"

definition only_own :: "exec_cfg \<Rightarrow> exec_state \<Rightarrow> bool" where
  "only_own cfg st \<longleftrightarrow> list_all (own_event cfg) (published st)"

lemma only_own_publish:
  assumes "only_own cfg st" "a \<in> {''created'', ''dispatched'', ''callback'', ''cancelled'', ''deleted''}"
  shows "only_own cfg (publish cfg env a i p st)"
proof -
  have "own_event cfg (make_event (publisher cfg) (now env) a i p)"
    using assms(2) by (auto simp: own_event_def make_event_def Let_def)
  then show ?thesis
    using assms(1) published_publish_event [of "publisher cfg" "send_ok env" "now env" a i p st]
    by (auto simp: only_own_def published_publish)
qed

lemma only_own_frame [frame_simps]:
  "only_own cfg (audit env a i t w st) = only_own cfg st"
  "only_own cfg (update_execution e st) = only_own cfg st"
  "only_own cfg (st\<lparr>executions := rows\<rparr>) = only_own cfg st"
  "only_own cfg (st\<lparr>uuids := n\<rparr>) = only_own cfg st"
  by (simp_all add: only_own_def frame_simps)

lemma insert_only_own: "insert_execution e st = Inr st' \<Longrightarrow> only_own cfg st' = only_own cfg st"
  by (auto simp: insert_execution_def frame_simps split: if_splits)

lemma dispatch_only_own:
  "only_own cfg st \<Longrightarrow> only_own cfg (snd (dispatch_execution cfg env i req st))"
  unfolding dispatch_execution_def Let_def
  by (auto simp: frame_simps intro!: only_own_publish split: option.split sum.split)

lemma exec_step_only_own: "exec_step cfg st st' \<Longrightarrow> only_own cfg st \<Longrightarrow> only_own cfg st'"
proof (induction rule: exec_step.induct)
  case (create st env req t p)
  then show ?case
    unfolding create_execution_def Let_def
    by (auto simp: frame_simps insert_only_own intro!: only_own_publish split: option.split sum.split)
next
  case (dispatch st env i req)
  then show ?case by (rule dispatch_only_own)
next
  case (callback st env key token i payload)
  then show ?case
    unfolding callback_execution_def Let_def
    by (auto simp: frame_simps intro!: only_own_publish split: option.split sum.split json.split)
next
  case (cancel st env req i)
  then show ?case
    unfolding cancel_execution_def Let_def
    by (auto simp: frame_simps intro!: only_own_publish split: option.split)
next
  case (delete st env req i)
  then show ?case
    unfolding delete_execution_def Let_def
    by (auto simp: frame_simps intro!: only_own_publish split: option.split)
next
  case (sweep st env)
  then show ?case by (simp add: timeout_sweep_def frame_simps)
qed

lemma fire_trigger_only_own:
  "only_own cfg st \<Longrightarrow> only_own cfg (snd (fire_trigger cfg env shw t event st))"
  unfolding fire_trigger_def Let_def
  by (auto simp: frame_simps insert_only_own intro!: dispatch_only_own split: sum.split)

lemma fire_all_only_own: "only_own cfg st \<Longrightarrow> only_own cfg (fire_all cfg env shw ts event st)"
proof (induction ts arbitrary: st)
  case (Cons t ts)
  then show ?case
    using fire_trigger_only_own [OF Cons.prems, of env shw t event]
    by (auto split: prod.splits sum.splits)
qed simp

text \<open>The handlers and the trigger consumer, in any order, from an empty service.\<close>

inductive service_reach :: "exec_cfg \<Rightarrow> exec_state \<Rightarrow> bool" for cfg where
  start: "executions st = [] \<Longrightarrow> published st = [] \<Longrightarrow> service_reach cfg st"
| handler: "service_reach cfg st \<Longrightarrow> exec_step cfg st st' \<Longrightarrow> service_reach cfg st'"
| event: "service_reach cfg st \<Longrightarrow> service_reach cfg (consume_event cfg env shw topic ev st)"

lemma service_reach_only_own: "service_reach cfg st \<Longrightarrow> only_own cfg st"
proof (induction rule: service_reach.induct)
  case (start st)
  then show ?case by (simp add: only_own_def)
qed (simp_all add: exec_step_only_own fire_all_only_own consume_event_def)

text \<open>No event the execution service publishes, in any run of its handlers and its trigger
  consumer, is on a topic the consumer subscribes to: a trigger on the end of an execution never
  fires from the service's own events.\<close>

theorem triggers_never_hear_executions:
  assumes "service_reach cfg st" "resource_name (publisher cfg) = ''execution''"
    and "ev \<in> set (published st)"
  shows "ev_topic ev \<notin> set (trigger_topics (kafka_topic_prefix (publisher cfg)))"
proof -
  have "own_event cfg ev"
    using service_reach_only_own [OF assms(1)] assms(3) by (simp add: only_own_def list_all_iff)
  with assms(2) show ?thesis by (auto simp: own_event_def trigger_topics_def)
qed

lemma demo_created_published:
  "published demo_created = [make_event demo_publisher 1000000 ''created'' []
     (execution_to_dict True (new_execution demo_cfg demo_env demo_request None demo_payload 0))]"
proof -
  have "find_idempotent (Some ''k1'') demo_state = None"
    by (simp add: find_idempotent_def demo_state_def)
  then show ?thesis
    by (simp add: demo_created_def demo_eval demo_defs published_publish published_eq)
      (rule exI [of _ 0], simp)
qed

lemma triggers_never_hear_executions_witness:
  "ev_topic (hd (published demo_created)) \<notin> set (trigger_topics ''nexora'')
     \<and> published demo_created \<noteq> []"
proof -
  have "service_reach demo_cfg demo_state"
    by (rule service_reach.start) (simp_all add: demo_state_def)
  then have reach: "service_reach demo_cfg demo_created"
    unfolding demo_created_def by (rule service_reach.handler [OF _ exec_step.create])
  have "hd (published demo_created) \<in> set (published demo_created)"
    by (simp add: demo_created_published)
  from triggers_never_hear_executions [OF reach _ this] show ?thesis
    by (simp add: demo_created_published) (simp add: demo_cfg_def demo_publisher_def)
qed

subsection \<open>Firing\<close>

text \<open>The triggers that fire on an event, in order: active, of its type, with a filter it satisfies; up to
  the first one whose device cannot be read, which ends the handling of the event; and of those the ones
  with a device, where they need one.\<close>

definition has_target :: "(json \<Rightarrow> string) \<Rightarrow> dict \<Rightarrow> trigger \<Rightarrow> bool" where
  "has_target shw event t \<longleftrightarrow>
     (case trigger_device shw t event of
        Inl err \<Rightarrow> False
      | Inr d \<Rightarrow> nonempty d \<or> tr_target_type t \<notin> {Some ''same_device'', Some ''device''})"

definition fired_triggers :: "(json \<Rightarrow> string) \<Rightarrow> string \<Rightarrow> dict \<Rightarrow> trigger list \<Rightarrow> trigger list" where
  "fired_triggers shw event_type event ts =
     filter (has_target shw event) (takeWhile (\<lambda>t. is_ok (trigger_device shw t event))
       (filter (\<lambda>t. tr_event_type t = event_type \<and> tr_is_active t \<and> trigger_matches_filter (tr_filter_expr t) event) ts))"

definition fired_row :: "exec_cfg \<Rightarrow> exec_env \<Rightarrow> (json \<Rightarrow> string) \<Rightarrow> dict \<Rightarrow> trigger \<Rightarrow> nat \<Rightarrow> execution" where
  "fired_row cfg env shw event t n =
     (let e = trigger_execution env t (case trigger_device shw t event of Inl err \<Rightarrow> None | Inr d \<Rightarrow> d) n
      in if guardrails_violation cfg (Some ''function.invoke'') (ex_command e) = None then mark_dispatched env e else e)"

lemma fired_row_id [simp]: "ex_id (fired_row cfg env shw event t n) = uuid4 env n"
  by (simp add: fired_row_def Let_def mark_dispatched_def trigger_execution_def)

lemma dispatch_uuids: "uuids (snd (dispatch_execution cfg env i req st)) = uuids st"
  unfolding dispatch_execution_def Let_def by (auto simp: frame_simps split: option.split sum.split)

lemma fire_trigger_row:
  assumes fresh: "uuid4 env (uuids st) \<notin> ex_id ` set (executions st)"
  shows "executions (snd (fire_trigger cfg env shw t event st)) = executions st @
      (if has_target shw event t then [fired_row cfg env shw event t (uuids st)] else [])"
    and "uuids (snd (fire_trigger cfg env shw t event st)) = uuids st + (if has_target shw event t then 2 else 0)"
proof -
  have fired: "executions (snd (fire_trigger cfg env shw t event st)) = executions st @ [fired_row cfg env shw event t (uuids st)]
      \<and> uuids (snd (fire_trigger cfg env shw t event st)) = uuids st + 2"
    if d: "trigger_device shw t event = Inr d" and target: "has_target shw event t" for d
  proof -
    let ?e = "trigger_execution env t d (uuids st)"
    let ?st2 = "st\<lparr>uuids := Suc (Suc (uuids st)), executions := executions st @ [?e]\<rparr>"
    have e: "ex_id ?e = uuid4 env (uuids st)" "ex_status ?e = ''queued''" "ex_execution_type ?e = Some ''function.invoke''"
      by (simp_all add: trigger_execution_def)
    have "insert_execution ?e (st\<lparr>uuids := Suc (Suc (uuids st))\<rparr>) = Inr ?st2"
      using fresh by (auto simp: insert_execution_def trigger_execution_def tbl_add_def image_iff)
    then have fire: "snd (fire_trigger cfg env shw t event st) = snd (dispatch_execution cfg env (ex_id ?e) None ?st2)"
      using d target by (auto simp: fire_trigger_def has_target_def Let_def)
    have get: "tbl_get ex_id (ex_id ?e) (executions ?st2) = Some ?e"
      using fresh tbl_get_append_new [of ex_id ?e "executions st"] by (simp add: e(1))
    have put: "tbl_put ex_id (mark_dispatched env ?e) (executions ?st2) = executions st @ [mark_dispatched env ?e]"
      using fresh e(1) by (simp add: tbl_put_append tbl_put_fresh mark_dispatched_def) (simp add: tbl_put_def)
    have "executions (snd (dispatch_execution cfg env (ex_id ?e) None ?st2)) =
        (if guardrails_violation cfg (Some ''function.invoke'') (ex_command ?e) = None
         then tbl_put ex_id (mark_dispatched env ?e) (executions ?st2) else executions ?st2)"
      unfolding dispatch_execution_def Let_def get
      by (simp add: e sor_def frame_simps transition_allowed_def allowed_transitions_def split: option.split sum.split)
    then show ?thesis
      unfolding fire put dispatch_uuids by (simp add: fired_row_def d Let_def)
  qed
  have none: "executions (snd (fire_trigger cfg env shw t event st)) = executions st
      \<and> uuids (snd (fire_trigger cfg env shw t event st)) = uuids st" if "\<not> has_target shw event t"
    using that by (auto simp: fire_trigger_def has_target_def split: sum.splits)
  have some: "\<exists>d. trigger_device shw t event = Inr d" if "has_target shw event t"
    using that by (auto simp: has_target_def split: sum.splits)
  show "executions (snd (fire_trigger cfg env shw t event st)) = executions st @
      (if has_target shw event t then [fired_row cfg env shw event t (uuids st)] else [])"
    "uuids (snd (fire_trigger cfg env shw t event st)) = uuids st + (if has_target shw event t then 2 else 0)"
    using fired none some by auto
qed

lemma fire_raises: "is_ok (fst (fire_trigger cfg env shw t event st)) = is_ok (trigger_device shw t event)"
  by (auto simp: fire_trigger_def Let_def split: sum.split)

text \<open>The ids still to be drawn are new and do not repeat.\<close>

definition uuids_fresh :: "exec_env \<Rightarrow> exec_state \<Rightarrow> bool" where
  "uuids_fresh env st \<longleftrightarrow> inj (uuid4 env) \<and> (\<forall>k \<ge> uuids st. uuid4 env k \<notin> ex_id ` set (executions st))"

lemma fire_trigger_fresh: "uuids_fresh env st \<Longrightarrow> uuids_fresh env (snd (fire_trigger cfg env shw t event st))"
  using fire_trigger_row [of env st cfg shw t event] by (auto simp: uuids_fresh_def dest: injD)

fun fired_rows :: "exec_cfg \<Rightarrow> exec_env \<Rightarrow> (json \<Rightarrow> string) \<Rightarrow> dict \<Rightarrow> nat \<Rightarrow> trigger list \<Rightarrow> execution list" where
  "fired_rows cfg env shw event n [] = []"
| "fired_rows cfg env shw event n (t # ts) =
     fired_row cfg env shw event t n # fired_rows cfg env shw event (n + 2) ts"

lemma fired_rows_ids:
  assumes "inj (uuid4 env)"
  shows "ex_id ` set (fired_rows cfg env shw event n ts) \<subseteq> uuid4 env ` {n..}"
    and "distinct (map ex_id (fired_rows cfg env shw event n ts))"
proof (induction ts arbitrary: n)
  case (Cons t ts)
  case 1
  note ids = Cons.IH(1) [of "n + 2"]
  have "uuid4 env ` {n + 2..} \<subseteq> uuid4 env ` {n..}" by (rule image_mono) auto
  with ids have "ex_id ` set (fired_rows cfg env shw event (n + 2) ts) \<subseteq> uuid4 env ` {n..}" by (rule subset_trans)
  then show ?case by simp
  case 2
  note ids = Cons.IH(1) [of "n + 2"]
  have "uuid4 env n \<notin> uuid4 env ` {n + 2..}" using assms by (auto dest: injD)
  then have "uuid4 env n \<notin> ex_id ` set (fired_rows cfg env shw event (n + 2) ts)" using ids by blast
  then show ?case using Cons.IH(2) [of "n + 2"] by simp
qed simp_all

lemma fired_row_fields:
  assumes "has_target shw event t"
  shows "ex_plugin_id (fired_row cfg env shw event t n) = Some (tr_function_id t)"
    "ex_tenant_id (fired_row cfg env shw event t n) = tr_tenant_id t"
    "Inr (ex_device_id (fired_row cfg env shw event t n)) = trigger_device shw t event"
    "ex_status (fired_row cfg env shw event t n) =
       (if guardrails_violation cfg (Some ''function.invoke'') (Some (''trigger:'' @ tr_id t)) = None
        then ''dispatched'' else ''queued'')"
  using assms
  by (auto simp: fired_row_def mark_dispatched_def trigger_execution_def has_target_def Let_def split: sum.splits)

lemma fired_rows_fields:
  assumes "list_all (has_target shw event) ts"
  shows "map (\<lambda>e. (ex_plugin_id e, ex_tenant_id e, Inr (ex_device_id e))) (fired_rows cfg env shw event n ts)
        = map (\<lambda>t. (Some (tr_function_id t), tr_tenant_id t, trigger_device shw t event)) ts"
    and "map ex_status (fired_rows cfg env shw event n ts) = map (\<lambda>t.
        if guardrails_violation cfg (Some ''function.invoke'') (Some (''trigger:'' @ tr_id t)) = None
        then ''dispatched'' else ''queued'') ts"
  using assms by (induction ts arbitrary: n) (simp_all add: fired_row_fields)

lemma fire_all_rows:
  assumes "uuids_fresh env st"
  shows "executions (fire_all cfg env shw ts event st) = executions st @
    fired_rows cfg env shw event (uuids st) (filter (has_target shw event)
      (takeWhile (\<lambda>t. is_ok (trigger_device shw t event))
         (filter (\<lambda>t. trigger_matches_filter (tr_filter_expr t) event) ts)))"
  using assms
proof (induction ts arbitrary: st)
  case (Cons t ts)
  let ?st = "snd (fire_trigger cfg env shw t event st)"
  have fresh: "uuid4 env (uuids st) \<notin> ex_id ` set (executions st)" using Cons.prems by (simp add: uuids_fresh_def)
  note row = fire_trigger_row [OF fresh, of cfg shw t event]
  show ?case
  proof (cases "trigger_matches_filter (tr_filter_expr t) event")
    case m: True
    have step: "fire_all cfg env shw (t # ts) event st =
        (if is_ok (trigger_device shw t event) then fire_all cfg env shw ts event ?st else ?st)"
      using m fire_raises [of cfg env shw t event st]
      by (cases "fire_trigger cfg env shw t event st"; cases "fst (fire_trigger cfg env shw t event st)") simp_all
    have "\<not> has_target shw event t" if "\<not> is_ok (trigger_device shw t event)"
      using that by (cases "trigger_device shw t event") (simp_all add: has_target_def)
    then show ?thesis
      using Cons.IH [OF fire_trigger_fresh [OF Cons.prems, of cfg shw t event]] row m unfolding step by simp
  qed (use Cons in simp)
qed simp

text \<open>C31. What one event does to the table of executions: every trigger that is active, of its type,
  with a satisfied filter and a device, up to the first one that raises, adds one execution of its
  function, for its tenant, under a new id and in the order of the triggers, and no row changes
  otherwise. The guardrails alone decide whether it is dispatched or stays queued: the limit of active
  executions per device is not applied.\<close>

theorem trigger_firing:
  fixes cfg :: exec_cfg and shw :: "json \<Rightarrow> string" and topic :: string and event :: dict and st :: exec_state
  assumes "uuids_fresh env st"
  defines "fired \<equiv> fired_triggers shw (topic_suffix (kafka_topic_prefix (publisher cfg)) topic) event (triggers st)"
  shows "\<exists>new. executions (consume_event cfg env shw topic event st) = executions st @ new
    \<and> distinct (map ex_id new) \<and> ex_id ` set new \<inter> ex_id ` set (executions st) = {}
    \<and> map (\<lambda>e. (ex_plugin_id e, ex_tenant_id e, Inr (ex_device_id e))) new
        = map (\<lambda>t. (Some (tr_function_id t), tr_tenant_id t, trigger_device shw t event)) fired
    \<and> map ex_status new = map (\<lambda>t.
        if guardrails_violation cfg (Some ''function.invoke'') (Some (''trigger:'' @ tr_id t)) = None
        then ''dispatched'' else ''queued'') fired"
proof -
  let ?new = "fired_rows cfg env shw event (uuids st) fired"
  have rows: "executions (consume_event cfg env shw topic event st) = executions st @ ?new"
    using fire_all_rows [OF assms(1)]
    by (simp add: consume_event_def fired_def fired_triggers_def conj_ac)
  have target: "list_all (has_target shw event) fired" by (simp add: fired_def fired_triggers_def list_all_iff)
  have inj: "inj (uuid4 env)" and fresh: "\<And>k. k \<ge> uuids st \<Longrightarrow> uuid4 env k \<notin> ex_id ` set (executions st)"
    using assms(1) by (simp_all add: uuids_fresh_def)
  have old: "uuid4 env ` {uuids st..} \<inter> ex_id ` set (executions st) = {}" using fresh by auto
  have new: "ex_id ` set ?new \<inter> ex_id ` set (executions st) = {}"
    using fired_rows_ids(1) [OF inj, of cfg shw event "uuids st" fired] old by blast
  show ?thesis
    using rows fired_rows_ids(2) [OF inj, of cfg shw event "uuids st" fired] new
      fired_rows_fields [OF target, of cfg env "uuids st"]
    by (intro exI [of _ ?new] conjI)
qed

text \<open>Two triggers on the end of an execution: one for the same device, one with a filter that fails.\<close>

definition demo_trigger :: "string \<Rightarrow> json option \<Rightarrow> trigger" where
  "demo_trigger i f = \<lparr>tr_id = i, tr_event_type = ''device.registered'', tr_function_id = ''f'',
     tr_target_type = Some ''same_device'', tr_target_id = None, tr_filter_expr = f,
     tr_is_active = True, tr_tenant_id = None, tr_created_at = None\<rparr>"

definition demo_fire_env :: exec_env where
  "demo_fire_env = demo_env\<lparr>uuid4 := (\<lambda>n. replicate (Suc n) CHR ''u'')\<rparr>"

definition demo_triggered :: exec_state where
  "demo_triggered = demo_created\<lparr>triggers := [demo_trigger ''t1'' None,
     demo_trigger ''t2'' (Some (JObj [(''status'', JStr ''lost'')]))]\<rparr>"

lemma trigger_firing_witness:
  "length (executions (consume_event demo_cfg demo_fire_env (\<lambda>v. []) ''nexora.device.registered''
     [(''device_id'', JStr ''d1'')] demo_triggered)) = 2"
proof -
  have "executions demo_triggered = executions demo_created" by (simp add: demo_triggered_def)
  then have fresh: "uuids_fresh demo_fire_env demo_triggered"
    by (simp add: uuids_fresh_def demo_created_rows demo_fire_env_def inj_def) (simp add: demo_env_def)
  have fired: "fired_triggers (\<lambda>v. []) (topic_suffix (kafka_topic_prefix (publisher demo_cfg)) ''nexora.device.registered'')
      [(''device_id'', JStr ''d1'')] (triggers demo_triggered) = [demo_trigger ''t1'' None]"
    by code_simp
  show ?thesis
    using trigger_firing [OF fresh, of demo_cfg "\<lambda>v. []" "''nexora.device.registered''" "[(''device_id'', JStr ''d1'')]"]
    unfolding fired by (auto simp: demo_triggered_def demo_created_rows dest!: arg_cong [where f = length])
qed

end
