(* ===== verification/EdgeStore.thy ===== *)
theory EdgeStore
  imports Events
begin

text \<open>
  The edge gateway (\<open>services/nexora-edge/main.py\<close>), first part: its state and the
  Redis-backed store with its in-memory fallback. Redis is a key-value store any call of which may
  fail (the parameter \<open>redis_ok\<close>, asked by call number); a failed call falls back to the local
  dict. Expiry of Redis keys is a step of its own. The gauges read the store again, which changes
  nothing; they are not modelled.
\<close>

record dual =
  primary :: "(string \<times> dict) list"
  fallback :: "(string \<times> dict) list"

record edge_cfg =
  ed_publisher :: publisher_cfg
  gateway_instance_id :: string
  max_delivery_attempts :: nat
  delivery_backoff_seconds :: rat

record edge_env =
  ed_time :: rat
  ed_uuid :: string
  redis_ok :: "nat \<Rightarrow> bool"
  ws_ok :: "nat \<Rightarrow> bool"
  ed_send_ok :: "nat \<Rightarrow> bool"
  ed_now :: int
  shw :: "json \<Rightarrow> string"
  flt :: "string \<Rightarrow> rat option"

text \<open>A WebSocket is a number. \<open>ws_connections\<close> is the dict of this instance, \<open>ws_open\<close>
  the sockets whose receive loop runs, \<open>listeners\<close> the Pub/Sub tasks, \<open>channel\<close> what was
  published and not yet delivered, \<open>ws_sent\<close> what was sent on which socket.\<close>

record edge_state = bus +
  redis_on :: bool
  redis_calls :: nat
  sessions :: dual
  dispatches :: dual
  ws_connections :: "(string \<times> nat) list"
  ws_open :: "nat list"
  listeners :: "(string \<times> nat) list"
  channel :: "(string \<times> dict) list"
  ws_tries :: nat
  ws_sent :: "(nat \<times> dict) list"
  consumer_on :: bool
  backoff_slept :: rat

text \<open>Whether the next Redis call works, and the state after it.\<close>

definition redis_up :: "edge_env \<Rightarrow> edge_state \<Rightarrow> bool" where
  "redis_up env st \<longleftrightarrow> redis_on st \<and> redis_ok env (redis_calls st)"

definition tick :: "edge_state \<Rightarrow> edge_state" where
  "tick st = (if redis_on st then st\<lparr>redis_calls := Suc (redis_calls st)\<rparr> else st)"

definition dual_get :: "bool \<Rightarrow> dual \<Rightarrow> string \<Rightarrow> dict option" where
  "dual_get up d k = map_of (if up then primary d else fallback d) k"

definition dual_set :: "bool \<Rightarrow> string \<Rightarrow> dict \<Rightarrow> dual \<Rightarrow> dual" where
  "dual_set up k v d =
     (if up then d\<lparr>primary := AList.update k v (primary d)\<rparr>
      else d\<lparr>fallback := AList.update k v (fallback d)\<rparr>)"

definition dual_del :: "bool \<Rightarrow> string \<Rightarrow> dual \<Rightarrow> dual" where
  "dual_del up k d =
     (if up then d\<lparr>primary := AList.delete k (primary d)\<rparr>
      else d\<lparr>fallback := AList.delete k (fallback d)\<rparr>)"

definition session_get :: "edge_env \<Rightarrow> string \<Rightarrow> edge_state \<Rightarrow> dict option \<times> edge_state" where
  "session_get env device_id st = (dual_get (redis_up env st) (sessions st) device_id, tick st)"

definition session_set :: "edge_env \<Rightarrow> string \<Rightarrow> dict \<Rightarrow> edge_state \<Rightarrow> edge_state" where
  "session_set env device_id session st =
     (tick st)\<lparr>sessions := dual_set (redis_up env st) device_id session (sessions st)\<rparr>"

definition dispatch_get :: "edge_env \<Rightarrow> string \<Rightarrow> edge_state \<Rightarrow> dict option \<times> edge_state" where
  "dispatch_get env execution_id st =
     (dual_get (redis_up env st) (dispatches st) execution_id, tick st)"

definition dispatch_set :: "edge_env \<Rightarrow> string \<Rightarrow> dict \<Rightarrow> edge_state \<Rightarrow> edge_state" where
  "dispatch_set env execution_id data st =
     (tick st)\<lparr>dispatches := dual_set (redis_up env st) execution_id data (dispatches st)\<rparr>"

definition dispatch_delete :: "edge_env \<Rightarrow> string \<Rightarrow> edge_state \<Rightarrow> edge_state" where
  "dispatch_delete env execution_id st =
     (tick st)\<lparr>dispatches := dual_del (redis_up env st) execution_id (dispatches st)\<rparr>"

text \<open>Where a dispatch is held, in either half.\<close>

definition holds_dispatch :: "string \<Rightarrow> edge_state \<Rightarrow> bool" where
  "holds_dispatch i st \<longleftrightarrow>
     map_of (primary (dispatches st)) i \<noteq> None \<or> map_of (fallback (dispatches st)) i \<noteq> None"

text \<open>Redis answers every call, or is not used at all.\<close>

definition redis_stable :: "edge_env \<Rightarrow> edge_state \<Rightarrow> bool" where
  "redis_stable env st \<longleftrightarrow> \<not> redis_on st \<or> (\<forall>n. redis_ok env n)"

lemma redis_stable_up: "redis_stable env st \<Longrightarrow> redis_up env st = redis_on st"
  by (auto simp: redis_stable_def redis_up_def)

lemma tick_simps [simp]:
  "redis_on (tick st) = redis_on st" "sessions (tick st) = sessions st"
  "dispatches (tick st) = dispatches st" "ws_connections (tick st) = ws_connections st"
  "ws_open (tick st) = ws_open st" "listeners (tick st) = listeners st"
  "channel (tick st) = channel st" "ws_tries (tick st) = ws_tries st"
  "ws_sent (tick st) = ws_sent st" "consumer_on (tick st) = consumer_on st"
  "published (tick st) = published st" "producer_up (tick st) = producer_up st"
  "backoff_slept (tick st) = backoff_slept st" "sends (tick st) = sends st"
  by (simp_all add: tick_def)

lemma dispatch_set_simps [simp]:
  "redis_on (dispatch_set env i d st) = redis_on st" "sessions (dispatch_set env i d st) = sessions st"
  "ws_connections (dispatch_set env i d st) = ws_connections st"
  "ws_open (dispatch_set env i d st) = ws_open st" "channel (dispatch_set env i d st) = channel st"
  "ws_sent (dispatch_set env i d st) = ws_sent st" "consumer_on (dispatch_set env i d st) = consumer_on st"
  "published (dispatch_set env i d st) = published st"
  "producer_up (dispatch_set env i d st) = producer_up st"
  "backoff_slept (dispatch_set env i d st) = backoff_slept st" "sends (dispatch_set env i d st) = sends st"
  "dispatches (dispatch_set env i d st) = dual_set (redis_up env st) i d (dispatches st)"
  by (simp_all add: dispatch_set_def)

lemma dispatch_delete_simps [simp]:
  "redis_on (dispatch_delete env i st) = redis_on st" "sessions (dispatch_delete env i st) = sessions st"
  "ws_connections (dispatch_delete env i st) = ws_connections st"
  "ws_open (dispatch_delete env i st) = ws_open st" "ws_sent (dispatch_delete env i st) = ws_sent st"
  "consumer_on (dispatch_delete env i st) = consumer_on st"
  "published (dispatch_delete env i st) = published st"
  "backoff_slept (dispatch_delete env i st) = backoff_slept st"
  "dispatches (dispatch_delete env i st) = dual_del (redis_up env st) i (dispatches st)"
  by (simp_all add: dispatch_delete_def)

lemma session_set_simps [simp]:
  "redis_on (session_set env i d st) = redis_on st"
  "dispatches (session_set env i d st) = dispatches st"
  "ws_connections (session_set env i d st) = ws_connections st"
  "ws_open (session_set env i d st) = ws_open st" "ws_sent (session_set env i d st) = ws_sent st"
  "listeners (session_set env i d st) = listeners st"
  "consumer_on (session_set env i d st) = consumer_on st"
  "sessions (session_set env i d st) = dual_set (redis_up env st) i d (sessions st)"
  by (simp_all add: session_set_def)

lemma dual_get_set: "dual_get up (dual_set up k v d) j = (if j = k then Some v else dual_get up d j)"
  by (simp add: dual_get_def dual_set_def update_conv')

lemma dual_get_del: "dual_get up (dual_del up k d) j = (if j = k then None else dual_get up d j)"
  by (simp add: dual_get_def dual_del_def delete_conv')

lemma holds_set: "holds_dispatch i (dispatch_set env i d st)"
  by (simp add: holds_dispatch_def dual_set_def update_conv')

lemma holds_set_mono: "holds_dispatch j st \<Longrightarrow> holds_dispatch j (dispatch_set env i d st)"
  by (auto simp: holds_dispatch_def dual_set_def update_conv')

lemma holds_delete_other: "j \<noteq> i \<Longrightarrow> holds_dispatch j st \<Longrightarrow> holds_dispatch j (dispatch_delete env i st)"
  by (auto simp: holds_dispatch_def dual_del_def delete_conv')

lemma holds_cong: "dispatches st' = dispatches st \<Longrightarrow> holds_dispatch j st' = holds_dispatch j st"
  by (simp add: holds_dispatch_def)

end
