(* ===== verification/Edge.thy ===== *)
theory Edge
  imports EdgeStore
begin

text \<open>
  The edge gateway, second part: sessions, the WebSocket tunnel with replay and Pub/Sub, the Kafka
  consumer of dispatches and the delivery endpoint. Each definition runs from one await of the
  event loop that waits for the outside (a message, a request, a disconnect) to the next.
\<close>

subsection \<open>Sessions\<close>

definition register_agent_session :: "edge_env \<Rightarrow> dict \<Rightarrow> edge_state \<Rightarrow> dict res \<times> edge_state" where
  "register_agent_session env payload st =
     (let device_id = dget payload ''device_id'' in
      if \<not> truthy device_id then (Inl (http 422 ''device_id is required''), st)
      else
      let session = [(''device_id'', device_id), (''registered_at'', JNum (ed_time env)),
            (''last_seen'', JNum (ed_time env)),
            (''metadata'', JObj (filter (\<lambda>p. fst p \<noteq> ''device_id'') payload))]
      in (Inr session, session_set env (py_str (shw env) device_id) session st))"

definition heartbeat :: "edge_env \<Rightarrow> string \<Rightarrow> edge_state \<Rightarrow> dict res \<times> edge_state" where
  "heartbeat env device_id st =
     (case session_get env device_id st of
        (None, st1) \<Rightarrow> (Inl (http 404 ''session not found''), st1)
      | (Some session, st1) \<Rightarrow>
          if session = [] then (Inl (http 404 ''session not found''), st1)
          else (Inr [(''device_id'', JStr device_id), (''last_seen'', JNum (ed_time env))],
                session_set env device_id (dset session ''last_seen'' (JNum (ed_time env))) st1))"

definition get_session :: "edge_env \<Rightarrow> string \<Rightarrow> edge_state \<Rightarrow> dict res \<times> edge_state" where
  "get_session env device_id st =
     (case session_get env device_id st of
        (None, st1) \<Rightarrow> (Inl (http 404 ''session not found''), st1)
      | (Some session, st1) \<Rightarrow>
          if session = [] then (Inl (http 404 ''session not found''), st1) else (Inr session, st1))"

subsection \<open>Pushing over a WebSocket\<close>

text \<open>\<open>x.get(k, {}).get(k')\<close>, and \<open>float(v) if v is not None else None\<close>.\<close>

definition get2 :: "json \<Rightarrow> string \<Rightarrow> string \<Rightarrow> json res" where
  "get2 v k k' = (case v of JObj d \<Rightarrow> py_get (dget_or d k (JObj [])) k' | _ \<Rightarrow> Inl (PyExc ''AttributeError''))"

definition opt_float :: "edge_env \<Rightarrow> json \<Rightarrow> rat option res" where
  "opt_float env v = (if v = JNull then Inr None
     else case py_float (flt env) v of Inl err \<Rightarrow> Inl err | Inr r \<Rightarrow> Inr (Some r))"

definition jnum :: "rat option \<Rightarrow> json" where
  "jnum r = (case r of None \<Rightarrow> JNull | Some x \<Rightarrow> JNum x)"

text \<open>\<open>event["payload"]["kafka_dispatched_at"] or event["occurred_at"]\<close>, of a Kafka event.\<close>

definition kafka_dispatched_at :: "json \<Rightarrow> json res" where
  "kafka_dispatched_at event =
     (case get2 event ''payload'' ''kafka_dispatched_at'' of
        Inl err \<Rightarrow> Inl err
      | Inr v \<Rightarrow> if truthy v then Inr v else py_get event ''occurred_at'')"

text \<open>The control message of a dispatch, or the exception its timestamps raise.\<close>

definition control_message :: "edge_env \<Rightarrow> string \<Rightarrow> dict \<Rightarrow> dict res" where
  "control_message env device_id dispatch =
     (let event = dget_or dispatch ''event'' (JObj []);
          received_at = dget dispatch ''received_at'' in
      case kafka_dispatched_at event of Inl err \<Rightarrow> Inl err
      | Inr kda \<Rightarrow>
        (case opt_float env received_at of Inl err \<Rightarrow> Inl err
         | Inr received \<Rightarrow>
           (case opt_float env kda of Inl err \<Rightarrow> Inl err
            | Inr dispatched \<Rightarrow>
                Inr [(''type'', JStr ''control''),
                     (''execution_id'', dget_or dispatch ''execution_id'' (JStr [])),
                     (''device_id'', JStr device_id),
                     (''payload'', (case event of JObj d \<Rightarrow> dget_or d ''payload'' (JObj []) | _ \<Rightarrow> JNull)),
                     (''received_at'', received_at),
                     (''kafka_dispatched_at'', kda),
                     (''delivered_at'', JNum (ed_time env)),
                     (''queue_wait_seconds'', jnum (map_option (\<lambda>r. ed_time env - r) received)),
                     (''dispatch_latency_seconds'',
                        jnum (map_option (\<lambda>r. ed_time env - r) dispatched))])))"

text \<open>A send that fails is logged; the dispatch stays in the store either way.\<close>

definition ws_push_dispatch ::
  "edge_env \<Rightarrow> string \<Rightarrow> dict \<Rightarrow> nat \<Rightarrow> edge_state \<Rightarrow> unit res \<times> edge_state" where
  "ws_push_dispatch env device_id dispatch ws st =
     (case control_message env device_id dispatch of
        Inl err \<Rightarrow> (Inl err, st)
      | Inr m \<Rightarrow>
          (Inr (), st\<lparr>ws_tries := Suc (ws_tries st),
             ws_sent := (if ws_ok env (ws_tries st) then ws_sent st @ [(ws, m)] else ws_sent st)\<rparr>))"

definition for_device :: "string \<Rightarrow> dict \<Rightarrow> bool" where
  "for_device device_id data \<longleftrightarrow> py_eq (dget data ''device_id'') (JStr device_id)"

text \<open>Replay from Redis: each key is read by its own call; any exception ends it quietly.\<close>

fun replay_redis :: "edge_env \<Rightarrow> string \<Rightarrow> nat \<Rightarrow> string list \<Rightarrow> edge_state \<Rightarrow> edge_state" where
  "replay_redis env device_id ws [] st = st"
| "replay_redis env device_id ws (k # ks) st =
     (if \<not> redis_up env st then tick st
      else case map_of (primary (dispatches st)) k of
        None \<Rightarrow> replay_redis env device_id ws ks (tick st)
      | Some data \<Rightarrow>
          if for_device device_id data
          then (case ws_push_dispatch env device_id data ws (tick st) of
                  (Inl err, st1) \<Rightarrow> st1
                | (Inr _, st1) \<Rightarrow> replay_redis env device_id ws ks st1)
          else replay_redis env device_id ws ks (tick st))"

fun replay_local ::
  "edge_env \<Rightarrow> string \<Rightarrow> nat \<Rightarrow> dict list \<Rightarrow> edge_state \<Rightarrow> unit res \<times> edge_state" where
  "replay_local env device_id ws [] st = (Inr (), st)"
| "replay_local env device_id ws (data # ds) st =
     (if for_device device_id data
      then (case ws_push_dispatch env device_id data ws st of
              (Inl err, st1) \<Rightarrow> (Inl err, st1)
            | (Inr _, st1) \<Rightarrow> replay_local env device_id ws ds st1)
      else replay_local env device_id ws ds st)"

definition ws_replay_pending ::
  "edge_env \<Rightarrow> string \<Rightarrow> nat \<Rightarrow> edge_state \<Rightarrow> unit res \<times> edge_state" where
  "ws_replay_pending env device_id ws st =
     (if redis_on st
      then (Inr (), if redis_up env st
                    then replay_redis env device_id ws (map fst (primary (dispatches st))) (tick st)
                    else tick st)
      else replay_local env device_id ws (map snd (fallback (dispatches st))) st)"

subsection \<open>The tunnel\<close>

text \<open>From accept to the receive loop. An exception of the local replay leaves the endpoint before
  its try block, so nothing undoes the registration.\<close>

definition ws_connect ::
  "edge_cfg \<Rightarrow> edge_env \<Rightarrow> string \<Rightarrow> nat \<Rightarrow> edge_state \<Rightarrow> unit res \<times> edge_state" where
  "ws_connect cfg env device_id ws st =
     (let st1 = st\<lparr>ws_connections := AList.update device_id ws (ws_connections st)\<rparr>;
          (found, st2) = session_get env device_id st1;
          session = (case found of Some (p # ps) \<Rightarrow> p # ps
                     | _ \<Rightarrow> [(''device_id'', JStr device_id), (''registered_at'', JNum (ed_time env)),
                            (''metadata'', JObj [])]);
          session1 = dset (dset (dset session ''ws_connected'' (JBool True))
                       ''gateway_instance'' (JStr (gateway_instance_id cfg)))
                       ''last_seen'' (JNum (ed_time env));
          st3 = session_set env device_id session1 st2
      in case ws_replay_pending env device_id ws st3 of
           (Inl err, st4) \<Rightarrow> (Inl err, st4)
         | (Inr _, st4) \<Rightarrow>
             (Inr (), st4\<lparr>ws_open := ws # ws_open st4,
                listeners := (if redis_on st4 then (device_id, ws) # listeners st4 else listeners st4)\<rparr>))"

text \<open>One message of the receive loop.\<close>

definition ws_receive :: "edge_env \<Rightarrow> string \<Rightarrow> nat \<Rightarrow> dict \<Rightarrow> edge_state \<Rightarrow> edge_state" where
  "ws_receive env device_id ws data st =
     (let msg_type = dget data ''type'' in
      if msg_type = JStr ''ack'' then
        (if truthy (dget data ''execution_id'')
         then dispatch_delete env (py_str (shw env) (dget data ''execution_id'')) st else st)
      else if msg_type = JStr ''ping'' then
        st\<lparr>ws_tries := Suc (ws_tries st),
           ws_sent := (if ws_ok env (ws_tries st)
                       then ws_sent st @ [(ws, [(''type'', JStr ''pong'')])] else ws_sent st)\<rparr>
      else if msg_type = JStr ''heartbeat'' then
        (case session_get env device_id st of
           (Some (p # ps), st1) \<Rightarrow>
             session_set env device_id (dset (p # ps) ''last_seen'' (JNum (ed_time env))) st1
         | (_, st1) \<Rightarrow> st1)
      else st)"

text \<open>The finally block: the entry of the device is popped, whichever socket it holds.\<close>

definition ws_disconnect :: "edge_env \<Rightarrow> string \<Rightarrow> nat \<Rightarrow> edge_state \<Rightarrow> edge_state" where
  "ws_disconnect env device_id ws st =
     (let st1 = st\<lparr>ws_connections := AList.delete device_id (ws_connections st),
                 ws_open := remove1 ws (ws_open st),
                 listeners := remove1 (device_id, ws) (listeners st)\<rparr>
      in case session_get env device_id st1 of
           (Some (p # ps), st2) \<Rightarrow>
             session_set env device_id (dset (p # ps) ''ws_connected'' (JBool False)) st2
         | (_, st2) \<Rightarrow> st2)"

subsection \<open>The Kafka consumer\<close>

text \<open>The record cached for a dispatch event.\<close>

definition dispatch_data :: "edge_env \<Rightarrow> json \<Rightarrow> json \<Rightarrow> dict \<Rightarrow> json \<Rightarrow> dict" where
  "dispatch_data env execution_id device_id event broker_ts =
    [(''execution_id'', execution_id), (''device_id'', device_id), (''event'', JObj event),
     (''received_at'', JNum (ed_time env)), (''kafka_broker_timestamp'', broker_ts),
     (''delivery_attempts'', JInt 0), (''delivery_last_error'', JStr [])]"

definition event_execution_id :: "edge_env \<Rightarrow> dict \<Rightarrow> json" where
  "event_execution_id env event =
     jor (dget event ''resource_id'') (jor (dget event ''execution_id'') (JStr (ed_uuid env)))"

text \<open>Handling one event once it is read: what is stored, then the push. Any exception leaves
  the loop.\<close>

definition handle_dispatched ::
  "edge_env \<Rightarrow> dict \<Rightarrow> json \<Rightarrow> edge_state \<Rightarrow> unit res \<times> edge_state" where
  "handle_dispatched env event broker_ts st =
     (case get2 (JObj event) ''payload'' ''device_id'' of Inl err \<Rightarrow> (Inl err, st)
      | Inr device_id \<Rightarrow>
        (case kafka_dispatched_at (JObj event) of Inl err \<Rightarrow> (Inl err, st)
         | Inr kda \<Rightarrow>
           (case opt_float env kda of Inl err \<Rightarrow> (Inl err, st)
            | Inr _ \<Rightarrow>
              let execution_id = event_execution_id env event;
                  data = dispatch_data env execution_id device_id event broker_ts;
                  st1 = dispatch_set env (py_str (shw env) execution_id) data st;
                  d = py_str (shw env) device_id
              in if \<not> truthy device_id then (Inr (), st1)
                 else if redis_on st1
                 then (Inr (), (tick st1)\<lparr>channel :=
                         (if redis_up env st1 then channel st1 @ [(d, data)] else channel st1)\<rparr>)
                 else case map_of (ws_connections st1) d of
                        None \<Rightarrow> (Inr (), st1)
                      | Some ws \<Rightarrow> ws_push_dispatch env d data ws st1)))"

definition consume_dispatched :: "edge_env \<Rightarrow> json \<Rightarrow> json \<Rightarrow> edge_state \<Rightarrow> edge_state" where
  "consume_dispatched env event broker_ts st =
     (if \<not> consumer_on st then st
      else case event of
        JObj d \<Rightarrow>
          (case handle_dispatched env d broker_ts st of
             (Inl err, st1) \<Rightarrow> st1\<lparr>consumer_on := False\<rparr>
           | (Inr _, st1) \<Rightarrow> st1)
      | _ \<Rightarrow> st\<lparr>consumer_on := False\<rparr>)"

text \<open>The Pub/Sub listeners take the next published dispatch: each listener of the device pushes
  it; one whose push raises ends.\<close>

fun push_listeners ::
  "edge_env \<Rightarrow> string \<Rightarrow> dict \<Rightarrow> (string \<times> nat) list \<Rightarrow> edge_state \<Rightarrow> edge_state" where
  "push_listeners env d data [] st = st"
| "push_listeners env d data ((d', ws) # ls) st =
     (if d' \<noteq> d then push_listeners env d data ls st
      else case ws_push_dispatch env d data ws st of
        (Inl err, st1) \<Rightarrow>
          push_listeners env d data ls (st1\<lparr>listeners := remove1 (d', ws) (listeners st1)\<rparr>)
      | (Inr _, st1) \<Rightarrow> push_listeners env d data ls st1)"

definition pubsub_step :: "edge_env \<Rightarrow> edge_state \<Rightarrow> edge_state" where
  "pubsub_step env st =
     (case channel st of
        [] \<Rightarrow> st
      | (d, data) # rest \<Rightarrow> push_listeners env d data (listeners st) (st\<lparr>channel := rest\<rparr>))"

end
