(* ===== verification/EdgeDelivery.thy ===== *)
theory EdgeDelivery
  imports Edge
begin

text \<open>
  The delivery endpoint of the edge gateway (\<open>deliver\<close>), and what the gateway guarantees:
  dispatches survive everything but an acknowledgement, a delivery or expiry; what a delivery
  attempt ends in; what a late disconnect and a malformed event do.
\<close>

subsection \<open>Delivery\<close>

definition int_field :: "dict \<Rightarrow> string \<Rightarrow> int res" where
  "int_field d k = (case dget_or d k (JInt 0) of
       JInt i \<Rightarrow> Inr i | JBool b \<Rightarrow> Inr (if b then 1 else 0) | _ \<Rightarrow> Inl (PyExc ''TypeError''))"

text \<open>The response of a delivery, or the exception its timestamps raise.\<close>

definition delivered_response :: "edge_env \<Rightarrow> string \<Rightarrow> json \<Rightarrow> int \<Rightarrow> dict \<Rightarrow> dict res" where
  "delivered_response env execution_id device_id attempt cached =
     (let event = dget_or cached ''event'' (JObj []);
          received_at = dget cached ''received_at'';
          broker_ts = dget cached ''kafka_broker_timestamp'' in
      case kafka_dispatched_at event of Inl err \<Rightarrow> Inl err
      | Inr kda \<Rightarrow>
        (case opt_float env received_at of Inl err \<Rightarrow> Inl err
         | Inr received \<Rightarrow>
           (case opt_float env kda of Inl err \<Rightarrow> Inl err
            | Inr dispatched \<Rightarrow>
              (case (if dispatched = None then Inr None else opt_float env broker_ts) of Inl err \<Rightarrow> Inl err
               | Inr broker \<Rightarrow>
                 Inr [(''execution_id'', JStr execution_id), (''device_id'', device_id),
                      (''status'', JStr ''delivered''), (''attempts'', JInt attempt),
                      (''kafka_dispatched_at'', kda), (''kafka_broker_timestamp'', broker_ts),
                      (''gateway_received_at'', received_at), (''delivered_at'', JNum (ed_time env)),
                      (''kafka_broker_lag_seconds'', jnum (case (broker, dispatched) of
                          (Some b, Some d) \<Rightarrow> Some (b - d) | _ \<Rightarrow> None)),
                      (''kafka_ingestion_seconds'', jnum (case (received, dispatched) of
                          (Some r, Some d) \<Rightarrow> Some (r - d) | _ \<Rightarrow> None)),
                      (''queue_wait_seconds'', jnum (map_option (\<lambda>r. ed_time env - r) received)),
                      (''dispatch_latency_seconds'', jnum (map_option (\<lambda>r. ed_time env - r) dispatched)),
                      (''payload'', (case event of JObj d \<Rightarrow> dget_or d ''payload'' (JObj [])
                                     | _ \<Rightarrow> JNull))]))))"

definition no_session_error :: "string \<Rightarrow> json" where
  "no_session_error device_id = JStr (''no active session for device '' @ device_id)"

text \<open>The loop over the attempts: \<open>left\<close> remain, the next is number \<open>attempt\<close>. The session
  was read once, before the loop. None is the loop running out, with the record it last stored.\<close>

fun deliver_loop ::
  "edge_cfg \<Rightarrow> edge_env \<Rightarrow> string \<Rightarrow> json \<Rightarrow> bool \<Rightarrow> int \<Rightarrow> nat \<Rightarrow> dict \<Rightarrow> edge_state \<Rightarrow>
     dict res option \<times> dict \<times> edge_state" where
  "deliver_loop cfg env i device has_session attempt 0 cached st = (None, cached, st)"
| "deliver_loop cfg env i device has_session attempt (Suc left) cached st =
     (let cached1 = dset cached ''delivery_attempts'' (JInt attempt);
          st1 = dispatch_set env i cached1 st in
      if has_session
      then (case delivered_response env i device attempt cached1 of
              Inl err \<Rightarrow> (Some (Inl err), cached1, st1)
            | Inr r \<Rightarrow> (Some (Inr r), cached1, dispatch_delete env i st1))
      else
      let cached2 = dset cached1 ''delivery_last_error'' (no_session_error (py_str (shw env) device));
          st2 = dispatch_set env i cached2 st1;
          st3 = (if 0 < left then st2\<lparr>backoff_slept :=
                   backoff_slept st2 + delivery_backoff_seconds cfg * of_int attempt\<rparr> else st2)
      in deliver_loop cfg env i device has_session (attempt + 1) left cached2 st3)"

definition failed_payload :: "edge_cfg \<Rightarrow> string \<Rightarrow> json \<Rightarrow> dict \<Rightarrow> dict" where
  "failed_payload cfg i device cached =
    [(''execution_id'', JStr i), (''device_id'', device),
     (''attempts'', JInt (int (max_delivery_attempts cfg))),
     (''last_error'', dget_or cached ''delivery_last_error'' (JStr []))]"

text \<open>\<open>_publish_event\<close> of the gateway sends once, whatever comes of it.\<close>

definition gateway_publisher :: "edge_cfg \<Rightarrow> publisher_cfg" where
  "gateway_publisher cfg = (ed_publisher cfg)\<lparr>kafka_retry_attempts := 1, service_name := ''nexora-edge'',
     resource_name := ''execution''\<rparr>"

definition deliver :: "edge_cfg \<Rightarrow> edge_env \<Rightarrow> string \<Rightarrow> edge_state \<Rightarrow> dict res \<times> edge_state" where
  "deliver cfg env i st =
     (case dispatch_get env i st of
        (None, st1) \<Rightarrow> (Inl (http 404 ''dispatch not found in cache''), st1)
      | (Some cached, st1) \<Rightarrow>
        if cached = [] then (Inl (http 404 ''dispatch not found in cache''), st1)
        else
        let device = dget_or cached ''device_id'' (JStr ''unknown'');
            (session, st2) = (if device = JStr ''unknown'' then (None, st1)
               else session_get env (py_str (shw env) device) st1);
            has_session = (case session of Some (p # ps) \<Rightarrow> True | _ \<Rightarrow> False)
        in case int_field cached ''delivery_attempts'' of
          Inl err \<Rightarrow> (Inl err, st2)
        | Inr attempts \<Rightarrow>
          (case deliver_loop cfg env i device has_session (attempts + 1)
                  (nat (int (max_delivery_attempts cfg) - attempts)) cached st2 of
             (Some r, cached1, st3) \<Rightarrow> (r, st3)
           | (None, cached1, st3) \<Rightarrow>
               let p = failed_payload cfg i device cached1;
                   st4 = publish_event (gateway_publisher cfg) (ed_send_ok env) (ed_now env)
                           ''delivery_failed'' i p st3
               in (Inl (Http 502 [JObj (p @ [(''status'', JStr ''delivery_failed'')])]),
                   dispatch_delete env i st4)))"

subsection \<open>The gateway as a machine\<close>

text \<open>The dispatch a step may remove: the acknowledged one, the delivered one, the expired one.\<close>

datatype edge_op =
    Register dict | Heartbeat string | Connect string nat | Receive string nat dict
  | Disconnect string nat | Consume json json | Pubsub | Deliver string | Expire string

definition edge_run :: "edge_cfg \<Rightarrow> edge_env \<Rightarrow> edge_op \<Rightarrow> edge_state \<Rightarrow> edge_state" where
  "edge_run cfg env operation st = (case operation of
       Register p \<Rightarrow> snd (register_agent_session env p st)
     | Heartbeat d \<Rightarrow> snd (heartbeat env d st)
     | Connect d ws \<Rightarrow> snd (ws_connect cfg env d ws st)
     | Receive d ws m \<Rightarrow> ws_receive env d ws m st
     | Disconnect d ws \<Rightarrow> ws_disconnect env d ws st
     | Consume ev ts \<Rightarrow> consume_dispatched env ev ts st
     | Pubsub \<Rightarrow> pubsub_step env st
     | Deliver i \<Rightarrow> snd (deliver cfg env i st)
     | Expire k \<Rightarrow> st\<lparr>dispatches := (dispatches st)\<lparr>primary := AList.delete k (primary (dispatches st))\<rparr>,
                      sessions := (sessions st)\<lparr>primary := AList.delete k (primary (sessions st))\<rparr>\<rparr>)"

definition may_remove :: "edge_env \<Rightarrow> edge_op \<Rightarrow> string \<Rightarrow> bool" where
  "may_remove env operation i = (case operation of
       Receive d ws m \<Rightarrow> dget m ''type'' = JStr ''ack'' \<and> truthy (dget m ''execution_id'')
          \<and> py_str (shw env) (dget m ''execution_id'') = i
     | Deliver j \<Rightarrow> j = i
     | Expire k \<Rightarrow> k = i
     | _ \<Rightarrow> False)"

subsection \<open>Frame lemmas\<close>

lemma push_dispatches: "dispatches (snd (ws_push_dispatch env d data ws st)) = dispatches st"
  by (auto simp: ws_push_dispatch_def split: sum.split)

lemma replay_redis_dispatches: "dispatches (replay_redis env d ws ks st) = dispatches st"
proof (induction ks arbitrary: st)
  case (Cons k ks)
  then show ?case
    using push_dispatches [of env d _ ws "tick st"]
    by (auto split: option.split prod.split sum.split) (metis snd_conv tick_simps(3))+
qed simp

lemma replay_local_dispatches: "dispatches (snd (replay_local env d ws ds st)) = dispatches st"
proof (induction ds arbitrary: st)
  case (Cons x ds)
  then show ?case
    using push_dispatches [of env d x ws st]
    by (auto split: prod.split sum.split) 
qed simp

lemma replay_dispatches: "dispatches (snd (ws_replay_pending env d ws st)) = dispatches st"
  by (simp add: ws_replay_pending_def replay_redis_dispatches replay_local_dispatches)

lemma push_listeners_dispatches: "dispatches (push_listeners env d data ls st) = dispatches st"
proof (induction ls arbitrary: st)
  case (Cons l ls)
  then show ?case
    using push_dispatches [of env d data "snd l" st]
    by (cases l) (auto split: prod.split sum.split)
qed simp

lemma session_get_dispatches: "dispatches (snd (session_get env d st)) = dispatches st"
  by (simp add: session_get_def)

text \<open>A connect: the replay runs on a state that holds the same dispatches.\<close>

lemma connect_cases:
  obtains st3 r st4 where "dispatches st3 = dispatches st"
    "ws_connections st3 = AList.update d ws (ws_connections st)" "redis_on st3 = redis_on st"
    "consumer_on st3 = consumer_on st"
    "ws_replay_pending env d ws st3 = (r, st4)"
    "ws_connect cfg env d ws st = (case r of Inl err \<Rightarrow> (Inl err, st4)
       | Inr _ \<Rightarrow> (Inr (), st4\<lparr>ws_open := ws # ws_open st4,
            listeners := (if redis_on st4 then (d, ws) # listeners st4 else listeners st4)\<rparr>))"
proof -
  let ?st1 = "st\<lparr>ws_connections := AList.update d ws (ws_connections st)\<rparr>"
  obtain found st2 where g: "session_get env d ?st1 = (found, st2)"
    by (cases "session_get env d ?st1")
  define session where "session = (case found of Some (p # ps) \<Rightarrow> p # ps
     | _ \<Rightarrow> [(''device_id'', JStr d), (''registered_at'', JNum (ed_time env)), (''metadata'', JObj [])])"
  define st3 where "st3 = session_set env d (dset (dset (dset session ''ws_connected'' (JBool True))
      ''gateway_instance'' (JStr (gateway_instance_id cfg))) ''last_seen'' (JNum (ed_time env))) st2"
  obtain r st4 where rp: "ws_replay_pending env d ws st3 = (r, st4)"
    by (cases "ws_replay_pending env d ws st3")
  have st2: "st2 = tick ?st1" using g by (simp add: session_get_def)
  show thesis
  proof (rule that)
    show "dispatches st3 = dispatches st" "redis_on st3 = redis_on st"
      "consumer_on st3 = consumer_on st"
      "ws_connections st3 = AList.update d ws (ws_connections st)"
      by (simp_all add: st3_def st2)
    show "ws_replay_pending env d ws st3 = (r, st4)" by (rule rp)
    show "ws_connect cfg env d ws st = (case r of Inl err \<Rightarrow> (Inl err, st4)
       | Inr _ \<Rightarrow> (Inr (), st4\<lparr>ws_open := ws # ws_open st4,
            listeners := (if redis_on st4 then (d, ws) # listeners st4 else listeners st4)\<rparr>))"
      using g rp by (cases r) (simp_all add: ws_connect_def Let_def st3_def [symmetric] session_def [symmetric])
  qed
qed

lemma connect_dispatches: "dispatches (snd (ws_connect cfg env d ws st)) = dispatches st"
proof -
  obtain st3 r st4 where c: "dispatches st3 = dispatches st" "ws_replay_pending env d ws st3 = (r, st4)"
    "ws_connect cfg env d ws st = (case r of Inl err \<Rightarrow> (Inl err, st4)
       | Inr _ \<Rightarrow> (Inr (), st4\<lparr>ws_open := ws # ws_open st4,
            listeners := (if redis_on st4 then (d, ws) # listeners st4 else listeners st4)\<rparr>))"
    using connect_cases [of st d ws env cfg] by metis
  have "dispatches st4 = dispatches st" using replay_dispatches [of env d ws st3] c(1,2) by simp
  then show ?thesis unfolding c(3) by (cases r) simp_all
qed

lemma disconnect_dispatches: "dispatches (ws_disconnect env d ws st) = dispatches st"
  unfolding ws_disconnect_def Let_def by (auto simp: session_get_def split: option.split list.split)

lemma heartbeat_dispatches: "dispatches (snd (heartbeat env d st)) = dispatches st"
  unfolding heartbeat_def by (auto simp: session_get_def split: option.split)

lemma register_dispatches: "dispatches (snd (register_agent_session env p st)) = dispatches st"
  by (simp add: register_agent_session_def Let_def)

lemma pubsub_dispatches: "dispatches (pubsub_step env st) = dispatches st"
  by (simp add: pubsub_step_def push_listeners_dispatches split: list.split)

lemma deliver_loop_keeps:
  "j \<noteq> i \<Longrightarrow> holds_dispatch j st \<Longrightarrow>
     holds_dispatch j (snd (snd (deliver_loop cfg env i dev sess attempt left cached st)))"
proof (induction left arbitrary: attempt cached st)
  case (Suc left)
  have set2: "holds_dispatch j (dispatch_set env i c2 (dispatch_set env i c1 st))" for c1 c2
    using Suc.prems by (simp add: holds_set_mono)
  then have slept: "holds_dispatch j
      ((dispatch_set env i c2 (dispatch_set env i c1 st))\<lparr>backoff_slept := x\<rparr>)" for c1 c2 x
    by (simp add: holds_dispatch_def)
  show ?case
    using Suc set2 slept
    by (auto simp: Let_def holds_set_mono holds_delete_other split: sum.split)
qed simp

lemma publish_dispatches [frame_simps]:
  "dispatches (publish_event c ok t a r p st) = dispatches st"
  "redis_on (publish_event c ok t a r p st) = redis_on st"
  by (auto simp: publish_event_def split: prod.splits)

lemma deliver_keeps:
  assumes "j \<noteq> i" "holds_dispatch j st"
  shows "holds_dispatch j (snd (deliver cfg env i st))"
proof -
  have tick: "holds_dispatch j (tick s) = holds_dispatch j s" for s by (simp add: holds_dispatch_def)
  have pub: "holds_dispatch j (publish_event c ok t a r p s) = holds_dispatch j s" for c ok t a r p s
    by (simp add: holds_dispatch_def frame_simps)
  have loop: "holds_dispatch j s'" if "deliver_loop cfg env i dev sess att left cached s = (r, c, s')"
    "holds_dispatch j s" for dev sess att left cached s r c s'
    using deliver_loop_keeps [OF assms(1) that(2), of cfg env dev sess att left cached] that(1) by simp
  show ?thesis
    unfolding deliver_def dispatch_get_def session_get_def Let_def
    using assms(2)
    by (auto simp: tick pub intro!: holds_delete_other assms(1) elim!: loop
        split: option.split prod.split sum.split)
qed

lemma receive_keeps:
  assumes "holds_dispatch i st" "\<not> may_remove env (Receive d ws m) i"
  shows "holds_dispatch i (ws_receive env d ws m st)"
proof (cases "dget m ''type'' = JStr ''ack''")
  case True
  with assms show ?thesis
    by (auto simp: ws_receive_def Let_def may_remove_def intro: holds_delete_other)
next
  case False
  have "dispatches (ws_receive env d ws m st) = dispatches st"
    using False unfolding ws_receive_def Let_def
    by (auto simp: session_get_def split: option.split list.split)
  with assms(1) show ?thesis by (simp add: holds_dispatch_def)
qed

lemma handle_keeps:
  assumes "holds_dispatch i st"
  shows "holds_dispatch i (snd (handle_dispatched env ev ts st))"
proof -
  have push: "holds_dispatch i (snd (ws_push_dispatch env d data ws s)) = holds_dispatch i s" for d data ws s
    by (simp add: holds_dispatch_def push_dispatches)
  have chan: "holds_dispatch i ((tick s)\<lparr>channel := c\<rparr>) = holds_dispatch i s" for s c
    by (simp add: holds_dispatch_def)
  show ?thesis
    unfolding handle_dispatched_def Let_def
    by (auto simp: push chan assms holds_set_mono split: sum.split option.split)
qed

lemma consume_keeps: "holds_dispatch i st \<Longrightarrow> holds_dispatch i (consume_dispatched env ev ts st)"
proof -
  assume h: "holds_dispatch i st"
  have off: "holds_dispatch i (s\<lparr>consumer_on := b\<rparr>) = holds_dispatch i s" for s b
    by (simp add: holds_dispatch_def)
  show ?thesis
    unfolding consume_dispatched_def
    using h handle_keeps [OF h, of env _ ts]
    by (auto simp: off split: json.split prod.split sum.split) (metis snd_conv)+
qed

lemma edge_run_keeps_cond:
  assumes "holds_dispatch i st" "\<not> may_remove env operation i"
  shows "holds_dispatch i (edge_run cfg env operation st)"
proof (cases operation)
  case (Receive d ws m)
  with assms show ?thesis using receive_keeps by (simp add: edge_run_def)
next
  case (Deliver j)
  with assms show ?thesis using deliver_keeps by (simp add: edge_run_def may_remove_def)
next
  case (Expire k)
  with assms show ?thesis
    by (auto simp: edge_run_def may_remove_def holds_dispatch_def delete_conv')
qed (use assms consume_keeps in \<open>simp_all add: edge_run_def holds_cong [OF register_dispatches]
    holds_cong [OF heartbeat_dispatches] holds_cong [OF connect_dispatches]
    holds_cong [OF disconnect_dispatches] holds_cong [OF pubsub_dispatches]\<close>)

subsection \<open>Delivery outcomes\<close>

lemma deliver_loop_no_session:
  "deliver_loop cfg env i dev False attempt left cached st = (r, c, st') \<Longrightarrow>
     r = None \<and> published st' = published st \<and> producer_up st' = producer_up st
   \<and> sends st' = sends st \<and> redis_on st' = redis_on st \<and> sessions st' = sessions st
   \<and> backoff_slept st' = backoff_slept st
       + delivery_backoff_seconds cfg * of_int (\<Sum>k = attempt..<attempt + int left - 1. k)
   \<and> (0 < left \<longrightarrow> dget c ''delivery_last_error'' = no_session_error (py_str (shw env) dev))"
proof (induction left arbitrary: attempt cached st)
  case (Suc left)
  let ?c2 = "dset (dset cached ''delivery_attempts'' (JInt attempt)) ''delivery_last_error''
      (no_session_error (py_str (shw env) dev))"
  let ?st2 = "dispatch_set env i ?c2 (dispatch_set env i (dset cached ''delivery_attempts'' (JInt attempt)) st)"
  show ?case
  proof (cases "left = 0")
    case True
    with Suc.prems show ?thesis by (auto simp: Let_def dget_dset)
  next
    case False
    have "{attempt..<attempt + int (Suc left) - 1}
        = insert attempt {attempt + 1..<attempt + 1 + int left - 1}" using False by auto
    then have sum: "(\<Sum>k = attempt..<attempt + int (Suc left) - 1. k)
        = attempt + (\<Sum>k = attempt + 1..<attempt + 1 + int left - 1. k)" by simp
    have "deliver_loop cfg env i dev False (attempt + 1) left ?c2
        (?st2\<lparr>backoff_slept := backoff_slept ?st2 + delivery_backoff_seconds cfg * of_int attempt\<rparr>)
        = (r, c, st')"
      using Suc.prems False by (simp add: Let_def del: dispatch_set_simps)
    note Suc.IH [OF this]
    then show ?thesis using False unfolding sum by (simp add: distrib_left)
  qed
qed simp

lemma backoff_publish [frame_simps]:
  "backoff_slept (publish_event c ok t a r p st) = backoff_slept st"
  "redis_calls (publish_event c ok t a r p st) = redis_calls st"
  by (auto simp: publish_event_def split: prod.splits)

lemma up_const: "redis_stable env st \<Longrightarrow> redis_on s = redis_on st \<Longrightarrow> redis_up env s = redis_on st"
  by (auto simp: redis_stable_def redis_up_def)

text \<open>No entry is left for a deleted dispatch where it is looked up.\<close>

lemma gone_after_delete:
  assumes "redis_stable env st" "redis_on s = redis_on st"
  shows "fst (dispatch_get env i (dispatch_delete env i s)) = None"
proof -
  have "redis_up env (dispatch_delete env i s) = redis_on st" "redis_up env s = redis_on st"
    using up_const [OF assms(1)] assms(2) by simp_all
  then show ?thesis by (simp add: dispatch_get_def dual_get_del)
qed

subsection \<open>Properties\<close>

definition demo_edge_cfg :: edge_cfg where
  "demo_edge_cfg = \<lparr>ed_publisher = \<lparr>kafka_topic_prefix = ''nxr'', kafka_retry_attempts = 1,
       kafka_retry_delay_seconds = 0, service_name = ''nexora-edge'', resource_name = ''execution''\<rparr>,
     gateway_instance_id = ''g'', max_delivery_attempts = 3, delivery_backoff_seconds = 1 / 2\<rparr>"

definition demo_edge_env :: edge_env where
  "demo_edge_env = \<lparr>ed_time = 5, ed_uuid = ''u'', redis_ok = (\<lambda>n. True), ws_ok = (\<lambda>n. True),
     ed_send_ok = (\<lambda>n. True), ed_now = 5000000, shw = (\<lambda>v. []), flt = (\<lambda>s. None)\<rparr>"

definition demo_dispatch :: dict where
  "demo_dispatch = [(''execution_id'', JStr ''e1''), (''device_id'', JStr ''d1''),
     (''event'', JObj []), (''delivery_attempts'', JInt 0)]"

definition demo_edge :: edge_state where
  "demo_edge = \<lparr>producer_up = True, sends = 0, slept = 0, published = [], redis_on = False,
     redis_calls = 0, sessions = \<lparr>primary = [], fallback = []\<rparr>,
     dispatches = \<lparr>primary = [], fallback = [(''e1'', demo_dispatch)]\<rparr>,
     ws_connections = [], ws_open = [], listeners = [], channel = [], ws_tries = 0, ws_sent = [],
     consumer_on = True, backoff_slept = 0\<rparr>"

lemma demo_edge_holds: "holds_dispatch ''e1'' demo_edge"
  by (simp add: holds_dispatch_def demo_edge_def)

lemma demo_edge_cached: "fst (dispatch_get demo_edge_env ''e1'' demo_edge) = Some demo_dispatch"
  by (simp add: dispatch_get_def dual_get_def redis_up_def demo_edge_def)

text \<open>Delivering to a device without a session: with \<open>a\<close> attempts made before, the gateway makes
  the remaining ones with a linear backoff between them, publishes \<open>delivery_failed\<close> unless Kafka
  is down, drops the dispatch and answers 502. The session is not read again during the retries,
  so a device that connects in between is not reached.\<close>

theorem deliver_without_session:
  assumes "redis_stable env st" "fst (dispatch_get env i st) = Some cached" "cached \<noteq> []"
    and "int_field cached ''delivery_attempts'' = Inr a"
    and "a < int (max_delivery_attempts cfg)"
    and "fst (session_get env (py_str (shw env) (dget_or cached ''device_id'' (JStr ''unknown''))) (tick st)) = None"
  shows "case deliver cfg env i st of (r, st') \<Rightarrow>
     (\<exists>detail. r = Inl (Http 502 [JObj detail])
        \<and> dget detail ''last_error'' = no_session_error
            (py_str (shw env) (dget_or cached ''device_id'' (JStr ''unknown''))))
   \<and> fst (dispatch_get env i st') = None
   \<and> backoff_slept st' = backoff_slept st
       + delivery_backoff_seconds cfg * of_int (\<Sum>k = a + 1..<int (max_delivery_attempts cfg). k)
   \<and> length (published st') = length (published st)
       + (if producer_up st \<and> (\<exists>n < nat (kafka_retry_attempts (gateway_publisher cfg)).
            ed_send_ok env (sends st + n)) then 1 else 0)"
proof -
  let ?dev = "dget_or cached ''device_id'' (JStr ''unknown'')"
  let ?left = "nat (int (max_delivery_attempts cfg) - a)"
  obtain sess st2 where ses: "(if ?dev = JStr ''unknown'' then (None, tick st)
      else session_get env (py_str (shw env) ?dev) (tick st)) = (sess, st2)"
    by (cases "if ?dev = JStr ''unknown'' then (None, tick st)
      else session_get env (py_str (shw env) ?dev) (tick st)")
  have sess: "sess = None" and st2: "redis_on st2 = redis_on st" "published st2 = published st"
      "producer_up st2 = producer_up st" "sends st2 = sends st" "backoff_slept st2 = backoff_slept st"
    using ses assms(6) by (auto simp: session_get_def split: if_splits)
  obtain r c st3 where loop: "deliver_loop cfg env i ?dev False (a + 1) ?left cached st2 = (r, c, st3)"
    by (cases "deliver_loop cfg env i ?dev False (a + 1) ?left cached st2")
  note l = deliver_loop_no_session [OF loop]
  have "a + 1 + int ?left - 1 = int (max_delivery_attempts cfg)" "0 < ?left" using assms(5) by auto
  note l' = l [unfolded this(1)]
  let ?p = "failed_payload cfg i ?dev c"
  let ?st4 = "publish_event (gateway_publisher cfg) (ed_send_ok env) (ed_now env) ''delivery_failed'' i ?p st3"
  have d: "deliver cfg env i st = (Inl (Http 502 [JObj (?p @ [(''status'', JStr ''delivery_failed'')])]),
      dispatch_delete env i ?st4)"
  proof -
    have "dispatch_get env i st = (Some cached, tick st)"
      using assms(2) by (simp add: dispatch_get_def)
    then show ?thesis
      using assms(3,4) ses loop l' unfolding deliver_def by (simp add: Let_def sess)
  qed
  have "dget c ''delivery_last_error'' = no_session_error (py_str (shw env) ?dev)"
    using l' \<open>0 < ?left\<close> by simp
  then have "dget (?p @ [(''status'', JStr ''delivery_failed'')]) ''last_error''
      = no_session_error (py_str (shw env) ?dev)"
    by (simp add: failed_payload_def dget_def dget_or_def no_session_error_def split: option.splits)
  moreover have "fst (dispatch_get env i (dispatch_delete env i ?st4)) = None"
    using gone_after_delete [OF assms(1)] l' st2 by (simp add: frame_simps)
  ultimately show ?thesis
    unfolding d using l' st2 by (simp add: frame_simps published_eq)
qed


lemma deliver_without_session_witness:
  "backoff_slept (snd (deliver demo_edge_cfg demo_edge_env ''e1'' demo_edge)) = 3 / 2
   \<and> length (published (snd (deliver demo_edge_cfg demo_edge_env ''e1'' demo_edge))) = 1"
proof -
  have h: "redis_stable demo_edge_env demo_edge" "demo_dispatch \<noteq> []"
      "int_field demo_dispatch ''delivery_attempts'' = Inr 0"
      "0 < int (max_delivery_attempts demo_edge_cfg)"
      "fst (session_get demo_edge_env (py_str (shw demo_edge_env)
         (dget_or demo_dispatch ''device_id'' (JStr ''unknown''))) (tick demo_edge)) = None"
    by (simp_all add: redis_stable_def demo_edge_def demo_dispatch_def int_field_def dget_or_def
      demo_edge_cfg_def session_get_def dual_get_def redis_up_def)
  have sum: "{1..<3::int} = {1, 2}" by auto
  show ?thesis
    using deliver_without_session [OF h(1) demo_edge_cached h(2-5)]
    by (simp add: case_prod_beta) (simp add: gateway_publisher_def demo_edge_cfg_def demo_edge_def demo_edge_env_def sum)
qed

lemma connect_open:
  assumes "ws_connect cfg env d ws st = (Inr (), st2)"
  shows "ws \<in> set (ws_open st2)"
proof (rule connect_cases [of st d ws env cfg])
  fix st3 r st4
  assume "ws_connect cfg env d ws st = (case r of Inl err \<Rightarrow> (Inl err, st4)
       | Inr _ \<Rightarrow> (Inr (), st4\<lparr>ws_open := ws # ws_open st4,
            listeners := (if redis_on st4 then (d, ws) # listeners st4 else listeners st4)\<rparr>))"
  with assms show ?thesis by (cases r) auto
qed

lemma handle_quiet:
  assumes "get2 (JObj ev) ''payload'' ''device_id'' = Inr (JStr d)" "\<not> redis_on s"
    and "map_of (ws_connections s) d = None"
  shows "ws_sent (snd (handle_dispatched env ev ts s)) = ws_sent s"
proof (cases "kafka_dispatched_at (JObj ev)")
  case (Inl err)
  with assms show ?thesis by (simp add: handle_dispatched_def)
next
  case (Inr kda)
  with assms show ?thesis
    by (cases "opt_float env kda") (simp_all add: handle_dispatched_def Let_def py_str_def)
qed

lemma consume_quiet:
  assumes "get2 (JObj ev) ''payload'' ''device_id'' = Inr (JStr d)" "\<not> redis_on s"
    and "map_of (ws_connections s) d = None"
  shows "ws_sent (consume_dispatched env (JObj ev) ts s) = ws_sent s"
proof -
  obtain r s' where h: "handle_dispatched env ev ts s = (r, s')" by (cases "handle_dispatched env ev ts s")
  then have "ws_sent s' = ws_sent s" using handle_quiet [OF assms, of env ts] by simp
  with h show ?thesis by (cases r) (simp_all add: consume_dispatched_def)
qed

text \<open>A late disconnect breaks a newer tunnel: when a device has reconnected, the close of its
  old socket removes the device's entry although the new socket is open; without Redis, dispatch
  events for the device are then never pushed.\<close>

theorem stale_disconnect_drops_tunnel:
  assumes "ws_connect cfg env d new st = (Inr (), st2)" "old \<noteq> new"
  shows "map_of (ws_connections (ws_disconnect env' d old st2)) d = None
   \<and> new \<in> set (ws_open (ws_disconnect env' d old st2))
   \<and> (\<not> redis_on st2 \<longrightarrow>
        (\<forall>env'' ev ts. get2 (JObj ev) ''payload'' ''device_id'' = Inr (JStr d) \<longrightarrow>
           ws_sent (consume_dispatched env'' (JObj ev) ts (ws_disconnect env' d old st2))
             = ws_sent (ws_disconnect env' d old st2)))"
proof -
  let ?st3 = "ws_disconnect env' d old st2"
  have new: "new \<in> set (ws_open st2)" by (rule connect_open [OF assms(1)])
  have st3: "ws_connections ?st3 = AList.delete d (ws_connections st2)"
      "ws_open ?st3 = remove1 old (ws_open st2)" "redis_on ?st3 = redis_on st2"
    unfolding ws_disconnect_def Let_def by (auto simp: session_get_def split: option.split list.split)
  then have gone: "map_of (ws_connections ?st3) d = None" by (simp add: delete_conv')
  have "ws_sent (consume_dispatched env'' (JObj ev) ts ?st3) = ws_sent ?st3"
    if "get2 (JObj ev) ''payload'' ''device_id'' = Inr (JStr d)" "\<not> redis_on st2" for env'' ev ts
    using consume_quiet [OF that(1) _ gone] that(2) st3(3) by simp
  with gone new st3(2) assms(2) show ?thesis by (simp add: in_set_remove1)
qed

lemma consumer_frames:
  "consumer_on (snd (ws_push_dispatch env d data ws st)) = consumer_on st"
  "consumer_on (publish_event c ok t a r p st) = consumer_on st"
  "consumer_on (snd (session_get env d st)) = consumer_on st"
  by (auto simp: ws_push_dispatch_def publish_event_def session_get_def split: sum.split prod.splits)

lemma consumer_replay:
  "consumer_on (replay_redis env d ws ks st) = consumer_on st"
  "consumer_on (snd (replay_local env d ws ds st)) = consumer_on st"
  "consumer_on (push_listeners env d data ls st) = consumer_on st"
proof -
  show "consumer_on (replay_redis env d ws ks st) = consumer_on st"
  proof (induction ks arbitrary: st)
    case (Cons k ks)
    show ?case
    proof (cases "map_of (primary (dispatches st)) k")
      case None
      then show ?thesis using Cons by simp
    next
      case (Some data)
      obtain r s1 where push: "ws_push_dispatch env d data ws (tick st) = (r, s1)"
        by (cases "ws_push_dispatch env d data ws (tick st)")
      then have "consumer_on s1 = consumer_on st"
        using consumer_frames(1) [of env d data ws "tick st"] by simp
      then show ?thesis using Some push Cons by (cases r) simp_all
    qed
  qed simp
  show "consumer_on (snd (replay_local env d ws ds st)) = consumer_on st"
  proof (induction ds arbitrary: st)
    case (Cons x ds)
    obtain r s1 where push: "ws_push_dispatch env d x ws st = (r, s1)"
      by (cases "ws_push_dispatch env d x ws st")
    then have "consumer_on s1 = consumer_on st" using consumer_frames(1) [of env d x ws st] by simp
    then show ?case using push Cons.IH [of st] Cons.IH [of s1] by (cases r) simp_all
  qed simp
  show "consumer_on (push_listeners env d data ls st) = consumer_on st"
  proof (induction ls arbitrary: st)
    case (Cons l ls)
    obtain d' ws where l: "l = (d', ws)" by (cases l)
    obtain r s1 where push: "ws_push_dispatch env d data ws st = (r, s1)"
      by (cases "ws_push_dispatch env d data ws st")
    then have "consumer_on s1 = consumer_on st" using consumer_frames(1) [of env d data ws st] by simp
    then show ?case
      using push l Cons.IH [of st] Cons.IH [of s1]
        Cons.IH [of "s1\<lparr>listeners := remove1 (d, ws) (listeners s1)\<rparr>"] by (cases r) simp_all
  qed simp
qed

lemma consumer_deliver_loop:
  "consumer_on (snd (snd (deliver_loop cfg env i dev sess att left cached st))) = consumer_on st"
  by (induction left arbitrary: att cached st) (auto simp: Let_def split: sum.split)

lemma consumer_deliver: "consumer_on (snd (deliver cfg env i st)) = consumer_on st"
proof -
  have loop: "consumer_on s' = consumer_on s"
    if "deliver_loop cfg env i dev sess att left cached s = (r, c, s')" for dev sess att left cached s r c s'
    using consumer_deliver_loop [of cfg env i dev sess att left cached s] that by simp
  show ?thesis
    unfolding deliver_def dispatch_get_def session_get_def Let_def
    by (auto simp: consumer_frames dest!: loop split: option.split prod.split sum.split)
qed

lemma consumer_replay_pending: "consumer_on (snd (ws_replay_pending env d ws st)) = consumer_on st"
  by (simp add: ws_replay_pending_def consumer_replay)

lemma consumer_connect: "consumer_on (snd (ws_connect cfg env d ws st)) = consumer_on st"
proof (rule connect_cases [of st d ws env cfg])
  fix st3 r st4
  assume "consumer_on st3 = consumer_on st" and rp: "ws_replay_pending env d ws st3 = (r, st4)"
    and c: "ws_connect cfg env d ws st = (case r of Inl err \<Rightarrow> (Inl err, st4)
       | Inr _ \<Rightarrow> (Inr (), st4\<lparr>ws_open := ws # ws_open st4,
            listeners := (if redis_on st4 then (d, ws) # listeners st4 else listeners st4)\<rparr>))"
  then have "consumer_on st4 = consumer_on st"
    using consumer_replay_pending [of env d ws st3] by simp
  then show ?thesis unfolding c by (cases r) simp_all
qed

lemma consumer_stays_off:
  assumes "\<not> consumer_on st"
  shows "\<not> consumer_on (edge_run cfg env operation st)"
proof (cases operation)
  case (Connect d ws)
  with assms show ?thesis by (simp add: edge_run_def consumer_connect)
qed (use assms in \<open>auto simp: edge_run_def register_agent_session_def heartbeat_def session_get_def
    ws_receive_def ws_disconnect_def consume_dispatched_def pubsub_step_def consumer_replay
    consumer_deliver Let_def split: option.split list.split\<close>)

text \<open>One malformed event stops the gateway's consumer for good: after an event whose payload is
  no object, no later step starts it again, and every later event is ignored.\<close>

theorem malformed_event_stops_consumer:
  assumes "consumer_on st" "dget_or ev ''payload'' (JObj []) = JNull"
  shows "consume_dispatched env (JObj ev) ts st = st\<lparr>consumer_on := False\<rparr>
   \<and> (let s = fold (\<lambda>(env, operation). edge_run cfg env operation) ops
               (consume_dispatched env (JObj ev) ts st)
      in \<not> consumer_on s \<and> consume_dispatched env' ev' ts' s = s)"
proof -
  have first: "consume_dispatched env (JObj ev) ts st = st\<lparr>consumer_on := False\<rparr>"
    using assms by (simp add: consume_dispatched_def handle_dispatched_def get2_def)
  have off: "\<not> consumer_on (fold (\<lambda>(env, operation). edge_run cfg env operation) ops s)"
    if "\<not> consumer_on s" for s
    using that
  proof (induction ops arbitrary: s)
    case (Cons x ops)
    then show ?case using consumer_stays_off by (cases x) simp
  qed simp
  have "\<not> consumer_on (fold (\<lambda>(env, operation). edge_run cfg env operation) ops
      (st\<lparr>consumer_on := False\<rparr>))" by (rule off) simp
  moreover have "consume_dispatched env' ev' ts' s = s" if "\<not> consumer_on s" for s
    using that by (simp add: consume_dispatched_def)
  ultimately show ?thesis unfolding first Let_def by blast
qed


lemma stale_disconnect_drops_tunnel_witness:
  "\<exists>st2. ws_connect demo_edge_cfg demo_edge_env ''d1'' 2 (demo_edge\<lparr>ws_connections := [(''d1'', 1)]\<rparr>)
       = (Inr (), st2)
     \<and> map_of (ws_connections (ws_disconnect demo_edge_env ''d1'' 1 st2)) ''d1'' = None"
proof -
  have "is_ok (fst (ws_connect demo_edge_cfg demo_edge_env ''d1'' 2
      (demo_edge\<lparr>ws_connections := [(''d1'', 1)]\<rparr>)))"
    by (simp add: ws_connect_def Let_def session_get_def session_set_def ws_replay_pending_def demo_edge_def
      redis_up_def tick_def dual_get_def dual_set_def for_device_def demo_dispatch_def dget_def
      dget_or_def ws_push_dispatch_def control_message_def kafka_dispatched_at_def get2_def opt_float_def)
  then obtain st2 where c: "ws_connect demo_edge_cfg demo_edge_env ''d1'' 2
      (demo_edge\<lparr>ws_connections := [(''d1'', 1)]\<rparr>) = (Inr (), st2)"
    by (metis is_okE old.unit.exhaust prod.collapse)
  from stale_disconnect_drops_tunnel [OF c, of 1] c show ?thesis by auto
qed

lemma malformed_event_stops_consumer_witness:
  "\<not> consumer_on (consume_dispatched demo_edge_env (JObj [(''payload'', JNull)]) JNull demo_edge)"
  using malformed_event_stops_consumer [of demo_edge "[(''payload'', JNull)]" demo_edge_env JNull]
  by (simp add: demo_edge_def dget_or_def)

end
