(* ===== verification/AuthContext.thy ===== *)
theory AuthContext
  imports Events
begin

text \<open>
  Request authentication (\<open>common/auth/context.py\<close>): who the caller is, from the internal
  key, the development token or a verified bearer token, and what the middleware lets through.
  Verifying the token (\<open>OIDCVerifier.verify\<close>, which \<open>Oidc\<close> models)
  is the parameter \<open>verify\<close>: the claims, or the text of the error.
\<close>

record auth_settings =
  as_auth_enabled :: bool
  as_dev_bypass_enabled :: bool
  as_dev_token :: string
  as_internal_key :: string
  platform_admin_role :: string
  tenant_admin_role :: string
  operator_role :: string
  viewer_role :: string

record current_user =
  user_id :: string
  tenant_id :: string
  roles :: "string list"

text \<open>The claims the code reads; a list that is absent or null is empty.\<close>

record claims =
  cl_sub :: string
  cl_groups :: "string list"
  cl_roles :: "string list"

type_synonym verifier = "string \<Rightarrow> string + claims"

definition has_role :: "current_user \<Rightarrow> string \<Rightarrow> bool" where
  "has_role u r \<longleftrightarrow> r \<in> set (roles u)"

definition is_platform_admin :: "auth_settings \<Rightarrow> current_user \<Rightarrow> bool" where
  "is_platform_admin s u \<longleftrightarrow> has_role u (platform_admin_role s)"

definition is_tenant_admin :: "auth_settings \<Rightarrow> current_user \<Rightarrow> bool" where
  "is_tenant_admin s u \<longleftrightarrow> is_platform_admin s u \<or> has_role u (tenant_admin_role s)"

definition can_write :: "auth_settings \<Rightarrow> current_user \<Rightarrow> bool" where
  "can_write s u \<longleftrightarrow> is_platform_admin s u \<or> has_role u (tenant_admin_role s)
     \<or> has_role u (operator_role s)"

definition user_from_claims :: "claims \<Rightarrow> current_user" where
  "user_from_claims c =
     \<lparr>user_id = cl_sub c,
      tenant_id = (case cl_groups c of [] \<Rightarrow> ''global'' | g # _ \<Rightarrow> dropWhile (\<lambda>x. x = CHR ''/'') g),
      roles = cl_roles c\<rparr>"

definition dev_user :: "auth_settings \<Rightarrow> current_user" where
  "dev_user s = \<lparr>user_id = ''dev-user'', tenant_id = ''dev'',
     roles = [platform_admin_role s, tenant_admin_role s, operator_role s, viewer_role s]\<rparr>"

definition internal_user :: "auth_settings \<Rightarrow> current_user" where
  "internal_user s = \<lparr>user_id = ''internal-service'', tenant_id = ''system'',
     roles = [platform_admin_role s, operator_role s]\<rparr>"

definition authenticate_internal_key :: "auth_settings \<Rightarrow> string option \<Rightarrow> current_user option" where
  "authenticate_internal_key s x_internal_key =
     (if as_internal_key s \<noteq> [] \<and> nonempty x_internal_key \<and> x_internal_key = Some (as_internal_key s)
      then Some (internal_user s) else None)"

definition unauthorized :: "json list \<Rightarrow> error" where
  "unauthorized detail = Http 401 detail"

definition authenticate_header ::
  "auth_settings \<Rightarrow> verifier \<Rightarrow> string option \<Rightarrow> current_user res" where
  "authenticate_header s verify authorization =
     (if \<not> as_auth_enabled s then Inr (dev_user s)
      else case authorization of
        None \<Rightarrow> Inl (unauthorized [JStr ''missing bearer token''])
      | Some h \<Rightarrow>
          if \<not> startswith h ''Bearer '' then Inl (unauthorized [JStr ''missing bearer token''])
          else let token = drop (length ''Bearer '') h in
            if as_dev_bypass_enabled s \<and> token = as_dev_token s then Inr (dev_user s)
            else case verify token of
              Inl exc \<Rightarrow> Inl (unauthorized [JStr ''invalid token: '', JStr exc])
            | Inr c \<Rightarrow> Inr (user_from_claims c))"

definition readonly_methods :: "string list" where
  "readonly_methods = [''GET'', ''HEAD'', ''OPTIONS'']"

definition public_paths :: "string list" where
  "public_paths = [''/health'', ''/ready'', ''/metrics'']"

record auth_request =
  ar_path :: string
  ar_method :: string
  ar_internal_key :: "string option"
  ar_authorization :: "string option"

text \<open>What the middleware decides: None passes a public path without a user.\<close>

definition auth_middleware ::
  "auth_settings \<Rightarrow> verifier \<Rightarrow> auth_request \<Rightarrow> (current_user \<times> bool) option res" where
  "auth_middleware s verify r =
     (if ar_path r \<in> set public_paths then Inr None
      else case (case authenticate_internal_key s (ar_internal_key r) of
                   Some u \<Rightarrow> Inr u
                 | None \<Rightarrow> authenticate_header s verify (ar_authorization r)) of
        Inl err \<Rightarrow> Inl err
      | Inr u \<Rightarrow>
          if as_auth_enabled s \<and> ar_method r \<notin> set readonly_methods \<and> \<not> can_write s u
          then Inl (http 403 ''write role required'')
          else Inr (Some (u, is_platform_admin s u \<or> has_role u (operator_role s))))"

subsection \<open>Properties\<close>

text \<open>C12. With authentication on, a request to a path that is not public gets through only as the
  internal service with the right key, with the development token while the bypass is on, or with
  the user a verified token names; a request that may change something only if that user has a
  write role. Whoever is a platform admin then was made one by one of these three.\<close>

theorem middleware_sound:
  assumes "auth_middleware s verify r = Inr (Some (u, is_op))" "as_auth_enabled s"
  shows "(ar_internal_key r = Some (as_internal_key s) \<and> as_internal_key s \<noteq> [] \<and> u = internal_user s
      \<or> (\<exists>token. ar_authorization r = Some (''Bearer '' @ token)
           \<and> (as_dev_bypass_enabled s \<and> token = as_dev_token s \<and> u = dev_user s
              \<or> (\<exists>c. verify token = Inr c \<and> u = user_from_claims c))))
   \<and> (ar_method r \<notin> set readonly_methods \<longrightarrow> can_write s u)
   \<and> is_op = (is_platform_admin s u \<or> has_role u (operator_role s))"
proof -
  have path: "ar_path r \<notin> set public_paths" using assms(1) by (auto simp: auth_middleware_def)
  define who where "who = (case authenticate_internal_key s (ar_internal_key r) of
      Some u \<Rightarrow> Inr u | None \<Rightarrow> authenticate_header s verify (ar_authorization r))"
  have w: "who = Inr u" "ar_method r \<notin> set readonly_methods \<longrightarrow> can_write s u"
      "is_op = (is_platform_admin s u \<or> has_role u (operator_role s))"
    using assms path
    by (auto simp: auth_middleware_def who_def [symmetric] split: sum.splits if_splits)
  have bearer: "h = ''Bearer '' @ drop (length ''Bearer '') h" if "startswith h ''Bearer ''" for h
    using that unfolding startswith_def by (metis append_take_drop_id)
  show ?thesis
  proof (cases "authenticate_internal_key s (ar_internal_key r)")
    case (Some v)
    with w show ?thesis by (auto simp: who_def authenticate_internal_key_def split: if_splits)
  next
    case None
    with w(1) have header: "authenticate_header s verify (ar_authorization r) = Inr u"
      by (simp add: who_def)
    then obtain h where h: "ar_authorization r = Some h" "startswith h ''Bearer ''"
      using assms(2) by (auto simp: authenticate_header_def split: option.splits if_splits)
    with header assms(2) have "as_dev_bypass_enabled s \<and> drop (length ''Bearer '') h = as_dev_token s
          \<and> u = dev_user s
        \<or> (\<exists>c. verify (drop (length ''Bearer '') h) = Inr c \<and> u = user_from_claims c)"
      by (auto simp: authenticate_header_def Let_def split: sum.splits if_splits)
    with h(1) bearer [OF h(2)] w(2,3) show ?thesis by metis
  qed
qed

definition demo_settings :: auth_settings where
  "demo_settings = \<lparr>as_auth_enabled = True, as_dev_bypass_enabled = False, as_dev_token = ''dev-token'',
     as_internal_key = ''k'', platform_admin_role = ''platform-admin'',
     tenant_admin_role = ''tenant-admin'', operator_role = ''operator'', viewer_role = ''viewer''\<rparr>"

lemma middleware_sound_witness:
  "\<exists>u b. auth_middleware demo_settings
       (\<lambda>t. Inr \<lparr>cl_sub = ''ann'', cl_groups = [''/t1''], cl_roles = [''operator'']\<rparr>)
       \<lparr>ar_path = ''/x'', ar_method = ''POST'', ar_internal_key = None,
        ar_authorization = Some ''Bearer abc''\<rparr> = Inr (Some (u, b)) \<and> can_write demo_settings u"
proof -
  let ?verify = "\<lambda>t. Inr \<lparr>cl_sub = ''ann'', cl_groups = [''/t1''], cl_roles = [''operator'']\<rparr>"
  let ?r = "\<lparr>ar_path = ''/x'', ar_method = ''POST'', ar_internal_key = None,
        ar_authorization = Some ''Bearer abc''\<rparr>"
  obtain u b where m: "auth_middleware demo_settings ?verify ?r = Inr (Some (u, b))"
    by (simp add: auth_middleware_def demo_settings_def public_paths_def authenticate_internal_key_def
      authenticate_header_def startswith_def user_from_claims_def can_write_def has_role_def)
  have "as_auth_enabled demo_settings" by (simp add: demo_settings_def)
  from middleware_sound [OF m this] m show ?thesis by (simp add: readonly_methods_def)
qed

end
