(* ===== verification/Fleet.thy ===== *)
theory Fleet
  imports AuthContext InternalAuth
begin

text \<open>
  The fleet service (\<open>services/fleet-service\<close>): fleets, their members, and the aggregates over
  the devices of a fleet. The device service is a parameter that replies.
\<close>

subsection \<open>Rows and state\<close>

record fleet =
  fl_id :: string
  fl_name :: string
  fl_description :: "string option"
  fl_owner_id :: "string option"
  fl_fleet_tenant :: "string option"

record fleet_member =
  fm_id :: string
  fm_fleet_id :: string
  fm_device_id :: string
  fm_joined_at :: "int option"

record fleet_state = svc_state +
  fleets :: "fleet list"
  members :: "fleet_member list"

record fleet_env =
  fe_now :: int
  fe_now_text :: string
  fe_uuid :: "nat \<Rightarrow> string"
  fe_send_ok :: "nat \<Rightarrow> bool"
  fe_correlation_id :: "string option"
  fe_device :: "string \<Rightarrow> (nat \<times> dict) option"
  fe_latest :: "string \<Rightarrow> (nat \<times> dict) option"

definition fleet_to_dict :: "fleet \<Rightarrow> dict" where
  "fleet_to_dict f =
    [(''id'', JStr (fl_id f)), (''name'', JStr (fl_name f)), (''description'', jstr (fl_description f)),
     (''owner_id'', jstr (fl_owner_id f)), (''tenant_id'', jstr (fl_fleet_tenant f))]"

definition member_to_dict :: "fleet_member \<Rightarrow> dict" where
  "member_to_dict m =
    [(''id'', JStr (fm_id m)), (''fleet_id'', JStr (fm_fleet_id m)),
     (''device_id'', JStr (fm_device_id m)), (''joined_at'', jtime (fm_joined_at m))]"

definition fleet_visible :: "auth_settings \<Rightarrow> current_user \<Rightarrow> fleet \<Rightarrow> bool" where
  "fleet_visible s u f \<longleftrightarrow>
     \<not> nonempty (fl_fleet_tenant f) \<or> fl_fleet_tenant f = Some (tenant_id u) \<or> is_platform_admin s u"

definition ensure_fleet_visible ::
  "auth_settings \<Rightarrow> current_user \<Rightarrow> fleet option \<Rightarrow> fleet res" where
  "ensure_fleet_visible s u f =
     (case f of
        None \<Rightarrow> Inl (http 404 ''fleet not found'')
      | Some x \<Rightarrow> if fleet_visible s u x then Inr x else Inl (http 404 ''fleet not found''))"

text \<open>Audit record and event of a change.\<close>

definition fleet_actor :: "fleet_env \<Rightarrow> current_user \<Rightarrow> actor" where
  "fleet_actor env u = \<lparr>actor_user_id = Some (user_id u), actor_tenant_id = Some (tenant_id u),
     actor_roles = roles u, actor_correlation_id = fe_correlation_id env\<rparr>"

definition record_change ::
  "publisher_cfg \<Rightarrow> fleet_env \<Rightarrow> current_user \<Rightarrow> string \<Rightarrow> string \<Rightarrow> string option \<Rightarrow> string option \<Rightarrow>
     dict \<Rightarrow> fleet_state \<Rightarrow> fleet_state" where
  "record_change cfg env u action fleet_id tenant reason payload st =
     publish_event cfg (fe_send_ok env) (fe_now env) action fleet_id payload
       (emit_audit_event (fe_now_text env) ''fleet-service'' (''fleet.'' @ action) ''fleet''
          (Some fleet_id) tenant (fleet_actor env u) reason st)"

subsection \<open>Fleets\<close>

definition list_fleets ::
  "auth_settings \<Rightarrow> current_user \<Rightarrow> string option \<Rightarrow> fleet_state \<Rightarrow> dict list" where
  "list_fleets s u wanted st =
     map fleet_to_dict
       (if is_platform_admin s u
        then (if nonempty wanted then filter (\<lambda>f. fl_fleet_tenant f = wanted) (fleets st) else fleets st)
        else filter (\<lambda>f. fl_fleet_tenant f = Some (tenant_id u)) (fleets st))"

text \<open>\<open>name\<close> is NOT NULL and \<open>id\<close> the primary key.\<close>

definition create_fleet ::
  "publisher_cfg \<Rightarrow> fleet_env \<Rightarrow> current_user \<Rightarrow> string field \<Rightarrow> string field \<Rightarrow> fleet_state \<Rightarrow>
     dict res \<times> fleet_state" where
  "create_fleet cfg env u name description st =
     (let i = fe_uuid env (uuids st);
          st1 = st\<lparr>uuids := Suc (uuids st)\<rparr> in
      case fget_or name (Some ''default-fleet'') of
        None \<Rightarrow> (Inl (PyExc ''IntegrityError''), st1)
      | Some n \<Rightarrow>
          if tbl_get fl_id i (fleets st) \<noteq> None then (Inl (PyExc ''IntegrityError''), st1)
          else
          let f = \<lparr>fl_id = i, fl_name = n, fl_description = fget description,
                   fl_owner_id = Some (user_id u), fl_fleet_tenant = Some (tenant_id u)\<rparr>
          in (Inr (fleet_to_dict f),
              record_change cfg env u ''created'' i (fl_fleet_tenant f) None (fleet_to_dict f)
                (st1\<lparr>fleets := tbl_add f (fleets st)\<rparr>)))"

definition get_fleet :: "auth_settings \<Rightarrow> current_user \<Rightarrow> string \<Rightarrow> fleet_state \<Rightarrow> dict res" where
  "get_fleet s u i st =
     (case ensure_fleet_visible s u (tbl_get fl_id i (fleets st)) of
        Inl err \<Rightarrow> Inl err | Inr f \<Rightarrow> Inr (fleet_to_dict f))"

definition update_fleet ::
  "auth_settings \<Rightarrow> publisher_cfg \<Rightarrow> fleet_env \<Rightarrow> current_user \<Rightarrow> string \<Rightarrow> string field \<Rightarrow> string field \<Rightarrow>
     fleet_state \<Rightarrow> dict res \<times> fleet_state" where
  "update_fleet s cfg env u i name description st =
     (case ensure_fleet_visible s u (tbl_get fl_id i (fleets st)) of
        Inl err \<Rightarrow> (Inl err, st)
      | Inr f \<Rightarrow>
          let f1 = f\<lparr>fl_name := (if nonempty (fget name) then the (fget name) else fl_name f),
                     fl_description := (if present description then fget description
                                        else fl_description f)\<rparr>
          in (Inr (fleet_to_dict f1),
              record_change cfg env u ''updated'' (fl_id f1) (fl_fleet_tenant f1) None (fleet_to_dict f1)
                (st\<lparr>fleets := tbl_put fl_id f1 (fleets st)\<rparr>)))"

text \<open>The members stay: there is no foreign key.\<close>

definition delete_fleet ::
  "auth_settings \<Rightarrow> publisher_cfg \<Rightarrow> fleet_env \<Rightarrow> current_user \<Rightarrow> string \<Rightarrow> fleet_state \<Rightarrow>
     unit res \<times> fleet_state" where
  "delete_fleet s cfg env u i st =
     (case ensure_fleet_visible s u (tbl_get fl_id i (fleets st)) of
        Inl err \<Rightarrow> (Inl err, st)
      | Inr f \<Rightarrow>
          (Inr (), record_change cfg env u ''deleted'' i (fl_fleet_tenant f) None (fleet_to_dict f)
             (st\<lparr>fleets := tbl_del fl_id i (fleets st)\<rparr>)))"

subsection \<open>Members\<close>

definition is_member :: "string \<Rightarrow> string \<Rightarrow> fleet_member \<Rightarrow> bool" where
  "is_member fleet_id device_id m \<longleftrightarrow> fm_fleet_id m = fleet_id \<and> fm_device_id m = device_id"

text \<open>The id and the pair (fleet, device) are unique.\<close>

definition add_fleet_member ::
  "auth_settings \<Rightarrow> publisher_cfg \<Rightarrow> fleet_env \<Rightarrow> current_user \<Rightarrow> string \<Rightarrow> string field \<Rightarrow> fleet_state \<Rightarrow>
     dict res \<times> fleet_state" where
  "add_fleet_member s cfg env u fleet_id device st =
     (if \<not> nonempty (fget device) then (Inl (http 400 ''device_id is required''), st)
      else case ensure_fleet_visible s u (tbl_get fl_id fleet_id (fleets st)) of
        Inl err \<Rightarrow> (Inl err, st)
      | Inr f \<Rightarrow>
          let d = the (fget device);
              m = \<lparr>fm_id = fe_uuid env (uuids st), fm_fleet_id = fleet_id, fm_device_id = d,
                   fm_joined_at = Some (fe_now env)\<rparr>;
              st1 = st\<lparr>uuids := Suc (uuids st)\<rparr>
          in if (\<exists>x \<in> set (members st). fm_id x = fm_id m \<or> is_member fleet_id d x)
             then (Inl (http 409 ''device already in fleet''), st1)
             else (Inr (member_to_dict m),
                   record_change cfg env u ''member_added'' fleet_id (fl_fleet_tenant f)
                     (Some (''device_id='' @ d)) (member_to_dict m)
                     (st1\<lparr>members := tbl_add m (members st)\<rparr>)))"

definition list_fleet_members ::
  "auth_settings \<Rightarrow> internal_cfg \<Rightarrow> current_user \<Rightarrow> string option \<Rightarrow> string \<Rightarrow> fleet_state \<Rightarrow>
     dict list res" where
  "list_fleet_members s icfg u x_internal_key fleet_id st =
     (case tbl_get fl_id fleet_id (fleets st) of
        None \<Rightarrow> Inl (http 404 ''Fleet not found'')
      | Some f \<Rightarrow>
          (case (if valid_internal_key icfg x_internal_key then Inr f
                 else ensure_fleet_visible s u (Some f)) of
             Inl err \<Rightarrow> Inl err
           | Inr _ \<Rightarrow> Inr (map member_to_dict (filter (\<lambda>m. fm_fleet_id m = fleet_id) (members st)))))"

definition remove_fleet_member ::
  "auth_settings \<Rightarrow> publisher_cfg \<Rightarrow> fleet_env \<Rightarrow> current_user \<Rightarrow> string \<Rightarrow> string \<Rightarrow> fleet_state \<Rightarrow>
     unit res \<times> fleet_state" where
  "remove_fleet_member s cfg env u fleet_id device_id st =
     (case ensure_fleet_visible s u (tbl_get fl_id fleet_id (fleets st)) of
        Inl err \<Rightarrow> (Inl err, st)
      | Inr f \<Rightarrow>
          (case filter (is_member fleet_id device_id) (members st) of
             [] \<Rightarrow> (Inl (http 404 ''device not in fleet''), st)
           | [m] \<Rightarrow>
               (Inr (), record_change cfg env u ''member_removed'' fleet_id (fl_fleet_tenant f)
                  (Some (''device_id='' @ device_id))
                  [(''fleet_id'', JStr fleet_id), (''device_id'', JStr device_id)]
                  (st\<lparr>members := tbl_del fm_id (fm_id m) (members st)\<rparr>))
           | _ \<Rightarrow> (Inl (PyExc ''MultipleResultsFound''), st)))"

definition list_device_fleets ::
  "auth_settings \<Rightarrow> current_user \<Rightarrow> string \<Rightarrow> fleet_state \<Rightarrow> dict list" where
  "list_device_fleets s u device_id st =
     (let ids = map fm_fleet_id (filter (\<lambda>m. fm_device_id m = device_id) (members st))
      in map fleet_to_dict
           (filter (\<lambda>f. fl_id f \<in> set ids
              \<and> (is_platform_admin s u \<or> fl_fleet_tenant f = Some (tenant_id u))) (fleets st)))"

end
