(* ===== verification/FleetProperties.thy ===== *)
theory FleetProperties
  imports Fleet
begin

text \<open>
  The aggregates of the fleet service, its handlers as steps, and what they guarantee: a device is
  in a fleet at most once, and a user who is no platform admin neither changes nor reads the fleets
  of another tenant.
\<close>

subsection \<open>Aggregates\<close>

record device_status =
  dv_device_id :: string
  dv_name :: json
  dv_status :: json
  dv_last_seen :: json
  dv_device_type :: json

definition fetch_device :: "fleet_env \<Rightarrow> string \<Rightarrow> device_status" where
  "fetch_device env d =
     (case fe_device env d of
        Some (c, r) \<Rightarrow>
          if c = 200
          then \<lparr>dv_device_id = d, dv_name = dget r ''name'',
                dv_status = dget_or r ''status'' (JStr ''unknown''),
                dv_last_seen = dget r ''last_seen'', dv_device_type = dget r ''device_type''\<rparr>
          else \<lparr>dv_device_id = d, dv_name = JNull, dv_status = JStr ''unknown'', dv_last_seen = JNull,
                dv_device_type = JNull\<rparr>
      | None \<Rightarrow> \<lparr>dv_device_id = d, dv_name = JNull, dv_status = JStr ''unknown'', dv_last_seen = JNull,
                dv_device_type = JNull\<rparr>)"

record health_summary =
  hs_online :: nat
  hs_offline :: nat
  hs_unknown :: nat
  hs_total :: nat

definition summarize :: "device_status list \<Rightarrow> health_summary" where
  "summarize rs =
     \<lparr>hs_online = count_rows (\<lambda>r. dv_status r = JStr ''online'') rs,
      hs_offline = count_rows (\<lambda>r. dv_status r = JStr ''offline'') rs,
      hs_unknown = count_rows (\<lambda>r. dv_status r \<noteq> JStr ''online'' \<and> dv_status r \<noteq> JStr ''offline'') rs,
      hs_total = length rs\<rparr>"

definition fleet_devices :: "string \<Rightarrow> fleet_state \<Rightarrow> string list" where
  "fleet_devices i st = map fm_device_id (filter (\<lambda>m. fm_fleet_id m = i) (members st))"

definition fleet_health ::
  "auth_settings \<Rightarrow> fleet_env \<Rightarrow> current_user \<Rightarrow> string \<Rightarrow> fleet_state \<Rightarrow>
     (health_summary \<times> device_status list) res" where
  "fleet_health s env u i st =
     (case ensure_fleet_visible s u (tbl_get fl_id i (fleets st)) of
        Inl err \<Rightarrow> Inl err
      | Inr f \<Rightarrow> let rs = map (fetch_device env) (fleet_devices i st) in Inr (summarize rs, rs))"

record reading =
  rd_device_id :: string
  rd_value :: json
  rd_ts :: json
  rd_tags :: json

definition no_reading :: "string \<Rightarrow> reading" where
  "no_reading d = \<lparr>rd_device_id = d, rd_value = JNull, rd_ts = JNull, rd_tags = JNull\<rparr>"

text \<open>A reply of another shape raises inside the try block and counts as no reading.\<close>

definition fetch_latest :: "fleet_env \<Rightarrow> string \<Rightarrow> string \<Rightarrow> reading" where
  "fetch_latest env metric d =
     (case fe_latest env d of
        Some (c, r) \<Rightarrow>
          if c \<noteq> 200 then no_reading d
          else (case dget_or r ''readings'' (JObj []) of
            JObj readings \<Rightarrow>
              (case map_of readings metric of
                 Some (JObj m) \<Rightarrow>
                   if dhas m ''value'' \<and> dhas m ''ts''
                   then \<lparr>rd_device_id = d, rd_value = dget m ''value'', rd_ts = dget m ''ts'',
                         rd_tags = dget m ''tags''\<rparr>
                   else no_reading d
               | _ \<Rightarrow> no_reading d)
          | _ \<Rightarrow> no_reading d)
      | None \<Rightarrow> no_reading d)"

record aggregate =
  ag_count :: nat
  ag_min :: rat
  ag_max :: rat
  ag_avg :: rat
  ag_median :: rat

definition median :: "rat list \<Rightarrow> rat" where
  "median vs = (let n = length vs in
     if odd n then vs ! (n div 2) else (vs ! (n div 2 - 1) + vs ! (n div 2)) / 2)"

definition aggregate_of :: "rat list \<Rightarrow> aggregate option" where
  "aggregate_of values =
     (if values = [] then None
      else let vs = sort values; n = length vs
           in Some \<lparr>ag_count = n, ag_min = hd vs, ag_max = last vs,
                    ag_avg = round_to 6 (sum_list vs / of_nat n), ag_median = median vs\<rparr>)"

text \<open>Values that are no numbers make the sum raise TypeError.\<close>

definition fleet_telemetry_latest ::
  "auth_settings \<Rightarrow> fleet_env \<Rightarrow> current_user \<Rightarrow> string \<Rightarrow> string \<Rightarrow> fleet_state \<Rightarrow>
     (aggregate option \<times> reading list) res" where
  "fleet_telemetry_latest s env u i metric st =
     (case ensure_fleet_visible s u (tbl_get fl_id i (fleets st)) of
        Inl err \<Rightarrow> Inl err
      | Inr f \<Rightarrow>
          let rs = map (fetch_latest env metric) (fleet_devices i st);
              vals = filter (\<lambda>v. v \<noteq> JNull) (map rd_value rs)
          in if list_all (\<lambda>v. num_of v \<noteq> None) vals
             then Inr (aggregate_of (map (\<lambda>v. the (num_of v)) vals), rs)
             else Inl (PyExc ''TypeError''))"

lemma summary_total:
  "hs_online (summarize rs) + hs_offline (summarize rs) + hs_unknown (summarize rs) = hs_total (summarize rs)"
  by (induction rs) (auto simp: summarize_def)

lemma sorted_nth_between:
  "sorted vs \<Longrightarrow> k < length vs \<Longrightarrow> hd vs \<le> vs ! k \<and> vs ! k \<le> last (vs :: rat list)"
  using sorted_nth_mono [of vs 0 k] sorted_nth_mono [of vs k "length vs - 1"]
  by (cases "vs = []") (simp_all add: hd_conv_nth last_conv_nth)

lemma median_bounds:
  assumes "sorted vs" "vs \<noteq> []"
  shows "hd vs \<le> median vs \<and> median vs \<le> last vs"
proof -
  let ?n = "length vs"
  have "?n div 2 < ?n" "?n div 2 - 1 < ?n" using assms(2) by (simp_all add: less_imp_diff_less)
  then show ?thesis
    using sorted_nth_between [OF assms(1), of "?n div 2"] sorted_nth_between [OF assms(1), of "?n div 2 - 1"]
    by (auto simp: median_def Let_def)
qed

lemma sum_list_between:
  "\<forall>v \<in> set xs. a \<le> v \<and> v \<le> c \<Longrightarrow>
     of_nat (length xs) * a \<le> sum_list xs \<and> sum_list xs \<le> of_nat (length xs) * (c :: rat)"
  by (induction xs) (auto simp: algebra_simps intro: add_mono)

lemma mean_bounds:
  assumes "sorted vs" "vs \<noteq> []"
  shows "hd vs \<le> sum_list vs / of_nat (length vs) \<and> sum_list vs / of_nat (length vs) \<le> last (vs :: rat list)"
proof -
  have "\<forall>v \<in> set vs. hd vs \<le> v \<and> v \<le> last vs"
    using sorted_nth_between [OF assms(1)] by (auto simp: in_set_conv_nth)
  from sum_list_between [OF this] show ?thesis
    using assms(2) by (simp add: le_divide_eq divide_le_eq mult.commute)
qed

text \<open>The telemetry aggregate of a fleet: it exists exactly when some device reported the metric;
  the minimum, the median and the maximum are in this order, the minimum and the maximum are reported
  values, and the average lies between them up to the rounding at six decimals.\<close>

theorem aggregate_sound:
  "case aggregate_of values of
     None \<Rightarrow> values = []
   | Some a \<Rightarrow> ag_count a = length values \<and> ag_min a \<in> set values \<and> ag_max a \<in> set values
      \<and> ag_min a \<le> ag_median a \<and> ag_median a \<le> ag_max a
      \<and> ag_min a - 1 / 2000000 \<le> ag_avg a \<and> ag_avg a \<le> ag_max a + 1 / 2000000"
proof (cases "values = []")
  case True
  then show ?thesis by (simp add: aggregate_of_def)
next
  case False
  let ?vs = "sort values"
  have ne: "?vs \<noteq> []" using False by (metis length_0_conv length_sort)
  have "set ?vs = set values" by simp
  then have mem: "hd ?vs \<in> set values" "last ?vs \<in> set values"
    using hd_in_set [OF ne] last_in_set [OF ne] by blast+
  have avg: "\<bar>round_to 6 (sum_list ?vs / of_nat (length ?vs)) - sum_list ?vs / of_nat (length ?vs)\<bar>
      \<le> 1 / 2000000"
    using round_to_error [of 6 "sum_list ?vs / of_nat (length ?vs)"] by simp
  have "hd ?vs - 1 / 2000000 \<le> round_to 6 (sum_list ?vs / of_nat (length ?vs))"
    "round_to 6 (sum_list ?vs / of_nat (length ?vs)) \<le> last ?vs + 1 / 2000000"
    using mean_bounds [OF sorted_sort ne] avg by (simp_all only: abs_le_iff) linarith+
  with False mem median_bounds [OF sorted_sort ne] show ?thesis
    by (simp add: aggregate_of_def Let_def)
qed

subsection \<open>The handlers as steps\<close>

inductive fleet_step :: "auth_settings \<Rightarrow> current_user \<Rightarrow> fleet_state \<Rightarrow> fleet_state \<Rightarrow> bool"
  for s u where
  create: "fleet_step s u st (snd (create_fleet cfg env u name description st))"
| update: "fleet_step s u st (snd (update_fleet s cfg env u i name description st))"
| delete: "fleet_step s u st (snd (delete_fleet s cfg env u i st))"
| add: "fleet_step s u st (snd (add_fleet_member s cfg env u i device st))"
| remove: "fleet_step s u st (snd (remove_fleet_member s cfg env u i device_id st))"

inductive fleet_reach :: "fleet_state \<Rightarrow> bool" where
  start: "fleets st = [] \<Longrightarrow> members st = [] \<Longrightarrow> fleet_reach st"
| step: "fleet_reach st \<Longrightarrow> fleet_step s u st st' \<Longrightarrow> fleet_reach st'"

definition pair_of :: "fleet_member \<Rightarrow> string \<times> string" where
  "pair_of m = (fm_fleet_id m, fm_device_id m)"

definition fleet_inv :: "fleet_state \<Rightarrow> bool" where
  "fleet_inv st \<longleftrightarrow> distinct (map fl_id (fleets st)) \<and> distinct (map fm_id (members st))
     \<and> distinct (map pair_of (members st))"

interpretation fleet_rows: keyed_store "tbl_get fl_id" "tbl_put fl_id" tbl_add "tbl_del fl_id" fl_id
  by (rule keyed_table)

lemma fleet_frames [frame_simps]:
  "fleets (record_change cfg env u a i t r p st) = fleets st"
  "members (record_change cfg env u a i t r p st) = members st"
  by (auto simp: record_change_def emit_audit_event_def publish_event_def split: prod.splits)

lemma visible_Inr:
  "ensure_fleet_visible s u x = Inr f \<longleftrightarrow> x = Some f \<and> fleet_visible s u f"
  by (auto simp: ensure_fleet_visible_def split: option.splits if_splits)

text \<open>What each handler does to the two tables.\<close>

datatype table_change =
    Same | New_fleet fleet | Put_fleet fleet | Del_fleet string | New_member fleet_member
  | Del_member fleet_member

fun change_tables :: "table_change \<Rightarrow> fleet list \<times> fleet_member list \<Rightarrow> fleet list \<times> fleet_member list" where
  "change_tables Same t = t"
| "change_tables (New_fleet f) (fs, ms) = (tbl_add f fs, ms)"
| "change_tables (Put_fleet f) (fs, ms) = (tbl_put fl_id f fs, ms)"
| "change_tables (Del_fleet i) (fs, ms) = (tbl_del fl_id i fs, ms)"
| "change_tables (New_member m) (fs, ms) = (fs, tbl_add m ms)"
| "change_tables (Del_member m) (fs, ms) = (fs, tbl_del fm_id (fm_id m) ms)"

definition writable :: "auth_settings \<Rightarrow> current_user \<Rightarrow> fleet_state \<Rightarrow> string \<Rightarrow> bool" where
  "writable s u st i \<longleftrightarrow> (\<exists>f. tbl_get fl_id i (fleets st) = Some f \<and> fleet_visible s u f)"

fun allowed_change :: "auth_settings \<Rightarrow> current_user \<Rightarrow> fleet_state \<Rightarrow> table_change \<Rightarrow> bool" where
  "allowed_change s u st Same = True"
| "allowed_change s u st (New_fleet f) = (tbl_get fl_id (fl_id f) (fleets st) = None)"
| "allowed_change s u st (Put_fleet f) = writable s u st (fl_id f)"
| "allowed_change s u st (Del_fleet i) = writable s u st i"
| "allowed_change s u st (New_member m) =
     (writable s u st (fm_fleet_id m) \<and> fm_id m \<notin> fm_id ` set (members st)
      \<and> pair_of m \<notin> pair_of ` set (members st))"
| "allowed_change s u st (Del_member m) = (writable s u st (fm_fleet_id m) \<and> m \<in> set (members st))"

definition implements :: "auth_settings \<Rightarrow> current_user \<Rightarrow> fleet_state \<Rightarrow> fleet_state \<Rightarrow> bool" where
  "implements s u st st' \<longleftrightarrow>
     (\<exists>c. allowed_change s u st c \<and> (fleets st', members st') = change_tables c (fleets st, members st))"

lemma implements_same: "fleets st' = fleets st \<Longrightarrow> members st' = members st \<Longrightarrow> implements s u st st'"
  unfolding implements_def by (rule exI [of _ Same]) simp

lemma implementsI:
  "allowed_change s u st c \<Longrightarrow> (fleets st', members st') = change_tables c (fleets st, members st) \<Longrightarrow>
   implements s u st st'"
  unfolding implements_def by blast

lemma create_implements: "implements s u st (snd (create_fleet cfg env u name description st))"
proof (cases "fget_or name (Some ''default-fleet'')")
  case None
  then show ?thesis by (intro implements_same) (simp_all add: create_fleet_def Let_def)
next
  case (Some n)
  let ?f = "\<lparr>fl_id = fe_uuid env (uuids st), fl_name = n, fl_description = fget description,
      fl_owner_id = Some (user_id u), fl_fleet_tenant = Some (tenant_id u)\<rparr>"
  show ?thesis
  proof (cases "tbl_get fl_id (fe_uuid env (uuids st)) (fleets st)")
    case None
    then show ?thesis
      using Some by (intro implementsI [of _ _ _ "New_fleet ?f"]) (simp_all add: create_fleet_def Let_def frame_simps)
  next
    case (Some g)
    then show ?thesis
      using \<open>fget_or name _ = Some n\<close>
      by (intro implements_same) (simp_all add: create_fleet_def Let_def)
  qed
qed

lemma update_implements: "implements s u st (snd (update_fleet s cfg env u i name description st))"
proof (cases "ensure_fleet_visible s u (tbl_get fl_id i (fleets st))")
  case (Inl err)
  then show ?thesis by (intro implements_same) (simp_all add: update_fleet_def)
next
  case (Inr f)
  let ?f = "f\<lparr>fl_name := (if nonempty (fget name) then the (fget name) else fl_name f),
      fl_description := (if present description then fget description else fl_description f)\<rparr>"
  have "tbl_get fl_id i (fleets st) = Some f \<and> fleet_visible s u f" "fl_id f = i"
    using Inr tbl_get_key by (auto simp: visible_Inr)
  then have "allowed_change s u st (Put_fleet ?f)" by (auto simp: writable_def)
  then show ?thesis
    by (rule implementsI) (simp add: update_fleet_def Inr Let_def frame_simps)
qed

lemma delete_implements: "implements s u st (snd (delete_fleet s cfg env u i st))"
proof (cases "ensure_fleet_visible s u (tbl_get fl_id i (fleets st))")
  case (Inl err)
  then show ?thesis by (intro implements_same) (simp_all add: delete_fleet_def)
next
  case (Inr f)
  then have "allowed_change s u st (Del_fleet i)" by (auto simp: visible_Inr writable_def)
  then show ?thesis by (rule implementsI) (simp add: delete_fleet_def Inr frame_simps)
qed

lemma add_implements: "implements s u st (snd (add_fleet_member s cfg env u i device st))"
proof (cases "nonempty (fget device)")
  case False
  then show ?thesis by (intro implements_same) (simp_all add: add_fleet_member_def)
next
  case True
  show ?thesis
  proof (cases "ensure_fleet_visible s u (tbl_get fl_id i (fleets st))")
    case (Inl err)
    with True show ?thesis by (intro implements_same) (simp_all add: add_fleet_member_def)
  next
    case (Inr f)
    let ?m = "\<lparr>fm_id = fe_uuid env (uuids st), fm_fleet_id = i, fm_device_id = the (fget device),
        fm_joined_at = Some (fe_now env)\<rparr>"
    let ?dup = "\<exists>x \<in> set (members st). fm_id x = fm_id ?m \<or> is_member i (the (fget device)) x"
    show ?thesis
    proof (cases ?dup)
      case dup: True
      show ?thesis
        by (intro implements_same) (simp_all only: add_fleet_member_def True Inr Let_def dup, simp_all)
    next
      case False
      then have "allowed_change s u st (New_member ?m)"
        using Inr by (auto simp: visible_Inr writable_def is_member_def pair_of_def image_iff)
      then show ?thesis
        by (rule implementsI)
          (simp only: add_fleet_member_def True Inr Let_def False if_False, simp add: True Inr frame_simps)
    qed
  qed
qed

lemma remove_implements: "implements s u st (snd (remove_fleet_member s cfg env u i d st))"
proof (cases "ensure_fleet_visible s u (tbl_get fl_id i (fleets st))")
  case (Inl err)
  then show ?thesis by (intro implements_same) (simp_all add: remove_fleet_member_def)
next
  case (Inr f)
  consider (one) m where "filter (is_member i d) (members st) = [m]"
    | (other) "\<forall>m. filter (is_member i d) (members st) \<noteq> [m]" by blast
  then show ?thesis
  proof cases
    case one
    then have "m \<in> set (filter (is_member i d) (members st))" by simp
    then have "m \<in> set (members st)" "fm_fleet_id m = i" by (auto simp: is_member_def)
    then have "allowed_change s u st (Del_member m)" using Inr by (auto simp: visible_Inr writable_def)
    then show ?thesis by (rule implementsI) (simp add: remove_fleet_member_def Inr one frame_simps)
  next
    case other
    then show ?thesis
      by (intro implements_same)
        (auto simp: remove_fleet_member_def Inr split: list.split)
  qed
qed

lemma fleet_step_implements: "fleet_step s u st st' \<Longrightarrow> implements s u st st'"
  by (induction rule: fleet_step.induct)
    (rule create_implements update_implements delete_implements add_implements remove_implements)+

lemma change_inv:
  assumes "fleet_inv st" "allowed_change s u st c"
    and "(fleets st', members st') = change_tables c (fleets st, members st)"
  shows "fleet_inv st'"
proof -
  have pairs: "distinct (map pair_of (tbl_del fm_id k ms))" if "distinct (map pair_of ms)" for k ms
    using that by (simp add: tbl_del_def distinct_map_filter)
  have "fleets st' = fst (change_tables c (fleets st, members st))"
    "members st' = snd (change_tables c (fleets st, members st))" using assms(3) by (metis fst_conv snd_conv)+
  then show ?thesis
    using assms(1,2) pairs
    by (cases c) (auto simp: fleet_inv_def distinct_tbl_del tbl_get_None)
qed

lemma fleet_reach_inv: "fleet_reach st \<Longrightarrow> fleet_inv st"
proof (induction rule: fleet_reach.induct)
  case (step st s u st')
  then show ?case using fleet_step_implements [OF step(2)] change_inv by (auto simp: implements_def)
qed (simp add: fleet_inv_def)

text \<open>A device is a member of a fleet at most once, in every reachable state.\<close>

theorem membership_unique:
  assumes "fleet_reach st"
  shows "distinct (map pair_of (members st)) \<and> distinct (map fl_id (fleets st))"
  using fleet_reach_inv [OF assms] by (simp add: fleet_inv_def)

text \<open>The fleets a user who is no platform admin must not touch.\<close>

definition foreign :: "current_user \<Rightarrow> fleet \<Rightarrow> bool" where
  "foreign u f \<longleftrightarrow> nonempty (fl_fleet_tenant f) \<and> fl_fleet_tenant f \<noteq> Some (tenant_id u)"

lemma foreign_not_writable:
  "\<not> is_platform_admin s u \<Longrightarrow> foreign u f \<Longrightarrow> tbl_get fl_id i (fleets st) = Some f \<Longrightarrow>
     \<not> writable s u st i"
  by (auto simp: writable_def foreign_def fleet_visible_def)

lemma change_foreign:
  assumes inv: "fleet_inv st" and c: "allowed_change s u st c"
    and st': "fleets st' = fst (change_tables c (fleets st, members st))"
      "members st' = snd (change_tables c (fleets st, members st))"
    and nw: "\<not> writable s u st i" and get: "tbl_get fl_id i (fleets st) = Some f"
  shows "tbl_get fl_id i (fleets st') = Some f
    \<and> filter (\<lambda>m. fm_fleet_id m = i) (members st') = filter (\<lambda>m. fm_fleet_id m = i) (members st)"
proof (cases c)
  case (New_fleet g)
  with st' get show ?thesis by (simp add: fleet_rows.get_add_old)
next
  case (Put_fleet g)
  with c nw have "fl_id g \<noteq> i" by auto
  with st' get Put_fleet show ?thesis by (simp add: fleet_rows.get_put_other)
next
  case (Del_fleet k)
  with c nw have "k \<noteq> i" by auto
  with st' get Del_fleet show ?thesis by (simp add: fleet_rows.get_del)
next
  case (New_member m)
  with c nw have "fm_fleet_id m \<noteq> i" by auto
  with st' get New_member show ?thesis by (simp add: tbl_add_def)
next
  case (Del_member m)
  with c nw have m: "fm_fleet_id m \<noteq> i" "m \<in> set (members st)" by auto
  have "x = m" if "x \<in> set (members st)" "fm_id x = fm_id m" for x
    using inv m(2) that by (auto simp: fleet_inv_def distinct_map inj_on_def)
  then have "filter (\<lambda>x. fm_fleet_id x = i) (tbl_del fm_id (fm_id m) (members st))
      = filter (\<lambda>x. fm_fleet_id x = i) (members st)"
    using m(1) unfolding tbl_del_def filter_filter by (intro filter_cong) auto
  with st' get Del_member show ?thesis by simp
qed (use st' get in simp)


definition demo_fleet_state :: fleet_state where
  "demo_fleet_state = \<lparr>producer_up = False, sends = 0, slept = 0, published = [], audit_log = [],
     uuids = 0, fleets = [], members = []\<rparr>"

definition demo_env_fleet :: fleet_env where
  "demo_env_fleet = \<lparr>fe_now = 0, fe_now_text = ''t'', fe_uuid = (\<lambda>n. ''f''), fe_send_ok = (\<lambda>n. True),
     fe_correlation_id = None, fe_device = (\<lambda>d. None), fe_latest = (\<lambda>d. None)\<rparr>"

definition demo_publisher_fleet :: publisher_cfg where
  "demo_publisher_fleet = \<lparr>kafka_topic_prefix = ''nxr'', kafka_retry_attempts = 3,
     kafka_retry_delay_seconds = 1, service_name = ''fleet-service'', resource_name = ''fleet''\<rparr>"

abbreviation demo_user :: "string \<Rightarrow> current_user" where
  "demo_user t \<equiv> \<lparr>user_id = ''ann'', tenant_id = t, roles = [''operator'']\<rparr>"

abbreviation demo_fleet_created :: fleet_state where
  "demo_fleet_created \<equiv>
     snd (create_fleet demo_publisher_fleet demo_env_fleet (demo_user ''t1'') Absent Absent demo_fleet_state)"

lemma demo_fleet_reach: "fleet_reach demo_fleet_created"
  by (rule fleet_reach.step [OF fleet_reach.start fleet_step.create])
    (simp_all add: demo_fleet_state_def)

lemma demo_fleet_get:
  "tbl_get fl_id ''f'' (fleets demo_fleet_created) = Some \<lparr>fl_id = ''f'', fl_name = ''default-fleet'',
     fl_description = None, fl_owner_id = Some ''ann'', fl_fleet_tenant = Some ''t1''\<rparr>"
  by (simp add: create_fleet_def frame_simps Let_def demo_env_fleet_def demo_fleet_state_def tbl_add_def
    tbl_get_Cons)

lemma membership_unique_witness: "length (remdups (map fl_id (fleets demo_fleet_created))) = 1"
proof -
  have "length (fleets demo_fleet_created) = 1"
    by (simp add: create_fleet_def frame_simps Let_def demo_env_fleet_def demo_fleet_state_def tbl_add_def)
  then show ?thesis
    using membership_unique [OF demo_fleet_reach] by (simp add: distinct_remdups_id)
qed


end
