(* ===== verification/DeviceModel.thy ===== *)
theory DeviceModel
  imports AuthContext
begin

text \<open>
  What the parts of the device service share (\<open>services/device-service\<close>): the rows of its
  tables (\<open>device_service/models\<close>), the settings, the event bus (\<open>core/events.py\<close>), the caller
  (\<open>core/auth.py\<close>) and the state all endpoints work on. Columns that hold JSON keep the
  value. Ids in paths and bodies are canonical UUID texts: FastAPI refuses others before the
  handlers run.
\<close>

subsection \<open>Rows\<close>

record device =
  dv_id :: string
  dv_name :: string
  dv_device_type :: string
  dv_description :: "string option"
  dv_owner_id :: "string option"
  dv_tenant_id :: "string option"
  dv_privacy_level :: int
  dv_status :: string
  dv_last_seen :: "int option"
  dv_capabilities :: "dict option"
  dv_connection_protocol :: string
  dv_protocol_meta :: "dict option"
  dv_meta :: "dict option"
  dv_tags :: "string list option"
  dv_created_at :: int
  dv_updated_at :: int

record shadow =
  sh_device_id :: string
  sh_desired :: "dict option"
  sh_reported :: "dict option"
  sh_delta :: "dict option"
  sh_version :: int
  sh_desired_at :: "int option"
  sh_reported_at :: "int option"

record discovery =
  dc_id :: string
  dc_hardware_id :: string
  dc_device_type :: string
  dc_firmware_version :: "string option"
  dc_device_code :: string
  dc_user_code :: string
  dc_status :: string
  dc_expires_at :: int
  dc_claimed_by :: "string option"
  dc_claimed_tenant :: "string option"
  dc_claimed_at :: "int option"
  dc_bootstrap_token_issued :: "string option"
  dc_device_id :: "string option"
  dc_created_at :: int

record ownership_event =
  oe_id :: string
  oe_device_id :: string
  oe_actor_id :: string
  oe_action :: string
  oe_details :: dict
  oe_created_at :: int

record device_consent =
  co_id :: string
  co_device_id :: string
  co_granted_by :: string
  co_granted_to :: string
  co_granted_to_type :: string
  co_level :: int
  co_granted_at :: int
  co_revoked_at :: "int option"
  co_is_active :: bool

record device_slo =
  sl_id :: string
  sl_device_id :: string
  sl_metric :: string
  sl_operator :: string
  sl_threshold :: rat
  sl_description :: "string option"
  sl_enabled :: bool
  sl_created_at :: int

record slo_violation =
  vi_id :: string
  vi_slo_id :: string
  vi_device_id :: string
  vi_metric :: string
  vi_observed_value :: rat
  vi_threshold :: rat
  vi_operator :: string
  vi_violated_at :: int

record device_telemetry =
  te_id :: string
  te_device_id :: string
  te_metric :: string
  te_value :: rat
  te_ts :: int
  te_tags :: "dict option"
  te_unit :: "string option"

subsection \<open>State, settings and environment\<close>

text \<open>
  \<open>dv_ids\<close> counts the values drawn from \<open>uuid4\<close> and \<open>secrets\<close>; \<open>bus_connected\<close> and
  \<open>bus_sends\<close> are the producer, \<open>emitted\<close> the messages (topic and data) the broker took.
\<close>

record device_state =
  devices :: "device list"
  shadows :: "shadow list"
  discoveries :: "discovery list"
  ownership_events :: "ownership_event list"
  consents :: "device_consent list"
  slos :: "device_slo list"
  violations :: "slo_violation list"
  samples :: "device_telemetry list"
  bus_connected :: bool
  bus_sends :: nat
  emitted :: "(string \<times> dict) list"
  dv_audit :: "audit_event list"
  dv_ids :: nat

definition empty_device_state :: device_state where
  "empty_device_state = \<lparr>devices = [], shadows = [], discoveries = [], ownership_events = [],
     consents = [], slos = [], violations = [], samples = [], bus_connected = True, bus_sends = 0,
     emitted = [], dv_audit = [], dv_ids = 0\<rparr>"

record device_settings =
  ds_auth :: auth_settings
  ds_topic_prefix :: string
  ds_agent_bootstrap_tokens :: string
  ds_revoked_token_ids :: string
  ds_discovery_expiry_seconds :: int
  ds_discovery_poll_interval_seconds :: int

text \<open>The clock, the random sources (numbered draws) and the broker's answer to each send.\<close>

record device_env =
  dn_now :: int
  dn_now_text :: string
  dn_uuid4 :: "nat \<Rightarrow> string"
  dn_token_urlsafe :: "nat \<Rightarrow> string"
  dn_token_hex :: "nat \<Rightarrow> string"
  dn_user_code :: "nat \<Rightarrow> string"
  dn_send_ok :: "nat \<Rightarrow> bool"

definition find_device :: "string \<Rightarrow> device_state \<Rightarrow> device option" where
  "find_device d st = tbl_get dv_id d (devices st)"

definition device_exists :: "string \<Rightarrow> device_state \<Rightarrow> bool" where
  "device_exists d st \<longleftrightarrow> find_device d st \<noteq> None"

definition device_not_found :: error where
  "device_not_found = http 404 ''Device not found''"

subsection \<open>The event bus\<close>

text \<open>\<open>EventBus.publish\<close>: nothing without a connected producer; one send, whose failure is
  only logged.\<close>

definition event_bus_publish ::
  "device_settings \<Rightarrow> device_env \<Rightarrow> string \<Rightarrow> dict \<Rightarrow> device_state \<Rightarrow> device_state" where
  "event_bus_publish cfg env event_type data st =
     (if \<not> bus_connected st then st
      else st\<lparr>bus_sends := Suc (bus_sends st),
              emitted := (if dn_send_ok env (bus_sends st)
                then emitted st @ [(ds_topic_prefix cfg @ ''.'' @ event_type, data)]
                else emitted st)\<rparr>)"

lemma frame_event_bus [frame_simps]:
  "devices (event_bus_publish cfg env t x st) = devices st"
  "shadows (event_bus_publish cfg env t x st) = shadows st"
  "discoveries (event_bus_publish cfg env t x st) = discoveries st"
  "ownership_events (event_bus_publish cfg env t x st) = ownership_events st"
  "consents (event_bus_publish cfg env t x st) = consents st"
  "slos (event_bus_publish cfg env t x st) = slos st"
  "violations (event_bus_publish cfg env t x st) = violations st"
  "samples (event_bus_publish cfg env t x st) = samples st"
  "bus_connected (event_bus_publish cfg env t x st) = bus_connected st"
  "dv_audit (event_bus_publish cfg env t x st) = dv_audit st"
  "dv_ids (event_bus_publish cfg env t x st) = dv_ids st"
  by (simp_all add: event_bus_publish_def)

lemma emitted_event_bus:
  "emitted (event_bus_publish cfg env t x st) =
     (if bus_connected st \<and> dn_send_ok env (bus_sends st)
      then emitted st @ [(ds_topic_prefix cfg @ ''.'' @ t, x)] else emitted st)"
  by (simp add: event_bus_publish_def)

subsection \<open>The caller\<close>

text \<open>This service's \<open>CurrentUser\<close> has an operator flag, and no \<open>has_role\<close> method.\<close>

record device_user = current_user +
  du_is_operator :: bool

definition device_dev_user :: device_user where
  "device_dev_user = \<lparr>user_id = ''dev-user'', tenant_id = ''dev'', roles = [], du_is_operator = False\<rparr>"

definition device_user_of_claims :: "auth_settings \<Rightarrow> claims \<Rightarrow> device_user" where
  "device_user_of_claims s c =
     \<lparr>user_id = cl_sub c,
      tenant_id = (case cl_groups c of [] \<Rightarrow> ''global'' | g # _ \<Rightarrow> dropWhile (\<lambda>x. x = CHR ''/'') g),
      roles = cl_roles c,
      du_is_operator = (operator_role s \<in> set (cl_roles c) \<or> platform_admin_role s \<in> set (cl_roles c)
        \<or> tenant_admin_role s \<in> set (cl_roles c))\<rparr>"

definition get_current_user ::
  "auth_settings \<Rightarrow> verifier \<Rightarrow> string option \<Rightarrow> device_user res" where
  "get_current_user s verify authorization =
     (if \<not> as_auth_enabled s then Inr device_dev_user
      else case authorization of
        None \<Rightarrow> Inl (unauthorized [JStr ''Missing Authorization header''])
      | Some h \<Rightarrow>
          if h = [] then Inl (unauthorized [JStr ''Missing Authorization header''])
          else if as_dev_bypass_enabled s \<and> h = ''Bearer '' @ as_dev_token s then Inr device_dev_user
          else if \<not> startswith h ''Bearer ''
          then Inl (unauthorized [JStr ''Invalid Authorization header format''])
          else case verify (drop (length ''Bearer '') h) of
            Inl exc \<Rightarrow> Inl (unauthorized [JStr ''Invalid token: '', JStr exc])
          | Inr c \<Rightarrow> Inr (device_user_of_claims s c))"

text \<open>The audit record of a handler, about a device.\<close>

definition device_audit ::
  "device_env \<Rightarrow> string \<Rightarrow> string \<Rightarrow> string option \<Rightarrow> actor \<Rightarrow> device_state \<Rightarrow> device_state" where
  "device_audit env action did tenant who st =
     st\<lparr>dv_audit := dv_audit st @ [make_audit_event (dn_now_text env) ''device-service'' action
        ''device'' (Some did) tenant who ''success'' None]\<rparr>"

definition device_actor :: "device_user \<Rightarrow> actor" where
  "device_actor u = \<lparr>actor_user_id = Some (user_id u), actor_tenant_id = Some (tenant_id u),
     actor_roles = roles u, actor_correlation_id = None\<rparr>"

lemma frame_device_audit [frame_simps]:
  "devices (device_audit env a d t w st) = devices st"
  "shadows (device_audit env a d t w st) = shadows st"
  "discoveries (device_audit env a d t w st) = discoveries st"
  "consents (device_audit env a d t w st) = consents st"
  "emitted (device_audit env a d t w st) = emitted st"
  "dv_ids (device_audit env a d t w st) = dv_ids st"
  by (simp_all add: device_audit_def)

subsection \<open>Concrete settings\<close>

definition demo_device_settings :: device_settings where
  "demo_device_settings = \<lparr>ds_auth = demo_settings, ds_topic_prefix = ''nxr'',
     ds_agent_bootstrap_tokens = ''a:s:100'', ds_revoked_token_ids = [],
     ds_discovery_expiry_seconds = 900, ds_discovery_poll_interval_seconds = 5\<rparr>"

definition demo_device_env :: "int \<Rightarrow> device_env" where
  "demo_device_env t = \<lparr>dn_now = t, dn_now_text = ''t'', dn_uuid4 = (\<lambda>n. ''u'' @ show_nat n),
     dn_token_urlsafe = (\<lambda>n. ''s'' @ show_nat n), dn_token_hex = (\<lambda>n. ''h'' @ show_nat n),
     dn_user_code = (\<lambda>n. ''c'' @ show_nat n), dn_send_ok = (\<lambda>n. True)\<rparr>"

end
