(* ===== verification/Shadow.thy ===== *)
theory Shadow
  imports DeviceModel
begin

text \<open>
  The device shadow (\<open>device_service/api/shadow.py\<close>, \<open>models/device_shadow.py\<close>, and the
  heartbeat's part in \<open>services/device_service.py\<close>): desired and reported state with shallow
  merges, the stored delta and the version. Columns that hold JSON
  text keep the dict it serialises; None is NULL.
\<close>

definition dict_or_empty :: "dict option \<Rightarrow> dict" where
  "dict_or_empty d = (case d of None \<Rightarrow> [] | Some x \<Rightarrow> x)"

text \<open>\<open>{k: v for k, v in desired.items() if reported.get(k) != v}\<close>.\<close>

definition compute_delta :: "dict \<Rightarrow> dict \<Rightarrow> dict" where
  "compute_delta desired reported =
     filter (\<lambda>(k, v). \<not> py_eq (dget reported k) v) desired"

text \<open>\<open>{**old, **new}\<close> without the keys whose value is None.\<close>

definition merge_state :: "dict \<Rightarrow> dict \<Rightarrow> dict" where
  "merge_state old new =
     filter (\<lambda>(k, v). v \<noteq> JNull) (fold (\<lambda>(k, v) d. dset d k v) new old)"

definition empty_response :: "string \<Rightarrow> shadow" where
  "empty_response d = \<lparr>sh_device_id = d, sh_desired = None, sh_reported = None, sh_delta = None,
     sh_version = 0, sh_desired_at = None, sh_reported_at = None\<rparr>"

definition get_or_create_shadow :: "string \<Rightarrow> device_state \<Rightarrow> shadow \<times> device_state" where
  "get_or_create_shadow d st =
     (case tbl_get sh_device_id d (shadows st) of
        Some s \<Rightarrow> (s, st)
      | None \<Rightarrow>
          let s = (empty_response d)\<lparr>sh_version := 1\<rparr>
          in (s, st\<lparr>shadows := tbl_add s (shadows st)\<rparr>))"

definition get_shadow :: "string \<Rightarrow> device_state \<Rightarrow> shadow res" where
  "get_shadow d st =
     (if \<not> device_exists d st then Inl device_not_found
      else Inr (case tbl_get sh_device_id d (shadows st) of Some s \<Rightarrow> s | None \<Rightarrow> empty_response d))"

definition delta_event :: "shadow \<Rightarrow> dict \<Rightarrow> dict" where
  "delta_event s delta =
     [(''device_id'', JStr (sh_device_id s)), (''version'', JInt (sh_version s)), (''delta'', JObj delta)]"

definition synced_event :: "shadow \<Rightarrow> dict" where
  "synced_event s = [(''device_id'', JStr (sh_device_id s)), (''version'', JInt (sh_version s))]"

definition update_desired :: "device_settings \<Rightarrow> device_env \<Rightarrow> string \<Rightarrow> dict \<Rightarrow> device_state \<Rightarrow> shadow res \<times> device_state" where
  "update_desired cfg env d body st =
     (if \<not> device_exists d st then (Inl device_not_found, st)
      else
      let (s, st1) = get_or_create_shadow d st;
          merged = merge_state (dict_or_empty (sh_desired s)) body;
          delta = compute_delta merged (dict_or_empty (sh_reported s));
          s1 = s\<lparr>sh_desired := Some merged, sh_delta := Some delta, sh_version := sh_version s + 1,
                sh_desired_at := Some (dn_now env)\<rparr>;
          st2 = st1\<lparr>shadows := tbl_put sh_device_id s1 (shadows st1)\<rparr>
      in (Inr s1, if delta = [] then st2
                  else event_bus_publish cfg env ''device.shadow.delta'' (delta_event s1 delta) st2))"

definition update_reported :: "device_settings \<Rightarrow> device_env \<Rightarrow> string \<Rightarrow> dict \<Rightarrow> device_state \<Rightarrow> shadow res \<times> device_state" where
  "update_reported cfg env d body st =
     (if \<not> device_exists d st then (Inl device_not_found, st)
      else
      let (s, st1) = get_or_create_shadow d st;
          merged = merge_state (dict_or_empty (sh_reported s)) body;
          delta = compute_delta (dict_or_empty (sh_desired s)) merged;
          s1 = s\<lparr>sh_reported := Some merged, sh_delta := Some delta, sh_version := sh_version s + 1,
                sh_reported_at := Some (dn_now env)\<rparr>;
          st2 = st1\<lparr>shadows := tbl_put sh_device_id s1 (shadows st1)\<rparr>
      in (Inr s1, if delta = [] then event_bus_publish cfg env ''device.shadow.synced'' (synced_event s1) st2
                  else event_bus_publish cfg env ''device.shadow.delta'' (delta_event s1 delta) st2))"

text \<open>\<open>DeviceService._update_shadow_reported\<close>, the merge of a heartbeat's telemetry: nulls stay,
  and no event says that the device is in sync.\<close>

definition merge_telemetry :: "dict \<Rightarrow> dict \<Rightarrow> dict" where
  "merge_telemetry old new = fold (\<lambda>(k, v) d. dset d k v) new old"

definition update_shadow_reported ::
  "device_settings \<Rightarrow> device_env \<Rightarrow> string \<Rightarrow> dict \<Rightarrow> device_state \<Rightarrow> device_state" where
  "update_shadow_reported cfg env d telemetry st =
     (let (s, st1) = get_or_create_shadow d st;
          merged = merge_telemetry (dict_or_empty (sh_reported s)) telemetry;
          delta = compute_delta (dict_or_empty (sh_desired s)) merged;
          s1 = s\<lparr>sh_reported := Some merged, sh_delta := Some delta, sh_version := sh_version s + 1,
                sh_reported_at := Some (dn_now env)\<rparr>;
          st2 = st1\<lparr>shadows := tbl_put sh_device_id s1 (shadows st1)\<rparr>
      in if delta = [] then st2
         else event_bus_publish cfg env ''device.shadow.delta'' (delta_event s1 delta) st2)"

definition delete_shadow :: "string \<Rightarrow> device_state \<Rightarrow> unit res \<times> device_state" where
  "delete_shadow d st =
     (if \<not> device_exists d st then (Inl device_not_found, st)
      else (Inr (), st\<lparr>shadows := tbl_del sh_device_id d (shadows st)\<rparr>))"

subsection \<open>Dict lemmas\<close>

lemma keys_fold_dset: "fst ` set (fold (\<lambda>(k, v) d. dset d k v) new old) = fst ` set new \<union> fst ` set old"
proof (induction new arbitrary: old)
  case (Cons p new)
  then show ?case by (cases p) (auto simp: keys_dset)
qed simp

lemma distinct_fold_dset:
  "distinct (map fst old) \<Longrightarrow> distinct (map fst (fold (\<lambda>(k, v) d. dset d k v) new old))"
proof (induction new arbitrary: old)
  case (Cons p new)
  then show ?case by (cases p) (simp add: distinct_dset)
qed simp

lemma map_of_fold_dset:
  "distinct (map fst new) \<Longrightarrow>
   map_of (fold (\<lambda>(k, v) d. dset d k v) new old) k =
     (case map_of new k of Some v \<Rightarrow> Some v | None \<Rightarrow> map_of old k)"
proof (induction new arbitrary: old)
  case (Cons p new)
  obtain j v where p: "p = (j, v)" by (cases p)
  have "map_of new j = None" using Cons.prems p by (auto simp: map_of_eq_None_iff)
  then show ?case using Cons p by (auto simp: dset_def update_conv' split: option.split)
qed simp

lemma distinct_merge: "distinct (map fst old) \<Longrightarrow> distinct (map fst (merge_state old new))"
  by (simp add: merge_state_def distinct_map_filter distinct_fold_dset)

lemma map_of_filter_value:
  "distinct (map fst d) \<Longrightarrow> map_of (filter (\<lambda>(k, v). P k v) d) k =
     (case map_of d k of Some v \<Rightarrow> if P k v then Some v else None | None \<Rightarrow> None)"
proof (induction d)
  case (Cons p d)
  obtain j v where p: "p = (j, v)" by (cases p)
  have "map_of d j = None" using Cons.prems p by (auto simp: map_of_eq_None_iff)
  then show ?case using Cons p by (auto split: option.split)
qed simp

lemma map_of_merge_telemetry:
  "distinct (map fst new) \<Longrightarrow> map_of (merge_telemetry old new) k =
     (case map_of new k of Some v \<Rightarrow> Some v | None \<Rightarrow> map_of old k)"
  by (simp add: merge_telemetry_def map_of_fold_dset)

lemma distinct_merge_telemetry:
  "distinct (map fst old) \<Longrightarrow> distinct (map fst (merge_telemetry old new))"
  by (simp add: merge_telemetry_def distinct_fold_dset)

lemma map_of_merge:
  assumes "distinct (map fst old)" "distinct (map fst new)"
  shows "map_of (merge_state old new) k =
     (case map_of new k of Some v \<Rightarrow> if v = JNull then None else Some v
      | None \<Rightarrow> (case map_of old k of Some v \<Rightarrow> if v = JNull then None else Some v | None \<Rightarrow> None))"
  using map_of_filter_value [OF distinct_fold_dset [OF assms(1)], of "\<lambda>k v. v \<noteq> JNull" new k]
    map_of_fold_dset [OF assms(2), of old k]
  by (auto simp: merge_state_def split: option.splits)

subsection \<open>The machine\<close>

inductive shadow_step :: "device_state \<Rightarrow> device_state \<Rightarrow> bool" where
  desired: "wf_json (JObj body) \<Longrightarrow> shadow_step st (snd (update_desired cfg env d body st))"
| reported: "wf_json (JObj body) \<Longrightarrow> shadow_step st (snd (update_reported cfg env d body st))"
| heartbeat: "wf_json (JObj body) \<Longrightarrow> shadow_step st (update_shadow_reported cfg env d body st)"
| delete: "shadow_step st (snd (delete_shadow d st))"

inductive shadow_reach :: "device_state \<Rightarrow> bool" where
  start: "shadows st = [] \<Longrightarrow> shadow_reach st"
| step: "shadow_reach st \<Longrightarrow> shadow_step st st' \<Longrightarrow> shadow_reach st'"

definition clean_dict :: "dict \<Rightarrow> bool" where
  "clean_dict d \<longleftrightarrow> distinct (map fst d) \<and> (\<forall>(k, v) \<in> set d. v \<noteq> JNull \<and> wf_json v)"

definition shadow_ok :: "shadow \<Rightarrow> bool" where
  "shadow_ok s \<longleftrightarrow>
     clean_dict (dict_or_empty (sh_desired s)) \<and> wf_json (JObj (dict_or_empty (sh_reported s)))
   \<and> sh_delta s = Some (compute_delta (dict_or_empty (sh_desired s)) (dict_or_empty (sh_reported s)))
   \<and> 2 \<le> sh_version s"

end
