(* ===== verification/ShadowProperties.thy ===== *)
theory ShadowProperties
  imports Shadow
begin

text \<open>
  The table of shadows as a keyed store, the invariant of the reachable shadows, and what the
  devices rely on: a device that reports the delta it was sent is in sync.
\<close>

interpretation shadow_rows: keyed_store "tbl_get sh_device_id" "tbl_put sh_device_id" tbl_add
    "tbl_del sh_device_id" sh_device_id
  by (rule keyed_table)

subsection \<open>Deltas\<close>

lemma delta_Nil_iff:
  "compute_delta desired reported = [] \<longleftrightarrow> (\<forall>(k, v) \<in> set desired. py_eq (dget reported k) v)"
  by (auto simp: compute_delta_def filter_empty_conv)

lemma map_of_delta:
  "distinct (map fst desired) \<Longrightarrow>
   map_of (compute_delta desired reported) k =
     (case map_of desired k of Some v \<Rightarrow> if py_eq (dget reported k) v then None else Some v
      | None \<Rightarrow> None)"
  using map_of_filter_value [of desired "\<lambda>k v. \<not> py_eq (dget reported k) v" k]
  by (auto simp: compute_delta_def split: option.split)

lemma wf_json_dict: "wf_json (JObj d) \<longleftrightarrow> distinct (map fst d) \<and> (\<forall>p \<in> set d. wf_json (snd p))"
  by simp

lemma wf_merge_telemetry:
  assumes "wf_json (JObj old)" "wf_json (JObj new)"
  shows "wf_json (JObj (merge_telemetry old new))"
  unfolding wf_json_dict
proof (intro conjI ballI)
  show d: "distinct (map fst (merge_telemetry old new))"
    using assms by (simp add: distinct_merge_telemetry)
  fix p assume p: "p \<in> set (merge_telemetry old new)"
  obtain k v where kv: "p = (k, v)" by (cases p)
  then have "map_of (merge_telemetry old new) k = Some v" using d p by simp
  then have "map_of new k = Some v \<or> map_of old k = Some v"
    using assms by (auto simp: map_of_merge_telemetry split: option.splits)
  then show "wf_json (snd p)" using assms kv by (auto dest!: map_of_SomeD)
qed

lemma wf_filter: "wf_json (JObj d) \<Longrightarrow> wf_json (JObj (filter P d))"
  by (auto simp: distinct_map_filter)

lemma merge_state_filter: "merge_state old new = filter (\<lambda>(k, v). v \<noteq> JNull) (merge_telemetry old new)"
  by (simp add: merge_state_def merge_telemetry_def)

lemma wf_merge:
  "wf_json (JObj old) \<Longrightarrow> wf_json (JObj new) \<Longrightarrow> wf_json (JObj (merge_state old new))"
  unfolding merge_state_filter by (intro wf_filter wf_merge_telemetry)

lemma clean_wf: "clean_dict d \<Longrightarrow> wf_json (JObj d)"
  by (auto simp: clean_dict_def)

lemma clean_merge:
  assumes "clean_dict old" "wf_json (JObj new)"
  shows "clean_dict (merge_state old new)"
  using wf_merge [OF clean_wf [OF assms(1)] assms(2)]
  by (auto simp: clean_dict_def merge_state_filter)

lemma clean_delta: "clean_dict d \<Longrightarrow> clean_dict (compute_delta d r)"
  by (auto simp: clean_dict_def compute_delta_def distinct_map_filter)

lemma clean_no_null: "clean_dict d \<Longrightarrow> map_of d k \<noteq> Some JNull"
  by (auto simp: clean_dict_def dest!: map_of_SomeD)

text \<open>Reporting the delta leaves no delta.\<close>

lemma merge_delta:
  assumes des: "clean_dict desired" and rep: "wf_json (JObj reported)"
  shows "compute_delta desired (merge_state reported (compute_delta desired reported)) = []"
  unfolding delta_Nil_iff
proof
  fix p assume p: "p \<in> set desired"
  obtain k v where kv: "p = (k, v)" by (cases p)
  have dd: "distinct (map fst desired)" and dr: "distinct (map fst reported)"
    using des rep by (auto simp: clean_dict_def)
  have v: "map_of desired k = Some v" "v \<noteq> JNull" "wf_json v"
    using p kv des dd by (auto simp: clean_dict_def)
  have dx: "distinct (map fst (compute_delta desired reported))"
    using clean_delta [OF des] by (simp add: clean_dict_def)
  have "py_eq (dget (merge_state reported (compute_delta desired reported)) k) v"
  proof (cases "py_eq (dget reported k) v")
    case True
    then have "map_of reported k \<noteq> Some JNull" using v by (auto simp: dget_def)
    then show ?thesis using True v
      by (auto simp: dget_def map_of_merge [OF dr dx] map_of_delta [OF dd] split: option.splits)
  next
    case False
    then show ?thesis using v
      by (simp add: dget_def [of "merge_state _ _"] map_of_merge [OF dr dx] map_of_delta [OF dd] py_eq_refl)
  qed
  then show "case p of (k, v) \<Rightarrow>
      py_eq (dget (merge_state reported (compute_delta desired reported)) k) v"
    using kv by simp
qed

subsection \<open>The invariant\<close>

text \<open>A row a handler may start from: the fresh one, or one that an update left.\<close>

definition shadow_pre :: "shadow \<Rightarrow> bool" where
  "shadow_pre s \<longleftrightarrow>
     clean_dict (dict_or_empty (sh_desired s)) \<and> wf_json (JObj (dict_or_empty (sh_reported s)))
   \<and> 1 \<le> sh_version s"

lemma shadow_ok_pre: "shadow_ok s \<Longrightarrow> shadow_pre s"
  by (simp add: shadow_ok_def shadow_pre_def)

lemma clean_Nil [simp]: "clean_dict []"
  by (simp add: clean_dict_def)

lemma dict_or_empty_simps [simp]: "dict_or_empty None = []" "dict_or_empty (Some d) = d"
  by (simp_all add: dict_or_empty_def)

lemma get_or_create_cases:
  obtains s where "get_or_create_shadow d st = (s, st)" "tbl_get sh_device_id d (shadows st) = Some s"
  | s where "get_or_create_shadow d st = (s, st\<lparr>shadows := shadows st @ [s]\<rparr>)"
      "tbl_get sh_device_id d (shadows st) = None" "s = (empty_response d)\<lparr>sh_version := 1\<rparr>"
  by (cases "tbl_get sh_device_id d (shadows st)")
    (auto simp: get_or_create_shadow_def tbl_add_def Let_def)

definition shadows_ok :: "device_state \<Rightarrow> bool" where
  "shadows_ok st \<longleftrightarrow> distinct (map sh_device_id (shadows st)) \<and> list_all shadow_ok (shadows st)"

text \<open>Writing back the row of a device that was read or created keeps the table.\<close>

lemma shadows_ok_put:
  assumes ok: "shadows_ok st"
    and gc: "get_or_create_shadow d st = (s, st1)"
    and s1: "sh_device_id s1 = d" "shadow_ok s1"
    and st': "shadows st' = tbl_put sh_device_id s1 (shadows st1)"
  shows "shadows_ok st' \<and> tbl_get sh_device_id d (shadows st') = Some s1"
proof (cases rule: get_or_create_cases [of d st])
  case (1 r)
  then have r: "s = r" "st1 = st" using gc by auto
  have "list_all shadow_ok (shadows st')"
    using ok s1 r st' set_tbl_put [of sh_device_id s1 "shadows st"]
    by (auto simp: shadows_ok_def list_all_iff)
  then show ?thesis
    using ok s1 r st' 1 by (auto simp: shadows_ok_def tbl_get_put dest: tbl_get_key)
next
  case (2 r)
  then have r: "s = r" "st1 = st\<lparr>shadows := shadows st @ [r]\<rparr>" using gc by auto
  have id: "sh_device_id r = d" using 2 by (simp add: empty_response_def)
  have fresh: "d \<notin> sh_device_id ` set (shadows st)" using 2 by (simp add: tbl_get_None)
  have "tbl_put sh_device_id s1 (shadows st @ [r]) = shadows st @ [s1]"
    using fresh s1 id by (simp add: tbl_put_append tbl_put_fresh) (simp add: tbl_put_def)
  then have rows: "shadows st' = shadows st @ [s1]" using st' r by simp
  show ?thesis
    using ok s1 rows fresh tbl_get_append_new [of sh_device_id s1 "shadows st"]
    by (auto simp: shadows_ok_def)
qed

lemma get_or_create_pre:
  assumes "shadows_ok st" "get_or_create_shadow d st = (s, st1)"
  shows "shadow_pre s \<and> sh_device_id s = d \<and> bus_connected st1 = bus_connected st
    \<and> bus_sends st1 = bus_sends st \<and> emitted st1 = emitted st"
proof (cases rule: get_or_create_cases [of d st])
  case (1 r)
  then show ?thesis using assms
    by (auto simp: shadows_ok_def list_all_iff dest: tbl_get_mem tbl_get_key intro: shadow_ok_pre)
next
  case (2 r)
  then show ?thesis using assms by (simp add: shadow_pre_def empty_response_def)
qed

text \<open>What an accepted update leaves: the row, its new delta, the published event.\<close>

lemma update_desired_row:
  assumes "shadows_ok st" "wf_json (JObj body)" "device_exists d st"
  shows "shadows_ok (snd (update_desired cfg env d body st))"
proof -
  obtain s st1 where gc: "get_or_create_shadow d st = (s, st1)" by (cases "get_or_create_shadow d st")
  have pre: "shadow_pre s" "sh_device_id s = d" using get_or_create_pre [OF assms(1) gc] by auto
  let ?m = "merge_state (dict_or_empty (sh_desired s)) body"
  let ?s = "s\<lparr>sh_desired := Some ?m, sh_delta := Some (compute_delta ?m (dict_or_empty (sh_reported s))),
    sh_version := sh_version s + 1, sh_desired_at := Some (dn_now env)\<rparr>"
  have "shadow_ok ?s"
    using pre(1) assms(2) by (simp add: shadow_ok_def shadow_pre_def clean_merge)
  from shadows_ok_put [OF assms(1) gc _ this, of "snd (update_desired cfg env d body st)"]
  show ?thesis using assms gc pre
    by (cases "compute_delta ?m (dict_or_empty (sh_reported s)) = []")
      (simp_all add: update_desired_def Let_def frame_simps)
qed

lemma update_reported_row:
  fixes cfg env
  assumes "shadows_ok st" "wf_json (JObj body)" "device_exists d st"
    and gc: "get_or_create_shadow d st = (s, st1)"
  defines "st' \<equiv> snd (update_reported cfg env d body st)"
  shows "shadows_ok st' \<and> (\<exists>s'. fst (update_reported cfg env d body st) = Inr s'
      \<and> tbl_get sh_device_id d (shadows st') = Some s'
      \<and> sh_version s' = sh_version s + 1
      \<and> sh_desired s' = sh_desired s
      \<and> sh_delta s' = Some (compute_delta (dict_or_empty (sh_desired s))
            (merge_state (dict_or_empty (sh_reported s)) body))
      \<and> (sh_delta s' = Some [] \<longrightarrow>
           emitted st' = emitted (event_bus_publish cfg env ''device.shadow.synced'' (synced_event s') st)))"
proof -
  have pre: "shadow_pre s" "sh_device_id s = d" "bus_connected st1 = bus_connected st"
    "bus_sends st1 = bus_sends st" "emitted st1 = emitted st"
    using get_or_create_pre [OF assms(1) gc] by auto
  let ?m = "merge_state (dict_or_empty (sh_reported s)) body"
  let ?s = "s\<lparr>sh_reported := Some ?m, sh_delta := Some (compute_delta (dict_or_empty (sh_desired s)) ?m),
    sh_version := sh_version s + 1, sh_reported_at := Some (dn_now env)\<rparr>"
  have "shadow_ok ?s"
    using pre(1) assms(2) wf_merge [of "dict_or_empty (sh_reported s)" body]
    by (simp add: shadow_ok_def shadow_pre_def)
  from shadows_ok_put [OF assms(1) gc _ this, of st']
  show ?thesis unfolding st'_def using assms(3) gc pre
    by (cases "compute_delta (dict_or_empty (sh_desired s)) ?m = []")
      (simp_all add: update_reported_def Let_def frame_simps emitted_event_bus)
qed

lemma heartbeat_row:
  assumes "shadows_ok st" "wf_json (JObj body)"
  shows "shadows_ok (update_shadow_reported cfg env d body st)"
proof -
  obtain s st1 where gc: "get_or_create_shadow d st = (s, st1)" by (cases "get_or_create_shadow d st")
  have pre: "shadow_pre s" "sh_device_id s = d" using get_or_create_pre [OF assms(1) gc] by auto
  let ?m = "merge_telemetry (dict_or_empty (sh_reported s)) body"
  let ?s = "s\<lparr>sh_reported := Some ?m, sh_delta := Some (compute_delta (dict_or_empty (sh_desired s)) ?m),
    sh_version := sh_version s + 1, sh_reported_at := Some (dn_now env)\<rparr>"
  have "shadow_ok ?s"
    using pre(1) assms(2) wf_merge_telemetry [of "dict_or_empty (sh_reported s)" body]
    by (simp add: shadow_ok_def shadow_pre_def)
  from shadows_ok_put [OF assms(1) gc _ this, of "update_shadow_reported cfg env d body st"]
  show ?thesis using gc pre
    by (cases "compute_delta (dict_or_empty (sh_desired s)) ?m = []")
      (simp_all add: update_shadow_reported_def Let_def frame_simps)
qed

lemma shadow_step_ok:
  assumes "shadow_step st st'" "shadows_ok st"
  shows "shadows_ok st'"
  using assms
proof (induction rule: shadow_step.induct)
  case (desired body st cfg env d)
  show ?case
  proof (cases "device_exists d st")
    case True
    then show ?thesis by (rule update_desired_row [OF desired.prems desired.hyps])
  next
    case False
    then show ?thesis using desired.prems by (simp add: update_desired_def)
  qed
next
  case (reported body st cfg env d)
  obtain s st1 where gc: "get_or_create_shadow d st = (s, st1)" by (cases "get_or_create_shadow d st")
  show ?case
  proof (cases "device_exists d st")
    case True
    then show ?thesis using update_reported_row [OF reported.prems reported.hyps True gc] by simp
  next
    case False
    then show ?thesis using reported.prems by (simp add: update_reported_def)
  qed
next
  case (heartbeat body st cfg env d)
  then show ?case by (simp only: heartbeat_row)
next
  case (delete st d)
  then show ?case
    by (auto simp: delete_shadow_def shadows_ok_def distinct_map_filter list_all_iff tbl_del_def)
qed

lemma shadow_reach_ok: "shadow_reach st \<Longrightarrow> shadows_ok st"
proof (induction rule: shadow_reach.induct)
  case (start st)
  then show ?case by (simp add: shadows_ok_def)
next
  case (step st st')
  then show ?case by (blast intro: shadow_step_ok)
qed

lemma shadow_reach_row:
  assumes "shadow_reach st" "tbl_get sh_device_id d (shadows st) = Some s"
  shows "shadow_ok s"
  using shadow_reach_ok [OF assms(1)] tbl_get_mem [OF assms(2)]
  by (auto simp: shadows_ok_def list_all_iff)

subsection \<open>Properties\<close>

text \<open>C13. Invariant of the shadows: in every state the endpoints and heartbeats reach from an empty
  table with well-formed JSON bodies a device has at most one shadow; a stored shadow has no null in
  its desired state, a version of at least 2, and its stored delta holds exactly the desired entries
  whose value differs from the reported one.\<close>

theorem shadow_invariant:
  assumes "shadow_reach st" "tbl_get sh_device_id d (shadows st) = Some s"
  shows "distinct (map sh_device_id (shadows st))
    \<and> map_of (dict_or_empty (sh_desired s)) k \<noteq> Some JNull
    \<and> 2 \<le> sh_version s
    \<and> (map_of (dict_or_empty (sh_delta s)) k = Some v \<longleftrightarrow>
         map_of (dict_or_empty (sh_desired s)) k = Some v
         \<and> \<not> py_eq (dget (dict_or_empty (sh_reported s)) k) v)"
proof -
  let ?des = "dict_or_empty (sh_desired s)" and ?rep = "dict_or_empty (sh_reported s)"
  have ok: "shadow_ok s" and all: "shadows_ok st"
    using shadow_reach_row [OF assms] shadow_reach_ok [OF assms(1)] by auto
  have clean: "clean_dict ?des" and delta: "sh_delta s = Some (compute_delta ?des ?rep)"
    and version: "2 \<le> sh_version s"
    using ok by (auto simp: shadow_ok_def)
  have "distinct (map fst ?des)" using clean by (simp add: clean_dict_def)
  from map_of_delta [OF this, of ?rep k]
  have "map_of (dict_or_empty (sh_delta s)) k = Some v \<longleftrightarrow>
      map_of ?des k = Some v \<and> \<not> py_eq (dget ?rep k) v"
    by (auto simp: delta split: option.splits if_splits)
  then show ?thesis
    using clean_no_null [OF clean] version all by (simp add: shadows_ok_def)
qed

text \<open>C14. Convergence: when a device with a stored shadow reports the delta the service computed
  for it, the update is accepted, the new delta is empty, the desired state is unchanged, the
  version grows by one, and the one event published is the synced event with that version.\<close>

theorem shadow_converges:
  assumes "shadow_reach st" "tbl_get sh_device_id d (shadows st) = Some s"
    "device_exists d st" "sh_delta s = Some delta"
  shows "\<exists>s'. fst (update_reported cfg env d delta st) = Inr s'
    \<and> tbl_get sh_device_id d (shadows (snd (update_reported cfg env d delta st))) = Some s'
    \<and> sh_delta s' = Some [] \<and> sh_desired s' = sh_desired s \<and> sh_version s' = sh_version s + 1
    \<and> emitted (snd (update_reported cfg env d delta st)) =
        emitted (event_bus_publish cfg env ''device.shadow.synced'' (synced_event s') st)"
proof -
  have ok: "shadow_ok s" by (rule shadow_reach_row [OF assms(1,2)])
  then have delta: "delta = compute_delta (dict_or_empty (sh_desired s)) (dict_or_empty (sh_reported s))"
    and clean: "clean_dict (dict_or_empty (sh_desired s))" "wf_json (JObj (dict_or_empty (sh_reported s)))"
    using assms(4) by (simp_all add: shadow_ok_def)
  have wf: "wf_json (JObj delta)" unfolding delta by (intro clean_wf clean_delta clean(1))
  have gc: "get_or_create_shadow d st = (s, st)" using assms(2) by (simp add: get_or_create_shadow_def)
  have none: "compute_delta (dict_or_empty (sh_desired s))
      (merge_state (dict_or_empty (sh_reported s)) delta) = []"
    using merge_delta [OF clean] delta by simp
  from update_reported_row [OF shadow_reach_ok [OF assms(1)] wf assms(3) gc, of cfg env] none
  show ?thesis by (elim conjE exE) (rule exI, auto)
qed

text \<open>A device that is asked for a new colour and a new rate, has the colour already, and reports
  the rate.\<close>

definition demo_device :: device where
  "demo_device = \<lparr>dv_id = ''d1'', dv_name = ''lamp'', dv_device_type = ''light'', dv_description = None,
     dv_owner_id = Some ''ann'', dv_tenant_id = Some ''t1'', dv_privacy_level = 0,
     dv_status = ''offline'', dv_last_seen = None, dv_capabilities = None,
     dv_connection_protocol = ''nexora-agent'', dv_protocol_meta = None, dv_meta = None,
     dv_tags = None, dv_created_at = 0, dv_updated_at = 0\<rparr>"

definition demo_shadow_start :: device_state where
  "demo_shadow_start = empty_device_state\<lparr>devices := [demo_device]\<rparr>"

definition demo_shadow_state :: device_state where
  "demo_shadow_state =
     snd (update_desired demo_device_settings (demo_device_env 2) ''d1''
       [(''colour'', JStr ''red''), (''rate'', JInt 5)]
       (snd (update_reported demo_device_settings (demo_device_env 1) ''d1''
         [(''colour'', JStr ''red''), (''rate'', JInt 1), (''fan'', JNull)] demo_shadow_start)))"

lemma demo_shadow_reach: "shadow_reach demo_shadow_state"
proof -
  have "shadow_reach demo_shadow_start"
    by (rule shadow_reach.start) (simp add: demo_shadow_start_def empty_device_state_def)
  then have "shadow_reach (snd (update_reported demo_device_settings (demo_device_env 1) ''d1''
      [(''colour'', JStr ''red''), (''rate'', JInt 1), (''fan'', JNull)] demo_shadow_start))"
    by (rule shadow_reach.step) (rule shadow_step.reported, simp)
  then show ?thesis unfolding demo_shadow_state_def
    by (rule shadow_reach.step) (rule shadow_step.desired, simp)
qed

definition demo_shadow :: shadow where
  "demo_shadow = \<lparr>sh_device_id = ''d1'', sh_desired = Some [(''colour'', JStr ''red''), (''rate'', JInt 5)],
     sh_reported = Some [(''colour'', JStr ''red''), (''rate'', JInt 1)],
     sh_delta = Some [(''rate'', JInt 5)], sh_version = 3, sh_desired_at = Some 2, sh_reported_at = Some 1\<rparr>"

lemma demo_shadow_row:
  "tbl_get sh_device_id ''d1'' (shadows demo_shadow_state) = Some demo_shadow"
  "device_exists ''d1'' demo_shadow_state"
  by code_simp+

theorem shadow_invariant_witness:
  "map_of (dict_or_empty (sh_delta demo_shadow)) ''rate'' = Some (JInt 5)"
  using shadow_invariant [OF demo_shadow_reach demo_shadow_row(1), of "''rate''" "JInt 5"]
  by (simp add: demo_shadow_def dict_or_empty_def dget_def)

theorem shadow_converges_witness:
  "\<exists>s'. fst (update_reported demo_device_settings (demo_device_env 4) ''d1'' [(''rate'', JInt 5)]
       demo_shadow_state) = Inr s'
    \<and> sh_delta s' = Some [] \<and> sh_version s' = 4"
proof -
  have "sh_delta demo_shadow = Some [(''rate'', JInt 5)]" by (simp add: demo_shadow_def)
  from shadow_converges [OF demo_shadow_reach demo_shadow_row this]
  show ?thesis by (auto simp: demo_shadow_def)
qed

end
