(* ===== verification/Devices.thy ===== *)
theory Devices
  imports Shadow "HOL-Library.Sublist"
begin

text \<open>
  Devices and agents (\<open>api/devices.py\<close> over \<open>services/device_service.py\<close>): the paged listing,
  CRUD with its ownership guard, registration with a bootstrap token, heartbeats (which merge
  telemetry into the shadow) and the runtime configuration. Metrics, traces and logs are left out;
  the rate limiter (slowapi) is not part of the model.
\<close>

subsection \<open>Bootstrap tokens\<close>

text \<open>\<open>_parse_bootstrap_tokens\<close>: entries with other than three parts or with a bad expiry are
  skipped; a later entry with the same id replaces an earlier one.\<close>

definition parse_token_entry :: "string \<Rightarrow> (string \<times> string \<times> int) option" where
  "parse_token_entry entry =
     (case split_on CHR '':'' (strip entry) of
        [tid, secret, e] \<Rightarrow> map_option (\<lambda>x. (tid, secret, x)) (str_to_int e)
      | _ \<Rightarrow> None)"

fun collect_tokens :: "string list \<Rightarrow> (string \<times> string \<times> int) list \<Rightarrow> (string \<times> string \<times> int) list" where
  "collect_tokens [] acc = acc"
| "collect_tokens (entry # rest) acc =
     (case parse_token_entry entry of
        None \<Rightarrow> collect_tokens rest acc
      | Some (tid, secret, e) \<Rightarrow> collect_tokens rest (AList.update tid (secret, e) acc))"

definition parse_bootstrap_tokens :: "string \<Rightarrow> (string \<times> string \<times> int) list" where
  "parse_bootstrap_tokens raw = collect_tokens (split_on CHR '','' raw) []"

definition revoked_token_ids :: "string \<Rightarrow> string list" where
  "revoked_token_ids raw = filter (\<lambda>t. t \<noteq> []) (map strip (split_on CHR '','' raw))"

text \<open>The clock counts microseconds; expiries are in seconds.\<close>

definition validate_bootstrap_token :: "device_settings \<Rightarrow> int \<Rightarrow> string \<Rightarrow> unit res" where
  "validate_bootstrap_token cfg t header_value =
     (case split_on CHR '':'' header_value of
        [token_id, secret] \<Rightarrow>
          if token_id \<in> set (revoked_token_ids (ds_revoked_token_ids cfg))
          then Inl (http 401 ''Bootstrap token has been revoked'')
          else (case map_of (parse_bootstrap_tokens (ds_agent_bootstrap_tokens cfg)) token_id of
            None \<Rightarrow> Inl (http 401 ''Unknown bootstrap token'')
          | Some (expected, expiry) \<Rightarrow>
              if secret \<noteq> expected then Inl (http 401 ''Invalid bootstrap token'')
              else if expiry * 1000000 < t then Inl (http 401 ''Bootstrap token has expired'')
              else Inr ())
      | _ \<Rightarrow> Inl (http 401 ''Invalid bootstrap token format''))"

subsection \<open>Reading\<close>

text \<open>\<open>_to_response\<close>: the row, with the default for an empty protocol.\<close>

definition to_response :: "device \<Rightarrow> device" where
  "to_response d = d\<lparr>dv_connection_protocol :=
     (if dv_connection_protocol d = [] then ''nexora-agent'' else dv_connection_protocol d)\<rparr>"

text \<open>A query parameter that is None or empty does not filter.\<close>

definition wanted :: "string option \<Rightarrow> string option \<Rightarrow> bool" where
  "wanted w v \<longleftrightarrow> (nonempty w \<longrightarrow> v = w)"

record device_query =
  q_page :: int
  q_page_size :: int
  q_status :: "string option"
  q_device_type :: "string option"
  q_tenant_id :: "string option"
  q_owner_id :: "string option"
  q_connection_protocol :: "string option"

definition device_matches :: "device_query \<Rightarrow> device \<Rightarrow> bool" where
  "device_matches q d \<longleftrightarrow>
     wanted (q_status q) (Some (dv_status d)) \<and> wanted (q_device_type q) (Some (dv_device_type d))
   \<and> wanted (q_tenant_id q) (dv_tenant_id d) \<and> wanted (q_owner_id q) (dv_owner_id d)
   \<and> wanted (q_connection_protocol q) (Some (dv_connection_protocol d))"

text \<open>Newest first; rows created at the same time stay in insertion order. A negative OFFSET or
  LIMIT is an error of the database.\<close>

record device_page =
  pg_items :: "device list"
  pg_total :: nat
  pg_page :: int
  pg_page_size :: int

definition service_list_devices :: "device_query \<Rightarrow> device_state \<Rightarrow> device_page res" where
  "service_list_devices q st =
     (let rows = filter (device_matches q) (devices st);
          offset = (q_page q - 1) * q_page_size q
      in if offset < 0 \<or> q_page_size q < 0 then Inl (PyExc ''ProgrammingError'')
         else Inr \<lparr>pg_items = map to_response (take (nat (q_page_size q)) (drop (nat offset)
                      (sort_key (\<lambda>d. - dv_created_at d) rows))),
                   pg_total = length rows, pg_page = q_page q, pg_page_size = q_page_size q\<rparr>)"

definition list_devices :: "device_user \<Rightarrow> device_query \<Rightarrow> device_state \<Rightarrow> device_page res" where
  "list_devices u q st =
     (if du_is_operator u then service_list_devices q st
      else if nonempty (q_tenant_id q) \<and> q_tenant_id q \<noteq> Some (tenant_id u)
      then Inl (http 403 ''tenant filter requires platform role'')
      else service_list_devices (q\<lparr>q_tenant_id := Some (tenant_id u)\<rparr>) st)"

definition get_device :: "device_user \<Rightarrow> string \<Rightarrow> device_state \<Rightarrow> device res" where
  "get_device u d st =
     (case find_device d st of None \<Rightarrow> Inl device_not_found | Some x \<Rightarrow> Inr (to_response x))"

subsection \<open>Creating, updating and deleting\<close>

record device_create =
  dp_name :: string
  dp_device_type :: string
  dp_description :: "string option"
  dp_metadata :: "dict option"
  dp_tags :: "string list option"
  dp_connection_protocol :: string

definition new_device :: "device_env \<Rightarrow> string \<Rightarrow> device_create \<Rightarrow> string option \<Rightarrow> string option \<Rightarrow> device" where
  "new_device env did p owner tenant =
     \<lparr>dv_id = did, dv_name = dp_name p, dv_device_type = dp_device_type p,
      dv_description = dp_description p, dv_owner_id = owner, dv_tenant_id = tenant,
      dv_privacy_level = 0, dv_status = ''offline'', dv_last_seen = None, dv_capabilities = None,
      dv_connection_protocol = dp_connection_protocol p, dv_protocol_meta = None,
      dv_meta = dp_metadata p, dv_tags = dp_tags p,
      dv_created_at = dn_now env, dv_updated_at = dn_now env\<rparr>"

definition fresh_id :: "device_env \<Rightarrow> device_state \<Rightarrow> string \<times> device_state" where
  "fresh_id env st = (dn_uuid4 env (dv_ids st), st\<lparr>dv_ids := Suc (dv_ids st)\<rparr>)"

text \<open>INSERT at commit; the primary key is unique.\<close>

definition insert_device :: "device \<Rightarrow> device_state \<Rightarrow> device_state res" where
  "insert_device d st =
     (if device_exists (dv_id d) st then Inl (PyExc ''IntegrityError'')
      else Inr (st\<lparr>devices := tbl_add d (devices st)\<rparr>))"

definition put_device :: "device \<Rightarrow> device_state \<Rightarrow> device_state" where
  "put_device d st = st\<lparr>devices := tbl_put dv_id d (devices st)\<rparr>"

definition create_device ::
  "device_settings \<Rightarrow> device_env \<Rightarrow> device_user \<Rightarrow> device_create \<Rightarrow> device_state \<Rightarrow>
     device res \<times> device_state" where
  "create_device cfg env u p st =
     (let (did, st1) = fresh_id env st;
          d = new_device env did p (Some (user_id u)) (Some (tenant_id u))
      in case insert_device d st1 of
           Inl err \<Rightarrow> (Inl err, st1)
         | Inr st2 \<Rightarrow>
             (Inr (to_response d), device_audit env ''device.created'' did (dv_tenant_id d) (device_actor u)
                (event_bus_publish cfg env ''device.created''
                   [(''device_id'', JStr did), (''name'', JStr (dv_name d)),
                    (''device_type'', JStr (dv_device_type d))] st2)))"

text \<open>A PATCH body: a field is absent, null or a value.\<close>

record device_update =
  up_name :: "string field"
  up_device_type :: "string field"
  up_description :: "string field"
  up_metadata :: "dict field"
  up_tags :: "string list field"
  up_connection_protocol :: "string field"
  up_protocol_meta :: "dict field"

definition apply_device_update :: "device_update \<Rightarrow> device \<Rightarrow> device res" where
  "apply_device_update p d =
     (if up_name p = Null \<or> up_device_type p = Null \<or> up_connection_protocol p = Null
      then Inl (PyExc ''IntegrityError'')
      else Inr (d\<lparr>dv_name := fset (up_name p) (dv_name d),
        dv_device_type := fset (up_device_type p) (dv_device_type d),
        dv_description := fget_or (up_description p) (dv_description d),
        dv_meta := fget_or (up_metadata p) (dv_meta d),
        dv_tags := fget_or (up_tags p) (dv_tags d),
        dv_connection_protocol := fset (up_connection_protocol p) (dv_connection_protocol d),
        dv_protocol_meta := fget_or (up_protocol_meta p) (dv_protocol_meta d)\<rparr>))"

text \<open>The \<open>changes\<close> of the event: the keys that were set, under the column's name \<open>meta\<close>, which
  moves to the end.\<close>

definition field_entry :: "string \<Rightarrow> ('a \<Rightarrow> json) \<Rightarrow> 'a field \<Rightarrow> dict" where
  "field_entry k f v = (case v of Absent \<Rightarrow> [] | Null \<Rightarrow> [(k, JNull)] | Val x \<Rightarrow> [(k, f x)])"

definition update_changes :: "device_update \<Rightarrow> dict" where
  "update_changes p =
     field_entry ''name'' JStr (up_name p) @ field_entry ''device_type'' JStr (up_device_type p)
   @ field_entry ''description'' JStr (up_description p)
   @ field_entry ''tags'' (\<lambda>ts. JArr (map JStr ts)) (up_tags p)
   @ field_entry ''connection_protocol'' JStr (up_connection_protocol p)
   @ field_entry ''protocol_meta'' JObj (up_protocol_meta p)
   @ field_entry ''meta'' JObj (up_metadata p)"

text \<open>An UPDATE is issued, and \<open>updated_at\<close> set, only when a column changes.\<close>

definition touched :: "int \<Rightarrow> device \<Rightarrow> device \<Rightarrow> device" where
  "touched t old new = (if new = old then old else new\<lparr>dv_updated_at := t\<rparr>)"

definition service_update_device ::
  "device_settings \<Rightarrow> device_env \<Rightarrow> string \<Rightarrow> device_update \<Rightarrow> device_state \<Rightarrow>
     device option res \<times> device_state" where
  "service_update_device cfg env did p st =
     (case find_device did st of
        None \<Rightarrow> (Inr None, st)
      | Some d \<Rightarrow>
          case apply_device_update p d of
            Inl err \<Rightarrow> (Inl err, st)
          | Inr d1 \<Rightarrow>
              let d2 = touched (dn_now env) d d1 in
              (Inr (Some d2), event_bus_publish cfg env ''device.updated''
                 [(''device_id'', JStr did), (''changes'', JObj (update_changes p))] (put_device d2 st)))"

text \<open>The guard of PATCH and DELETE: a device with another owner leads to \<open>current_user.has_role\<close>,
  an attribute \<open>CurrentUser\<close> does not have.\<close>

definition owner_guard :: "device_user \<Rightarrow> device \<Rightarrow> unit res" where
  "owner_guard u d =
     (if nonempty (dv_owner_id d) \<and> dv_owner_id d \<noteq> Some (user_id u)
      then Inl (PyExc ''AttributeError'') else Inr ())"

definition update_device ::
  "device_settings \<Rightarrow> device_env \<Rightarrow> device_user \<Rightarrow> string \<Rightarrow> device_update \<Rightarrow> device_state \<Rightarrow>
     device res \<times> device_state" where
  "update_device cfg env u did p st =
     (case find_device did st of
        None \<Rightarrow> (Inl device_not_found, st)
      | Some d \<Rightarrow>
          case owner_guard u d of
            Inl err \<Rightarrow> (Inl err, st)
          | Inr _ \<Rightarrow>
              case service_update_device cfg env did p st of
                (Inl err, st1) \<Rightarrow> (Inl err, st1)
              | (Inr None, st1) \<Rightarrow> (Inl device_not_found, st1)
              | (Inr (Some d1), st1) \<Rightarrow>
                  (Inr (to_response d1), device_audit env ''device.updated'' did (dv_tenant_id d1) (device_actor u) st1))"

definition service_delete_device ::
  "device_settings \<Rightarrow> device_env \<Rightarrow> string \<Rightarrow> device_state \<Rightarrow> bool \<times> device_state" where
  "service_delete_device cfg env did st =
     (case find_device did st of
        None \<Rightarrow> (False, st)
      | Some d \<Rightarrow> (True, event_bus_publish cfg env ''device.deleted'' [(''device_id'', JStr did)]
          (st\<lparr>devices := tbl_del dv_id did (devices st)\<rparr>)))"

definition delete_device ::
  "device_settings \<Rightarrow> device_env \<Rightarrow> device_user \<Rightarrow> string \<Rightarrow> device_state \<Rightarrow> unit res \<times> device_state" where
  "delete_device cfg env u did st =
     (case find_device did st of
        None \<Rightarrow> (Inl device_not_found, st)
      | Some d \<Rightarrow>
          case owner_guard u d of
            Inl err \<Rightarrow> (Inl err, st)
          | Inr _ \<Rightarrow>
              case service_delete_device cfg env did st of
                (False, st1) \<Rightarrow> (Inl device_not_found, st1)
              | (True, st1) \<Rightarrow>
                  (Inr (), device_audit env ''device.deleted'' did (dv_tenant_id d) (device_actor u) st1))"

subsection \<open>Agents\<close>

record agent_register =
  ag_device_id :: "string option"
  ag_name :: string
  ag_device_type :: string
  ag_metadata :: "dict option"
  ag_capabilities :: "dict option"
  ag_connection_protocol :: string
  ag_protocol_meta :: "dict option"
  ag_owner_id :: "string option"
  ag_tenant_id :: "string option"

record agent_status =
  st_device_id :: string
  st_status :: string
  st_last_seen :: "int option"

definition agent_status_of :: "device \<Rightarrow> agent_status" where
  "agent_status_of d = \<lparr>st_device_id = dv_id d, st_status = dv_status d, st_last_seen = dv_last_seen d\<rparr>"

text \<open>\<open>x if x is not None\<close>, and the capabilities as JSON text unless empty.\<close>

definition given :: "'a option \<Rightarrow> 'a option \<Rightarrow> 'a option" where
  "given new old = (case new of None \<Rightarrow> old | Some x \<Rightarrow> Some x)"

definition capabilities_json :: "dict option \<Rightarrow> dict option" where
  "capabilities_json c = (if c = Some [] then None else c)"

definition reregistered :: "device_env \<Rightarrow> agent_register \<Rightarrow> device \<Rightarrow> device" where
  "reregistered env p d =
     d\<lparr>dv_name := ag_name p, dv_device_type := ag_device_type p,
       dv_meta := given (ag_metadata p) (dv_meta d),
       dv_capabilities := (if ag_capabilities p = None then dv_capabilities d
                           else capabilities_json (ag_capabilities p)),
       dv_connection_protocol := (if ag_connection_protocol p = [] then dv_connection_protocol d
                                  else ag_connection_protocol p),
       dv_protocol_meta := given (ag_protocol_meta p) (dv_protocol_meta d),
       dv_status := ''online'', dv_last_seen := Some (dn_now env)\<rparr>"

definition registered :: "device_env \<Rightarrow> string \<Rightarrow> agent_register \<Rightarrow> device" where
  "registered env did p =
     \<lparr>dv_id = did, dv_name = ag_name p, dv_device_type = ag_device_type p, dv_description = None,
      dv_owner_id = ag_owner_id p, dv_tenant_id = ag_tenant_id p, dv_privacy_level = 0,
      dv_status = ''online'', dv_last_seen = Some (dn_now env),
      dv_capabilities = capabilities_json (ag_capabilities p),
      dv_connection_protocol = ag_connection_protocol p, dv_protocol_meta = ag_protocol_meta p,
      dv_meta = ag_metadata p, dv_tags = None, dv_created_at = dn_now env, dv_updated_at = dn_now env\<rparr>"

definition registered_event ::
  "device_settings \<Rightarrow> device_env \<Rightarrow> device \<Rightarrow> device_state \<Rightarrow> device_state" where
  "registered_event cfg env d st =
     event_bus_publish cfg env ''agent.registered''
       [(''device_id'', JStr (dv_id d)), (''name'', JStr (dv_name d))] st"

definition register_agent ::
  "device_settings \<Rightarrow> device_env \<Rightarrow> agent_register \<Rightarrow> device_state \<Rightarrow> agent_status res \<times> device_state" where
  "register_agent cfg env p st =
     (case (case ag_device_id p of None \<Rightarrow> None | Some did \<Rightarrow> find_device did st) of
        Some d \<Rightarrow>
          let d1 = touched (dn_now env) d (reregistered env p d)
          in (Inr (agent_status_of d1), registered_event cfg env d1 (put_device d1 st))
      | None \<Rightarrow>
          let (did, st1) = (case ag_device_id p of Some i \<Rightarrow> (i, st) | None \<Rightarrow> fresh_id env st);
              d1 = registered env did p
          in case insert_device d1 st1 of
               Inl err \<Rightarrow> (Inl err, st1)
             | Inr st2 \<Rightarrow> (Inr (agent_status_of d1), registered_event cfg env d1 st2))"

definition agent_register_endpoint ::
  "device_settings \<Rightarrow> device_env \<Rightarrow> string \<Rightarrow> string option \<Rightarrow> agent_register \<Rightarrow> device_state \<Rightarrow>
     agent_status res \<times> device_state" where
  "agent_register_endpoint cfg env x_bootstrap_token correlation_id p st =
     (case validate_bootstrap_token cfg (dn_now env) x_bootstrap_token of
        Inl err \<Rightarrow> (Inl err, st)
      | Inr _ \<Rightarrow>
          case register_agent cfg env p st of
            (Inl err, st1) \<Rightarrow> (Inl err, st1)
          | (Inr r, st1) \<Rightarrow>
              (Inr r, device_audit env ''agent.registered'' (st_device_id r) None
                 \<lparr>actor_user_id = Some ''agent-bootstrap'', actor_tenant_id = None,
                  actor_roles = [''agent''], actor_correlation_id = correlation_id\<rparr> st1))"

record agent_heartbeat =
  hb_status :: "string option"
  hb_telemetry :: "dict option"
  hb_capabilities :: "dict option"

definition heartbeat_device :: "device_env \<Rightarrow> agent_heartbeat \<Rightarrow> device \<Rightarrow> device" where
  "heartbeat_device env p d =
     touched (dn_now env) d (d\<lparr>dv_last_seen := Some (dn_now env),
       dv_status := sor (hb_status p) ''online'',
       dv_capabilities := given (hb_capabilities p) (dv_capabilities d)\<rparr>)"

definition heartbeat_agent ::
  "device_settings \<Rightarrow> device_env \<Rightarrow> string \<Rightarrow> agent_heartbeat \<Rightarrow> device_state \<Rightarrow>
     agent_status res \<times> device_state" where
  "heartbeat_agent cfg env did p st =
     (case find_device did st of
        None \<Rightarrow> (Inl device_not_found, st)
      | Some d \<Rightarrow>
          let d1 = heartbeat_device env p d;
              st1 = put_device d1 st
          in (Inr (agent_status_of d1),
              case hb_telemetry p of
                None \<Rightarrow> st1
              | Some t \<Rightarrow> if t = [] then st1 else update_shadow_reported cfg env did t st1))"

text \<open>
  \<open>set_device_runtime_config\<close> changes the dict of a JSON column in place. Whether the ORM sees such a
  change is the parameter \<open>tracks_in_place\<close>; SQLAlchemy documents that a plain JSON column does not.
  A column that was null or empty is assigned a new dict, which it does see.
\<close>

definition set_device_runtime_config ::
  "bool \<Rightarrow> device_env \<Rightarrow> string \<Rightarrow> dict \<Rightarrow> device_state \<Rightarrow> dict res \<times> device_state" where
  "set_device_runtime_config tracks_in_place env did payload st =
     (case find_device did st of
        None \<Rightarrow> (Inl device_not_found, st)
      | Some d \<Rightarrow>
          let old = (case dv_meta d of None \<Rightarrow> [] | Some m \<Rightarrow> m);
              d1 = (if tracks_in_place \<or> old = []
                    then touched (dn_now env) d (d\<lparr>dv_meta := Some (dset old ''runtime_config'' (JObj payload))\<rparr>)
                    else d)
          in (Inr [(''device_id'', JStr did), (''runtime_config'', JObj payload)], put_device d1 st))"

end
