(* ===== verification/DeviceProperties.thy ===== *)
theory DeviceProperties
  imports Devices ShadowProperties
begin

text \<open>
  The devices as a keyed store, paging, the ownership guard, and registration.
\<close>

interpretation device_rows: keyed_store "tbl_get dv_id" "tbl_put dv_id" tbl_add "tbl_del dv_id" dv_id
  by (rule keyed_table)

subsection \<open>Paging\<close>

definition page_items :: "device_page res \<Rightarrow> device list" where
  "page_items r = (case r of Inl err \<Rightarrow> [] | Inr pg \<Rightarrow> pg_items pg)"

lemma page_items_service:
  assumes "0 \<le> q_page_size q"
  shows "page_items (service_list_devices (q\<lparr>q_page := int k + 1\<rparr>) st) =
    map to_response (take (nat (q_page_size q)) (drop (k * nat (q_page_size q))
      (sort_key (\<lambda>d. - dv_created_at d) (filter (device_matches q) (devices st)))))"
proof -
  have "device_matches (q\<lparr>q_page := int k + 1\<rparr>) = device_matches q"
    by (rule ext) (simp add: device_matches_def)
  moreover have "\<not> int k * q_page_size q < 0" using assms by (simp add: not_less)
  ultimately show ?thesis using assms
    by (simp add: service_list_devices_def page_items_def Let_def nat_mult_distrib del: mult_less_0_iff)
qed

lemma pages_service:
  assumes "0 \<le> q_page_size q"
    "length (filter (device_matches q) (devices st)) \<le> n * nat (q_page_size q)"
  shows "concat (map (\<lambda>k. page_items (service_list_devices (q\<lparr>q_page := int k + 1\<rparr>) st)) [0..<n]) =
    map to_response (sort_key (\<lambda>d. - dv_created_at d) (filter (device_matches q) (devices st)))"
proof -
  let ?xs = "sort_key (\<lambda>d. - dv_created_at d) (filter (device_matches q) (devices st))"
  let ?s = "nat (q_page_size q)"
  have "concat (map (\<lambda>k. page_items (service_list_devices (q\<lparr>q_page := int k + 1\<rparr>) st)) [0..<n])
      = concat (map (map to_response) (map (\<lambda>k. take ?s (drop (k * ?s) ?xs)) [0..<n]))"
    by (simp add: page_items_service [OF assms(1)] comp_def)
  also have "\<dots> = map to_response (take (n * ?s) ?xs)"
    by (simp only: map_concat [symmetric] concat_pages)
  finally show ?thesis using assms(2) by simp
qed


subsection \<open>The ownership guard\<close>

text \<open>Updating and deleting: the two handlers change the devices only for their owner or when
  there is none; for anybody else, operators and platform administrators included, they end in an
  AttributeError and leave the state as it was.\<close>

theorem owner_only:
  assumes "find_device did st = Some d" "dv_owner_id d = Some owner" "owner \<noteq> []"
    "owner \<noteq> user_id u"
  shows "update_device cfg env u did p st = (Inl (PyExc ''AttributeError''), st)
    \<and> delete_device cfg env u did st = (Inl (PyExc ''AttributeError''), st)"
  using assms by (simp add: update_device_def delete_device_def owner_guard_def)

text \<open>The owner does get through.\<close>

lemma owner_deletes:
  assumes "find_device did st = Some d" "dv_owner_id d = Some (user_id u)"
  shows "fst (delete_device cfg env u did st) = Inr ()
    \<and> find_device did (snd (delete_device cfg env u did st)) = None"
  using assms
  by (simp add: delete_device_def owner_guard_def service_delete_device_def find_device_def
      tbl_get_del frame_simps)

subsection \<open>Registration\<close>

lemma find_put_device:
  "find_device k (put_device d st) =
     (if dv_id d = k then (case find_device k st of None \<Rightarrow> None | Some _ \<Rightarrow> Some d) else find_device k st)"
  by (simp add: find_device_def put_device_def tbl_get_put)

lemma find_device_frame [frame_simps]:
  "find_device k (event_bus_publish cfg env t x st) = find_device k st"
  "find_device k (device_audit env a d te w st) = find_device k st"
  "find_device k (registered_event cfg env x0 st) = find_device k st"
  by (simp_all add: find_device_def registered_event_def frame_simps)

lemma find_device_id: "find_device k st = Some d \<Longrightarrow> dv_id d = k"
  unfolding find_device_def by (rule tbl_get_key)

lemma touched_fields [simp]:
  "dv_id (touched t old new) = dv_id new"
  "dv_owner_id (touched t old new) = dv_owner_id new"
  "dv_tenant_id (touched t old new) = dv_tenant_id new"
  "dv_privacy_level (touched t old new) = dv_privacy_level new"
  "dv_status (touched t old new) = dv_status new"
  by (cases "new = old"; simp add: touched_def)+

lemma reregistered_fields [simp]:
  "dv_id (reregistered env p d) = dv_id d"
  "dv_owner_id (reregistered env p d) = dv_owner_id d"
  "dv_tenant_id (reregistered env p d) = dv_tenant_id d"
  "dv_privacy_level (reregistered env p d) = dv_privacy_level d"
  "dv_status (reregistered env p d) = ''online''"
  by (simp_all add: reregistered_def)

text \<open>What registering leaves in the table, for a device that is known and for a new one.\<close>

lemma reregister:
  assumes "ag_device_id p = Some did" "find_device did st = Some d"
  shows "\<exists>d'. find_device did (snd (register_agent cfg env p st)) = Some d'
    \<and> dv_owner_id d' = dv_owner_id d \<and> dv_tenant_id d' = dv_tenant_id d
    \<and> dv_privacy_level d' = dv_privacy_level d \<and> dv_status d' = ''online''
    \<and> (k \<noteq> did \<longrightarrow> find_device k (snd (register_agent cfg env p st)) = find_device k st)"
proof -
  let ?d = "touched (dn_now env) d (reregistered env p d)"
  have id: "dv_id d = did" by (rule find_device_id [OF assms(2)])
  have "snd (register_agent cfg env p st) = registered_event cfg env ?d (put_device ?d st)"
    using assms by (simp add: register_agent_def Let_def)
  then show ?thesis
    using assms(2) id by (simp add: frame_simps find_put_device)
qed

lemma find_insert_device:
  "insert_device d st = Inr st' \<Longrightarrow> find_device k st' = (if dv_id d = k then Some d else find_device k st)"
  by (auto simp: insert_device_def device_exists_def find_device_def tbl_get_add split: if_splits option.splits)

lemma validate_ok:
  assumes "validate_bootstrap_token cfg t tok = Inr x"
  shows "\<exists>tid secret expiry. tok = tid @ '':'' @ secret
    \<and> tid \<notin> set (revoked_token_ids (ds_revoked_token_ids cfg))
    \<and> map_of (parse_bootstrap_tokens (ds_agent_bootstrap_tokens cfg)) tid = Some (secret, expiry)
    \<and> t \<le> expiry * 1000000"
proof -
  obtain tid secret where split: "split_on CHR '':'' tok = [tid, secret]"
    using assms by (auto simp: validate_bootstrap_token_def split: list.splits)
  then have "tok = tid @ '':'' @ secret" using join_split_on [of "CHR '':''" tok] by simp
  moreover obtain expiry where "tid \<notin> set (revoked_token_ids (ds_revoked_token_ids cfg))"
    "map_of (parse_bootstrap_tokens (ds_agent_bootstrap_tokens cfg)) tid = Some (secret, expiry)"
    "t \<le> expiry * 1000000"
    using assms split by (auto simp: validate_bootstrap_token_def split: if_splits option.splits)
  ultimately show ?thesis by blast
qed

lemma register_agent_cases:
  assumes "register_agent cfg env p st = (Inr r, st')"
  obtains d where "ag_device_id p = Some (dv_id d)" "find_device (dv_id d) st = Some d"
      "r = agent_status_of (touched (dn_now env) d (reregistered env p d))"
      "st' = registered_event cfg env (touched (dn_now env) d (reregistered env p d))
        (put_device (touched (dn_now env) d (reregistered env p d)) st)"
  | did st1 st2 where "insert_device (registered env did p) st1 = Inr st2"
      "\<And>k. find_device k st1 = find_device k st"
      "r = agent_status_of (registered env did p)" "st' = registered_event cfg env (registered env did p) st2"
proof (cases "case ag_device_id p of None \<Rightarrow> None | Some did \<Rightarrow> find_device did st")
  case (Some d)
  then obtain did where did: "ag_device_id p = Some did" "find_device did st = Some d"
    by (cases "ag_device_id p") auto
  then have "dv_id d = did" by (simp add: find_device_id)
  then show ?thesis using that(1) [of d] did assms by (simp add: register_agent_def Let_def)
next
  case None
  obtain did st1 where id: "(case ag_device_id p of Some i \<Rightarrow> (i, st) | None \<Rightarrow> fresh_id env st) = (did, st1)"
    by (cases "case ag_device_id p of Some i \<Rightarrow> (i, st) | None \<Rightarrow> fresh_id env st") auto
  have same: "find_device k st1 = find_device k st" for k
    using id by (auto simp: fresh_id_def find_device_def split: option.splits)
  obtain st2 where "insert_device (registered env did p) st1 = Inr st2"
    using assms None id
    by (cases "insert_device (registered env did p) st1") (simp_all add: register_agent_def Let_def)
  then show ?thesis using that(2) [of did st1 st2] same assms None id
    by (simp add: register_agent_def Let_def)
qed

text \<open>C16. Registration: the endpoint succeeds only with a token that is configured, not revoked and
  not expired; a known device then is online with the owner, tenant and privacy level it had, a new
  one has the owner and tenant the request names; no other device changes.\<close>

theorem registration:
  assumes "agent_register_endpoint cfg env tok corr p st = (Inr r, st')"
  shows "(\<exists>tid secret expiry. tok = tid @ '':'' @ secret
        \<and> tid \<notin> set (revoked_token_ids (ds_revoked_token_ids cfg))
        \<and> map_of (parse_bootstrap_tokens (ds_agent_bootstrap_tokens cfg)) tid = Some (secret, expiry)
        \<and> dn_now env \<le> expiry * 1000000)
    \<and> (\<exists>d'. find_device (st_device_id r) st' = Some d' \<and> dv_status d' = ''online''
        \<and> (dv_owner_id d', dv_tenant_id d', dv_privacy_level d') =
            (case find_device (st_device_id r) st of
               Some d \<Rightarrow> (dv_owner_id d, dv_tenant_id d, dv_privacy_level d)
             | None \<Rightarrow> (ag_owner_id p, ag_tenant_id p, 0)))
    \<and> (k \<noteq> st_device_id r \<longrightarrow> find_device k st' = find_device k st)"
proof -
  obtain v where v: "validate_bootstrap_token cfg (dn_now env) tok = Inr v"
    using assms by (cases "validate_bootstrap_token cfg (dn_now env) tok")
      (simp_all add: agent_register_endpoint_def)
  obtain r0 st1 where reg: "register_agent cfg env p st = (r0, st1)" by (cases "register_agent cfg env p st")
  then have r0: "r0 = Inr r" and st': "\<And>j. find_device j st' = find_device j st1"
    using assms v by (auto simp: agent_register_endpoint_def frame_simps split: sum.splits)
  from reg r0 have "register_agent cfg env p st = (Inr r, st1)" by simp
  then show ?thesis
  proof (cases rule: register_agent_cases)
    case (1 d)
    then show ?thesis using validate_ok [OF v]
      by (simp add: st' frame_simps find_put_device agent_status_of_def)
  next
    case (2 did s1 s2)
    have "find_device did st = None"
      using 2 by (auto simp: insert_device_def device_exists_def registered_def split: if_splits)
    then show ?thesis using validate_ok [OF v] 2 find_insert_device [OF 2(1)]
      by (simp add: st' frame_simps agent_status_of_def) (simp add: registered_def)
  qed
qed

subsection \<open>The runtime configuration\<close>

text \<open>When the ORM does not track changes inside a JSON column, a device that has metadata keeps
  them as they were, while the answer repeats the new configuration.\<close>

lemma runtime_config_lost:
  assumes "find_device did st = Some d" "dv_meta d = Some m" "m \<noteq> []"
  shows "fst (set_device_runtime_config False env did payload st) =
      Inr [(''device_id'', JStr did), (''runtime_config'', JObj payload)]
    \<and> find_device k (snd (set_device_runtime_config False env did payload st)) = find_device k st"
  using assms find_device_id [OF assms(1)]
  by (auto simp: set_device_runtime_config_def find_put_device Let_def)

lemma runtime_config_first:
  assumes "find_device did st = Some d" "dv_meta d = None"
  shows "\<exists>d'. find_device did (snd (set_device_runtime_config tr env did payload st)) = Some d'
    \<and> dv_meta d' = Some [(''runtime_config'', JObj payload)]"
proof -
  have "d\<lparr>dv_meta := Some [(''runtime_config'', JObj payload)]\<rparr> \<noteq> d"
    using assms(2) by (cases d) simp
  then show ?thesis using assms find_device_id [OF assms(1)]
    by (simp add: set_device_runtime_config_def find_put_device Let_def touched_def dset_def)
qed

subsection \<open>Witnesses\<close>

definition demo_device_2 :: device where
  "demo_device_2 = demo_device\<lparr>dv_id := ''d2'', dv_tenant_id := Some ''t2'', dv_created_at := 5\<rparr>"

definition demo_device_3 :: device where
  "demo_device_3 = demo_device\<lparr>dv_id := ''d3'', dv_created_at := 9\<rparr>"

definition demo_devices :: device_state where
  "demo_devices = empty_device_state\<lparr>devices := [demo_device, demo_device_2, demo_device_3]\<rparr>"

definition demo_query :: device_query where
  "demo_query = \<lparr>q_page = 1, q_page_size = 1, q_status = None, q_device_type = None,
     q_tenant_id = None, q_owner_id = None, q_connection_protocol = None\<rparr>"

definition demo_member :: device_user where
  "demo_member = \<lparr>user_id = ''bob'', tenant_id = ''t1'', roles = [], du_is_operator = False\<rparr>"

definition demo_operator :: device_user where
  "demo_operator = \<lparr>user_id = ''eve'', tenant_id = ''ops'', roles = [''platform-admin''], du_is_operator = True\<rparr>"

lemmas demo_devices_eval = demo_devices_def demo_device_def demo_device_2_def demo_device_3_def
  demo_query_def demo_member_def demo_operator_def empty_device_state_def


theorem owner_only_witness:
  "update_device demo_device_settings (demo_device_env 7) demo_operator ''d1''
     \<lparr>up_name = Val ''x'', up_device_type = Absent, up_description = Absent, up_metadata = Absent,
      up_tags = Absent, up_connection_protocol = Absent, up_protocol_meta = Absent\<rparr> demo_devices
   = (Inl (PyExc ''AttributeError''), demo_devices)"
proof -
  have "find_device ''d1'' demo_devices = Some demo_device" "dv_owner_id demo_device = Some ''ann''"
    "''ann'' \<noteq> []" "''ann'' \<noteq> user_id demo_operator"
    by (simp_all add: demo_devices_eval find_device_def tbl_get_def)
  from owner_only [OF this] show ?thesis by simp
qed

definition demo_register :: agent_register where
  "demo_register = \<lparr>ag_device_id = Some ''d1'', ag_name = ''lamp'', ag_device_type = ''light'',
     ag_metadata = None, ag_capabilities = None, ag_connection_protocol = ''nexora-agent'',
     ag_protocol_meta = None, ag_owner_id = Some ''mallory'', ag_tenant_id = None\<rparr>"

theorem registration_witness:
  "\<exists>d'. find_device ''d1'' (snd (agent_register_endpoint demo_device_settings (demo_device_env 7)
       ''a:s'' None demo_register demo_devices)) = Some d' \<and> dv_owner_id d' = Some ''ann''"
proof -
  let ?r = "agent_register_endpoint demo_device_settings (demo_device_env 7) ''a:s'' None
    demo_register demo_devices"
  have st: "fst ?r = Inr \<lparr>st_device_id = ''d1'', st_status = ''online'', st_last_seen = Some 7\<rparr>"
    by code_simp
  have d: "find_device ''d1'' demo_devices = Some demo_device"
    by (simp add: demo_devices_eval find_device_def tbl_get_def)
  have "?r = (Inr \<lparr>st_device_id = ''d1'', st_status = ''online'', st_last_seen = Some 7\<rparr>, snd ?r)"
    by (rule prod_eqI) (simp_all add: st)
  from registration [OF this, of "''d1''"] show ?thesis by (auto simp: d demo_device_def)
qed

end
