(* ===== verification/Discovery.thy ===== *)
theory Discovery
  imports DeviceModel
begin

text \<open>
  Pairing (\<open>api/discovery.py\<close>): a device announces itself and polls with its device code; an
  authenticated owner claims or rejects the announcement. Claiming creates the device and the
  bootstrap token the next poll returns. The Matter commissioning endpoints of the same file forward
  to another service.
\<close>

record announce_request =
  an_hardware_id :: string
  an_device_type :: string
  an_firmware_version :: "string option"

record announce_response =
  ar_discovery_id :: string
  ar_device_code :: string
  ar_user_code :: string
  ar_verification_uri :: string
  ar_expires_in :: int
  ar_poll_interval :: int

text \<open>Earlier announcements of the same hardware expire.\<close>

definition expire_stale :: "string \<Rightarrow> discovery \<Rightarrow> discovery" where
  "expire_stale hw x =
     (if dc_hardware_id x = hw \<and> dc_status x = ''announced'' then x\<lparr>dc_status := ''expired''\<rparr> else x)"

definition new_discovery ::
  "device_settings \<Rightarrow> device_env \<Rightarrow> announce_request \<Rightarrow> nat \<Rightarrow> discovery" where
  "new_discovery cfg env body n =
     \<lparr>dc_id = dn_uuid4 env n, dc_hardware_id = an_hardware_id body,
      dc_device_type = an_device_type body, dc_firmware_version = an_firmware_version body,
      dc_device_code = dn_token_urlsafe env n, dc_user_code = dn_user_code env n,
      dc_status = ''announced'',
      dc_expires_at = dn_now env + ds_discovery_expiry_seconds cfg * 1000000,
      dc_claimed_by = None, dc_claimed_tenant = None, dc_claimed_at = None,
      dc_bootstrap_token_issued = None, dc_device_id = None, dc_created_at = dn_now env\<rparr>"

text \<open>INSERT at commit: the id, the device code and the user code are unique; on a clash the whole
  transaction, the expiries included, is undone.\<close>

definition discovery_clash :: "discovery \<Rightarrow> discovery \<Rightarrow> bool" where
  "discovery_clash x y \<longleftrightarrow> dc_id x = dc_id y \<or> dc_device_code x = dc_device_code y
     \<or> dc_user_code x = dc_user_code y"

definition announce ::
  "device_settings \<Rightarrow> device_env \<Rightarrow> announce_request \<Rightarrow> device_state \<Rightarrow>
     announce_response res \<times> device_state" where
  "announce cfg env body st =
     (let x = new_discovery cfg env body (dv_ids st);
          st1 = st\<lparr>dv_ids := Suc (dv_ids st)\<rparr>
      in if list_ex (discovery_clash x) (discoveries st)
         then (Inl (PyExc ''IntegrityError''), st1)
         else (Inr \<lparr>ar_discovery_id = dc_id x, ar_device_code = dc_device_code x,
                    ar_user_code = dc_user_code x, ar_verification_uri = ''/pair'',
                    ar_expires_in = ds_discovery_expiry_seconds cfg,
                    ar_poll_interval = ds_discovery_poll_interval_seconds cfg\<rparr>,
               st1\<lparr>discoveries :=
                 tbl_add x (map (expire_stale (an_hardware_id body)) (discoveries st))\<rparr>))"

record poll_response =
  po_status :: string
  po_bootstrap_token :: "string option"
  po_device_id :: "string option"

definition find_code :: "string \<Rightarrow> device_state \<Rightarrow> discovery option" where
  "find_code dcode st = tbl_get dc_device_code dcode (discoveries st)"

definition find_discovery :: "string \<Rightarrow> device_state \<Rightarrow> discovery option" where
  "find_discovery i st = tbl_get dc_id i (discoveries st)"

definition put_discovery :: "discovery \<Rightarrow> device_state \<Rightarrow> device_state" where
  "put_discovery x st = st\<lparr>discoveries := tbl_put dc_id x (discoveries st)\<rparr>"

definition poll :: "device_env \<Rightarrow> string \<Rightarrow> device_state \<Rightarrow> poll_response res \<times> device_state" where
  "poll env device_code st =
     (case find_code device_code st of
        None \<Rightarrow> (Inl (http 404 ''Unknown device_code''), st)
      | Some x \<Rightarrow>
          let expired = dc_status x = ''announced'' \<and> dc_expires_at x < dn_now env;
              x1 = (if expired then x\<lparr>dc_status := ''expired''\<rparr> else x);
              st1 = (if expired then put_discovery x1 st else st)
          in if dc_status x1 = ''approved''
             then (Inr \<lparr>po_status = ''approved'', po_bootstrap_token = dc_bootstrap_token_issued x1,
                        po_device_id = dc_device_id x1\<rparr>, st1)
             else (Inr \<lparr>po_status = dc_status x1, po_bootstrap_token = None, po_device_id = None\<rparr>, st1))"

record discovery_item =
  di_discovery_id :: string
  di_hardware_id :: string
  di_device_type :: string
  di_firmware_version :: "string option"
  di_user_code :: string
  di_announced_at :: int

definition to_item :: "discovery \<Rightarrow> discovery_item" where
  "to_item x = \<lparr>di_discovery_id = dc_id x, di_hardware_id = dc_hardware_id x,
     di_device_type = dc_device_type x, di_firmware_version = dc_firmware_version x,
     di_user_code = dc_user_code x, di_announced_at = dc_created_at x\<rparr>"

text \<open>The announced rows past their deadline are expired on the way.\<close>

definition expire_late :: "int \<Rightarrow> discovery \<Rightarrow> discovery" where
  "expire_late t x =
     (if dc_status x = ''announced'' \<and> dc_expires_at x < t then x\<lparr>dc_status := ''expired''\<rparr> else x)"

definition list_pending :: "device_env \<Rightarrow> device_user \<Rightarrow> device_state \<Rightarrow> discovery_item list \<times> device_state" where
  "list_pending env u st =
     (map to_item (filter (\<lambda>x. dc_status x = ''announced'' \<and> \<not> dc_expires_at x < dn_now env) (discoveries st)),
      st\<lparr>discoveries := map (expire_late (dn_now env)) (discoveries st)\<rparr>)"

record claim_request =
  cm_name :: string
  cm_description :: "string option"

definition paired_device :: "device_env \<Rightarrow> device_user \<Rightarrow> claim_request \<Rightarrow> string \<Rightarrow> discovery \<Rightarrow> device" where
  "paired_device env u body did x =
     \<lparr>dv_id = did, dv_name = cm_name body, dv_device_type = dc_device_type x,
      dv_description = cm_description body, dv_owner_id = Some (user_id u),
      dv_tenant_id = Some (tenant_id u), dv_privacy_level = 0, dv_status = ''offline'',
      dv_last_seen = None, dv_capabilities = None, dv_connection_protocol = ''nexora-agent'',
      dv_protocol_meta = None, dv_meta = None, dv_tags = None,
      dv_created_at = dn_now env, dv_updated_at = dn_now env\<rparr>"

definition claimed :: "device_env \<Rightarrow> device_user \<Rightarrow> string \<Rightarrow> string \<Rightarrow> discovery \<Rightarrow> discovery" where
  "claimed env u token did x =
     x\<lparr>dc_status := ''approved'', dc_claimed_by := Some (user_id u),
       dc_claimed_tenant := Some (tenant_id u), dc_claimed_at := Some (dn_now env),
       dc_bootstrap_token_issued := Some token, dc_device_id := Some did\<rparr>"

definition paired_event :: "device_env \<Rightarrow> device_user \<Rightarrow> string \<Rightarrow> string \<Rightarrow> discovery \<Rightarrow> ownership_event" where
  "paired_event env u eid did x =
     \<lparr>oe_id = eid, oe_device_id = did, oe_actor_id = user_id u, oe_action = ''paired'',
      oe_details = [(''hardware_id'', JStr (dc_hardware_id x)), (''discovery_id'', JStr (dc_id x)),
        (''tenant_id'', JStr (tenant_id u))], oe_created_at = dn_now env\<rparr>"

definition cannot :: "string \<Rightarrow> string \<Rightarrow> error" where
  "cannot status verb = Http 409 [JStr ''Discovery is '', JStr status, JStr '', cannot '', JStr verb]"

text \<open>The draws: the token's id and secret are number n, the ids of the device and of the event are
  n + 1 and n + 2. A clash of ids undoes the transaction.\<close>

definition claim ::
  "device_env \<Rightarrow> device_user \<Rightarrow> string \<Rightarrow> claim_request \<Rightarrow> device_state \<Rightarrow>
     (string \<times> string) res \<times> device_state" where
  "claim env u discovery_id body st =
     (case find_discovery discovery_id st of
        None \<Rightarrow> (Inl (http 404 ''Discovery not found''), st)
      | Some x \<Rightarrow>
          if dc_status x \<noteq> ''announced'' \<or> dc_expires_at x < dn_now env
          then (Inl (cannot (dc_status x) ''claim''), st)
          else
          let n = dv_ids st;
              token = ''pair-'' @ dn_token_hex env n @ '':'' @ dn_token_urlsafe env n;
              did = dn_uuid4 env (n + 1);
              eid = dn_uuid4 env (n + 2);
              st1 = st\<lparr>dv_ids := n + 3\<rparr>
          in if device_exists did st \<or> tbl_get oe_id eid (ownership_events st) \<noteq> None
             then (Inl (PyExc ''IntegrityError''), st1)
             else (Inr (did, cm_name body),
                   (put_discovery (claimed env u token did x) st1)
                     \<lparr>devices := tbl_add (paired_device env u body did x) (devices st),
                      ownership_events := ownership_events st @ [paired_event env u eid did x]\<rparr>))"

definition reject :: "device_user \<Rightarrow> string \<Rightarrow> device_state \<Rightarrow> unit res \<times> device_state" where
  "reject u discovery_id st =
     (case find_discovery discovery_id st of
        None \<Rightarrow> (Inl (http 404 ''Discovery not found''), st)
      | Some x \<Rightarrow>
          if dc_status x \<noteq> ''announced'' then (Inl (cannot (dc_status x) ''reject''), st)
          else (Inr (), put_discovery (x\<lparr>dc_status := ''rejected''\<rparr>) st))"

subsection \<open>The machine\<close>

inductive pairing_step :: "device_state \<Rightarrow> device_state \<Rightarrow> bool" where
  announced: "pairing_step st (snd (announce cfg env body st))"
| polled: "pairing_step st (snd (poll env dcode st))"
| listed: "pairing_step st (snd (list_pending env u st))"
| claimed: "pairing_step st (snd (claim env u i body st))"
| rejected: "pairing_step st (snd (reject u i st))"

inductive pairing_reach :: "device_state \<Rightarrow> bool" where
  start: "discoveries st = [] \<Longrightarrow> pairing_reach st"
| step: "pairing_reach st \<Longrightarrow> pairing_step st st' \<Longrightarrow> pairing_reach st'"

end
