(* ===== verification/DiscoveryProperties.thy ===== *)
theory DiscoveryProperties
  imports Discovery DeviceProperties
begin

text \<open>
  What pairing promises, as a specification on phases, and that the endpoints implement it; the
  invariant that ties approved announcements to devices and their owners.
\<close>

interpretation discovery_rows: keyed_store "tbl_get dc_id" "tbl_put dc_id" tbl_add "tbl_del dc_id" dc_id
  by (rule keyed_table)

subsection \<open>Specification\<close>

datatype phase = Announced | Approved "string option" "string option" | Rejected | Expired

type_synonym pairings = "string \<Rightarrow> (string \<times> phase) option"

text \<open>A new announcement replaces the open ones of its hardware; only an open one is approved,
  rejected or expires.\<close>

definition close_open :: "string \<Rightarrow> pairings \<Rightarrow> pairings" where
  "close_open hw s = (\<lambda>i. case s i of
     Some (h, Announced) \<Rightarrow> Some (h, if h = hw then Expired else Announced) | v \<Rightarrow> v)"

inductive pairing_spec :: "pairings \<Rightarrow> pairings \<Rightarrow> bool" where
  new: "s i = None \<Longrightarrow> pairing_spec s ((close_open hw s)(i \<mapsto> (hw, Announced)))"
| approve: "s i = Some (hw, Announced) \<Longrightarrow> pairing_spec s (s(i \<mapsto> (hw, Approved d u)))"
| reject: "s i = Some (hw, Announced) \<Longrightarrow> pairing_spec s (s(i \<mapsto> (hw, Rejected)))"
| expire: "(\<And>i. s' i = s i \<or> (\<exists>hw. s i = Some (hw, Announced) \<and> s' i = Some (hw, Expired)))
    \<Longrightarrow> pairing_spec s s'"

definition phase_of :: "discovery \<Rightarrow> phase" where
  "phase_of x = (if dc_status x = ''announced'' then Announced
     else if dc_status x = ''approved'' then Approved (dc_device_id x) (dc_claimed_by x)
     else if dc_status x = ''rejected'' then Rejected else Expired)"

definition view :: "discovery \<Rightarrow> string \<times> phase" where
  "view x = (dc_hardware_id x, phase_of x)"

definition pair_abs :: "device_state \<Rightarrow> pairings" where
  "pair_abs st = (\<lambda>i. map_option view (find_discovery i st))"

lemma pairing_stutter: "pairing_spec s s"
  by (rule pairing_spec.expire) simp

lemma announced_phase: "phase_of x = Announced \<longleftrightarrow> dc_status x = ''announced''"
  by (simp add: phase_of_def)

lemma find_put_discovery:
  assumes "find_discovery (dc_id x) st \<noteq> None"
  shows "find_discovery i (put_discovery x st) = (if i = dc_id x then Some x else find_discovery i st)"
  using assms by (auto simp: find_discovery_def put_discovery_def tbl_get_put split: option.splits)

lemma find_discovery_id: "find_discovery i st = Some x \<Longrightarrow> dc_id x = i"
  unfolding find_discovery_def by (rule tbl_get_key)

lemma abs_put:
  assumes "find_discovery (dc_id x) st \<noteq> None"
  shows "pair_abs (put_discovery x st) = (pair_abs st)(dc_id x \<mapsto> view x)"
  by (rule ext) (simp add: pair_abs_def find_put_discovery [OF assms])

lemma pair_abs_cong: "discoveries st = discoveries st' \<Longrightarrow> pair_abs st = pair_abs st'"
  by (simp add: pair_abs_def find_discovery_def)

lemma announce_refines: "pairing_spec (pair_abs st) (pair_abs (snd (announce cfg env body st)))"
proof (cases "list_ex (discovery_clash (new_discovery cfg env body (dv_ids st))) (discoveries st)")
  case True
  have "pair_abs (st\<lparr>dv_ids := Suc (dv_ids st)\<rparr>) = pair_abs st" by (rule pair_abs_cong) simp
  then show ?thesis using True by (simp add: announce_def Let_def pairing_stutter)
next
  case False
  let ?x = "new_discovery cfg env body (dv_ids st)" and ?hw = "an_hardware_id body"
  let ?st = "snd (announce cfg env body st)"
  have rows: "discoveries ?st = tbl_add ?x (map (expire_stale ?hw) (discoveries st))"
    using False by (simp add: announce_def Let_def)
  have "dc_id ?x \<notin> dc_id ` set (discoveries st)"
    using False by (auto simp: list_ex_iff discovery_clash_def)
  then have none: "find_discovery (dc_id ?x) st = None" by (simp add: find_discovery_def tbl_get_None)
  have key: "dc_id (expire_stale ?hw x) = dc_id x" for x by (simp add: expire_stale_def)
  have "pair_abs ?st i = ((close_open ?hw (pair_abs st))(dc_id ?x \<mapsto> (?hw, Announced))) i" for i
  proof (cases "find_discovery i st")
    case None
    then show ?thesis
      by (auto simp: pair_abs_def find_discovery_def rows tbl_get_add tbl_get_map key close_open_def
          view_def new_discovery_def phase_of_def)
  next
    case (Some x)
    then have "i \<noteq> dc_id ?x" using none by auto
    then show ?thesis using Some
      by (simp add: pair_abs_def find_discovery_def rows tbl_get_add tbl_get_map key close_open_def
          view_def expire_stale_def phase_of_def)
  qed
  then have "pair_abs ?st = (close_open ?hw (pair_abs st))(dc_id ?x \<mapsto> (?hw, Announced))" by (rule ext)
  moreover have "pair_abs st (dc_id ?x) = None" using none by (simp add: pair_abs_def)
  ultimately show ?thesis using pairing_spec.new [of "pair_abs st" "dc_id ?x" ?hw] by simp
qed

lemma late_refines:
  "pairing_spec (pair_abs st) (pair_abs (st\<lparr>discoveries := map (expire_late t) (discoveries st)\<rparr>))"
proof (rule pairing_spec.expire)
  fix i
  have key: "dc_id (expire_late t x) = dc_id x" for x by (simp add: expire_late_def)
  show "pair_abs (st\<lparr>discoveries := map (expire_late t) (discoveries st)\<rparr>) i = pair_abs st i \<or>
    (\<exists>hw. pair_abs st i = Some (hw, Announced) \<and>
      pair_abs (st\<lparr>discoveries := map (expire_late t) (discoveries st)\<rparr>) i = Some (hw, Expired))"
    by (cases "find_discovery i st")
      (auto simp: pair_abs_def find_discovery_def tbl_get_map key view_def expire_late_def phase_of_def)
qed

lemma poll_refines:
  assumes "distinct (map dc_id (discoveries st))"
  shows "pairing_spec (pair_abs st) (pair_abs (snd (poll env dcode st)))"
proof (cases "find_code dcode st")
  case None
  then show ?thesis by (simp add: poll_def pairing_stutter)
next
  case (Some x)
  then have "x \<in> set (discoveries st)" by (auto simp: find_code_def dest: tbl_get_mem)
  then have x: "find_discovery (dc_id x) st = Some x"
    using assms by (simp add: find_discovery_def tbl_get_distinct)
  let ?x = "x\<lparr>dc_status := ''expired''\<rparr>"
  show ?thesis
  proof (cases "dc_status x = ''announced'' \<and> dc_expires_at x < dn_now env")
    case True
    then have st: "snd (poll env dcode st) = put_discovery ?x st"
      using Some by (simp add: poll_def Let_def)
    have "pair_abs st (dc_id x) = Some (dc_hardware_id x, Announced)"
      using True x by (simp add: pair_abs_def view_def phase_of_def)
    moreover have "pair_abs (put_discovery ?x st) = (pair_abs st)(dc_id x \<mapsto> (dc_hardware_id x, Expired))"
      using abs_put [of ?x st] x by (simp add: view_def phase_of_def)
    ultimately show ?thesis unfolding st by (auto intro!: pairing_spec.expire)
  next
    case False
    then have "snd (poll env dcode st) = st" using Some by (auto simp: poll_def Let_def)
    then show ?thesis by (simp add: pairing_stutter)
  qed
qed

lemma claim_cases:
  obtains "discoveries (snd (claim env u i body st)) = discoveries st"
      "devices (snd (claim env u i body st)) = devices st"
  | x token did where "find_discovery i st = Some x" "dc_status x = ''announced''"
      "\<not> device_exists did st"
      "discoveries (snd (claim env u i body st)) =
         tbl_put dc_id (claimed env u token did x) (discoveries st)"
      "devices (snd (claim env u i body st)) = tbl_add (paired_device env u body did x) (devices st)"
proof (cases "find_discovery i st")
  case None
  then show ?thesis using that(1) by (simp add: claim_def)
next
  case (Some x)
  let ?n = "dv_ids st"
  show ?thesis
  proof (cases "(dc_status x \<noteq> ''announced'' \<or> dc_expires_at x < dn_now env)
      \<or> device_exists (dn_uuid4 env (?n + 1)) st
      \<or> tbl_get oe_id (dn_uuid4 env (?n + 2)) (ownership_events st) \<noteq> None")
    case True
    then show ?thesis using that(1) Some by (auto simp: claim_def Let_def)
  next
    case False
    then show ?thesis
      using that(2) [of x "dn_uuid4 env (?n + 1)"
          "''pair-'' @ dn_token_hex env ?n @ '':'' @ dn_token_urlsafe env ?n"] Some
      by (simp add: claim_def Let_def put_discovery_def)
  qed
qed

lemma claim_refines: "pairing_spec (pair_abs st) (pair_abs (snd (claim env u i body st)))"
proof (cases rule: claim_cases [of env u i body st])
  case 1
  then show ?thesis using pair_abs_cong [of "snd (claim env u i body st)" st] pairing_stutter by metis
next
  case (2 x token did)
  let ?x = "claimed env u token did x"
  have x: "find_discovery (dc_id ?x) st = Some x" "dc_id x = i"
    using 2(1) find_discovery_id by (auto simp: claimed_def)
  have "pair_abs (snd (claim env u i body st)) = pair_abs (put_discovery ?x st)"
    by (rule pair_abs_cong) (simp add: 2 put_discovery_def)
  also have "\<dots> = (pair_abs st)(i \<mapsto> (dc_hardware_id x, Approved (Some did) (Some (user_id u))))"
    using abs_put [of ?x st] x by (simp add: claimed_def view_def phase_of_def)
  finally show ?thesis
    using 2 by (simp add: pairing_spec.approve pair_abs_def view_def phase_of_def)
qed

lemma reject_refines: "pairing_spec (pair_abs st) (pair_abs (snd (reject u i st)))"
proof (cases "\<exists>x. find_discovery i st = Some x \<and> dc_status x = ''announced''")
  case True
  then obtain x where x: "find_discovery i st = Some x" "dc_status x = ''announced''" by blast
  let ?x = "x\<lparr>dc_status := ''rejected''\<rparr>"
  have id: "dc_id x = i" by (rule find_discovery_id [OF x(1)])
  have "pair_abs (put_discovery ?x st) = (pair_abs st)(i \<mapsto> (dc_hardware_id x, Rejected))"
    using abs_put [of ?x st] x id by (simp add: view_def phase_of_def)
  then show ?thesis
    using x by (simp add: reject_def pairing_spec.reject pair_abs_def view_def phase_of_def)
next
  case False
  then have "snd (reject u i st) = st" by (auto simp: reject_def split: option.splits)
  then show ?thesis by (simp add: pairing_stutter)
qed

subsection \<open>Invariants\<close>

text \<open>On the specification: at most one open announcement per hardware.\<close>

definition one_open :: "pairings \<Rightarrow> bool" where
  "one_open s \<longleftrightarrow> (\<forall>i j hw. s i = Some (hw, Announced) \<and> s j = Some (hw, Announced) \<longrightarrow> i = j)"

lemma spec_one_open: "pairing_spec s s' \<Longrightarrow> one_open s \<Longrightarrow> one_open s'"
proof (induction rule: pairing_spec.induct)
  case (new s i hw)
  have "close_open hw s j = Some (h, Announced) \<Longrightarrow> s j = Some (h, Announced) \<and> h \<noteq> hw" for j h
    by (auto simp: close_open_def split: option.splits prod.splits phase.splits if_splits)
  then show ?case using new.prems unfolding one_open_def by (metis fun_upd_apply option.inject prod.inject)
next
  case (approve s i hw d u)
  then show ?case by (auto simp: one_open_def)
next
  case (reject s i hw)
  then show ?case by (auto simp: one_open_def)
next
  case (expire s' s)
  have "s' j = Some (h, Announced) \<Longrightarrow> s j = Some (h, Announced)" for j h
    using expire.hyps [of j] by auto
  then show ?case using expire.prems unfolding one_open_def by blast
qed

text \<open>On the rows: ids are unique, and an approved row names a device of its claimer, its own.\<close>

definition approved_ok :: "device_state \<Rightarrow> discovery \<Rightarrow> bool" where
  "approved_ok st x \<longleftrightarrow> (\<exists>did d. dc_device_id x = Some did \<and> find_device did st = Some d
     \<and> dc_claimed_by x \<noteq> None \<and> dv_owner_id d = dc_claimed_by x \<and> dv_tenant_id d = dc_claimed_tenant x)"

definition is_approved :: "device_state \<Rightarrow> string \<Rightarrow> discovery \<Rightarrow> bool" where
  "is_approved st i x \<longleftrightarrow> find_discovery i st = Some x \<and> dc_status x = ''approved''"

definition pairing_ok :: "device_state \<Rightarrow> bool" where
  "pairing_ok st \<longleftrightarrow> distinct (map dc_id (discoveries st))
     \<and> (\<forall>i x. is_approved st i x \<longrightarrow> approved_ok st x)
     \<and> (\<forall>i j x y. is_approved st i x \<and> is_approved st j y \<and> dc_device_id x = dc_device_id y \<longrightarrow> i = j)"

text \<open>A step that approves nothing.\<close>

lemma quiet_ok:
  assumes "pairing_ok st" "distinct (map dc_id (discoveries st'))" "devices st' = devices st"
    "\<And>i x. is_approved st' i x \<Longrightarrow> is_approved st i x"
  shows "pairing_ok st'"
  using assms unfolding pairing_ok_def approved_ok_def find_device_def by metis

lemma approved_map:
  assumes "\<And>x. dc_id (f x) = dc_id x" "\<And>x. dc_status (f x) = ''approved'' \<Longrightarrow> f x = x"
    "discoveries st' = map f (discoveries st)" "is_approved st' i x"
  shows "is_approved st i x"
proof -
  obtain z where z: "find_discovery i st = Some z" "x = f z" "dc_status (f z) = ''approved''"
    using assms(3,4) by (auto simp: is_approved_def find_discovery_def tbl_get_map [of dc_id f, OF assms(1)])
  then show ?thesis using assms(2) [of z] by (simp add: is_approved_def)
qed

lemma ok_distinct: "pairing_ok st \<Longrightarrow> distinct (map dc_id (discoveries st))"
  by (simp add: pairing_ok_def)

lemma same_ok:
  assumes "pairing_ok st" "discoveries st' = discoveries st" "devices st' = devices st"
  shows "pairing_ok st'"
  by (rule quiet_ok [OF assms(1)])
    (use assms ok_distinct in \<open>simp_all add: is_approved_def find_discovery_def\<close>)

lemma announce_ok:
  assumes "pairing_ok st" shows "pairing_ok (snd (announce cfg env body st))"
proof (cases "list_ex (discovery_clash (new_discovery cfg env body (dv_ids st))) (discoveries st)")
  case True
  then show ?thesis by (intro same_ok [OF assms]) (simp_all add: announce_def Let_def)
next
  case False
  let ?x = "new_discovery cfg env body (dv_ids st)" and ?f = "expire_stale (an_hardware_id body)"
  have key: "dc_id (?f x) = dc_id x" for x by (simp add: expire_stale_def)
  have new: "dc_id ?x \<notin> dc_id ` set (discoveries st)"
    using False by (auto simp: list_ex_iff discovery_clash_def)
  have keys: "map dc_id (map ?f (discoveries st)) = map dc_id (discoveries st)" by (simp add: key comp_def)
  show ?thesis
  proof (rule quiet_ok [OF assms])
    show "distinct (map dc_id (discoveries (snd (announce cfg env body st))))"
      using assms new False keys by (simp add: announce_def Let_def pairing_ok_def del: map_map)
    show "devices (snd (announce cfg env body st)) = devices st"
      using False by (simp add: announce_def Let_def)
    fix i x assume a: "is_approved (snd (announce cfg env body st)) i x"
    then have "is_approved (st\<lparr>discoveries := map ?f (discoveries st)\<rparr>) i x"
      using False by (auto simp: is_approved_def find_discovery_def announce_def Let_def tbl_get_add
          new_discovery_def split: option.splits if_splits)
    then show "is_approved st i x"
      by (rule approved_map [where f = ?f, rotated 3]) (auto simp: expire_stale_def split: if_splits)
  qed
qed

lemma put_ok:
  assumes "pairing_ok st" "find_discovery (dc_id x) st \<noteq> None" "dc_status x \<noteq> ''approved''"
  shows "pairing_ok (put_discovery x st)"
proof (rule quiet_ok [OF assms(1)])
  show "distinct (map dc_id (discoveries (put_discovery x st)))" "devices (put_discovery x st) = devices st"
    using ok_distinct [OF assms(1)] by (simp_all add: put_discovery_def)
  fix i y assume "is_approved (put_discovery x st) i y"
  then show "is_approved st i y" using assms(3)
    by (simp add: is_approved_def find_put_discovery [OF assms(2)] split: if_splits)
qed

lemma poll_ok:
  assumes "pairing_ok st" shows "pairing_ok (snd (poll env dcode st))"
proof (cases "find_code dcode st")
  case None
  then show ?thesis using assms by (simp add: poll_def)
next
  case (Some x)
  then have "x \<in> set (discoveries st)" by (auto simp: find_code_def dest: tbl_get_mem)
  then have "find_discovery (dc_id x) st = Some x"
    using assms by (simp add: pairing_ok_def find_discovery_def tbl_get_distinct)
  then have "pairing_ok (put_discovery (x\<lparr>dc_status := ''expired''\<rparr>) st)"
    by (intro put_ok [OF assms]) simp_all
  then show ?thesis using Some assms by (auto simp: poll_def Let_def)
qed

lemma listed_ok:
  assumes "pairing_ok st" shows "pairing_ok (snd (list_pending env u st))"
proof (rule quiet_ok [OF assms])
  let ?f = "expire_late (dn_now env)"
  have key: "dc_id (?f x) = dc_id x" for x by (simp add: expire_late_def)
  show "distinct (map dc_id (discoveries (snd (list_pending env u st))))"
    using assms by (simp add: list_pending_def pairing_ok_def key comp_def)
  show "devices (snd (list_pending env u st)) = devices st" by (simp add: list_pending_def)
  fix i x assume "is_approved (snd (list_pending env u st)) i x"
  then show "is_approved st i x"
    by (rule approved_map [where f = ?f, rotated 3]) (auto simp: expire_late_def list_pending_def split: if_splits)
qed

lemma reject_ok:
  assumes "pairing_ok st" shows "pairing_ok (snd (reject u i st))"
proof (cases "find_discovery i st")
  case None
  then show ?thesis using assms by (simp add: reject_def)
next
  case (Some x)
  then have "find_discovery (dc_id x) st = Some x" using find_discovery_id by force
  then have "pairing_ok (put_discovery (x\<lparr>dc_status := ''rejected''\<rparr>) st)"
    by (intro put_ok [OF assms]) simp_all
  then show ?thesis using Some assms by (simp add: reject_def)
qed

lemma claim_ok:
  assumes "pairing_ok st" shows "pairing_ok (snd (claim env u i body st))"
proof (cases rule: claim_cases [of env u i body st])
  case 1
  then show ?thesis by (rule same_ok [OF assms])
next
  case (2 x token did)
  let ?st = "snd (claim env u i body st)" and ?x = "claimed env u token did x"
  have id: "dc_id x = i" by (rule find_discovery_id [OF 2(1)])
  have row: "find_discovery j ?st = (if j = i then Some ?x else find_discovery j st)" for j
    using 2 id by (auto simp: find_discovery_def tbl_get_put claimed_def split: option.splits)
  have dev: "find_device k ?st = (if k = did then Some (paired_device env u body did x) else find_device k st)" for k
    using 2 by (auto simp: find_device_def device_exists_def tbl_get_add paired_device_def split: option.splits)
  have app: "is_approved ?st j y \<longleftrightarrow> (if j = i then y = ?x else is_approved st j y)" for j y
    by (auto simp: is_approved_def row claimed_def)
  have old: "approved_ok ?st y \<and> dc_device_id y \<noteq> Some did" if "is_approved st j y" for j y
  proof -
    have "approved_ok st y" using assms that unfolding pairing_ok_def by blast
    then obtain k d where k: "dc_device_id y = Some k" "find_device k st = Some d" "dc_claimed_by y \<noteq> None"
      "dv_owner_id d = dc_claimed_by y" "dv_tenant_id d = dc_claimed_tenant y"
      by (auto simp: approved_ok_def)
    then have "k \<noteq> did" using 2(3) by (auto simp: device_exists_def)
    then have "find_device k ?st = Some d" using k(2) by (simp add: dev)
    then show ?thesis using k \<open>k \<noteq> did\<close> by (simp add: approved_ok_def)
  qed
  have new: "approved_ok ?st ?x" by (simp add: approved_ok_def dev) (simp add: claimed_def paired_device_def)
  have dx: "dc_device_id ?x = Some did" by (simp add: claimed_def)
  show ?thesis unfolding pairing_ok_def
  proof (intro conjI allI impI)
    show "distinct (map dc_id (discoveries ?st))" using assms 2 by (simp add: pairing_ok_def)
    fix j y assume "is_approved ?st j y"
    then show "approved_ok ?st y" using old new by (simp add: app split: if_splits)
  next
    fix j k y z assume a: "is_approved ?st j y \<and> is_approved ?st k z \<and> dc_device_id y = dc_device_id z"
    show "j = k"
    proof (cases "j = i"; cases "k = i")
      assume "j = i" "k \<noteq> i"
      then show ?thesis using a old dx by (simp add: app) metis
    next
      assume "j \<noteq> i" "k = i"
      then show ?thesis using a old dx by (simp add: app) metis
    next
      assume "j \<noteq> i" "k \<noteq> i"
      then show ?thesis using a assms unfolding pairing_ok_def by (simp add: app) blast
    qed simp
  qed
qed

lemma reach_ok: "pairing_reach st \<Longrightarrow> pairing_ok st"
proof (induction rule: pairing_reach.induct)
  case (start st)
  then show ?case by (simp add: pairing_ok_def is_approved_def find_discovery_def)
next
  case (step st st')
  from step.hyps(2) step.IH show ?case
    by (cases rule: pairing_step.cases) (simp_all add: announce_ok poll_ok listed_ok claim_ok reject_ok)
qed

lemma step_refines:
  assumes "pairing_reach st" "pairing_step st st'"
  shows "pairing_spec (pair_abs st) (pair_abs st')"
proof -
  have d: "distinct (map dc_id (discoveries st))" using reach_ok [OF assms(1)] by (simp add: pairing_ok_def)
  from assms(2) show ?thesis
    by (cases rule: pairing_step.cases)
      (simp_all add: announce_refines poll_refines [OF d] claim_refines reject_refines list_pending_def late_refines)
qed

lemma reach_one_open: "pairing_reach st \<Longrightarrow> one_open (pair_abs st)"
proof (induction rule: pairing_reach.induct)
  case (start st)
  then show ?case by (simp add: one_open_def pair_abs_def find_discovery_def)
next
  case (step st st')
  show ?case by (rule spec_one_open [OF step_refines [OF step.hyps] step.IH])
qed

subsection \<open>Properties\<close>

text \<open>C17. Refinement of the pairing protocol: from every state the endpoints reach from an empty
  table, whatever one call of announce, poll, list, claim or reject does is one step of the
  specification (or none): a new announcement expires the open ones of its hardware, and only an
  open announcement is approved, rejected or expires; approved, rejected and expired are final.\<close>

theorem pairing_refines:
  assumes "pairing_reach st" "pairing_step st st'"
  shows "pairing_spec (pair_abs st) (pair_abs st')"
  by (rule step_refines [OF assms])


text \<open>The token is not used up: polling again gives it again.\<close>

lemma poll_again:
  assumes "poll env dcode st = (Inr r, st')" "po_status r = ''approved''"
  shows "st' = st \<and> poll env' dcode st' = (Inr r, st')"
  using assms by (auto simp: poll_def Let_def split: option.splits if_splits)

definition demo_announce :: announce_request where
  "demo_announce = \<lparr>an_hardware_id = ''hw'', an_device_type = ''light'', an_firmware_version = None\<rparr>"

definition demo_announced :: device_state where
  "demo_announced = snd (announce demo_device_settings (demo_device_env 0) demo_announce empty_device_state)"

definition demo_claimed :: device_state where
  "demo_claimed = snd (claim (demo_device_env 1) demo_member ''u0''
     \<lparr>cm_name = ''lamp'', cm_description = None\<rparr> demo_announced)"

lemma demo_pairing:
  "pairing_reach empty_device_state" "pairing_reach demo_announced" "pairing_step empty_device_state demo_announced"
  "pairing_reach demo_claimed" "pairing_step demo_announced demo_claimed"
proof -
  show 0: "pairing_reach empty_device_state" by (rule pairing_reach.start) (simp add: empty_device_state_def)
  show 1: "pairing_step empty_device_state demo_announced"
    unfolding demo_announced_def by (rule pairing_step.announced)
  show 2: "pairing_reach demo_announced" by (rule pairing_reach.step [OF 0 1])
  show 3: "pairing_step demo_announced demo_claimed"
    unfolding demo_claimed_def by (rule pairing_step.claimed)
  show "pairing_reach demo_claimed" by (rule pairing_reach.step [OF 2 3])
qed

theorem pairing_refines_witness: "pairing_spec (pair_abs demo_announced) (pair_abs demo_claimed)"
  by (rule pairing_refines [OF demo_pairing(2,5)])


end
