(* ===== verification/Telemetry.thy ===== *)
theory Telemetry
  imports DeviceModel
begin

text \<open>
  Service level objectives (\<open>api/slo.py\<close>) and telemetry (\<open>api/telemetry.py\<close>): definitions
  of objectives, their evaluation against samples, ingestion, the time-window query, the latest
  reading per metric, and the assistant's summary of recent violations. Bounds on lengths and
  query parameters are FastAPI's, checked before the handlers run; the rate limiter is left out.
\<close>

text \<open>Inserting rows with unique ids.\<close>

definition insert_rows :: "('r \<Rightarrow> string) \<Rightarrow> 'r list \<Rightarrow> 'r list \<Rightarrow> 'r list res" where
  "insert_rows key new old =
     (if distinct (map key new) \<and> set (map key new) \<inter> set (map key old) = {}
      then Inr (old @ new) else Inl (PyExc ''IntegrityError''))"

subsection \<open>Objectives\<close>

record slo_create =
  sc_metric :: string
  sc_operator :: string
  sc_threshold :: rat
  sc_description :: "string option"

record slo_update =
  su_operator :: "string field"
  su_threshold :: "rat field"
  su_description :: "string field"
  su_enabled :: "bool field"

text \<open>\<open>_OPERATORS.get(op)\<close> applied to the value and the threshold.\<close>

definition slo_holds :: "string \<Rightarrow> rat \<Rightarrow> rat \<Rightarrow> bool option" where
  "slo_holds op v t =
     (if op = ''lt'' then Some (v < t) else if op = ''lte'' then Some (v \<le> t)
      else if op = ''gt'' then Some (t < v) else if op = ''gte'' then Some (t \<le> v)
      else if op = ''eq'' then Some (v = t) else None)"

definition new_slo :: "device_env \<Rightarrow> string \<Rightarrow> slo_create \<Rightarrow> nat \<Rightarrow> device_slo" where
  "new_slo env did body n =
     \<lparr>sl_id = dn_uuid4 env n, sl_device_id = did, sl_metric = sc_metric body,
      sl_operator = sc_operator body, sl_threshold = sc_threshold body,
      sl_description = sc_description body, sl_enabled = True, sl_created_at = dn_now env\<rparr>"

definition create_slo ::
  "device_env \<Rightarrow> string \<Rightarrow> slo_create \<Rightarrow> device_state \<Rightarrow> device_slo res \<times> device_state" where
  "create_slo env did body st =
     (if \<not> device_exists did st then (Inl device_not_found, st)
      else let s = new_slo env did body (dv_ids st); st1 = st\<lparr>dv_ids := Suc (dv_ids st)\<rparr>
           in case insert_rows sl_id [s] (slos st) of
                Inl err \<Rightarrow> (Inl err, st1)
              | Inr rows \<Rightarrow> (Inr s, st1\<lparr>slos := rows\<rparr>))"

definition list_slos :: "string \<Rightarrow> device_state \<Rightarrow> device_slo list res" where
  "list_slos did st =
     (if \<not> device_exists did st then Inl device_not_found
      else Inr (sort_key (\<lambda>s. - sl_created_at s) (filter (\<lambda>s. sl_device_id s = did) (slos st))))"

definition find_slo :: "string \<Rightarrow> string \<Rightarrow> device_state \<Rightarrow> device_slo option" where
  "find_slo did slo_id st = find (\<lambda>s. sl_id s = slo_id \<and> sl_device_id s = did) (slos st)"

text \<open>A PATCH sets the fields that are given; null in a column that is NOT NULL fails at commit.\<close>

definition apply_slo_update :: "slo_update \<Rightarrow> device_slo \<Rightarrow> device_slo res" where
  "apply_slo_update b s =
     (if su_operator b = Null \<or> su_threshold b = Null \<or> su_enabled b = Null
      then Inl (PyExc ''IntegrityError'')
      else Inr (s\<lparr>sl_operator := fset (su_operator b) (sl_operator s),
        sl_threshold := fset (su_threshold b) (sl_threshold s),
        sl_description := fget_or (su_description b) (sl_description s),
        sl_enabled := fset (su_enabled b) (sl_enabled s)\<rparr>))"

definition update_slo ::
  "string \<Rightarrow> string \<Rightarrow> slo_update \<Rightarrow> device_state \<Rightarrow> device_slo res \<times> device_state" where
  "update_slo did slo_id body st =
     (if \<not> device_exists did st then (Inl device_not_found, st)
      else case find_slo did slo_id st of
        None \<Rightarrow> (Inl (http 404 ''SLO not found''), st)
      | Some s \<Rightarrow>
          case apply_slo_update body s of
            Inl err \<Rightarrow> (Inl err, st)
          | Inr s1 \<Rightarrow> (Inr s1, st\<lparr>slos := tbl_put sl_id s1 (slos st)\<rparr>))"

definition delete_slo :: "string \<Rightarrow> string \<Rightarrow> device_state \<Rightarrow> unit res \<times> device_state" where
  "delete_slo did slo_id st =
     (if \<not> device_exists did st then (Inl device_not_found, st)
      else case find_slo did slo_id st of
        None \<Rightarrow> (Inr (), st)
      | Some s \<Rightarrow> (Inr (), st\<lparr>slos := tbl_del sl_id slo_id (slos st)\<rparr>))"

subsection \<open>Evaluation\<close>

text \<open>A sample is a metric, a value and a time without zone. The enabled objectives of the device
  are indexed by metric.\<close>

type_synonym sample = "string \<times> rat \<times> int"

type_synonym slo_index = "(string \<times> device_slo list) list"

definition index_add :: "device_slo \<Rightarrow> slo_index \<Rightarrow> slo_index" where
  "index_add s ix = (case map_of ix (sl_metric s) of
     None \<Rightarrow> ix @ [(sl_metric s, [s])] | Some ss \<Rightarrow> AList.update (sl_metric s) (ss @ [s]) ix)"

definition build_index :: "device_slo list \<Rightarrow> slo_index" where
  "build_index ss = fold index_add ss []"

definition index_get :: "slo_index \<Rightarrow> string \<Rightarrow> device_slo list" where
  "index_get ix m = (case map_of ix m of None \<Rightarrow> [] | Some ss \<Rightarrow> ss)"

definition new_violation :: "device_env \<Rightarrow> string \<Rightarrow> sample \<Rightarrow> device_slo \<Rightarrow> nat \<Rightarrow> slo_violation" where
  "new_violation env did x s n =
     (case x of (metric, value, ts) \<Rightarrow>
        \<lparr>vi_id = dn_uuid4 env n, vi_slo_id = sl_id s, vi_device_id = did, vi_metric = metric,
         vi_observed_value = value, vi_threshold = sl_threshold s, vi_operator = sl_operator s,
         vi_violated_at = ts\<rparr>)"

text \<open>The two loops; n counts the ids drawn.\<close>

fun check_slos :: "device_env \<Rightarrow> string \<Rightarrow> sample \<Rightarrow> device_slo list \<Rightarrow> nat \<Rightarrow> slo_violation list \<times> nat" where
  "check_slos env did x [] n = ([], n)"
| "check_slos env did x (s # ss) n =
     (if slo_holds (sl_operator s) (fst (snd x)) (sl_threshold s) = Some False
      then (let (vs, n') = check_slos env did x ss (Suc n) in (new_violation env did x s n # vs, n'))
      else check_slos env did x ss n)"

fun check_samples :: "device_env \<Rightarrow> string \<Rightarrow> slo_index \<Rightarrow> sample list \<Rightarrow> nat \<Rightarrow> slo_violation list \<times> nat" where
  "check_samples env did ix [] n = ([], n)"
| "check_samples env did ix (x # xs) n =
     (let (vs, n1) = check_slos env did x (index_get ix (fst x)) n;
          (ws, n2) = check_samples env did ix xs n1
      in (vs @ ws, n2))"

definition active_slos :: "string \<Rightarrow> device_state \<Rightarrow> device_slo list" where
  "active_slos did st = filter (\<lambda>s. sl_device_id s = did \<and> sl_enabled s) (slos st)"

definition evaluate_slos ::
  "device_env \<Rightarrow> string \<Rightarrow> sample list \<Rightarrow> device_state \<Rightarrow> slo_violation list res \<times> device_state" where
  "evaluate_slos env did xs st =
     (if active_slos did st = [] then (Inr [], st)
      else let (vs, n) = check_samples env did (build_index (active_slos did st)) xs (dv_ids st);
               st1 = st\<lparr>dv_ids := n\<rparr>
           in case insert_rows vi_id vs (violations st) of
                Inl err \<Rightarrow> (Inl err, st1)
              | Inr rows \<Rightarrow> (Inr vs, st1\<lparr>violations := rows\<rparr>))"

subsection \<open>Ingestion\<close>

text \<open>A datetime with or without a zone: the wall clock, and the offset from UTC.
  \<open>replace(tzinfo=None)\<close> keeps the wall clock.\<close>

datatype stamp = Naive int | Aware int int

fun wall :: "stamp \<Rightarrow> int" where
  "wall (Naive t) = t"
| "wall (Aware t offset) = t"

fun utc :: "stamp \<Rightarrow> int" where
  "utc (Naive t) = t"
| "utc (Aware t offset) = t - offset"

record telemetry_sample =
  ts_metric :: string
  ts_value :: rat
  ts_ts :: "stamp option"
  ts_tags :: "dict option"
  ts_unit :: "string option"

definition sample_row :: "device_env \<Rightarrow> string \<Rightarrow> nat \<Rightarrow> telemetry_sample \<Rightarrow> device_telemetry" where
  "sample_row env did n s =
     \<lparr>te_id = dn_uuid4 env n, te_device_id = did, te_metric = ts_metric s, te_value = ts_value s,
      te_ts = (case ts_ts s of None \<Rightarrow> dn_now env | Some t \<Rightarrow> wall t),
      te_tags = (if ts_tags s = Some [] then None else ts_tags s), te_unit = ts_unit s\<rparr>"

fun sample_rows :: "device_env \<Rightarrow> string \<Rightarrow> nat \<Rightarrow> telemetry_sample list \<Rightarrow> device_telemetry list" where
  "sample_rows env did n [] = []"
| "sample_rows env did n (s # ss) = sample_row env did n s # sample_rows env did (Suc n) ss"

definition count_metric :: "device_telemetry \<Rightarrow> (string \<times> nat) list \<Rightarrow> (string \<times> nat) list" where
  "count_metric r d = AList.update (te_metric r) (Suc (case map_of d (te_metric r) of None \<Rightarrow> 0 | Some n \<Rightarrow> n)) d"

definition metrics_summary :: "device_telemetry list \<Rightarrow> (string \<times> nat) list" where
  "metrics_summary rows = fold count_metric rows []"

definition counts_json :: "(string \<times> nat) list \<Rightarrow> json" where
  "counts_json d = JObj (map (\<lambda>(k, n). (k, JInt (int n))) d)"

definition violated_event :: "string \<Rightarrow> slo_violation \<Rightarrow> dict" where
  "violated_event did v =
     [(''device_id'', JStr did), (''slo_id'', JStr (vi_slo_id v)), (''metric'', JStr (vi_metric v)),
      (''observed_value'', JNum (vi_observed_value v)), (''threshold'', JNum (vi_threshold v)),
      (''operator'', JStr (vi_operator v)), (''violated_at'', JIso (vi_violated_at v))]"

record ingest_response =
  ig_device_id :: string
  ig_ingested :: nat
  ig_metrics :: "(string \<times> nat) list"
  ig_violations :: nat

text \<open>The rows are committed and announced before the objectives are evaluated.\<close>

definition ingest_telemetry ::
  "device_settings \<Rightarrow> device_env \<Rightarrow> string \<Rightarrow> telemetry_sample list \<Rightarrow> device_state \<Rightarrow>
     ingest_response res \<times> device_state" where
  "ingest_telemetry cfg env did body st =
     (if \<not> device_exists did st then (Inl device_not_found, st)
      else
      let rows = sample_rows env did (dv_ids st) body;
          st1 = st\<lparr>dv_ids := dv_ids st + length body\<rparr>
      in case insert_rows te_id rows (samples st) of
           Inl err \<Rightarrow> (Inl err, st1)
         | Inr all_rows \<Rightarrow>
             let summary = metrics_summary rows;
                 st2 = event_bus_publish cfg env ''device.telemetry.ingested''
                   [(''device_id'', JStr did), (''sample_count'', JInt (int (length rows))),
                    (''metrics'', counts_json summary), (''ingested_at'', JIso (dn_now env))]
                   (st1\<lparr>samples := all_rows\<rparr>)
             in case evaluate_slos env did (map (\<lambda>r. (te_metric r, te_value r, te_ts r)) rows) st2 of
                  (Inl err, st3) \<Rightarrow> (Inl err, st3)
                | (Inr vs, st3) \<Rightarrow>
                    (Inr \<lparr>ig_device_id = did, ig_ingested = length rows, ig_metrics = summary,
                          ig_violations = length vs\<rparr>,
                     fold (\<lambda>v. event_bus_publish cfg env ''device.slo.violated'' (violated_event did v)) vs st3))"

subsection \<open>Queries\<close>

record telemetry_query =
  tq_metric :: "string option"
  tq_from_ts :: "stamp option"
  tq_to_ts :: "stamp option"
  tq_hours :: "int option"
  tq_limit :: nat

definition hours_us :: "int \<Rightarrow> int" where
  "hours_us h = h * 3600000000"

definition query_window :: "int \<Rightarrow> telemetry_query \<Rightarrow> int \<times> int" where
  "query_window t q =
     (case tq_from_ts q of
        None \<Rightarrow> t - hours_us (case tq_hours q of None \<Rightarrow> 24 | Some h \<Rightarrow> h) | Some f \<Rightarrow> wall f,
      case tq_to_ts q of None \<Rightarrow> t | Some x \<Rightarrow> wall x)"

definition in_query :: "int \<Rightarrow> string \<Rightarrow> telemetry_query \<Rightarrow> device_telemetry \<Rightarrow> bool" where
  "in_query t did q r \<longleftrightarrow>
     te_device_id r = did \<and> fst (query_window t q) \<le> te_ts r \<and> te_ts r \<le> snd (query_window t q)
   \<and> (nonempty (tq_metric q) \<longrightarrow> Some (te_metric r) = tq_metric q)"

definition query_telemetry ::
  "device_env \<Rightarrow> string \<Rightarrow> telemetry_query \<Rightarrow> device_state \<Rightarrow> device_telemetry list res" where
  "query_telemetry env did q st =
     (if \<not> device_exists did st then Inl device_not_found
      else Inr (take (tq_limit q) (sort_key (\<lambda>r. - te_ts r) (filter (in_query (dn_now env) did q) (samples st)))))"

text \<open>The rows whose time is the greatest of their metric; for equal times the last row wins.\<close>

definition newest_rows :: "string \<Rightarrow> device_state \<Rightarrow> device_telemetry list" where
  "newest_rows did st = filter (\<lambda>r. te_device_id r = did \<and>
     (\<forall>x \<in> set (samples st). te_device_id x = did \<and> te_metric x = te_metric r \<longrightarrow> te_ts x \<le> te_ts r))
     (samples st)"

definition sample_reading :: "device_telemetry \<Rightarrow> json" where
  "sample_reading r = JObj [(''value'', JNum (te_value r)), (''ts'', JIso (te_ts r)),
     (''tags'', case te_tags r of None \<Rightarrow> JNull | Some d \<Rightarrow> JObj d)]"

definition latest_telemetry :: "string \<Rightarrow> device_state \<Rightarrow> dict res" where
  "latest_telemetry did st =
     (if \<not> device_exists did st then Inl device_not_found
      else Inr (fold (\<lambda>r d. dset d (te_metric r) (sample_reading r)) (newest_rows did st) []))"

definition recent_violations :: "device_env \<Rightarrow> string \<Rightarrow> int \<Rightarrow> string option \<Rightarrow> nat \<Rightarrow> device_state \<Rightarrow> slo_violation list" where
  "recent_violations env did hours metric lmt st =
     take lmt (sort_key (\<lambda>v. - vi_violated_at v)
       (filter (\<lambda>v. vi_device_id v = did \<and> dn_now env - hours_us hours \<le> vi_violated_at v
          \<and> (nonempty metric \<longrightarrow> Some (vi_metric v) = metric)) (violations st)))"

definition list_violations ::
  "device_env \<Rightarrow> string \<Rightarrow> int \<Rightarrow> string option \<Rightarrow> nat \<Rightarrow> device_state \<Rightarrow> slo_violation list res" where
  "list_violations env did hours metric lmt st =
     (if \<not> device_exists did st then Inl device_not_found
      else Inr (recent_violations env did hours metric lmt st))"

subsection \<open>The assistant\<close>

text \<open>Per metric the number of violations and the data of the newest one, in the order in which
  the metrics first appear.\<close>

record metric_agg =
  ma_violations :: nat
  ma_latest :: rat
  ma_threshold :: rat
  ma_operator :: string

definition agg_add :: "slo_violation \<Rightarrow> (string \<times> metric_agg) list \<Rightarrow> (string \<times> metric_agg) list" where
  "agg_add v d = (case map_of d (vi_metric v) of
     None \<Rightarrow> d @ [(vi_metric v, \<lparr>ma_violations = 1, ma_latest = vi_observed_value v,
               ma_threshold = vi_threshold v, ma_operator = vi_operator v\<rparr>)]
   | Some a \<Rightarrow> AList.update (vi_metric v) (a\<lparr>ma_violations := Suc (ma_violations a)\<rparr>) d)"

definition aggregate_violations :: "slo_violation list \<Rightarrow> (string \<times> metric_agg) list" where
  "aggregate_violations vs = fold agg_add vs []"

definition severity :: "nat \<Rightarrow> string" where
  "severity n = (if 5 \<le> n then ''high'' else if 2 \<le> n then ''medium'' else ''low'')"

definition recommendation :: "string \<Rightarrow> metric_agg \<Rightarrow> json list" where
  "recommendation m a =
     (if ma_operator a \<in> {''lt'', ''lte''}
      then [JStr ''Reduce '', JStr m, JStr '' pressure: latest '', JNum (ma_latest a),
            JStr '' breaches '', JStr (ma_operator a), JStr '' '', JNum (ma_threshold a), JStr ''.'']
      else if ma_operator a \<in> {''gt'', ''gte''}
      then [JStr ''Increase '', JStr m, JStr '' floor: latest '', JNum (ma_latest a),
            JStr '' breaches '', JStr (ma_operator a), JStr '' '', JNum (ma_threshold a), JStr ''.'']
      else [JStr ''Stabilize '', JStr m, JStr '': latest '', JNum (ma_latest a),
            JStr '' deviates from expected threshold '', JNum (ma_threshold a), JStr ''.''])"

record assistant_metric =
  am_metric :: string
  am_violations :: nat
  am_severity :: string
  am_recommendation :: "json list"

record assistant_response =
  as_total_violations :: nat
  as_status :: string
  as_top_metrics :: "assistant_metric list"
  as_runbook_steps :: "(string \<times> string) list"

definition top_metric :: "string \<times> metric_agg \<Rightarrow> assistant_metric" where
  "top_metric p = (case p of (m, a) \<Rightarrow>
     \<lparr>am_metric = m, am_violations = ma_violations a, am_severity = severity (ma_violations a),
      am_recommendation = recommendation m a\<rparr>)"

definition slo_assistant ::
  "device_env \<Rightarrow> string \<Rightarrow> int \<Rightarrow> nat \<Rightarrow> device_state \<Rightarrow> assistant_response res" where
  "slo_assistant env did hours lmt st =
     (if \<not> device_exists did st then Inl device_not_found
      else
      let vs = recent_violations env did hours None lmt st in
      if vs = []
      then Inr \<lparr>as_total_violations = 0, as_status = ''healthy'', as_top_metrics = [],
                as_runbook_steps = [(''health-check'', ''echo health-ok'')]\<rparr>
      else
      let top = take 5 (sort_key (\<lambda>p. - int (ma_violations (snd p))) (aggregate_violations vs))
      in Inr \<lparr>as_total_violations = length vs, as_status = ''attention_required'',
              as_top_metrics = map top_metric top,
              as_runbook_steps = map (\<lambda>(m, a). (''diagnose-'' @ m, ''echo diagnose-'' @ m)) top
                @ [(''verify-slo-stability'', ''echo verify-slo-stability'')]\<rparr>)"

end
