(* ===== verification/TelemetryProperties.thy ===== *)
theory TelemetryProperties
  imports Telemetry DeviceProperties
begin

text \<open>
  Evaluating objectives through the index by metric is the same as checking every sample against
  every enabled objective; what an accepted batch leaves; the latest readings.
\<close>

interpretation slo_rows: keyed_store "tbl_get sl_id" "tbl_put sl_id" tbl_add "tbl_del sl_id" sl_id
  by (rule keyed_table)

subsection \<open>The index by metric\<close>

lemma index_get_add:
  "index_get (index_add s ix) m = (if m = sl_metric s then index_get ix m @ [s] else index_get ix m)"
  by (auto simp: index_get_def index_add_def update_conv' map_add_def split: option.splits)

lemma index_get_build:
  "index_get (fold index_add ss ix) m = index_get ix m @ filter (\<lambda>s. sl_metric s = m) ss"
  by (induction ss arbitrary: ix) (auto simp: index_get_add)

lemma build_index: "index_get (build_index ss) m = filter (\<lambda>s. sl_metric s = m) ss"
  by (simp add: build_index_def index_get_build) (simp add: index_get_def)

subsection \<open>Reference evaluation\<close>

text \<open>The pairs of a sample and an objective on its metric that the sample does not meet, sample by
  sample; an operator that is not known is never breached.\<close>

definition breached_by :: "sample \<Rightarrow> device_slo \<Rightarrow> bool" where
  "breached_by x s \<longleftrightarrow> sl_metric s = fst x \<and>
     slo_holds (sl_operator s) (fst (snd x)) (sl_threshold s) = Some False"

definition breaches :: "device_slo list \<Rightarrow> sample list \<Rightarrow> (sample \<times> device_slo) list" where
  "breaches ss xs = concat (map (\<lambda>x. map (Pair x) (filter (breached_by x) ss)) xs)"

text \<open>A violation without its id, and the one a breach calls for.\<close>

definition violation_data :: "slo_violation \<Rightarrow> string \<times> string \<times> string \<times> rat \<times> rat \<times> string \<times> int" where
  "violation_data v = (vi_device_id v, vi_slo_id v, vi_metric v, vi_observed_value v, vi_threshold v,
     vi_operator v, vi_violated_at v)"

definition breach_data :: "string \<Rightarrow> sample \<times> device_slo \<Rightarrow> string \<times> string \<times> string \<times> rat \<times> rat \<times> string \<times> int" where
  "breach_data did p = (case p of ((m, v, t), s) \<Rightarrow>
     (did, sl_id s, m, v, sl_threshold s, sl_operator s, t))"

lemma violation_data_new: "violation_data (new_violation env did x s n) = breach_data did (x, s)"
  by (simp add: violation_data_def new_violation_def breach_data_def split: prod.split)

lemma check_slos_data:
  "map violation_data (fst (check_slos env did x ss n)) =
     map (\<lambda>s. breach_data did (x, s))
       (filter (\<lambda>s. slo_holds (sl_operator s) (fst (snd x)) (sl_threshold s) = Some False) ss)"
proof (induction ss arbitrary: n)
  case (Cons s ss)
  then show ?case
    by (cases "check_slos env did x ss (Suc n)")
      (auto simp: Let_def violation_data_new dest: meta_spec [of _ "Suc n"])
qed simp

lemma check_samples_data:
  "map violation_data (fst (check_samples env did (build_index ss) xs n)) =
     map (breach_data did) (breaches ss xs)"
proof (induction xs arbitrary: n)
  case Nil
  show ?case by (simp add: breaches_def)
next
  case (Cons x xs)
  obtain vs n1 where vs: "check_slos env did x (index_get (build_index ss) (fst x)) n = (vs, n1)"
    by (cases "check_slos env did x (index_get (build_index ss) (fst x)) n")
  obtain ws n2 where ws: "check_samples env did (build_index ss) xs n1 = (ws, n2)"
    by (cases "check_samples env did (build_index ss) xs n1")
  have "map violation_data vs = map (\<lambda>s. breach_data did (x, s)) (filter (breached_by x) ss)"
    using check_slos_data [of env did x "index_get (build_index ss) (fst x)" n] vs
    by (simp add: build_index breached_by_def [abs_def] conj_commute)
  moreover have "map violation_data ws = map (breach_data did) (breaches ss xs)"
    using Cons.IH [of n1] ws by simp
  ultimately show ?case by (simp add: vs ws breaches_def comp_def)
qed

lemma evaluate_reference:
  assumes "evaluate_slos env did xs st = (Inr vs, st')"
  shows "violations st' = violations st @ vs
    \<and> map violation_data vs = map (breach_data did) (breaches (active_slos did st) xs)
    \<and> samples st' = samples st \<and> slos st' = slos st"
proof (cases "active_slos did st = []")
  case True
  then have "breaches (active_slos did st) xs = []" by (simp add: breaches_def)
  then show ?thesis using assms True by (simp add: evaluate_slos_def)
next
  case False
  then show ?thesis
    using assms check_samples_data [of env did "active_slos did st" xs "dv_ids st"]
    by (auto simp: evaluate_slos_def insert_rows_def split: prod.splits if_splits)
qed

subsection \<open>An accepted batch\<close>

lemma sum_count_metric: "sum_list (map snd (count_metric r d)) = Suc (sum_list (map snd d))"
  unfolding count_metric_def by (induction d) (auto split: option.splits)

lemma sum_summary: "sum_list (map snd (metrics_summary rows)) = length rows"
proof -
  have "sum_list (map snd (fold count_metric rows d)) = length rows + sum_list (map snd d)" for d
    by (induction rows arbitrary: d) (simp_all add: sum_count_metric)
  then show ?thesis by (simp add: metrics_summary_def)
qed

lemma sample_rows_data:
  "map (\<lambda>r. (te_metric r, te_value r, te_ts r)) (sample_rows env did n ss) =
     map (\<lambda>s. (ts_metric s, ts_value s, case ts_ts s of None \<Rightarrow> dn_now env | Some t \<Rightarrow> wall t)) ss"
  by (induction ss arbitrary: n) (simp_all add: sample_row_def)

lemma sample_rows_length [simp]: "length (sample_rows env did n ss) = length ss"
  by (induction ss arbitrary: n) simp_all

lemma fold_publish_frame:
  "violations (fold (\<lambda>v. event_bus_publish cfg env t (f v)) vs st) = violations st"
  "samples (fold (\<lambda>v. event_bus_publish cfg env t (f v)) vs st) = samples st"
  by (induction vs arbitrary: st) (simp_all add: frame_simps)

text \<open>The samples as they are stored: metric, value and wall clock.\<close>

definition stored_samples :: "device_env \<Rightarrow> telemetry_sample list \<Rightarrow> sample list" where
  "stored_samples env body =
     map (\<lambda>s. (ts_metric s, ts_value s, case ts_ts s of None \<Rightarrow> dn_now env | Some t \<Rightarrow> wall t)) body"

text \<open>C19. Ingestion: an accepted batch is appended to the samples row by row, its summary counts
  every sample once, and the violations recorded (and counted in the answer) are, in order, exactly
  those of the reference evaluation, each sample against each enabled objective of the device.\<close>

theorem ingest_equivalence:
  assumes "ingest_telemetry cfg env did body st = (Inr r, st')"
  shows "\<exists>rows vs. samples st' = samples st @ rows
    \<and> map (\<lambda>r. (te_metric r, te_value r, te_ts r)) rows = stored_samples env body
    \<and> ig_ingested r = length body \<and> sum_list (map snd (ig_metrics r)) = length body
    \<and> violations st' = violations st @ vs \<and> ig_violations r = length vs
    \<and> map violation_data vs =
        map (breach_data did) (breaches (active_slos did st) (stored_samples env body))"
proof -
  let ?rows = "sample_rows env did (dv_ids st) body"
  let ?st1 = "st\<lparr>dv_ids := dv_ids st + length body\<rparr>"
  define st2 where "st2 = event_bus_publish cfg env ''device.telemetry.ingested''
     [(''device_id'', JStr did), (''sample_count'', JInt (int (length ?rows))),
      (''metrics'', counts_json (metrics_summary ?rows)), (''ingested_at'', JIso (dn_now env))]
     (?st1\<lparr>samples := samples st @ ?rows\<rparr>)"
  have dev: "device_exists did st" using assms by (auto simp: ingest_telemetry_def split: if_splits)
  have ins: "insert_rows te_id ?rows (samples st) = Inr (samples st @ ?rows)"
  proof (rule ccontr)
    assume "insert_rows te_id ?rows (samples st) \<noteq> Inr (samples st @ ?rows)"
    then have "insert_rows te_id ?rows (samples st) = Inl (PyExc ''IntegrityError'')"
      by (auto simp: insert_rows_def)
    then show False using assms dev by (simp add: ingest_telemetry_def Let_def)
  qed
  obtain ev st3 where ev: "evaluate_slos env did (map (\<lambda>r. (te_metric r, te_value r, te_ts r)) ?rows) st2 = (ev, st3)"
    by (cases "evaluate_slos env did (map (\<lambda>r. (te_metric r, te_value r, te_ts r)) ?rows) st2")
  have all: "ingest_telemetry cfg env did body st = (case ev of Inl err \<Rightarrow> (Inl err, st3)
      | Inr vs \<Rightarrow> (Inr \<lparr>ig_device_id = did, ig_ingested = length ?rows, ig_metrics = metrics_summary ?rows,
            ig_violations = length vs\<rparr>,
          fold (\<lambda>v. event_bus_publish cfg env ''device.slo.violated'' (violated_event did v)) vs st3))"
    using dev ins ev by (simp add: ingest_telemetry_def Let_def st2_def split: sum.splits)
  then obtain vs where vs: "ev = Inr vs" using assms by (cases ev) auto
  have same: "active_slos did st2 = active_slos did st" "violations st2 = violations st"
    "samples st2 = samples st @ ?rows"
    by (simp_all add: active_slos_def st2_def frame_simps)
  have ref: "violations st3 = violations st @ vs" "samples st3 = samples st @ ?rows"
    "map violation_data vs = map (breach_data did) (breaches (active_slos did st) (stored_samples env body))"
    using evaluate_reference [OF ev [unfolded vs]] same
    by (simp_all add: sample_rows_data stored_samples_def)
  show ?thesis
    using assms all vs ref sum_summary [of ?rows]
    by (intro exI [of _ ?rows] exI [of _ vs])
      (auto simp: fold_publish_frame sample_rows_data stored_samples_def)
qed

subsection \<open>Latest readings\<close>

lemma fold_dset_some:
  "map_of (fold (\<lambda>r d. dset d (f r) (g r)) rs d) k = Some v \<Longrightarrow>
     (\<exists>r \<in> set rs. f r = k \<and> v = g r) \<or> map_of d k = Some v"
  by (induction rs arbitrary: d) (fastforce simp: dset_def update_conv' split: if_splits)+

lemma fold_dset_keeps:
  "map_of d k \<noteq> None \<Longrightarrow> map_of (fold (\<lambda>r d. dset d (f r) (g r)) rs d) k \<noteq> None"
  by (induction rs arbitrary: d) (auto simp: dset_def update_conv')

lemma fold_dset_has:
  "r \<in> set rs \<Longrightarrow> map_of (fold (\<lambda>r d. dset d (f r) (g r)) rs d) (f r) \<noteq> None"
proof (induction rs arbitrary: d)
  case (Cons a rs)
  then show ?case
    using fold_dset_keeps [of "dset d (f a) (g a)" "f a" f g rs] by (auto simp: dset_def update_conv')
qed simp

lemma newest_exists:
  assumes "r \<in> set (samples st)" "te_device_id r = did"
  shows "\<exists>x \<in> set (newest_rows did st). te_metric x = te_metric r"
proof -
  let ?R = "{x \<in> set (samples st). te_device_id x = did \<and> te_metric x = te_metric r}"
  have "finite (te_ts ` ?R)" "te_ts ` ?R \<noteq> {}" using assms by auto
  then have "Max (te_ts ` ?R) \<in> te_ts ` ?R" by (rule Max_in)
  then obtain x where x: "x \<in> ?R" "te_ts x = Max (te_ts ` ?R)" by auto
  have "te_ts y \<le> te_ts x" if "y \<in> ?R" for y
    using x(2) that by (simp add: Max_ge)
  then have "x \<in> set (newest_rows did st)" using x(1) by (auto simp: newest_rows_def)
  then show ?thesis using x(1) by blast
qed

text \<open>The latest readings: a reading that is returned is that of a stored sample of the device
  and metric, none of which is later; and every metric the device has a sample of is returned.\<close>

theorem latest_reading:
  assumes "latest_telemetry did st = Inr d"
  shows "(\<forall>v. map_of d m = Some v \<longrightarrow>
        (\<exists>r \<in> set (samples st). te_device_id r = did \<and> te_metric r = m \<and> v = sample_reading r
          \<and> (\<forall>x \<in> set (samples st). te_device_id x = did \<and> te_metric x = m \<longrightarrow> te_ts x \<le> te_ts r)))
    \<and> ((\<exists>r \<in> set (samples st). te_device_id r = did \<and> te_metric r = m) \<longrightarrow> map_of d m \<noteq> None)"
proof -
  have d: "d = fold (\<lambda>r d. dset d (te_metric r) (sample_reading r)) (newest_rows did st) []"
    using assms by (auto simp: latest_telemetry_def split: if_splits)
  show ?thesis
  proof (intro conjI allI impI)
    fix v assume "map_of d m = Some v"
    then obtain r where "r \<in> set (newest_rows did st)" "te_metric r = m" "v = sample_reading r"
      unfolding d by (auto dest!: fold_dset_some)
    then show "\<exists>r \<in> set (samples st). te_device_id r = did \<and> te_metric r = m \<and> v = sample_reading r
        \<and> (\<forall>x \<in> set (samples st). te_device_id x = did \<and> te_metric x = m \<longrightarrow> te_ts x \<le> te_ts r)"
      by (auto simp: newest_rows_def)
  next
    assume "\<exists>r \<in> set (samples st). te_device_id r = did \<and> te_metric r = m"
    then obtain x where "x \<in> set (newest_rows did st)" "te_metric x = m" using newest_exists by blast
    then show "map_of d m \<noteq> None"
      unfolding d using fold_dset_has [of x "newest_rows did st" te_metric sample_reading "[]"] by simp
  qed
qed

text \<open>A sample with a zone is stored, and compared, by its wall clock: an hour east of UTC looks an
  hour late.\<close>

lemma wall_not_utc: "offset \<noteq> 0 \<Longrightarrow> wall (Aware t offset) \<noteq> utc (Aware t offset)"
  by simp

subsection \<open>Witnesses\<close>

definition demo_slo :: device_slo where
  "demo_slo = \<lparr>sl_id = ''s1'', sl_device_id = ''d1'', sl_metric = ''temp'', sl_operator = ''lt'',
     sl_threshold = 50, sl_description = None, sl_enabled = True, sl_created_at = 0\<rparr>"

definition demo_telemetry_state :: device_state where
  "demo_telemetry_state = empty_device_state\<lparr>devices := [demo_device], slos := [demo_slo]\<rparr>"

definition demo_samples :: "telemetry_sample list" where
  "demo_samples = [\<lparr>ts_metric = ''temp'', ts_value = 70, ts_ts = Some (Aware 9 3), ts_tags = None, ts_unit = None\<rparr>,
     \<lparr>ts_metric = ''temp'', ts_value = 20, ts_ts = None, ts_tags = Some [], ts_unit = None\<rparr>]"

lemma demo_ingest:
  "ingest_telemetry demo_device_settings (demo_device_env 7) ''d1'' demo_samples demo_telemetry_state =
     (Inr \<lparr>ig_device_id = ''d1'', ig_ingested = 2, ig_metrics = [(''temp'', 2)], ig_violations = 1\<rparr>,
      snd (ingest_telemetry demo_device_settings (demo_device_env 7) ''d1'' demo_samples demo_telemetry_state))"
  by (rule prod_eqI) (simp, code_simp, simp)

theorem ingest_equivalence_witness:
  "map violation_data (violations (snd (ingest_telemetry demo_device_settings (demo_device_env 7) ''d1''
      demo_samples demo_telemetry_state))) = [(''d1'', ''s1'', ''temp'', 70, 50, ''lt'', 9)]"
  using ingest_equivalence [OF demo_ingest]
  by (auto simp: demo_telemetry_state_def empty_device_state_def active_slos_def demo_slo_def breaches_def
      breached_by_def slo_holds_def stored_samples_def demo_samples_def breach_data_def)

definition demo_reading_state :: device_state where
  "demo_reading_state = demo_telemetry_state\<lparr>samples :=
     [\<lparr>te_id = ''a'', te_device_id = ''d1'', te_metric = ''temp'', te_value = 5, te_ts = 9, te_tags = None, te_unit = None\<rparr>,
      \<lparr>te_id = ''b'', te_device_id = ''d1'', te_metric = ''temp'', te_value = 6, te_ts = 8, te_tags = None, te_unit = None\<rparr>]\<rparr>"

theorem latest_reading_witness:
  "case latest_telemetry ''d1'' demo_reading_state of Inr d \<Rightarrow> map_of d ''temp'' \<noteq> None | Inl err \<Rightarrow> False"
proof -
  have "latest_telemetry ''d1'' demo_reading_state =
      Inr [(''temp'', JObj [(''value'', JNum 5), (''ts'', JIso 9), (''tags'', JNull)])]"
    by code_simp
  from latest_reading [OF this, of "''temp''"] this show ?thesis
    by (simp add: demo_reading_state_def)
qed

end
