(* ===== verification/Privacy.thy ===== *)
theory Privacy
  imports DeviceProperties
begin

text \<open>
  Privacy consents (\<open>api/privacy.py\<close>): who may manage them, granting and revoking with the events of
  the ownership trail, and the queries. The properties are at the end. The dashes of the level
  descriptions are ASCII here.
\<close>

definition level_description :: "int \<Rightarrow> string" where
  "level_description l =
     (if l = 0 then ''Operational (always active - device online/offline, last heartbeat)''
      else if l = 1 then ''Fleet visibility (name, type, zone, aggregate status)''
      else if l = 2 then ''Health metrics (uptime, command success rate, delivery failures)''
      else if l = 3 then ''Command history (action, status, timestamp - no payload)''
      else if l = 4 then ''Full payload (command content and responses - owner only, not delegatable)''
      else [])"

definition delegatable_levels :: "int list" where
  "delegatable_levels = [1, 2, 3]"

definition require_owner :: "string \<Rightarrow> device_user \<Rightarrow> device_state \<Rightarrow> device res" where
  "require_owner did u st =
     (case find_device did st of
        None \<Rightarrow> Inl device_not_found
      | Some d \<Rightarrow>
          if \<not> du_is_operator u \<and> dv_owner_id d \<noteq> Some (user_id u)
          then Inl (http 403 ''Only the device owner can manage privacy settings'') else Inr d)"

record consent_grant =
  cg_granted_to :: string
  cg_granted_to_type :: string
  cg_level :: int

record consent_response =
  cr_consent :: device_consent
  cr_level_description :: string

definition consent_response_of :: "device_consent \<Rightarrow> consent_response" where
  "consent_response_of c = \<lparr>cr_consent = c, cr_level_description = level_description (co_level c)\<rparr>"

definition get_privacy ::
  "string \<Rightarrow> device_user \<Rightarrow> device_state \<Rightarrow> (device \<times> consent_response list) res" where
  "get_privacy did u st =
     (case require_owner did u st of
        Inl err \<Rightarrow> Inl err
      | Inr d \<Rightarrow> Inr (d, map consent_response_of
          (filter (\<lambda>c. co_device_id c = did \<and> co_is_active c) (consents st))))"

definition duplicates :: "string \<Rightarrow> consent_grant \<Rightarrow> device_state \<Rightarrow> device_consent list" where
  "duplicates did b st = filter (\<lambda>c. co_device_id c = did \<and> co_granted_to c = cg_granted_to b
     \<and> co_granted_to_type c = cg_granted_to_type b \<and> co_level c = cg_level b \<and> co_is_active c) (consents st)"

definition new_consent :: "device_env \<Rightarrow> string \<Rightarrow> device_user \<Rightarrow> consent_grant \<Rightarrow> nat \<Rightarrow> device_consent" where
  "new_consent env did u b n =
     \<lparr>co_id = dn_uuid4 env n, co_device_id = did, co_granted_by = user_id u,
      co_granted_to = cg_granted_to b, co_granted_to_type = cg_granted_to_type b,
      co_level = cg_level b, co_granted_at = dn_now env, co_revoked_at = None, co_is_active = True\<rparr>"

definition granted_event :: "device_env \<Rightarrow> string \<Rightarrow> device_user \<Rightarrow> consent_grant \<Rightarrow> nat \<Rightarrow> ownership_event" where
  "granted_event env did u b n =
     \<lparr>oe_id = dn_uuid4 env n, oe_device_id = did, oe_actor_id = user_id u, oe_action = ''consent_granted'',
      oe_details = [(''granted_to'', JStr (cg_granted_to b)),
        (''granted_to_type'', JStr (cg_granted_to_type b)), (''level'', JInt (cg_level b))],
      oe_created_at = dn_now env\<rparr>"

text \<open>\<open>scalar_one_or_none\<close> raises when there is more than one row. Ids are unique at commit.\<close>

definition grant_consent ::
  "device_env \<Rightarrow> string \<Rightarrow> consent_grant \<Rightarrow> device_user \<Rightarrow> device_state \<Rightarrow>
     consent_response res \<times> device_state" where
  "grant_consent env did b u st =
     (case require_owner did u st of
        Inl err \<Rightarrow> (Inl err, st)
      | Inr d \<Rightarrow>
          if cg_level b \<notin> set delegatable_levels
          then (Inl (http 400 ''Level 4 is owner-only and cannot be delegated''), st)
          else (case duplicates did b st of
            c # c' # cs \<Rightarrow> (Inl (PyExc ''MultipleResultsFound''), st)
          | [c] \<Rightarrow> (Inl (http 409 ''Active consent already exists for this target and level''), st)
          | [] \<Rightarrow>
              let n = dv_ids st;
                  c = new_consent env did u b n;
                  e = granted_event env did u b (Suc n);
                  st1 = st\<lparr>dv_ids := Suc (Suc n)\<rparr>
              in if tbl_get co_id (co_id c) (consents st) \<noteq> None
                    \<or> tbl_get oe_id (oe_id e) (ownership_events st) \<noteq> None
                 then (Inl (PyExc ''IntegrityError''), st1)
                 else (Inr (consent_response_of c),
                       st1\<lparr>consents := consents st @ [c], ownership_events := ownership_events st @ [e]\<rparr>)))"

definition revoked_consent :: "device_env \<Rightarrow> device_consent \<Rightarrow> device_consent" where
  "revoked_consent env c = c\<lparr>co_is_active := False, co_revoked_at := Some (dn_now env)\<rparr>"

definition revoked_event :: "device_env \<Rightarrow> string \<Rightarrow> device_user \<Rightarrow> device_consent \<Rightarrow> nat \<Rightarrow> ownership_event" where
  "revoked_event env did u c n =
     \<lparr>oe_id = dn_uuid4 env n, oe_device_id = did, oe_actor_id = user_id u, oe_action = ''consent_revoked'',
      oe_details = [(''consent_id'', JStr (co_id c)), (''level'', JInt (co_level c)),
        (''granted_to'', JStr (co_granted_to c))], oe_created_at = dn_now env\<rparr>"

definition revoke_consent ::
  "device_env \<Rightarrow> string \<Rightarrow> string \<Rightarrow> device_user \<Rightarrow> device_state \<Rightarrow> unit res \<times> device_state" where
  "revoke_consent env did consent_id u st =
     (case require_owner did u st of
        Inl err \<Rightarrow> (Inl err, st)
      | Inr d \<Rightarrow>
          case tbl_get co_id consent_id (consents st) of
            None \<Rightarrow> (Inl (http 404 ''Consent not found''), st)
          | Some c \<Rightarrow>
              if co_device_id c \<noteq> did then (Inl (http 404 ''Consent not found''), st)
              else if \<not> co_is_active c then (Inl (http 409 ''Consent already revoked''), st)
              else
              let e = revoked_event env did u c (dv_ids st);
                  st1 = st\<lparr>dv_ids := Suc (dv_ids st)\<rparr>
              in if tbl_get oe_id (oe_id e) (ownership_events st) \<noteq> None
                 then (Inl (PyExc ''IntegrityError''), st1)
                 else (Inr (), st1\<lparr>consents := tbl_put co_id (revoked_consent env c) (consents st),
                                  ownership_events := ownership_events st @ [e]\<rparr>))"

definition get_ownership_events ::
  "string \<Rightarrow> device_user \<Rightarrow> device_state \<Rightarrow> ownership_event list res" where
  "get_ownership_events did u st =
     (case require_owner did u st of
        Inl err \<Rightarrow> Inl err
      | Inr d \<Rightarrow> Inr (sort_key (\<lambda>e. - oe_created_at e)
          (filter (\<lambda>e. oe_device_id e = did) (ownership_events st))))"

inductive consent_step :: "device_state \<Rightarrow> device_state \<Rightarrow> bool" where
  grant: "consent_step st (snd (grant_consent env did b u st))"
| revoke: "consent_step st (snd (revoke_consent env did cid u st))"

inductive consent_reach :: "device_state \<Rightarrow> bool" where
  start: "consents st = [] \<Longrightarrow> ownership_events st = [] \<Longrightarrow> consent_reach st"
| step: "consent_reach st \<Longrightarrow> consent_step st st' \<Longrightarrow> consent_reach st'"

subsection \<open>The invariant\<close>

interpretation consent_rows: keyed_store "tbl_get co_id" "tbl_put co_id" tbl_add "tbl_del co_id" co_id
  by (rule keyed_table)

definition target :: "device_consent \<Rightarrow> string \<times> string \<times> string \<times> int" where
  "target c = (co_device_id c, co_granted_to c, co_granted_to_type c, co_level c)"

definition grants_of :: "string \<Rightarrow> device_state \<Rightarrow> nat" where
  "grants_of d st = count_rows (\<lambda>e. oe_device_id e = d \<and> oe_action e = ''consent_granted'') (ownership_events st)"

definition revocations_of :: "string \<Rightarrow> device_state \<Rightarrow> nat" where
  "revocations_of d st = count_rows (\<lambda>e. oe_device_id e = d \<and> oe_action e = ''consent_revoked'') (ownership_events st)"

definition consents_ok :: "device_state \<Rightarrow> bool" where
  "consents_ok st \<longleftrightarrow> distinct (map co_id (consents st))
     \<and> (\<forall>x \<in> set (consents st). 1 \<le> co_level x \<and> co_level x \<le> 3 \<and> (co_is_active x \<longleftrightarrow> co_revoked_at x = None))
     \<and> (\<forall>x \<in> set (consents st). \<forall>y \<in> set (consents st).
          co_is_active x \<and> co_is_active y \<and> target x = target y \<longrightarrow> x = y)
     \<and> (\<forall>d. grants_of d st = count_rows (\<lambda>c. co_device_id c = d) (consents st)
          \<and> revocations_of d st = count_rows (\<lambda>c. co_device_id c = d \<and> \<not> co_is_active c) (consents st))"

lemma count_rows_put_eq:
  assumes "distinct (map key rs)" "tbl_get key (key r) rs = Some old"
  shows "count_rows P (tbl_put key r rs) + (if P old then 1 else 0)
    = count_rows P rs + (if P r then 1 else 0)"
  using assms
proof (induction rs)
  case (Cons x rs)
  show ?case
  proof (cases "key x = key r")
    case True
    then have "key r \<notin> key ` set rs" using Cons.prems by auto
    then have "tbl_put key r rs = rs" by (rule tbl_put_fresh)
    then show ?thesis using True Cons.prems by (simp add: tbl_put_def tbl_get_Cons)
  next
    case False
    then show ?thesis using Cons by (simp add: tbl_put_def tbl_get_Cons)
  qed
qed simp

text \<open>The two ways a step changes the tables.\<close>

lemma grant_cases:
  obtains "consents (snd (grant_consent env did b u st)) = consents st"
      "ownership_events (snd (grant_consent env did b u st)) = ownership_events st"
  | c e where "1 \<le> co_level c \<and> co_level c \<le> 3" "duplicates did b st = []"
      "c = new_consent env did u b (dv_ids st)" "e = granted_event env did u b (Suc (dv_ids st))"
      "co_id c \<notin> co_id ` set (consents st)"
      "consents (snd (grant_consent env did b u st)) = consents st @ [c]"
      "ownership_events (snd (grant_consent env did b u st)) = ownership_events st @ [e]"
proof (cases "fst (grant_consent env did b u st)")
  case (Inl err)
  then show ?thesis using that(1)
    by (auto simp: grant_consent_def Let_def split: sum.splits list.splits if_splits)
next
  case (Inr r)
  let ?c = "new_consent env did u b (dv_ids st)"
  have "duplicates did b st = []" "cg_level b \<in> set delegatable_levels"
    "tbl_get co_id (co_id ?c) (consents st) = None"
    "consents (snd (grant_consent env did b u st)) = consents st @ [?c]"
    "ownership_events (snd (grant_consent env did b u st)) =
       ownership_events st @ [granted_event env did u b (Suc (dv_ids st))]"
    using Inr by (auto simp: grant_consent_def Let_def split: sum.splits list.splits if_splits)
  then show ?thesis
    using that(2) [of ?c "granted_event env did u b (Suc (dv_ids st))"]
    by (auto simp: new_consent_def delegatable_levels_def tbl_get_None)
qed

lemma revoke_cases:
  obtains "consents (snd (revoke_consent env did cid u st)) = consents st"
      "ownership_events (snd (revoke_consent env did cid u st)) = ownership_events st"
  | c e where "tbl_get co_id cid (consents st) = Some c" "co_device_id c = did" "co_is_active c"
      "e = revoked_event env did u c (dv_ids st)"
      "consents (snd (revoke_consent env did cid u st)) = tbl_put co_id (revoked_consent env c) (consents st)"
      "ownership_events (snd (revoke_consent env did cid u st)) = ownership_events st @ [e]"
proof (cases "fst (revoke_consent env did cid u st)")
  case (Inl err)
  then show ?thesis using that(1)
    by (auto simp: revoke_consent_def Let_def split: sum.splits option.splits if_splits)
next
  case (Inr r)
  then obtain c where "tbl_get co_id cid (consents st) = Some c" "co_device_id c = did" "co_is_active c"
    "consents (snd (revoke_consent env did cid u st)) = tbl_put co_id (revoked_consent env c) (consents st)"
    "ownership_events (snd (revoke_consent env did cid u st)) =
       ownership_events st @ [revoked_event env did u c (dv_ids st)]"
    by (auto simp: revoke_consent_def Let_def split: sum.splits option.splits if_splits)
  then show ?thesis using that(2) by blast
qed

lemma granted_counts:
  assumes "e = granted_event env did u b n"
  shows "count_rows (\<lambda>e. oe_device_id e = d \<and> oe_action e = ''consent_granted'') (es @ [e]) =
      count_rows (\<lambda>e. oe_device_id e = d \<and> oe_action e = ''consent_granted'') es + (if d = did then 1 else 0)"
    "count_rows (\<lambda>e. oe_device_id e = d \<and> oe_action e = ''consent_revoked'') (es @ [e]) =
      count_rows (\<lambda>e. oe_device_id e = d \<and> oe_action e = ''consent_revoked'') es"
  using assms by (simp_all add: granted_event_def)

lemma revoked_counts:
  assumes "e = revoked_event env did u c n"
  shows "count_rows (\<lambda>e. oe_device_id e = d \<and> oe_action e = ''consent_granted'') (es @ [e]) =
      count_rows (\<lambda>e. oe_device_id e = d \<and> oe_action e = ''consent_granted'') es"
    "count_rows (\<lambda>e. oe_device_id e = d \<and> oe_action e = ''consent_revoked'') (es @ [e]) =
      count_rows (\<lambda>e. oe_device_id e = d \<and> oe_action e = ''consent_revoked'') es + (if d = did then 1 else 0)"
  using assms by (simp_all add: revoked_event_def)

lemma same_consents_ok:
  assumes "consents_ok st" "consents st' = consents st" "ownership_events st' = ownership_events st"
  shows "consents_ok st'"
  using assms by (simp add: consents_ok_def grants_of_def revocations_of_def)

lemma grant_ok:
  assumes ok: "consents_ok st" shows "consents_ok (snd (grant_consent env did b u st))"
proof (cases rule: grant_cases [of env did b u st])
  case 1
  then show ?thesis by (rule same_consents_ok [OF ok])
next
  case (2 c e)
  let ?st = "snd (grant_consent env did b u st)"
  have c: "co_device_id c = did" "co_is_active c" "co_revoked_at c = None"
    "target c = (did, cg_granted_to b, cg_granted_to_type b, cg_level b)"
    using 2(3) by (simp_all add: new_consent_def target_def)
  have no: "\<not> (co_is_active x \<and> target x = target c)" if "x \<in> set (consents st)" for x
    using 2(2) c(4) that by (auto simp: duplicates_def filter_empty_conv target_def)
  have "distinct (map co_id (consents ?st))" using ok 2(5,6) by (simp add: consents_ok_def)
  moreover have "\<forall>x \<in> set (consents ?st). 1 \<le> co_level x \<and> co_level x \<le> 3
      \<and> (co_is_active x \<longleftrightarrow> co_revoked_at x = None)"
    using ok 2(1,6) c by (simp add: consents_ok_def)
  moreover have "\<forall>x \<in> set (consents ?st). \<forall>y \<in> set (consents ?st).
      co_is_active x \<and> co_is_active y \<and> target x = target y \<longrightarrow> x = y"
  proof (intro ballI impI)
    fix x y assume x: "x \<in> set (consents ?st)" and y: "y \<in> set (consents ?st)"
      and a: "co_is_active x \<and> co_is_active y \<and> target x = target y"
    have "x \<in> set (consents st) \<or> x = c" "y \<in> set (consents st) \<or> y = c" using x y 2(6) by auto
    then show "x = y" using ok a no [of x] no [of y] unfolding consents_ok_def by metis
  qed
  moreover have "grants_of d ?st = count_rows (\<lambda>c. co_device_id c = d) (consents ?st)
      \<and> revocations_of d ?st = count_rows (\<lambda>c. co_device_id c = d \<and> \<not> co_is_active c) (consents ?st)" for d
  proof -
    have "grants_of d st = count_rows (\<lambda>c. co_device_id c = d) (consents st)"
      "revocations_of d st = count_rows (\<lambda>c. co_device_id c = d \<and> \<not> co_is_active c) (consents st)"
      using ok by (simp_all add: consents_ok_def)
    then show ?thesis
      using granted_counts [OF 2(4), of d "ownership_events st"] c
      by (simp add: grants_of_def revocations_of_def 2(6,7) del: count_rows_append)
        (simp add: count_rows_append)
  qed
  ultimately show ?thesis unfolding consents_ok_def by blast
qed

lemma revoke_ok:
  assumes ok: "consents_ok st" shows "consents_ok (snd (revoke_consent env did cid u st))"
proof (cases rule: revoke_cases [of env did cid u st])
  case 1
  then show ?thesis by (rule same_consents_ok [OF ok])
next
  case (2 c e)
  let ?st = "snd (revoke_consent env did cid u st)" and ?c = "revoked_consent env c"
  have c: "co_device_id ?c = did" "\<not> co_is_active ?c" "co_revoked_at ?c \<noteq> None" "co_level ?c = co_level c"
    "co_id ?c = co_id c"
    using 2(2) by (simp_all add: revoked_consent_def)
  have mem: "c \<in> set (consents st)" using 2(1) by (rule tbl_get_mem)
  have d: "distinct (map co_id (consents st))" using ok by (simp add: consents_ok_def)
  have get: "tbl_get co_id (co_id ?c) (consents st) = Some c" using tbl_get_distinct [OF d mem] c(5) by simp
  have rows: "x \<in> set (consents st) \<or> x = ?c" if "x \<in> set (consents ?st)" for x
    using that set_tbl_put [of co_id ?c "consents st"] 2(5) by auto
  have "distinct (map co_id (consents ?st))" using d 2(5) by simp
  moreover have "\<forall>x \<in> set (consents ?st). 1 \<le> co_level x \<and> co_level x \<le> 3
      \<and> (co_is_active x \<longleftrightarrow> co_revoked_at x = None)"
  proof
    fix x assume "x \<in> set (consents ?st)"
    then have "x \<in> set (consents st) \<or> x = ?c" by (rule rows)
    then show "1 \<le> co_level x \<and> co_level x \<le> 3 \<and> (co_is_active x \<longleftrightarrow> co_revoked_at x = None)"
      using ok mem c unfolding consents_ok_def by metis
  qed
  moreover have "\<forall>x \<in> set (consents ?st). \<forall>y \<in> set (consents ?st).
      co_is_active x \<and> co_is_active y \<and> target x = target y \<longrightarrow> x = y"
  proof (intro ballI impI)
    fix x y assume x: "x \<in> set (consents ?st)" and y: "y \<in> set (consents ?st)"
      and a: "co_is_active x \<and> co_is_active y \<and> target x = target y"
    then have "x \<in> set (consents st)" "y \<in> set (consents st)" using rows c(2) by blast+
    then show "x = y" using ok a unfolding consents_ok_def by blast
  qed
  moreover have "grants_of k ?st = count_rows (\<lambda>c. co_device_id c = k) (consents ?st)
      \<and> revocations_of k ?st = count_rows (\<lambda>c. co_device_id c = k \<and> \<not> co_is_active c) (consents ?st)" for k
  proof -
    have old: "grants_of k st = count_rows (\<lambda>c. co_device_id c = k) (consents st)"
      "revocations_of k st = count_rows (\<lambda>c. co_device_id c = k \<and> \<not> co_is_active c) (consents st)"
      using ok by (simp_all add: consents_ok_def)
    show ?thesis
      using old revoked_counts [OF 2(4), of k "ownership_events st"] c 2(2,3)
        count_rows_put_eq [OF d get, of "\<lambda>c. co_device_id c = k"]
        count_rows_put_eq [OF d get, of "\<lambda>c. co_device_id c = k \<and> \<not> co_is_active c"]
      by (simp add: grants_of_def revocations_of_def 2(5,6) del: count_rows_append split: if_splits)
  qed
  ultimately show ?thesis unfolding consents_ok_def by blast
qed

lemma consent_reach_ok: "consent_reach st \<Longrightarrow> consents_ok st"
proof (induction rule: consent_reach.induct)
  case (start st)
  then show ?case by (simp add: consents_ok_def grants_of_def revocations_of_def)
next
  case (step st st')
  from step.hyps(2) step.IH show ?case
    by (cases rule: consent_step.cases) (simp_all add: grant_ok revoke_ok)
qed

subsection \<open>Properties\<close>

text \<open>C20. Consents are accountable: in every state that grants and revocations reach from an empty
  table a target has at most one active consent per device and level, every consent has a level from
  1 to 3 and is active exactly when it was never revoked, and the trail of a device has one
  consent_granted event per consent and one consent_revoked event per consent that is not active.\<close>

theorem consents_accountable:
  assumes "consent_reach st" "x \<in> set (consents st)" "y \<in> set (consents st)"
  shows "1 \<le> co_level x \<and> co_level x \<le> 3 \<and> (co_is_active x \<longleftrightarrow> co_revoked_at x = None)
    \<and> (co_is_active x \<and> co_is_active y \<and> target x = target y \<longrightarrow> x = y)
    \<and> grants_of d st = count_rows (\<lambda>c. co_device_id c = d) (consents st)
    \<and> revocations_of d st = count_rows (\<lambda>c. co_device_id c = d \<and> \<not> co_is_active c) (consents st)"
  using consent_reach_ok [OF assms(1)] assms(2,3) unfolding consents_ok_def by blast

definition demo_owner :: device_user where
  "demo_owner = \<lparr>user_id = ''ann'', tenant_id = ''t1'', roles = [], du_is_operator = False\<rparr>"

definition demo_consent_state :: device_state where
  "demo_consent_state = snd (revoke_consent (demo_device_env 2) ''d1'' ''u0'' demo_owner
     (snd (grant_consent (demo_device_env 1) ''d1''
       \<lparr>cg_granted_to = ''bob'', cg_granted_to_type = ''user'', cg_level = 2\<rparr> demo_owner demo_shadow_start)))"

lemma demo_consent_reach: "consent_reach demo_consent_state"
proof -
  have "consent_reach demo_shadow_start"
    by (rule consent_reach.start) (simp_all add: demo_shadow_start_def empty_device_state_def)
  then have "consent_reach (snd (grant_consent (demo_device_env 1) ''d1''
       \<lparr>cg_granted_to = ''bob'', cg_granted_to_type = ''user'', cg_level = 2\<rparr> demo_owner demo_shadow_start))"
    by (rule consent_reach.step) (rule consent_step.grant)
  then show ?thesis unfolding demo_consent_state_def by (rule consent_reach.step) (rule consent_step.revoke)
qed

definition demo_consent :: device_consent where
  "demo_consent = \<lparr>co_id = ''u0'', co_device_id = ''d1'', co_granted_by = ''ann'', co_granted_to = ''bob'',
     co_granted_to_type = ''user'', co_level = 2, co_granted_at = 1, co_revoked_at = Some 2, co_is_active = False\<rparr>"

theorem consents_accountable_witness:
  "revocations_of ''d1'' demo_consent_state = 1"
proof -
  have rows: "consents demo_consent_state = [demo_consent]" by code_simp
  then have "demo_consent \<in> set (consents demo_consent_state)" by simp
  from consents_accountable [OF demo_consent_reach this this, of "''d1''"] rows
  show ?thesis by (simp add: demo_consent_def)
qed

end
