(* ===== verification/Plugins.thy ===== *)
theory Plugins
  imports AuthContext InternalAuth
begin

text \<open>
  The plugin service (\<open>services/plugin-service\<close>): the registry of plugins and functions with its
  life cycle draft, active, deprecated, the security scan, and the tenant checks. String and number
  fields of a body are typed; columns that hold JSON text keep the value, \<open>JNull\<close> being the text
  "null". The response of a handler is the row it leaves.
\<close>

record plugin =
  pl_id :: string
  pl_name :: string
  pl_version :: string
  pl_module_type :: string
  pl_status :: string
  pl_artifact_uri :: "string option"
  pl_artifact_checksum :: "string option"
  pl_runtime_type :: "string option"
  pl_entrypoint :: "string option"
  pl_timeout_seconds :: "int option"
  pl_memory_limit_mb :: "int option"
  pl_permissions :: "json option"
  pl_required_capabilities :: "json option"
  pl_input_schema :: "json option"
  pl_env_schema :: "json option"
  pl_sbom_uri :: "string option"
  pl_scan_tool :: "string option"
  pl_scan_status :: "string option"
  pl_scan_summary :: "json option"
  pl_scanned_at :: "int option"
  pl_owner_id :: "string option"
  pl_tenant_id :: "string option"
  pl_created_at :: "int option"
  pl_updated_at :: "int option"

record plugin_state =
  plugins :: "plugin list"
  pl_audit :: "audit_event list"
  pl_ids :: nat

record plugin_cfg =
  pc_auth :: auth_settings
  pc_internal :: internal_cfg
  pc_scan_required :: bool
  pc_max_critical :: int
  pc_max_high :: int

record plugin_env =
  pe_now :: int
  pe_now_text :: string
  pe_uuid4 :: "nat \<Rightarrow> string"
  pe_correlation_id :: "string option"

subsection \<open>Serialisation\<close>

definition json_or :: "json option \<Rightarrow> json \<Rightarrow> json" where
  "json_or v d = (case v of None \<Rightarrow> d | Some x \<Rightarrow> x)"

definition jint :: "int option \<Rightarrow> json" where
  "jint v = (case v of None \<Rightarrow> JNull | Some i \<Rightarrow> JInt i)"

definition plugin_to_dict :: "plugin \<Rightarrow> dict" where
  "plugin_to_dict p =
    [(''id'', JStr (pl_id p)), (''name'', JStr (pl_name p)), (''version'', JStr (pl_version p)),
     (''module_type'', JStr (if pl_module_type p = [] then ''plugin'' else pl_module_type p)),
     (''status'', JStr (if pl_status p = [] then ''draft'' else pl_status p)),
     (''artifact_uri'', jstr (pl_artifact_uri p)), (''artifact_checksum'', jstr (pl_artifact_checksum p)),
     (''runtime_type'', jstr (pl_runtime_type p)), (''entrypoint'', jstr (pl_entrypoint p)),
     (''timeout_seconds'', jint (pl_timeout_seconds p)), (''memory_limit_mb'', jint (pl_memory_limit_mb p)),
     (''permissions'', json_or (pl_permissions p) (JArr [])),
     (''required_capabilities'', json_or (pl_required_capabilities p) (JArr [])),
     (''input_schema'', json_or (pl_input_schema p) JNull), (''env_schema'', json_or (pl_env_schema p) JNull),
     (''sbom_uri'', jstr (pl_sbom_uri p)), (''security_scan_tool'', jstr (pl_scan_tool p)),
     (''security_scan_status'', JStr (sor (pl_scan_status p) ''pending'')),
     (''security_scan_summary'', json_or (pl_scan_summary p) JNull), (''scanned_at'', jtime (pl_scanned_at p)),
     (''owner_id'', jstr (pl_owner_id p)), (''tenant_id'', jstr (pl_tenant_id p)),
     (''created_at'', jtime (pl_created_at p)), (''updated_at'', jtime (pl_updated_at p))]"

subsection \<open>Reading\<close>

definition list_plugins :: "plugin_cfg \<Rightarrow> current_user \<Rightarrow> string option \<Rightarrow> plugin_state \<Rightarrow> dict list" where
  "list_plugins cfg u wanted_tenant st =
     map plugin_to_dict (filter (\<lambda>p.
       if is_platform_admin (pc_auth cfg) u
       then nonempty wanted_tenant \<longrightarrow> pl_tenant_id p = wanted_tenant
       else pl_tenant_id p = Some (tenant_id u)) (plugins st))"

definition list_functions :: "plugin_cfg \<Rightarrow> current_user \<Rightarrow> plugin_state \<Rightarrow> dict list" where
  "list_functions cfg u st =
     map plugin_to_dict (filter (\<lambda>p. pl_module_type p = ''function'' \<and>
       (is_platform_admin (pc_auth cfg) u \<or> pl_tenant_id p = Some (tenant_id u))) (plugins st))"

text \<open>The alias calls \<open>list_plugins\<close> without its query parameter, which then is FastAPI's
  \<open>Query\<close> object: it counts as true, and the database refuses it as a parameter.\<close>

definition list_modules :: "plugin_cfg \<Rightarrow> current_user \<Rightarrow> plugin_state \<Rightarrow> dict list res" where
  "list_modules cfg u st =
     (if is_platform_admin (pc_auth cfg) u then Inl (PyExc ''InterfaceError'')
      else Inr (list_plugins cfg u None st))"

definition find_plugin :: "string \<Rightarrow> plugin_state \<Rightarrow> plugin option" where
  "find_plugin i st = tbl_get pl_id i (plugins st)"

definition plugin_not_found :: error where
  "plugin_not_found = http 404 ''plugin not found''"

text \<open>The row, if the caller may see it: no tenant, the own tenant, or a platform administrator.\<close>

definition visible_plugin :: "plugin_cfg \<Rightarrow> current_user \<Rightarrow> string \<Rightarrow> plugin_state \<Rightarrow> plugin res" where
  "visible_plugin cfg u i st =
     (case find_plugin i st of
        None \<Rightarrow> Inl plugin_not_found
      | Some p \<Rightarrow>
          if nonempty (pl_tenant_id p) \<and> pl_tenant_id p \<noteq> Some (tenant_id u)
             \<and> \<not> is_platform_admin (pc_auth cfg) u
          then Inl plugin_not_found else Inr p)"

definition get_plugin ::
  "plugin_cfg \<Rightarrow> string option \<Rightarrow> current_user \<Rightarrow> string \<Rightarrow> plugin_state \<Rightarrow> dict res" where
  "get_plugin cfg x_internal_key u i st =
     (if valid_internal_key (pc_internal cfg) x_internal_key
      then (case find_plugin i st of None \<Rightarrow> Inl plugin_not_found | Some p \<Rightarrow> Inr (plugin_to_dict p))
      else map_sum id plugin_to_dict (visible_plugin cfg u i st))"

definition get_plugin_schema :: "plugin_cfg \<Rightarrow> current_user \<Rightarrow> string \<Rightarrow> plugin_state \<Rightarrow> json res" where
  "get_plugin_schema cfg u i st =
     map_sum id (\<lambda>p. json_or (pl_input_schema p) (JObj [])) (visible_plugin cfg u i st)"

subsection \<open>Changing\<close>

definition plugin_audit ::
  "plugin_env \<Rightarrow> current_user \<Rightarrow> string \<Rightarrow> string \<Rightarrow> string option \<Rightarrow> plugin_state \<Rightarrow> plugin_state" where
  "plugin_audit env u action i tenant st =
     st\<lparr>pl_audit := pl_audit st @ [make_audit_event (pe_now_text env) ''plugin-service'' action ''plugin''
        (Some i) tenant \<lparr>actor_user_id = Some (user_id u), actor_tenant_id = Some (tenant_id u),
          actor_roles = roles u, actor_correlation_id = pe_correlation_id env\<rparr> ''success'' None]\<rparr>"

definition put_plugin :: "plugin \<Rightarrow> plugin_state \<Rightarrow> plugin_state" where
  "put_plugin p st = st\<lparr>plugins := tbl_put pl_id p (plugins st)\<rparr>"

record plugin_create =
  pp_name :: "string option"
  pp_version :: "string field"
  pp_module_type :: "string field"
  pp_artifact_uri :: "string option"
  pp_artifact_checksum :: "string option"
  pp_runtime_type :: "string option"
  pp_entrypoint :: "string option"
  pp_timeout_seconds :: "int field"
  pp_memory_limit_mb :: "int field"
  pp_permissions :: json
  pp_required_capabilities :: json
  pp_input_schema :: json
  pp_env_schema :: json

definition new_plugin ::
  "plugin_env \<Rightarrow> current_user \<Rightarrow> plugin_create \<Rightarrow> string \<Rightarrow> string \<Rightarrow> string \<Rightarrow> string \<Rightarrow> plugin" where
  "new_plugin env u b i name version module_type =
     \<lparr>pl_id = i, pl_name = name, pl_version = version, pl_module_type = module_type,
      pl_status = ''draft'', pl_artifact_uri = pp_artifact_uri b,
      pl_artifact_checksum = pp_artifact_checksum b, pl_runtime_type = pp_runtime_type b,
      pl_entrypoint = pp_entrypoint b,
      pl_timeout_seconds = fget_or (pp_timeout_seconds b) (Some 30),
      pl_memory_limit_mb = fget_or (pp_memory_limit_mb b) (Some 64),
      pl_permissions = Some (jor (pp_permissions b) (JArr [])),
      pl_required_capabilities = Some (jor (pp_required_capabilities b) (JArr [])),
      pl_input_schema = (if truthy (pp_input_schema b) then Some (pp_input_schema b) else None),
      pl_env_schema = (if truthy (pp_env_schema b) then Some (pp_env_schema b) else None),
      pl_sbom_uri = None, pl_scan_tool = None, pl_scan_status = Some ''pending'',
      pl_scan_summary = None, pl_scanned_at = None, pl_owner_id = Some (user_id u),
      pl_tenant_id = Some (tenant_id u), pl_created_at = Some (pe_now env), pl_updated_at = Some (pe_now env)\<rparr>"

text \<open>A null version or module type fails at commit, as a clash of ids does.\<close>

definition create_plugin ::
  "plugin_env \<Rightarrow> current_user \<Rightarrow> plugin_create \<Rightarrow> plugin_state \<Rightarrow> dict res \<times> plugin_state" where
  "create_plugin env u b st =
     (if \<not> nonempty (pp_name b) then (Inl (http 400 ''name is required''), st)
      else let i = pe_uuid4 env (pl_ids st); st1 = st\<lparr>pl_ids := Suc (pl_ids st)\<rparr>
           in case (fget_or (pp_version b) (Some ''0.1.0''), fget_or (pp_module_type b) (Some ''plugin'')) of
                (Some v, Some m) \<Rightarrow>
                  if find_plugin i st \<noteq> None then (Inl (PyExc ''IntegrityError''), st1)
                  else let p = new_plugin env u b i (the (pp_name b)) v m
                       in (Inr (plugin_to_dict p),
                           plugin_audit env u ''plugin.created'' i (pl_tenant_id p)
                             (st1\<lparr>plugins := tbl_add p (plugins st)\<rparr>))
              | _ \<Rightarrow> (Inl (PyExc ''IntegrityError''), st1))"

text \<open>The common shape of the handlers that change a visible row: find, check, change, commit,
  audit.\<close>

definition change_plugin ::
  "plugin_cfg \<Rightarrow> plugin_env \<Rightarrow> current_user \<Rightarrow> string \<Rightarrow> string \<Rightarrow> (plugin \<Rightarrow> plugin res) \<Rightarrow>
     plugin_state \<Rightarrow> dict res \<times> plugin_state" where
  "change_plugin cfg env u action i f st =
     (case visible_plugin cfg u i st of
        Inl err \<Rightarrow> (Inl err, st)
      | Inr p \<Rightarrow>
          case f p of
            Inl err \<Rightarrow> (Inl err, st)
          | Inr p1 \<Rightarrow>
              let p2 = p1\<lparr>pl_updated_at := Some (pe_now env)\<rparr>
              in (Inr (plugin_to_dict p2), plugin_audit env u action i (pl_tenant_id p2) (put_plugin p2 st)))"

record plugin_patch =
  pu_name :: "string option"
  pu_version :: "string option"
  pu_artifact_uri :: "string option"
  pu_artifact_checksum :: "string option"
  pu_runtime_type :: "string option"
  pu_entrypoint :: "string option"
  pu_timeout_seconds :: "int option"
  pu_memory_limit_mb :: "int option"
  pu_permissions :: "json field"
  pu_required_capabilities :: "json field"
  pu_input_schema :: "json field"
  pu_env_schema :: "json field"
  pu_sbom_uri :: "string field"

definition or_old :: "'a option \<Rightarrow> 'a option \<Rightarrow> 'a option" where
  "or_old v old = (case v of None \<Rightarrow> old | Some x \<Rightarrow> Some x)"

definition json_field :: "json field \<Rightarrow> json option \<Rightarrow> json option" where
  "json_field f old = (case f of Absent \<Rightarrow> old | Null \<Rightarrow> Some JNull | Val v \<Rightarrow> Some v)"

definition patched :: "plugin_patch \<Rightarrow> plugin \<Rightarrow> plugin res" where
  "patched b p =
     (if pl_status p \<noteq> ''draft'' then Inl (http 409 ''only draft plugins can be updated'')
      else Inr (p\<lparr>pl_name := the (or_old (pu_name b) (Some (pl_name p))),
        pl_version := the (or_old (pu_version b) (Some (pl_version p))),
        pl_artifact_uri := or_old (pu_artifact_uri b) (pl_artifact_uri p),
        pl_artifact_checksum := or_old (pu_artifact_checksum b) (pl_artifact_checksum p),
        pl_runtime_type := or_old (pu_runtime_type b) (pl_runtime_type p),
        pl_entrypoint := or_old (pu_entrypoint b) (pl_entrypoint p),
        pl_timeout_seconds := or_old (pu_timeout_seconds b) (pl_timeout_seconds p),
        pl_memory_limit_mb := or_old (pu_memory_limit_mb b) (pl_memory_limit_mb p),
        pl_permissions := json_field (pu_permissions b) (pl_permissions p),
        pl_required_capabilities := json_field (pu_required_capabilities b) (pl_required_capabilities p),
        pl_input_schema := json_field (pu_input_schema b) (pl_input_schema p),
        pl_env_schema := json_field (pu_env_schema b) (pl_env_schema p),
        pl_sbom_uri := fget_or (pu_sbom_uri b) (pl_sbom_uri p)\<rparr>))"

definition update_plugin ::
  "plugin_cfg \<Rightarrow> plugin_env \<Rightarrow> current_user \<Rightarrow> string \<Rightarrow> plugin_patch \<Rightarrow> plugin_state \<Rightarrow>
     dict res \<times> plugin_state" where
  "update_plugin cfg env u i b st = change_plugin cfg env u ''plugin.updated'' i (patched b) st"

definition delete_plugin ::
  "plugin_cfg \<Rightarrow> plugin_env \<Rightarrow> current_user \<Rightarrow> string \<Rightarrow> plugin_state \<Rightarrow> unit res \<times> plugin_state" where
  "delete_plugin cfg env u i st =
     (case visible_plugin cfg u i st of
        Inl err \<Rightarrow> (Inl err, st)
      | Inr p \<Rightarrow> (Inr (), plugin_audit env u ''plugin.deleted'' i (pl_tenant_id p)
          (st\<lparr>plugins := tbl_del pl_id i (plugins st)\<rparr>)))"

definition current_status :: "plugin \<Rightarrow> string" where
  "current_status p = (if pl_status p = [] then ''draft'' else pl_status p)"

definition activated :: "plugin_cfg \<Rightarrow> plugin \<Rightarrow> plugin res" where
  "activated cfg p =
     (if current_status p \<noteq> ''draft''
      then Inl (Http 409 [JStr ''cannot activate from status '', JStr (current_status p)])
      else if pl_module_type p = ''function'' \<and> \<not> nonempty (pl_artifact_uri p)
      then Inl (http 400 ''artifact_uri required to activate a function'')
      else if pl_module_type p = ''function'' \<and> \<not> nonempty (pl_entrypoint p)
      then Inl (http 400 ''entrypoint required to activate a function'')
      else if pl_module_type p = ''function'' \<and> pc_scan_required cfg \<and> \<not> nonempty (pl_sbom_uri p)
      then Inl (http 400 ''sbom_uri required before activating a function'')
      else if pl_module_type p = ''function'' \<and> pc_scan_required cfg
              \<and> sor (pl_scan_status p) ''pending'' \<noteq> ''passed''
      then Inl (http 409 ''security scan must pass before activating a function'')
      else Inr (p\<lparr>pl_status := ''active''\<rparr>))"

definition activate_plugin ::
  "plugin_cfg \<Rightarrow> plugin_env \<Rightarrow> current_user \<Rightarrow> string \<Rightarrow> plugin_state \<Rightarrow> dict res \<times> plugin_state" where
  "activate_plugin cfg env u i st = change_plugin cfg env u ''plugin.activated'' i (activated cfg) st"

definition deprecated :: "plugin \<Rightarrow> plugin res" where
  "deprecated p =
     (if current_status p \<noteq> ''active'' then Inl (http 409 ''only active plugins can be deprecated'')
      else Inr (p\<lparr>pl_status := ''deprecated''\<rparr>))"

definition deprecate_plugin ::
  "plugin_cfg \<Rightarrow> plugin_env \<Rightarrow> current_user \<Rightarrow> string \<Rightarrow> plugin_state \<Rightarrow> dict res \<times> plugin_state" where
  "deprecate_plugin cfg env u i st = change_plugin cfg env u ''plugin.deprecated'' i deprecated st"

subsection \<open>The security scan\<close>

text \<open>\<open>int(raw.get(k, 0) or 0)\<close> for the five severities.\<close>

definition severities :: "string list" where
  "severities = [''critical'', ''high'', ''medium'', ''low'', ''unknown'']"

definition severity_count :: "json \<Rightarrow> string \<Rightarrow> int res" where
  "severity_count raw k =
     (case raw of
        JObj d \<Rightarrow> py_int (jor (dget_or d k (JInt 0)) (JInt 0))
      | _ \<Rightarrow> Inl (PyExc ''AttributeError''))"

definition normalize_severity_counts :: "json \<Rightarrow> int list res" where
  "normalize_severity_counts vulnerability_counts =
     (case map_res (severity_count (jor vulnerability_counts (JObj []))) severities of
        Inl err \<Rightarrow> Inl err
      | Inr ns \<Rightarrow> if list_ex (\<lambda>n. n < 0) ns
                 then Inl (http 400 ''vulnerability counts must be >= 0'') else Inr ns)"

definition scan_verdict :: "plugin_cfg \<Rightarrow> int list \<Rightarrow> string" where
  "scan_verdict cfg ns =
     (case ns of
        critical # high # rest \<Rightarrow>
          if pc_max_critical cfg < critical then ''failed''
          else if pc_max_high cfg < high then ''failed'' else ''passed''
      | _ \<Rightarrow> ''failed'')"

definition valid_scan_statuses :: "string list" where
  "valid_scan_statuses = [''pending'', ''passed'', ''failed'']"

record scan_payload =
  sp_scan_tool :: "string option"
  sp_status :: "string option"
  sp_vulnerability_counts :: json
  sp_sbom_uri :: "string option"

definition scan_status :: "plugin_cfg \<Rightarrow> scan_payload \<Rightarrow> int list \<Rightarrow> string" where
  "scan_status cfg b ns =
     (case sp_status b of
        Some s \<Rightarrow> if s = [] then scan_verdict cfg ns else lower (strip s)
      | None \<Rightarrow> scan_verdict cfg ns)"

definition scan_summary :: "plugin_cfg \<Rightarrow> int list \<Rightarrow> string \<Rightarrow> json" where
  "scan_summary cfg ns status =
     JObj [(''vulnerability_counts'', JObj (zip severities (map JInt ns))),
       (''max_allowed'', JObj [(''critical'', JInt (pc_max_critical cfg)), (''high'', JInt (pc_max_high cfg))]),
       (''verdict'', JStr status)]"

definition scanned :: "plugin_cfg \<Rightarrow> plugin_env \<Rightarrow> scan_payload \<Rightarrow> int list \<Rightarrow> string \<Rightarrow> plugin \<Rightarrow> plugin res" where
  "scanned cfg env b ns status p =
     Inr (p\<lparr>pl_sbom_uri := (if nonempty (sp_sbom_uri b) then sp_sbom_uri b else pl_sbom_uri p),
       pl_scan_tool := Some (strip (sor (sp_scan_tool b) ''unknown'')),
       pl_scan_status := Some status, pl_scan_summary := Some (scan_summary cfg ns status),
       pl_scanned_at := Some (pe_now env)\<rparr>)"

definition record_plugin_security_scan ::
  "plugin_cfg \<Rightarrow> plugin_env \<Rightarrow> current_user \<Rightarrow> string \<Rightarrow> scan_payload \<Rightarrow> plugin_state \<Rightarrow>
     dict res \<times> plugin_state" where
  "record_plugin_security_scan cfg env u i b st =
     (case normalize_severity_counts (sp_vulnerability_counts b) of
        Inl err \<Rightarrow> (Inl err, st)
      | Inr ns \<Rightarrow>
          let status = scan_status cfg b ns
          in if status \<notin> set valid_scan_statuses
             then (Inl (http 400 ''status must be pending|passed|failed''), st)
             else change_plugin cfg env u ''plugin.security_scanned'' i (scanned cfg env b ns status) st)"

inductive plugin_step :: "plugin_cfg \<Rightarrow> current_user \<Rightarrow> plugin_state \<Rightarrow> plugin_state \<Rightarrow> bool" for cfg u where
  create: "plugin_step cfg u st (snd (create_plugin env u b st))"
| update: "plugin_step cfg u st (snd (update_plugin cfg env u i b st))"
| delete: "plugin_step cfg u st (snd (delete_plugin cfg env u i st))"
| activate: "plugin_step cfg u st (snd (activate_plugin cfg env u i st))"
| deprecate: "plugin_step cfg u st (snd (deprecate_plugin cfg env u i st))"
| scan: "plugin_step cfg u st (snd (record_plugin_security_scan cfg env u i s st))"

end
