(* ===== verification/PluginProperties.thy ===== *)
theory PluginProperties
  imports Plugins
begin

text \<open>
  The registry as a keyed store; the life cycle of a plugin, what activation demands, tenant
  isolation of changes, and that a scan's requested status wins over its counts.
\<close>

interpretation plugin_rows: keyed_store "tbl_get pl_id" "tbl_put pl_id" tbl_add "tbl_del pl_id" pl_id
  by (rule keyed_table)

definition may_change :: "plugin_cfg \<Rightarrow> current_user \<Rightarrow> plugin \<Rightarrow> bool" where
  "may_change cfg u p \<longleftrightarrow>
     \<not> nonempty (pl_tenant_id p) \<or> pl_tenant_id p = Some (tenant_id u) \<or> is_platform_admin (pc_auth cfg) u"

text \<open>A function that may become active.\<close>

definition releasable :: "plugin_cfg \<Rightarrow> plugin \<Rightarrow> bool" where
  "releasable cfg p \<longleftrightarrow> (pl_module_type p = ''function'' \<longrightarrow>
     nonempty (pl_artifact_uri p) \<and> nonempty (pl_entrypoint p)
   \<and> (pc_scan_required cfg \<longrightarrow> nonempty (pl_sbom_uri p) \<and> pl_scan_status p = Some ''passed''))"

text \<open>What the code of a function is: it must not change once the function has left draft.\<close>

definition code_of :: "plugin \<Rightarrow> string option \<times> string option \<times> string option \<times> string option \<times> string" where
  "code_of p = (pl_artifact_uri p, pl_artifact_checksum p, pl_runtime_type p, pl_entrypoint p, pl_version p)"

definition lawful :: "plugin_cfg \<Rightarrow> plugin \<Rightarrow> plugin \<Rightarrow> bool" where
  "lawful cfg p q \<longleftrightarrow> pl_id q = pl_id p \<and> pl_tenant_id q = pl_tenant_id p \<and> pl_owner_id q = pl_owner_id p
   \<and> (current_status q = current_status p
      \<or> (current_status p = ''draft'' \<and> current_status q = ''active'' \<and> releasable cfg q)
      \<or> (current_status p = ''active'' \<and> current_status q = ''deprecated''))
   \<and> (current_status p \<noteq> ''draft'' \<longrightarrow> code_of q = code_of p)"

lemma visible_may_change:
  "visible_plugin cfg u i st = Inr p \<Longrightarrow> find_plugin i st = Some p \<and> may_change cfg u p"
  by (auto simp: visible_plugin_def may_change_def split: option.splits if_splits)

lemma find_plugin_id: "find_plugin i st = Some p \<Longrightarrow> pl_id p = i"
  unfolding find_plugin_def by (rule tbl_get_key)

lemma find_audit [frame_simps]: "find_plugin j (plugin_audit env u a i t st) = find_plugin j st"
  by (simp add: find_plugin_def plugin_audit_def)

lemma find_put_plugin:
  "find_plugin j (put_plugin p st) =
     (if pl_id p = j then (case find_plugin j st of None \<Rightarrow> None | Some _ \<Rightarrow> Some p) else find_plugin j st)"
  by (simp add: find_plugin_def put_plugin_def tbl_get_put)

text \<open>A handler of the common shape leaves a row alone or changes a row of the caller's the way its
  check allows.\<close>

lemma change_plugin_row:
  assumes "find_plugin j st = Some p" "\<And>x y. f x = Inr y \<Longrightarrow> lawful cfg x (y\<lparr>pl_updated_at := t\<rparr>)"
    "t = Some (pe_now env)"
  shows "\<exists>q. find_plugin j (snd (change_plugin cfg env u a i f st)) = Some q
    \<and> (q = p \<or> may_change cfg u p \<and> lawful cfg p q)"
proof (cases "visible_plugin cfg u i st")
  case (Inl err)
  then show ?thesis using assms(1) by (simp add: change_plugin_def)
next
  case (Inr x)
  then have x: "find_plugin i st = Some x" "may_change cfg u x" using visible_may_change by blast+
  show ?thesis
  proof (cases "f x")
    case (Inl err)
    then show ?thesis using Inr assms(1) by (simp add: change_plugin_def)
  next
    case (Inr y)
    let ?q = "y\<lparr>pl_updated_at := t\<rparr>"
    have law: "lawful cfg x ?q" by (rule assms(2) [OF Inr])
    then have id: "pl_id ?q = i" using find_plugin_id [OF x(1)] by (simp add: lawful_def)
    have st: "snd (change_plugin cfg env u a i f st) = plugin_audit env u a i (pl_tenant_id ?q) (put_plugin ?q st)"
      using \<open>visible_plugin cfg u i st = Inr x\<close> Inr assms(3) by (simp add: change_plugin_def Let_def)
    show ?thesis
    proof (cases "j = i")
      case True
      then have "p = x" using assms(1) x(1) by simp
      then show ?thesis using st id True x law assms(1) by (simp add: frame_simps find_put_plugin)
    next
      case False
      then show ?thesis using st id assms(1) by (simp add: frame_simps find_put_plugin)
    qed
  qed
qed

lemma patched_lawful:
  assumes "patched b x = Inr y" shows "lawful cfg x (y\<lparr>pl_updated_at := t\<rparr>)"
  using assms by (auto simp: patched_def lawful_def current_status_def split: if_splits)

lemma activated_lawful:
  assumes "activated cfg x = Inr y" shows "lawful cfg x (y\<lparr>pl_updated_at := t\<rparr>)"
proof -
  have "current_status x = ''draft''" "y = x\<lparr>pl_status := ''active''\<rparr>" "releasable cfg x"
    using assms by (auto simp: activated_def releasable_def sor_def split: if_splits option.splits)
  then show ?thesis by (simp add: lawful_def current_status_def releasable_def)
qed

lemma deprecated_lawful:
  assumes "deprecated x = Inr y" shows "lawful cfg x (y\<lparr>pl_updated_at := t\<rparr>)"
  using assms by (auto simp: deprecated_def lawful_def current_status_def code_of_def split: if_splits)

lemma scanned_lawful:
  assumes "scanned cfg env b ns status x = Inr y" shows "lawful cfg x (y\<lparr>pl_updated_at := t\<rparr>)"
  using assms by (auto simp: scanned_def lawful_def current_status_def code_of_def)

lemma step_row:
  assumes "plugin_step cfg u st st'" "find_plugin j st = Some p"
  shows "case find_plugin j st' of None \<Rightarrow> may_change cfg u p
    | Some q \<Rightarrow> q = p \<or> may_change cfg u p \<and> lawful cfg p q"
  using assms
proof (cases rule: plugin_step.cases)
  case (create env b)
  have "find_plugin j st' = Some p"
    using assms(2) unfolding create
    by (auto simp: create_plugin_def Let_def find_plugin_def plugin_audit_def tbl_get_add
        split: option.splits)
  then show ?thesis by simp
next
  case (update env i b)
  show ?thesis unfolding update update_plugin_def
    using change_plugin_row [of j st p "patched b" cfg "Some (pe_now env)" env u "''plugin.updated''" i] assms(2)
      patched_lawful by auto
next
  case (delete env i)
  show ?thesis
  proof (cases "visible_plugin cfg u i st")
    case (Inl err)
    then show ?thesis using assms(2) by (simp add: delete delete_plugin_def)
  next
    case (Inr x)
    then have "j = i \<Longrightarrow> may_change cfg u p" using visible_may_change assms(2) by fastforce
    moreover have "find_plugin j st' = (if j = i then None else find_plugin j st)"
      using Inr by (simp add: delete delete_plugin_def find_plugin_def plugin_audit_def tbl_get_del)
    ultimately show ?thesis using assms(2) by simp
  qed
next
  case (activate env i)
  show ?thesis unfolding activate activate_plugin_def
    using change_plugin_row [of j st p "activated cfg" cfg "Some (pe_now env)" env u "''plugin.activated''" i] assms(2)
      activated_lawful by auto
next
  case (deprecate env i)
  show ?thesis unfolding deprecate deprecate_plugin_def
    using change_plugin_row [of j st p deprecated cfg "Some (pe_now env)" env u "''plugin.deprecated''" i] assms(2)
      deprecated_lawful by auto
next
  case (scan env i b)
  show ?thesis
  proof (cases "\<exists>ns. normalize_severity_counts (sp_vulnerability_counts b) = Inr ns
      \<and> scan_status cfg b ns \<in> set valid_scan_statuses")
    case True
    then obtain ns where ns: "normalize_severity_counts (sp_vulnerability_counts b) = Inr ns"
      "scan_status cfg b ns \<in> set valid_scan_statuses" by blast
    show ?thesis
      using change_plugin_row [of j st p "scanned cfg env b ns (scan_status cfg b ns)" cfg "Some (pe_now env)" env u
          "''plugin.security_scanned''" i] assms(2) scanned_lawful ns
      by (auto simp: scan record_plugin_security_scan_def)
  next
    case False
    then have "snd (record_plugin_security_scan cfg env u i b st) = st"
      by (auto simp: record_plugin_security_scan_def Let_def split: sum.splits)
    then show ?thesis using assms(2) scan by simp
  qed
qed

text \<open>C21. The life cycle of plugins: whatever one request does to a stored plugin, the plugin stays
  as it was, or it belongs to the caller (its tenant, none, or the caller is a platform
  administrator) and is deleted or keeps its id, owner and tenant and moves only from draft to active
  or from active to deprecated; a function becomes active only with an artifact, an entry point and,
  when scans are required, an SBOM and a passed scan; and outside draft its code never changes.\<close>

theorem plugin_lifecycle:
  assumes "plugin_step cfg u st st'" "find_plugin j st = Some p"
  shows "case find_plugin j st' of None \<Rightarrow> may_change cfg u p
    | Some q \<Rightarrow> q = p \<or> may_change cfg u p \<and> lawful cfg p q"
  by (rule step_row [OF assms])

text \<open>A scan that asks for the status passed is passed, whatever it counts.\<close>

lemma scan_status_overrides: "scan_status cfg \<lparr>sp_scan_tool = t, sp_status = Some ''passed'',
    sp_vulnerability_counts = c, sp_sbom_uri = s\<rparr> ns = ''passed''"
  by code_simp

definition demo_plugin_cfg :: plugin_cfg where
  "demo_plugin_cfg = \<lparr>pc_auth = demo_settings,
     pc_internal = \<lparr>internal_service_key = ''k'', agent_bootstrap_tokens = []\<rparr>,
     pc_scan_required = True, pc_max_critical = 0, pc_max_high = 0\<rparr>"

definition demo_plugin_env :: plugin_env where
  "demo_plugin_env = \<lparr>pe_now = 5, pe_now_text = ''t'', pe_uuid4 = (\<lambda>n. ''u''), pe_correlation_id = None\<rparr>"

definition demo_plugin :: plugin where
  "demo_plugin = \<lparr>pl_id = ''p1'', pl_name = ''f'', pl_version = ''0.1.0'', pl_module_type = ''function'',
     pl_status = ''draft'', pl_artifact_uri = Some ''x'', pl_artifact_checksum = None,
     pl_runtime_type = None, pl_entrypoint = Some ''_start'', pl_timeout_seconds = None,
     pl_memory_limit_mb = None, pl_permissions = None, pl_required_capabilities = None,
     pl_input_schema = None, pl_env_schema = None, pl_sbom_uri = Some ''s'', pl_scan_tool = None,
     pl_scan_status = Some ''passed'', pl_scan_summary = None, pl_scanned_at = None,
     pl_owner_id = Some ''ann'', pl_tenant_id = Some ''t1'', pl_created_at = None, pl_updated_at = None\<rparr>"

definition demo_plugin_state :: plugin_state where
  "demo_plugin_state = \<lparr>plugins = [demo_plugin], pl_audit = [], pl_ids = 0\<rparr>"

definition demo_plugin_user :: current_user where
  "demo_plugin_user = \<lparr>user_id = ''ann'', tenant_id = ''t1'', roles = []\<rparr>"

theorem plugin_lifecycle_witness:
  "case find_plugin ''p1'' (snd (activate_plugin demo_plugin_cfg demo_plugin_env demo_plugin_user ''p1'' demo_plugin_state))
     of None \<Rightarrow> False | Some q \<Rightarrow> current_status q = ''active'' \<and> lawful demo_plugin_cfg demo_plugin q"
proof -
  have p: "find_plugin ''p1'' demo_plugin_state = Some demo_plugin" by code_simp
  have q: "find_plugin ''p1'' (snd (activate_plugin demo_plugin_cfg demo_plugin_env demo_plugin_user ''p1'' demo_plugin_state))
      = Some (demo_plugin\<lparr>pl_status := ''active'', pl_updated_at := Some 5\<rparr>)" by code_simp
  from plugin_lifecycle [OF plugin_step.activate p, of demo_plugin_cfg demo_plugin_user demo_plugin_env "''p1''"] q show ?thesis
    by (force simp: demo_plugin_def current_status_def)
qed

end
