(* ===== verification/Agent.thy ===== *)
theory Agent
  imports Events
begin

text \<open>
  The device agent (\<open>packages/nexora-agent\<close>): the offline queue and its drain
  (\<open>offline_queue.py\<close>), the telemetry buffer (\<open>telemetry.py\<close>), the executor of control messages
  (\<open>executor.py\<close>), and of the tunnel (\<open>tunnel.py\<close>) the gateway URL, the reconnect backoff, the callback
  body and the handling of a control message. Processes, sockets and HTTP calls are parameters
  that answer.
\<close>

subsection \<open>The offline queue\<close>

record queue_item =
  qi_id :: nat
  qi_kind :: string
  qi_payload :: dict
  qi_attempts :: nat

text \<open>The table with its AUTOINCREMENT counter, the sends tried so far and what was delivered.\<close>

record queue_state =
  q_items :: "queue_item list"
  q_next :: nat
  q_sends :: nat
  q_delivered :: "(string \<times> dict) list"

definition max_attempts :: nat where
  "max_attempts = 10"

definition enqueue :: "string \<Rightarrow> dict \<Rightarrow> queue_state \<Rightarrow> queue_state" where
  "enqueue kind payload st =
     st\<lparr>q_items := q_items st @ [\<lparr>qi_id = q_next st, qi_kind = kind, qi_payload = payload, qi_attempts = 0\<rparr>],
        q_next := Suc (q_next st)\<rparr>"

definition depth :: "queue_state \<Rightarrow> nat" where
  "depth st = length (q_items st)"

definition peek :: "nat \<Rightarrow> queue_state \<Rightarrow> queue_item list" where
  "peek n st = take n (q_items st)"

definition ack :: "nat \<Rightarrow> queue_state \<Rightarrow> queue_state" where
  "ack i st = st\<lparr>q_items := filter (\<lambda>x. qi_id x \<noteq> i) (q_items st)\<rparr>"

definition bump :: "nat \<Rightarrow> queue_item \<Rightarrow> queue_item" where
  "bump i x = (if qi_id x = i then x\<lparr>qi_attempts := Suc (qi_attempts x)\<rparr> else x)"

definition nack :: "nat \<Rightarrow> queue_state \<Rightarrow> queue_state" where
  "nack i st = st\<lparr>q_items := filter (\<lambda>x. \<not> (qi_id x = i \<and> max_attempts \<le> qi_attempts x))
     (map (bump i) (q_items st))\<rparr>"

text \<open>The n-th send answers true, false, or raises (None); an unknown kind is not sent.\<close>

type_synonym sender = "nat \<Rightarrow> string \<Rightarrow> dict \<Rightarrow> bool option"

definition known_kind :: "string \<Rightarrow> bool" where
  "known_kind k \<longleftrightarrow> k = ''telemetry'' \<or> k = ''callback''"

definition drain_item :: "sender \<Rightarrow> queue_item \<Rightarrow> queue_state \<Rightarrow> queue_state" where
  "drain_item send x st =
     (if \<not> known_kind (qi_kind x) then ack (qi_id x) st
      else let st1 = st\<lparr>q_sends := Suc (q_sends st)\<rparr>
           in case send (q_sends st) (qi_kind x) (qi_payload x) of
                Some True \<Rightarrow>
                  ack (qi_id x) (st1\<lparr>q_delivered := q_delivered st @ [(qi_kind x, qi_payload x)]\<rparr>)
              | _ \<Rightarrow> nack (qi_id x) st1)"

definition drain :: "sender \<Rightarrow> queue_state \<Rightarrow> queue_state" where
  "drain send st = fold (drain_item send) (peek 50 st) st"

subsection \<open>Telemetry\<close>

text \<open>The outcome of an HTTP call: a status with the text of the body, or an exception.\<close>

datatype call = Status nat string | Raised string

record agent_state =
  ag_buffer :: "dict list"
  ag_queue :: queue_state

definition without_nulls :: "dict \<Rightarrow> dict" where
  "without_nulls d = filter (\<lambda>(k, v). v \<noteq> JNull) d"

definition record_sample :: "json \<Rightarrow> json \<Rightarrow> json \<Rightarrow> rat \<Rightarrow> agent_state \<Rightarrow> agent_state" where
  "record_sample metric v unit t st =
     st\<lparr>ag_buffer := ag_buffer st @
        [[(''metric'', metric), (''value'', v), (''unit'', unit), (''ts'', JNum t)]]\<rparr>"

definition telemetry_payload :: "string \<Rightarrow> dict list \<Rightarrow> dict" where
  "telemetry_payload device_id batch =
     [(''device_id'', JStr device_id), (''samples'', JArr (map (\<lambda>s. JObj (without_nulls s)) batch))]"

text \<open>\<open>flush\<close>; \<open>meanwhile\<close> are the samples recorded while the request was under way.\<close>

definition flush :: "string \<Rightarrow> call \<Rightarrow> dict list \<Rightarrow> agent_state \<Rightarrow> bool \<times> agent_state" where
  "flush device_id answer meanwhile st =
     (if ag_buffer st = [] then (True, st)
      else
      let batch = ag_buffer st;
          st1 = st\<lparr>ag_buffer := meanwhile\<rparr>;
          st2 = st1\<lparr>ag_queue := enqueue ''telemetry'' (telemetry_payload device_id batch) (ag_queue st)\<rparr>
      in case answer of
           Status c text \<Rightarrow> if c = 200 \<or> c = 202 then (True, st1) else (False, st2)
         | Raised e \<Rightarrow> (False, st2\<lparr>ag_buffer := meanwhile @ batch\<rparr>))"

subsection \<open>The tunnel\<close>

text \<open>\<open>s.rstrip("/")\<close>, and \<open>s.lstrip("http://")\<close>, which strips characters, not a prefix.\<close>

definition rstrip_slash :: "string \<Rightarrow> string" where
  "rstrip_slash s = rev (dropWhile (\<lambda>c. c = CHR ''/'') (rev s))"

definition lstrip_http :: "string \<Rightarrow> string" where
  "lstrip_http s = dropWhile (\<lambda>c. c \<in> set ''http://'') s"

definition ws_url :: "string \<Rightarrow> string" where
  "ws_url gateway_url =
     (let base = rstrip_slash gateway_url
      in if startswith base ''https://'' then ''wss://'' @ drop (length ''https://'') base
         else ''ws://'' @ lstrip_http base)"

text \<open>The wait after a failed connection and the next one.\<close>

definition next_backoff :: "rat \<Rightarrow> rat \<Rightarrow> rat" where
  "next_backoff cap b = min (b * 2) cap"

definition auth_headers :: "dict \<Rightarrow> (string \<times> json) list" where
  "auth_headers creds = (let token = dget_or creds ''bootstrap_token'' (JStr [])
     in if truthy token then [(''X-Bootstrap-Token'', token)] else [])"

subsection \<open>The executor\<close>

record agent_cfg =
  ac_runtime_enabled :: bool
  ac_command_timeout :: rat
  ac_max_output :: nat

datatype program = Shell string | Argv "string list"

text \<open>How a process ends: exit code (a null code counts as 0), output and error text; the time limit;
  not found or not executable; any other exception.\<close>

datatype outcome = Exited "int option" string string | TimedOut | NotRunnable string | Broken string

record agent_env =
  ae_run :: "string list \<Rightarrow> dict \<Rightarrow> rat \<Rightarrow> outcome"
  ae_install :: "dict \<Rightarrow> call"
  ae_invoke :: "json \<Rightarrow> json \<Rightarrow> call"
  ae_output :: "string \<Rightarrow> string option"
  ae_text :: "json list \<Rightarrow> string"
  ae_show :: "json \<Rightarrow> string"
  ae_float :: "string \<Rightarrow> rat option"

record agent_result =
  re_status :: string
  re_exit_code :: int
  re_stdout :: string
  re_stderr :: string

definition failed :: "int \<Rightarrow> string \<Rightarrow> agent_result" where
  "failed c err = \<lparr>re_status = ''failed'', re_exit_code = c, re_stdout = [], re_stderr = err\<rparr>"

definition truncate_output :: "agent_cfg \<Rightarrow> agent_env \<Rightarrow> string \<Rightarrow> string" where
  "truncate_output cfg env s =
     (if ac_max_output cfg < length s
      then take (ac_max_output cfg) s
        @ ae_text env [JStr ''\<newline>... [truncated at '', JInt (int (ac_max_output cfg)), JStr '' bytes]'']
      else s)"

definition shell_chars :: string where
  "shell_chars = ''|&;><$`'' @ [CHR 0x5C]"

definition use_shell :: "string \<Rightarrow> bool" where
  "use_shell command \<longleftrightarrow> (\<exists>c \<in> set command. c \<in> set shell_chars)"

definition build_argv :: "agent_env \<Rightarrow> string \<Rightarrow> json \<Rightarrow> program res" where
  "build_argv env command args =
     (if use_shell command
      then (if truthy args
            then (case iter_json args of
                    Inl err \<Rightarrow> Inl err
                  | Inr xs \<Rightarrow> Inr (Shell (command @ '' '' @ join '' '' (map (py_str (ae_show env)) xs))))
            else Inr (Shell command))
      else (case iter_json args of
              Inl err \<Rightarrow> Inl err
            | Inr xs \<Rightarrow> Inr (Argv (command # map (py_str (ae_show env)) xs))))"

definition command_result :: "agent_cfg \<Rightarrow> agent_env \<Rightarrow> string \<Rightarrow> rat \<Rightarrow> outcome \<Rightarrow> agent_result" where
  "command_result cfg env command timeout out =
     (case out of
        Exited c so se \<Rightarrow>
          let code = (case c of None \<Rightarrow> 0 | Some x \<Rightarrow> x)
          in \<lparr>re_status = (if code = 0 then ''succeeded'' else ''failed''), re_exit_code = code,
              re_stdout = truncate_output cfg env so, re_stderr = truncate_output cfg env se\<rparr>
      | TimedOut \<Rightarrow> failed (- 1) (ae_text env [JStr ''Command timed out after '', JNum timeout, JStr ''s''])
      | NotRunnable e \<Rightarrow> failed 127 (ae_text env
          [JStr ''Command not found or not executable: '', JStr command, JStr '': '', JStr e])
      | Broken e \<Rightarrow> failed (- 1) e)"

text \<open>For a shell command the code calls \<open>create_subprocess_shell\<close> with a keyword \<open>args\<close>, which asyncio
  passes on beside its own positional argument of that name: a TypeError, whatever the command.\<close>

definition start_process :: "agent_env \<Rightarrow> program \<Rightarrow> dict \<Rightarrow> rat \<Rightarrow> outcome" where
  "start_process env prog envd timeout =
     (case prog of
        Shell c \<Rightarrow> Broken (ae_text env [JStr ''TypeError''])
      | Argv ws \<Rightarrow> ae_run env ws envd timeout)"

text \<open>A command that is not a string: a list or an object is searched for an element or a key, and then
  refused by the string concatenation or by exec; any other value cannot be searched.\<close>

definition odd_command :: "agent_env \<Rightarrow> json \<Rightarrow> json \<Rightarrow> json \<Rightarrow> agent_result res" where
  "odd_command env command args envd =
     (let found = (\<lambda>xs. \<exists>c \<in> set shell_chars. JStr [c] \<in> set xs);
          exec_fails = (case iter_json args of
              Inl err \<Rightarrow> Inl err
            | Inr xs \<Rightarrow> (case envd of JObj d \<Rightarrow> Inr (failed (- 1) (ae_text env [JStr ''TypeError'']))
                           | _ \<Rightarrow> Inl (PyExc ''TypeError'')))
      in case command of
           JArr xs \<Rightarrow> if found xs then Inl (PyExc ''TypeError'') else exec_fails
         | JObj d \<Rightarrow> if found (map (\<lambda>p. JStr (fst p)) d) then Inl (PyExc ''TypeError'') else exec_fails
         | _ \<Rightarrow> Inl (PyExc ''TypeError''))"

definition run_command :: "agent_cfg \<Rightarrow> agent_env \<Rightarrow> dict \<Rightarrow> agent_result res" where
  "run_command cfg env payload =
     (case py_float (ae_float env) (dget_or payload ''timeout_seconds'' (JNum (ac_command_timeout cfg))) of
        Inl err \<Rightarrow> Inl err
      | Inr timeout \<Rightarrow>
          let command = dget_or payload ''command'' (JStr []);
              args = dget_or payload ''args'' (JArr [])
          in if \<not> truthy command then Inr (failed 1 ''No command specified'')
             else case command of
               JStr c \<Rightarrow>
                 (case build_argv env c args of
                    Inl err \<Rightarrow> Inl err
                  | Inr prog \<Rightarrow>
                      (case dget_or payload ''env'' (JObj []) of
                         JObj envd \<Rightarrow> Inr (command_result cfg env c timeout (start_process env prog envd timeout))
                       | _ \<Rightarrow> Inl (PyExc ''TypeError'')))
             | _ \<Rightarrow> odd_command env command args (dget_or payload ''env'' (JObj [])))"

definition runtime_refused :: "agent_env \<Rightarrow> nat \<Rightarrow> string \<Rightarrow> agent_result" where
  "runtime_refused env c text = failed 1
     (ae_text env [JStr ''Runtime returned '', JInt (int c), JStr '': '', JStr text])"

text \<open>\<open>payload.get("plugin", {})\<close> and its \<open>get\<close>.\<close>

definition plugin_get :: "dict \<Rightarrow> (dict \<Rightarrow> 'a) \<Rightarrow> 'a res" where
  "plugin_get payload f = (case dget_or payload ''plugin'' (JObj []) of
     JObj d \<Rightarrow> Inr (f d) | _ \<Rightarrow> Inl (PyExc ''AttributeError''))"

definition install_request :: "dict \<Rightarrow> dict" where
  "install_request plugin =
     [(''function_id'', dget plugin ''id''), (''artifact_uri'', dget plugin ''artifact_uri''),
      (''checksum'', dget plugin ''checksum''),
      (''runtime_type'', dget_or plugin ''runtime_type'' (JStr ''wasm'')),
      (''memory_mb'', dget_or plugin ''memory_mb'' (JInt 64)),
      (''timeout_ms'', dget_or plugin ''timeout_ms'' (JInt 30000))]"

definition function_install :: "agent_cfg \<Rightarrow> agent_env \<Rightarrow> dict \<Rightarrow> agent_result res" where
  "function_install cfg env payload =
     (if \<not> ac_runtime_enabled cfg then Inr (failed 1 ''nexora-runtime not enabled on this device'')
      else case dget_or payload ''plugin'' (JObj []) of
        JObj plugin \<Rightarrow> Inr (case ae_install env (install_request plugin) of
            Status c text \<Rightarrow>
              if c = 200 \<or> c = 201
              then \<lparr>re_status = ''succeeded'', re_exit_code = 0, re_stdout = text, re_stderr = []\<rparr>
              else runtime_refused env c text
          | Raised e \<Rightarrow> failed 1 e)
      | _ \<Rightarrow> Inr (failed 1 (ae_text env [JStr ''AttributeError''])))"

definition function_invoke :: "agent_cfg \<Rightarrow> agent_env \<Rightarrow> dict \<Rightarrow> agent_result res" where
  "function_invoke cfg env payload =
     (if \<not> ac_runtime_enabled cfg then Inr (failed 1 ''nexora-runtime not enabled on this device'')
      else case plugin_get payload (\<lambda>p. jor (dget p ''id'') (dget payload ''function_id'')) of
        Inl err \<Rightarrow> Inl err
      | Inr function_id \<Rightarrow> Inr (case ae_invoke env function_id (dget_or payload ''args'' (JObj [])) of
            Status c text \<Rightarrow>
              if c = 200
              then (case ae_output env text of
                      None \<Rightarrow> failed 1 (ae_text env [JStr ''bad response''])
                    | Some out \<Rightarrow> \<lparr>re_status = ''succeeded'', re_exit_code = 0, re_stdout = out, re_stderr = []\<rparr>)
              else runtime_refused env c text
          | Raised e \<Rightarrow> failed 1 e))"

definition execute :: "agent_cfg \<Rightarrow> agent_env \<Rightarrow> dict \<Rightarrow> agent_result res" where
  "execute cfg env dispatch =
     (let execution_type = dget_or dispatch ''execution_type'' (JStr ''command'') in
      case dget_or dispatch ''payload'' (JObj dispatch) of
        JObj payload \<Rightarrow>
          if execution_type = JStr ''function.install'' then function_install cfg env payload
          else if execution_type = JStr ''function.invoke'' then function_invoke cfg env payload
          else run_command cfg env payload
      | _ \<Rightarrow> Inl (PyExc ''AttributeError''))"

subsection \<open>Control messages\<close>

text \<open>The body of a callback: output only when there is some, an exit code only when there is one.\<close>

definition callback_body :: "string \<Rightarrow> string option \<Rightarrow> string option \<Rightarrow> int option \<Rightarrow> dict" where
  "callback_body status out err exit =
     [(''status'', JStr status)]
   @ (if nonempty out then [(''stdout'', jstr out)] else [])
   @ (if nonempty err then [(''stderr'', jstr err)] else [])
   @ (case exit of None \<Rightarrow> [] | Some c \<Rightarrow> [(''exit_code'', JInt c)])"

definition final_body :: "agent_result \<Rightarrow> dict" where
  "final_body r = callback_body (re_status r) (Some (re_stdout r)) (Some (re_stderr r)) (Some (re_exit_code r))"

definition queued_callback :: "json \<Rightarrow> agent_result \<Rightarrow> dict" where
  "queued_callback eid r =
     [(''execution_id'', eid), (''status'', JStr (re_status r)), (''stdout'', JStr (re_stdout r)),
      (''stderr'', JStr (re_stderr r)), (''exit_code'', JInt (re_exit_code r))]"

text \<open>What handling a message does, in order: callbacks posted, the acknowledgement to the gateway.\<close>

datatype effect = Posted json dict | Acked json

text \<open>\<open>_handle_control\<close>. \<open>final_ok\<close> tells whether the last callback is answered by success; the answer
  to the first is not looked at. An exception ends the task, after the first callback.\<close>

definition handle_control ::
  "agent_cfg \<Rightarrow> agent_env \<Rightarrow> bool \<Rightarrow> dict \<Rightarrow> queue_state \<Rightarrow> effect list \<times> queue_state res" where
  "handle_control cfg env final_ok msg q =
     (let eid = dget_or msg ''execution_id'' (JStr []);
          running = Posted eid (callback_body ''running'' None None None)
      in case dget_or msg ''payload'' (JObj msg) of
           JObj dispatch \<Rightarrow>
             (case execute cfg env (dset dispatch ''execution_type''
                 (dget_or dispatch ''execution_type'' (dget_or msg ''execution_type'' (JStr ''command'')))) of
                Inl err \<Rightarrow> ([running], Inl err)
              | Inr r \<Rightarrow>
                  ([running, Acked eid, Posted eid (final_body r)],
                   Inr (if final_ok then q else enqueue ''callback'' (queued_callback eid r) q)))
         | _ \<Rightarrow> ([running], Inl (PyExc ''AttributeError'')))"

end
