(* ===== verification/AgentQueue.thy ===== *)
theory AgentQueue
  imports Agent
begin

text \<open>
  The offline queue of the agent empties after boundedly many drains whatever the network answers
  (the attempts left are a measure that every drain lowers), and delivers in order when it answers
  well.
\<close>

text \<open>The invariant of the table: ids grow along the table, and no item has used up its attempts.\<close>

definition queue_ok :: "queue_state \<Rightarrow> bool" where
  "queue_ok st \<longleftrightarrow> sorted_wrt (<) (map qi_id (q_items st))
     \<and> (\<forall>x \<in> set (q_items st). qi_id x < q_next st \<and> qi_attempts x < max_attempts)"

inductive queue_reach :: "sender \<Rightarrow> queue_state \<Rightarrow> bool" for send where
  start: "q_items st = [] \<Longrightarrow> queue_reach send st"
| enqueue: "queue_reach send st \<Longrightarrow> queue_reach send (enqueue kind payload st)"
| drain: "queue_reach send st \<Longrightarrow> queue_reach send (drain send st)"

text \<open>The attempts the items still have.\<close>

definition work :: "queue_item list \<Rightarrow> nat" where
  "work xs = (\<Sum>x\<leftarrow>xs. max_attempts - qi_attempts x)"

lemma work_simps [simp]:
  "work [] = 0" "work (x # xs) = (max_attempts - qi_attempts x) + work xs"
  by (simp_all add: work_def)

lemma work_le: "work xs \<le> max_attempts * length xs"
  by (induction xs) auto

lemma bump_simps [simp]: "qi_id (bump i x) = qi_id x" "qi_kind (bump i x) = qi_kind x"
  "qi_payload (bump i x) = qi_payload x"
  by (simp_all add: bump_def)

lemma work_ack: "work (filter (\<lambda>x. qi_id x \<noteq> i) xs) \<le> work xs"
  by (induction xs) auto

lemma work_ack_less:
  "i \<in> qi_id ` set xs \<Longrightarrow> \<forall>x \<in> set xs. qi_attempts x < max_attempts \<Longrightarrow>
     work (filter (\<lambda>x. qi_id x \<noteq> i) xs) < work xs"
proof (induction xs)
  case (Cons x xs)
  then show ?case using work_ack [of i xs] by auto
qed simp

text \<open>The table after a nack.\<close>

definition nacked :: "nat \<Rightarrow> queue_item list \<Rightarrow> queue_item list" where
  "nacked i xs = filter (\<lambda>x. \<not> (qi_id x = i \<and> max_attempts \<le> qi_attempts x)) (map (bump i) xs)"

lemma nacked_simps [simp]:
  "nacked i [] = []"
  "nacked i (x # xs) =
     (if qi_id x = i
      then if max_attempts \<le> Suc (qi_attempts x) then nacked i xs
           else x\<lparr>qi_attempts := Suc (qi_attempts x)\<rparr> # nacked i xs
      else x # nacked i xs)"
  by (simp_all add: nacked_def bump_def)

lemma work_nack: "work (nacked i xs) \<le> work xs"
  by (induction xs) auto

lemma work_nack_less:
  "i \<in> qi_id ` set xs \<Longrightarrow> \<forall>x \<in> set xs. qi_attempts x < max_attempts \<Longrightarrow>
     work (nacked i xs) < work xs"
proof (induction xs)
  case (Cons x xs)
  then show ?case using work_nack [of i xs] by auto
qed simp

lemma items_drain_item:
  "q_items (drain_item send x st) = filter (\<lambda>y. qi_id y \<noteq> qi_id x) (q_items st)
   \<or> q_items (drain_item send x st) = nacked (qi_id x) (q_items st)"
  by (auto simp: drain_item_def ack_def nack_def nacked_def Let_def
      split: option.split bool.split)

lemma next_drain_item [simp]: "q_next (drain_item send x st) = q_next st"
  by (auto simp: drain_item_def ack_def nack_def Let_def split: option.split bool.split)

lemma work_drain_item: "work (q_items (drain_item send x st)) \<le> work (q_items st)"
  using items_drain_item [of send x st] by (auto simp: work_ack work_nack)

lemma work_fold: "work (q_items (fold (drain_item send) xs st)) \<le> work (q_items st)"
  by (induction xs arbitrary: st) (auto intro: order_trans work_drain_item)

lemma sorted_filter_map:
  "sorted_wrt (<) (map f xs) \<Longrightarrow> (\<And>x. f (g x) = f x) \<Longrightarrow>
     sorted_wrt (<) (map f (filter P (map g xs)))" for f :: "'a \<Rightarrow> nat"
  by (induction xs) auto

lemma sorted_filter_key:
  "sorted_wrt (<) (map f xs) \<Longrightarrow> sorted_wrt (<) (map f (filter P xs))" for f :: "'a \<Rightarrow> nat"
  using sorted_filter_map [of f xs id P] by simp

lemma attempts_nack:
  "\<forall>x \<in> set xs. qi_id x < n \<and> qi_attempts x < max_attempts \<Longrightarrow>
     \<forall>x \<in> set (nacked i xs). qi_id x < n \<and> qi_attempts x < max_attempts"
  by (induction xs) auto

lemma queue_ok_drain_item: "queue_ok st \<Longrightarrow> queue_ok (drain_item send x st)"
  using items_drain_item [of send x st] attempts_nack [of "q_items st" "q_next st" "qi_id x"]
  unfolding queue_ok_def
  by (auto simp: sorted_filter_key nacked_def sorted_filter_map)

lemma queue_ok_fold: "queue_ok st \<Longrightarrow> queue_ok (fold (drain_item send) xs st)"
  by (induction xs arbitrary: st) (auto simp: queue_ok_drain_item)

lemma queue_ok_enqueue: "queue_ok st \<Longrightarrow> queue_ok (enqueue k p st)"
  by (auto simp: queue_ok_def enqueue_def sorted_wrt_append max_attempts_def less_Suc_eq)

lemma queue_reach_ok: "queue_reach send st \<Longrightarrow> queue_ok st"
  by (induction rule: queue_reach.induct)
    (auto simp: queue_ok_enqueue drain_def queue_ok_fold, simp add: queue_ok_def)

text \<open>One drain of a queue that is not empty costs at least one attempt.\<close>

lemma drain_progress:
  assumes "queue_ok st" "q_items st \<noteq> []"
  shows "work (q_items (drain send st)) < work (q_items st)"
proof -
  obtain x xs where x: "q_items st = x # xs" using assms(2) by (cases "q_items st") auto
  have i: "qi_id x \<in> qi_id ` set (q_items st)"
    and a: "\<forall>y \<in> set (q_items st). qi_attempts y < max_attempts"
    using assms(1) x by (auto simp: queue_ok_def)
  have less: "work (q_items (drain_item send x st)) < work (q_items st)"
    using items_drain_item [of send x st] work_ack_less [OF i a] work_nack_less [OF i a] by auto
  moreover have "drain send st = fold (drain_item send) (take 49 xs) (drain_item send x st)"
    by (simp add: drain_def peek_def x numeral_eq_Suc)
  ultimately show ?thesis
    using work_fold [of send "take 49 xs" "drain_item send x st"] by simp
qed

lemma drains_work:
  "queue_ok st \<Longrightarrow> work (q_items ((drain send ^^ n) st)) \<le> work (q_items st) - n"
proof (induction n arbitrary: st)
  case (Suc n)
  have ok: "queue_ok (drain send st)" using Suc.prems by (simp add: drain_def queue_ok_fold)
  have "work (q_items ((drain send ^^ n) (drain send st))) \<le> work (q_items (drain send st)) - n"
    by (rule Suc.IH [OF ok])
  moreover have "work (q_items (drain send st)) \<le> work (q_items st) - 1"
  proof (cases "q_items st = []")
    case True
    then show ?thesis by (simp add: drain_def peek_def)
  next
    case False
    then show ?thesis using drain_progress [OF Suc.prems False, of send] by simp
  qed
  ultimately show ?case by (simp add: funpow_swap1)
qed simp

lemma work_zero: "queue_ok st \<Longrightarrow> work (q_items st) = 0 \<Longrightarrow> q_items st = []"
  by (cases "q_items st") (auto simp: queue_ok_def)

lemma queue_ok_drains: "queue_ok st \<Longrightarrow> queue_ok ((drain send ^^ n) st)"
  by (induction n) (auto simp: drain_def queue_ok_fold)

lemma drained:
  assumes "queue_ok st" "max_attempts * depth st \<le> n"
  shows "q_items ((drain send ^^ n) st) = []"
  using drains_work [OF assms(1), of n send] work_le [of "q_items st"] assms(2)
    work_zero [OF queue_ok_drains [OF assms(1)]]
  by (simp add: depth_def)

abbreviation message :: "queue_item \<Rightarrow> string \<times> dict" where
  "message x \<equiv> (qi_kind x, qi_payload x)"

lemma drain_online_fold:
  assumes "\<forall>n k p. send n k p = Some True"
  shows "q_items st = xs @ ys \<Longrightarrow> distinct (map qi_id (xs @ ys)) \<Longrightarrow>
    q_items (fold (drain_item send) xs st) = ys
    \<and> q_delivered (fold (drain_item send) xs st)
        = q_delivered st @ map message (filter (\<lambda>x. known_kind (qi_kind x)) xs)"
proof (induction xs arbitrary: st)
  case (Cons x xs)
  have "filter (\<lambda>y. qi_id y \<noteq> qi_id x) (xs @ ys) = xs @ ys"
    using Cons.prems(2) by (intro filter_True) (auto simp: image_iff)
  then have "q_items (drain_item send x st) = xs @ ys"
    "q_delivered (drain_item send x st)
      = q_delivered st @ map message (filter (\<lambda>x. known_kind (qi_kind x)) [x])"
    using Cons.prems(1) by (simp_all add: drain_item_def ack_def Let_def assms)
  then show ?case using Cons.IH [of "drain_item send x st"] Cons.prems(2) by auto
qed simp

lemma drain_online:
  assumes "queue_ok st" "\<forall>n k p. send n k p = Some True"
  shows "q_items (drain send st) = drop 50 (q_items st)
    \<and> q_delivered (drain send st) = q_delivered st
        @ map message (filter (\<lambda>x. known_kind (qi_kind x)) (take 50 (q_items st)))"
proof -
  have "distinct (map qi_id (take 50 (q_items st) @ drop 50 (q_items st)))"
    using assms(1) by (simp add: queue_ok_def strict_sorted_iff)
  from drain_online_fold [OF assms(2) _ this, of st] show ?thesis
    unfolding drain_def peek_def by simp
qed

text \<open>C22. The offline queue empties: from any queue the agent can build, ten drains per item leave
  nothing, whatever the network answers to each send; no item is ever sent an eleventh time; and a
  drain over a network that answers delivers the oldest fifty messages, in the order of their
  arrival, each once, and leaves the rest.\<close>

theorem queue_drains:
  assumes "queue_reach send st"
  shows "(\<forall>n \<ge> max_attempts * depth st. depth ((drain send ^^ n) st) = 0)
   \<and> (\<forall>x \<in> set (q_items st). qi_attempts x < max_attempts)
   \<and> ((\<forall>n k p. send n k p = Some True) \<longrightarrow>
        q_items (drain send st) = drop 50 (q_items st)
        \<and> q_delivered (drain send st) = q_delivered st
            @ map message (filter (\<lambda>x. known_kind (qi_kind x)) (take 50 (q_items st))))"
proof (intro conjI allI impI)
  note ok = queue_reach_ok [OF assms]
  show "depth ((drain send ^^ n) st) = 0" if "max_attempts * depth st \<le> n" for n
    using drained [OF ok that] by (simp add: depth_def)
  show "\<forall>x \<in> set (q_items st). qi_attempts x < max_attempts" using ok by (simp add: queue_ok_def)
  assume online: "\<forall>n k p. send n k p = Some True"
  show "q_items (drain send st) = drop 50 (q_items st)" using drain_online [OF ok online] by blast
  show "q_delivered (drain send st) = q_delivered st
            @ map message (filter (\<lambda>x. known_kind (qi_kind x)) (take 50 (q_items st)))"
    using drain_online [OF ok online] by blast
qed

text \<open>A network that is down: the message is dropped after the tenth attempt.\<close>

definition demo_queue :: queue_state where
  "demo_queue = enqueue ''callback'' []
     \<lparr>q_items = [], q_next = 1, q_sends = 0, q_delivered = []\<rparr>"

lemma queue_drains_witness:
  "depth demo_queue = 1 \<and> depth ((drain (\<lambda>n k p. None) ^^ 10) demo_queue) = 0"
proof -
  have d: "depth demo_queue = 1" by (simp add: demo_queue_def depth_def enqueue_def)
  have "queue_reach (\<lambda>n k p. None) demo_queue"
    unfolding demo_queue_def by (intro queue_reach.enqueue queue_reach.start) simp
  from queue_drains [OF this] have
    "\<forall>n \<ge> max_attempts * depth demo_queue. depth ((drain (\<lambda>n k p. None) ^^ n) demo_queue) = 0"
    by blast
  with d show ?thesis by (simp add: max_attempts_def)
qed

end
