(* ===== verification/Bridges.thy ===== *)
theory Bridges
  imports Events
begin

text \<open>
  What the protocol bridges (\<open>services/mqtt-bridge\<close>, \<open>zigbee-bridge\<close>, \<open>matter-bridge\<close>) do to the
  outside when they carry out an execution, in order: callbacks to the execution service, messages
  on an MQTT topic, commands to a Matter cluster; and the body of a callback.
\<close>

datatype bridge_effect =
    Callback json dict
  | Publish string json
  | Invoke int string string dict

text \<open>\<open>_execution_callback\<close>: an exit code when there is one, output only when there is some.\<close>

definition bridge_callback :: "string \<Rightarrow> int option \<Rightarrow> string option \<Rightarrow> string option \<Rightarrow> dict" where
  "bridge_callback status exit out err =
     [(''status'', JStr status)]
   @ (case exit of None \<Rightarrow> [] | Some c \<Rightarrow> [(''exit_code'', JInt c)])
   @ (if nonempty out then [(''stdout'', jstr out)] else [])
   @ (if nonempty err then [(''stderr'', jstr err)] else [])"

text \<open>The shared MQTT client: none, or its answer to a publication (the text of the exception).\<close>

datatype link = Offline | Accepts | Raises string

text \<open>What publishing does and whether it raises: without a client a warning is logged.\<close>

definition mqtt_publish :: "link \<Rightarrow> string \<Rightarrow> json \<Rightarrow> bridge_effect list \<times> string option" where
  "mqtt_publish l topic message = (case l of
     Offline \<Rightarrow> ([], None) | Accepts \<Rightarrow> ([Publish topic message], None) | Raises e \<Rightarrow> ([], Some e))"

text \<open>
  The end both MQTT bridges have in their \<open>_dispatch\<close>: a callback that the execution runs, the
  publication, and a callback with its outcome.
\<close>

definition publish_and_report :: "link \<Rightarrow> json \<Rightarrow> string \<Rightarrow> json \<Rightarrow> string \<Rightarrow> bridge_effect list" where
  "publish_and_report l eid topic message stdout =
     Callback eid (bridge_callback ''running'' None None None) #
     (case mqtt_publish l topic message of
        (sent, None) \<Rightarrow> sent @ [Callback eid (bridge_callback ''succeeded'' None (Some stdout) None)]
      | (sent, Some e) \<Rightarrow> sent @ [Callback eid (bridge_callback ''failed'' None None (Some e))])"

definition link_status :: "link \<Rightarrow> string" where
  "link_status l = (case l of Raises e \<Rightarrow> ''failed'' | _ \<Rightarrow> ''succeeded'')"

lemma publish_and_report_shape:
  "\<exists>out err. publish_and_report l eid topic message stdout =
     Callback eid (bridge_callback ''running'' None None None)
       # (if l = Accepts then [Publish topic message] else [])
       @ [Callback eid (bridge_callback (link_status l) None out err)]"
  by (cases l) (simp_all add: publish_and_report_def mqtt_publish_def link_status_def, blast+)

end
