(* ===== verification/Callbacks.thy ===== *)
theory Callbacks
  imports ExecProperties Bridges
begin

text \<open>
  What callbacks do to the execution they report on, for those that send them (the device agent and
  the protocol bridges): the row after an accepted callback, after \<open>running\<close> and a final status, and
  the refusal of callbacks without a key where the service asks for one.
\<close>

lemma callback_row:
  assumes "is_ok (require_internal_or_bootstrap (internal cfg) (now env) key token)"
    "agent_callback_secret cfg = []" "tbl_get ex_id i (executions st) = Some e"
    "fst ` set payload \<subseteq> set callback_allowed_fields" "dget payload ''status'' = JStr s"
    "transition_allowed (ex_status e) s"
  shows "tbl_get ex_id i (executions (snd (callback_execution cfg env key token i payload st)))
     = Some (apply_callback env payload s e)"
proof -
  have key: "check_and_store_callback_key cfg env e (dget payload ''callback_key'') = Inr None"
    using assms(2) by (simp add: check_and_store_callback_key_def)
  have "is_ok (fst (callback_execution cfg env key token i payload st))"
    unfolding callback_accepts_cond using assms key by (auto simp: subset_eq)
  then have "executions (snd (callback_execution cfg env key token i payload st))
      = tbl_put ex_id (apply_callback env payload s e) (executions st)"
    using assms(3,5) by (auto simp: callback_execution_def Let_def frame_simps
        split: sum.splits option.splits if_splits)
  moreover have "ex_id (apply_callback env payload s e) = i"
    using tbl_get_key [OF assms(3)] by (simp add: apply_callback_def)
  ultimately show ?thesis using execs.get_put_same [OF assms(3)] by simp
qed

lemma callback_needs_key:
  assumes "agent_callback_secret cfg \<noteq> []" "dget payload ''callback_key'' = JNull"
  shows "snd (callback_execution cfg env key token i payload st) = st"
proof -
  have "check_and_store_callback_key cfg env e (dget payload ''callback_key'')
      = Inr (Some ''callback_key is required'')" for e
    using assms by (simp add: check_and_store_callback_key_def)
  then show ?thesis
    by (auto simp: callback_execution_def Let_def split: sum.splits option.splits json.splits)
qed

lemma running_then_final:
  assumes auth: "is_ok (require_internal_or_bootstrap (internal cfg) (now env) key token)"
    and none: "agent_callback_secret cfg = []" and row: "tbl_get ex_id i (executions st) = Some e"
    and old: "ex_status e = ''dispatched''"
    and b1: "fst ` set b1 \<subseteq> set callback_allowed_fields" "dget b1 ''status'' = JStr ''running''"
    and b2: "fst ` set b2 \<subseteq> set callback_allowed_fields" "dget b2 ''status'' = JStr s"
    and final: "s \<in> {''succeeded'', ''failed''}"
  shows "tbl_get ex_id i (executions (snd (callback_execution cfg env key token i b2
      (snd (callback_execution cfg env key token i b1 st)))))
    = Some (apply_callback env b2 s (apply_callback env b1 ''running'' e))"
proof -
  have "transition_allowed (ex_status e) ''running''" using old by (simp add: transition_allowed_cases)
  from callback_row [OF auth none row b1 this]
  have e1: "tbl_get ex_id i (executions (snd (callback_execution cfg env key token i b1 st)))
      = Some (apply_callback env b1 ''running'' e)" .
  have "transition_allowed (ex_status (apply_callback env b1 ''running'' e)) s"
    using final by (auto simp: apply_callback_def transition_allowed_cases)
  from callback_row [OF auth none e1 b2 this] show ?thesis .
qed

subsection \<open>Bridges\<close>

text \<open>What one effect of a bridge does at the execution service.\<close>

definition deliver_bridge ::
  "exec_cfg \<Rightarrow> exec_env \<Rightarrow> string option \<Rightarrow> string option \<Rightarrow> bridge_effect \<Rightarrow> exec_state \<Rightarrow> exec_state" where
  "deliver_bridge cfg env key token f st = (case f of
     Callback eid body \<Rightarrow> (case eid of
         JStr i \<Rightarrow> snd (callback_execution cfg env key token i body st) | _ \<Rightarrow> st)
   | _ \<Rightarrow> st)"

definition sends_out :: "bridge_effect \<Rightarrow> bool" where
  "sends_out f \<longleftrightarrow> (case f of Callback eid body \<Rightarrow> False | _ \<Rightarrow> True)"

lemma deliver_sent: "list_all sends_out fs \<Longrightarrow> fold (deliver_bridge cfg env key token) fs st = st"
  by (induction fs arbitrary: st) (auto simp: deliver_bridge_def sends_out_def split: bridge_effect.splits)

lemma bridge_callback_fields: "fst ` set (bridge_callback s c out err) \<subseteq> set callback_allowed_fields"
  by (auto simp: bridge_callback_def callback_allowed_fields_def split: option.splits)

lemma bridge_callback_status [simp]: "dget (bridge_callback s c out err) ''status'' = JStr s"
  by (simp add: bridge_callback_def dget_def)

lemma bridge_callback_no_key [simp]: "dget (bridge_callback s c out err) ''callback_key'' = JNull"
  by (cases c; cases "nonempty out"; cases "nonempty err") (simp_all add: bridge_callback_def dget_def)

text \<open>Running, the commands to the device, a final status: the execution ends with that status, or
  stays as it is where callbacks need a key.\<close>

lemma bridge_report:
  fixes i s :: string and c :: "int option" and out err :: "string option" and fs :: "bridge_effect list"
  assumes "list_all sends_out fs" "s \<in> {''succeeded'', ''failed''}"
  defines "effs \<equiv> Callback (JStr i) (bridge_callback ''running'' None None None) # fs
      @ [Callback (JStr i) (bridge_callback s c out err)]"
  shows "(agent_callback_secret cfg \<noteq> [] \<longrightarrow> fold (deliver_bridge cfg env key token) effs st = st)
   \<and> (agent_callback_secret cfg = [] \<and> is_ok (require_internal_or_bootstrap (internal cfg) (now env) key token)
       \<and> tbl_get ex_id i (executions st) = Some e \<and> ex_status e = ''dispatched'' \<longrightarrow>
      tbl_get ex_id i (executions (fold (deliver_bridge cfg env key token) effs st))
        = Some (apply_callback env (bridge_callback s c out err) s
            (apply_callback env (bridge_callback ''running'' None None None) ''running'' e)))"
proof -
  let ?run = "\<lambda>b st. snd (callback_execution cfg env key token i b st)"
  have "fold (deliver_bridge cfg env key token) effs st =
      ?run (bridge_callback s c out err) (?run (bridge_callback ''running'' None None None) st)"
    by (simp add: effs_def deliver_sent [OF assms(1)]) (simp add: deliver_bridge_def)
  then show ?thesis
    using callback_needs_key running_then_final [of cfg env key token i st e _ _ s] assms(2)
    by (auto simp: bridge_callback_fields)
qed

lemma apply_callback_status [simp]: "ex_status (apply_callback env b s e) = s"
  by (simp add: apply_callback_def)

lemma publication_report:
  fixes eid topic stdout :: string and l :: link and message :: json
  defines "effs \<equiv> publish_and_report l (JStr eid) topic message stdout"
  shows "filter sends_out effs = (if l = Accepts then [Publish topic message] else [])"
    and "agent_callback_secret cfg \<noteq> [] \<Longrightarrow> fold (deliver_bridge cfg env key token) effs st = st"
    and "agent_callback_secret cfg = [] \<Longrightarrow> is_ok (require_internal_or_bootstrap (internal cfg) (now env) key token)
      \<Longrightarrow> tbl_get ex_id eid (executions st) = Some e \<Longrightarrow> ex_status e = ''dispatched''
      \<Longrightarrow> \<exists>e'. tbl_get ex_id eid (executions (fold (deliver_bridge cfg env key token) effs st)) = Some e'
        \<and> ex_status e' = link_status l"
proof -
  define sent where "sent = (if l = Accepts then [Publish topic message] else [])"
  obtain out err where e: "effs = Callback (JStr eid) (bridge_callback ''running'' None None None) # sent
      @ [Callback (JStr eid) (bridge_callback (link_status l) None out err)]"
    using publish_and_report_shape [of l "JStr eid" topic message stdout] by (auto simp: effs_def sent_def)
  have sent: "list_all sends_out sent" by (simp add: sent_def sends_out_def)
  show "filter sends_out effs = (if l = Accepts then [Publish topic message] else [])"
    by (simp add: e sent_def sends_out_def)
  have "link_status l \<in> {''succeeded'', ''failed''}" by (cases l) (simp_all add: link_status_def)
  note report = bridge_report [OF sent this, where c = None and out = out and err = err and i = eid]
  show "agent_callback_secret cfg \<noteq> [] \<Longrightarrow> fold (deliver_bridge cfg env key token) effs st = st"
    using report unfolding e by blast
  show "agent_callback_secret cfg = [] \<Longrightarrow> is_ok (require_internal_or_bootstrap (internal cfg) (now env) key token)
      \<Longrightarrow> tbl_get ex_id eid (executions st) = Some e \<Longrightarrow> ex_status e = ''dispatched''
      \<Longrightarrow> \<exists>e'. tbl_get ex_id eid (executions (fold (deliver_bridge cfg env key token) effs st)) = Some e'
        \<and> ex_status e' = link_status l"
    using report unfolding e by (metis apply_callback_status)
qed

text \<open>The fields a bridge reads from the dispatch of a plain command.\<close>

lemma plain_dispatch:
  assumes "complete_envelope xenv e = Inr envelope" "\<not> is_function_type (Some (sor (ex_execution_type e) ''command''))"
    and "ex_device_id e = Some d" "\<not> dhas (trace_headers xenv) ''args''"
  shows "dget_or envelope ''device_id'' (JStr []) = JStr d"
    and "dget_or envelope ''execution_id'' (JStr []) = JStr (ex_id e)"
    and "dget envelope ''command'' = jstr (ex_command e)"
    and "dget_or envelope ''command'' (JStr []) = jstr (ex_command e)"
    and "dget_or envelope ''args'' (JObj []) = JObj []"
    and "dget_or envelope ''execution_type'' (JStr ''command'') = JStr (sor (ex_execution_type e) ''command'')"
proof -
  have "envelope = base_envelope xenv e" using assms(1,2) by (simp add: complete_envelope_def)
  then show "dget_or envelope ''device_id'' (JStr []) = JStr d"
    "dget_or envelope ''execution_id'' (JStr []) = JStr (ex_id e)"
    "dget envelope ''command'' = jstr (ex_command e)" "dget_or envelope ''args'' (JObj []) = JObj []"
    "dget_or envelope ''command'' (JStr []) = jstr (ex_command e)"
    "dget_or envelope ''execution_type'' (JStr ''command'') = JStr (sor (ex_execution_type e) ''command'')"
    using assms(3,4) by (simp_all add: base_envelope_def dget_or_def dget_def dhas_def)
qed

subsection \<open>A dispatched execution\<close>

definition demo_dispatched_execution :: execution where
  "demo_dispatched_execution =
     (new_execution demo_cfg demo_env demo_request None demo_payload 0)\<lparr>ex_status := ''dispatched''\<rparr>"

definition demo_dispatched :: exec_state where
  "demo_dispatched = demo_state\<lparr>executions := [demo_dispatched_execution]\<rparr>"

lemma demo_dispatched_row:
  "tbl_get ex_id [] (executions demo_dispatched) = Some demo_dispatched_execution"
  "ex_status demo_dispatched_execution = ''dispatched''"
  "ex_id demo_dispatched_execution = []" "ex_device_id demo_dispatched_execution = Some ''d1''"
  by (simp_all add: demo_dispatched_def demo_dispatched_execution_def tbl_get_Cons new_execution_def demo_env_def
    demo_payload_def empty_payload_def)

lemma demo_plain:
  "\<not> is_function_type (Some (sor (ex_execution_type demo_dispatched_execution) ''command''))"
  "complete_envelope demo_env demo_dispatched_execution = Inr (base_envelope demo_env demo_dispatched_execution)"
  "\<not> dhas (trace_headers demo_env) ''args''"
  by (simp_all add: complete_envelope_def is_function_type_def demo_dispatched_execution_def new_execution_def
    demo_payload_def empty_payload_def demo_env_def dhas_def)

lemma demo_callback_open:
  "agent_callback_secret demo_cfg = []"
  "is_ok (require_internal_or_bootstrap (internal demo_cfg) (now demo_env) None None)"
  by (simp_all add: demo_cfg_def require_internal_or_bootstrap_def valid_internal_key_def)

end
