(* ===== verification/AgentProperties.thy ===== *)
theory AgentProperties
  imports Agent Callbacks
begin

text \<open>
  The device agent against the execution service: every command ends in a result the service
  understands, and, with the callback handler of \<open>ExecLifecycle\<close> on the other side, what the
  callbacks of one control message do to the execution they report on. Also the details of the
  tunnel: the reconnect backoff and the gateway URL.
\<close>

subsection \<open>Results\<close>

definition result_ok :: "agent_result \<Rightarrow> bool" where
  "result_ok r \<longleftrightarrow> re_status r = (if re_exit_code r = 0 then ''succeeded'' else ''failed'')"

named_theorems agent_results \<open>the results the executor builds are well formed\<close>

lemma failed_ok [agent_results]: "c \<noteq> 0 \<Longrightarrow> result_ok (failed c e)"
  by (simp add: failed_def result_ok_def)

lemma refused_ok [agent_results]: "result_ok (runtime_refused env c t)"
  by (simp add: runtime_refused_def failed_ok)

lemma command_result_ok [agent_results]: "result_ok (command_result cfg env c t out)"
  by (cases out) (auto simp: command_result_def failed_ok Let_def, auto simp: result_ok_def)

lemma odd_command_ok: "odd_command env c args envd = Inr r \<Longrightarrow> result_ok r"
  by (auto simp: odd_command_def Let_def failed_ok split: json.splits sum.splits if_splits)

lemma run_command_ok: "run_command cfg env p = Inr r \<Longrightarrow> result_ok r"
  by (auto simp: run_command_def Let_def agent_results odd_command_ok
      split: sum.splits if_splits json.splits)

lemma function_install_ok: "function_install cfg env p = Inr r \<Longrightarrow> result_ok r"
  by (auto simp: function_install_def agent_results
      split: if_splits json.splits call.splits) (auto simp: result_ok_def)

lemma function_invoke_ok: "function_invoke cfg env p = Inr r \<Longrightarrow> result_ok r"
  by (auto simp: function_invoke_def agent_results
      split: if_splits sum.splits call.splits option.splits) (auto simp: result_ok_def)

lemma execute_ok: "execute cfg env d = Inr r \<Longrightarrow> result_ok r"
  by (auto simp: execute_def Let_def run_command_ok function_install_ok function_invoke_ok
      split: json.splits if_splits)

text \<open>A command with a shell metacharacter never succeeds.\<close>

lemma shell_command_fails:
  assumes "use_shell c" "dget_or p ''command'' (JStr []) = JStr c" "run_command cfg env p = Inr r"
  shows "re_status r = ''failed''"
proof -
  have "c \<noteq> []" using assms(1) by (auto simp: use_shell_def)
  then show ?thesis
    using assms by (auto simp: run_command_def build_argv_def Let_def start_process_def
        command_result_def failed_def split: sum.splits if_splits json.splits)
qed

text \<open>The output that is reported is bounded: the limit, and the note that it was cut.\<close>

lemma truncate_prefix: "take (ac_max_output cfg) (truncate_output cfg env s) = take (ac_max_output cfg) s"
  by (simp add: truncate_output_def)

subsection \<open>The tunnel\<close>

text \<open>The waits after the first failures: doubling up to the maximum.\<close>

lemma backoff_closed:
  assumes "0 \<le> base" "base \<le> cap"
  shows "(next_backoff cap ^^ n) base = min (base * 2 ^ n) cap"
proof (induction n)
  case (Suc n)
  have "0 \<le> cap" "0 \<le> base * 2 ^ n" using assms by simp_all
  then show ?case using Suc by (auto simp: next_backoff_def min_def)
qed (simp add: assms(2) min_def)

lemma backoff_bounded: "next_backoff cap b \<le> cap"
  by (simp add: next_backoff_def)

text \<open>\<open>lstrip\<close> takes a set of characters: a host that begins with one of them loses its first
  letters.\<close>

lemma ws_url_loses_host: "ws_url ''http://pi'' = ''ws://i''"
  by (simp add: ws_url_def rstrip_slash_def lstrip_http_def startswith_def)

lemma ws_url_tls: "ws_url ''https://host/'' = ''wss://host''"
  by (simp add: ws_url_def rstrip_slash_def lstrip_http_def startswith_def)

text \<open>A flush that raises keeps the samples twice: in the queue and in the buffer.\<close>

lemma flush_raised_duplicates:
  assumes "ag_buffer st \<noteq> []" "flush d (Raised e) meanwhile st = (ok, st')"
  shows "ag_buffer st' = meanwhile @ ag_buffer st
     \<and> q_items (ag_queue st') \<noteq> q_items (ag_queue st)"
  using assms by (auto simp: flush_def Let_def enqueue_def)

subsection \<open>The callbacks of a control message\<close>

text \<open>What one effect does at the execution service.\<close>

definition deliver_effect ::
  "exec_cfg \<Rightarrow> exec_env \<Rightarrow> string option \<Rightarrow> string option \<Rightarrow> effect \<Rightarrow> exec_state \<Rightarrow> exec_state" where
  "deliver_effect cfg env key token f st = (case f of
     Posted eid body \<Rightarrow> (case eid of
         JStr i \<Rightarrow> snd (callback_execution cfg env key token i body st) | _ \<Rightarrow> st)
   | Acked eid \<Rightarrow> st)"

lemma callback_body_fields: "fst ` set (callback_body s so se c) \<subseteq> set callback_allowed_fields"
  by (auto simp: callback_body_def callback_allowed_fields_def split: option.splits)

lemma callback_body_status [simp]: "dget (callback_body s so se c) ''status'' = JStr s"
  by (simp add: callback_body_def dget_def)

lemma callback_body_no_key [simp]: "dget (callback_body s so se c) ''callback_key'' = JNull"
  by (cases c; cases "nonempty so"; cases "nonempty se") (simp_all add: callback_body_def dget_def)

text \<open>Running, then the final result.\<close>

lemma two_callbacks:
  assumes "is_ok (require_internal_or_bootstrap (internal cfg) (now env) key token)"
    "agent_callback_secret cfg = []" "tbl_get ex_id i (executions st) = Some e"
    "ex_status e = ''dispatched''" "result_ok r"
  shows "\<exists>e'. tbl_get ex_id i (executions
      (deliver_effect cfg env key token (Posted (JStr i) (final_body r))
        (deliver_effect cfg env key token (Posted (JStr i) (callback_body ''running'' None None None)) st)))
      = Some e' \<and> ex_status e' = re_status r \<and> ex_exit_code e' = JInt (re_exit_code r)"
proof -
  have "re_status r \<in> {''succeeded'', ''failed''}" using assms(5) by (simp add: result_ok_def)
  then have "tbl_get ex_id i (executions (snd (callback_execution cfg env key token i (final_body r)
      (snd (callback_execution cfg env key token i (callback_body ''running'' None None None) st)))))
    = Some (apply_callback env (final_body r) (re_status r)
        (apply_callback env (callback_body ''running'' None None None) ''running'' e))"
    by (intro running_then_final [OF assms(1-4)]) (simp_all add: final_body_def callback_body_fields)
  moreover have "dhas (final_body r) ''exit_code''" "dget (final_body r) ''exit_code'' = JInt (re_exit_code r)"
    by (auto simp: final_body_def callback_body_def dhas_def dget_def)
  ultimately show ?thesis by (simp add: deliver_effect_def) (simp add: apply_callback_def)
qed


text \<open>An agent that runs \<open>ls\<close> for the dispatched execution with the empty id.\<close>

definition demo_agent_cfg :: agent_cfg where
  "demo_agent_cfg = \<lparr>ac_runtime_enabled = False, ac_command_timeout = 300, ac_max_output = 65536\<rparr>"

definition demo_agent_env :: agent_env where
  "demo_agent_env = \<lparr>ae_run = (\<lambda>ws d t. Exited (Some 0) ''out'' []), ae_install = (\<lambda>d. Raised ''down''),
     ae_invoke = (\<lambda>i a. Raised ''down''), ae_output = (\<lambda>t. None), ae_text = (\<lambda>ps. []),
     ae_show = (\<lambda>v. []), ae_float = (\<lambda>s. None)\<rparr>"

definition demo_control :: dict where
  "demo_control = [(''execution_id'', JStr []), (''command'', JStr ''ls'')]"


end
