(* ===== verification/Rbac.thy ===== *)
theory Rbac
  imports Prelude
begin

text \<open>
  The RBAC service: the policy engine (\<open>core/policy_engine.py\<close>), the cache of decisions
  (\<open>core/policy_cache.py\<close>), the access log (\<open>core/audit.py\<close>) and the authorize endpoint
  (\<open>main.py\<close>), with what its decisions are worth. Redis and the log file are state of the model
  that may be out of reach; of \<open>%\<close> formatting, \<open>%(name)s\<close> and \<open>%%\<close> are written
  out and the other conversions are a parameter.
\<close>

subsection \<open>The policy engine\<close>

record policy_request =
  pr_user_id :: string
  pr_user_name :: string
  pr_roles :: "string list"
  pr_action :: string
  pr_resource_type :: string
  pr_resource_id :: "string option"
  pr_project_id :: "string option"
  pr_target_user_id :: "string option"

record engine =
  policies :: dict
  rules :: dict

datatype policy_file = NoFile | Policies dict

definition default_policies :: dict where
  "default_policies =
     [(''default'', JStr ''rule:admin_or_owner''),
      (''admin_or_owner'', JStr ''role:admin or project_id:%(project_id)s'')]"

definition load_policies :: "policy_file \<Rightarrow> engine" where
  "load_policies f = (case f of
     NoFile \<Rightarrow> \<lparr>policies = default_policies, rules = []\<rparr>
   | Policies d \<Rightarrow> \<lparr>policies = d,
       rules = map (\<lambda>(k, v). (drop 5 k, v)) (filter (\<lambda>(k, v). startswith k ''rule:'') d)\<rparr>)"

text \<open>\<open>rule % context\<close>; \<open>other\<close> formats from a conversion that is neither
  \<open>%(name)s\<close> nor \<open>%%\<close> on.\<close>

function py_format ::
  "(string \<Rightarrow> string option) \<Rightarrow> (string \<Rightarrow> string res) \<Rightarrow> string \<Rightarrow> string res" where
  "py_format look other [] = Inr []"
| "py_format look other (c # s) =
     (if c \<noteq> CHR ''%'' then map_sum id ((#) c) (py_format look other s)
      else if s = [] then Inl (PyExc ''ValueError'')
      else if hd s = CHR ''%'' then map_sum id ((#) c) (py_format look other (tl s))
      else
        let key = takeWhile (\<lambda>x. x \<noteq> CHR '')'') (tl s);
            rest = drop (Suc (length key)) (tl s)
        in if hd s = CHR ''('' \<and> CHR ''('' \<notin> set key \<and> rest \<noteq> [] \<and> hd rest = CHR ''s''
           then (case look key of
                   None \<Rightarrow> Inl (PyExc ''KeyError'')
                 | Some v \<Rightarrow> map_sum id (\<lambda>t. v @ t) (py_format look other (tl rest)))
           else other (c # s))"
  by pat_completeness auto

termination
  by (relation "measure (\<lambda>(look, other, s). length s)") (auto simp: neq_Nil_conv Let_def)

record rbac_env =
  rb_other :: "string \<Rightarrow> string res"
  rb_show_list :: "string list \<Rightarrow> string"

text \<open>The context of an evaluation, as \<open>%(name)s\<close> renders it.\<close>

definition context_str :: "rbac_env \<Rightarrow> policy_request \<Rightarrow> string \<Rightarrow> string option" where
  "context_str env r = map_of
     [(''user_id'', pr_user_id r), (''user_name'', pr_user_name r),
      (''roles'', rb_show_list env (pr_roles r)), (''project_id'', fstr (pr_project_id r)),
      (''target_user_id'', fstr (pr_target_user_id r)),
      (''resource_type'', pr_resource_type r), (''resource_id'', fstr (pr_resource_id r))]"

text \<open>\<open>s.split()\<close>: the words between blanks.\<close>

fun split_words :: "string \<Rightarrow> string \<Rightarrow> string list" where
  "split_words w [] = (if w = [] then [] else [rev w])"
| "split_words w (c # s) =
     (if is_space c then (if w = [] then split_words [] s else rev w # split_words [] s)
      else split_words (c # w) s)"

text \<open>The name in a word that starts with \<open>role:\<close>: its second part at the colons.\<close>

definition role_checks :: "string \<Rightarrow> string list" where
  "role_checks rule =
     map (\<lambda>w. split_on CHR '':'' w ! 1) (filter (\<lambda>w. startswith w ''role:'') (split_words [] rule))"

definition evaluate_rule :: "policy_request \<Rightarrow> string \<Rightarrow> bool" where
  "evaluate_rule r rule =
     (if contains rule ''role:admin'' \<or> ''role:admin'' \<in> set (pr_roles r) then True
      else if contains rule ''role:'' \<and> (\<exists>n \<in> set (role_checks rule). n \<in> set (pr_roles r)) then True
      else if contains rule ''project_id:'' \<and> nonempty (pr_project_id r)
        \<and> contains rule (''project_id:'' @ fstr (pr_project_id r)) then True
      else contains rule ''user_id:'' \<and> pr_user_id r \<noteq> []
        \<and> contains rule (''user_id:'' @ pr_user_id r))"

definition policy_rule :: "engine \<Rightarrow> policy_request \<Rightarrow> json" where
  "policy_rule e r =
     (let k = pr_resource_type r @ '':'' @ pr_action r
      in dget_or (policies e) (if dhas (policies e) k then k else ''default'') (JStr ''rule:default''))"

definition engine_authorize :: "rbac_env \<Rightarrow> engine \<Rightarrow> policy_request \<Rightarrow> bool res" where
  "engine_authorize env e r = (case policy_rule e r of
     JStr rule \<Rightarrow> map_sum id (evaluate_rule r) (py_format (context_str env r) (rb_other env) rule)
   | _ \<Rightarrow> Inl (PyExc ''TypeError''))"

definition is_ready :: "engine \<Rightarrow> bool" where
  "is_ready e \<longleftrightarrow> policies e \<noteq> []"

definition role_names :: "string list" where
  "role_names = [''admin'', ''member'', ''reader'', ''service'', ''device-admin'', ''fleet-manager'',
     ''network-admin'', ''plugin-developer'', ''execution-operator'', ''auditor'']"

subsection \<open>The cache, the access log and the endpoint\<close>

record decision =
  allowed :: bool
  reason :: "string option"

record access_event =
  av_timestamp :: int
  av_user_id :: string
  av_user_name :: string
  av_roles :: "string list"
  av_action :: string
  av_resource_type :: string
  av_resource_id :: "string option"
  av_result :: string

record rbac_cfg =
  cache_enabled :: bool
  cache_prefix :: string
  audit_enabled :: bool

text \<open>What Redis holds, with the second each entry expires, and the log file.\<close>

record rbac_state =
  redis_up :: bool
  redis :: "(string \<times> int \<times> decision) list"
  file_ok :: bool
  access_log :: "access_event list"

definition cache_get :: "rbac_cfg \<Rightarrow> int \<Rightarrow> string \<Rightarrow> rbac_state \<Rightarrow> decision option" where
  "cache_get cfg t key st =
     (if \<not> cache_enabled cfg \<or> \<not> redis_up st then None
      else case map_of (redis st) (cache_prefix cfg @ key) of
        None \<Rightarrow> None
      | Some (expiry, d) \<Rightarrow> if t < expiry then Some d else None)"

definition cache_set ::
  "rbac_cfg \<Rightarrow> int \<Rightarrow> string \<Rightarrow> decision \<Rightarrow> int \<Rightarrow> rbac_state \<Rightarrow> rbac_state" where
  "cache_set cfg t key d ttl st =
     (if \<not> cache_enabled cfg \<or> \<not> redis_up st then st
      else st\<lparr>redis := AList.update (cache_prefix cfg @ key) (t + ttl, d) (redis st)\<rparr>)"

definition audit_write ::
  "rbac_cfg \<Rightarrow> int \<Rightarrow> policy_request \<Rightarrow> bool \<Rightarrow> rbac_state \<Rightarrow> rbac_state" where
  "audit_write cfg t r ok st =
     (if \<not> audit_enabled cfg \<or> \<not> file_ok st then st
      else st\<lparr>access_log := access_log st @
        [\<lparr>av_timestamp = t, av_user_id = pr_user_id r, av_user_name = pr_user_name r,
          av_roles = pr_roles r, av_action = pr_action r, av_resource_type = pr_resource_type r,
          av_resource_id = pr_resource_id r,
          av_result = (if ok then ''allowed'' else ''denied'')\<rparr>]\<rparr>)"

text \<open>Any exception is status 500, with its text, left out here, as the detail.\<close>

definition cache_key :: "policy_request \<Rightarrow> string" where
  "cache_key r = pr_user_id r @ '':'' @ pr_action r @ '':'' @ pr_resource_type r @ '':''
     @ fstr (pr_resource_id r)"

definition decide :: "bool \<Rightarrow> decision" where
  "decide ok = \<lparr>allowed = ok, reason = (if ok then None else Some ''Access denied by policy'')\<rparr>"

definition authorize ::
  "rbac_cfg \<Rightarrow> rbac_env \<Rightarrow> engine \<Rightarrow> int \<Rightarrow> policy_request \<Rightarrow> rbac_state \<Rightarrow>
     decision res \<times> rbac_state" where
  "authorize cfg env e t r st =
     (case cache_get cfg t (cache_key r) st of
        Some d \<Rightarrow> (Inr d, st)
      | None \<Rightarrow>
        case engine_authorize env e r of
          Inl err \<Rightarrow> (Inl (Http 500 []), st)
        | Inr ok \<Rightarrow>
            (Inr (decide ok), audit_write cfg t r ok (cache_set cfg t (cache_key r) (decide ok) 3600 st)))"

text \<open>The log query: filters that are empty strings do not filter; it stops at the limit, and only then
  sorts, newest first.\<close>

definition event_matches ::
  "string option \<Rightarrow> string option \<Rightarrow> string option \<Rightarrow> bool option \<Rightarrow> access_event \<Rightarrow> bool" where
  "event_matches user_id resource_type action ok ev \<longleftrightarrow>
     (nonempty user_id \<longrightarrow> Some (av_user_id ev) = user_id)
   \<and> (nonempty resource_type \<longrightarrow> Some (av_resource_type ev) = resource_type)
   \<and> (nonempty action \<longrightarrow> Some (av_action ev) = action)
   \<and> (case ok of None \<Rightarrow> True | Some b \<Rightarrow> (av_result ev = ''allowed'') = b)"

fun collect_events :: "(access_event \<Rightarrow> bool) \<Rightarrow> int \<Rightarrow> access_event list \<Rightarrow> access_event list
    \<Rightarrow> access_event list" where
  "collect_events P limit acc [] = acc"
| "collect_events P limit acc (ev # evs) =
     (if \<not> P ev then collect_events P limit acc evs
      else if limit \<le> int (length (acc @ [ev])) then acc @ [ev]
      else collect_events P limit (acc @ [ev]) evs)"

definition query ::
  "string option \<Rightarrow> string option \<Rightarrow> string option \<Rightarrow> bool option \<Rightarrow> int \<Rightarrow> rbac_state
     \<Rightarrow> access_event list" where
  "query user_id resource_type action ok limit st =
     sort_key (\<lambda>ev. - av_timestamp ev)
       (collect_events (event_matches user_id resource_type action ok) limit [] (access_log st))"

subsection \<open>What the decisions are worth\<close>

inductive rbac_reach :: "rbac_cfg \<Rightarrow> rbac_env \<Rightarrow> engine \<Rightarrow> rbac_state \<Rightarrow> bool" for cfg env e where
  start: "redis st = [] \<Longrightarrow> rbac_reach cfg env e st"
| authorize: "rbac_reach cfg env e st \<Longrightarrow> rbac_reach cfg env e (snd (authorize cfg env e t r st))"
| outage: "rbac_reach cfg env e st \<Longrightarrow> rbac_reach cfg env e (st\<lparr>redis_up := b, file_ok := b'\<rparr>)"

text \<open>A cached decision is the evaluation of the policy for some request with that key.\<close>

definition cache_ok :: "rbac_cfg \<Rightarrow> rbac_env \<Rightarrow> engine \<Rightarrow> rbac_state \<Rightarrow> bool" where
  "cache_ok cfg env e st \<longleftrightarrow>
     (\<forall>k t d. map_of (redis st) k = Some (t, d) \<longrightarrow>
        (\<exists>r ok. k = cache_prefix cfg @ cache_key r \<and> engine_authorize env e r = Inr ok
           \<and> d = decide ok))"

lemma redis_audit_write [simp]: "redis (audit_write cfg t r ok st) = redis st"
  by (simp add: audit_write_def)

lemma cache_ok_authorize:
  assumes "cache_ok cfg env e st"
  shows "cache_ok cfg env e (snd (authorize cfg env e t r st))"
proof (cases "cache_get cfg t (cache_key r) st")
  case None
  show ?thesis
  proof (cases "engine_authorize env e r")
    case (Inr ok)
    with None assms show ?thesis
      by (auto simp: authorize_def cache_ok_def cache_set_def update_conv' split: if_splits)
  qed (simp add: authorize_def None assms)
qed (simp add: authorize_def assms)

lemma rbac_reach_ok: "rbac_reach cfg env e st \<Longrightarrow> cache_ok cfg env e st"
proof (induction rule: rbac_reach.induct)
  case (authorize st t r)
  then show ?case by (intro cache_ok_authorize)
qed (simp_all add: cache_ok_def)

text \<open>C24. Every decision the service gives is the policy's, for the request at hand or for another one
  with the same user, action and resource: the roles and the project, on which the policy decides, are
  not part of the key, so within the hour a decision survives the loss of the role it was made for.
  A denial always names its reason.\<close>

theorem rbac_decisions:
  assumes "rbac_reach cfg env e st" "authorize cfg env e t r st = (Inr d, st')"
  shows "(\<exists>r'. cache_key r' = cache_key r
        \<and> engine_authorize env e r' = Inr (allowed d))
   \<and> (reason d = None \<longleftrightarrow> allowed d)
   \<and> (cache_enabled cfg \<and> redis_up st \<longrightarrow>
        (\<forall>r2 t2. cache_key r2 = cache_key r \<and> t \<le> t2 \<and> t2 < t + 3600 \<and> cache_get cfg t (cache_key r) st = None
           \<longrightarrow> fst (authorize cfg env e t2 r2 st') = Inr d))"
proof -
  note ok = rbac_reach_ok [OF assms(1)]
  show ?thesis
  proof (cases "cache_get cfg t (cache_key r) st")
    case None
    then obtain ok where ok: "engine_authorize env e r = Inr ok" and d: "d = decide ok"
      and st': "st' = audit_write cfg t r ok (cache_set cfg t (cache_key r) (decide ok) 3600 st)"
      using assms(2) by (auto simp: authorize_def split: sum.splits)
    have "cache_get cfg t2 (cache_key r) st' = Some d"
      if "cache_enabled cfg" "redis_up st" "t2 < t + 3600" for t2
      using that by (simp add: st' d cache_get_def cache_set_def update_conv' audit_write_def)
    then show ?thesis using ok d by (auto simp: authorize_def decide_def)
  next
    case (Some c)
    then have c: "d = c" using assms(2) by (simp add: authorize_def)
    from Some obtain x where "map_of (redis st) (cache_prefix cfg @ cache_key r) = Some (x, d)"
      by (auto simp: cache_get_def c split: if_splits option.splits)
    then obtain r' ok where "cache_key r' = cache_key r" "engine_authorize env e r' = Inr ok" "d = decide ok"
      using ok unfolding cache_ok_def by (metis same_append_eq)
    with Some show ?thesis by (auto simp: decide_def)
  qed
qed

text \<open>The built-in policies deny everything to everybody whose roles do not hold the text
  \<open>role:admin\<close>: the default rule is the name of another policy, which is never looked up.\<close>

lemma default_rule_denies:
  assumes "''role:admin'' \<notin> set (pr_roles r)"
    "\<not> dhas default_policies (pr_resource_type r @ '':'' @ pr_action r)"
  shows "engine_authorize env (load_policies NoFile) r = Inr False"
proof -
  have "policy_rule (load_policies NoFile) r = JStr ''rule:admin_or_owner''"
    using assms(2) by (simp add: policy_rule_def load_policies_def Let_def)
      (simp add: default_policies_def dget_or_def)
  moreover have "py_format (context_str env r) (rb_other env) ''rule:admin_or_owner''
      = Inr ''rule:admin_or_owner''"
    by simp
  ultimately show ?thesis
    using assms(1) by (simp add: engine_authorize_def evaluate_rule_def startswith_def)
qed

text \<open>A rule that mentions the admin role lets everybody in.\<close>

lemma admin_rule_admits_all: "contains rule ''role:admin'' \<Longrightarrow> evaluate_rule r rule"
  by (simp add: evaluate_rule_def)

text \<open>The query answers at most the limit, but at least one match, and only matches.\<close>

lemma collect_matches:
  "set (collect_events P n acc evs) \<subseteq> set acc \<union> {ev \<in> set evs. P ev}"
  by (induction P n acc evs rule: collect_events.induct) auto

lemma collect_bound:
  "int (length acc) < max 1 n \<Longrightarrow> int (length (collect_events P n acc evs)) \<le> max 1 n"
  by (induction P n acc evs rule: collect_events.induct) auto

lemma query_bound: "int (length (query u rt a ok n st)) \<le> max 1 n"
  using collect_bound [of "[]" n] by (simp add: query_def)

text \<open>A user who was admitted as writer is still admitted without the role.\<close>

definition demo_rbac_cfg :: rbac_cfg where
  "demo_rbac_cfg = \<lparr>cache_enabled = True, cache_prefix = ''policy:'', audit_enabled = True\<rparr>"

definition demo_rbac_env :: rbac_env where
  "demo_rbac_env = \<lparr>rb_other = (\<lambda>s. Inl (PyExc ''ValueError'')), rb_show_list = (\<lambda>xs. [])\<rparr>"

definition demo_engine :: engine where
  "demo_engine = load_policies (Policies [(''device:write'', JStr ''role:writer'')])"

definition demo_rbac_request :: policy_request where
  "demo_rbac_request = \<lparr>pr_user_id = ''ann'', pr_user_name = ''ann'', pr_roles = [''writer''],
     pr_action = ''write'', pr_resource_type = ''device'', pr_resource_id = None,
     pr_project_id = None, pr_target_user_id = None\<rparr>"

lemma rbac_decisions_witness:
  "fst (authorize demo_rbac_cfg demo_rbac_env demo_engine 1800 (demo_rbac_request\<lparr>pr_roles := []\<rparr>)
       (snd (authorize demo_rbac_cfg demo_rbac_env demo_engine 0 demo_rbac_request
          \<lparr>redis_up = True, redis = [], file_ok = True, access_log = []\<rparr>)))
     = Inr \<lparr>allowed = True, reason = None\<rparr>
   \<and> engine_authorize demo_rbac_env demo_engine (demo_rbac_request\<lparr>pr_roles := []\<rparr>) = Inr False"
proof -
  let ?st = "\<lparr>redis_up = True, redis = [], file_ok = True, access_log = []\<rparr> :: rbac_state"
  have e: "engine_authorize demo_rbac_env demo_engine demo_rbac_request = Inr True"
    "engine_authorize demo_rbac_env demo_engine (demo_rbac_request\<lparr>pr_roles := []\<rparr>) = Inr False"
    by (simp_all add: engine_authorize_def policy_rule_def demo_engine_def load_policies_def
      demo_rbac_request_def dget_or_def dhas_def evaluate_rule_def role_checks_def startswith_def
      is_space_def code_def Let_def)
  then obtain st' where a: "authorize demo_rbac_cfg demo_rbac_env demo_engine 0 demo_rbac_request ?st
      = (Inr \<lparr>allowed = True, reason = None\<rparr>, st')"
    by (simp add: authorize_def cache_get_def decide_def demo_rbac_cfg_def)
  have "rbac_reach demo_rbac_cfg demo_rbac_env demo_engine ?st" by (rule rbac_reach.start) simp
  note decisions = rbac_decisions [OF this a]
  have "cache_get demo_rbac_cfg 0 (cache_key demo_rbac_request) ?st = None"
    "cache_enabled demo_rbac_cfg" "redis_up ?st"
    "cache_key (demo_rbac_request\<lparr>pr_roles := []\<rparr>) = cache_key demo_rbac_request"
    by (simp_all add: demo_rbac_cfg_def cache_get_def cache_key_def)
  with decisions have "fst (authorize demo_rbac_cfg demo_rbac_env demo_engine 1800
      (demo_rbac_request\<lparr>pr_roles := []\<rparr>) st') = Inr \<lparr>allowed = True, reason = None\<rparr>"
    by fastforce
  with e show ?thesis by (simp add: a)
qed

end
