(* ===== verification/FunctionStore.thy ===== *)
theory FunctionStore
  imports Agent ExecLifecycle
begin

text \<open>
  nexora-runtime, the daemon beside the agent that keeps and runs WASM functions
  (\<open>packages/nexora-runtime\<close>): the artifact store (\<open>function_store.py\<close>), the executor
  (\<open>wasm_executor.py\<close>, with wasmtime itself a parameter) and the endpoints (\<open>main.py\<close>). At the
  end, what an install that the execution service dispatches and the agent relays comes to.

  A function's directory is named by its id; ids with a slash, which name other directories, are
  not told apart from plain names. A write to the disk succeeds. Bytes are strings.
\<close>

subsection \<open>The store\<close>

record fn_dir =
  fd_id :: string
  fd_wasm :: "string option"
  fd_meta :: "dict option"

type_synonym fn_store = "fn_dir list"

text \<open>The outcome of a download and the digest of hashlib; what a module does when it runs: output
  and error text, trapped with a message, out of time, or not loadable.\<close>

datatype wasm_run = Finished string string | Trapped string string | OutOfTime | Unloadable string

record store_env =
  st_get :: "string \<Rightarrow> string option"
  st_sha256 :: "string \<Rightarrow> string"
  st_loads :: "string \<Rightarrow> json option"
  st_wasmtime :: "(string \<Rightarrow> dict \<Rightarrow> json \<Rightarrow> json \<Rightarrow> wasm_run) option"
  st_duration :: rat
  st_text :: "json list \<Rightarrow> string"
  st_float :: "string \<Rightarrow> rat option"

datatype store_error = FunctionNotFound | ChecksumMismatch | StoreRuntimeError

abbreviation fn_get :: "string \<Rightarrow> fn_store \<Rightarrow> fn_dir option" where
  "fn_get \<equiv> tbl_get fd_id"

definition is_installed :: "string \<Rightarrow> fn_store \<Rightarrow> bool" where
  "is_installed i st = (case fn_get i st of None \<Rightarrow> False | Some d \<Rightarrow> fd_wasm d \<noteq> None)"

text \<open>\<open>mkdir(parents=True, exist_ok=True)\<close>.\<close>

definition make_dir :: "string \<Rightarrow> fn_store \<Rightarrow> fn_store" where
  "make_dir i st = (case fn_get i st of
     None \<Rightarrow> tbl_add \<lparr>fd_id = i, fd_wasm = None, fd_meta = None\<rparr> st | Some d \<Rightarrow> st)"

text \<open>\<open>s.partition(":")\<close>: what is before the first colon and after it.\<close>

definition partition_colon :: "string \<Rightarrow> string \<times> string" where
  "partition_colon s = (takeWhile (\<lambda>c. c \<noteq> CHR '':'') s, drop 1 (dropWhile (\<lambda>c. c \<noteq> CHR '':'') s))"

text \<open>The check of the download: an algorithm other than sha256 is not checked.\<close>

definition checksum_refuses :: "store_env \<Rightarrow> string option \<Rightarrow> string \<Rightarrow> bool" where
  "checksum_refuses env checksum content \<longleftrightarrow>
     nonempty checksum \<and>
     (case partition_colon (fstr checksum) of (algo, expected) \<Rightarrow>
        algo = ''sha256'' \<and> st_sha256 env content \<noteq> expected)"

record install_req =
  in_function_id :: string
  in_artifact_uri :: string
  in_checksum :: "string option"
  in_runtime_type :: string
  in_memory_mb :: int
  in_timeout_ms :: int

definition install_meta :: "install_req \<Rightarrow> string \<Rightarrow> dict" where
  "install_meta r content =
     [(''function_id'', JStr (in_function_id r)), (''artifact_uri'', JStr (in_artifact_uri r)),
      (''runtime_type'', JStr (in_runtime_type r)), (''memory_mb'', JInt (in_memory_mb r)),
      (''timeout_ms'', JInt (in_timeout_ms r)), (''size_bytes'', JInt (int (length content))),
      (''checksum'', jstr (in_checksum r))]"

definition store_install ::
  "store_env \<Rightarrow> install_req \<Rightarrow> fn_store \<Rightarrow> (store_error + dict) \<times> fn_store" where
  "store_install env r st =
     (let st1 = make_dir (in_function_id r) st in
      case st_get env (in_artifact_uri r) of
        None \<Rightarrow> (Inl StoreRuntimeError, st1)
      | Some content \<Rightarrow>
          if checksum_refuses env (in_checksum r) content then (Inl ChecksumMismatch, st1)
          else let meta = install_meta r content
               in (Inr meta, tbl_put fd_id
                     \<lparr>fd_id = in_function_id r, fd_wasm = Some content, fd_meta = Some meta\<rparr> st1))"

definition get_metadata :: "string \<Rightarrow> fn_store \<Rightarrow> store_error + dict" where
  "get_metadata i st = (case fn_get i st of
     None \<Rightarrow> Inl FunctionNotFound
   | Some d \<Rightarrow> (case fd_meta d of None \<Rightarrow> Inl FunctionNotFound | Some m \<Rightarrow> Inr m))"

definition uninstall :: "string \<Rightarrow> fn_store \<Rightarrow> fn_store" where
  "uninstall i st = tbl_del fd_id i st"

definition list_installed :: "fn_store \<Rightarrow> string list" where
  "list_installed st = map fd_id (filter (\<lambda>d. fd_wasm d \<noteq> None) st)"

subsection \<open>The executor\<close>

definition invoke_mock :: "string \<Rightarrow> dict \<Rightarrow> dict" where
  "invoke_mock i args =
     [(''output'', JObj [(''mock'', JBool True), (''function_id'', JStr i), (''args'', JObj args)]),
      (''stdout'', JStr (''{'' @ [CHR 0x22] @ ''mock'' @ [CHR 0x22] @ '': true}'')),
      (''stderr'', JStr []), (''duration_ms'', JNum 10)]"

datatype run_error = NotFound | TimeoutError | ExecutionError | OtherError

definition invoke_wasmtime ::
  "store_env \<Rightarrow> (string \<Rightarrow> dict \<Rightarrow> json \<Rightarrow> json \<Rightarrow> wasm_run) \<Rightarrow> string \<Rightarrow> dict \<Rightarrow> json \<Rightarrow> json
     \<Rightarrow> run_error + dict" where
  "invoke_wasmtime env run content args timeout_s memory_mb =
     (case run content args timeout_s memory_mb of
        Finished out err \<Rightarrow> Inr
          [(''output'', (case st_loads env out of Some v \<Rightarrow> v | None \<Rightarrow> JStr out)),
           (''stdout'', JStr out), (''stderr'', JStr err), (''duration_ms'', JNum (st_duration env))]
      | Trapped msg err \<Rightarrow> Inl ExecutionError
      | OutOfTime \<Rightarrow> Inl TimeoutError
      | Unloadable msg \<Rightarrow> Inl OtherError)"

text \<open>The quotient by 1000 of a value that is not a number raises.\<close>

definition invoke :: "store_env \<Rightarrow> string \<Rightarrow> dict \<Rightarrow> fn_store \<Rightarrow> run_error + dict" where
  "invoke env i args st =
     (case fn_get i st of
        None \<Rightarrow> Inl NotFound
      | Some d \<Rightarrow>
        case fd_wasm d of
          None \<Rightarrow> Inl NotFound
        | Some content \<Rightarrow>
          case get_metadata i st of
            Inl err \<Rightarrow> Inl NotFound
          | Inr meta \<Rightarrow>
            case num_of (dget_or meta ''timeout_ms'' (JInt 30000)) of
              None \<Rightarrow> Inl OtherError
            | Some ms \<Rightarrow>
              case st_wasmtime env of
                None \<Rightarrow> Inr (invoke_mock i args)
              | Some run \<Rightarrow>
                  invoke_wasmtime env run content args (JNum (ms / 1000))
                    (dget_or meta ''memory_mb'' (JInt 64)))"

subsection \<open>The endpoints\<close>

text \<open>The validation of a request body by pydantic: strings are not converted, integers are, from
  booleans, whole floats and decimal strings.\<close>

definition body_str :: "json \<Rightarrow> string option" where
  "body_str v = (case v of JStr s \<Rightarrow> Some s | _ \<Rightarrow> None)"

definition body_int :: "json \<Rightarrow> int option" where
  "body_int v = (case v of JInt i \<Rightarrow> Some i | JBool b \<Rightarrow> Some (if b then 1 else 0)
     | JNum r \<Rightarrow> if of_int \<lfloor>r\<rfloor> = r then Some \<lfloor>r\<rfloor> else None
     | JStr s \<Rightarrow> str_to_int s | _ \<Rightarrow> None)"

definition parse_install :: "dict \<Rightarrow> install_req option" where
  "parse_install d =
     (case (body_str (dget d ''function_id''), body_str (dget d ''artifact_uri''),
            body_str (dget_or d ''runtime_type'' (JStr ''wasm'')),
            body_int (dget_or d ''memory_mb'' (JInt 64)), body_int (dget_or d ''timeout_ms'' (JInt 30000))) of
        (Some i, Some uri, Some rt, Some mem, Some ms) \<Rightarrow>
          (case dget d ''checksum'' of
             JNull \<Rightarrow> Some \<lparr>in_function_id = i, in_artifact_uri = uri, in_checksum = None,
                        in_runtime_type = rt, in_memory_mb = mem, in_timeout_ms = ms\<rparr>
           | JStr c \<Rightarrow> Some \<lparr>in_function_id = i, in_artifact_uri = uri, in_checksum = Some c,
                        in_runtime_type = rt, in_memory_mb = mem, in_timeout_ms = ms\<rparr>
           | _ \<Rightarrow> None)
      | _ \<Rightarrow> None)"

definition install_endpoint :: "store_env \<Rightarrow> dict \<Rightarrow> fn_store \<Rightarrow> dict res \<times> fn_store" where
  "install_endpoint env body st =
     (case parse_install body of
        None \<Rightarrow> (Inl (Http 422 []), st)
      | Some r \<Rightarrow>
        case store_install env r st of
          (Inr meta, st1) \<Rightarrow> (Inr ((''status'', JStr ''installed'') # meta), st1)
        | (Inl err, st1) \<Rightarrow> (Inl (Http (if err = ChecksumMismatch then 422 else 500) []), st1))"

definition invoke_endpoint :: "store_env \<Rightarrow> string \<Rightarrow> dict \<Rightarrow> fn_store \<Rightarrow> dict res" where
  "invoke_endpoint env i args st =
     (case invoke env i args st of
        Inr d \<Rightarrow> Inr d
      | Inl NotFound \<Rightarrow> Inl (Http 404 [])
      | Inl TimeoutError \<Rightarrow> Inl (Http 408 [])
      | Inl ExecutionError \<Rightarrow> Inl (Http 500 [])
      | Inl OtherError \<Rightarrow> Inl (Http 500 []))"

definition uninstall_endpoint :: "string \<Rightarrow> fn_store \<Rightarrow> unit res \<times> fn_store" where
  "uninstall_endpoint i st =
     (if \<not> is_installed i st then (Inl (Http 404 []), st) else (Inr (), uninstall i st))"

definition list_endpoint :: "fn_store \<Rightarrow> dict list" where
  "list_endpoint st = map (\<lambda>i. case get_metadata i st of
     Inr meta \<Rightarrow> meta | Inl err \<Rightarrow> [(''function_id'', JStr i)]) (list_installed st)"

subsection \<open>Lemmas\<close>

interpretation fns: keyed_store "tbl_get fd_id" "tbl_put fd_id" tbl_add "tbl_del fd_id" fd_id
  by (rule keyed_table)

lemma get_make_dir: "fn_get j (make_dir i st) = (if j = i \<and> fn_get i st = None
    then Some \<lparr>fd_id = i, fd_wasm = None, fd_meta = None\<rparr> else fn_get j st)"
  by (auto simp: make_dir_def tbl_get_add split: option.split)

text \<open>What a successful install leaves: the downloaded bytes with their description, for that id only.\<close>

lemma store_install_get:
  assumes "st_get env (in_artifact_uri r) = Some content"
    "\<not> checksum_refuses env (in_checksum r) content"
  shows "store_install env r st = (Inr (install_meta r content), snd (store_install env r st))"
    and "fn_get j (snd (store_install env r st)) = (if j = in_function_id r
      then Some \<lparr>fd_id = j, fd_wasm = Some content, fd_meta = Some (install_meta r content)\<rparr>
      else fn_get j st)"
  using assms
  by (auto simp: store_install_def Let_def tbl_get_put get_make_dir split: option.split)

lemma store_install_failed:
  "store_install env r st = (Inl err, st') \<Longrightarrow> st' = make_dir (in_function_id r) st"
  by (auto simp: store_install_def Let_def split: option.splits if_splits)

text \<open>The store's states, and its integrity: every artifact is what some install with its description
  downloaded, and was checked when the description names a sha256 digest.\<close>

inductive store_reach :: "store_env \<Rightarrow> fn_store \<Rightarrow> bool" for env where
  start: "store_reach env []"
| install: "store_reach env st \<Longrightarrow> store_reach env (snd (install_endpoint env body st))"
| uninstall: "store_reach env st \<Longrightarrow> store_reach env (snd (uninstall_endpoint i st))"

definition dir_ok :: "store_env \<Rightarrow> fn_dir \<Rightarrow> bool" where
  "dir_ok env d \<longleftrightarrow> (case fd_wasm d of
     None \<Rightarrow> fd_meta d = None
   | Some content \<Rightarrow> (\<exists>r. in_function_id r = fd_id d \<and> fd_meta d = Some (install_meta r content)
       \<and> \<not> checksum_refuses env (in_checksum r) content))"

lemma store_reach_ok: "store_reach env st \<Longrightarrow> \<forall>i d. fn_get i st = Some d \<longrightarrow> dir_ok env d"
proof (induction rule: store_reach.induct)
  case (install st body)
  have mk: "\<forall>i d. fn_get i (make_dir j st) = Some d \<longrightarrow> dir_ok env d" for j
    using install.IH by (auto simp: get_make_dir dir_ok_def)
  have "\<forall>i d. fn_get i (snd (store_install env r st)) = Some d \<longrightarrow> dir_ok env d" for r
    using mk [of "in_function_id r"]
    by (auto simp: store_install_def Let_def tbl_get_put dir_ok_def split: option.splits if_splits)
  then show ?case using install.IH
    by (auto simp: install_endpoint_def split: option.splits prod.splits sum.splits)
      (metis snd_conv)+
next
  case (uninstall st i)
  then show ?case by (auto simp: uninstall_endpoint_def uninstall_def tbl_get_del split: if_splits)
qed simp

text \<open>A sha256 checksum is honoured.\<close>

lemma sha256_checked:
  assumes "in_checksum r = Some (''sha256:'' @ h)" "store_install env r st = (Inr meta, st')"
  shows "\<exists>content. fn_get (in_function_id r) st' =
      Some \<lparr>fd_id = in_function_id r, fd_wasm = Some content, fd_meta = Some meta\<rparr>
    \<and> st_sha256 env content = h"
  using assms
  by (auto simp: store_install_def Let_def tbl_get_put get_make_dir checksum_refuses_def
      partition_colon_def fstr_def split: option.splits if_splits)

subsection \<open>From the registry to the device\<close>

text \<open>The answer of the daemon to the agent.\<close>

definition runtime_call :: "store_env \<Rightarrow> fn_store \<Rightarrow> dict \<Rightarrow> call" where
  "runtime_call env st body = (case fst (install_endpoint env body st) of
     Inr d \<Rightarrow> Status 201 (st_text env [JObj d])
   | Inl (Http c d) \<Rightarrow> Status c (st_text env d)
   | Inl (PyExc n) \<Rightarrow> Status 500 [])"

text \<open>The request the agent builds from the plugin block of the dispatch envelope.\<close>

lemma install_request_parsed:
  assumes "dget d ''artifact_uri'' = JStr uri" "dget d ''runtime_type'' = JStr rt"
  shows "parse_install (install_request (plugin_block (Some i) d)) =
    Some \<lparr>in_function_id = i, in_artifact_uri = uri, in_checksum = None, in_runtime_type = rt,
      in_memory_mb = 64, in_timeout_ms = 30000\<rparr>"
  using assms
  by (simp add: parse_install_def install_request_def plugin_block_def dget_or_def body_str_def
      body_int_def) (simp add: dget_def)

text \<open>A function is installed on a device without any check of its bytes. The execution service puts
  the registered digest in the envelope as \<open>artifact_checksum\<close>; the agent hands the daemon the
  field \<open>checksum\<close> of that block, which is not there; so whatever bytes the artifact's address
  answers are stored, with the default limits in place of the registered ones, and the agent reports
  success.\<close>

theorem install_unverified:
  assumes "ac_runtime_enabled acfg" "ae_install aenv = runtime_call env st"
    and "dget_or msg ''execution_type'' (JStr ''command'') = JStr ''function.install''"
    and "dget_or msg ''payload'' (JObj msg) = JObj payload"
    and "dget payload ''plugin'' = JObj (plugin_block (Some i) d)"
    and "dget d ''artifact_uri'' = JStr uri" "dget d ''runtime_type'' = JStr rt"
    and "st_get env uri = Some content"
  shows "(\<exists>r. execute acfg aenv msg = Inr r \<and> re_status r = ''succeeded'')
   \<and> (\<exists>meta. fn_get i (snd (install_endpoint env (install_request (plugin_block (Some i) d)) st)) =
          Some \<lparr>fd_id = i, fd_wasm = Some content, fd_meta = Some meta\<rparr>
        \<and> dget meta ''memory_mb'' = JInt 64 \<and> dget meta ''timeout_ms'' = JInt 30000)"
proof -
  let ?r = "\<lparr>in_function_id = i, in_artifact_uri = uri, in_checksum = None, in_runtime_type = rt,
      in_memory_mb = 64, in_timeout_ms = 30000\<rparr>"
  let ?body = "install_request (plugin_block (Some i) d)"
  have free: "\<not> checksum_refuses env (in_checksum ?r) content" by (simp add: checksum_refuses_def)
  have get: "st_get env (in_artifact_uri ?r) = Some content" using assms(8) by simp
  have p: "parse_install ?body = Some ?r" by (rule install_request_parsed [OF assms(6,7)])
  have e: "install_endpoint env ?body st
      = (Inr ((''status'', JStr ''installed'') # install_meta ?r content), snd (store_install env ?r st))"
    unfolding install_endpoint_def p using store_install_get(1) [OF get free, of st]
    by (cases "store_install env ?r st") simp
  have pl: "dget_or payload ''plugin'' (JObj []) = JObj (plugin_block (Some i) d)"
    using assms(5) by (auto simp: dget_def dget_or_def split: option.splits)
  have "execute acfg aenv msg = function_install acfg aenv payload"
    using assms(3,4) by (simp add: execute_def)
  moreover have "\<exists>t. ae_install aenv ?body = Status 201 t" by (simp add: assms(2) runtime_call_def e)
  ultimately have "\<exists>r. execute acfg aenv msg = Inr r \<and> re_status r = ''succeeded''"
    using assms(1) pl by (auto simp: function_install_def)
  then show ?thesis
    using store_install_get(2) [OF get free, of i st] by (simp add: e) (simp add: install_meta_def dget_def)
qed

text \<open>A registered digest that no download can have.\<close>

definition demo_store_env :: store_env where
  "demo_store_env = \<lparr>st_get = (\<lambda>uri. Some ''evil''), st_sha256 = (\<lambda>s. s), st_loads = (\<lambda>s. None),
     st_wasmtime = None, st_duration = 0, st_text = (\<lambda>ps. []), st_float = (\<lambda>s. None)\<rparr>"

definition demo_registered :: dict where
  "demo_registered = [(''artifact_uri'', JStr ''https://repo/f''), (''runtime_type'', JStr ''wasm''),
     (''artifact_checksum'', JStr ''sha256:good'')]"

lemma install_unverified_witness:
  "\<exists>meta. fn_get ''f'' (snd (install_endpoint demo_store_env
       (install_request (plugin_block (Some ''f'') demo_registered)) []))
     = Some \<lparr>fd_id = ''f'', fd_wasm = Some ''evil'', fd_meta = Some meta\<rparr>"
proof -
  let ?acfg = "\<lparr>ac_runtime_enabled = True, ac_command_timeout = 300, ac_max_output = 10\<rparr>"
  let ?aenv = "\<lparr>ae_run = (\<lambda>ws d t. TimedOut), ae_install = runtime_call demo_store_env [],
     ae_invoke = (\<lambda>i a. Raised ''down''), ae_output = (\<lambda>t. None), ae_text = (\<lambda>ps. []),
     ae_show = (\<lambda>v. []), ae_float = (\<lambda>s. None)\<rparr>"
  let ?payload = "[(''plugin'', JObj (plugin_block (Some ''f'') demo_registered))]"
  let ?msg = "[(''execution_type'', JStr ''function.install''), (''payload'', JObj ?payload)]"
  have "ac_runtime_enabled ?acfg" "ae_install ?aenv = runtime_call demo_store_env []"
    "dget_or ?msg ''execution_type'' (JStr ''command'') = JStr ''function.install''"
    "dget_or ?msg ''payload'' (JObj ?msg) = JObj ?payload"
    "dget ?payload ''plugin'' = JObj (plugin_block (Some ''f'') demo_registered)"
    "dget demo_registered ''artifact_uri'' = JStr ''https://repo/f''"
    "dget demo_registered ''runtime_type'' = JStr ''wasm''"
    "st_get demo_store_env ''https://repo/f'' = Some ''evil''"
    by (simp_all add: dget_or_def dget_def demo_registered_def demo_store_env_def)
  from install_unverified [OF this] show ?thesis by blast
qed

end
