(* ===== verification/FunctionRuntime.thy ===== *)
theory FunctionRuntime
  imports Prelude
begin

text \<open>
  The function runtime of the edge device (\<open>services/nexora-function-runtime/main.py\<close>): the
  registry of installed functions, kept in memory and beside each artifact on the disk, with
  install, invoke, remove and the reload at startup; and that what it runs is what was installed.

  The disk maps file paths to contents; \<open>fc_path\<close> gives the file a name stands for in the
  install directory. A write succeeds. Bytes are strings; the text of a JSON file is its value.
  wasmtime, HTTP and the hash are parameters. A key of the registry that is not a string is kept
  as the JSON value it is.
\<close>

subsection \<open>State\<close>

datatype content = Bytes string | Meta dict

datatype download = Got string | HttpFailed string | DownloadRaised string

datatype local_file = NoSuchFile | Contents string | Unreadable string

text \<open>How a module ends: output, error text and the trap, if any; or an exception before it runs.\<close>

datatype module_run = Ended string string "string option" | Refused string

record function_cfg =
  fc_path :: "string \<Rightarrow> string"
  fc_api_key :: string
  fc_schemes :: "string list"
  fc_memory_default :: int

record function_env =
  fe_now :: int
  fe_uuid :: string
  fe_local :: "string \<Rightarrow> local_file"
  fe_get :: "string \<Rightarrow> download"
  fe_sha256 :: "string \<Rightarrow> string"
  fe_wasmtime :: "(string \<Rightarrow> json \<Rightarrow> json \<Rightarrow> json \<Rightarrow> json \<Rightarrow> module_run) option"
  fe_loads :: "string \<Rightarrow> json option"
  fe_dumps :: "json \<Rightarrow> string"
  fe_show :: "json \<Rightarrow> string"
  fe_duration :: rat

record function_state =
  fs_files :: "(string \<times> content) list"
  fs_installed :: "(json \<times> dict) list"

definition require_api_key :: "function_cfg \<Rightarrow> string \<Rightarrow> unit res" where
  "require_api_key cfg key =
     (if fc_api_key cfg = [] \<or> key = fc_api_key cfg then Inr ()
      else Inl (http 401 ''invalid runtime api key''))"

definition wasm_path :: "function_cfg \<Rightarrow> string \<Rightarrow> string" where
  "wasm_path cfg i = fc_path cfg (i @ ''.wasm'')"

definition meta_path :: "function_cfg \<Rightarrow> string \<Rightarrow> string" where
  "meta_path cfg i = fc_path cfg (i @ ''.meta.json'')"

definition installed_fn :: "string \<Rightarrow> function_state \<Rightarrow> dict option" where
  "installed_fn i st = (case map_of (fs_installed st) (JStr i) of
     None \<Rightarrow> None | Some m \<Rightarrow> if m = [] then None else Some m)"

definition get_function :: "string \<Rightarrow> function_state \<Rightarrow> dict res" where
  "get_function i st = (case installed_fn i st of
     None \<Rightarrow> Inl (http 404 ''function not installed'') | Some m \<Rightarrow> Inr m)"

definition get_function_status :: "function_cfg \<Rightarrow> string \<Rightarrow> function_state \<Rightarrow> dict res" where
  "get_function_status cfg i st = (case installed_fn i st of
     None \<Rightarrow> Inl (http 404 ''function not installed'')
   | Some m \<Rightarrow> Inr
      [(''function_id'', JStr i), (''status'', dget_or m ''status'' (JStr ''installed'')),
       (''wasm_file_present'', JBool (map_of (fs_files st) (wasm_path cfg i) \<noteq> None)),
       (''last_invoked_at'', dget m ''last_invoked_at''), (''last_error'', dget m ''last_error''),
       (''invocation_count'', dget_or m ''invocation_count'' (JInt 0))])"

definition list_all_functions :: "function_state \<Rightarrow> dict list \<times> nat" where
  "list_all_functions st = (map snd (fs_installed st), length (fs_installed st))"

definition hashable :: "json \<Rightarrow> bool" where
  "hashable v \<longleftrightarrow> (case v of JArr xs \<Rightarrow> False | JObj d \<Rightarrow> False | _ \<Rightarrow> True)"

text \<open>Startup: the files are read in the order of the directory, one without an id or with one that cannot be
  a key is skipped.\<close>

definition reload_file :: "string \<times> content \<Rightarrow> (json \<times> dict) list \<Rightarrow> (json \<times> dict) list" where
  "reload_file f reg = (case snd f of
     Meta m \<Rightarrow> if dhas m ''id'' \<and> hashable (dget m ''id'') then AList.update (dget m ''id'') m reg else reg
   | Bytes b \<Rightarrow> reg)"

definition reload_installed :: "function_state \<Rightarrow> function_state" where
  "reload_installed st = st\<lparr>fs_installed := fold reload_file (fs_files st) []\<rparr>"

subsection \<open>Install\<close>

text \<open>The scheme and the path of \<open>urlparse\<close>, which first drops leading blanks and control characters,
  tabs and line ends: the scheme is what precedes the first colon when it starts with a letter and
  holds only scheme characters; the path is what follows the authority, up to a question mark or a
  hash sign. An authority with a bracket that is not closed or not opened is refused.\<close>

definition url_clean :: "string \<Rightarrow> string" where
  "url_clean u = filter (\<lambda>c. code c \<notin> {9, 10, 13}) (dropWhile (\<lambda>c. code c \<le> 32) u)"

definition is_alpha :: "char \<Rightarrow> bool" where
  "is_alpha c \<longleftrightarrow> (97 \<le> code (lower_char c) \<and> code (lower_char c) \<le> 122)"

definition scheme_char :: "char \<Rightarrow> bool" where
  "scheme_char c \<longleftrightarrow> is_alpha c \<or> is_digit c \<or> c \<in> set ''+-.''"

definition url_scheme :: "string \<Rightarrow> string" where
  "url_scheme u = (let p = takeWhile (\<lambda>c. c \<noteq> CHR '':'') u
     in if CHR '':'' \<in> set u \<and> p \<noteq> [] \<and> is_alpha (hd p) \<and> list_all scheme_char p then lower p else [])"

definition url_rest :: "string \<Rightarrow> string" where
  "url_rest u = (if url_scheme u = [] then u else drop (Suc (length (url_scheme u))) u)"

definition url_bad :: "string \<Rightarrow> bool" where
  "url_bad u \<longleftrightarrow> startswith (url_rest u) ''//''
     \<and> (let net = takeWhile (\<lambda>c. c \<notin> set ''/?#'') (drop 2 (url_rest u))
        in (CHR ''['' \<in> set net) \<noteq> (CHR '']'' \<in> set net))"

definition url_path :: "string \<Rightarrow> string" where
  "url_path u =
     (let rest = url_rest u;
          after = (if startswith rest ''//''
                   then dropWhile (\<lambda>c. c \<notin> set ''/?#'') (drop 2 rest) else rest)
      in takeWhile (\<lambda>c. c \<notin> set ''?#'') after)"

text \<open>The bytes of the artifact.\<close>

definition load_artifact :: "function_env \<Rightarrow> string \<Rightarrow> string res" where
  "load_artifact env uri =
     (if url_scheme (url_clean uri) = ''file''
      then (case fe_local env (url_path (url_clean uri)) of
              NoSuchFile \<Rightarrow> Inl (Http 404 [JStr ''artifact file not found: '', JStr (url_path (url_clean uri))])
            | Contents b \<Rightarrow> Inr b
            | Unreadable e \<Rightarrow> Inl (PyExc e))
      else (case fe_get env uri of
              Got b \<Rightarrow> Inr b
            | HttpFailed e \<Rightarrow> Inl (Http 502 [JStr ''artifact download failed: '', JStr e])
            | DownloadRaised e \<Rightarrow> Inl (PyExc e)))"

definition actual_hash :: "function_env \<Rightarrow> string \<Rightarrow> string" where
  "actual_hash env b = ''sha256:'' @ fe_sha256 env b"

definition function_meta :: "function_cfg \<Rightarrow> function_env \<Rightarrow> json \<Rightarrow> string \<Rightarrow> dict \<Rightarrow> string \<Rightarrow> dict" where
  "function_meta cfg env i uri payload b =
     [(''id'', i), (''name'', dget_or payload ''name'' i),
      (''version'', dget_or payload ''version'' (JStr ''unknown'')),
      (''runtime_type'', dget_or payload ''runtime_type'' (JStr ''wasm-wasi'')),
      (''entrypoint'', dget_or payload ''entrypoint'' (JStr ''_start'')),
      (''artifact_uri'', JStr uri), (''artifact_checksum'', JStr (actual_hash env b)),
      (''timeout_seconds'', dget_or payload ''timeout_seconds'' (JInt 30)),
      (''memory_limit_mb'', dget_or payload ''memory_limit_mb'' (JInt (fc_memory_default cfg))),
      (''permissions'', dget_or payload ''permissions'' (JArr [])),
      (''wasm_size_bytes'', JInt (int (length b))), (''status'', JStr ''installed''),
      (''installed_at'', JIso (fe_now env)), (''last_invoked_at'', JNull), (''last_error'', JNull),
      (''invocation_count'', JInt 0)]"

definition write_file :: "string \<Rightarrow> content \<Rightarrow> function_state \<Rightarrow> function_state" where
  "write_file p c st = st\<lparr>fs_files := AList.update p c (fs_files st)\<rparr>"

text \<open>The artifact and its description are written, then the registry; an id that is a list or an object
  fails only there. An artifact address that is not a string fails in \<open>urlparse\<close> or after it.\<close>

definition install_function ::
  "function_cfg \<Rightarrow> function_env \<Rightarrow> dict \<Rightarrow> function_state \<Rightarrow> dict res \<times> function_state" where
  "install_function cfg env payload st =
     (let i = jor (dget payload ''id'') (JStr (fe_uuid env));
          expected = dget_or payload ''artifact_checksum'' (JStr []) in
      if \<not> truthy (dget payload ''artifact_uri'')
      then (Inl (http 400 ''artifact_uri is required''), st)
      else case dget payload ''artifact_uri'' of
        JStr uri \<Rightarrow>
          if url_bad (url_clean uri) then (Inl (PyExc ''ValueError''), st)
          else if url_scheme (url_clean uri) \<notin> set (fc_schemes cfg)
          then (Inl (Http 400 (JStr ''artifact_uri scheme must be one of: '' # map JStr (fc_schemes cfg))), st)
          else (case load_artifact env uri of
            Inl err \<Rightarrow> (Inl err, st)
          | Inr b \<Rightarrow>
              if truthy expected \<and> expected \<noteq> JStr (actual_hash env b)
              then (Inl (Http 422 [JStr ''checksum mismatch: expected '', expected, JStr '', got '',
                      JStr (actual_hash env b)]), st)
              else
              let name = py_str (fe_show env) i;
                  meta = function_meta cfg env i uri payload b;
                  st1 = write_file (meta_path cfg name) (Meta meta)
                          (write_file (wasm_path cfg name) (Bytes b) st)
              in if hashable i
                 then (Inr meta, st1\<lparr>fs_installed := AList.update i meta (fs_installed st1)\<rparr>)
                 else (Inl (PyExc ''TypeError''), st1))
      | _ \<Rightarrow> (Inl (PyExc ''AttributeError''), st))"

subsection \<open>Invoke and remove\<close>

definition run_result :: "int \<Rightarrow> string \<Rightarrow> string \<Rightarrow> json \<Rightarrow> dict" where
  "run_result exit out err res =
     [(''exit_code'', JInt exit), (''stdout'', JStr out), (''stderr'', JStr err),
      (''function_result'', res)]"

definition execute_stub :: "function_env \<Rightarrow> string \<Rightarrow> json \<Rightarrow> dict" where
  "execute_stub env b args =
     run_result 0
       (fe_dumps env (JObj [(''status'', JStr ''ok''), (''args_received'', args), (''stub'', JBool True)])) []
       (JObj [(''status'', JStr ''ok''), (''args_received'', args), (''stub'', JBool True),
              (''wasm_size_bytes'', JInt (int (length b)))])"

definition function_result :: "function_env \<Rightarrow> string \<Rightarrow> json" where
  "function_result env out = (case fe_loads env out of
     Some v \<Rightarrow> v
   | None \<Rightarrow> if strip out \<noteq> [] then JObj [(''output'', JStr out)] else JNull)"

definition execute_wasm ::
  "function_env \<Rightarrow> string \<Rightarrow> json \<Rightarrow> json \<Rightarrow> json \<Rightarrow> json \<Rightarrow> dict res" where
  "execute_wasm env b entrypoint args timeout permissions =
     (case fe_wasmtime env of
        None \<Rightarrow> Inr (execute_stub env b args)
      | Some run \<Rightarrow> (case run b entrypoint args timeout permissions of
            Refused e \<Rightarrow> Inl (PyExc e)
          | Ended out err trap \<Rightarrow> Inr (run_result (if trap = None then 0 else 1) out
              (err @ (case trap of None \<Rightarrow> [] | Some t \<Rightarrow> t)) (function_result env out))))"

definition plus_one :: "json \<Rightarrow> json res" where
  "plus_one v = (case v of JInt n \<Rightarrow> Inr (JInt (n + 1)) | JNum r \<Rightarrow> Inr (JNum (r + 1))
     | JBool b \<Rightarrow> Inr (JInt (if b then 2 else 1)) | _ \<Rightarrow> Inl (PyExc ''TypeError''))"

definition invoked_meta :: "function_env \<Rightarrow> dict \<Rightarrow> json \<Rightarrow> dict \<Rightarrow> dict" where
  "invoked_meta env result n m =
     dset (dset (dset m ''invocation_count'' n) ''last_invoked_at'' (JIso (fe_now env)))
       ''last_error'' (if dget result ''exit_code'' \<noteq> JInt 0 then dget result ''stderr'' else JNull)"

definition invoke_installed ::
  "function_cfg \<Rightarrow> function_env \<Rightarrow> string \<Rightarrow> dict \<Rightarrow> function_state \<Rightarrow> dict res \<times> function_state" where
  "invoke_installed cfg env i payload st =
     (case installed_fn i st of
        None \<Rightarrow> (Inl (http 404 ''function not installed''), st)
      | Some m \<Rightarrow>
        case map_of (fs_files st) (wasm_path cfg i) of
          None \<Rightarrow> (Inl (http 409 ''WASM artifact file missing: reinstall required''), st)
        | Some (Meta d) \<Rightarrow> (Inl (PyExc ''not a module''), st)
        | Some (Bytes b) \<Rightarrow>
          case execute_wasm env b
              (jor (dget payload ''entrypoint'') (dget_or m ''entrypoint'' (JStr ''_start'')))
              (dget_or payload ''args'' (JObj []))
              (jor (dget payload ''timeout_seconds'') (dget_or m ''timeout_seconds'' (JInt 30)))
              (dget_or m ''permissions'' (JArr [])) of
            Inl err \<Rightarrow> (Inl err, st)
          | Inr result \<Rightarrow>
            case plus_one (dget_or m ''invocation_count'' (JInt 0)) of
              Inl err \<Rightarrow> (Inl err, st)
            | Inr n \<Rightarrow>
                let m1 = invoked_meta env result n m
                in (Inr (result @ [(''duration_seconds'', JNum (fe_duration env)), (''function_id'', JStr i)]),
                    write_file (meta_path cfg i) (Meta m1)
                      (st\<lparr>fs_installed := AList.update (JStr i) m1 (fs_installed st)\<rparr>)))"

definition remove_function ::
  "function_cfg \<Rightarrow> string \<Rightarrow> function_state \<Rightarrow> unit res \<times> function_state" where
  "remove_function cfg i st =
     (if map_of (fs_installed st) (JStr i) = None then (Inl (http 404 ''function not installed''), st)
      else (Inr (), st\<lparr>fs_files := AList.delete (meta_path cfg i)
                          (AList.delete (wasm_path cfg i) (fs_files st)),
                       fs_installed := AList.delete (JStr i) (fs_installed st)\<rparr>))"

subsection \<open>What runs is what was installed\<close>

definition plain :: "string \<Rightarrow> bool" where
  "plain i \<longleftrightarrow> CHR ''/'' \<notin> set i"

definition plain_id :: "json \<Rightarrow> bool" where
  "plain_id v \<longleftrightarrow> \<not> truthy v \<or> (\<exists>i. v = JStr i \<and> plain i)"

text \<open>The service on ids that are plain names, the fresh ones included, with one hash function.\<close>

inductive function_reach :: "function_cfg \<Rightarrow> (string \<Rightarrow> string) \<Rightarrow> function_state \<Rightarrow> bool" for cfg h where
  start: "function_reach cfg h \<lparr>fs_files = [], fs_installed = []\<rparr>"
| install: "function_reach cfg h st \<Longrightarrow> fe_sha256 env = h \<Longrightarrow> plain (fe_uuid env) \<Longrightarrow>
    plain_id (dget payload ''id'') \<Longrightarrow> function_reach cfg h (snd (install_function cfg env payload st))"
| invoke: "function_reach cfg h st \<Longrightarrow> function_reach cfg h (snd (invoke_installed cfg env i payload st))"
| remove: "function_reach cfg h st \<Longrightarrow> function_reach cfg h (snd (remove_function cfg i st))"
| restart: "function_reach cfg h st \<Longrightarrow> function_reach cfg h (reload_installed st)"

definition distinct_names :: "function_cfg \<Rightarrow> bool" where
  "distinct_names cfg \<longleftrightarrow> inj_on (fc_path cfg) {s. plain s}"

lemma suffix_differs: "i @ ''.wasm'' \<noteq> j @ ''.meta.json''"
proof
  assume "i @ ''.wasm'' = j @ ''.meta.json''"
  then have "last (i @ ''.wasm'') = last (j @ ''.meta.json'')" by simp
  then show False by simp
qed

lemma paths:
  assumes "distinct_names cfg" "plain i" "plain j"
  shows "wasm_path cfg i = wasm_path cfg j \<longleftrightarrow> i = j" "meta_path cfg i = meta_path cfg j \<longleftrightarrow> i = j"
    "wasm_path cfg i \<noteq> meta_path cfg j" "meta_path cfg j \<noteq> wasm_path cfg i"
proof -
  have p: "plain (k @ ''.wasm'')" "plain (k @ ''.meta.json'')" if "plain k" for k
    using that by (simp_all add: plain_def)
  note eq = inj_on_eq_iff [OF assms(1) [unfolded distinct_names_def]]
  show "wasm_path cfg i = wasm_path cfg j \<longleftrightarrow> i = j" "meta_path cfg i = meta_path cfg j \<longleftrightarrow> i = j"
    using eq p assms(2,3) by (simp_all add: wasm_path_def meta_path_def)
  show "wasm_path cfg i \<noteq> meta_path cfg j" "meta_path cfg j \<noteq> wasm_path cfg i"
    using eq p assms(2,3) suffix_differs [of i j] by (simp_all add: wasm_path_def meta_path_def)
qed

text \<open>What a description on the disk says of the artifact beside it.\<close>

definition describes :: "function_cfg \<Rightarrow> (string \<Rightarrow> string) \<Rightarrow> (string \<Rightarrow> content option) \<Rightarrow> string \<Rightarrow> dict \<Rightarrow> bool" where
  "describes cfg h files i m \<longleftrightarrow> plain i \<and> dget m ''id'' = JStr i \<and>
     (\<exists>b. files (wasm_path cfg i) = Some (Bytes b)
        \<and> dget m ''artifact_checksum'' = JStr (''sha256:'' @ h b))"

definition disk_ok :: "function_cfg \<Rightarrow> (string \<Rightarrow> string) \<Rightarrow> function_state \<Rightarrow> bool" where
  "disk_ok cfg h st \<longleftrightarrow> distinct (map fst (fs_files st))
   \<and> (\<forall>p m. map_of (fs_files st) p = Some (Meta m) \<longrightarrow>
        (\<exists>i. p = meta_path cfg i \<and> describes cfg h (map_of (fs_files st)) i m))
   \<and> (\<forall>k m. map_of (fs_installed st) k = Some m \<longleftrightarrow>
        (\<exists>i. k = JStr i \<and> plain i \<and> map_of (fs_files st) (meta_path cfg i) = Some (Meta m)))"

lemma disk_ok_put:
  assumes "distinct_names cfg" "disk_ok cfg h st" "plain i"
    and "dget m ''id'' = JStr i" "dget m ''artifact_checksum'' = JStr (''sha256:'' @ h b)"
    and "map_of (fs_files st') = (map_of (fs_files st))(wasm_path cfg i \<mapsto> Bytes b, meta_path cfg i \<mapsto> Meta m)"
    and "map_of (fs_installed st') = (map_of (fs_installed st))(JStr i \<mapsto> m)"
    and "distinct (map fst (fs_files st'))"
  shows "disk_ok cfg h st'"
  unfolding disk_ok_def
proof (intro conjI allI impI)
  note paths = paths [OF assms(1)]
  show "distinct (map fst (fs_files st'))" by (rule assms(8))
  fix p n assume p: "map_of (fs_files st') p = Some (Meta n)"
  show "\<exists>j. p = meta_path cfg j \<and> describes cfg h (map_of (fs_files st')) j n"
  proof (cases "p = meta_path cfg i")
    case True
    then show ?thesis using p assms(3,4,5,6) paths(3,4) [OF assms(3,3)]
      by (auto simp: describes_def intro!: exI [of _ i])
  next
    case False
    then have "map_of (fs_files st) p = Some (Meta n)" using p assms(6) by (auto split: if_splits)
    then obtain j where j: "p = meta_path cfg j" "describes cfg h (map_of (fs_files st)) j n"
      using assms(2) unfolding disk_ok_def by blast
    then have "plain j" by (simp add: describes_def)
    with j False assms(3) have "i \<noteq> j" by blast
    with j show ?thesis
      using assms(6) paths(1,3) [OF \<open>plain j\<close> assms(3)] by (auto simp: describes_def intro!: exI [of _ j])
  qed
next
  note paths = paths [OF assms(1)]
  fix k n
  show "map_of (fs_installed st') k = Some n \<longleftrightarrow>
    (\<exists>j. k = JStr j \<and> plain j \<and> map_of (fs_files st') (meta_path cfg j) = Some (Meta n))"
  proof (cases "k = JStr i")
    case True
    then show ?thesis using assms(3,6,7) by auto
  next
    case False
    have "map_of (fs_files st') (meta_path cfg j) = map_of (fs_files st) (meta_path cfg j)"
      if "plain j" "j \<noteq> i" for j
      using assms(6) paths(2,4) [OF that(1) assms(3)] paths(4) [OF assms(3) that(1)] that(2) by simp
    then show ?thesis using False assms(2,7) unfolding disk_ok_def by auto
  qed
qed

lemma disk_ok_remove:
  assumes "distinct_names cfg" "disk_ok cfg h st" "plain i"
    and "map_of (fs_files st') = (map_of (fs_files st))(wasm_path cfg i := None, meta_path cfg i := None)"
    and "map_of (fs_installed st') = (map_of (fs_installed st))(JStr i := None)"
    and "distinct (map fst (fs_files st'))"
  shows "disk_ok cfg h st'"
  unfolding disk_ok_def
proof (intro conjI allI impI)
  note paths = paths [OF assms(1)]
  show "distinct (map fst (fs_files st'))" by (rule assms(6))
  fix p n assume p: "map_of (fs_files st') p = Some (Meta n)"
  then have ne: "p \<noteq> meta_path cfg i" and "map_of (fs_files st) p = Some (Meta n)"
    using assms(4) by (auto split: if_splits)
  then obtain j where j: "p = meta_path cfg j" "describes cfg h (map_of (fs_files st)) j n"
    using assms(2) unfolding disk_ok_def by blast
  then have "plain j" by (simp add: describes_def)
  with j ne have "i \<noteq> j" by blast
  with j show "\<exists>j. p = meta_path cfg j \<and> describes cfg h (map_of (fs_files st')) j n"
    using assms(4) paths(1,3) [OF \<open>plain j\<close> assms(3)] by (auto simp: describes_def intro!: exI [of _ j])
next
  note paths = paths [OF assms(1)]
  fix k n
  have other: "map_of (fs_files st') (meta_path cfg j) = map_of (fs_files st) (meta_path cfg j)"
    if "plain j" "j \<noteq> i" for j
    using assms(4) paths(2) [OF that(1) assms(3)] paths(4) [OF assms(3) that(1)] that(2) by simp
  show "map_of (fs_installed st') k = Some n \<longleftrightarrow>
    (\<exists>j. k = JStr j \<and> plain j \<and> map_of (fs_files st') (meta_path cfg j) = Some (Meta n))"
  proof (cases "k = JStr i")
    case True
    then show ?thesis using assms(4,5) by auto
  next
    case False
    then show ?thesis using other assms(2,5) unfolding disk_ok_def by auto
  qed
qed

lemma files_write [simp]: "map_of (fs_files (write_file p c st)) = (map_of (fs_files st))(p \<mapsto> c)"
  by (simp add: write_file_def update_conv')

lemma distinct_write [simp]:
  "distinct (map fst (fs_files st)) \<Longrightarrow> distinct (map fst (fs_files (write_file p c st)))"
  by (simp add: write_file_def distinct_update)

lemma installed_write [simp]: "fs_installed (write_file p c st) = fs_installed st"
  by (simp add: write_file_def)

text \<open>An accepted install in full.\<close>

lemma install_ok:
  assumes "install_function cfg env payload st = (Inr meta, st')"
  shows "\<exists>b uri. let i = jor (dget payload ''id'') (JStr (fe_uuid env));
        name = py_str (fe_show env) i in
      meta = function_meta cfg env i uri payload b
    \<and> (truthy (dget_or payload ''artifact_checksum'' (JStr [])) \<longrightarrow>
        dget_or payload ''artifact_checksum'' (JStr []) = JStr (actual_hash env b))
    \<and> st' = (let st1 = write_file (meta_path cfg name) (Meta meta) (write_file (wasm_path cfg name) (Bytes b) st)
             in st1\<lparr>fs_installed := AList.update i meta (fs_installed st1)\<rparr>)"
  using assms
  by (auto simp: install_function_def Let_def split: if_splits json.splits sum.splits)

lemma install_refused:
  "install_function cfg env payload st = (Inl err, st') \<Longrightarrow>
     hashable (jor (dget payload ''id'') (JStr (fe_uuid env))) \<Longrightarrow> st' = st"
  by (auto simp: install_function_def Let_def split: if_splits json.splits sum.splits)

lemma disk_ok_install:
  assumes "distinct_names cfg" "disk_ok cfg h st" "fe_sha256 env = h" "plain (fe_uuid env)"
    and "plain_id (dget payload ''id'')"
  shows "disk_ok cfg h (snd (install_function cfg env payload st))"
proof -
  let ?i = "jor (dget payload ''id'') (JStr (fe_uuid env))"
  obtain i where i: "?i = JStr i" "plain i"
    using assms(4,5) unfolding jor_def plain_id_def by metis
  show ?thesis
  proof (cases "install_function cfg env payload st")
    case (Pair r st')
    show ?thesis
    proof (cases r)
      case (Inl err)
      have "hashable ?i" by (simp add: i hashable_def)
      with Inl Pair have "st' = st" using install_refused by blast
      then show ?thesis using Pair assms(2) by simp
    next
      case (Inr meta)
      then obtain b uri where meta: "meta = function_meta cfg env (JStr i) uri payload b"
        and st': "st' = (let st1 = write_file (meta_path cfg i) (Meta meta) (write_file (wasm_path cfg i) (Bytes b) st)
             in st1\<lparr>fs_installed := AList.update (JStr i) meta (fs_installed st1)\<rparr>)"
        using install_ok [of cfg env payload st meta st'] Pair i by (auto simp: py_str_def Let_def)
      have "disk_ok cfg h st'"
      proof (rule disk_ok_put [OF assms(1,2) i(2)])
        show "dget meta ''id'' = JStr i" by (simp add: meta function_meta_def dget_def)
        show "dget meta ''artifact_checksum'' = JStr (''sha256:'' @ h b)"
          by (simp add: meta function_meta_def dget_def actual_hash_def assms(3))
      qed (use assms(2) in \<open>simp_all add: st' Let_def update_conv' disk_ok_def\<close>)
      then show ?thesis using Pair by simp
    qed
  qed
qed

lemma installed_describes:
  assumes "disk_ok cfg h st" "map_of (fs_installed st) (JStr i) = Some m" "distinct_names cfg"
  shows "describes cfg h (map_of (fs_files st)) i m"
proof -
  have i: "plain i" "map_of (fs_files st) (meta_path cfg i) = Some (Meta m)"
    using assms(1,2) unfolding disk_ok_def by auto
  then obtain j where j: "meta_path cfg i = meta_path cfg j" "describes cfg h (map_of (fs_files st)) j m"
    using assms(1) unfolding disk_ok_def by blast
  then show ?thesis using paths(2) [OF assms(3) i(1)] by (auto simp: describes_def)
qed

lemma disk_ok_invoke:
  assumes "distinct_names cfg" "disk_ok cfg h st"
  shows "disk_ok cfg h (snd (invoke_installed cfg env i payload st))"
proof -
  have put: "disk_ok cfg h (write_file (meta_path cfg i) (Meta (invoked_meta env result n m))
      (st\<lparr>fs_installed := AList.update (JStr i) (invoked_meta env result n m) (fs_installed st)\<rparr>))"
    if "map_of (fs_installed st) (JStr i) = Some m" for result n m
  proof -
    have d: "describes cfg h (map_of (fs_files st)) i m"
      by (rule installed_describes [OF assms(2) that assms(1)])
    then obtain b where b: "map_of (fs_files st) (wasm_path cfg i) = Some (Bytes b)"
      "dget m ''artifact_checksum'' = JStr (''sha256:'' @ h b)" by (auto simp: describes_def)
    have i: "plain i" using d by (simp add: describes_def)
    show ?thesis
    proof (rule disk_ok_put [OF assms i])
      show "dget (invoked_meta env result n m) ''id'' = JStr i"
        using d by (simp add: invoked_meta_def dget_dset describes_def)
      show "dget (invoked_meta env result n m) ''artifact_checksum'' = JStr (''sha256:'' @ h b)"
        using b by (simp add: invoked_meta_def dget_dset)
      show "map_of (fs_files (write_file (meta_path cfg i) (Meta (invoked_meta env result n m))
          (st\<lparr>fs_installed := AList.update (JStr i) (invoked_meta env result n m) (fs_installed st)\<rparr>)))
        = (map_of (fs_files st))(wasm_path cfg i \<mapsto> Bytes b,
            meta_path cfg i \<mapsto> Meta (invoked_meta env result n m))"
        using b(1) by (simp add: fun_upd_triv map_upd_triv)
    qed (use assms(2) in \<open>simp_all add: update_conv' disk_ok_def\<close>)
  qed
  show ?thesis
    using assms(2) put
    by (auto simp: invoke_installed_def installed_fn_def Let_def
        split: option.splits content.splits sum.splits if_splits)
qed

lemma disk_ok_remove_function:
  assumes "distinct_names cfg" "disk_ok cfg h st"
  shows "disk_ok cfg h (snd (remove_function cfg i st))"
proof (cases "map_of (fs_installed st) (JStr i)")
  case (Some m)
  have i: "plain i" using installed_describes [OF assms(2) Some assms(1)] by (simp add: describes_def)
  have "distinct (map fst (fs_files st))" using assms(2) by (simp add: disk_ok_def)
  then show ?thesis
    using Some by (intro disk_ok_remove [OF assms i])
      (simp_all add: remove_function_def delete_conv' distinct_delete)
qed (simp add: remove_function_def assms)

lemma dget_str_dhas: "dget m k = JStr s \<Longrightarrow> dhas m k"
  by (auto simp: dget_def dhas_def split: option.splits)

text \<open>The registry after a restart, when no two descriptions have the same id.\<close>

lemma reload_lookup:
  assumes "\<forall>p m. (p, Meta m) \<in> set fs \<longrightarrow> dhas m ''id'' \<and> hashable (dget m ''id'')"
    and "\<forall>p q m n. (p, Meta m) \<in> set fs \<and> (q, Meta n) \<in> set fs \<and> dget m ''id'' = dget n ''id'' \<longrightarrow> m = n"
  shows "map_of (fold reload_file fs reg) k = Some m \<longleftrightarrow>
     (\<exists>p. (p, Meta m) \<in> set fs \<and> dget m ''id'' = k)
   \<or> ((\<forall>p n. (p, Meta n) \<in> set fs \<longrightarrow> dget n ''id'' \<noteq> k) \<and> map_of reg k = Some m)"
  using assms
proof (induction fs arbitrary: reg)
  case (Cons f fs)
  obtain p c where f: "f = (p, c)" by (cases f)
  have tail: "\<forall>p m. (p, Meta m) \<in> set fs \<longrightarrow> dhas m ''id'' \<and> hashable (dget m ''id'')"
    "\<forall>p q m n. (p, Meta m) \<in> set fs \<and> (q, Meta n) \<in> set fs \<and> dget m ''id'' = dget n ''id'' \<longrightarrow> m = n"
    using Cons.prems by (simp, meson list.set_intros(2))
  show ?case
  proof (cases c)
    case (Bytes b)
    then show ?thesis using Cons.IH [OF tail, of reg] by (simp add: f reload_file_def)
  next
    case (Meta n)
    have n: "dhas n ''id''" "hashable (dget n ''id'')" using Cons.prems(1) f Meta by auto
    have uniq: "q = n" if "(r, content.Meta q) \<in> set fs" "dget q ''id'' = dget n ''id''" for q r
      using Cons.prems(2) that f Meta by (metis list.set_intros(1,2))
    show ?thesis
      using Cons.IH [OF tail, of "AList.update (dget n ''id'') n reg"] n uniq
      by (auto simp: f Meta reload_file_def update_conv')
  qed
qed simp

lemma disk_ok_reload:
  assumes "distinct_names cfg" "disk_ok cfg h st"
  shows "map_of (fs_installed (reload_installed st)) = map_of (fs_installed st)"
proof (rule ext)
  fix k
  have files: "(p, Meta m) \<in> set (fs_files st) \<longleftrightarrow> map_of (fs_files st) p = Some (Meta m)" for p m
    using assms(2) by (simp add: disk_ok_def map_of_eq_Some_iff)
  have desc: "\<exists>i. p = meta_path cfg i \<and> plain i \<and> dget m ''id'' = JStr i"
    if "map_of (fs_files st) p = Some (Meta m)" for p m
    using assms(2) that unfolding disk_ok_def describes_def by blast
  have look: "map_of (fs_installed (reload_installed st)) k = Some m \<longleftrightarrow>
      (\<exists>p. map_of (fs_files st) p = Some (Meta m) \<and> dget m ''id'' = k)" for m
  proof -
    have "\<forall>p m. (p, Meta m) \<in> set (fs_files st) \<longrightarrow> dhas m ''id'' \<and> hashable (dget m ''id'')"
      unfolding files using desc dget_str_dhas by (fastforce simp: hashable_def)
    moreover have "\<forall>p q m n. (p, Meta m) \<in> set (fs_files st) \<and> (q, Meta n) \<in> set (fs_files st)
        \<and> dget m ''id'' = dget n ''id'' \<longrightarrow> m = n"
      unfolding files using desc by (metis content.inject(2) json.inject(4) option.inject)
    ultimately show ?thesis
      unfolding reload_installed_def by (simp add: reload_lookup files)
  qed
  have reg: "map_of (fs_installed st) k = Some m \<longleftrightarrow>
      (\<exists>i. k = JStr i \<and> plain i \<and> map_of (fs_files st) (meta_path cfg i) = Some (Meta m))" for m
    using assms(2) unfolding disk_ok_def by blast
  have "map_of (fs_installed (reload_installed st)) k = Some m \<longleftrightarrow> map_of (fs_installed st) k = Some m" for m
    unfolding look reg using desc paths(2) [OF assms(1)] by (metis json.inject(4))
  then show "map_of (fs_installed (reload_installed st)) k = map_of (fs_installed st) k"
    by (metis option.exhaust)
qed

lemma function_reach_ok:
  assumes "function_reach cfg h st" "distinct_names cfg"
  shows "disk_ok cfg h st"
  using assms(1)
proof induction
  case start
  show ?case by (simp add: disk_ok_def)
next
  case (restart st)
  then show ?case using disk_ok_reload [OF assms(2) restart.IH]
    by (simp add: disk_ok_def) (simp add: reload_installed_def)
qed (simp_all add: disk_ok_install disk_ok_invoke disk_ok_remove_function assms(2))

text \<open>C25. What the runtime executes is what was installed. On ids that are plain file names, every
  registered function has its artifact on the disk with the digest the registry tells, whatever was
  installed, invoked, removed and restarted before; so an invocation never misses it. A restart
  restores the registry; and an install that names a digest is accepted only with that digest.\<close>

theorem runtime_integrity:
  assumes "distinct_names cfg" "function_reach cfg h st" "installed_fn i st = Some m"
  shows "(\<exists>b. map_of (fs_files st) (wasm_path cfg i) = Some (Bytes b)
        \<and> dget m ''artifact_checksum'' = JStr (''sha256:'' @ h b))
   \<and> installed_fn i (reload_installed st) = Some m
   \<and> (\<forall>env payload meta st'. install_function cfg env payload st = (Inr meta, st')
        \<and> truthy (dget payload ''artifact_checksum'') \<longrightarrow>
        dget meta ''artifact_checksum'' = dget payload ''artifact_checksum'')"
proof (intro conjI allI impI)
  note ok = function_reach_ok [OF assms(2,1)]
  have m: "map_of (fs_installed st) (JStr i) = Some m"
    using assms(3) by (simp add: installed_fn_def split: option.splits if_splits)
  show "\<exists>b. map_of (fs_files st) (wasm_path cfg i) = Some (Bytes b)
        \<and> dget m ''artifact_checksum'' = JStr (''sha256:'' @ h b)"
    using installed_describes [OF ok m assms(1)] by (simp add: describes_def)
  show "installed_fn i (reload_installed st) = Some m"
    using assms(3) by (simp add: installed_fn_def disk_ok_reload [OF assms(1) ok])
  fix env payload meta st'
  assume a: "install_function cfg env payload st = (Inr meta, st')
        \<and> truthy (dget payload ''artifact_checksum'')"
  then have "dget_or payload ''artifact_checksum'' (JStr []) = dget payload ''artifact_checksum''"
    by (auto simp: dget_def dget_or_def split: option.splits)
  with a install_ok [of cfg env payload st meta st']
  show "dget meta ''artifact_checksum'' = dget payload ''artifact_checksum''"
    by (auto simp: Let_def function_meta_def dget_def [of "_ # _"])
qed

text \<open>A function installed from a file address.\<close>

definition demo_function_cfg :: function_cfg where
  "demo_function_cfg = \<lparr>fc_path = (\<lambda>s. s), fc_api_key = [], fc_schemes = [''https''],
     fc_memory_default = 64\<rparr>"

definition demo_function_env :: function_env where
  "demo_function_env = \<lparr>fe_now = 0, fe_uuid = ''u'', fe_local = (\<lambda>p. NoSuchFile), fe_get = Got,
     fe_sha256 = rev, fe_wasmtime = None, fe_loads = (\<lambda>s. None), fe_dumps = (\<lambda>v. []),
     fe_show = (\<lambda>v. []), fe_duration = 0\<rparr>"

definition demo_install :: dict where
  "demo_install = [(''id'', JStr ''f''), (''artifact_uri'', JStr ''https:x'')]"

lemma runtime_integrity_witness:
  "\<exists>m. installed_fn ''f'' (snd (install_function demo_function_cfg demo_function_env demo_install
       \<lparr>fs_files = [], fs_installed = []\<rparr>)) = Some m
     \<and> dget m ''artifact_checksum'' = JStr (''sha256:'' @ rev ''https:x'')"
proof -
  let ?st = "snd (install_function demo_function_cfg demo_function_env demo_install
       \<lparr>fs_files = [], fs_installed = []\<rparr>)"
  have u: "url_bad (url_clean ''https:x'') = False" "url_scheme (url_clean ''https:x'') = ''https''"
    by (simp_all add: url_bad_def url_rest_def url_clean_def url_scheme_def is_alpha_def scheme_char_def
      startswith_def lower_def lower_char_def code_def is_digit_def)
  have st: "?st = \<lparr>fs_files = [(''f.wasm'', Bytes ''https:x''), (''f.meta.json'',
       Meta (function_meta demo_function_cfg demo_function_env (JStr ''f'') ''https:x'' demo_install ''https:x''))],
     fs_installed = [(JStr ''f'',
       function_meta demo_function_cfg demo_function_env (JStr ''f'') ''https:x'' demo_install ''https:x'')]\<rparr>"
    using u by (simp add: install_function_def demo_install_def dget_def dget_or_def jor_def load_artifact_def
      demo_function_env_def write_file_def wasm_path_def meta_path_def py_str_def hashable_def Let_def
      demo_function_cfg_def)
  have inj: "distinct_names demo_function_cfg"
    by (simp add: distinct_names_def demo_function_cfg_def)
  have "function_reach demo_function_cfg rev ?st"
    by (rule function_reach.install [OF function_reach.start])
      (simp_all add: demo_function_env_def plain_def plain_id_def demo_install_def dget_def)
  moreover have "installed_fn ''f'' ?st = Some (function_meta demo_function_cfg demo_function_env
      (JStr ''f'') ''https:x'' demo_install ''https:x'')" (is "_ = Some ?m")
    unfolding st by (simp add: installed_fn_def function_meta_def)
  ultimately obtain b where "map_of (fs_files ?st) (wasm_path demo_function_cfg ''f'') = Some (Bytes b)"
      "dget ?m ''artifact_checksum'' = JStr (''sha256:'' @ rev b)" "installed_fn ''f'' ?st = Some ?m"
    using runtime_integrity [OF inj] by blast
  then show ?thesis unfolding st by (simp add: wasm_path_def demo_function_cfg_def)
qed

end
