(* ===== verification/Resources.thy ===== *)
theory Resources
  imports AuthContext
begin

text \<open>
  Three services of one shape: network (\<open>services/network-service\<close>, ports), webservice
  (\<open>services/webservice-service\<close>) and DNS (\<open>services/dns-service\<close>), each a table with
  create, read, update and delete. Ports and webservices belong to a tenant; the contract they keep is
  the locale \<open>tenant_table\<close>, and its client lemma says what a foreign user can do to a row.
  DNS records belong to nobody, and the service has an authentication of its own.
\<close>

record resource_env =
  rs_now :: int
  rs_now_text :: string
  rs_uuid :: "nat \<Rightarrow> string"
  rs_send_ok :: "nat \<Rightarrow> bool"
  rs_correlation_id :: "string option"

definition resource_actor :: "resource_env \<Rightarrow> current_user \<Rightarrow> actor" where
  "resource_actor env u = \<lparr>actor_user_id = Some (user_id u), actor_tenant_id = Some (tenant_id u),
     actor_roles = roles u, actor_correlation_id = rs_correlation_id env\<rparr>"

definition invalid_status :: "string list \<Rightarrow> error" where
  "invalid_status valid =
     Http 400 [JStr ''invalid status, must be one of '', JArr (map JStr (sort valid))]"

text \<open>The audit record and the event after a change.\<close>

definition record_resource ::
  "publisher_cfg \<Rightarrow> resource_env \<Rightarrow> current_user \<Rightarrow> string \<Rightarrow> string \<Rightarrow> string option \<Rightarrow> dict \<Rightarrow>
     'a svc_state_scheme \<Rightarrow> 'a svc_state_scheme" where
  "record_resource cfg env u action i tenant payload st =
     publish_event cfg (rs_send_ok env) (rs_now env) action i payload
       (emit_audit_event (rs_now_text env) (service_name cfg) (resource_name cfg @ ''.'' @ action)
          (resource_name cfg) (Some i) tenant (resource_actor env u) None st)"

definition tenant_visible :: "auth_settings \<Rightarrow> current_user \<Rightarrow> string option \<Rightarrow> bool" where
  "tenant_visible s u t \<longleftrightarrow> \<not> nonempty t \<or> t = Some (tenant_id u) \<or> is_platform_admin s u"

subsection \<open>Ports\<close>

record port =
  po_id :: string
  po_device_id :: "string option"
  po_network_id :: "string option"
  po_status :: string
  po_ip_address :: "string option"
  po_owner_id :: "string option"
  po_tenant :: "string option"

record port_payload =
  pp_device_id :: "string field"
  pp_network_id :: "string field"
  pp_status :: "string field"
  pp_ip_address :: "string field"

record network_state = svc_state +
  ports :: "port list"

definition valid_port_statuses :: "string list" where
  "valid_port_statuses = [''created'', ''attached'', ''detached'', ''failed'']"

definition port_to_dict :: "port \<Rightarrow> dict" where
  "port_to_dict p =
    [(''id'', JStr (po_id p)), (''device_id'', jstr (po_device_id p)),
     (''network_id'', jstr (po_network_id p)), (''status'', JStr (po_status p)),
     (''ip_address'', jstr (po_ip_address p)), (''owner_id'', jstr (po_owner_id p)),
     (''tenant_id'', jstr (po_tenant p))]"

definition list_ports :: "auth_settings \<Rightarrow> current_user \<Rightarrow> network_state \<Rightarrow> dict list" where
  "list_ports s u st = map port_to_dict
     (filter (\<lambda>p. is_platform_admin s u \<or> po_tenant p = Some (tenant_id u)) (ports st))"

definition create_port ::
  "publisher_cfg \<Rightarrow> resource_env \<Rightarrow> current_user \<Rightarrow> port_payload \<Rightarrow> network_state \<Rightarrow>
     dict res \<times> network_state" where
  "create_port cfg env u d st =
     (let i = rs_uuid env (uuids st);
          st1 = st\<lparr>uuids := Suc (uuids st)\<rparr>;
          p = \<lparr>po_id = i, po_device_id = fget (pp_device_id d), po_network_id = fget (pp_network_id d),
               po_status = ''created'', po_ip_address = fget (pp_ip_address d),
               po_owner_id = Some (user_id u), po_tenant = Some (tenant_id u)\<rparr>
      in if tbl_get po_id i (ports st) \<noteq> None then (Inl (PyExc ''IntegrityError''), st1)
         else (Inr (port_to_dict p),
               record_resource cfg env u ''created'' i (po_tenant p) (port_to_dict p)
                 (st1\<lparr>ports := tbl_add p (ports st)\<rparr>)))"

definition get_port :: "auth_settings \<Rightarrow> current_user \<Rightarrow> string \<Rightarrow> network_state \<Rightarrow> dict res" where
  "get_port s u i st = (case tbl_get po_id i (ports st) of
     None \<Rightarrow> Inl (http 404 ''port not found'')
   | Some p \<Rightarrow> if tenant_visible s u (po_tenant p) then Inr (port_to_dict p)
               else Inl (http 404 ''port not found''))"

definition change_port :: "port_payload \<Rightarrow> port \<Rightarrow> port" where
  "change_port d p =
     p\<lparr>po_status := (if nonempty (fget (pp_status d)) then the (fget (pp_status d)) else po_status p),
       po_ip_address := (if present (pp_ip_address d) then fget (pp_ip_address d) else po_ip_address p),
       po_network_id := (if present (pp_network_id d) then fget (pp_network_id d) else po_network_id p)\<rparr>"

definition update_port ::
  "auth_settings \<Rightarrow> publisher_cfg \<Rightarrow> resource_env \<Rightarrow> current_user \<Rightarrow> string \<Rightarrow> port_payload \<Rightarrow>
     network_state \<Rightarrow> dict res \<times> network_state" where
  "update_port s cfg env u i d st = (case tbl_get po_id i (ports st) of
     None \<Rightarrow> (Inl (http 404 ''port not found''), st)
   | Some p \<Rightarrow>
       if \<not> tenant_visible s u (po_tenant p) then (Inl (http 404 ''port not found''), st)
       else if nonempty (fget (pp_status d)) \<and> the (fget (pp_status d)) \<notin> set valid_port_statuses
       then (Inl (invalid_status valid_port_statuses), st)
       else let p1 = change_port d p
            in (Inr (port_to_dict p1),
                record_resource cfg env u ''updated'' i (po_tenant p1) (port_to_dict p1)
                  (st\<lparr>ports := tbl_put po_id p1 (ports st)\<rparr>)))"

definition delete_port ::
  "auth_settings \<Rightarrow> publisher_cfg \<Rightarrow> resource_env \<Rightarrow> current_user \<Rightarrow> string \<Rightarrow> network_state \<Rightarrow>
     unit res \<times> network_state" where
  "delete_port s cfg env u i st = (case tbl_get po_id i (ports st) of
     None \<Rightarrow> (Inl (http 404 ''port not found''), st)
   | Some p \<Rightarrow>
       if \<not> tenant_visible s u (po_tenant p) then (Inl (http 404 ''port not found''), st)
       else (Inr (), record_resource cfg env u ''deleted'' i (po_tenant p) (port_to_dict p)
              (st\<lparr>ports := tbl_del po_id i (ports st)\<rparr>)))"

subsection \<open>Webservices\<close>

record webservice =
  wb_id :: string
  wb_device_id :: "string option"
  wb_port :: int
  wb_status :: string
  wb_hostname :: "string option"
  wb_tls_enabled :: "bool option"
  wb_owner_id :: "string option"
  wb_tenant :: "string option"

record webservice_payload =
  wp_device_id :: "string field"
  wp_port :: "json field"
  wp_status :: "string field"
  wp_hostname :: "string field"
  wp_tls_enabled :: "json field"

record webservice_state = svc_state +
  webservices :: "webservice list"

definition valid_ws_statuses :: "string list" where
  "valid_ws_statuses = [''enabled'', ''disabled'', ''error'']"

definition ws_to_dict :: "webservice \<Rightarrow> dict" where
  "ws_to_dict w =
    [(''id'', JStr (wb_id w)), (''device_id'', jstr (wb_device_id w)), (''port'', JInt (wb_port w)),
     (''status'', JStr (wb_status w)), (''hostname'', jstr (wb_hostname w)),
     (''tls_enabled'', JBool (case wb_tls_enabled w of None \<Rightarrow> True | Some b \<Rightarrow> b)),
     (''owner_id'', jstr (wb_owner_id w)), (''tenant_id'', jstr (wb_tenant w))]"

definition list_webservices :: "auth_settings \<Rightarrow> current_user \<Rightarrow> webservice_state \<Rightarrow> dict list" where
  "list_webservices s u st = map ws_to_dict
     (filter (\<lambda>w. is_platform_admin s u \<or> wb_tenant w = Some (tenant_id u)) (webservices st))"

text \<open>What the INSERT makes of the port and the flag: null violates NOT NULL for the port; a value of
  another type is refused by the driver.\<close>

definition port_column :: "json field \<Rightarrow> int res" where
  "port_column f = (case f of
     Absent \<Rightarrow> Inr 443 | Null \<Rightarrow> Inl (PyExc ''IntegrityError'')
   | Val (JInt n) \<Rightarrow> Inr n | Val v \<Rightarrow> Inl (PyExc ''StatementError''))"

definition flag_column :: "json field \<Rightarrow> bool option res" where
  "flag_column f = (case f of
     Absent \<Rightarrow> Inr (Some True) | Null \<Rightarrow> Inr None
   | Val (JBool b) \<Rightarrow> Inr (Some b) | Val v \<Rightarrow> Inl (PyExc ''StatementError''))"

definition create_webservice ::
  "publisher_cfg \<Rightarrow> resource_env \<Rightarrow> current_user \<Rightarrow> webservice_payload \<Rightarrow> webservice_state \<Rightarrow>
     dict res \<times> webservice_state" where
  "create_webservice cfg env u d st =
     (case fget_or (wp_status d) (Some ''enabled'') of
        None \<Rightarrow> (Inl (invalid_status valid_ws_statuses), st)
      | Some status \<Rightarrow>
        if status \<notin> set valid_ws_statuses
        then (Inl (invalid_status valid_ws_statuses), st)
        else
        let i = rs_uuid env (uuids st); st1 = st\<lparr>uuids := Suc (uuids st)\<rparr> in
        case port_column (wp_port d) of
          Inl err \<Rightarrow> (Inl err, st1)
        | Inr n \<Rightarrow>
          (case flag_column (wp_tls_enabled d) of
             Inl err \<Rightarrow> (Inl err, st1)
           | Inr tls \<Rightarrow>
             if tbl_get wb_id i (webservices st) \<noteq> None then (Inl (PyExc ''IntegrityError''), st1)
             else
             let w = \<lparr>wb_id = i, wb_device_id = fget (wp_device_id d), wb_port = n, wb_status = status,
                      wb_hostname = fget (wp_hostname d), wb_tls_enabled = tls,
                      wb_owner_id = Some (user_id u), wb_tenant = Some (tenant_id u)\<rparr>
             in (Inr (ws_to_dict w),
                 record_resource cfg env u ''created'' i (wb_tenant w) (ws_to_dict w)
                   (st1\<lparr>webservices := tbl_add w (webservices st)\<rparr>))))"

definition get_webservice :: "auth_settings \<Rightarrow> current_user \<Rightarrow> string \<Rightarrow> webservice_state \<Rightarrow> dict res" where
  "get_webservice s u i st = (case tbl_get wb_id i (webservices st) of
     None \<Rightarrow> Inl (http 404 ''webservice not found'')
   | Some w \<Rightarrow> if tenant_visible s u (wb_tenant w) then Inr (ws_to_dict w)
               else Inl (http 404 ''webservice not found''))"

definition change_webservice :: "webservice_payload \<Rightarrow> webservice \<Rightarrow> webservice res" where
  "change_webservice d w =
     (let w1 = (if present (wp_device_id d) then w\<lparr>wb_device_id := fget (wp_device_id d)\<rparr> else w) in
      case (case fget (wp_port d) of None \<Rightarrow> Inr (wb_port w) | Some JNull \<Rightarrow> Inr (wb_port w) | Some v \<Rightarrow> py_int v) of
        Inl err \<Rightarrow> Inl err
      | Inr n \<Rightarrow>
        if nonempty (fget (wp_status d)) \<and> the (fget (wp_status d)) \<notin> set valid_ws_statuses
        then Inl (invalid_status valid_ws_statuses)
        else Inr (w1\<lparr>wb_port := n,
          wb_status := (if nonempty (fget (wp_status d)) then the (fget (wp_status d)) else wb_status w),
          wb_hostname := (if present (wp_hostname d) then fget (wp_hostname d) else wb_hostname w),
          wb_tls_enabled := (case wp_tls_enabled d of
             Absent \<Rightarrow> wb_tls_enabled w | Null \<Rightarrow> Some False | Val v \<Rightarrow> Some (truthy v))\<rparr>))"

definition update_webservice ::
  "auth_settings \<Rightarrow> publisher_cfg \<Rightarrow> resource_env \<Rightarrow> current_user \<Rightarrow> string \<Rightarrow> webservice_payload \<Rightarrow>
     webservice_state \<Rightarrow> dict res \<times> webservice_state" where
  "update_webservice s cfg env u i d st = (case tbl_get wb_id i (webservices st) of
     None \<Rightarrow> (Inl (http 404 ''webservice not found''), st)
   | Some w \<Rightarrow>
       if \<not> tenant_visible s u (wb_tenant w) then (Inl (http 404 ''webservice not found''), st)
       else case change_webservice d w of
         Inl err \<Rightarrow> (Inl err, st)
       | Inr w1 \<Rightarrow>
           (Inr (ws_to_dict w1),
            record_resource cfg env u ''updated'' (wb_id w1) (wb_tenant w1) (ws_to_dict w1)
              (st\<lparr>webservices := tbl_put wb_id w1 (webservices st)\<rparr>)))"

definition delete_webservice ::
  "auth_settings \<Rightarrow> publisher_cfg \<Rightarrow> resource_env \<Rightarrow> current_user \<Rightarrow> string \<Rightarrow> webservice_state \<Rightarrow>
     unit res \<times> webservice_state" where
  "delete_webservice s cfg env u i st = (case tbl_get wb_id i (webservices st) of
     None \<Rightarrow> (Inl (http 404 ''webservice not found''), st)
   | Some w \<Rightarrow>
       if \<not> tenant_visible s u (wb_tenant w) then (Inl (http 404 ''webservice not found''), st)
       else (Inr (), record_resource cfg env u ''deleted'' i (wb_tenant w) (ws_to_dict w)
              (st\<lparr>webservices := tbl_del wb_id i (webservices st)\<rparr>)))"

subsection \<open>DNS records\<close>

record dns_record =
  dn_id :: string
  dn_name :: string
  dn_type :: string
  dn_value :: "string option"
  dn_ttl :: "int option"

record dns_payload =
  dp_name :: "string field"
  dp_type :: "string field"
  dp_value :: "string field"
  dp_ttl :: "json field"

record dns_state = svc_state +
  dns_records :: "dns_record list"

definition record_to_dict :: "dns_record \<Rightarrow> dict" where
  "record_to_dict r =
    [(''id'', JStr (dn_id r)), (''name'', JStr (dn_name r)), (''type'', JStr (dn_type r)),
     (''value'', jstr (dn_value r)),
     (''ttl'', JInt (case dn_ttl r of None \<Rightarrow> 300 | Some t \<Rightarrow> if t = 0 then 300 else t))]"

text \<open>The event of this service names its resource \<open>dns_record\<close> and its type \<open>dns\<close>.\<close>

definition publish_dns ::
  "publisher_cfg \<Rightarrow> resource_env \<Rightarrow> string \<Rightarrow> string \<Rightarrow> dict \<Rightarrow> 'a bus_scheme \<Rightarrow> 'a bus_scheme" where
  "publish_dns cfg env action i payload st =
     (let st1 = publish_event cfg (rs_send_ok env) (rs_now env) action i payload st
      in st1\<lparr>published := published st @
           map (\<lambda>e. e\<lparr>ev_resource := ''dns_record''\<rparr>) (drop (length (published st)) (published st1))\<rparr>)"

definition list_records :: "dns_state \<Rightarrow> dict list" where
  "list_records st = map record_to_dict (dns_records st)"

definition ttl_column :: "json field \<Rightarrow> int option res" where
  "ttl_column f = (case f of
     Absent \<Rightarrow> Inr (Some 300) | Null \<Rightarrow> Inr None
   | Val (JInt n) \<Rightarrow> Inr (Some n) | Val v \<Rightarrow> Inl (PyExc ''StatementError''))"

definition create_record ::
  "publisher_cfg \<Rightarrow> resource_env \<Rightarrow> dns_payload \<Rightarrow> dns_state \<Rightarrow> dict res \<times> dns_state" where
  "create_record cfg env d st =
     (let i = rs_uuid env (uuids st); st1 = st\<lparr>uuids := Suc (uuids st)\<rparr> in
      case (fget (dp_name d), fget_or (dp_type d) (Some ''A''), ttl_column (dp_ttl d)) of
        (Some name, Some type, Inr ttl) \<Rightarrow>
          if tbl_get dn_id i (dns_records st) \<noteq> None then (Inl (PyExc ''IntegrityError''), st1)
          else
          let r = \<lparr>dn_id = i, dn_name = name, dn_type = type, dn_value = fget (dp_value d), dn_ttl = ttl\<rparr>
          in (Inr (record_to_dict r),
              publish_dns cfg env ''created'' i (record_to_dict r)
                (st1\<lparr>dns_records := tbl_add r (dns_records st)\<rparr>))
      | (_, _, Inl err) \<Rightarrow> (Inl err, st1)
      | _ \<Rightarrow> (Inl (PyExc ''IntegrityError''), st1))"

definition get_record :: "string \<Rightarrow> dns_state \<Rightarrow> dict res" where
  "get_record i st = (case tbl_get dn_id i (dns_records st) of
     None \<Rightarrow> Inl (http 404 ''record not found'') | Some r \<Rightarrow> Inr (record_to_dict r))"

definition change_record :: "dns_payload \<Rightarrow> dns_record \<Rightarrow> dns_record res" where
  "change_record d r =
     (case (case fget (dp_ttl d) of None \<Rightarrow> Inr (dn_ttl r) | Some JNull \<Rightarrow> Inr (dn_ttl r)
              | Some v \<Rightarrow> map_sum id Some (py_int v)) of
        Inl err \<Rightarrow> Inl err
      | Inr ttl \<Rightarrow> Inr (r\<lparr>dn_value := (if present (dp_value d) then fget (dp_value d) else dn_value r),
          dn_type := (if nonempty (fget (dp_type d)) then the (fget (dp_type d)) else dn_type r),
          dn_ttl := ttl\<rparr>))"

definition update_record ::
  "publisher_cfg \<Rightarrow> resource_env \<Rightarrow> string \<Rightarrow> dns_payload \<Rightarrow> dns_state \<Rightarrow> dict res \<times> dns_state" where
  "update_record cfg env i d st = (case tbl_get dn_id i (dns_records st) of
     None \<Rightarrow> (Inl (http 404 ''record not found''), st)
   | Some r \<Rightarrow> (case change_record d r of
       Inl err \<Rightarrow> (Inl err, st)
     | Inr r1 \<Rightarrow>
         (Inr (record_to_dict r1),
          publish_dns cfg env ''updated'' i (record_to_dict r1)
            (st\<lparr>dns_records := tbl_put dn_id r1 (dns_records st)\<rparr>))))"

definition delete_record ::
  "publisher_cfg \<Rightarrow> resource_env \<Rightarrow> string \<Rightarrow> dns_state \<Rightarrow> unit res \<times> dns_state" where
  "delete_record cfg env i st = (case tbl_get dn_id i (dns_records st) of
     None \<Rightarrow> (Inl (http 404 ''record not found''), st)
   | Some r \<Rightarrow> (Inr (), publish_dns cfg env ''deleted'' i (record_to_dict r)
                  (st\<lparr>dns_records := tbl_del dn_id i (dns_records st)\<rparr>)))"

text \<open>The service's own middleware. \<open>verify\<close> is the check of the signature against the issuer's
  keys, \<open>parse\<close> the base64 and JSON decoding of the middle part: without an issuer it decides.\<close>

record dns_auth =
  da_enabled :: bool
  da_dev_bypass :: bool
  da_dev_token :: string
  da_write_role :: string
  da_issuer :: string

definition decode_jwt_payload ::
  "dns_auth \<Rightarrow> (string \<Rightarrow> json option) \<Rightarrow> (string \<Rightarrow> json option) \<Rightarrow> string \<Rightarrow> json" where
  "decode_jwt_payload cfg verify parse token =
     (if da_issuer cfg \<noteq> [] then (case verify token of None \<Rightarrow> JNull | Some v \<Rightarrow> v)
      else case split_on CHR ''.'' token of
        [_, payload, _] \<Rightarrow> (case parse payload of None \<Rightarrow> JNull | Some v \<Rightarrow> v)
      | _ \<Rightarrow> JNull)"

definition write_methods :: "string list" where
  "write_methods = [''POST'', ''PATCH'', ''PUT'', ''DELETE'']"

text \<open>\<open>set(realm_access.get("roles", []))\<close>: a list whose elements are hashable, a string, an object.\<close>

definition role_set :: "json \<Rightarrow> json list res" where
  "role_set v = (case v of
     JArr xs \<Rightarrow> if list_all (\<lambda>x. case x of JArr _ \<Rightarrow> False | JObj _ \<Rightarrow> False | _ \<Rightarrow> True) xs
                then Inr xs else Inl (PyExc ''TypeError'')
   | JStr t \<Rightarrow> Inr (map (\<lambda>c. JStr [c]) t)
   | JObj d \<Rightarrow> Inr (map (\<lambda>p. JStr (fst p)) d)
   | _ \<Rightarrow> Inl (PyExc ''TypeError''))"

definition dns_auth_middleware ::
  "dns_auth \<Rightarrow> (string \<Rightarrow> json option) \<Rightarrow> (string \<Rightarrow> json option) \<Rightarrow> (string \<Rightarrow> rat option) \<Rightarrow> rat \<Rightarrow>
     auth_request \<Rightarrow> unit res" where
  "dns_auth_middleware cfg verify parse flt t r =
     (let authorization = (case ar_authorization r of None \<Rightarrow> [] | Some a \<Rightarrow> a);
          token = drop (length ''Bearer '') authorization in
      if \<not> da_enabled cfg \<or> ar_path r \<in> set public_paths then Inr ()
      else if \<not> startswith authorization ''Bearer '' then Inl (http 401 ''missing bearer token'')
      else if da_dev_bypass cfg \<and> token = da_dev_token cfg then Inr ()
      else case decode_jwt_payload cfg verify parse token of
        JObj claims \<Rightarrow>
          if claims = [] then Inl (http 401 ''invalid token'')
          else (case (if truthy (dget claims ''exp'') then map_sum id Some (py_float flt (dget claims ''exp''))
                      else Inr None) of
            Inl err \<Rightarrow> Inl err
          | Inr expiry \<Rightarrow>
            if expiry \<noteq> None \<and> the expiry < t then Inl (http 401 ''token expired'')
            else if da_issuer cfg \<noteq> [] \<and> dget claims ''iss'' \<noteq> JStr (da_issuer cfg)
            then Inl (http 401 ''invalid issuer'')
            else if ar_method r \<notin> set write_methods then Inr ()
            else (case dget_or claims ''realm_access'' (JObj []) of
              JObj access \<Rightarrow>
                (case role_set (dget_or access ''roles'' (JArr [])) of
                   Inl err \<Rightarrow> Inl err
                 | Inr granted \<Rightarrow>
                     if da_write_role cfg \<noteq> [] \<and> JStr (da_write_role cfg) \<notin> set granted
                     then Inl (http 403 ''forbidden'') else Inr ())
            | _ \<Rightarrow> Inl (PyExc ''AttributeError'')))
      | v \<Rightarrow> if truthy v then Inl (PyExc ''AttributeError'') else Inl (http 401 ''invalid token''))"

end
