(* ===== verification/ResourceProperties.thy ===== *)
theory ResourceProperties
  imports Resources
begin

text \<open>
  The contract of a table whose rows belong to tenants, as a locale, its instances for ports and
  webservices, and what it gives: whatever foreign users do, in any number of requests, a tenant's
  row stays as it is and stays hidden from them. And what the DNS service accepts as a token.
\<close>

subsection \<open>The contract\<close>

locale tenant_table =
  fixes key :: "'r \<Rightarrow> string" and tenant :: "'r \<Rightarrow> string option" and rows :: "'s \<Rightarrow> 'r list"
    and admin :: "current_user \<Rightarrow> bool" and step :: "current_user \<Rightarrow> 's \<Rightarrow> 's \<Rightarrow> bool"
  assumes guarded: "step u s s' \<Longrightarrow> tbl_get key i (rows s) = Some r \<Longrightarrow>
      nonempty (tenant r) \<Longrightarrow> tenant r \<noteq> Some (tenant_id u) \<Longrightarrow> \<not> admin u \<Longrightarrow>
      tbl_get key i (rows s') = Some r"
    and owned: "step u s s' \<Longrightarrow> tbl_get key i (rows s) = None \<Longrightarrow>
      tbl_get key i (rows s') = Some r \<Longrightarrow> tenant r = Some (tenant_id u)"
    and tenant_kept: "step u s s' \<Longrightarrow> tbl_get key i (rows s) = Some r \<Longrightarrow>
      tbl_get key i (rows s') = Some r' \<Longrightarrow> tenant r' = tenant r"
begin

definition foreign_step :: "string \<Rightarrow> 's \<Rightarrow> 's \<Rightarrow> bool" where
  "foreign_step t s s' \<longleftrightarrow> (\<exists>u. tenant_id u \<noteq> t \<and> \<not> admin u \<and> step u s s')"

text \<open>Any number of requests of foreign users.\<close>

lemma foreign_run_keeps:
  assumes "(foreign_step t)\<^sup>*\<^sup>* s s'" "tbl_get key i (rows s) = Some r" "tenant r = Some t" "t \<noteq> []"
  shows "tbl_get key i (rows s') = Some r"
  using assms(1)
proof induction
  case (step s' s'')
  then show ?case using guarded assms(3,4) unfolding foreign_step_def by fastforce
qed (rule assms(2))

text \<open>And they create no row of the tenant.\<close>

lemma foreign_run_adds_none:
  assumes "(foreign_step t)\<^sup>*\<^sup>* s s'" "tbl_get key i (rows s) = None" "tbl_get key i (rows s') = Some r"
  shows "tenant r \<noteq> Some t"
  using assms(1,3)
proof (induction arbitrary: r)
  case (step s' s'')
  then obtain u where u: "tenant_id u \<noteq> t" "step u s' s''" unfolding foreign_step_def by blast
  show ?case
  proof (cases "tbl_get key i (rows s')")
    case None
    then show ?thesis using owned [OF u(2)] step.prems u(1) by fastforce
  next
    case (Some r')
    then show ?thesis using tenant_kept [OF u(2)] step.prems step.IH by metis
  qed
qed (simp add: assms(2))

end

subsection \<open>The instances\<close>

lemma resource_frames [frame_simps]:
  "ports (record_resource cfg env u a i t p st) = ports st"
  "webservices (record_resource cfg env u a i t p st') = webservices st'"
  by (simp_all add: record_resource_def emit_audit_event_def publish_event_def split: prod.split)

inductive port_step :: "auth_settings \<Rightarrow> current_user \<Rightarrow> network_state \<Rightarrow> network_state \<Rightarrow> bool"
  for s u where
  create: "port_step s u st (snd (create_port cfg env u d st))"
| update: "port_step s u st (snd (update_port s cfg env u i d st))"
| delete: "port_step s u st (snd (delete_port s cfg env u i st))"

inductive webservice_step ::
  "auth_settings \<Rightarrow> current_user \<Rightarrow> webservice_state \<Rightarrow> webservice_state \<Rightarrow> bool"
  for s u where
  create: "webservice_step s u st (snd (create_webservice cfg env u d st))"
| update: "webservice_step s u st (snd (update_webservice s cfg env u i d st))"
| delete: "webservice_step s u st (snd (delete_webservice s cfg env u i st))"

text \<open>What a request does to a table: nothing, a new row of the caller, or an update or deletion of a
  row he sees.\<close>

inductive table_step :: "('r \<Rightarrow> string) \<Rightarrow> ('r \<Rightarrow> string option) \<Rightarrow> (current_user \<Rightarrow> bool) \<Rightarrow>
    current_user \<Rightarrow> 'r list \<Rightarrow> 'r list \<Rightarrow> bool" for key tenant admin u where
  same: "table_step key tenant admin u rs rs"
| add: "tenant r = Some (tenant_id u) \<Longrightarrow> tbl_get key (key r) rs = None \<Longrightarrow>
    table_step key tenant admin u rs (tbl_add r rs)"
| put: "tbl_get key (key r') rs = Some r \<Longrightarrow> tenant r' = tenant r \<Longrightarrow>
    \<not> nonempty (tenant r) \<or> tenant r = Some (tenant_id u) \<or> admin u \<Longrightarrow>
    table_step key tenant admin u rs (tbl_put key r' rs)"
| del: "tbl_get key i rs = Some r \<Longrightarrow>
    \<not> nonempty (tenant r) \<or> tenant r = Some (tenant_id u) \<or> admin u \<Longrightarrow>
    table_step key tenant admin u rs (tbl_del key i rs)"

lemma table_step_put:
  assumes "tbl_get key i rs = Some r" "key r' = key r" "tenant r' = tenant r"
    and "\<not> nonempty (tenant r) \<or> tenant r = Some (tenant_id u) \<or> admin u"
  shows "table_step key tenant admin u rs (tbl_put key r' rs)"
  using assms tbl_get_key [OF assms(1)] by (intro table_step.put [of _ _ _ r]) simp_all

lemma tenant_tableI:
  assumes "\<And>u s s'. step u s s' \<Longrightarrow> table_step key tenant admin u (rows s) (rows s')"
  shows "tenant_table key tenant rows admin step"
proof
  fix u s s' i r
  assume st: "step u s s'" and r: "tbl_get key i (rows s) = Some r"
    and f: "nonempty (tenant r)" "tenant r \<noteq> Some (tenant_id u)" "\<not> admin u"
  from assms [OF st] r f show "tbl_get key i (rows s') = Some r"
    by (cases rule: table_step.cases) (auto simp: tbl_get_add tbl_get_put tbl_get_del)
next
  fix u s s' i r
  assume st: "step u s s'" and "tbl_get key i (rows s) = None" "tbl_get key i (rows s') = Some r"
  from assms [OF st] this(2,3) show "tenant r = Some (tenant_id u)"
    by (cases rule: table_step.cases)
      (auto simp: tbl_get_add tbl_get_put tbl_get_del split: option.splits if_splits)
next
  fix u s s' i r r'
  assume st: "step u s s'" and "tbl_get key i (rows s) = Some r" "tbl_get key i (rows s') = Some r'"
  from assms [OF st] this(2,3) show "tenant r' = tenant r"
    by (cases rule: table_step.cases)
      (auto simp: tbl_get_add tbl_get_put tbl_get_del split: option.splits if_splits)
qed

lemma port_table_step:
  "port_step s u st st' \<Longrightarrow> table_step po_id po_tenant (is_platform_admin s) u (ports st) (ports st')"
proof (induction rule: port_step.induct)
  case (create st cfg env d)
  show ?case by (auto simp: create_port_def Let_def frame_simps intro: table_step.intros)
next
  case (update st cfg env i d)
  have keep: "po_id (change_port d p) = po_id p" "po_tenant (change_port d p) = po_tenant p" for p
    by (simp_all add: change_port_def)
  show ?case
    by (auto simp: update_port_def Let_def frame_simps tenant_visible_def keep
        intro: table_step.same intro!: table_step_put split: option.split)
next
  case (delete st cfg env i)
  show ?case
    by (auto simp: delete_port_def frame_simps tenant_visible_def
        intro: table_step.same table_step.del split: option.split)
qed

lemma change_webservice_keeps:
  "change_webservice d w = Inr w' \<Longrightarrow> wb_id w' = wb_id w \<and> wb_tenant w' = wb_tenant w"
  by (auto simp: change_webservice_def Let_def split: sum.splits if_splits)

lemma webservice_table_step:
  "webservice_step s u st st' \<Longrightarrow>
     table_step wb_id wb_tenant (is_platform_admin s) u (webservices st) (webservices st')"
proof (induction rule: webservice_step.induct)
  case (create st cfg env d)
  show ?case
    by (auto simp: create_webservice_def Let_def frame_simps intro: table_step.intros
        split: option.split sum.split)
next
  case (update st cfg env i d)
  show ?case
    by (auto simp: update_webservice_def frame_simps tenant_visible_def dest!: change_webservice_keeps
        intro: table_step.same intro!: table_step_put split: option.split sum.split)
next
  case (delete st cfg env i)
  show ?case
    by (auto simp: delete_webservice_def frame_simps tenant_visible_def
        intro: table_step.same table_step.del split: option.split)
qed

interpretation port_tenants: tenant_table po_id po_tenant ports "is_platform_admin s" "port_step s" for s
  by (rule tenant_tableI) (rule port_table_step)

interpretation webservice_tenants:
  tenant_table wb_id wb_tenant webservices "is_platform_admin s" "webservice_step s" for s
  by (rule tenant_tableI) (rule webservice_table_step)

subsection \<open>Isolation\<close>

abbreviation foreign_port_step :: "auth_settings \<Rightarrow> string \<Rightarrow> network_state \<Rightarrow> network_state \<Rightarrow> bool" where
  "foreign_port_step s t st st' \<equiv>
     \<exists>u. tenant_id u \<noteq> t \<and> \<not> is_platform_admin s u \<and> port_step s u st st'"

abbreviation foreign_webservice_step ::
  "auth_settings \<Rightarrow> string \<Rightarrow> webservice_state \<Rightarrow> webservice_state \<Rightarrow> bool" where
  "foreign_webservice_step s t st st' \<equiv>
     \<exists>u. tenant_id u \<noteq> t \<and> \<not> is_platform_admin s u \<and> webservice_step s u st st'"

lemma port_foreign: "port_tenants.foreign_step s t = foreign_port_step s t"
  by (intro ext) (simp add: port_tenants.foreign_step_def)

lemma webservice_foreign: "webservice_tenants.foreign_step s t = foreign_webservice_step s t"
  by (intro ext) (simp add: webservice_tenants.foreign_step_def)

text \<open>C26. Ports and webservices of a tenant are out of reach for the others. Whatever requests users of
  other tenants make, in any number, a row of the tenant stays exactly as it is and no row of the tenant
  appears; and none of them reads it by id or in a list.\<close>

theorem resource_isolation:
  assumes "t \<noteq> []"
  shows "((foreign_port_step s t)\<^sup>*\<^sup>* st st' \<longrightarrow>
        (\<forall>i p. tbl_get po_id i (ports st) = Some p \<and> po_tenant p = Some t \<longrightarrow>
            tbl_get po_id i (ports st') = Some p)
      \<and> (\<forall>i p. tbl_get po_id i (ports st) = None \<and> tbl_get po_id i (ports st') = Some p \<longrightarrow>
            po_tenant p \<noteq> Some t))
   \<and> ((foreign_webservice_step s t)\<^sup>*\<^sup>* ws ws' \<longrightarrow>
        (\<forall>i w. tbl_get wb_id i (webservices ws) = Some w \<and> wb_tenant w = Some t \<longrightarrow>
            tbl_get wb_id i (webservices ws') = Some w)
      \<and> (\<forall>i w. tbl_get wb_id i (webservices ws) = None \<and> tbl_get wb_id i (webservices ws') = Some w \<longrightarrow>
            wb_tenant w \<noteq> Some t))
   \<and> (\<forall>u. tenant_id u \<noteq> t \<and> \<not> is_platform_admin s u \<longrightarrow>
        (\<forall>i p. tbl_get po_id i (ports st) = Some p \<and> po_tenant p = Some t \<longrightarrow>
            get_port s u i st = Inl (http 404 ''port not found''))
      \<and> (\<forall>d \<in> set (list_ports s u st). dget d ''tenant_id'' \<noteq> JStr t)
      \<and> (\<forall>i w. tbl_get wb_id i (webservices ws) = Some w \<and> wb_tenant w = Some t \<longrightarrow>
            get_webservice s u i ws = Inl (http 404 ''webservice not found''))
      \<and> (\<forall>d \<in> set (list_webservices s u ws). dget d ''tenant_id'' \<noteq> JStr t))"
proof (intro conjI allI impI ballI; (elim conjE)?)
  fix i p assume run: "(foreign_port_step s t)\<^sup>*\<^sup>* st st'"
  show "tbl_get po_id i (ports st') = Some p"
    if "tbl_get po_id i (ports st) = Some p" "po_tenant p = Some t"
    using port_tenants.foreign_run_keeps [unfolded port_foreign, OF run that assms] .
  show "po_tenant p \<noteq> Some t"
    if "tbl_get po_id i (ports st) = None" "tbl_get po_id i (ports st') = Some p"
    using port_tenants.foreign_run_adds_none [unfolded port_foreign, OF run that] .
next
  fix i w assume run: "(foreign_webservice_step s t)\<^sup>*\<^sup>* ws ws'"
  show "tbl_get wb_id i (webservices ws') = Some w"
    if "tbl_get wb_id i (webservices ws) = Some w" "wb_tenant w = Some t"
    using webservice_tenants.foreign_run_keeps [unfolded webservice_foreign, OF run that assms] .
  show "wb_tenant w \<noteq> Some t"
    if "tbl_get wb_id i (webservices ws) = None" "tbl_get wb_id i (webservices ws') = Some w"
    using webservice_tenants.foreign_run_adds_none [unfolded webservice_foreign, OF run that] .
next
  fix u assume u: "tenant_id u \<noteq> t" "\<not> is_platform_admin s u"
  show "get_port s u i st = Inl (http 404 ''port not found'')"
    if "tbl_get po_id i (ports st) = Some p" "po_tenant p = Some t" for i p
    using u that assms by (simp add: get_port_def tenant_visible_def)
  show "dget d ''tenant_id'' \<noteq> JStr t" if "d \<in> set (list_ports s u st)" for d
    using u that by (auto simp: list_ports_def port_to_dict_def dget_def)
  show "get_webservice s u i ws = Inl (http 404 ''webservice not found'')"
    if "tbl_get wb_id i (webservices ws) = Some w" "wb_tenant w = Some t" for i w
    using u that assms by (simp add: get_webservice_def tenant_visible_def)
  show "dget d ''tenant_id'' \<noteq> JStr t" if "d \<in> set (list_webservices s u ws)" for d
    using u that by (auto simp: list_webservices_def ws_to_dict_def dget_def)
qed

text \<open>A deletion tried from another tenant.\<close>

definition demo_port :: port where
  "demo_port = \<lparr>po_id = ''p'', po_device_id = None, po_network_id = None, po_status = ''created'',
     po_ip_address = None, po_owner_id = Some ''ann'', po_tenant = Some ''t1''\<rparr>"

definition demo_network :: network_state where
  "demo_network = \<lparr>producer_up = True, sends = 0, slept = 0, published = [], audit_log = [], uuids = 0,
     ports = [demo_port]\<rparr>"

definition demo_resource_cfg :: publisher_cfg where
  "demo_resource_cfg = \<lparr>kafka_topic_prefix = ''nexora'', kafka_retry_attempts = 3,
     kafka_retry_delay_seconds = 1, service_name = ''network-service'', resource_name = ''port''\<rparr>"

definition demo_resource_env :: resource_env where
  "demo_resource_env = \<lparr>rs_now = 0, rs_now_text = ''t'', rs_uuid = (\<lambda>n. replicate n CHR ''u''),
     rs_send_ok = (\<lambda>n. True), rs_correlation_id = None\<rparr>"

definition demo_foreigner :: current_user where
  "demo_foreigner = \<lparr>user_id = ''eve'', tenant_id = ''t2'', roles = []\<rparr>"

lemma resource_isolation_witness:
  "tbl_get po_id ''p'' (ports (snd (delete_port demo_settings demo_resource_cfg demo_resource_env
       demo_foreigner ''p'' demo_network)))
     = Some demo_port
   \<and> list_ports demo_settings demo_foreigner demo_network = []"
proof -
  let ?st' = "snd (delete_port demo_settings demo_resource_cfg demo_resource_env
       demo_foreigner ''p'' demo_network)"
  have f: "tenant_id demo_foreigner \<noteq> ''t1''" "\<not> is_platform_admin demo_settings demo_foreigner"
    by (simp_all add: demo_foreigner_def is_platform_admin_def has_role_def)
  have run: "(foreign_port_step demo_settings ''t1'')\<^sup>*\<^sup>* demo_network ?st'"
    using f port_step.delete [of demo_settings demo_foreigner demo_network demo_resource_cfg
        demo_resource_env "''p''"]
    by (intro r_into_rtranclp) blast
  have p: "tbl_get po_id ''p'' (ports demo_network) = Some demo_port" "po_tenant demo_port = Some ''t1''"
    by (simp_all add: demo_network_def demo_port_def tbl_get_Cons)
  have "''t1'' \<noteq> []" by simp
  note iso = resource_isolation [OF this, of demo_settings demo_network ?st']
  from iso run p have "tbl_get po_id ''p'' (ports ?st') = Some demo_port" by blast
  then show ?thesis
    using f by (simp add: list_ports_def demo_network_def demo_port_def)
qed

subsection \<open>Tokens of the DNS service\<close>

text \<open>Without a configured issuer no signature is looked at: any three parts whose middle one decodes to
  an object with the write role and no expiry pass, for every method.\<close>

lemma dns_accepts_unsigned:
  assumes "da_issuer cfg = []" "parse payload = Some (JObj claims)" "claims \<noteq> []"
    and "CHR ''.'' \<notin> set header" "CHR ''.'' \<notin> set payload" "CHR ''.'' \<notin> set signature"
    and "dget claims ''exp'' = JNull"
    and "dget_or claims ''realm_access'' (JObj []) = JObj [(''roles'', JArr [JStr (da_write_role cfg)])]"
    and "ar_authorization r
      = Some (''Bearer '' @ header @ ''.'' @ payload @ ''.'' @ signature)"
  shows "dns_auth_middleware cfg verify parse flt t r = Inr ()"
proof -
  have "split_on CHR ''.'' (header @ ''.'' @ payload @ ''.'' @ signature) = [header, payload, signature]"
    using assms(4-6) by (simp add: split_on_append split_on_no_sep)
  then have "decode_jwt_payload cfg verify parse (header @ ''.'' @ payload @ ''.'' @ signature)
      = JObj claims"
    using assms(1,2) by (simp add: decode_jwt_payload_def)
  then show ?thesis
    using assms(1,3,7,8,9)
    by (simp add: dns_auth_middleware_def Let_def startswith_def role_set_def dget_or_def)
qed

end
