(* ===== verification/Doubles.thy ===== *)
theory Doubles
  imports Prelude "HOL-Library.Log_Nat"
begin

text \<open>
  Floating-point arithmetic of Python as functions on the rationals: a double is a rational, and the
  result of an operation is the exact one rounded to 53 binary digits, ties to even (the range of the
  exponent is bounded below, and numbers too large for a double are left out).
\<close>

definition least_exponent :: nat where
  "least_exponent = 1074"

text \<open>The distance of the doubles around a number.\<close>

definition ulp :: "rat \<Rightarrow> rat" where
  "ulp x = 2 ^ nat (bitlen \<lfloor>\<bar>x\<bar> * 2 ^ least_exponent\<rfloor> - 53) / 2 ^ least_exponent"

definition double_round :: "rat \<Rightarrow> rat" where
  "double_round x = of_int (round_half_even (x / ulp x)) * ulp x"

definition double_add :: "rat \<Rightarrow> rat \<Rightarrow> rat" where
  "double_add x y = double_round (x + y)"

definition double_mul :: "rat \<Rightarrow> rat \<Rightarrow> rat" where
  "double_mul x y = double_round (x * y)"

definition double_div :: "rat \<Rightarrow> rat \<Rightarrow> rat" where
  "double_div x y = double_round (x / y)"

lemma ulp_pos: "0 < ulp x"
  by (simp add: ulp_def)

lemma double_round_error: "\<bar>double_round x - x\<bar> \<le> ulp x / 2"
proof -
  have "double_round x - x = (of_int (round_half_even (x / ulp x)) - x / ulp x) * ulp x"
    using ulp_pos [of x] by (simp add: double_round_def left_diff_distrib)
  then have "\<bar>double_round x - x\<bar> = \<bar>of_int (round_half_even (x / ulp x)) - x / ulp x\<bar> * ulp x"
    using ulp_pos [of x] by (simp add: abs_mult)
  also have "\<dots> \<le> (1 / 2) * ulp x"
    using ulp_pos [of x] by (intro mult_right_mono [OF round_half_even_error]) simp
  finally show ?thesis by simp
qed

text \<open>Below \<open>2 ^ k\<close> a result is off by at most \<open>2 ^ k / 2 ^ 54\<close>.\<close>

lemma ulp_bound:
  assumes x: "\<bar>x\<bar> < 2 ^ k"
  shows "ulp x \<le> 2 ^ k / 2 ^ 53"
proof -
  let ?n = "\<lfloor>\<bar>x\<bar> * 2 ^ least_exponent\<rfloor>"
  have "\<bar>x\<bar> * 2 ^ least_exponent < 2 ^ k * 2 ^ least_exponent" using x by (rule mult_strict_right_mono) simp
  then have n: "?n < 2 ^ (k + least_exponent)" by (simp only: floor_less_iff power_add of_int_mult of_int_power of_int_numeral)
  have "bitlen ?n \<le> int (k + least_exponent)"
  proof (rule ccontr)
    assume "\<not> bitlen ?n \<le> int (k + least_exponent)"
    then have b: "k + least_exponent \<le> nat (bitlen ?n - 1)" and "0 < bitlen ?n" by linarith+
    then have "0 < ?n" using bitlen_eq_zero_iff [of ?n] by linarith
    then have "2 ^ nat (bitlen ?n - 1) \<le> ?n" using bitlen_bounds by blast
    moreover have "(2 :: int) ^ (k + least_exponent) \<le> 2 ^ nat (bitlen ?n - 1)"
      using b by (intro power_increasing) simp_all
    ultimately show False using n by linarith
  qed
  then have "nat (bitlen ?n - 53) \<le> k + (least_exponent - 53)" by (simp add: least_exponent_def)
  then have "(2 :: rat) ^ nat (bitlen ?n - 53) \<le> 2 ^ (k + (least_exponent - 53))" by (rule power_increasing) simp
  moreover have "(2 :: rat) ^ least_exponent = 2 ^ (least_exponent - 53) * 2 ^ 53"
    by (simp only: power_add [symmetric]) (simp add: least_exponent_def)
  ultimately show ?thesis by (simp add: ulp_def power_add divide_simps)
qed

lemma double_near: "\<bar>x\<bar> < 2 ^ k \<Longrightarrow> \<bar>double_round x - x\<bar> \<le> 2 ^ k / 2 ^ 54"
  using double_round_error [of x] ulp_bound [of x k] by simp

lemma double_error: "\<bar>x\<bar> < 2 ^ 8 \<Longrightarrow> \<bar>double_round x - x\<bar> \<le> 1 / 1000"
  using double_near [of x 8] by simp

end
