(* ===== verification/AiPipeline.thy ===== *)
theory AiPipeline
  imports Events Doubles
begin

text \<open>
  The AI pipeline service (\<open>services/ai-pipeline-service\<close>): the rules that turn events into
  insights (\<open>core/analyzer.py\<close>), the consumer's step (\<open>core/events.py\<close>), the risk scores
  (\<open>core/risk.py\<close>), the enrichment (\<open>core/enrichment.py\<close>), the placement of function drafts
  (\<open>core/function_builder.py\<close>) and the insight endpoints (\<open>api/insights.py\<close>). The language
  model that writes the summaries and the device and fleet services are parameters. Insights of the
  same instant are taken in the order they were stored.
\<close>

subsection \<open>Rows\<close>

record insight =
  ai_id :: string
  ai_tenant :: string
  ai_scope_type :: string
  ai_scope_id :: string
  ai_severity :: string
  ai_status :: string
  ai_category :: string
  ai_title :: string
  ai_summary :: string
  ai_evidence :: dict
  ai_recommendations :: "string list"
  ai_probable_cause :: "string option"
  ai_confidence :: "string option"
  ai_runbook_steps :: "string list"
  ai_related_events :: "dict list"
  ai_risk_score :: "string option"
  ai_model_used :: string
  ai_created_at :: int
  ai_updated_at :: int
  ai_resolved_at :: "int option"

record risk_row =
  rr_id :: string
  rr_scope_type :: string
  rr_scope_id :: string
  rr_score :: string
  rr_level :: string
  rr_evidence :: dict
  rr_updated_at :: int

record ai_state =
  insights :: "insight list"
  risk_scores :: "risk_row list"

record ai_env =
  ae_now :: int
  ae_uuid :: string
  ae_device :: "string \<Rightarrow> dict option"
  ae_members :: "string \<Rightarrow> string list"
  ae_summarize :: "string \<Rightarrow> string \<Rightarrow> string \<times> string"
  ae_window_minutes :: int
  ae_threshold :: int
  ae_show_value :: "json \<Rightarrow> string"

subsection \<open>From events to insights\<close>

record analysis =
  an_tenant :: string
  an_scope_id :: string
  an_severity :: string
  an_category :: string
  an_title :: string
  an_evidence :: dict
  an_recommendations :: "string list"

definition py_text :: "ai_env \<Rightarrow> json \<Rightarrow> string" where
  "py_text env v = py_str (ae_show_value env) v"

definition event_tenant :: "ai_env \<Rightarrow> dict \<Rightarrow> string res" where
  "event_tenant env payload =
     (if truthy (dget payload ''tenant_id'') then Inr (py_text env (dget payload ''tenant_id''))
      else case py_get (dget_or payload ''payload'' (JObj [])) ''tenant_id'' of
        Inl err \<Rightarrow> Inl err
      | Inr v \<Rightarrow> Inr (py_text env (jor v (JStr ''default''))))"

definition event_body :: "dict \<Rightarrow> dict" where
  "event_body payload = (case dget payload ''payload'' of JObj d \<Rightarrow> d | _ \<Rightarrow> payload)"

definition similar :: "string \<Rightarrow> string \<Rightarrow> string \<Rightarrow> int \<Rightarrow> insight \<Rightarrow> bool" where
  "similar scope_type scope_id category since x \<longleftrightarrow>
     ai_scope_type x = scope_type \<and> ai_scope_id x = scope_id \<and> ai_category x = category
   \<and> since \<le> ai_created_at x"

definition count_recent :: "string \<Rightarrow> string \<Rightarrow> string \<Rightarrow> int \<Rightarrow> ai_state \<Rightarrow> int" where
  "count_recent scope_type scope_id category since st =
     int (count_rows (similar scope_type scope_id category since) (insights st))"

definition window_start :: "ai_env \<Rightarrow> int" where
  "window_start env = ae_now env - ae_window_minutes env * 60000000"

definition escalate :: "ai_env \<Rightarrow> int \<Rightarrow> string" where
  "escalate env recent = (if ae_threshold env \<le> recent + 1 then ''critical'' else ''warning'')"

definition make_analysis ::
  "ai_env \<Rightarrow> dict \<Rightarrow> string \<Rightarrow> string \<Rightarrow> string \<Rightarrow> string \<Rightarrow> dict \<Rightarrow> string list \<Rightarrow> analysis option res" where
  "make_analysis env payload device severity category title evidence recommendations =
     map_sum id (\<lambda>t. Some \<lparr>an_tenant = t, an_scope_id = device, an_severity = severity,
        an_category = category, an_title = title, an_evidence = evidence,
        an_recommendations = recommendations\<rparr>) (event_tenant env payload)"

definition body_device :: "ai_env \<Rightarrow> dict \<Rightarrow> string" where
  "body_device env body = py_text env (jor (dget body ''device_id'') (JStr ''unknown''))"

definition analyze_slo :: "ai_env \<Rightarrow> string \<Rightarrow> dict \<Rightarrow> ai_state \<Rightarrow> analysis option res" where
  "analyze_slo env event_type payload st =
     (let body = event_body payload; device = body_device env body;
          metric = py_text env (jor (dget body ''metric'') (JStr ''unknown''));
          recent = count_recent ''device'' device ''slo_breach'' (window_start env) st
      in make_analysis env payload device (escalate env recent) ''slo_breach''
           (''SLO breach detected for '' @ metric)
           [(''event_type'', JStr event_type), (''device_id'', JStr device), (''slo_id'', dget body ''slo_id''),
            (''metric'', JStr metric), (''observed_value'', dget body ''observed_value''),
            (''threshold'', dget body ''threshold''), (''operator'', dget body ''operator''),
            (''violated_at'', dget body ''violated_at''), (''recent_similar_count'', JInt (recent + 1))]
           [''Check the device telemetry trend and confirm whether the SLO threshold is still valid.'',
            ''Inspect the edge runtime and device connectivity before dispatching additional work.'',
            ''Keep the device under observation until the metric returns inside the expected range.''])"

definition event_status :: "ai_env \<Rightarrow> dict \<Rightarrow> string" where
  "event_status env payload = py_text env
     (jor (dget (event_body payload) ''status'') (jor (dget payload ''action'') (JStr [])))"

definition analyze_execution :: "ai_env \<Rightarrow> string \<Rightarrow> dict \<Rightarrow> ai_state \<Rightarrow> analysis option res" where
  "analyze_execution env event_type payload st =
     (let body = event_body payload; status = event_status env payload in
      if event_type = ''execution.callback'' \<and> status \<noteq> ''failed'' \<and> status \<noteq> ''timeout'' then Inr None
      else
      let execution = py_text env (jor (dget body ''execution_id'') (jor (dget body ''id'')
             (jor (dget payload ''resource_id'') (JStr ''unknown''))));
          device = body_device env body;
          recent = count_recent ''device'' device ''execution_failure'' (window_start env) st
      in make_analysis env payload device (escalate env recent) ''execution_failure''
           ''Execution failure pattern detected''
           [(''event_type'', JStr event_type), (''execution_id'', JStr execution), (''device_id'', JStr device),
            (''status'', JStr status), (''error'', jor (dget body ''error'') (dget body ''result_stderr'')),
            (''recent_similar_count'', JInt (recent + 1))]
           [''Inspect execution stderr and runtime logs for this device.'',
            ''Retry the execution only after confirming the agent session is healthy.'',
            ''Compare recent failures against plugin or command changes.''])"

text \<open>\<open>len(v)\<close>.\<close>

definition py_len :: "json \<Rightarrow> nat res" where
  "py_len v = (case v of JArr xs \<Rightarrow> Inr (length xs) | JObj d \<Rightarrow> Inr (length d) | JStr s \<Rightarrow> Inr (length s)
     | _ \<Rightarrow> Inl (PyExc ''TypeError''))"

definition analyze_telemetry :: "ai_env \<Rightarrow> string \<Rightarrow> dict \<Rightarrow> ai_state \<Rightarrow> analysis option res" where
  "analyze_telemetry env event_type payload st =
     (let body = event_body payload; metrics = jor (dget body ''metrics'') (JObj []) in
      case py_int (jor (dget body ''sample_count'') (JInt 0)) of
        Inl err \<Rightarrow> Inl err
      | Inr n \<Rightarrow>
        (case (if 500 \<le> n then Inr True else map_sum id (\<lambda>k. 20 \<le> k) (py_len metrics)) of
           Inl err \<Rightarrow> Inl err
         | Inr False \<Rightarrow> Inr None
         | Inr True \<Rightarrow>
             let device = body_device env body
             in make_analysis env payload device ''info'' ''anomaly'' ''High-volume telemetry ingest observed''
                  [(''event_type'', JStr event_type), (''device_id'', JStr device),
                   (''sample_count'', JInt n), (''metrics'', metrics), (''ingested_at'', dget body ''ingested_at'')]
                  [''Verify that the telemetry batch size is expected for this device.'',
                   ''Consider defining SLOs for the highest-volume metrics.'']))"

definition analyze_delivery :: "ai_env \<Rightarrow> string \<Rightarrow> dict \<Rightarrow> analysis option res" where
  "analyze_delivery env event_type payload =
     (let body = event_body payload; device = body_device env body
      in make_analysis env payload device ''warning'' ''delivery_risk'' ''Command delivery failure detected''
           [(''event_type'', JStr event_type), (''device_id'', JStr device),
            (''execution_id'', jor (dget body ''execution_id'') (dget payload ''resource_id'')),
            (''error'', jor (dget body ''error'') (dget body ''reason''))]
           [''Verify the edge agent session and heartbeat for this device.'',
            ''Check gateway delivery retries before creating more executions.''])"

definition analyze_event :: "ai_env \<Rightarrow> string \<Rightarrow> dict \<Rightarrow> ai_state \<Rightarrow> analysis option res" where
  "analyze_event env event_type payload st =
     (if event_type = ''device.slo.violated'' then analyze_slo env event_type payload st
      else if event_type \<in> {''execution.failed'', ''execution.timeout'', ''execution.callback''}
      then analyze_execution env event_type payload st
      else if event_type = ''device.telemetry.ingested'' then analyze_telemetry env event_type payload st
      else if event_type \<in> {''delivery_failed'', ''execution.delivery_failed''}
      then analyze_delivery env event_type payload
      else Inr None)"

definition manual_device_analysis :: "ai_env \<Rightarrow> string \<Rightarrow> analysis" where
  "manual_device_analysis env device =
     \<lparr>an_tenant = ''default'', an_scope_id = device, an_severity = ''info'',
      an_category = ''operational_summary'', an_title = ''Manual device analysis requested'',
      an_evidence = [(''device_id'', JStr device), (''requested_at'', JIso (ae_now env)),
        (''source'', JStr ''manual'')],
      an_recommendations =
        [''Review latest telemetry and SLO violations for this device.'',
         ''Check recent executions before dispatching new commands.'',
         ''Keep the device under observation if new warnings appear.'']\<rparr>"

definition new_insight :: "ai_env \<Rightarrow> analysis \<Rightarrow> insight" where
  "new_insight env a =
     (let (summary, model) = ae_summarize env (an_title a) (an_severity a)
      in \<lparr>ai_id = ae_uuid env, ai_tenant = an_tenant a, ai_scope_type = ''device'',
          ai_scope_id = an_scope_id a, ai_severity = an_severity a, ai_status = ''open'',
          ai_category = an_category a, ai_title = an_title a, ai_summary = summary,
          ai_evidence = an_evidence a, ai_recommendations = an_recommendations a,
          ai_probable_cause = None, ai_confidence = None, ai_runbook_steps = [], ai_related_events = [],
          ai_risk_score = None, ai_model_used = model, ai_created_at = ae_now env,
          ai_updated_at = ae_now env, ai_resolved_at = None\<rparr>)"

definition create_insight :: "ai_env \<Rightarrow> analysis \<Rightarrow> ai_state \<Rightarrow> insight res \<times> ai_state" where
  "create_insight env a st =
     (let x = new_insight env a in
      if tbl_get ai_id (ai_id x) (insights st) \<noteq> None then (Inl (PyExc ''IntegrityError''), st)
      else (Inr x, st\<lparr>insights := tbl_add x (insights st)\<rparr>))"

text \<open>One event of the consumer; an exception is logged.\<close>

definition process_event :: "ai_env \<Rightarrow> string \<Rightarrow> dict \<Rightarrow> ai_state \<Rightarrow> insight option res \<times> ai_state" where
  "process_event env event_type payload st = (case analyze_event env event_type payload st of
     Inl err \<Rightarrow> (Inl err, st)
   | Inr None \<Rightarrow> (Inr None, st)
   | Inr (Some a) \<Rightarrow> (case create_insight env a st of (r, st1) \<Rightarrow> (map_sum id Some r, st1)))"

definition ai_analyze_device :: "ai_env \<Rightarrow> string \<Rightarrow> ai_state \<Rightarrow> insight res \<times> ai_state" where
  "ai_analyze_device env device st = create_insight env (manual_device_analysis env device) st"

subsection \<open>Endpoints of the insights\<close>

record insight_query =
  iq_severity :: "string option"
  iq_status :: "string option"
  iq_category :: "string option"
  iq_scope_type :: "string option"
  iq_scope_id :: "string option"
  iq_limit :: nat

definition insight_matches :: "insight_query \<Rightarrow> insight \<Rightarrow> bool" where
  "insight_matches q x \<longleftrightarrow>
     (nonempty (iq_severity q) \<longrightarrow> Some (ai_severity x) = iq_severity q)
   \<and> (nonempty (iq_status q) \<longrightarrow> Some (ai_status x) = iq_status q)
   \<and> (nonempty (iq_category q) \<longrightarrow> Some (ai_category x) = iq_category q)
   \<and> (nonempty (iq_scope_type q) \<longrightarrow> Some (ai_scope_type x) = iq_scope_type q)
   \<and> (nonempty (iq_scope_id q) \<longrightarrow> Some (ai_scope_id x) = iq_scope_id q)"

definition newest_insights :: "insight list \<Rightarrow> insight list" where
  "newest_insights xs = sort_key (\<lambda>x. - ai_created_at x) xs"

definition list_insights :: "insight_query \<Rightarrow> ai_state \<Rightarrow> insight list" where
  "list_insights q st = take (iq_limit q) (newest_insights (filter (insight_matches q) (insights st)))"

definition transition_status :: "ai_env \<Rightarrow> string \<Rightarrow> string \<Rightarrow> ai_state \<Rightarrow> insight res \<times> ai_state" where
  "transition_status env i status st = (case tbl_get ai_id i (insights st) of
     None \<Rightarrow> (Inl (http 404 ''insight not found''), st)
   | Some x \<Rightarrow>
       let x1 = x\<lparr>ai_status := status, ai_updated_at := ae_now env,
                  ai_resolved_at := (if status = ''resolved'' then Some (ae_now env) else ai_resolved_at x)\<rparr>
       in (Inr x1, st\<lparr>insights := tbl_put ai_id x1 (insights st)\<rparr>))"

subsection \<open>Risk\<close>

definition risk_level :: "int \<Rightarrow> string" where
  "risk_level score = (if 80 \<le> score then ''critical'' else if 60 \<le> score then ''high''
     else if 30 \<le> score then ''medium'' else ''low'')"

definition device_insights :: "string \<Rightarrow> ai_state \<Rightarrow> insight list" where
  "device_insights device st = take 50 (newest_insights
     (filter (\<lambda>x. ai_scope_type x = ''device'' \<and> ai_scope_id x = device) (insights st)))"

text \<open>The capabilities of a device that is known: a value that is no object raises at \<open>get\<close>.\<close>

definition device_points :: "dict option \<Rightarrow> (int \<times> string list) res" where
  "device_points device = (case device of
     None \<Rightarrow> Inr (0, [])
   | Some d \<Rightarrow>
       if d = [] then Inr (0, []) else
       let (p, rs) = (if dget d ''status'' = JStr ''offline'' then (30, [''device offline''])
                      else if dget d ''status'' = JStr ''unknown'' then (15, [''device status unknown''])
                      else (0, []))
       in case py_get (jor (dget d ''capabilities'') (JObj [])) ''wasm_wasi'' of
            Inl err \<Rightarrow> Inl err
          | Inr v \<Rightarrow> Inr (if truthy v then (p, rs) else (p + 10, rs @ [''missing wasm_wasi capability''])))"

definition insight_points :: "insight \<Rightarrow> int" where
  "insight_points x = (if ai_severity x = ''critical'' then 25 else if ai_severity x = ''warning'' then 12 else 4)"

definition insight_reason :: "insight \<Rightarrow> string list" where
  "insight_reason x = (if ai_category x = ''delivery_risk'' then [''recent delivery risk'']
     else if ai_category x = ''execution_failure'' then [''recent execution failure'']
     else if ai_category x = ''slo_breach'' then [''recent SLO breach''] else [])"

record risk =
  ri_scope_type :: string
  ri_scope_id :: string
  ri_score :: int
  ri_level :: string
  ri_evidence :: dict

definition compute_device_risk :: "string \<Rightarrow> dict option \<Rightarrow> ai_state \<Rightarrow> risk res" where
  "compute_device_risk device d st = (case device_points d of
     Inl err \<Rightarrow> Inl err
   | Inr (p, reasons) \<Rightarrow>
       let xs = device_insights device st;
           live = filter (\<lambda>x. ai_status x \<noteq> ''resolved'') xs;
           score = min (p + (\<Sum>x\<leftarrow>live. insight_points x)) 100
       in Inr \<lparr>ri_scope_type = ''device'', ri_scope_id = device, ri_score = score,
               ri_level = risk_level score,
               ri_evidence = [(''device_id'', JStr device), (''insight_count'', JInt (int (length xs))),
                 (''device_status'', (case d of None \<Rightarrow> JNull | Some e \<Rightarrow> dget e ''status'')),
                 (''reasons'', JArr (map JStr (sort (remdups (reasons @ concat (map insight_reason live))))))]\<rparr>)"

definition upsert_risk_score :: "ai_env \<Rightarrow> risk \<Rightarrow> ai_state \<Rightarrow> risk_row \<times> ai_state" where
  "upsert_risk_score env r st =
     (let i = ri_scope_type r @ '':'' @ ri_scope_id r;
          row = \<lparr>rr_id = i, rr_scope_type = ri_scope_type r, rr_scope_id = ri_scope_id r,
                 rr_score = show_int (ri_score r), rr_level = ri_level r, rr_evidence = ri_evidence r,
                 rr_updated_at = ae_now env\<rparr>
      in (case tbl_get rr_id i (risk_scores st) of
            None \<Rightarrow> (row, st\<lparr>risk_scores := tbl_add row (risk_scores st)\<rparr>)
          | Some old \<Rightarrow>
              let row1 = old\<lparr>rr_score := rr_score row, rr_level := rr_level row,
                             rr_evidence := rr_evidence row, rr_updated_at := rr_updated_at row\<rparr>
              in (row1, st\<lparr>risk_scores := tbl_put rr_id row1 (risk_scores st)\<rparr>)))"

definition compute_and_store_device_risk :: "ai_env \<Rightarrow> string \<Rightarrow> ai_state \<Rightarrow> risk_row res \<times> ai_state" where
  "compute_and_store_device_risk env device st =
     (case compute_device_risk device (ae_device env device) st of
        Inl err \<Rightarrow> (Inl err, st)
      | Inr r \<Rightarrow> (case upsert_risk_score env r st of (row, st1) \<Rightarrow> (Inr row, st1)))"

definition device_risks :: "ai_env \<Rightarrow> ai_state \<Rightarrow> string list \<Rightarrow> risk list res" where
  "device_risks env st ds = map_res (\<lambda>d. compute_device_risk d (ae_device env d) st) ds"

definition fleet_score :: "int list \<Rightarrow> int" where
  "fleet_score scores =
     (if scores = [] then 20
      else let avg = round_half_even (of_int (sum_list scores) / of_nat (length scores));
               worst = Max (set scores)
           in min 100 (round_half_even (double_add (double_mul (of_int avg) (double_round (7 / 10)))
             (double_mul (of_int worst) (double_round (3 / 10))))))"

definition risk_to_dict :: "risk \<Rightarrow> dict" where
  "risk_to_dict r = [(''scope_type'', JStr (ri_scope_type r)), (''scope_id'', JStr (ri_scope_id r)),
     (''score'', JInt (ri_score r)), (''level'', JStr (ri_level r)), (''evidence'', JObj (ri_evidence r))]"

definition compute_and_store_fleet_risk :: "ai_env \<Rightarrow> string \<Rightarrow> ai_state \<Rightarrow> risk_row res \<times> ai_state" where
  "compute_and_store_fleet_risk env fleet_id st =
     (case device_risks env st (ae_members env fleet_id) of
        Inl err \<Rightarrow> (Inl err, st)
      | Inr rs \<Rightarrow>
          let score = fleet_score (map ri_score rs);
              r = \<lparr>ri_scope_type = ''fleet'', ri_scope_id = fleet_id, ri_score = score,
                   ri_level = risk_level score,
                   ri_evidence = [(''fleet_id'', JStr fleet_id),
                     (''devices'', JArr (map (\<lambda>x. JObj (risk_to_dict x)) rs)),
                     (''device_count'', JInt (int (length rs)))]\<rparr>
          in (case upsert_risk_score env r st of (row, st1) \<Rightarrow> (Inr row, st1)))"

text \<open>The response reads the score back from its text.\<close>

definition risk_response :: "risk_row \<Rightarrow> risk res" where
  "risk_response row = map_sum id (\<lambda>n. \<lparr>ri_scope_type = rr_scope_type row, ri_scope_id = rr_scope_id row,
     ri_score = n, ri_level = rr_level row, ri_evidence = rr_evidence row\<rparr>) (py_int (JStr (rr_score row)))"

definition recompute_risk :: "ai_env \<Rightarrow> string \<Rightarrow> string \<Rightarrow> ai_state \<Rightarrow> risk res \<times> ai_state" where
  "recompute_risk env scope_type scope_id st =
     (case (if scope_type = ''fleet'' then compute_and_store_fleet_risk env scope_id st
            else compute_and_store_device_risk env scope_id st) of
        (Inl err, st1) \<Rightarrow> (Inl err, st1)
      | (Inr row, st1) \<Rightarrow> (risk_response row, st1))"

subsection \<open>Enrichment\<close>

definition confidence_for :: "insight \<Rightarrow> insight list \<Rightarrow> string" where
  "confidence_for x related =
     (let score = 35 + (if ai_severity x = ''critical'' then 30 else if ai_severity x = ''warning'' then 15 else 0)
            + min (length related * 10) 30
      in if 75 \<le> score then ''high'' else if 50 \<le> score then ''medium'' else ''low'')"

definition related_insights :: "insight \<Rightarrow> ai_state \<Rightarrow> insight list" where
  "related_insights x st = take 5 (newest_insights (filter (\<lambda>y. ai_scope_type y = ai_scope_type x
     \<and> ai_scope_id y = ai_scope_id x \<and> ai_id y \<noteq> ai_id x) (insights st)))"

definition cause_for :: "ai_env \<Rightarrow> insight \<Rightarrow> insight list \<Rightarrow> string" where
  "cause_for env x related =
     (if ai_category x = ''slo_breach''
      then py_text env (dget_or (ai_evidence x) ''metric'' (JStr ''the monitored metric''))
             @ '' breached its configured SLO and may indicate device or workload degradation.''
      else if ai_category x = ''execution_failure''
      then ''Recent execution callbacks indicate runtime, command, or agent-side failures.''
      else if ai_category x = ''delivery_risk''
      then ''The gateway could not reliably deliver work to the device, likely due to session or connectivity issues.''
      else if ai_category x = ''anomaly''
      then ''Telemetry volume or shape differs from the expected operational pattern.''
      else if related \<noteq> []
      then ''Multiple recent AI signals point to recurring operational risk on the same scope.''
      else ''Insufficient correlated evidence; operator review is recommended.'')"

definition runbook_for :: "insight \<Rightarrow> string list" where
  "runbook_for x =
     (if ai_category x = ''slo_breach'' then
        [''Open the device telemetry view and confirm the metric trend.'',
         ''Check whether the SLO threshold still matches expected operating conditions.'',
         ''Inspect recent executions on the same device before dispatching more work.'',
         ''Keep the device under observation until the metric returns inside bounds.'']
      else if ai_category x = ''execution_failure'' then
        [''Inspect stderr, exit code, and function result for the failed execution.'',
         ''Verify the device agent heartbeat and runtime health.'',
         ''Compare the failed command or function with the last known successful execution.'',
         ''Retry only after connectivity and runtime state look healthy.'']
      else if ai_category x = ''delivery_risk'' then
        [''Check the edge gateway session cache for this device.'',
         ''Verify the latest heartbeat timestamp.'',
         ''Avoid dispatching additional work until delivery stabilizes.'']
      else
        [''Review the evidence attached to the insight.'',
         ''Check recent events and telemetry for the same scope.'',
         ''Escalate if the same signal repeats in the next monitoring window.''])"

definition related_payload :: "insight \<Rightarrow> dict" where
  "related_payload y = [(''id'', JStr (ai_id y)), (''category'', JStr (ai_category y)),
     (''severity'', JStr (ai_severity y)), (''title'', JStr (ai_title y)),
     (''created_at'', JIso (ai_created_at y))]"

definition enriched :: "ai_env \<Rightarrow> insight list \<Rightarrow> insight \<Rightarrow> insight" where
  "enriched env related x = x
     \<lparr>ai_probable_cause := Some (cause_for env x related), ai_confidence := Some (confidence_for x related),
      ai_runbook_steps := runbook_for x, ai_related_events := map related_payload related,
      ai_risk_score := (if nonempty (ai_risk_score x) then ai_risk_score x
        else Some (if ai_severity x = ''critical'' then ''70'' else if ai_severity x = ''warning'' then ''45''
          else ''20''))\<rparr>"

definition enrich_existing_insight :: "ai_env \<Rightarrow> string \<Rightarrow> ai_state \<Rightarrow> insight res \<times> ai_state" where
  "enrich_existing_insight env i st = (case tbl_get ai_id i (insights st) of
     None \<Rightarrow> (Inl (http 404 ''insight not found''), st)
   | Some x \<Rightarrow>
       let x1 = enriched env (related_insights x st) x
       in (Inr x1, st\<lparr>insights := tbl_put ai_id x1 (insights st)\<rparr>))"

definition get_insight :: "string \<Rightarrow> ai_state \<Rightarrow> insight res" where
  "get_insight i st = (case tbl_get ai_id i (insights st) of
     None \<Rightarrow> Inl (http 404 ''insight not found'') | Some x \<Rightarrow> Inr x)"

subsection \<open>Placement of function drafts\<close>

record placement =
  pl_device_id :: string
  pl_score :: int
  pl_risk_level :: string
  pl_reasons :: "json list"

definition place_device :: "ai_env \<Rightarrow> ai_state \<Rightarrow> string \<Rightarrow> placement res" where
  "place_device env st device =
     (let d = (case ae_device env device of None \<Rightarrow> [] | Some d \<Rightarrow> d) in
      case compute_device_risk device (ae_device env device) st of
        Inl err \<Rightarrow> Inl err
      | Inr r \<Rightarrow>
        case py_get (jor (dget d ''capabilities'') (JObj [])) ''wasm_wasi'' of
          Inl err \<Rightarrow> Inl err
        | Inr wasi \<Rightarrow>
          let status = dget_or d ''status'' (JStr ''unknown'');
              reasons = (if status \<noteq> JStr ''online'' then [JArr [JStr ''status is '', status]] else [])
                @ (if \<not> truthy wasi then [JStr ''missing wasm_wasi capability''] else [])
                @ (if 60 \<le> ri_score r then [JArr [JStr ''risk level is '', JStr (ri_level r)]] else []);
              score = max 0 (100 - ri_score r) + (if status = JStr ''online'' then 10 else 0)
                + (if truthy wasi then 15 else 0)
          in Inr \<lparr>pl_device_id = device, pl_score = min score 100, pl_risk_level = ri_level r,
                  pl_reasons = reasons\<rparr>)"

text \<open>The targets without an objection, best first, and the others, worst first.\<close>

definition placement_for_draft ::
  "ai_env \<Rightarrow> string list \<Rightarrow> ai_state \<Rightarrow> (placement list \<times> placement list) res" where
  "placement_for_draft env devices st = map_sum id
     (\<lambda>ps. (sort_key (\<lambda>p. - pl_score p) (filter (\<lambda>p. pl_reasons p = []) ps),
            sort_key pl_score (filter (\<lambda>p. pl_reasons p \<noteq> []) ps))) (map_res (place_device env st) devices)"

end
