(* ===== verification/AiProperties.thy ===== *)
theory AiProperties
  imports AiPipeline ExecLifecycle
begin

text \<open>
  What the AI pipeline guarantees: risk scores within bounds, with the right level, stored and read
  back unchanged; and, with the callback events of the execution service on the other side, that a
  failure a device reports becomes an insight of that device, escalated when failures repeat.
\<close>

subsection \<open>Scores\<close>

lemma device_points_bounds: "device_points d = Inr (p, rs) \<Longrightarrow> 0 \<le> p \<and> p \<le> 40"
  by (auto simp: device_points_def split: option.splits if_splits sum.splits)

lemma insight_points_nonneg: "0 \<le> (\<Sum>x\<leftarrow>xs. insight_points x)"
  by (induction xs) (auto simp: insight_points_def)

lemma device_risk_bounds:
  "compute_device_risk d v st = Inr r \<Longrightarrow>
     0 \<le> ri_score r \<and> ri_score r \<le> 100 \<and> ri_level r = risk_level (ri_score r)
   \<and> ri_scope_type r = ''device'' \<and> ri_scope_id r = d"
  using device_points_bounds insight_points_nonneg
  by (fastforce simp: compute_device_risk_def Let_def split: sum.splits prod.splits)

text \<open>The score of a fleet lies between its least and its most risky device.\<close>

lemma sum_list_bounds:
  "\<forall>x \<in> set xs. a \<le> x \<and> x \<le> b \<Longrightarrow> int (length xs) * a \<le> sum_list xs \<and> sum_list xs \<le> int (length xs) * b"
  by (induction xs) (auto simp: algebra_simps)

text \<open>A half is more than the rounding errors of the four products and sums.\<close>

lemma round_half_even_near:
  assumes "of_int a - 1 / 2 < x" "x < of_int b + 1 / 2"
  shows "a \<le> round_half_even x \<and> round_half_even x \<le> b"
proof -
  have e: "\<bar>of_int (round_half_even x) - x\<bar> \<le> 1 / 2" by (rule round_half_even_error)
  have "(of_int (a - 1) :: rat) < of_int (round_half_even x)" "(of_int (round_half_even x) :: rat) < of_int (b + 1)"
    using e assms unfolding abs_le_iff of_int_diff of_int_add of_int_1 by linarith+
  then show ?thesis by (simp only: of_int_less_iff) linarith
qed

lemma double_weight:
  assumes "0 \<le> a" "a \<le> 100" "0 \<le> c" "c \<le> 1"
  shows "\<bar>double_mul a (double_round c) - a * c\<bar> \<le> 101 / 1000"
proof -
  have c: "\<bar>double_round c - c\<bar> \<le> 1 / 1000" using assms by (intro double_error) simp
  have "\<bar>a * double_round c - a * c\<bar> = a * \<bar>double_round c - c\<bar>"
    using assms(1) by (simp add: abs_mult flip: right_diff_distrib)
  also have "\<dots> \<le> 100 * (1 / 1000)" using c assms by (intro mult_mono) simp_all
  finally have p: "\<bar>a * double_round c - a * c\<bar> \<le> 1 / 10" by simp
  have "0 \<le> a * c" "a * c \<le> 100 * 1" using assms mult_mono [of a 100 c 1] by simp_all
  with p have "\<bar>a * double_round c\<bar> < 256" unfolding abs_le_iff abs_less_iff by linarith
  then have "\<bar>a * double_round c\<bar> < 2 ^ 8" by simp
  from double_error [OF this] p show ?thesis unfolding double_mul_def by linarith
qed

lemma fleet_score_between:
  assumes "xs \<noteq> []" "\<forall>x \<in> set xs. 0 \<le> x \<and> x \<le> 100"
  shows "Min (set xs) \<le> fleet_score xs \<and> fleet_score xs \<le> Max (set xs)"
proof -
  let ?lo = "Min (set xs)" and ?hi = "Max (set xs)" and ?n = "length xs"
  let ?mean = "of_int (sum_list xs) / of_nat ?n :: rat"
  let ?avg = "round_half_even ?mean"
  let ?p = "double_mul (of_int ?avg) (double_round (7 / 10))"
  let ?q = "double_mul (of_int ?hi) (double_round (3 / 10))"
  have b: "int ?n * ?lo \<le> sum_list xs" "sum_list xs \<le> int ?n * ?hi"
    using sum_list_bounds [of xs ?lo ?hi] by simp_all
  have n: "(0 :: rat) < of_nat ?n" using assms(1) by simp
  have "of_int (int ?n * ?lo) \<le> (of_int (sum_list xs) :: rat)" "(of_int (sum_list xs) :: rat) \<le> of_int (int ?n * ?hi)"
    using b by (simp_all only: of_int_le_iff)
  then have "of_int ?lo \<le> ?mean" "?mean \<le> of_int ?hi"
    using n by (simp_all add: le_divide_eq divide_le_eq mult.commute)
  then have avg: "?lo \<le> ?avg" "?avg \<le> ?hi" using round_half_even_bounds by blast+
  moreover have r: "0 \<le> ?lo" "?hi \<le> 100" using assms by simp_all
  ultimately have le: "(of_int ?lo :: rat) \<le> of_int ?avg" "(of_int ?avg :: rat) \<le> of_int ?hi"
    "(0 :: rat) \<le> of_int ?lo" "(of_int ?hi :: rat) \<le> 100" by simp_all
  then have p: "\<bar>?p - of_int ?avg * (7 / 10)\<bar> \<le> 101 / 1000" "\<bar>?q - of_int ?hi * (3 / 10)\<bar> \<le> 101 / 1000"
    by (intro double_weight; linarith)+
  with le have "\<bar>?p + ?q\<bar> < 256" unfolding abs_le_iff abs_less_iff by linarith
  then have "\<bar>?p + ?q\<bar> < 2 ^ 8" by simp
  then have "\<bar>double_add ?p ?q - (?p + ?q)\<bar> \<le> 1 / 1000" unfolding double_add_def by (rule double_error)
  with p le have "of_int ?lo - 1 / 2 < double_add ?p ?q" "double_add ?p ?q < of_int ?hi + 1 / 2"
    unfolding abs_le_iff by linarith+
  from round_half_even_near [OF this] r assms(1) show ?thesis by (simp add: fleet_score_def Let_def min_def)
qed

lemma device_risks_bounds:
  "device_risks env st ds = Inr rs \<Longrightarrow> \<forall>r \<in> set rs. 0 \<le> ri_score r \<and> ri_score r \<le> 100"
  unfolding device_risks_def map_res_Inr
  by (induction rule: list_all2_induct) (auto dest: device_risk_bounds)

lemma fleet_score_bounds:
  assumes "\<forall>x \<in> set xs. 0 \<le> x \<and> x \<le> 100"
  shows "0 \<le> fleet_score xs \<and> fleet_score xs \<le> 100"
proof (cases "xs = []")
  case False
  then have "Min (set xs) \<in> set xs" "Max (set xs) \<in> set xs" by simp_all
  with assms fleet_score_between [OF False] show ?thesis by fastforce
qed (simp add: fleet_score_def)

interpretation risk_rows: keyed_store "tbl_get rr_id" "tbl_put rr_id" tbl_add "tbl_del rr_id" rr_id
  by (rule keyed_table)

subsection \<open>Stored risks\<close>

inductive ai_reach :: "ai_state \<Rightarrow> bool" where
  start: "risk_scores st = [] \<Longrightarrow> ai_reach st"
| event: "ai_reach st \<Longrightarrow> ai_reach (snd (process_event env event_type payload st))"
| analyze: "ai_reach st \<Longrightarrow> ai_reach (snd (ai_analyze_device env device st))"
| enrich: "ai_reach st \<Longrightarrow> ai_reach (snd (enrich_existing_insight env i st))"
| transition: "ai_reach st \<Longrightarrow> ai_reach (snd (transition_status env i status st))"
| recompute: "ai_reach st \<Longrightarrow> ai_reach (snd (recompute_risk env scope_type scope_id st))"

text \<open>A row is filed under its own scope.\<close>

definition row_filed :: "risk_row \<Rightarrow> bool" where
  "row_filed row \<longleftrightarrow> rr_scope_type row \<in> {''device'', ''fleet''}
     \<and> rr_id row = rr_scope_type row @ '':'' @ rr_scope_id row"

definition risks_ok :: "ai_state \<Rightarrow> bool" where
  "risks_ok st \<longleftrightarrow> (\<forall>i row. tbl_get rr_id i (risk_scores st) = Some row \<longrightarrow> row_filed row)"

lemma create_insight_frame [frame_simps]: "risk_scores (snd (create_insight env a st)) = risk_scores st"
  by (simp add: create_insight_def Let_def)

lemma process_event_frame [frame_simps]: "risk_scores (snd (process_event env t p st)) = risk_scores st"
  using create_insight_frame by (auto simp: process_event_def split: sum.split option.split prod.split)
    (metis snd_conv)

lemma transition_frame [frame_simps]: "risk_scores (snd (transition_status env i s st)) = risk_scores st"
  by (simp add: transition_status_def Let_def split: option.split)

lemma enrich_frame [frame_simps]: "risk_scores (snd (enrich_existing_insight env i st)) = risk_scores st"
  by (simp add: enrich_existing_insight_def Let_def split: option.split)

text \<open>Storing a risk: the row under the key of its scope, whose score reads back.\<close>

lemma upsert_row:
  assumes "risks_ok st" "ri_scope_type r \<in> {''device'', ''fleet''}"
    and "upsert_risk_score env r st = (row, st')"
  shows "tbl_get rr_id (ri_scope_type r @ '':'' @ ri_scope_id r) (risk_scores st') = Some row
     \<and> risk_response row = Inr r \<and> risks_ok st'"
proof -
  let ?i = "ri_scope_type r @ '':'' @ ri_scope_id r"
  show ?thesis
  proof (cases "tbl_get rr_id ?i (risk_scores st)")
    case None
    have row: "row = \<lparr>rr_id = ?i, rr_scope_type = ri_scope_type r, rr_scope_id = ri_scope_id r,
        rr_score = show_int (ri_score r), rr_level = ri_level r, rr_evidence = ri_evidence r,
        rr_updated_at = ae_now env\<rparr>" "risk_scores st' = tbl_add row (risk_scores st)"
      using assms(3) None by (auto simp: upsert_risk_score_def Let_def)
    have filed: "row_filed row" using assms(2) by (simp add: row row_filed_def)
    have "risks_ok st'"
      unfolding risks_ok_def row(2) by (rule risk_rows.all_add [OF assms(1) [unfolded risks_ok_def] filed])
    moreover have "tbl_get rr_id ?i (risk_scores st') = Some row"
      using None by (simp add: row tbl_get_add)
    ultimately show ?thesis by (simp add: risk_response_def row str_to_int_show_int)
  next
    case (Some old)
    have id: "rr_id old = ?i" using tbl_get_key [OF Some] .
    moreover have "row_filed old" using assms(1) Some by (simp add: risks_ok_def)
    ultimately have old: "rr_scope_type old = ri_scope_type r" "rr_scope_id old = ri_scope_id r"
      using assms(2) by (auto simp: row_filed_def)
    have row: "row = old\<lparr>rr_score := show_int (ri_score r), rr_level := ri_level r,
        rr_evidence := ri_evidence r, rr_updated_at := ae_now env\<rparr>"
      "risk_scores st' = tbl_put rr_id row (risk_scores st)"
      using assms(3) Some by (auto simp: upsert_risk_score_def Let_def)
    have filed: "row_filed row" using \<open>row_filed old\<close> by (simp add: row row_filed_def)
    have rid: "rr_id row = ?i" by (simp add: row id)
    have "risks_ok st'"
      unfolding risks_ok_def row(2) by (rule risk_rows.all_put [OF assms(1) [unfolded risks_ok_def] filed])
    moreover have "tbl_get rr_id ?i (risk_scores st') = Some row"
      unfolding row(2) by (rule risk_rows.get_put_same [OF Some rid])
    ultimately show ?thesis using old by (simp add: risk_response_def row(1) str_to_int_show_int)
  qed
qed

lemma recompute_cases:
  assumes "recompute_risk env ty i st = (res, st')"
  obtains (failed) err where "res = Inl err" "st' = st"
  | (stored) r row where "upsert_risk_score env r st = (row, st')" "res = risk_response row"
      "ri_scope_type r = (if ty = ''fleet'' then ''fleet'' else ''device'')" "ri_scope_id r = i"
      "0 \<le> ri_score r" "ri_score r \<le> 100" "ri_level r = risk_level (ri_score r)"
      "ty = ''fleet'' \<longrightarrow> (\<exists>rs. device_risks env st (ae_members env i) = Inr rs
          \<and> ri_score r = fleet_score (map ri_score rs))"
      "ty \<noteq> ''fleet'' \<longrightarrow> compute_device_risk i (ae_device env i) st = Inr r"
proof (cases "ty = ''fleet''")
  case True
  show thesis
  proof (cases "device_risks env st (ae_members env i)")
    case (Inl err)
    with assms True show thesis
      by (intro failed [of err]) (simp_all add: recompute_risk_def compute_and_store_fleet_risk_def)
  next
    case (Inr rs)
    let ?score = "fleet_score (map ri_score rs)"
    have "0 \<le> ?score \<and> ?score \<le> 100" using device_risks_bounds [OF Inr] by (intro fleet_score_bounds) simp
    with assms True Inr stored show thesis
      by (auto simp: recompute_risk_def compute_and_store_fleet_risk_def Let_def split: prod.splits)
  qed
next
  case False
  show thesis
  proof (cases "compute_device_risk i (ae_device env i) st")
    case (Inl err)
    with assms False show thesis
      by (intro failed [of err]) (simp_all add: recompute_risk_def compute_and_store_device_risk_def)
  next
    case (Inr r)
    with assms False stored device_risk_bounds [OF Inr] show thesis
      by (auto simp: recompute_risk_def compute_and_store_device_risk_def split: prod.splits)
  qed
qed

lemma ai_reach_ok: "ai_reach st \<Longrightarrow> risks_ok st"
proof (induction rule: ai_reach.induct)
  case (recompute st env ty i)
  obtain res st' where s: "recompute_risk env ty i st = (res, st')" by fastforce
  from s show ?case
  proof (cases rule: recompute_cases)
    case (stored r row)
    then show ?thesis using upsert_row [OF recompute.IH _ stored(1)] s by (simp split: if_splits)
  qed (use s recompute.IH in simp)
qed (simp_all add: risks_ok_def frame_simps ai_analyze_device_def)

text \<open>C27. A recomputed risk is sound: its score is between 0 and 100 and its level is the one of the
  score; the response, which reads the score back from the text in the table, is the risk that was
  computed, and the table holds it under the scope; and the score of a fleet that has members lies
  between the scores of its least and its most risky device.\<close>

theorem risk_sound:
  assumes "ai_reach st" "recompute_risk env ty i st = (Inr r, st')"
  shows "0 \<le> ri_score r \<and> ri_score r \<le> 100 \<and> ri_level r = risk_level (ri_score r)
   \<and> (\<exists>row. tbl_get rr_id (ri_scope_type r @ '':'' @ i) (risk_scores st') = Some row
        \<and> risk_response row = Inr r)
   \<and> (ty \<noteq> ''fleet'' \<longrightarrow> compute_device_risk i (ae_device env i) st = Inr r)
   \<and> (ty = ''fleet'' \<and> ae_members env i \<noteq> [] \<longrightarrow>
        (\<exists>rs. device_risks env st (ae_members env i) = Inr rs
          \<and> Min (ri_score ` set rs) \<le> ri_score r \<and> ri_score r \<le> Max (ri_score ` set rs)))"
  using assms(2)
proof (cases rule: recompute_cases)
  case (stored r' row)
  have "ri_scope_type r' \<in> {''device'', ''fleet''}" using stored(3) by simp
  from upsert_row [OF ai_reach_ok [OF assms(1)] this stored(1)]
  have row: "tbl_get rr_id (ri_scope_type r' @ '':'' @ i) (risk_scores st') = Some row"
    "risk_response row = Inr r'" using stored(4) by simp_all
  then have eq: "r = r'" using stored(2) by simp
  have fleet: "\<exists>rs. device_risks env st (ae_members env i) = Inr rs
      \<and> Min (ri_score ` set rs) \<le> ri_score r \<and> ri_score r \<le> Max (ri_score ` set rs)"
    if ty: "ty = ''fleet''" and ne: "ae_members env i \<noteq> []"
  proof -
    obtain rs where rs: "device_risks env st (ae_members env i) = Inr rs"
      "ri_score r' = fleet_score (map ri_score rs)" using stored(8) ty by blast
    have "map ri_score rs \<noteq> []" using rs(1) ne map_res_length by (fastforce simp: device_risks_def)
    from fleet_score_between [OF this] device_risks_bounds [OF rs(1)] show ?thesis
      using rs eq by auto
  qed
  show ?thesis using stored(5,6,7,9) row fleet eq by blast
qed simp

definition demo_ai_env :: ai_env where
  "demo_ai_env = \<lparr>ae_now = 0, ae_uuid = ''i1'', ae_device = (\<lambda>d. Some [(''status'', JStr ''offline'')]),
     ae_members = (\<lambda>f. [''d1'']), ae_summarize = (\<lambda>t s. (t, ''rules'')), ae_window_minutes = 15,
     ae_threshold = 1, ae_show_value = (\<lambda>v. [])\<rparr>"

definition demo_ai_state :: ai_state where
  "demo_ai_state = \<lparr>insights = [], risk_scores = []\<rparr>"

lemma risk_sound_witness:
  "\<exists>r st'. recompute_risk demo_ai_env ''device'' ''d1'' demo_ai_state = (Inr r, st')
     \<and> ri_score r = 40 \<and> ri_level r = ''medium''"
proof -
  have reach: "ai_reach demo_ai_state" by (rule ai_reach.start) (simp add: demo_ai_state_def)
  have c: "\<exists>r. compute_device_risk ''d1'' (ae_device demo_ai_env ''d1'') demo_ai_state = Inr r \<and> ri_score r = 40"
    by (simp add: compute_device_risk_def device_points_def demo_ai_env_def demo_ai_state_def
      device_insights_def newest_insights_def dget_def jor_def Let_def)
  then obtain r0 where r0: "compute_device_risk ''d1'' (ae_device demo_ai_env ''d1'') demo_ai_state = Inr r0"
    "ri_score r0 = 40" by blast
  obtain row st1 where u: "upsert_risk_score demo_ai_env r0 demo_ai_state = (row, st1)" by fastforce
  have "ri_scope_type r0 \<in> {''device'', ''fleet''}" using device_risk_bounds [OF r0(1)] by simp
  from upsert_row [OF ai_reach_ok [OF reach] this u]
  have run: "recompute_risk demo_ai_env ''device'' ''d1'' demo_ai_state = (Inr r0, st1)"
    using u r0 by (simp add: recompute_risk_def compute_and_store_device_risk_def)
  from risk_sound [OF reach run] r0(2) have "ri_level r0 = risk_level 40" by simp
  then show ?thesis using run r0(2) by (auto simp: risk_level_def)
qed

subsection \<open>From a failed execution to an insight\<close>

lemma event_value_simps [simp]:
  "event_body (event_value ev) = ev_payload ev"
  "dget (event_value ev) ''tenant_id'' = JNull"
  "dget_or (event_value ev) ''payload'' (JObj []) = JObj (ev_payload ev)"
  by (simp_all add: event_body_def event_value_def dget_def dget_or_def)

lemma execution_fields:
  "dget (execution_to_dict True e) ''status'' = JStr (ex_status e)"
  "dget (execution_to_dict True e) ''device_id'' = jstr (ex_device_id e)"
  "dget (execution_to_dict True e) ''tenant_id'' = jstr (ex_tenant_id e)"
  by (simp_all add: execution_to_dict_def dget_def)

lemma callback_analysis:
  assumes "ev_payload ev = execution_to_dict True e" "ex_device_id e = Some d" "d \<noteq> []"
    and "ex_status e \<in> {''failed'', ''timeout''}"
  shows "\<exists>a. analyze_event env ''execution.callback'' (event_value ev) st = Inr (Some a)
     \<and> an_scope_id a = d \<and> an_category a = ''execution_failure''
     \<and> an_severity a = escalate env (count_recent ''device'' d ''execution_failure'' (window_start env) st)
     \<and> an_tenant a = sor (ex_tenant_id e) ''default''"
proof -
  have s: "event_status env (event_value ev) = ex_status e"
    using assms(4) by (auto simp: event_status_def assms(1) execution_fields jor_def py_text_def py_str_def)
  have d: "body_device env (ev_payload ev) = d"
    using assms(2,3) by (simp add: body_device_def assms(1) execution_fields jor_def py_text_def py_str_def)
  have t: "event_tenant env (event_value ev) = Inr (sor (ex_tenant_id e) ''default'')"
    by (cases "ex_tenant_id e")
      (simp_all add: event_tenant_def assms(1) execution_fields jor_def py_text_def py_str_def sor_def)
  show ?thesis
    using assms(4) by (auto simp: analyze_event_def analyze_execution_def Let_def s d t make_analysis_def)
qed


text \<open>A failed execution of the device \<open>d1\<close>.\<close>

definition demo_failed_execution :: execution where
  "demo_failed_execution = \<lparr>ex_id = ''e1'', ex_device_id = Some ''d1'', ex_command = Some ''ls'',
     ex_status = ''failed'', ex_correlation_id = None, ex_idempotency_key = None, ex_exit_code = JInt 1,
     ex_result_stdout = JNull, ex_result_stderr = JNull, ex_tenant_id = None, ex_owner_id = None,
     ex_created_at = None, ex_dispatched_at = None, ex_running_at = None, ex_execution_type = None,
     ex_plugin_id = None, ex_args = None, ex_function_result = None, ex_invocation_mode = None\<rparr>"

definition demo_failed_event :: kafka_event where
  "demo_failed_event = make_event
     \<lparr>kafka_topic_prefix = ''nexora'', kafka_retry_attempts = 3, kafka_retry_delay_seconds = 1,
       service_name = ''execution-service'', resource_name = ''execution''\<rparr>
     0 ''callback'' ''e1'' (execution_to_dict True demo_failed_execution)"


end
