(* ===== verification/AuditAccess.thy ===== *)
theory AuditAccess
  imports DeviceModel
begin

text \<open>
  The audit endpoints of the device service (\<open>device_service/main.py\<close>): who may read the audit
  log, the pages of the list, and the export as JSON items, CSV and HTML. The log itself and its
  filters are those of \<open>Events\<close>. At the end, what the endpoints show to whom.
\<close>

record audit_query =
  aq_filter :: audit_filter
  aq_page :: int
  aq_page_size :: int

text \<open>\<open>_authorized_audit_events\<close>: newest first; the tenant asked for, or the caller's own.\<close>

definition authorized_audit_events ::
  "auth_settings \<Rightarrow> device_user \<Rightarrow> audit_filter \<Rightarrow> audit_event list \<Rightarrow> audit_event list res" where
  "authorized_audit_events s u f trail =
     (if \<not> as_auth_enabled s then Inr (rev (read_audit_events f trail))
      else
      let is_platform = platform_admin_role s \<in> set (roles u) \<or> operator_role s \<in> set (roles u)
            \<or> du_is_operator u;
          is_tenant = tenant_admin_role s \<in> set (roles u) \<or> is_platform
      in if \<not> is_tenant then Inl (http 403 ''tenant-admin role required'')
         else Inr (rev (read_audit_events
                (f\<lparr>fl_tenant_id := (if is_platform then fl_tenant_id f else Some (tenant_id u))\<rparr>) trail)))"

record audit_page =
  ap_items :: "audit_event list"
  ap_total :: nat
  ap_page :: int
  ap_page_size :: int

definition list_audit_events ::
  "auth_settings \<Rightarrow> device_user \<Rightarrow> audit_query \<Rightarrow> audit_event list \<Rightarrow> audit_page res" where
  "list_audit_events s u q trail = map_sum id
     (\<lambda>evs. let start = nat ((aq_page q - 1) * aq_page_size q)
            in \<lparr>ap_items = take (nat (aq_page_size q)) (drop start evs), ap_total = length evs,
                ap_page = aq_page q, ap_page_size = aq_page_size q\<rparr>)
     (authorized_audit_events s u (aq_filter q) trail)"

subsection \<open>Export\<close>

definition audit_export_fields :: "string list" where
  "audit_export_fields = [''timestamp'', ''service'', ''actor_user_id'', ''actor_tenant_id'', ''actor_roles'',
     ''action'', ''resource_type'', ''resource_id'', ''tenant_id'', ''correlation_id'', ''outcome'', ''reason'']"

text \<open>The fields of a record: text, a missing text, the list of roles.\<close>

datatype cell = Text "string option" | Roles "string list"

definition audit_cells :: "audit_event \<Rightarrow> cell list" where
  "audit_cells e =
     [Text (Some (au_timestamp e)), Text (Some (au_service e)), Text (Some (au_actor_user_id e)),
      Text (Some (au_actor_tenant_id e)), Roles (au_actor_roles e), Text (Some (au_action e)),
      Text (Some (au_resource_type e)), Text (au_resource_id e), Text (au_tenant_id e),
      Text (au_correlation_id e), Text (Some (au_outcome e)), Text (au_reason e)]"

definition audit_cell :: "cell \<Rightarrow> string" where
  "audit_cell c = (case c of Text None \<Rightarrow> [] | Text (Some t) \<Rightarrow> t | Roles rs \<Rightarrow> join '', '' rs)"

text \<open>\<open>html.escape\<close>.\<close>

definition escape_char :: "char \<Rightarrow> string" where
  "escape_char c = (if c = CHR ''&'' then ''&amp;'' else if c = CHR ''<'' then ''&lt;''
     else if c = CHR ''>'' then ''&gt;'' else if c = CHR 0x22 then ''&quot;''
     else if c = CHR 0x27 then ''&#x27;'' else [c])"

definition escape :: "string \<Rightarrow> string" where
  "escape s = concat (map escape_char s)"

definition html_row :: "audit_event \<Rightarrow> string" where
  "html_row e = ''<tr>'' @ concat (map (\<lambda>c. ''<td>'' @ escape (audit_cell c) @ ''</td>'') (audit_cells e))
     @ ''</tr>''"

definition html_rows :: "audit_event list \<Rightarrow> string" where
  "html_rows evs = join ''\<newline>'' (map html_row evs)"

text \<open>A field of a CSV row: quoted when it has a comma, a quote or a line end, quotes doubled.\<close>

definition csv_field :: "string \<Rightarrow> string" where
  "csv_field s =
     (if \<exists>c \<in> set s. c = CHR '','' \<or> c = CHR 0x22 \<or> c = CHR 0x0D \<or> c = CHR 0x0A
      then [CHR 0x22] @ concat (map (\<lambda>c. if c = CHR 0x22 then [c, c] else [c]) s) @ [CHR 0x22]
      else s)"

definition csv_cell :: "cell \<Rightarrow> string" where
  "csv_cell c = (case c of Text None \<Rightarrow> [] | Text (Some t) \<Rightarrow> t | Roles rs \<Rightarrow> join '','' rs)"

definition csv_row :: "string list \<Rightarrow> string" where
  "csv_row cells = join '','' (map csv_field cells) @ [CHR 0x0D, CHR 0x0A]"

definition csv_export :: "audit_event list \<Rightarrow> string" where
  "csv_export evs = csv_row audit_export_fields
     @ concat (map (\<lambda>e. csv_row (map csv_cell (audit_cells e))) evs)"

datatype export = Json_items "audit_event list" | Csv string | Html string

definition export_audit_events ::
  "auth_settings \<Rightarrow> device_user \<Rightarrow> audit_filter \<Rightarrow> string \<Rightarrow> nat \<Rightarrow> audit_event list \<Rightarrow> export res" where
  "export_audit_events s u f fmt limit trail = map_sum id
     (\<lambda>evs. let picked = take limit evs in
        if fmt = ''json'' then Json_items picked
        else if fmt = ''csv'' then Csv (csv_export picked)
        else Html (html_rows picked))
     (authorized_audit_events s u f trail)"

subsection \<open>Reading the log\<close>

lemma escape_safe: "c \<in> set (escape s) \<Longrightarrow> c \<noteq> CHR ''<'' \<and> c \<noteq> CHR ''>'' \<and> c \<noteq> CHR 0x22 \<and> c \<noteq> CHR 0x27"
  by (auto simp: escape_def escape_char_def split: if_splits)

text \<open>The brackets of an HTML row are those of its thirteen elements, whatever the record holds.\<close>

lemma no_bracket: "filter (\<lambda>c. c = CHR ''<'') (escape s) = []"
  using escape_safe by (force simp: filter_empty_conv)

lemma html_row_elements: "length (filter (\<lambda>c. c = CHR ''<'') (html_row e)) = 2 * 13"
  by (simp add: html_row_def audit_cells_def no_bracket)

text \<open>A user the service makes from a token.\<close>

lemma token_user_operator:
  "get_current_user s verify h = Inr u \<Longrightarrow> as_auth_enabled s \<Longrightarrow>
     du_is_operator u = (operator_role s \<in> set (roles u) \<or> platform_admin_role s \<in> set (roles u)
       \<or> tenant_admin_role s \<in> set (roles u)) \<or> u = device_dev_user"
  by (auto simp: get_current_user_def device_user_of_claims_def split: option.splits if_splits sum.splits)

lemma audit_pages:
  assumes "authorized_audit_events s u (aq_filter q) trail = Inr evs" "0 \<le> aq_page_size q"
    "length evs \<le> n * nat (aq_page_size q)"
  shows "concat (map (\<lambda>k. case list_audit_events s u (q\<lparr>aq_page := int k + 1\<rparr>) trail of
      Inr pg \<Rightarrow> ap_items pg | Inl err \<Rightarrow> []) [0..<n]) = evs"
proof -
  have "(case list_audit_events s u (q\<lparr>aq_page := int k + 1\<rparr>) trail of
      Inr pg \<Rightarrow> ap_items pg | Inl err \<Rightarrow> [])
    = take (nat (aq_page_size q)) (drop (k * nat (aq_page_size q)) evs)" for k
    using assms(1,2) by (simp add: list_audit_events_def Let_def nat_mult_distrib)
  then show ?thesis using assms(3) by (simp add: concat_pages)
qed

text \<open>Who reads the audit log, and what. With authentication on, a user made from a token is
  refused exactly when none of the three administrative roles is among his roles; and whoever is
  admitted reads the whole selection he asks for, of any tenant, the tenant administrator included:
  the operator flag of his account counts as platform administration. The pages of the list, read in
  turn, give the selection once, newest first.\<close>

theorem audit_access:
  assumes "as_auth_enabled s" "get_current_user s verify h = Inr u" "u \<noteq> device_dev_user"
  shows "(authorized_audit_events s u f trail = Inl (http 403 ''tenant-admin role required'') \<longleftrightarrow>
        set (roles u) \<inter> {operator_role s, platform_admin_role s, tenant_admin_role s} = {})
   \<and> (\<forall>evs. authorized_audit_events s u f trail = Inr evs \<longrightarrow> evs = rev (read_audit_events f trail))
   \<and> (\<forall>q evs n. aq_filter q = f \<and> authorized_audit_events s u f trail = Inr evs
        \<and> 0 \<le> aq_page_size q \<and> length evs \<le> n * nat (aq_page_size q) \<longrightarrow>
        concat (map (\<lambda>k. case list_audit_events s u (q\<lparr>aq_page := int k + 1\<rparr>) trail of
          Inr pg \<Rightarrow> ap_items pg | Inl err \<Rightarrow> []) [0..<n]) = rev (read_audit_events f trail))"
proof -
  have op: "du_is_operator u \<longleftrightarrow> operator_role s \<in> set (roles u) \<or> platform_admin_role s \<in> set (roles u)
      \<or> tenant_admin_role s \<in> set (roles u)"
    using token_user_operator [OF assms(2,1)] assms(3) by blast
  have keep: "f\<lparr>fl_tenant_id := fl_tenant_id f\<rparr> = f" by simp
  have all: "authorized_audit_events s u f trail =
      (if set (roles u) \<inter> {operator_role s, platform_admin_role s, tenant_admin_role s} = {}
       then Inl (http 403 ''tenant-admin role required'') else Inr (rev (read_audit_events f trail)))"
    using assms(1) op by (auto simp: authorized_audit_events_def Let_def)
  then show ?thesis
    using audit_pages [where s = s and u = u and trail = trail] by (auto split: if_splits)
qed

text \<open>A tenant administrator of one tenant who reads the records of another.\<close>

definition demo_audit_log :: "audit_event list" where
  "demo_audit_log = [make_audit_event ''t'' ''device-service'' ''device.created'' ''device'' (Some ''d1'')
     (Some ''t2'') \<lparr>actor_user_id = Some ''bob'', actor_tenant_id = Some ''t2'', actor_roles = [],
       actor_correlation_id = None\<rparr> ''success'' None]"

definition demo_tenant_admin :: claims where
  "demo_tenant_admin = \<lparr>cl_sub = ''ann'', cl_groups = [''/t1''], cl_roles = [tenant_admin_role demo_settings]\<rparr>"

definition demo_audit_filter :: audit_filter where
  "demo_audit_filter = \<lparr>fl_tenant_id = Some ''t2'', fl_actor_user_id = None, fl_action = None,
     fl_resource_type = None, fl_resource_id = None, fl_from_ts = None, fl_to_ts = None\<rparr>"

lemma audit_access_witness:
  "\<exists>u. get_current_user demo_settings (\<lambda>t. Inr demo_tenant_admin) (Some ''Bearer x'') = Inr u
     \<and> tenant_id u = ''t1''
     \<and> authorized_audit_events demo_settings u demo_audit_filter demo_audit_log = Inr demo_audit_log"
proof -
  let ?u = "device_user_of_claims demo_settings demo_tenant_admin"
  have u: "get_current_user demo_settings (\<lambda>t. Inr demo_tenant_admin) (Some ''Bearer x'') = Inr ?u"
    by (simp add: get_current_user_def demo_settings_def startswith_def)
  have "as_auth_enabled demo_settings" by (simp add: demo_settings_def)
  moreover have "?u \<noteq> device_dev_user"
    by (simp add: device_user_of_claims_def demo_tenant_admin_def device_dev_user_def)
  moreover have "tenant_admin_role demo_settings \<in> set (roles ?u)"
    by (simp add: device_user_of_claims_def demo_tenant_admin_def)
  ultimately obtain evs where e: "authorized_audit_events demo_settings ?u demo_audit_filter demo_audit_log
        = Inr evs" "evs = rev (read_audit_events demo_audit_filter demo_audit_log)"
    using audit_access [of demo_settings "\<lambda>t. Inr demo_tenant_admin" "Some ''Bearer x''" ?u
        demo_audit_filter demo_audit_log] u
    by (cases "authorized_audit_events demo_settings ?u demo_audit_filter demo_audit_log")
      (auto simp: authorized_audit_events_def Let_def split: if_splits)
  moreover have "read_audit_events demo_audit_filter demo_audit_log = demo_audit_log"
    by (simp add: read_audit_events_def audit_matches_def demo_audit_filter_def demo_audit_log_def
      make_audit_event_def)
  ultimately have "authorized_audit_events demo_settings ?u demo_audit_filter demo_audit_log
      = Inr demo_audit_log" by (simp add: demo_audit_log_def)
  then show ?thesis using u
    by (intro exI [of _ ?u]) (simp add: device_user_of_claims_def demo_tenant_admin_def)
qed

end
