(* ===== verification/DeviceApi.thy ===== *)
theory DeviceApi
  imports Devices Shadow Telemetry
begin

text \<open>
  The device service as its HTTP clients, the protocol bridges, see it: the bodies of the three
  requests they send, as the request schemas read them (\<open>api/schemas.py\<close>, \<open>api/telemetry.py\<close>,
  \<open>api/shadow.py\<close>), the status of the answer, and the interface the clients' lemmas rest on
  (\<open>device_api\<close>). UUIDs, timestamps and the numbers that texts stand for are parsed by
  parameters. Rate limits are left out.
\<close>

subsection \<open>Requests and answers\<close>

text \<open>The URL a client posts to; the answer, or the exception of the client library.\<close>

datatype target = Register_agent string | Telemetry_of string | Reported_of string

datatype answer = Answer nat json | NoAnswer string

text \<open>\<open>raise_for_status\<close> lets only a success pass.\<close>

definition success :: "nat \<Rightarrow> bool" where
  "success s \<longleftrightarrow> 200 \<le> s \<and> s < 300"

definition error_answer :: "error \<Rightarrow> answer" where
  "error_answer e = (case e of Http c d \<Rightarrow> Answer c (JArr d) | PyExc n \<Rightarrow> Answer 500 (JStr ''Internal Server Error''))"

record api_env =
  ap_uuid :: "string \<Rightarrow> string option"
  ap_float :: "string \<Rightarrow> rat option"
  ap_stamp :: "json \<Rightarrow> stamp option"

subsection \<open>Request bodies\<close>

definition str_field :: "dict \<Rightarrow> string \<Rightarrow> nat \<Rightarrow> nat \<Rightarrow> string option" where
  "str_field d k lo hi = (case dget d k of
     JStr s \<Rightarrow> if lo \<le> length s \<and> length s \<le> hi then Some s else None | _ \<Rightarrow> None)"

definition opt_str :: "dict \<Rightarrow> string \<Rightarrow> string option option" where
  "opt_str d k = (case dget d k of JNull \<Rightarrow> Some None | JStr s \<Rightarrow> Some (Some s) | _ \<Rightarrow> None)"

definition opt_dict :: "dict \<Rightarrow> string \<Rightarrow> dict option option" where
  "opt_dict d k = (case dget d k of JNull \<Rightarrow> Some None | JObj x \<Rightarrow> Some (Some x) | _ \<Rightarrow> None)"

definition opt_uuid :: "api_env \<Rightarrow> dict \<Rightarrow> string \<Rightarrow> string option option" where
  "opt_uuid api d k = (case dget d k of
     JNull \<Rightarrow> Some None | JStr s \<Rightarrow> map_option Some (ap_uuid api s) | _ \<Rightarrow> None)"

definition protocol_field :: "dict \<Rightarrow> string option" where
  "protocol_field d = (case dget_or d ''connection_protocol'' (JStr ''nexora-agent'') of
     JStr s \<Rightarrow> Some s | _ \<Rightarrow> None)"

definition parse_register :: "api_env \<Rightarrow> dict \<Rightarrow> agent_register option" where
  "parse_register api d =
     (case (opt_uuid api d ''device_id'', str_field d ''name'' 1 255, str_field d ''device_type'' 1 100) of
        (Some i, Some n, Some t) \<Rightarrow>
          (case (opt_dict d ''metadata'', opt_dict d ''capabilities'', protocol_field d,
                 opt_dict d ''protocol_meta'') of
             (Some m, Some c, Some p, Some pm) \<Rightarrow>
               (case (opt_str d ''owner_id'', opt_str d ''tenant_id'') of
                  (Some ow, Some te) \<Rightarrow>
                    Some \<lparr>ag_device_id = i, ag_name = n, ag_device_type = t, ag_metadata = m,
                          ag_capabilities = c, ag_connection_protocol = p, ag_protocol_meta = pm,
                          ag_owner_id = ow, ag_tenant_id = te\<rparr>
                | _ \<Rightarrow> None)
           | _ \<Rightarrow> None)
      | _ \<Rightarrow> None)"

definition stamp_field :: "api_env \<Rightarrow> dict \<Rightarrow> stamp option option" where
  "stamp_field api d = (case dget d ''ts'' of JNull \<Rightarrow> Some None | v \<Rightarrow> map_option Some (ap_stamp api v))"

definition unit_field :: "dict \<Rightarrow> string option option" where
  "unit_field d = (case opt_str d ''unit'' of
     Some (Some u) \<Rightarrow> if length u \<le> 32 then Some (Some u) else None | r \<Rightarrow> r)"

definition parse_sample :: "api_env \<Rightarrow> json \<Rightarrow> telemetry_sample option" where
  "parse_sample api v = (case v of
     JObj d \<Rightarrow>
       (case (str_field d ''metric'' 1 128, py_float (ap_float api) (dget d ''value''), stamp_field api d,
              opt_dict d ''tags'', unit_field d) of
          (Some m, Inr x, Some t, Some tg, Some u) \<Rightarrow>
            Some \<lparr>ts_metric = m, ts_value = x, ts_ts = t, ts_tags = tg, ts_unit = u\<rparr>
        | _ \<Rightarrow> None)
   | _ \<Rightarrow> None)"

fun parse_all :: "('a \<Rightarrow> 'b option) \<Rightarrow> 'a list \<Rightarrow> 'b list option" where
  "parse_all p [] = Some []"
| "parse_all p (x # xs) = (case p x of None \<Rightarrow> None
     | Some y \<Rightarrow> (case parse_all p xs of None \<Rightarrow> None | Some ys \<Rightarrow> Some (y # ys)))"

definition parse_samples :: "api_env \<Rightarrow> dict \<Rightarrow> telemetry_sample list option" where
  "parse_samples api d = (case dget d ''samples'' of
     JArr xs \<Rightarrow> if 1 \<le> length xs \<and> length xs \<le> 500 then parse_all (parse_sample api) xs else None
   | _ \<Rightarrow> None)"

definition parse_reported :: "dict \<Rightarrow> dict option" where
  "parse_reported d = (case dget d ''state'' of JObj x \<Rightarrow> Some x | _ \<Rightarrow> None)"

subsection \<open>The service\<close>

definition unprocessable :: answer where
  "unprocessable = Answer 422 JNull"

definition post_register ::
  "api_env \<Rightarrow> device_settings \<Rightarrow> device_env \<Rightarrow> string \<Rightarrow> dict \<Rightarrow> device_state \<Rightarrow> answer \<times> device_state" where
  "post_register api cfg env token body st = (case parse_register api body of
     None \<Rightarrow> (unprocessable, st)
   | Some p \<Rightarrow>
       (case agent_register_endpoint cfg env token None p st of
          (Inl err, st1) \<Rightarrow> (error_answer err, st1)
        | (Inr r, st1) \<Rightarrow> (Answer 201 (JObj [(''device_id'', JStr (st_device_id r)),
              (''status'', JStr (st_status r)), (''last_seen'', jtime (st_last_seen r))]), st1)))"

definition post_telemetry ::
  "api_env \<Rightarrow> device_settings \<Rightarrow> device_env \<Rightarrow> string \<Rightarrow> dict \<Rightarrow> device_state \<Rightarrow> answer \<times> device_state" where
  "post_telemetry api cfg env did body st = (case (ap_uuid api did, parse_samples api body) of
     (Some i, Some xs) \<Rightarrow>
       (case ingest_telemetry cfg env i xs st of
          (Inl err, st1) \<Rightarrow> (error_answer err, st1)
        | (Inr r, st1) \<Rightarrow> (Answer 202 (JObj [(''device_id'', JStr (ig_device_id r)),
              (''ingested'', JInt (int (ig_ingested r))), (''metrics'', counts_json (ig_metrics r)),
              (''slo_violations'', JInt (int (ig_violations r)))]), st1))
   | _ \<Rightarrow> (unprocessable, st))"

definition post_reported ::
  "api_env \<Rightarrow> device_settings \<Rightarrow> device_env \<Rightarrow> string \<Rightarrow> dict \<Rightarrow> device_state \<Rightarrow> answer \<times> device_state" where
  "post_reported api cfg env did body st = (case (ap_uuid api did, parse_reported body) of
     (Some i, Some state) \<Rightarrow>
       (case update_reported cfg env i state st of
          (Inl err, st1) \<Rightarrow> (error_answer err, st1)
        | (Inr s, st1) \<Rightarrow> (Answer 200 (JObj [(''device_id'', JStr (sh_device_id s)),
              (''version'', JInt (sh_version s))]), st1))
   | _ \<Rightarrow> (unprocessable, st))"

definition device_post ::
  "api_env \<Rightarrow> device_settings \<Rightarrow> device_env \<Rightarrow> target \<Rightarrow> dict \<Rightarrow> device_state \<Rightarrow> answer \<times> device_state" where
  "device_post api cfg env t body st = (case t of
     Register_agent token \<Rightarrow> post_register api cfg env token body st
   | Telemetry_of did \<Rightarrow> post_telemetry api cfg env did body st
   | Reported_of did \<Rightarrow> post_reported api cfg env did body st)"

text \<open>The id the service answers with; an answer without one raises and is logged.\<close>

definition answered_id :: "answer \<Rightarrow> string option" where
  "answered_id a = (case a of
     Answer s (JObj b) \<Rightarrow> (if success s then (case dget b ''device_id'' of JStr i \<Rightarrow> Some i | _ \<Rightarrow> None) else None)
   | _ \<Rightarrow> None)"

subsection \<open>The interface\<close>

text \<open>
  What a client may rely on: a post about a device the service does not know is refused and changes
  nothing, with 404 when the id is a UUID and the body is sound; a registration that names no device
  makes one new record, under an id that is not strange (one the service draws), and stores no
  reading. \<open>registrable\<close> and \<open>ready\<close> are what makes it succeed.
\<close>

locale device_api =
  fixes post :: "target \<Rightarrow> dict \<Rightarrow> 'w \<Rightarrow> answer \<times> 'w"
    and knows :: "string \<Rightarrow> 'w \<Rightarrow> bool"
    and strange :: "string \<Rightarrow> bool"
    and is_uuid :: "string \<Rightarrow> bool"
    and sound :: "dict \<Rightarrow> bool"
    and records :: "'w \<Rightarrow> nat"
    and readings :: "'w \<Rightarrow> 'r"
    and ready :: "'w \<Rightarrow> bool"
    and registrable :: "string \<Rightarrow> dict \<Rightarrow> bool"
  assumes telemetry_unknown: "\<not> knows d w \<Longrightarrow> \<exists>s b. post (Telemetry_of d) body w = (Answer s b, w)
      \<and> \<not> success s \<and> (s = 404 \<longrightarrow> is_uuid d) \<and> (is_uuid d \<longrightarrow> sound body \<longrightarrow> s = 404)"
    and reported_unknown: "\<not> knows d w \<Longrightarrow> \<exists>s b. post (Reported_of d) body w = (Answer s b, w) \<and> \<not> success s"
    and register_new: "ready w \<Longrightarrow> registrable token body \<Longrightarrow>
      \<exists>b w'. post (Register_agent token) body w = (Answer 201 b, w') \<and> ready w'
        \<and> records w' = Suc (records w) \<and> readings w' = readings w
        \<and> (\<forall>d. strange d \<longrightarrow> \<not> knows d w \<longrightarrow> \<not> knows d w')"

subsection \<open>The service provides it\<close>

definition service_knows :: "api_env \<Rightarrow> string \<Rightarrow> device_state \<Rightarrow> bool" where
  "service_knows api d st = (case ap_uuid api d of None \<Rightarrow> False | Some i \<Rightarrow> device_exists i st)"

definition never_drawn :: "api_env \<Rightarrow> device_env \<Rightarrow> string \<Rightarrow> bool" where
  "never_drawn api env d \<longleftrightarrow> (\<forall>n. ap_uuid api d \<noteq> Some (dn_uuid4 env n))"

text \<open>The random ids do not repeat, and those to come name no device yet.\<close>

definition ids_fresh :: "device_env \<Rightarrow> device_state \<Rightarrow> bool" where
  "ids_fresh env st \<longleftrightarrow> inj (dn_uuid4 env) \<and> (\<forall>k \<ge> dv_ids st. \<not> device_exists (dn_uuid4 env k) st)"

definition accepted_registration :: "api_env \<Rightarrow> device_settings \<Rightarrow> device_env \<Rightarrow> string \<Rightarrow> dict \<Rightarrow> bool" where
  "accepted_registration api cfg env token body \<longleftrightarrow>
     is_ok (validate_bootstrap_token cfg (dn_now env) token)
   \<and> (case parse_register api body of None \<Rightarrow> False | Some p \<Rightarrow> ag_device_id p = None)"

lemma telemetry_refused:
  assumes "\<not> service_knows api d st"
  shows "\<exists>s b. device_post api cfg env (Telemetry_of d) body st = (Answer s b, st) \<and> \<not> success s
    \<and> (s = 404 \<longrightarrow> ap_uuid api d \<noteq> None) \<and> (ap_uuid api d \<noteq> None \<longrightarrow> parse_samples api body \<noteq> None \<longrightarrow> s = 404)"
  using assms
  by (auto simp: device_post_def post_telemetry_def service_knows_def ingest_telemetry_def unprocessable_def
      error_answer_def device_not_found_def success_def split: option.splits)

lemma reported_refused:
  assumes "\<not> service_knows api d st"
  shows "\<exists>s b. device_post api cfg env (Reported_of d) body st = (Answer s b, st) \<and> \<not> success s"
  using assms
  by (auto simp: device_post_def post_reported_def service_knows_def update_reported_def unprocessable_def
      error_answer_def device_not_found_def success_def split: option.splits)

lemma registered_fields [simp]:
  "dv_id (registered env i p) = i" "dv_status (registered env i p) = ''online''"
  "dv_last_seen (registered env i p) = Some (dn_now env)"
  by (simp_all add: registered_def)

text \<open>A registration that names no device: the record under the next id.\<close>

lemma registers_new:
  assumes "ids_fresh env st" "accepted_registration api cfg env token body"
  shows "\<exists>p st'. parse_register api body = Some p
    \<and> device_post api cfg env (Register_agent token) body st =
        (Answer 201 (JObj [(''device_id'', JStr (dn_uuid4 env (dv_ids st))), (''status'', JStr ''online''),
           (''last_seen'', jtime (Some (dn_now env)))]), st')
    \<and> devices st' = devices st @ [registered env (dn_uuid4 env (dv_ids st)) p]
    \<and> samples st' = samples st \<and> dv_ids st' = Suc (dv_ids st)"
proof -
  obtain p where p: "parse_register api body = Some p" "ag_device_id p = None"
    using assms(2) by (auto simp: accepted_registration_def split: option.splits)
  obtain v where v: "validate_bootstrap_token cfg (dn_now env) token = Inr v"
    using assms(2) by (auto simp: accepted_registration_def elim: is_okE)
  have fresh: "\<not> device_exists (dn_uuid4 env (dv_ids st)) (st\<lparr>dv_ids := Suc (dv_ids st)\<rparr>)"
    using assms(1) by (simp add: ids_fresh_def device_exists_def find_device_def)
  show ?thesis
    using p v fresh
    by (simp add: device_post_def post_register_def agent_register_endpoint_def register_agent_def fresh_id_def
        insert_device_def agent_status_of_def registered_event_def frame_simps tbl_add_def Let_def device_audit_def)
qed

lemma exists_append: "devices st' = devices st @ [d] \<Longrightarrow> device_exists k st' \<longleftrightarrow> device_exists k st \<or> dv_id d = k"
  by (auto simp: device_exists_def find_device_def tbl_get_None)

interpretation service: device_api "device_post api cfg env" "service_knows api" "never_drawn api env"
  "\<lambda>d. ap_uuid api d \<noteq> None" "\<lambda>b. parse_samples api b \<noteq> None" "\<lambda>st. length (devices st)"
  samples "ids_fresh env" "accepted_registration api cfg env"
  for api cfg env
proof
  fix st token body
  assume fresh: "ids_fresh env st" and reg: "accepted_registration api cfg env token body"
  obtain p st' where r: "device_post api cfg env (Register_agent token) body st =
        (Answer 201 (JObj [(''device_id'', JStr (dn_uuid4 env (dv_ids st))), (''status'', JStr ''online''),
           (''last_seen'', jtime (Some (dn_now env)))]), st')"
    and d: "devices st' = devices st @ [registered env (dn_uuid4 env (dv_ids st)) p]"
    and s: "samples st' = samples st" and n: "dv_ids st' = Suc (dv_ids st)"
    using registers_new [OF fresh reg] by blast
  have "ids_fresh env st'"
    using fresh by (auto simp: ids_fresh_def exists_append [OF d] n dest: injD)
  moreover have "\<not> service_knows api k st'" if "never_drawn api env k" "\<not> service_knows api k st" for k
    using that by (auto simp: service_knows_def never_drawn_def exists_append [OF d] split: option.splits)
  ultimately show "\<exists>b w'. device_post api cfg env (Register_agent token) body st = (Answer 201 b, w')
      \<and> ids_fresh env w' \<and> length (devices w') = Suc (length (devices st))
      \<and> samples w' = samples st
      \<and> (\<forall>d. never_drawn api env d \<longrightarrow> \<not> service_knows api d st \<longrightarrow> \<not> service_knows api d w')"
    using r d s by auto
qed (erule telemetry_refused reported_refused)+

subsection \<open>Records and their ids\<close>

text \<open>
  What a client that keeps the ids of its registrations may rely on besides: the id in the answer to
  a registration that names no device is of a record that was not there before, and no record goes.
\<close>

locale device_registry = device_api +
  fixes files :: "string \<Rightarrow> 'a \<Rightarrow> bool"
  assumes registered_id: "post (Register_agent token) body w = (a, w') \<Longrightarrow> answered_id a = Some i \<Longrightarrow>
      dget body ''device_id'' = JNull \<Longrightarrow> \<not> files i w \<and> files i w'"
    and files_kept: "files i w \<Longrightarrow> files i (snd (post t body w))"

lemma devices_ingest: "devices (snd (ingest_telemetry cfg env did xs st)) = devices st"
proof -
  have bus: "devices (fold (\<lambda>v. event_bus_publish cfg env k (f v)) vs s) = devices s" for k f vs s
    by (induction vs arbitrary: s) (simp_all add: frame_simps)
  have slos: "devices s' = devices s" if "evaluate_slos env did ys s = (r, s')" for ys s r s'
    using that by (auto simp: evaluate_slos_def Let_def split: prod.splits sum.splits if_splits)
  show ?thesis
    by (auto simp: ingest_telemetry_def Let_def bus frame_simps dest!: slos split: sum.splits prod.splits)
qed

lemma devices_reported: "devices (snd (update_reported cfg env did state st)) = devices st"
  by (auto simp: update_reported_def get_or_create_shadow_def Let_def frame_simps split: prod.splits option.splits)

lemma agent_register_devices:
  "devices (snd (agent_register_endpoint cfg env token c p st)) \<in> {devices st, devices (snd (register_agent cfg env p st))}"
  by (auto simp: agent_register_endpoint_def frame_simps split: sum.splits prod.splits)

lemma register_keeps: "device_exists k st \<Longrightarrow> device_exists k (snd (register_agent cfg env p st))"
  by (auto simp: register_agent_def Let_def registered_event_def put_device_def insert_device_def fresh_id_def
      device_exists_def find_device_def frame_simps tbl_get_None
      split: option.splits prod.splits sum.splits if_splits)

lemma exists_devices: "devices st' = devices st \<Longrightarrow> device_exists k st' \<longleftrightarrow> device_exists k st"
  by (simp add: device_exists_def find_device_def)

lemma post_keeps: "device_exists k st \<Longrightarrow> device_exists k (snd (device_post api cfg env t body st))"
proof -
  assume k: "device_exists k st"
  have reg: "device_exists k st'" if "agent_register_endpoint cfg env token c p st = (r, st')" for token c p r st'
  proof -
    have "devices st' \<in> {devices st, devices (snd (register_agent cfg env p st))}"
      using agent_register_devices [of cfg env token c p st] that by simp
    then show ?thesis using k register_keeps [OF k, of cfg env p] exists_devices by blast
  qed
  have "device_exists k st'" if "ingest_telemetry cfg env i xs st = (r, st')" for i xs r st'
    using k devices_ingest [of cfg env i xs st] that exists_devices [of st' st] by simp
  moreover have "device_exists k st'" if "update_reported cfg env i x st = (r, st')" for i x r st'
    using k devices_reported [of cfg env i x st] that exists_devices [of st' st] by simp
  ultimately show ?thesis using k reg
    by (auto simp: device_post_def post_register_def post_telemetry_def post_reported_def
        split: target.split option.split prod.split sum.split)
qed

lemma register_answer:
  assumes "device_post api cfg env (Register_agent token) body st = (a, st')" "answered_id a = Some i"
    and "dget body ''device_id'' = JNull"
  shows "\<not> device_exists i st \<and> device_exists i st'"
proof -
  obtain p where p: "parse_register api body = Some p"
    using assms(1,2) by (cases "parse_register api body")
      (auto simp: device_post_def post_register_def unprocessable_def answered_id_def)
  then have none: "ag_device_id p = None"
    using assms(3) by (auto simp: parse_register_def opt_uuid_def split: option.splits)
  obtain r where e: "agent_register_endpoint cfg env token None p st = (Inr r, st')" "i = st_device_id r"
    using assms(1,2) p
    by (auto simp: device_post_def post_register_def answered_id_def error_answer_def success_def dget_def
        split: prod.splits sum.splits error.splits if_splits json.splits)
  then obtain st1 where g: "register_agent cfg env p st = (Inr r, st1)" and d: "devices st' = devices st1"
    by (auto simp: agent_register_endpoint_def frame_simps split: sum.splits prod.splits)
  from g have "\<not> device_exists i st \<and> device_exists i st1"
    using none e(2)
    by (auto simp: register_agent_def fresh_id_def insert_device_def device_exists_def find_device_def
        agent_status_of_def registered_event_def frame_simps tbl_get_None Let_def split: if_splits)
  then show ?thesis using exists_devices [OF d] by simp
qed

interpretation registry: device_registry "device_post api cfg env" "service_knows api" "never_drawn api env"
  "\<lambda>d. ap_uuid api d \<noteq> None" "\<lambda>b. parse_samples api b \<noteq> None" "\<lambda>st. length (devices st)"
  samples "ids_fresh env" "accepted_registration api cfg env" device_exists
  for api cfg env
  by unfold_locales (erule register_answer post_keeps, assumption+ | erule post_keeps)+

end
