(* ===== verification/MqttBridge.thy ===== *)
theory MqttBridge
  imports DeviceApi Bridges
begin

text \<open>
  The MQTT bridge (\<open>services/mqtt-bridge\<close>): the messages of the devices
  (\<open>core/message_handler.py\<close>, \<open>core/device_registry.py\<close>) and the commands to them
  (\<open>core/command_publisher.py\<close>). The device service is the function \<open>post\<close> on a state of any type
  \<open>'w\<close>; messages are handled one after the other. \<open>json.loads\<close> and the texts of numbers are
  parameters.
\<close>

record mqtt_cfg =
  mc_topic_prefix :: string
  mc_bootstrap_token :: string
  mc_auto_register :: bool

record mqtt_env =
  me_loads :: "string \<Rightarrow> json option"
  me_float :: "string \<Rightarrow> rat option"
  me_show :: "json \<Rightarrow> string"

type_synonym 'w post = "target \<Rightarrow> dict \<Rightarrow> 'w \<Rightarrow> answer \<times> 'w"

text \<open>The ids taken for registered, and the device service.\<close>

type_synonym 'w bridge = "string set \<times> 'w"

subsection \<open>Registry\<close>

definition auto_body :: "string \<Rightarrow> string option \<Rightarrow> string \<Rightarrow> dict" where
  "auto_body d name device_type =
     [(''name'', JStr (sor name d)), (''device_type'', JStr device_type),
      (''connection_protocol'', JStr ''mqtt''),
      (''protocol_meta'', JObj [(''mqtt_client_id'', JStr d)])]"

definition try_register :: "'w post \<Rightarrow> string \<Rightarrow> string \<Rightarrow> dict \<Rightarrow> 'w bridge \<Rightarrow> bool \<times> 'w bridge" where
  "try_register post token d body st = (case st of (known, w) \<Rightarrow>
     (case post (Register_agent token) body w of
        (Answer s b, w1) \<Rightarrow> if success s then (True, insert d known, w1) else (False, known, w1)
      | (NoAnswer e, w1) \<Rightarrow> (False, known, w1)))"

definition ensure_registered ::
  "'w post \<Rightarrow> mqtt_cfg \<Rightarrow> string \<Rightarrow> string option \<Rightarrow> string \<Rightarrow> 'w bridge \<Rightarrow> bool \<times> 'w bridge" where
  "ensure_registered post cfg d name device_type st =
     (if d \<in> fst st then (True, st)
      else try_register post (mc_bootstrap_token cfg) d (auto_body d name device_type) st)"

subsection \<open>Messages\<close>

text \<open>\<open>{"mqtt_client_id": device_id, **data.get("protocol_meta", {})}\<close>.\<close>

definition register_meta :: "string \<Rightarrow> dict \<Rightarrow> dict res" where
  "register_meta d data = (case dget_or data ''protocol_meta'' (JObj []) of
     JObj m \<Rightarrow> Inr (fold (\<lambda>(k, v) x. dset x k v) m [(''mqtt_client_id'', JStr d)])
   | _ \<Rightarrow> Inl (PyExc ''TypeError''))"

definition handle_register :: "'w post \<Rightarrow> mqtt_cfg \<Rightarrow> string \<Rightarrow> json \<Rightarrow> 'w bridge \<Rightarrow> unit res \<times> 'w bridge" where
  "handle_register post cfg d data st = (case data of
     JObj x \<Rightarrow>
       (case register_meta d x of
          Inl err \<Rightarrow> (Inl err, st)
        | Inr meta \<Rightarrow>
            let body = [(''name'', dget_or x ''name'' (JStr d)),
                        (''device_type'', dget_or x ''device_type'' (JStr ''mqtt'')),
                        (''connection_protocol'', JStr ''mqtt''), (''protocol_meta'', JObj meta)]
                  @ (if truthy (dget x ''capabilities'') then [(''capabilities'', dget x ''capabilities'')] else [])
            in (Inr (), snd (try_register post (mc_bootstrap_token cfg) d body st)))
   | _ \<Rightarrow> (Inl (PyExc ''AttributeError''), st))"

text \<open>One sample in the form the service takes, or none.\<close>

definition normalise_sample :: "mqtt_env \<Rightarrow> json \<Rightarrow> json option" where
  "normalise_sample env s = (case s of
     JObj x \<Rightarrow>
       if dget x ''metric'' = JNull \<or> dget x ''value'' = JNull then None
       else (case py_float (me_float env) (dget x ''value'') of
          Inl err \<Rightarrow> None
        | Inr v \<Rightarrow> Some (JObj (
            [(''metric'', JStr (py_str (me_show env) (dget x ''metric''))), (''value'', JNum v)]
          @ (if dhas x ''ts'' then [(''ts'', dget x ''ts'')] else [])
          @ (case dget x ''tags'' of JObj t \<Rightarrow> [(''tags'', JObj t)] | _ \<Rightarrow> [])
          @ (if dhas x ''unit'' then [(''unit'', JStr (py_str (me_show env) (dget x ''unit'')))] else []))))
   | _ \<Rightarrow> None)"

definition normalise :: "mqtt_env \<Rightarrow> json \<Rightarrow> json list" where
  "normalise env data = (case data of
     JObj x \<Rightarrow> List.map_filter (normalise_sample env) [JObj x]
   | JArr xs \<Rightarrow> List.map_filter (normalise_sample env) xs
   | _ \<Rightarrow> [])"

text \<open>A device the service does not know is forgotten and registered again.\<close>

definition ingest :: "'w post \<Rightarrow> mqtt_cfg \<Rightarrow> string \<Rightarrow> json list \<Rightarrow> 'w bridge \<Rightarrow> 'w bridge" where
  "ingest post cfg d xs st = (case st of (known, w) \<Rightarrow>
     (case post (Telemetry_of d) [(''samples'', JArr xs)] w of
        (Answer s b, w1) \<Rightarrow>
          if s = 404 then snd (ensure_registered post cfg d None ''mqtt'' (known - {d}, w1))
          else (known, w1)
      | (NoAnswer e, w1) \<Rightarrow> (known, w1)))"

definition handle_telemetry :: "'w post \<Rightarrow> mqtt_cfg \<Rightarrow> mqtt_env \<Rightarrow> string \<Rightarrow> json \<Rightarrow> 'w bridge \<Rightarrow> 'w bridge" where
  "handle_telemetry post cfg env d data st =
     (if \<not> mc_auto_register cfg \<and> d \<notin> fst st then st
      else
      let st1 = (if mc_auto_register cfg then snd (ensure_registered post cfg d None ''mqtt'' st) else st);
          xs = normalise env data
      in if xs = [] then st1 else ingest post cfg d xs st1)"

definition handle_state :: "'w post \<Rightarrow> mqtt_cfg \<Rightarrow> string \<Rightarrow> json \<Rightarrow> 'w bridge \<Rightarrow> 'w bridge" where
  "handle_state post cfg d data st = (case data of
     JObj x \<Rightarrow>
       (case snd (ensure_registered post cfg d None ''mqtt'' st) of
          (known, w) \<Rightarrow> (known, snd (post (Reported_of d) [(''state'', JObj x)] w)))
   | _ \<Rightarrow> st)"

text \<open>A message on a topic; an exception ends its task.\<close>

definition handle_message ::
  "'w post \<Rightarrow> mqtt_cfg \<Rightarrow> mqtt_env \<Rightarrow> string \<Rightarrow> string \<Rightarrow> 'w bridge \<Rightarrow> unit res \<times> 'w bridge" where
  "handle_message post cfg env topic payload st =
     (case split_on CHR ''/'' topic of
        p # q # d # action # rest \<Rightarrow>
          if p \<noteq> mc_topic_prefix cfg \<or> q \<noteq> ''devices'' then (Inr (), st)
          else (case me_loads env payload of
            None \<Rightarrow> (Inr (), st)
          | Some data \<Rightarrow>
              if data = JNull then (Inr (), st)
              else if action = ''register'' then handle_register post cfg d data st
              else if action = ''telemetry'' then (Inr (), handle_telemetry post cfg env d data st)
              else if action = ''state'' then (Inr (), handle_state post cfg d data st)
              else (Inr (), st))
      | _ \<Rightarrow> (Inr (), st))"

definition list_known_devices :: "'w bridge \<Rightarrow> string list" where
  "list_known_devices st = sorted_list_of_set (fst st)"

subsection \<open>Commands\<close>

definition command_topic :: "mqtt_cfg \<Rightarrow> string \<Rightarrow> string" where
  "command_topic cfg d = mc_topic_prefix cfg @ ''/devices/'' @ d @ ''/commands''"

definition command_message :: "json \<Rightarrow> dict \<Rightarrow> dict" where
  "command_message eid payload =
     [(''execution_id'', eid), (''command'', dget payload ''command''),
      (''args'', dget_or payload ''args'' (JObj [])),
      (''execution_type'', dget_or payload ''execution_type'' (JStr ''command''))]"

text \<open>\<open>_dispatch\<close>.\<close>

definition mqtt_dispatch :: "mqtt_cfg \<Rightarrow> link \<Rightarrow> string \<Rightarrow> json \<Rightarrow> dict \<Rightarrow> bridge_effect list" where
  "mqtt_dispatch cfg l d eid payload =
     publish_and_report l eid (command_topic cfg d) (JObj (command_message eid payload))
       (''Command published to '' @ command_topic cfg d)"

text \<open>One message of the consumer; whatever its handling raises is logged.\<close>

definition mqtt_consume :: "mqtt_cfg \<Rightarrow> link \<Rightarrow> string set \<Rightarrow> json \<Rightarrow> bridge_effect list" where
  "mqtt_consume cfg l known event = (case event of
     JObj x \<Rightarrow>
       (case dget_or x ''payload'' (JObj []) of
          JObj payload \<Rightarrow>
            (case dget_or payload ''device_id'' (JStr []) of
               JStr d \<Rightarrow> if d \<in> known
                 then mqtt_dispatch cfg l d (dget_or payload ''execution_id'' (JStr [])) payload else []
             | _ \<Rightarrow> [])
        | _ \<Rightarrow> [])
   | _ \<Rightarrow> [])"

end
