(* ===== verification/MqttProperties.thy ===== *)
theory MqttProperties
  imports MqttBridge Callbacks
begin

text \<open>
  The MQTT bridge between the devices and the platform. First, inside the interface of the device
  service, what the telemetry of a device comes to when the service does not know the id in its
  topic; then the executions the bridge carries out, with the callback handler of the execution
  service on the other side.
\<close>

subsection \<open>Telemetry of a device the service does not know\<close>

lemma success_201 [simp]: "success 201" "\<not> success 404"
  by (simp_all add: success_def)

context device_api
begin

text \<open>A registration: one record, no reading, and the strange id stays unknown.\<close>

lemma registers:
  assumes "ready w" "registrable token body" "strange d" "\<not> knows d w"
  shows "\<exists>w'. try_register post token c body (known, w) = (True, insert c known, w')
    \<and> ready w' \<and> records w' = Suc (records w) \<and> readings w' = readings w \<and> \<not> knows d w'"
proof -
  obtain b w' where "post (Register_agent token) body w = (Answer 201 b, w')" "ready w'"
    "records w' = Suc (records w)" "readings w' = readings w" "\<not> knows d w'"
    using register_new [OF assms(1,2)] assms(3,4) by blast
  then show ?thesis by (simp add: try_register_def)
qed

lemma ensures:
  assumes "ready w" "registrable (mc_bootstrap_token cfg) (auto_body d None ''mqtt'')" "strange d" "\<not> knows d w"
  shows "\<exists>w'. snd (ensure_registered post cfg d None ''mqtt'' (known, w)) = (insert d known, w')
    \<and> ready w' \<and> records w' = records w + (if d \<in> known then 0 else 1) \<and> readings w' = readings w \<and> \<not> knows d w'"
  using assms registers [OF assms, of d known] by (auto simp: ensure_registered_def insert_absorb)

text \<open>The ingestion of one message: refused, and a new registration where the refusal is a 404.\<close>

lemma ingests:
  assumes "ready w" "registrable (mc_bootstrap_token cfg) (auto_body d None ''mqtt'')" "strange d" "\<not> knows d w"
    and "sound [(''samples'', JArr xs)]" "d \<in> known"
  shows "\<exists>w'. ingest post cfg d xs (known, w) = (known, w') \<and> ready w'
    \<and> records w' = records w + (if is_uuid d then 1 else 0) \<and> readings w' = readings w \<and> \<not> knows d w'"
proof -
  obtain s b where r: "post (Telemetry_of d) [(''samples'', JArr xs)] w = (Answer s b, w)"
    "s = 404 \<longrightarrow> is_uuid d" "is_uuid d \<longrightarrow> s = 404"
    using telemetry_unknown [OF assms(4)] assms(5) by blast
  obtain w' where "snd (ensure_registered post cfg d None ''mqtt'' (known - {d}, w)) = (insert d (known - {d}), w')"
    "ready w'" "records w' = records w + 1" "readings w' = readings w" "\<not> knows d w'"
    using ensures [OF assms(1-4), of "known - {d}"] by auto
  then show ?thesis using r assms by (auto simp: ingest_def insert_absorb)
qed

lemma telemetry_message:
  assumes "mc_auto_register cfg" "ready w" "registrable (mc_bootstrap_token cfg) (auto_body d None ''mqtt'')"
    and "strange d" "\<not> knows d w" "normalise env data \<noteq> []" "sound [(''samples'', JArr (normalise env data))]"
  shows "\<exists>w'. handle_telemetry post cfg env d data (known, w) = (insert d known, w') \<and> ready w' \<and> \<not> knows d w'
    \<and> records w' = records w + (if d \<in> known then 0 else 1) + (if is_uuid d then 1 else 0)
    \<and> readings w' = readings w"
proof -
  obtain w1 where w1: "snd (ensure_registered post cfg d None ''mqtt'' (known, w)) = (insert d known, w1)"
    "ready w1" "records w1 = records w + (if d \<in> known then 0 else 1)" "readings w1 = readings w" "\<not> knows d w1"
    using ensures [OF assms(2-5)] by blast
  obtain w2 where "ingest post cfg d (normalise env data) (insert d known, w1) = (insert d known, w2)"
    "ready w2" "records w2 = records w1 + (if is_uuid d then 1 else 0)" "readings w2 = readings w1" "\<not> knows d w2"
    using ingests [OF w1(2) assms(3,4) w1(5) assms(7), of "insert d known"] by auto
  then show ?thesis using assms(1,6) w1 by (simp add: handle_telemetry_def Let_def)
qed

lemma telemetry_run:
  assumes "mc_auto_register cfg" "ready w" "registrable (mc_bootstrap_token cfg) (auto_body d None ''mqtt'')"
    and "strange d" "\<not> knows d w"
    and "\<forall>data \<in> set datas. normalise env data \<noteq> [] \<and> sound [(''samples'', JArr (normalise env data))]"
    and "d \<in> known"
  shows "\<exists>w'. fold (handle_telemetry post cfg env d) datas (known, w) = (known, w') \<and> \<not> knows d w'
    \<and> records w' = records w + (if is_uuid d then length datas else 0) \<and> readings w' = readings w"
  using assms(2,5,6)
proof (induction datas arbitrary: w)
  case (Cons data datas)
  then have "normalise env data \<noteq> []" "sound [(''samples'', JArr (normalise env data))]" by simp_all
  from telemetry_message [OF assms(1) Cons.prems(1) assms(3,4) Cons.prems(2) this, of known]
  obtain w1 where w1: "handle_telemetry post cfg env d data (known, w) = (known, w1)" "ready w1" "\<not> knows d w1"
    "records w1 = records w + (if is_uuid d then 1 else 0)" "readings w1 = readings w"
    using assms(7) by (auto simp: insert_absorb)
  from Cons.IH [OF w1(2,3)] Cons.prems(3) show ?case using w1 by auto
qed simp

end

text \<open>Telemetry over MQTT of a device whose topic id the service does not know. With
  auto-registration the bridge registers the device, but the service files it under an id of its
  own: no run of telemetry messages stores any reading, and the device list grows by one record,
  and by a further record with every message when the topic id is a UUID.\<close>

theorem mqtt_ghosts:
  assumes "mc_auto_register cfg" "datas \<noteq> []" "d \<notin> known"
    and "ids_fresh denv st" "accepted_registration api dcfg denv (mc_bootstrap_token cfg) (auto_body d None ''mqtt'')"
    and "never_drawn api denv d" "\<not> service_knows api d st"
    and "\<forall>data \<in> set datas. normalise env data \<noteq> []
      \<and> parse_samples api [(''samples'', JArr (normalise env data))] \<noteq> None"
  shows "\<exists>st'. fold (handle_telemetry (device_post api dcfg denv) cfg env d) datas (known, st) = (insert d known, st')
    \<and> samples st' = samples st \<and> \<not> service_knows api d st'
    \<and> length (devices st') = length (devices st) + 1 + (if ap_uuid api d = None then 0 else length datas)"
proof -
  obtain data rest where datas: "datas = data # rest" using assms(2) by (cases datas) auto
  let ?post = "device_post api dcfg denv"
  have "normalise env data \<noteq> []" "parse_samples api [(''samples'', JArr (normalise env data))] \<noteq> None"
    using assms(8) datas by simp_all
  from service.telemetry_message [OF assms(1,4,5,6,7) this, of known] assms(3)
  obtain st1 where st1: "handle_telemetry ?post cfg env d data (known, st) = (insert d known, st1)"
    "ids_fresh denv st1" "\<not> service_knows api d st1" "samples st1 = samples st"
    "length (devices st1) = length (devices st) + 1 + (if ap_uuid api d = None then 0 else 1)"
    by auto
  have "\<forall>data \<in> set rest. normalise env data \<noteq> []
      \<and> parse_samples api [(''samples'', JArr (normalise env data))] \<noteq> None"
    using assms(8) datas by simp
  from service.telemetry_run [OF assms(1) st1(2) assms(5,6) st1(3) this, of "insert d known"]
  show ?thesis using st1 datas by auto
qed

text \<open>Two messages of a sensor whose topic id is a UUID (here any text is one).\<close>

definition demo_mqtt_cfg :: mqtt_cfg where
  "demo_mqtt_cfg = \<lparr>mc_topic_prefix = ''nexora'', mc_bootstrap_token = ''a:s'', mc_auto_register = True\<rparr>"

definition demo_mqtt_env :: mqtt_env where
  "demo_mqtt_env = \<lparr>me_loads = (\<lambda>s. None), me_float = (\<lambda>s. None), me_show = (\<lambda>v. [])\<rparr>"

definition demo_api :: api_env where
  "demo_api = \<lparr>ap_uuid = Some, ap_float = (\<lambda>s. None), ap_stamp = (\<lambda>v. None)\<rparr>"

definition demo_mqtt_device_env :: device_env where
  "demo_mqtt_device_env = (demo_device_env 1)\<lparr>dn_uuid4 := (\<lambda>n. replicate n CHR ''u'')\<rparr>"

definition demo_reading :: json where
  "demo_reading = JObj [(''metric'', JStr ''temp''), (''value'', JInt 20)]"

lemma demo_normalise:
  "normalise demo_mqtt_env demo_reading = [JObj [(''metric'', JStr ''temp''), (''value'', JNum 20)]]"
  by (simp add: normalise_def demo_reading_def normalise_sample_def demo_mqtt_env_def List.map_filter_def
    py_str_def dget_def dhas_def)

theorem mqtt_ghosts_witness:
  "\<exists>st'. fold (handle_telemetry (device_post demo_api demo_device_settings demo_mqtt_device_env)
        demo_mqtt_cfg demo_mqtt_env ''s1'') [demo_reading, demo_reading] ({}, empty_device_state) = ({''s1''}, st')
     \<and> samples st' = [] \<and> length (devices st') = 3"
proof -
  have fresh: "ids_fresh demo_mqtt_device_env empty_device_state"
    by (simp add: ids_fresh_def demo_mqtt_device_env_def inj_def device_exists_def find_device_def
      empty_device_state_def)
  have never: "never_drawn demo_api demo_mqtt_device_env ''s1''"
    by (auto simp: never_drawn_def demo_api_def demo_mqtt_device_env_def Cons_replicate_eq)
  have unknown: "\<not> service_knows demo_api ''s1'' empty_device_state"
    by (simp add: service_knows_def demo_api_def device_exists_def find_device_def empty_device_state_def)
  have token: "accepted_registration demo_api demo_device_settings demo_mqtt_device_env
      (mc_bootstrap_token demo_mqtt_cfg) (auto_body ''s1'' None ''mqtt'')"
    by code_simp
  have parse: "parse_samples demo_api [(''samples'', JArr (normalise demo_mqtt_env demo_reading))] \<noteq> None"
    unfolding demo_normalise by code_simp
  have "mc_auto_register demo_mqtt_cfg" by (simp add: demo_mqtt_cfg_def)
  from mqtt_ghosts [OF this _ _ fresh token never unknown, of "[demo_reading, demo_reading]" "{}" demo_mqtt_env] parse
  show ?thesis by (auto simp: demo_normalise demo_api_def empty_device_state_def)
qed

subsection \<open>Commands\<close>

text \<open>What a dispatched command of an MQTT device comes to. The bridge leaves the commands of
  devices it does not know alone; for one it knows, it publishes the command exactly when the broker
  takes it, always with empty arguments, since the dispatch of a plain command carries none; and the
  execution then ends succeeded unless publishing raised an exception: also when the bridge has no
  connection and nothing was published.\<close>

theorem mqtt_commands:
  assumes "ex_device_id e = Some d" "\<not> is_function_type (Some (sor (ex_execution_type e) ''command''))"
    and "complete_envelope xenv e = Inr envelope" "\<not> dhas (trace_headers xenv) ''args''"
    and "effs = mqtt_consume mcfg l known (JObj (event_value (make_event pcfg t ''dispatched'' (ex_id e) envelope)))"
  shows "(d \<notin> known \<longrightarrow> effs = [])
   \<and> (d \<in> known \<longrightarrow> filter sends_out effs = (if l = Accepts
        then [Publish (command_topic mcfg d) (JObj [(''execution_id'', JStr (ex_id e)), (''command'', jstr (ex_command e)),
          (''args'', JObj []), (''execution_type'', JStr (sor (ex_execution_type e) ''command''))])] else []))
   \<and> (d \<in> known \<and> agent_callback_secret cfg = []
       \<and> is_ok (require_internal_or_bootstrap (internal cfg) (now env) key token)
       \<and> tbl_get ex_id (ex_id e) (executions st) = Some e \<and> ex_status e = ''dispatched'' \<longrightarrow>
        (\<exists>e'. tbl_get ex_id (ex_id e) (executions (fold (deliver_bridge cfg env key token) effs st)) = Some e'
          \<and> ex_status e' = (if \<exists>err. l = Raises err then ''failed'' else ''succeeded'')))"
proof -
  note get = plain_dispatch [OF assms(3,2,1,4)]
  have effs: "effs = (if d \<in> known then mqtt_dispatch mcfg l d (JStr (ex_id e)) envelope else [])"
    using get by (simp add: assms(5) mqtt_consume_def make_event_def Let_def)
  have status: "link_status l = (if \<exists>err. l = Raises err then ''failed'' else ''succeeded'')"
    by (cases l) (simp_all add: link_status_def)
  define pr where "pr = mqtt_dispatch mcfg l d (JStr (ex_id e)) envelope"
  note pr = pr_def [unfolded mqtt_dispatch_def]
  have "filter sends_out pr = (if l = Accepts then [Publish (command_topic mcfg d)
      (JObj [(''execution_id'', JStr (ex_id e)), (''command'', jstr (ex_command e)),
       (''args'', JObj []), (''execution_type'', JStr (sor (ex_execution_type e) ''command''))])] else [])"
    unfolding pr publication_report(1) using get by (simp add: command_message_def)
  moreover have "agent_callback_secret cfg = [] \<Longrightarrow>
      is_ok (require_internal_or_bootstrap (internal cfg) (now env) key token) \<Longrightarrow>
      tbl_get ex_id (ex_id e) (executions st) = Some e \<Longrightarrow> ex_status e = ''dispatched'' \<Longrightarrow>
      \<exists>e'. tbl_get ex_id (ex_id e) (executions (fold (deliver_bridge cfg env key token) pr st)) = Some e'
        \<and> ex_status e' = (if \<exists>err. l = Raises err then ''failed'' else ''succeeded'')"
    unfolding pr status [symmetric] by (rule publication_report(3))
  ultimately show ?thesis by (auto simp: effs pr_def [symmetric] split del: if_split split: if_split_asm)
qed

text \<open>Without a connection to the broker the command is reported as carried out.\<close>

lemma mqtt_commands_witness:
  "\<exists>effs e'. effs = mqtt_consume demo_mqtt_cfg Offline {''d1''} (JObj (event_value
        (make_event demo_publisher 0 ''dispatched'' [] (base_envelope demo_env demo_dispatched_execution))))
     \<and> filter sends_out effs = []
     \<and> tbl_get ex_id [] (executions (fold (deliver_bridge demo_cfg demo_env None None) effs demo_dispatched)) = Some e'
     \<and> ex_status e' = ''succeeded''"
  using mqtt_commands [OF demo_dispatched_row(4) demo_plain refl, where mcfg = demo_mqtt_cfg and l = Offline and known = "{''d1''}"
      and pcfg = demo_publisher and t = 0 and cfg = demo_cfg and env = demo_env and key = None
      and token = None and st = demo_dispatched] demo_dispatched_row demo_callback_open
  by auto

end
