(* ===== verification/ZigbeeBridge.thy ===== *)
theory ZigbeeBridge
  imports DeviceApi Bridges
begin

text \<open>
  The Zigbee bridge (\<open>services/zigbee-bridge\<close>): the messages of zigbee2mqtt
  (\<open>core/message_handler.py\<close>), the registry of names (\<open>core/device_registry.py\<close>) and the commands
  (\<open>core/command_handler.py\<close>). The device service is the function \<open>post\<close> on a state of any type
  \<open>'w\<close>; \<open>json.loads\<close>, the texts of numbers and of Python values are parameters. Friendly names and
  addresses are texts, as zigbee2mqtt sends them: another value ends the handling of its message.
\<close>

record zigbee_cfg =
  zc_base_topic :: string
  zc_bootstrap_token :: string

record zigbee_env =
  ze_loads :: "string \<Rightarrow> json option"
  ze_float :: "string \<Rightarrow> rat option"
  ze_show :: "json \<Rightarrow> string"

type_synonym 'w service = "target \<Rightarrow> dict \<Rightarrow> 'w \<Rightarrow> answer \<times> 'w"

record 'w zigbee_state =
  name_to_id :: "(string \<times> string) list"
  ieee_to_id :: "(string \<times> string) list"
  zb_service :: 'w

subsection \<open>Registry\<close>

definition get_device_id :: "string \<Rightarrow> 'w zigbee_state \<Rightarrow> string option" where
  "get_device_id name st = map_of (name_to_id st) name"

definition zigbee_body :: "string \<Rightarrow> string \<Rightarrow> string \<Rightarrow> json \<Rightarrow> json \<Rightarrow> json list \<Rightarrow> dict" where
  "zigbee_body name ieee device_type model vendor endpoints =
     [(''name'', JStr name),
      (''device_type'', JStr (if device_type = [] then ''zigbee'' else device_type)),
      (''connection_protocol'', JStr ''zigbee''),
      (''protocol_meta'', JObj [(''ieee_address'', JStr ieee), (''friendly_name'', JStr name),
         (''model_id'', model), (''vendor'', vendor), (''endpoints'', JArr endpoints),
         (''source'', JStr ''zigbee2mqtt'')])]"

definition register_zigbee_device ::
  "'w service \<Rightarrow> zigbee_cfg \<Rightarrow> string \<Rightarrow> string \<Rightarrow> dict \<Rightarrow> 'w zigbee_state \<Rightarrow> 'w zigbee_state" where
  "register_zigbee_device post cfg name ieee body st =
     (if get_device_id name st \<noteq> None then st
      else case post (Register_agent (zc_bootstrap_token cfg)) body (zb_service st) of
        (a, w1) \<Rightarrow>
          (case answered_id a of
             None \<Rightarrow> st\<lparr>zb_service := w1\<rparr>
           | Some i \<Rightarrow> st\<lparr>name_to_id := AList.update name i (name_to_id st),
                          ieee_to_id := AList.update ieee i (ieee_to_id st), zb_service := w1\<rparr>))"

definition remove_device :: "string \<Rightarrow> 'w zigbee_state \<Rightarrow> 'w zigbee_state" where
  "remove_device name st = (case map_of (name_to_id st) name of
     None \<Rightarrow> st
   | Some i \<Rightarrow>
       let st1 = st\<lparr>name_to_id := AList.delete name (name_to_id st)\<rparr>
       in if i = [] then st1
          else st1\<lparr>ieee_to_id := filter (\<lambda>(k, v). v \<noteq> i) (ieee_to_id st)\<rparr>)"

definition zigbee_list_devices :: "'w zigbee_state \<Rightarrow> dict list" where
  "zigbee_list_devices st =
     map (\<lambda>(n, d). [(''friendly_name'', JStr n), (''nexora_device_id'', JStr d)]) (name_to_id st)"

subsection \<open>The inventory\<close>

text \<open>The names of what a definition exposes: iterating over what is no list of objects raises.\<close>

definition feature_name :: "json \<Rightarrow> json res" where
  "feature_name v = (case v of
     JObj x \<Rightarrow> (case dget_or x ''name'' (dget_or x ''type'' (JStr [])) of
         JArr a \<Rightarrow> Inl (PyExc ''TypeError'') | JObj o' \<Rightarrow> Inl (PyExc ''TypeError'') | n \<Rightarrow> Inr n)
   | _ \<Rightarrow> Inl (PyExc ''AttributeError''))"

definition feature_names :: "dict \<Rightarrow> json list res" where
  "feature_names d = (case iter_json (dget_or d ''exposes'' (JArr [])) of
     Inl err \<Rightarrow> Inl err | Inr xs \<Rightarrow> map_res feature_name xs)"

definition type_of_features :: "json list \<Rightarrow> string" where
  "type_of_features fs =
     (let has = (\<lambda>f. JStr f \<in> set fs) in
      if has ''temperature'' then ''temperature-sensor''
      else if has ''occupancy'' then ''motion-sensor''
      else if has ''contact'' then ''contact-sensor''
      else if has ''state'' \<and> has ''brightness'' then ''dimmable-light''
      else if has ''state'' then ''smart-plug''
      else if has ''energy'' \<or> has ''power'' then ''power-meter''
      else ''zigbee'')"

definition infer_device_type :: "dict \<Rightarrow> string res" where
  "infer_device_type d = map_sum id type_of_features (feature_names d)"

definition endpoint_entry :: "string \<times> json \<Rightarrow> json res" where
  "endpoint_entry ep = (case ep of (i, data) \<Rightarrow>
     (case data of
        JObj x \<Rightarrow>
          (case dget_or x ''clusters'' (JObj []) of
             JObj c \<Rightarrow> Inr (JObj [(''id'', JStr i), (''input_clusters'', dget_or c ''input'' (JArr [])),
                                (''output_clusters'', dget_or c ''output'' (JArr []))])
           | _ \<Rightarrow> Inl (PyExc ''AttributeError''))
      | _ \<Rightarrow> Inl (PyExc ''AttributeError'')))"

definition text_field :: "dict \<Rightarrow> string \<Rightarrow> string res" where
  "text_field d k = (case dget_or d k (JStr []) of
     JStr s \<Rightarrow> Inr s | JNull \<Rightarrow> Inr [] | _ \<Rightarrow> Inl (PyExc ''TypeError''))"

definition device_body :: "dict \<Rightarrow> string \<Rightarrow> string \<Rightarrow> dict res" where
  "device_body info name ieee =
     (case as_object (jor (dget info ''definition'') (JObj [])) of
        Inl err \<Rightarrow> Inl err
      | Inr d \<Rightarrow>
        (case infer_device_type d of
           Inl err \<Rightarrow> Inl err
         | Inr device_type \<Rightarrow>
           (case as_object (jor (dget info ''endpoints'') (JObj [])) of
              Inl err \<Rightarrow> Inl err
            | Inr eps \<Rightarrow> map_sum id
                (zigbee_body name ieee device_type (dget d ''model'') (dget d ''vendor''))
                (map_res endpoint_entry eps))))"

definition process_device_info ::
  "'w service \<Rightarrow> zigbee_cfg \<Rightarrow> json \<Rightarrow> 'w zigbee_state \<Rightarrow> unit res \<times> 'w zigbee_state" where
  "process_device_info post cfg v st = (case as_object v of
     Inl err \<Rightarrow> (Inl err, st)
   | Inr info \<Rightarrow>
       (case (text_field info ''friendly_name'', text_field info ''ieee_address'') of
          (Inr name, Inr ieee) \<Rightarrow>
            if name = [] \<or> ieee = [] \<or> name = ''Coordinator'' then (Inr (), st)
            else (case device_body info name ieee of
                    Inl err \<Rightarrow> (Inl err, st)
                  | Inr body \<Rightarrow> (Inr (), register_zigbee_device post cfg name ieee body st))
        | (Inl err, _) \<Rightarrow> (Inl err, st)
        | (_, Inl err) \<Rightarrow> (Inl err, st)))"

text \<open>The list of devices, up to the first entry that raises.\<close>

fun process_inventory ::
  "'w service \<Rightarrow> zigbee_cfg \<Rightarrow> json list \<Rightarrow> 'w zigbee_state \<Rightarrow> unit res \<times> 'w zigbee_state" where
  "process_inventory post cfg [] st = (Inr (), st)"
| "process_inventory post cfg (x # xs) st = (case process_device_info post cfg x st of
     (Inl err, st1) \<Rightarrow> (Inl err, st1) | (Inr _, st1) \<Rightarrow> process_inventory post cfg xs st1)"

definition process_bridge_event ::
  "'w service \<Rightarrow> zigbee_cfg \<Rightarrow> dict \<Rightarrow> 'w zigbee_state \<Rightarrow> unit res \<times> 'w zigbee_state" where
  "process_bridge_event post cfg event st =
     (let event_type = dget_or event ''type'' (JStr []); info = dget_or event ''data'' (JObj []) in
      if event_type \<in> {JStr ''device_joined'', JStr ''device_interview_successful''}
      then process_device_info post cfg info st
      else if event_type \<in> {JStr ''device_leave'', JStr ''device_removed''}
      then (case as_object info of
              Inl err \<Rightarrow> (Inl err, st)
            | Inr d \<Rightarrow> (case text_field d ''friendly_name'' of
                Inl err \<Rightarrow> (Inl err, st)
              | Inr name \<Rightarrow> (Inr (), if name = [] then st else remove_device name st)))
      else (Inr (), st))"

subsection \<open>States of devices\<close>

definition zigbee_metric_map :: "(string \<times> string \<times> string) list" where
  "zigbee_metric_map =
    [(''temperature'', ''temperature_celsius'', ''celsius''), (''humidity'', ''humidity_percent'', ''percent''),
     (''pressure'', ''pressure_hpa'', ''hpa''), (''illuminance'', ''illuminance_lux'', ''lux''),
     (''illuminance_lux'', ''illuminance_lux'', ''lux''), (''co2'', ''co2_ppm'', ''ppm''),
     (''voc'', ''voc_ppb'', ''ppb''), (''pm25'', ''pm25_ugm3'', ''ugm3''), (''occupancy'', ''occupancy'', ''bool''),
     (''contact'', ''door_contact'', ''bool''), (''water_leak'', ''water_leak'', ''bool''),
     (''smoke'', ''smoke'', ''bool''), (''gas'', ''gas'', ''bool''), (''battery'', ''battery_percent'', ''percent''),
     (''voltage'', ''voltage_mv'', ''mv''), (''current'', ''current_ma'', ''ma''), (''power'', ''power_watts'', ''watts''),
     (''energy'', ''energy_kwh'', ''kwh''), (''linkquality'', ''link_quality'', ''lqi'')]"

definition zigbee_sample :: "zigbee_env \<Rightarrow> string \<times> json \<Rightarrow> json option" where
  "zigbee_sample env kv = (case map_of zigbee_metric_map (fst kv) of
     None \<Rightarrow> None
   | Some (metric, unit) \<Rightarrow> (case py_float (ze_float env) (snd kv) of
       Inl err \<Rightarrow> None
     | Inr v \<Rightarrow> Some (JObj [(''metric'', JStr metric), (''value'', JNum v), (''unit'', JStr unit)])))"

definition process_device_state ::
  "'w service \<Rightarrow> zigbee_env \<Rightarrow> string \<Rightarrow> dict \<Rightarrow> 'w zigbee_state \<Rightarrow> 'w zigbee_state" where
  "process_device_state post env name state st = (case get_device_id name st of
     None \<Rightarrow> st
   | Some i \<Rightarrow>
       let xs = List.map_filter (zigbee_sample env) state;
           w1 = (if xs = [] then zb_service st
                 else snd (post (Telemetry_of i) [(''samples'', JArr xs)] (zb_service st)))
       in st\<lparr>zb_service := (if state = [] then w1 else snd (post (Reported_of i) [(''state'', JObj state)] w1))\<rparr>)"

definition zigbee_message ::
  "'w service \<Rightarrow> zigbee_cfg \<Rightarrow> zigbee_env \<Rightarrow> string \<Rightarrow> string \<Rightarrow> 'w zigbee_state \<Rightarrow> unit res \<times> 'w zigbee_state" where
  "zigbee_message post cfg env topic payload st =
     (let base = zc_base_topic cfg; data = ze_loads env payload in
      if topic = base @ ''/bridge/devices''
      then (case data of Some (JArr xs) \<Rightarrow> process_inventory post cfg xs st | _ \<Rightarrow> (Inr (), st))
      else if topic = base @ ''/bridge/event''
      then (case data of Some (JObj d) \<Rightarrow> process_bridge_event post cfg d st | _ \<Rightarrow> (Inr (), st))
      else if \<not> startswith topic (base @ ''/'') then (Inr (), st)
      else
      let name = drop (length base + 1) topic in
      if CHR ''/'' \<in> set name then (Inr (), st)
      else (case data of Some (JObj d) \<Rightarrow> (Inr (), process_device_state post env name d st) | _ \<Rightarrow> (Inr (), st)))"

subsection \<open>Commands\<close>

definition command_map :: "(string \<times> dict) list" where
  "command_map = [(''OnOff.On'', [(''state'', JStr ''ON'')]), (''OnOff.Off'', [(''state'', JStr ''OFF'')]),
     (''OnOff.Toggle'', [(''state'', JStr ''TOGGLE'')])]"

definition device_id_to_friendly_name :: "string \<Rightarrow> 'w zigbee_state \<Rightarrow> string option" where
  "device_id_to_friendly_name i st = map_option fst (find (\<lambda>(name, d). d = i) (name_to_id st))"

text \<open>The payload of the set topic: a known command with the arguments merged in, else the arguments, or
  the command as the state. A list or object as command cannot be looked up; known commands take an
  object of arguments only.\<close>

definition set_payload :: "json \<Rightarrow> json \<Rightarrow> json res" where
  "set_payload command args = (case command of
     JArr a \<Rightarrow> Inl (PyExc ''TypeError'')
   | JObj a \<Rightarrow> Inl (PyExc ''TypeError'')
   | _ \<Rightarrow>
     (case (case command of JStr c \<Rightarrow> map_of command_map c | _ \<Rightarrow> None) of
        None \<Rightarrow> Inr (if truthy args then args else JObj [(''state'', command)])
      | Some z \<Rightarrow>
          if \<not> truthy args then Inr (JObj z)
          else (case args of
            JObj a \<Rightarrow> Inr (JObj (fold (\<lambda>(k, v) x. dset x k v) a z))
          | _ \<Rightarrow> Inl (PyExc ''TypeError''))))"

definition set_topic :: "zigbee_cfg \<Rightarrow> string \<Rightarrow> string" where
  "set_topic cfg name = zc_base_topic cfg @ ''/'' @ name @ ''/set''"

definition zigbee_dispatch ::
  "zigbee_cfg \<Rightarrow> zigbee_env \<Rightarrow> link \<Rightarrow> string \<Rightarrow> json \<Rightarrow> dict \<Rightarrow> 'w zigbee_state \<Rightarrow> bridge_effect list" where
  "zigbee_dispatch cfg env l i eid payload st = (case device_id_to_friendly_name i st of
     None \<Rightarrow> []
   | Some name \<Rightarrow>
       (case set_payload (dget_or payload ''command'' (JStr [])) (dget_or payload ''args'' (JObj [])) of
          Inl err \<Rightarrow> []
        | Inr z \<Rightarrow> publish_and_report l eid (set_topic cfg name) z
            (''Sent to '' @ set_topic cfg name @ '': '' @ ze_show env z)))"

definition zigbee_consume ::
  "zigbee_cfg \<Rightarrow> zigbee_env \<Rightarrow> link \<Rightarrow> json \<Rightarrow> 'w zigbee_state \<Rightarrow> bridge_effect list" where
  "zigbee_consume cfg env l event st = (case event of
     JObj x \<Rightarrow>
       (case dget_or x ''payload'' (JObj []) of
          JObj payload \<Rightarrow>
            (case dget_or payload ''device_id'' (JStr []) of
               JStr i \<Rightarrow> zigbee_dispatch cfg env l i (dget_or payload ''execution_id'' (JStr [])) payload st
             | _ \<Rightarrow> [])
        | _ \<Rightarrow> [])
   | _ \<Rightarrow> [])"

end
