(* ===== verification/ZigbeeProperties.thy ===== *)
theory ZigbeeProperties
  imports ZigbeeBridge Callbacks
begin

text \<open>
  The Zigbee bridge: its registry is a bijection between friendly names and ids, in every state the
  messages of zigbee2mqtt lead to (proved inside the interface of the device service), so that a
  command goes to the device it is meant for; and what the dispatch of a plain command comes to.
\<close>

subsection \<open>The registry\<close>

definition names_ok :: "(string \<times> string) list \<Rightarrow> bool" where
  "names_ok ns \<longleftrightarrow> distinct (map fst ns) \<and> distinct (map snd ns)"

lemma names_ok_simps [simp]: "names_ok []"
  by (simp add: names_ok_def)

lemma names_update:
  assumes "names_ok ns" "map_of ns n = None" "i \<notin> snd ` set ns"
  shows "names_ok (AList.update n i ns)" "set (AList.update n i ns) = insert (n, i) (set ns)"
proof -
  have "AList.update n i ns = ns @ [(n, i)]"
    using assms(2) by (induction ns) (auto split: if_splits)
  then show "names_ok (AList.update n i ns)" "set (AList.update n i ns) = insert (n, i) (set ns)"
    using assms by (auto simp: names_ok_def map_of_eq_None_iff)
qed

lemma names_delete:
  assumes "names_ok ns"
  shows "names_ok (AList.delete n ns)" "set (AList.delete n ns) \<subseteq> set ns"
  using assms by (auto simp: names_ok_def AList.delete_eq distinct_map_filter)

text \<open>Looking up a name and finding the name of an id are inverse to each other.\<close>

lemma names_inverse:
  "names_ok ns \<Longrightarrow> map_option fst (find (\<lambda>(n, d). d = i) ns) = Some n \<longleftrightarrow> map_of ns n = Some i"
proof (induction ns)
  case (Cons p ns)
  obtain m j where p: "p = (m, j)" by (cases p)
  have ok: "names_ok ns" "m \<notin> fst ` set ns" "j \<notin> snd ` set ns" using Cons.prems p by (simp_all add: names_ok_def)
  have "map_of ns k \<noteq> Some j" for k using ok(3) by (metis map_of_SomeD image_eqI snd_conv)
  moreover have "map_of ns m = None" using ok(2) by (simp add: map_of_eq_None_iff)
  ultimately show ?case using Cons.IH [OF ok(1)] p by (cases "j = i") auto
qed simp

context device_registry
begin

definition registry_ok :: "'a zigbee_state \<Rightarrow> bool" where
  "registry_ok st \<longleftrightarrow> names_ok (name_to_id st) \<and> (\<forall>i \<in> snd ` set (name_to_id st). files i (zb_service st))
     \<and> snd ` set (ieee_to_id st) \<subseteq> insert [] (snd ` set (name_to_id st))"

lemma post_ok: "registry_ok st \<Longrightarrow> registry_ok (st\<lparr>zb_service := snd (post t body (zb_service st))\<rparr>)"
  by (auto simp: registry_ok_def intro: files_kept)

lemma set_update_ieee: "snd ` set (AList.update k v xs) \<subseteq> insert v (snd ` set xs)"
  by (induction xs) auto

lemma register_ok:
  assumes "registry_ok st" "dget body ''device_id'' = JNull"
  shows "registry_ok (register_zigbee_device post cfg name ieee body st)"
proof (cases "get_device_id name st")
  case None
  obtain a w where p: "post (Register_agent (zc_bootstrap_token cfg)) body (zb_service st) = (a, w)" by fastforce
  have w: "files i w" if "files i (zb_service st)" for i using files_kept [OF that] p by (metis snd_conv)
  show ?thesis
  proof (cases "answered_id a")
    case (Some i)
    from registered_id [OF p this assms(2)] have i: "\<not> files i (zb_service st)" "files i w" by simp_all
    have ok: "names_ok (name_to_id st)" "\<forall>i \<in> snd ` set (name_to_id st). files i (zb_service st)"
      "snd ` set (ieee_to_id st) \<subseteq> insert [] (snd ` set (name_to_id st))"
      using assms(1) by (simp_all add: registry_ok_def)
    have "map_of (name_to_id st) name = None" using None by (simp add: get_device_id_def)
    moreover have "i \<notin> snd ` set (name_to_id st)" using i(1) ok(2) by blast
    ultimately have u: "names_ok (AList.update name i (name_to_id st))"
      "set (AList.update name i (name_to_id st)) = insert (name, i) (set (name_to_id st))"
      using names_update [OF ok(1)] by blast+
    have "snd ` set (AList.update ieee i (ieee_to_id st)) \<subseteq> insert [] (insert i (snd ` set (name_to_id st)))"
      using set_update_ieee [of ieee i "ieee_to_id st"] ok(3) by blast
    then show ?thesis
      using None Some p u ok(2) w i(2) by (simp add: register_zigbee_device_def registry_ok_def)
  qed (use assms None p w in \<open>auto simp: register_zigbee_device_def registry_ok_def\<close>)
qed (use assms in \<open>simp add: register_zigbee_device_def\<close>)

lemma remove_ok:
  assumes "registry_ok st"
  shows "registry_ok (remove_device name st)"
proof (cases "map_of (name_to_id st) name")
  case (Some i)
  let ?ns = "AList.delete name (name_to_id st)"
  have ok: "names_ok (name_to_id st)" using assms by (simp add: registry_ok_def)
  have "v \<in> snd ` set ?ns" if "v \<in> snd ` set (name_to_id st)" "v \<noteq> i" for v
    using that Some ok
    by (auto simp: AList.delete_eq names_ok_def image_iff) (metis map_of_is_SomeI option.inject)
  moreover have "snd ` set (ieee_to_id st) \<subseteq> insert [] (snd ` set (name_to_id st))"
    using assms by (simp add: registry_ok_def)
  ultimately have ieee: "v \<in> insert [] (snd ` set ?ns)" if "v \<in> snd ` set (ieee_to_id st)" "v \<noteq> i" for v
    using that by blast
  have ns: "names_ok ?ns" "\<forall>j \<in> snd ` set ?ns. files j (zb_service st)"
    using names_delete [OF ok, of name] assms by (auto simp: registry_ok_def)
  show ?thesis
  proof (cases "i = []")
    case True
    then have "snd ` set (ieee_to_id st) \<subseteq> insert [] (snd ` set ?ns)" using ieee by blast
    then show ?thesis using Some True ns by (simp add: remove_device_def registry_ok_def)
  next
    case False
    have "snd ` set (filter (\<lambda>(k, v). v \<noteq> i) (ieee_to_id st)) \<subseteq> insert [] (snd ` set ?ns)"
    proof
      fix v assume "v \<in> snd ` set (filter (\<lambda>(k, v). v \<noteq> i) (ieee_to_id st))"
      then have "v \<in> snd ` set (ieee_to_id st)" "v \<noteq> i" by auto
      then show "v \<in> insert [] (snd ` set ?ns)" by (rule ieee)
    qed
    then show ?thesis using Some False ns by (simp add: remove_device_def registry_ok_def Let_def)
  qed
qed (use assms in \<open>simp add: remove_device_def\<close>)

end

text \<open>A registration of the bridge names no device.\<close>

lemma zigbee_body_no_id: "dget (zigbee_body name ieee ty m v eps) ''device_id'' = JNull"
  by (simp add: zigbee_body_def dget_def)

lemma device_body_no_id: "device_body info name ieee = Inr body \<Longrightarrow> dget body ''device_id'' = JNull"
  unfolding device_body_def by (auto simp: map_sum_Inr zigbee_body_no_id split: sum.splits)

context device_registry
begin

lemma info_ok: "registry_ok st \<Longrightarrow> registry_ok (snd (process_device_info post cfg v st))"
  unfolding process_device_info_def
  by (auto intro: register_ok device_body_no_id split: sum.split prod.split)

lemma inventory_ok: "registry_ok st \<Longrightarrow> registry_ok (snd (process_inventory post cfg xs st))"
proof (induction xs arbitrary: st)
  case (Cons x xs)
  obtain r st1 where p: "process_device_info post cfg x st = (r, st1)" by fastforce
  then have "registry_ok st1" using info_ok [OF Cons.prems, of cfg x] by simp
  then show ?case using p Cons.IH by (cases r) simp_all
qed simp

lemma event_ok: "registry_ok st \<Longrightarrow> registry_ok (snd (process_bridge_event post cfg event st))"
  by (auto simp: process_bridge_event_def Let_def info_ok remove_ok split: sum.split)

lemma state_ok: "registry_ok st \<Longrightarrow> registry_ok (process_device_state post env name state st)"
proof -
  assume ok: "registry_ok st"
  have two: "registry_ok (st\<lparr>zb_service := snd (post t b w)\<rparr>)" if "registry_ok (st\<lparr>zb_service := w\<rparr>)" for t b w
    using post_ok [OF that] by simp
  show ?thesis
    using ok post_ok [OF ok] by (auto simp: process_device_state_def Let_def intro: two split: option.split)
qed

lemma message_ok: "registry_ok st \<Longrightarrow> registry_ok (snd (zigbee_message post cfg env topic payload st))"
  by (auto simp: zigbee_message_def Let_def inventory_ok event_ok state_ok split: option.split json.split)

end

subsection \<open>Reachable states of the bridge\<close>

text \<open>Messages handled with the device service as it is at that time, and whatever its other clients
  do, as long as they delete no device.\<close>

inductive zigbee_reach :: "device_state zigbee_state \<Rightarrow> bool" where
  start: "name_to_id st = [] \<Longrightarrow> ieee_to_id st = [] \<Longrightarrow> zigbee_reach st"
| message: "zigbee_reach st \<Longrightarrow>
    zigbee_reach (snd (zigbee_message (device_post api dcfg denv) cfg env topic payload st))"
| others: "zigbee_reach st \<Longrightarrow> \<forall>i. device_exists i (zb_service st) \<longrightarrow> device_exists i w \<Longrightarrow>
    zigbee_reach (st\<lparr>zb_service := w\<rparr>)"

lemma zigbee_reach_ok: "zigbee_reach st \<Longrightarrow> registry.registry_ok st"
proof (induction rule: zigbee_reach.induct)
  case (message st api dcfg denv cfg env topic payload)
  from registry.message_ok [OF this(2)] show ?case .
qed (auto simp: registry.registry_ok_def)

text \<open>C30. Commands to Zigbee devices. In every reachable state the registry is a bijection: the bridge
  finds the name of an id exactly when the name is registered with that id. So the dispatch of a plain
  command goes to the set topic of the one name its device is registered with, as the state the
  command stands for, whatever the arguments of the execution; the execution ends succeeded unless the
  publication raises; and the commands of all other devices are left alone.\<close>

theorem zigbee_commands:
  assumes "zigbee_reach zst" "ex_device_id e = Some i" "ex_command e = Some c"
    and "\<not> is_function_type (Some (sor (ex_execution_type e) ''command''))"
    and "complete_envelope xenv e = Inr envelope" "\<not> dhas (trace_headers xenv) ''args''"
    and "effs = zigbee_consume zcfg zenv l (JObj (event_value (make_event pcfg t ''dispatched'' (ex_id e) envelope))) zst"
  shows "(device_id_to_friendly_name i zst = Some name \<longleftrightarrow> get_device_id name zst = Some i)
   \<and> ((\<forall>n. get_device_id n zst \<noteq> Some i) \<longrightarrow> effs = [])
   \<and> (get_device_id name zst = Some i \<longrightarrow>
        filter sends_out effs = (if l = Accepts then [Publish (set_topic zcfg name)
          (JObj (case map_of command_map c of Some z \<Rightarrow> z | None \<Rightarrow> [(''state'', JStr c)]))] else [])
      \<and> (agent_callback_secret cfg = []
          \<and> is_ok (require_internal_or_bootstrap (internal cfg) (now env) key token)
          \<and> tbl_get ex_id (ex_id e) (executions st) = Some e \<and> ex_status e = ''dispatched'' \<longrightarrow>
        (\<exists>e'. tbl_get ex_id (ex_id e) (executions (fold (deliver_bridge cfg env key token) effs st)) = Some e'
          \<and> ex_status e' = (if \<exists>err. l = Raises err then ''failed'' else ''succeeded''))))"
proof -
  have "names_ok (name_to_id zst)" using zigbee_reach_ok [OF assms(1)] by (simp add: registry.registry_ok_def)
  from names_inverse [OF this] have inv: "device_id_to_friendly_name i zst = Some n \<longleftrightarrow> get_device_id n zst = Some i" for n
    by (simp add: device_id_to_friendly_name_def get_device_id_def)
  let ?z = "JObj (case map_of command_map c of Some z \<Rightarrow> z | None \<Rightarrow> [(''state'', JStr c)])"
  note get = plain_dispatch [OF assms(5,4,2,6)]
  have effs: "effs = zigbee_dispatch zcfg zenv l i (JStr (ex_id e)) envelope zst"
    using get by (simp add: assms(7) zigbee_consume_def make_event_def Let_def)
  have none: "effs = []" if "\<forall>n. get_device_id n zst \<noteq> Some i"
    using that inv by (cases "device_id_to_friendly_name i zst") (auto simp: effs zigbee_dispatch_def)
  have z: "set_payload (jstr (Some c)) (JObj []) = Inr ?z"
    by (simp add: set_payload_def split: option.split)
  have some: "effs = publish_and_report l (JStr (ex_id e)) (set_topic zcfg name) ?z
      (''Sent to '' @ set_topic zcfg name @ '': '' @ ze_show zenv ?z)" if "get_device_id name zst = Some i"
    using that inv [of name] z by (simp add: effs zigbee_dispatch_def get assms(3))
  have status: "link_status l = (if \<exists>err. l = Raises err then ''failed'' else ''succeeded'')"
    by (cases l) (simp_all add: link_status_def)
  have sent: "filter sends_out effs = (if l = Accepts then [Publish (set_topic zcfg name) ?z] else [])"
    if "get_device_id name zst = Some i" unfolding some [OF that] by (rule publication_report(1))
  have outcome: "\<exists>e'. tbl_get ex_id (ex_id e) (executions (fold (deliver_bridge cfg env key token) effs st)) = Some e'
      \<and> ex_status e' = link_status l"
    if "get_device_id name zst = Some i" "agent_callback_secret cfg = []"
      "is_ok (require_internal_or_bootstrap (internal cfg) (now env) key token)"
      "tbl_get ex_id (ex_id e) (executions st) = Some e" "ex_status e = ''dispatched''"
    unfolding some [OF that(1)] using that(2-5) by (rule publication_report(3))
  show ?thesis using inv none sent outcome unfolding status by blast
qed

text \<open>A lamp that joins, and is switched on.\<close>

definition demo_zigbee_cfg :: zigbee_cfg where
  "demo_zigbee_cfg = \<lparr>zc_base_topic = ''zigbee2mqtt'', zc_bootstrap_token = ''a:s''\<rparr>"

definition demo_zigbee_env :: zigbee_env where
  "demo_zigbee_env = \<lparr>ze_loads = (\<lambda>s. Some (JArr [JObj [(''friendly_name'', JStr ''lamp''),
     (''ieee_address'', JStr ''0x1''), (''definition'', JObj [(''exposes'', JArr [JObj [(''name'', JStr ''state'')]])])]])),
     ze_float = (\<lambda>s. None), ze_show = (\<lambda>v. [])\<rparr>"

definition demo_zigbee_api :: api_env where
  "demo_zigbee_api = \<lparr>ap_uuid = Some, ap_float = (\<lambda>s. None), ap_stamp = (\<lambda>v. None)\<rparr>"

definition demo_zigbee :: "device_state zigbee_state" where
  "demo_zigbee = snd (zigbee_message (device_post demo_zigbee_api demo_device_settings (demo_device_env 1))
     demo_zigbee_cfg demo_zigbee_env ''zigbee2mqtt/bridge/devices'' []
     \<lparr>name_to_id = [], ieee_to_id = [], zb_service = empty_device_state\<rparr>)"

lemma demo_zigbee_names: "name_to_id demo_zigbee = [(''lamp'', ''u0'')]"
  by code_simp

definition demo_zigbee_execution :: execution where
  "demo_zigbee_execution = demo_dispatched_execution\<lparr>ex_device_id := Some ''u0'', ex_command := Some ''OnOff.On''\<rparr>"

lemma zigbee_commands_witness:
  "filter sends_out (zigbee_consume demo_zigbee_cfg demo_zigbee_env Accepts (JObj (event_value
        (make_event demo_publisher 0 ''dispatched'' [] (base_envelope demo_env demo_zigbee_execution)))) demo_zigbee)
     = [Publish ''zigbee2mqtt/lamp/set'' (JObj [(''state'', JStr ''ON'')])]"
proof -
  have reach: "zigbee_reach demo_zigbee"
    unfolding demo_zigbee_def by (rule zigbee_reach.message, rule zigbee_reach.start) simp_all
  have e: "ex_device_id demo_zigbee_execution = Some ''u0''" "ex_command demo_zigbee_execution = Some ''OnOff.On''"
    "ex_id demo_zigbee_execution = []" "ex_execution_type demo_zigbee_execution = ex_execution_type demo_dispatched_execution"
    by (simp_all add: demo_zigbee_execution_def demo_dispatched_row)
  have plain: "\<not> is_function_type (Some (sor (ex_execution_type demo_zigbee_execution) ''command''))"
    using demo_plain(1) by (simp add: e(4))
  then have env: "complete_envelope demo_env demo_zigbee_execution = Inr (base_envelope demo_env demo_zigbee_execution)"
    by (simp add: complete_envelope_def)
  have "get_device_id ''lamp'' demo_zigbee = Some ''u0''" by (simp add: get_device_id_def demo_zigbee_names)
  then show ?thesis
    using zigbee_commands [OF reach e(1,2) plain env demo_plain(3) refl, where zcfg = demo_zigbee_cfg
        and zenv = demo_zigbee_env and l = Accepts and pcfg = demo_publisher and t = 0 and name = "''lamp''"] e(3)
    by (simp add: command_map_def set_topic_def demo_zigbee_cfg_def)
qed

end
