(* ===== verification/MatterBridge.thy ===== *)
theory MatterBridge
  imports DeviceApi Bridges Doubles
begin

text \<open>
  The Matter bridge (\<open>services/matter-bridge\<close>): the commissioning sessions (\<open>core/commission.py\<close>)
  with their endpoints (\<open>main.py\<close>), the changes of attributes (\<open>core/attribute_watcher.py\<close>) and the
  commands (\<open>core/command_handler.py\<close>). The device service is the function \<open>post\<close> on a state of any
  type \<open>'w\<close>; the Matter server, the clock and the texts of exceptions are parameters. A session is a
  dict that the registry and its own task share: it is an object here, named by its node id, which no
  other session has.
\<close>

record session =
  se_commissioning_id :: string
  se_status :: string
  se_node_id :: int
  se_device_id :: "string option"
  se_error :: "string option"
  se_name :: string
  se_description :: "string option"
  se_owner_id :: string
  se_tenant_id :: "string option"
  se_started_at :: int

text \<open>The sessions made, the registry (commissioning id to session), the tasks not yet run, and the
  figures that are exported.\<close>

record 'w matter_state =
  ma_objects :: "session list"
  ma_sessions :: "(string \<times> int) list"
  ma_tasks :: "int list"
  ma_next_node :: int
  ma_reported :: "string set"
  ma_active_nodes :: nat
  ma_service :: 'w

record matter_cfg =
  mt_bootstrap_token :: string
  mt_internal_key :: string
  mt_kafka_enabled :: bool
  mt_topic_prefix :: string

subsection \<open>Commissioning\<close>

definition get_session :: "string \<Rightarrow> 'w matter_state \<Rightarrow> session option" where
  "get_session c st = (case map_of (ma_sessions st) c of
     None \<Rightarrow> None | Some n \<Rightarrow> tbl_get se_node_id n (ma_objects st))"

definition list_sessions :: "'w matter_state \<Rightarrow> session list" where
  "list_sessions st = List.map_filter (\<lambda>(c, n). tbl_get se_node_id n (ma_objects st)) (ma_sessions st)"

record commission_request =
  cr_commissioning_id :: string
  cr_name :: string
  cr_description :: "string option"
  cr_owner_id :: string
  cr_tenant_id :: "string option"

definition new_session :: "int \<Rightarrow> commission_request \<Rightarrow> int \<Rightarrow> session" where
  "new_session t r n = \<lparr>se_commissioning_id = cr_commissioning_id r, se_status = ''pending'', se_node_id = n,
     se_device_id = None, se_error = None, se_name = cr_name r, se_description = cr_description r,
     se_owner_id = cr_owner_id r, se_tenant_id = cr_tenant_id r, se_started_at = t\<rparr>"

definition start_commissioning ::
  "int \<Rightarrow> commission_request \<Rightarrow> 'w matter_state \<Rightarrow> session \<times> 'w matter_state" where
  "start_commissioning t r st =
     (let n = ma_next_node st; s = new_session t r n
      in (s, st\<lparr>ma_next_node := n + 1, ma_objects := tbl_add s (ma_objects st),
                ma_sessions := AList.update (cr_commissioning_id r) n (ma_sessions st),
                ma_tasks := ma_tasks st @ [n]\<rparr>))"

text \<open>The Matter server: none, so that commissioning is simulated; one that raises; or one that
  answers with the endpoints of the node, their clusters and attributes.\<close>

type_synonym node_info = "(json \<times> (string \<times> (string \<times> json) list) list) list"

datatype matter_server = Absent_server | Server_raises string | Node node_info

definition mock_meta :: "session \<Rightarrow> dict" where
  "mock_meta s =
     [(''fabric_id'', JStr ''nexora-dev''), (''node_id'', JInt (se_node_id s)),
      (''endpoints'', JArr
         [JObj [(''id'', JInt 0), (''clusters'', JArr [JStr ''BasicInformation'', JStr ''GeneralCommissioning''])],
          JObj [(''id'', JInt 1), (''clusters'', JArr [JStr ''OnOff'', JStr ''LevelControl'',
             JStr ''TemperatureMeasurement''])]]),
      (''attributes'', JObj
         [(''BasicInformation.NodeLabel'', JStr (se_name s)), (''OnOff.OnOff'', JBool False),
          (''LevelControl.CurrentLevel'', JInt 254), (''TemperatureMeasurement.MeasuredValue'', JInt 2200)])]"

definition node_attributes :: "node_info \<Rightarrow> dict" where
  "node_attributes info = fold (\<lambda>(k, v) d. dset d k v)
     (concat (map (\<lambda>(i, clusters). concat (map (\<lambda>(c, attrs). map (\<lambda>(a, v). (c @ ''.'' @ a, v)) attrs) clusters)) info)) []"

definition extract_protocol_meta :: "int \<Rightarrow> node_info \<Rightarrow> dict" where
  "extract_protocol_meta n info =
     [(''fabric_id'', JStr ''nexora''), (''node_id'', JInt n),
      (''endpoints'', JArr (map (\<lambda>(i, clusters).
         JObj [(''id'', i), (''clusters'', JArr (map (JStr \<circ> fst) clusters))]) info)),
      (''attributes'', JObj (node_attributes info))]"

definition matter_body :: "session \<Rightarrow> dict \<Rightarrow> dict" where
  "matter_body s meta =
     [(''name'', JStr (se_name s)), (''device_type'', JStr ''matter''),
      (''metadata'', JObj [(''commissioned_by'', JStr (se_owner_id s)),
         (''commissioning_id'', JStr (se_commissioning_id s))]),
      (''connection_protocol'', JStr ''matter''), (''protocol_meta'', JObj meta),
      (''owner_id'', JStr (se_owner_id s)), (''tenant_id'', jstr (se_tenant_id s))]"

text \<open>Why an answer is no success: the exception's text.\<close>

definition answer_error :: "(answer \<Rightarrow> string) \<Rightarrow> answer \<Rightarrow> string" where
  "answer_error text a = (case a of NoAnswer e \<Rightarrow> e | _ \<Rightarrow> text a)"

definition finish_session ::
  "('w \<Rightarrow> answer \<times> 'w) \<Rightarrow> (answer \<Rightarrow> string) \<Rightarrow> session \<Rightarrow> 'w matter_state \<Rightarrow> 'w matter_state" where
  "finish_session register text s st = (case register (ma_service st) of
     (a, w) \<Rightarrow>
       let s1 = (case answered_id a of
             None \<Rightarrow> s\<lparr>se_status := ''failed'', se_error := Some (answer_error text a)\<rparr>
           | Some i \<Rightarrow> s\<lparr>se_status := ''commissioned'', se_device_id := Some i\<rparr>)
       in st\<lparr>ma_objects := tbl_put se_node_id s1 (ma_objects st), ma_service := w\<rparr>)"

text \<open>The task of a session.\<close>

definition run_commissioning ::
  "(target \<Rightarrow> dict \<Rightarrow> 'w \<Rightarrow> answer \<times> 'w) \<Rightarrow> matter_cfg \<Rightarrow> (answer \<Rightarrow> string) \<Rightarrow> matter_server \<Rightarrow> int \<Rightarrow>
     'w matter_state \<Rightarrow> 'w matter_state" where
  "run_commissioning post cfg text server n st =
     (case tbl_get se_node_id n (ma_objects st) of
        None \<Rightarrow> st
      | Some s \<Rightarrow>
          let st1 = st\<lparr>ma_tasks := remove1 n (ma_tasks st)\<rparr>;
              register = (\<lambda>meta. post (Register_agent (mt_bootstrap_token cfg)) (matter_body s meta))
          in case server of
               Absent_server \<Rightarrow> finish_session (register (mock_meta s)) text s st1
             | Node info \<Rightarrow> finish_session (register (extract_protocol_meta n info)) text s st1
             | Server_raises e \<Rightarrow> st1\<lparr>ma_objects := tbl_put se_node_id
                 (s\<lparr>se_status := ''failed'', se_error := Some e\<rparr>) (ma_objects st1)\<rparr>)"

subsection \<open>Endpoints\<close>

definition require_internal :: "matter_cfg \<Rightarrow> string option \<Rightarrow> unit res" where
  "require_internal cfg header =
     (if mt_internal_key cfg = [] then Inr ()
      else if header = None \<or> header = Some [] \<or> header \<noteq> Some (mt_internal_key cfg)
      then Inl (http 403 ''Missing or invalid internal authentication'') else Inr ())"

definition commission ::
  "matter_cfg \<Rightarrow> int \<Rightarrow> string option \<Rightarrow> commission_request \<Rightarrow> 'w matter_state \<Rightarrow> session res \<times> 'w matter_state" where
  "commission cfg t header r st = (case require_internal cfg header of
     Inl err \<Rightarrow> (Inl err, st)
   | Inr _ \<Rightarrow> (case start_commissioning t r st of (s, st1) \<Rightarrow> (Inr s, st1)))"

definition commission_status ::
  "matter_cfg \<Rightarrow> string option \<Rightarrow> string \<Rightarrow> 'w matter_state \<Rightarrow> session res \<times> 'w matter_state" where
  "commission_status cfg header c st = (case require_internal cfg header of
     Inl err \<Rightarrow> (Inl err, st)
   | Inr _ \<Rightarrow>
       (case get_session c st of
          None \<Rightarrow> (Inl (http 404 ''Commissioning session not found''), st)
        | Some s \<Rightarrow> (Inr s,
            if c \<in> ma_reported st then st
            else if se_status s = ''commissioned''
            then st\<lparr>ma_active_nodes := Suc (ma_active_nodes st), ma_reported := insert c (ma_reported st)\<rparr>
            else if se_status s = ''failed'' then st\<lparr>ma_reported := insert c (ma_reported st)\<rparr>
            else st)))"

subsection \<open>Attributes\<close>

definition cluster_metric_map :: "(string \<times> string \<times> string \<times> rat) list" where
  "cluster_metric_map =
    [(''TemperatureMeasurement.MeasuredValue'', ''temperature_celsius'', ''celsius'', 1 / 100),
     (''RelativeHumidityMeasurement.MeasuredValue'', ''humidity_percent'', ''percent'', 1 / 100),
     (''PressureMeasurement.MeasuredValue'', ''pressure_hpa'', ''hpa'', 1 / 10),
     (''OnOff.OnOff'', ''power_state'', ''bool'', 1),
     (''LevelControl.CurrentLevel'', ''brightness_level'', ''level'', 1),
     (''ElectricalMeasurement.ActivePower'', ''power_watts'', ''watts'', 1),
     (''IlluminanceMeasurement.MeasuredValue'', ''illuminance_lux'', ''lux'', 1),
     (''OccupancySensing.Occupancy'', ''occupancy'', ''bool'', 1)]"

definition node_id_to_device_id :: "int \<Rightarrow> 'w matter_state \<Rightarrow> string option" where
  "node_id_to_device_id n st =
     (case find (\<lambda>s. se_node_id s = n \<and> se_status s = ''commissioned'') (list_sessions st) of
        None \<Rightarrow> None | Some s \<Rightarrow> se_device_id s)"

record attribute_event =
  at_node_id :: int
  at_cluster :: string
  at_attribute :: string
  at_value :: json

text \<open>The metric of a change and its value, scaled in floating point.\<close>

definition attribute_metric :: "(string \<Rightarrow> rat option) \<Rightarrow> attribute_event \<Rightarrow> (string \<times> rat \<times> string) option" where
  "attribute_metric flt ev = (case map_of cluster_metric_map (at_cluster ev @ ''.'' @ at_attribute ev) of
     None \<Rightarrow> None
   | Some (metric, unit, multiplier) \<Rightarrow> (case py_float flt (at_value ev) of
       Inl err \<Rightarrow> None
     | Inr v \<Rightarrow> Some (metric, double_mul (double_round v) (double_round multiplier), unit)))"

definition telemetry_message :: "matter_cfg \<Rightarrow> int \<Rightarrow> string \<Rightarrow> string \<times> rat \<times> string \<Rightarrow> string \<times> dict" where
  "telemetry_message cfg t d m = (case m of (metric, v, unit) \<Rightarrow>
     (mt_topic_prefix cfg @ ''.device.telemetry.ingested'',
      [(''event_type'', JStr ''device.telemetry.ingested''), (''service'', JStr ''matter-bridge''),
       (''resource'', JStr ''device''), (''action'', JStr ''telemetry.ingested''), (''resource_id'', JStr d),
       (''payload'', JObj [(''device_id'', JStr d), (''sample_count'', JInt 1), (''metrics'', JObj [(metric, JInt 1)]),
          (''samples'', JArr [JObj [(''metric'', JStr metric), (''value'', JNum v), (''unit'', JStr unit), (''ts'', JIso t)]]),
          (''ingested_at'', JIso t)]),
       (''occurred_at'', JIso t)]))"

text \<open>What a change comes to: the shadow of the device, and for a metric a message on Kafka.\<close>

definition handle_attribute_change ::
  "(target \<Rightarrow> dict \<Rightarrow> 'w \<Rightarrow> answer \<times> 'w) \<Rightarrow> matter_cfg \<Rightarrow> (string \<Rightarrow> rat option) \<Rightarrow> bool \<Rightarrow> int \<Rightarrow>
     attribute_event \<Rightarrow> 'w matter_state \<Rightarrow> (string \<times> dict) list \<times> 'w matter_state" where
  "handle_attribute_change post cfg flt producer t ev st =
     (case node_id_to_device_id (at_node_id ev) st of
        None \<Rightarrow> ([], st)
      | Some d \<Rightarrow>
          if d = [] then ([], st)
          else
          (case attribute_metric flt ev of
             None \<Rightarrow> []
           | Some m \<Rightarrow> if producer \<and> mt_kafka_enabled cfg then [telemetry_message cfg t d m] else [],
           st\<lparr>ma_service := snd (post (Reported_of d)
             [(''state'', JObj [(at_cluster ev, JObj [(at_attribute ev, at_value ev)])])] (ma_service st))\<rparr>))"

text \<open>The wait before the watcher starts again.\<close>

definition next_watch_backoff :: "nat \<Rightarrow> nat" where
  "next_watch_backoff b = min (b * 2) 60"

subsection \<open>Commands\<close>

definition node_id_for_device :: "json \<Rightarrow> 'w matter_state \<Rightarrow> int option" where
  "node_id_for_device d st = map_option se_node_id
     (find (\<lambda>s. jstr (se_device_id s) = d \<and> se_status s = ''commissioned'') (list_sessions st))"

definition level_args :: "json \<Rightarrow> dict res" where
  "level_args args = (case args of
     JObj a \<Rightarrow>
       (case py_int (dget_or a ''level'' (JInt 128)) of
          Inl err \<Rightarrow> Inl err
        | Inr level \<Rightarrow> map_sum id (\<lambda>tt. [(''level'', JInt level), (''transition_time'', JInt tt)])
            (py_int (dget_or a ''transition_time'' (JInt 0))))
   | _ \<Rightarrow> Inl (PyExc ''AttributeError''))"

text \<open>\<open>COMMAND_MAP\<close>: the cluster, its command and the arguments.\<close>

definition matter_command :: "string \<Rightarrow> json \<Rightarrow> (string \<times> string \<times> dict res) option" where
  "matter_command c args =
     (if c = ''OnOff.On'' then Some (''OnOff'', ''on'', Inr [])
      else if c = ''OnOff.Off'' then Some (''OnOff'', ''off'', Inr [])
      else if c = ''OnOff.Toggle'' then Some (''OnOff'', ''toggle'', Inr [])
      else if c = ''LevelControl.MoveToLevel''
      then Some (''LevelControl'', ''move_to_level'', level_args args)
      else None)"

text \<open>The client of the Matter server, and whether sending a command raises.\<close>

datatype matter_client = No_client | Client "string option"

text \<open>A call of a method of the standard logger, at a level it logs at, with keyword arguments: those
  it does not know raise TypeError.\<close>

definition log_call :: "string list \<Rightarrow> string option" where
  "log_call keywords =
     (case filter (\<lambda>k. k \<notin> {''exc_info'', ''stack_info'', ''stacklevel'', ''extra''}) keywords of
        [] \<Rightarrow> None
      | k # ks \<Rightarrow> Some (''Logger._log() got an unexpected keyword argument '' @ [CHR 0x27] @ k @ [CHR 0x27]))"

text \<open>The body of the \<open>try\<close> in \<open>_dispatch_command\<close>: what is sent, and the exception it ends with.\<close>

definition run_matter_command ::
  "(error \<Rightarrow> string) \<Rightarrow> matter_client \<Rightarrow> int \<Rightarrow> json \<Rightarrow> json \<Rightarrow> bridge_effect list \<times> string option" where
  "run_matter_command text client n command args =
     (let mock = ([], log_call [''command'', ''execution_id'']) in
      case client of
        No_client \<Rightarrow> mock
      | Client failure \<Rightarrow>
        (case command of
           JArr a \<Rightarrow> ([], Some (text (PyExc ''TypeError'')))
         | JObj a \<Rightarrow> ([], Some (text (PyExc ''TypeError'')))
         | JStr c \<Rightarrow>
           (case matter_command c args of
              None \<Rightarrow> mock
            | Some (cluster, name, Inl err) \<Rightarrow> ([], Some (text err))
            | Some (cluster, name, Inr kwargs) \<Rightarrow>
                ([Invoke n cluster name kwargs],
                 case failure of Some e \<Rightarrow> Some e
                 | None \<Rightarrow> log_call [''execution_id'', ''node_id'', ''command'']))
         | _ \<Rightarrow> mock))"

definition dispatch_command ::
  "(error \<Rightarrow> string) \<Rightarrow> (json \<Rightarrow> string) \<Rightarrow> matter_client \<Rightarrow> int \<Rightarrow> json \<Rightarrow> int \<Rightarrow> json \<Rightarrow> dict \<Rightarrow>
     bridge_effect list" where
  "dispatch_command text show_value client elapsed_ms eid n command payload =
     Callback eid (bridge_callback ''running'' None None None) #
     (case run_matter_command text client n command (dget_or payload ''args'' (JObj [])) of
        (sent, None) \<Rightarrow> sent @ [Callback eid (bridge_callback ''succeeded'' (Some 0)
            (Some (''Matter command '' @ [CHR 0x27] @ py_str show_value command @ [CHR 0x27] @ '' executed in ''
               @ show_int elapsed_ms @ ''ms'')) None)]
      | (sent, Some e) \<Rightarrow> sent @ [Callback eid (bridge_callback ''failed'' (Some 1) None (Some e))])"

definition matter_consume ::
  "(error \<Rightarrow> string) \<Rightarrow> (json \<Rightarrow> string) \<Rightarrow> matter_client \<Rightarrow> int \<Rightarrow> json \<Rightarrow> 'w matter_state \<Rightarrow> bridge_effect list" where
  "matter_consume text show_value client elapsed_ms event st = (case event of
     JObj x \<Rightarrow>
       (case dget_or x ''payload'' (JObj []) of
          JObj payload \<Rightarrow>
            (case node_id_for_device (dget_or payload ''device_id'' (JStr [])) st of
               None \<Rightarrow> []
             | Some n \<Rightarrow> dispatch_command text show_value client elapsed_ms (dget_or payload ''execution_id'' (JStr [])) n
                 (dget_or payload ''command'' (JStr [])) payload)
        | _ \<Rightarrow> [])
   | _ \<Rightarrow> [])"

end
