(* ===== verification/MatterProperties.thy ===== *)
theory MatterProperties
  imports MatterBridge Callbacks
begin

text \<open>
  The Matter bridge: the life of a commissioning session under the requests, the tasks and the changes
  of attributes, and what the dispatch of a command to a commissioned device comes to.
\<close>

interpretation session_rows: keyed_store "tbl_get se_node_id" "tbl_put se_node_id" tbl_add "tbl_del se_node_id" se_node_id
  by (rule keyed_table)

subsection \<open>Steps\<close>

text \<open>What can happen: a request, the task of a session, a change of an attribute; and the other
  clients of the device service, who delete no device.\<close>

inductive matter_step :: "device_state matter_state \<Rightarrow> device_state matter_state \<Rightarrow> bool" where
  commission: "matter_step st (snd (commission cfg t header r st))"
| status: "matter_step st (snd (commission_status cfg header c st))"
| task: "n \<in> set (ma_tasks st) \<Longrightarrow>
    matter_step st (run_commissioning (device_post api dcfg denv) cfg text server n st)"
| attribute: "matter_step st (snd (handle_attribute_change (device_post api dcfg denv) cfg flt producer t ev st))"
| others: "\<forall>i. device_exists i (ma_service st) \<longrightarrow> device_exists i w \<Longrightarrow> matter_step st (st\<lparr>ma_service := w\<rparr>)"

inductive matter_reach :: "device_state matter_state \<Rightarrow> bool" where
  start: "ma_objects st = [] \<Longrightarrow> ma_sessions st = [] \<Longrightarrow> ma_tasks st = [] \<Longrightarrow> matter_reach st"
| step: "matter_reach st \<Longrightarrow> matter_step st st' \<Longrightarrow> matter_reach st'"

text \<open>A session as the invariant has it: pending with a task to run, or commissioned with a device of
  the service, or failed with an error.\<close>

definition session_ok :: "device_state matter_state \<Rightarrow> session \<Rightarrow> bool" where
  "session_ok st s \<longleftrightarrow>
     (if se_node_id s \<in> set (ma_tasks st) then se_status s = ''pending'' \<and> se_device_id s = None \<and> se_error s = None
      else (se_status s = ''commissioned'' \<and> se_error s = None
            \<and> (\<exists>i. se_device_id s = Some i \<and> device_exists i (ma_service st)))
         \<or> (se_status s = ''failed'' \<and> se_device_id s = None \<and> se_error s \<noteq> None))"

abbreviation the_session :: "int \<Rightarrow> 'w matter_state \<Rightarrow> session option" where
  "the_session n st \<equiv> tbl_get se_node_id n (ma_objects st)"

definition devices_once :: "session list \<Rightarrow> bool" where
  "devices_once xs \<longleftrightarrow> (\<forall>n m s t i. tbl_get se_node_id n xs = Some s \<and> tbl_get se_node_id m xs = Some t
     \<and> se_device_id s = Some i \<and> se_device_id t = Some i \<longrightarrow> n = m)"

definition matter_ok :: "device_state matter_state \<Rightarrow> bool" where
  "matter_ok st \<longleftrightarrow>
     (\<forall>n s. the_session n st = Some s \<longrightarrow> n < ma_next_node st \<and> session_ok st s)
   \<and> distinct (ma_tasks st) \<and> (\<forall>n \<in> set (ma_tasks st). the_session n st \<noteq> None)
   \<and> devices_once (ma_objects st)
   \<and> distinct (map snd (ma_sessions st)) \<and> (\<forall>n \<in> snd ` set (ma_sessions st). the_session n st \<noteq> None)"

lemma matter_okD:
  assumes "matter_ok st"
  shows "the_session n st = Some s \<Longrightarrow> n < ma_next_node st" "the_session n st = Some s \<Longrightarrow> session_ok st s"
    "distinct (ma_tasks st)" "n \<in> set (ma_tasks st) \<Longrightarrow> the_session n st \<noteq> None" "devices_once (ma_objects st)"
    "distinct (map snd (ma_sessions st))" "n \<in> snd ` set (ma_sessions st) \<Longrightarrow> the_session n st \<noteq> None"
  using assms unfolding matter_ok_def by (simp_all only: simp_thms)

lemma matter_okI:
  assumes "\<And>n s. the_session n st = Some s \<Longrightarrow> n < ma_next_node st \<and> session_ok st s"
    "distinct (ma_tasks st)" "\<And>n. n \<in> set (ma_tasks st) \<Longrightarrow> the_session n st \<noteq> None" "devices_once (ma_objects st)"
    "distinct (map snd (ma_sessions st))" "\<And>n. n \<in> snd ` set (ma_sessions st) \<Longrightarrow> the_session n st \<noteq> None"
  shows "matter_ok st"
  unfolding matter_ok_def using assms by (metis (no_types, lifting))

lemma devices_onceD:
  "devices_once xs \<Longrightarrow> tbl_get se_node_id n xs = Some s \<Longrightarrow> tbl_get se_node_id m xs = Some t \<Longrightarrow>
     se_device_id s = Some i \<Longrightarrow> se_device_id t = Some i \<Longrightarrow> n = m"
  unfolding devices_once_def by blast

text \<open>One session is added or replaced: its device, if it has one, is of no other session.\<close>

lemma devices_once_change:
  assumes "devices_once xs" "\<And>m. tbl_get se_node_id m ys = (if m = n then Some s else tbl_get se_node_id m xs)"
    and "\<And>m t i. se_device_id s = Some i \<Longrightarrow> tbl_get se_node_id m xs = Some t \<Longrightarrow> se_device_id t \<noteq> Some i"
  shows "devices_once ys"
  unfolding devices_once_def
proof (intro allI impI, elim conjE)
  fix k m t u i
  assume "tbl_get se_node_id k ys = Some t" "tbl_get se_node_id m ys = Some u"
    "se_device_id t = Some i" "se_device_id u = Some i"
  then show "k = m"
    using assms(2) [of k] assms(2) [of m] assms(3) devices_onceD [OF assms(1)]
    by (cases "k = n"; cases "m = n") auto
qed

lemma session_ok_service:
  assumes "session_ok st s" "\<forall>i. device_exists i (ma_service st) \<longrightarrow> device_exists i (ma_service st')"
    "se_node_id s \<in> set (ma_tasks st') \<longleftrightarrow> se_node_id s \<in> set (ma_tasks st)"
  shows "session_ok st' s"
  using assms by (auto simp: session_ok_def split: if_splits)

lemma matter_ok_service:
  assumes "matter_ok st" "\<forall>i. device_exists i (ma_service st) \<longrightarrow> device_exists i w"
  shows "matter_ok (st\<lparr>ma_service := w\<rparr>)"
proof -
  have "session_ok (st\<lparr>ma_service := w\<rparr>) s" if "session_ok st s" for s
    using session_ok_service [OF that] assms(2) by simp
  then show ?thesis using assms(1) unfolding matter_ok_def by simp
qed

lemma update_fresh_value:
  assumes "distinct (map snd xs)" "v \<notin> snd ` set xs"
  shows "distinct (map snd (AList.update k v xs))" "snd ` set (AList.update k v xs) \<subseteq> insert v (snd ` set xs)"
  using assms by (induction xs) auto

lemma commission_ok:
  assumes ok: "matter_ok st"
  shows "matter_ok (snd (start_commissioning t r st))"
proof -
  let ?n = "ma_next_node st" and ?s = "new_session t r (ma_next_node st)"
  let ?st = "snd (start_commissioning t r st)"
  have fresh: "the_session ?n st = None" using matter_okD(1) [OF ok, of ?n] by (cases "the_session ?n st") auto
  have get: "the_session m ?st = (if m = ?n then Some ?s else the_session m st)" for m
    using fresh by (auto simp: start_commissioning_def Let_def tbl_get_add new_session_def split: option.splits)
  have tasks: "ma_tasks ?st = ma_tasks st @ [?n]" "ma_service ?st = ma_service st" "ma_next_node ?st = ?n + 1"
    "ma_sessions ?st = AList.update (cr_commissioning_id r) ?n (ma_sessions st)"
    by (simp_all add: start_commissioning_def Let_def)
  have notask: "?n \<notin> set (ma_tasks st)" using matter_okD(4) [OF ok] fresh by blast
  have s: "se_node_id ?s = ?n" "se_device_id ?s = None" by (simp_all add: new_session_def)
  have "session_ok ?st ?s" using tasks by (simp add: session_ok_def) (simp add: new_session_def)
  moreover have "session_ok ?st x \<and> m < ma_next_node ?st" if "the_session m st = Some x" for m x
  proof -
    have "session_ok st x" "m < ?n" using matter_okD(1,2) [OF ok that] by blast+
    moreover have "se_node_id x = m" using tbl_get_key [OF that] .
    ultimately show ?thesis using session_ok_service [of st x ?st] tasks by simp
  qed
  ultimately have rows: "m < ma_next_node ?st \<and> session_ok ?st x" if "the_session m ?st = Some x" for m x
    using that tasks(3) unfolding get by (auto split: if_splits)
  have "?n \<notin> snd ` set (ma_sessions st)" using matter_okD(7) [OF ok] fresh by blast
  note ids = update_fresh_value [OF matter_okD(6) [OF ok] this, of "cr_commissioning_id r"]
  show ?thesis
  proof (rule matter_okI)
    show "devices_once (ma_objects ?st)"
      using devices_once_change [OF matter_okD(5) [OF ok] get] s(2) by simp
    show "the_session m ?st \<noteq> None" if "m \<in> snd ` set (ma_sessions ?st)" for m
      using that ids(2) matter_okD(7) [OF ok, of m] unfolding get tasks by auto
    show "the_session m ?st \<noteq> None" if "m \<in> set (ma_tasks ?st)" for m
      using that matter_okD(4) [OF ok, of m] unfolding get tasks by auto
    show "distinct (ma_tasks ?st)" using matter_okD(3) [OF ok] notask tasks by simp
    show "distinct (map snd (ma_sessions ?st))" using ids(1) tasks by simp
  qed (rule rows)
qed

text \<open>The end of a task: the session gets its outcome and leaves the tasks.\<close>

lemma finish_ok:
  assumes ok: "matter_ok st" and n: "n \<in> set (ma_tasks st)" "the_session n st = Some s"
    and kept: "\<forall>i. device_exists i (ma_service st) \<longrightarrow> device_exists i w"
    and s1: "se_node_id s1 = n" "(se_status s1 = ''commissioned'' \<and> se_error s1 = None
        \<and> (\<exists>i. se_device_id s1 = Some i \<and> \<not> device_exists i (ma_service st) \<and> device_exists i w))
      \<or> (se_status s1 = ''failed'' \<and> se_device_id s1 = None \<and> se_error s1 \<noteq> None)"
  shows "matter_ok (st\<lparr>ma_tasks := remove1 n (ma_tasks st), ma_objects := tbl_put se_node_id s1 (ma_objects st),
    ma_service := w\<rparr>)"
proof -
  let ?st = "st\<lparr>ma_tasks := remove1 n (ma_tasks st), ma_objects := tbl_put se_node_id s1 (ma_objects st),
    ma_service := w\<rparr>"
  have get: "the_session m ?st = (if m = n then Some s1 else the_session m st)" for m
    using n(2) s1(1) by (auto simp: tbl_get_put)
  have tasks: "set (ma_tasks ?st) = set (ma_tasks st) - {n}"
    using matter_okD(3) [OF ok] by (simp add: set_remove1_eq)
  have "session_ok ?st s1" using s1 tasks by (auto simp: session_ok_def)
  moreover have "session_ok ?st x" if "the_session m st = Some x" "m \<noteq> n" for m x
  proof -
    have "session_ok st x" using matter_okD(2) [OF ok that(1)] .
    moreover have "se_node_id x = m" using tbl_get_key [OF that(1)] .
    ultimately show ?thesis using session_ok_service [of st x ?st] that(2) kept tasks by auto
  qed
  ultimately have rows: "m < ma_next_node ?st \<and> session_ok ?st x" if "the_session m ?st = Some x" for m x
    using that matter_okD(1) [OF ok] n(2) unfolding get by (auto split: if_splits)
  have other: "device_exists i (ma_service st)" if "the_session m st = Some x" "se_device_id x = Some i" for m x i
    using matter_okD(2) [OF ok that(1)] that(2) by (auto simp: session_ok_def split: if_splits)
  show ?thesis
  proof (rule matter_okI)
    show "devices_once (ma_objects ?st)"
    proof (rule devices_once_change [OF matter_okD(5) [OF ok] get])
      show "se_device_id t \<noteq> Some i" if "se_device_id s1 = Some i" "the_session m st = Some t" for m t i
        using that s1(2) other [OF that(2)] by auto
    qed
    show "the_session m ?st \<noteq> None" if "m \<in> set (ma_tasks ?st)" for m
      using that tasks matter_okD(4) [OF ok, of m] unfolding get by auto
    show "the_session m ?st \<noteq> None" if "m \<in> snd ` set (ma_sessions ?st)" for m
      using that matter_okD(7) [OF ok, of m] unfolding get by auto
    show "distinct (ma_tasks ?st)" "distinct (map snd (ma_sessions ?st))"
      using matter_okD(3,6) [OF ok] by simp_all
  qed (rule rows)
qed

lemma matter_body_no_id: "dget (matter_body s m) ''device_id'' = JNull"
  by (simp add: matter_body_def dget_def)

lemma finish_session_ok:
  assumes ok: "matter_ok st" and n: "n \<in> set (ma_tasks st)" "the_session n st = Some s"
  shows "matter_ok (finish_session (device_post api dcfg denv (Register_agent token) (matter_body s m)) text s
    (st\<lparr>ma_tasks := remove1 n (ma_tasks st)\<rparr>))"
proof -
  obtain a w where p: "device_post api dcfg denv (Register_agent token) (matter_body s m) (ma_service st) = (a, w)"
    by fastforce
  have kept: "\<forall>i. device_exists i (ma_service st) \<longrightarrow> device_exists i w"
    using registry.files_kept [of _ "ma_service st" api dcfg denv] p by (metis snd_conv)
  define s1 where "s1 = (case answered_id a of
      None \<Rightarrow> s\<lparr>se_status := ''failed'', se_error := Some (answer_error text a)\<rparr>
    | Some i \<Rightarrow> s\<lparr>se_status := ''commissioned'', se_device_id := Some i\<rparr>)"
  have s: "se_node_id s = n" "se_device_id s = None" "se_error s = None"
    using matter_okD(2) [OF ok n(2)] n(1) tbl_get_key [OF n(2)] by (auto simp: session_ok_def split: if_splits)
  have "(se_status s1 = ''commissioned'' \<and> se_error s1 = None
        \<and> (\<exists>i. se_device_id s1 = Some i \<and> \<not> device_exists i (ma_service st) \<and> device_exists i w))
      \<or> (se_status s1 = ''failed'' \<and> se_device_id s1 = None \<and> se_error s1 \<noteq> None)"
    using registry.registered_id [OF p _ matter_body_no_id] s(2,3)
    by (auto simp: s1_def split: option.splits)
  moreover have "se_node_id s1 = n" using s(1) by (simp add: s1_def split: option.split)
  ultimately have "matter_ok (st\<lparr>ma_tasks := remove1 n (ma_tasks st), ma_objects := tbl_put se_node_id s1 (ma_objects st),
      ma_service := w\<rparr>)"
    using finish_ok [OF ok n kept] by blast
  then show ?thesis using p by (simp add: finish_session_def s1_def Let_def)
qed

lemma task_ok:
  assumes ok: "matter_ok st" and n: "n \<in> set (ma_tasks st)"
  shows "matter_ok (run_commissioning (device_post api dcfg denv) cfg text server n st)"
proof -
  obtain s where s: "the_session n st = Some s" using matter_okD(4) [OF ok n] by blast
  show ?thesis
  proof (cases server)
    case (Server_raises e)
    have "se_node_id s = n" "se_device_id s = None"
      using matter_okD(2) [OF ok s] n tbl_get_key [OF s] by (auto simp: session_ok_def split: if_splits)
    then have "matter_ok (st\<lparr>ma_tasks := remove1 n (ma_tasks st), ma_objects := tbl_put se_node_id
        (s\<lparr>se_status := ''failed'', se_error := Some e\<rparr>) (ma_objects st), ma_service := ma_service st\<rparr>)"
      by (intro finish_ok [OF ok n s]) simp_all
    then show ?thesis using s Server_raises by (simp add: run_commissioning_def)
  qed (use finish_session_ok [OF ok n s] s in \<open>simp_all add: run_commissioning_def\<close>)
qed

lemma matter_ok_figures:
  assumes "ma_objects st' = ma_objects st" "ma_sessions st' = ma_sessions st" "ma_tasks st' = ma_tasks st"
    "ma_next_node st' = ma_next_node st" "ma_service st' = ma_service st" "matter_ok st"
  shows "matter_ok st'"
proof -
  have "session_ok st' s = session_ok st s" for s using assms by (simp add: session_ok_def)
  then show ?thesis using assms unfolding matter_ok_def by simp
qed

lemma status_frame:
  "ma_objects (snd (commission_status cfg header c st)) = ma_objects st"
  "ma_sessions (snd (commission_status cfg header c st)) = ma_sessions st"
  "ma_tasks (snd (commission_status cfg header c st)) = ma_tasks st"
  "ma_next_node (snd (commission_status cfg header c st)) = ma_next_node st"
  "ma_service (snd (commission_status cfg header c st)) = ma_service st"
  by (simp_all add: commission_status_def split: sum.split option.split)

lemma matter_step_ok: "matter_step st st' \<Longrightarrow> matter_ok st \<Longrightarrow> matter_ok st'"
proof (induction rule: matter_step.induct)
  case (commission st cfg t header r)
  then show ?case using commission_ok [OF commission, of t r]
    by (auto simp: commission_def split: sum.split prod.split)
next
  case (status st cfg header c)
  from status_frame this show ?case by (rule matter_ok_figures)
next
  case (task n st api dcfg denv cfg shown server)
  then show ?case by (simp add: task_ok)
next
  case (attribute st api dcfg denv cfg flt producer t ev)
  have "matter_ok (st\<lparr>ma_service := snd (device_post api dcfg denv tg b (ma_service st))\<rparr>)" for tg b
    using matter_ok_service [OF attribute] registry.files_kept by blast
  then show ?case using attribute by (simp add: handle_attribute_change_def split: option.split)
qed (simp add: matter_ok_service)

lemma matter_reach_ok: "matter_reach st \<Longrightarrow> matter_ok st"
proof (induction rule: matter_reach.induct)
  case (start st)
  then show ?case by (simp add: matter_ok_def devices_once_def)
qed (simp add: matter_step_ok)

subsection \<open>Sessions and devices\<close>

lemma listed_session:
  assumes "matter_ok st" "s \<in> set (list_sessions st)"
  shows "the_session (se_node_id s) st = Some s"
proof -
  obtain n where "the_session n st = Some s"
    using assms(2) by (auto simp: list_sessions_def List.map_filter_def split: if_splits prod.splits)
  then show ?thesis using tbl_get_key [of se_node_id n "ma_objects st" s] by simp
qed

lemma same_session:
  assumes "matter_ok st" "s \<in> set (list_sessions st)" "t \<in> set (list_sessions st)" "se_node_id t = se_node_id s"
  shows "t = s"
proof -
  have "the_session (se_node_id s) st = Some t" using listed_session [OF assms(1,3)] unfolding assms(4) .
  then show ?thesis using listed_session [OF assms(1,2)] by (metis option.inject)
qed

lemma found_by_device:
  assumes ok: "matter_ok st" and s: "s \<in> set (list_sessions st)" "se_device_id s = Some i"
    "se_status s = ''commissioned''"
  shows "find (\<lambda>s. jstr (se_device_id s) = JStr i \<and> se_status s = ''commissioned'') (list_sessions st) = Some s"
proof (rule find_unique [OF s(1)])
  show "jstr (se_device_id s) = JStr i \<and> se_status s = ''commissioned''" using s by simp
  fix t assume t: "t \<in> set (list_sessions st)" "jstr (se_device_id t) = JStr i \<and> se_status t = ''commissioned''"
  have i: "se_device_id t = Some i" using t(2) by (cases "se_device_id t") simp_all
  have "se_node_id t = se_node_id s"
    by (rule devices_onceD [OF matter_okD(5) [OF ok] listed_session [OF ok t(1)] listed_session [OF ok s(1)] i s(2)])
  then show "t = s" by (rule same_session [OF ok s(1) t(1)])
qed

lemma found_by_node:
  assumes ok: "matter_ok st" and s: "s \<in> set (list_sessions st)" "se_node_id s = n" "se_status s = ''commissioned''"
  shows "find (\<lambda>s. se_node_id s = n \<and> se_status s = ''commissioned'') (list_sessions st) = Some s"
proof (rule find_unique [OF s(1)])
  show "t = s" if "t \<in> set (list_sessions st)" "se_node_id t = n \<and> se_status t = ''commissioned''" for t
    using same_session [OF ok s(1) that(1)] that(2) s(2) by simp
qed (use s in simp)

text \<open>The two lookups read the same commissioned session.\<close>

lemma commissioned_lookup:
  assumes ok: "matter_ok st"
  shows "node_id_for_device (JStr i) st = Some n \<longleftrightarrow> node_id_to_device_id n st = Some i"
proof
  assume "node_id_for_device (JStr i) st = Some n"
  then obtain s where f: "find (\<lambda>s. jstr (se_device_id s) = JStr i \<and> se_status s = ''commissioned'') (list_sessions st) = Some s"
    and n: "se_node_id s = n" unfolding node_id_for_device_def by blast
  note mem = find_Some_mem [OF f]
  have i: "se_device_id s = Some i" using mem by (cases "se_device_id s") simp_all
  show "node_id_to_device_id n st = Some i"
    using found_by_node [OF ok conjunct1 [OF mem] n] mem i by (simp add: node_id_to_device_id_def)
next
  assume "node_id_to_device_id n st = Some i"
  then obtain s where f: "find (\<lambda>s. se_node_id s = n \<and> se_status s = ''commissioned'') (list_sessions st) = Some s"
    and i: "se_device_id s = Some i"
    unfolding node_id_to_device_id_def by (auto split: option.splits)
  note mem = find_Some_mem [OF f]
  show "node_id_for_device (JStr i) st = Some n"
    using found_by_device [OF ok conjunct1 [OF mem] i] mem by (simp add: node_id_for_device_def)
qed

lemma ended_stays:
  assumes "matter_step st st'" "the_session n st = Some s" "n \<notin> set (ma_tasks st)"
  shows "the_session n st' = Some s"
  using assms
proof (induction rule: matter_step.induct)
  case (commission st cfg t header r)
  then show ?case
    by (auto simp: commission_def start_commissioning_def Let_def tbl_get_add split: sum.split)
next
  case (status st cfg header c)
  then show ?case by (simp add: status_frame)
next
  case (task m st api dcfg denv cfg shown server)
  then have "m \<noteq> n" by auto
  then have put: "tbl_get se_node_id n (tbl_put se_node_id x (ma_objects st)) = Some s" if "se_node_id x = m" for x
    using task that by (simp add: tbl_get_put)
  have "se_node_id x = m" if "the_session m st = Some x" for x using tbl_get_key [OF that] .
  then show ?case using task(2) put
    by (auto simp: run_commissioning_def finish_session_def Let_def
        split: option.split matter_server.split prod.split)
qed (auto simp: handle_attribute_change_def split: option.split)


text \<open>A light that is commissioned without a Matter server.\<close>

definition demo_matter_cfg :: matter_cfg where
  "demo_matter_cfg = \<lparr>mt_bootstrap_token = ''a:s'', mt_internal_key = [], mt_kafka_enabled = False,
     mt_topic_prefix = ''nexora''\<rparr>"

definition demo_commission :: commission_request where
  "demo_commission = \<lparr>cr_commissioning_id = ''c1'', cr_name = ''light'', cr_description = None,
     cr_owner_id = ''ann'', cr_tenant_id = None\<rparr>"

definition demo_matter_start :: "device_state matter_state" where
  "demo_matter_start = \<lparr>ma_objects = [], ma_sessions = [], ma_tasks = [], ma_next_node = 1, ma_reported = {},
     ma_active_nodes = 0, ma_service = empty_device_state\<rparr>"

abbreviation demo_matter_asked :: "device_state matter_state \<Rightarrow> device_state matter_state" where
  "demo_matter_asked st \<equiv> snd (commission demo_matter_cfg 0 None demo_commission st)"

definition demo_matter_api :: api_env where
  "demo_matter_api = \<lparr>ap_uuid = Some, ap_float = (\<lambda>s. None), ap_stamp = (\<lambda>v. None)\<rparr>"

definition demo_matter :: "device_state matter_state" where
  "demo_matter = run_commissioning (device_post demo_matter_api demo_device_settings (demo_device_env 1))
     demo_matter_cfg (\<lambda>a. []) Absent_server 1 (demo_matter_asked demo_matter_start)"

lemma demo_matter_session:
  "the_session 1 demo_matter = Some ((new_session 0 demo_commission 1)\<lparr>se_status := ''commissioned'',
     se_device_id := Some ''u0''\<rparr>)"
  "node_id_for_device (JStr ''u0'') demo_matter = Some 1"
  by code_simp+

lemma demo_matter_reach: "matter_reach demo_matter"
proof -
  have "matter_reach demo_matter_start" by (rule matter_reach.start) (simp_all add: demo_matter_start_def)
  then have "matter_reach (demo_matter_asked demo_matter_start)" by (rule matter_reach.step) (rule matter_step.commission)
  moreover have "1 \<in> set (ma_tasks (demo_matter_asked demo_matter_start))" by code_simp
  ultimately show ?thesis unfolding demo_matter_def by (rule matter_reach.step [OF _ matter_step.task])
qed


subsection \<open>Commands\<close>

lemma log_calls: "log_call [''command'', ''execution_id''] \<noteq> None"
  "log_call [''execution_id'', ''node_id'', ''command''] \<noteq> None"
  by (simp_all add: log_call_def)

lemma run_always_raises: "snd (run_matter_command shown client n command args) \<noteq> None"
  using log_calls
  by (auto simp: run_matter_command_def Let_def split: matter_client.splits json.splits option.splits sum.splits)

lemma run_sends: "list_all sends_out (fst (run_matter_command shown client n command args))"
  by (auto simp: run_matter_command_def Let_def sends_out_def
      split: matter_client.splits json.splits option.splits sum.splits)

lemma level_without_args: "level_args (JObj []) = Inr [(''level'', JInt 128), (''transition_time'', JInt 0)]"
  by (simp add: level_args_def dget_or_def)

lemma run_plain:
  "fst (run_matter_command shown client n (JStr c) (JObj [])) =
     (case (client, matter_command c (JObj [])) of
        (Client failure, Some (cluster, name, Inr kwargs)) \<Rightarrow> [Invoke n cluster name kwargs] | _ \<Rightarrow> [])"
  by (auto simp: run_matter_command_def Let_def split: matter_client.splits option.splits sum.splits)

lemma dispatch_fails:
  "\<exists>e. dispatch_command shown show_value client ms eid n command payload =
     Callback eid (bridge_callback ''running'' None None None)
       # fst (run_matter_command shown client n command (dget_or payload ''args'' (JObj [])))
       @ [Callback eid (bridge_callback ''failed'' (Some 1) None (Some e))]"
proof -
  obtain sent e where "run_matter_command shown client n command (dget_or payload ''args'' (JObj [])) = (sent, Some e)"
    using run_always_raises [of shown client n command "dget_or payload ''args'' (JObj [])"]
    by (cases "run_matter_command shown client n command (dget_or payload ''args'' (JObj []))") auto
  then show ?thesis by (intro exI [of _ e]) (simp add: dispatch_command_def)
qed

text \<open>No command of a Matter device succeeds. The dispatch of a plain command to a commissioned
  device invokes its cluster command at the Matter server, when there is one and the command is known,
  with the default level whatever the arguments of the execution; but the call of the logger that
  follows raises, with or without a server, so the execution ends failed with exit code 1. The commands
  of other devices are left alone.\<close>

theorem matter_commands:
  assumes "ex_device_id e = Some i" "ex_command e = Some c"
    and "\<not> is_function_type (Some (sor (ex_execution_type e) ''command''))"
    and "complete_envelope xenv e = Inr envelope" "\<not> dhas (trace_headers xenv) ''args''"
    and "effs = matter_consume shown show_value client ms
      (JObj (event_value (make_event pcfg t ''dispatched'' (ex_id e) envelope))) mst"
  shows "(node_id_for_device (JStr i) mst = None \<longrightarrow> effs = [])
   \<and> (node_id_for_device (JStr i) mst = Some n \<longrightarrow>
        filter sends_out effs = (case (client, matter_command c (JObj [])) of
          (Client failure, Some (cluster, name, Inr kwargs)) \<Rightarrow> [Invoke n cluster name kwargs] | _ \<Rightarrow> [])
      \<and> (agent_callback_secret cfg = []
          \<and> is_ok (require_internal_or_bootstrap (internal cfg) (now env) key token)
          \<and> tbl_get ex_id (ex_id e) (executions st) = Some e \<and> ex_status e = ''dispatched'' \<longrightarrow>
        (\<exists>e'. tbl_get ex_id (ex_id e) (executions (fold (deliver_bridge cfg env key token) effs st)) = Some e'
          \<and> ex_status e' = ''failed'' \<and> ex_exit_code e' = JInt 1)))"
proof -
  note get = plain_dispatch [OF assms(4,3,1,5)]
  have effs: "effs = (case node_id_for_device (JStr i) mst of None \<Rightarrow> []
      | Some n \<Rightarrow> dispatch_command shown show_value client ms (JStr (ex_id e)) n (JStr c) envelope)"
    using get assms(2) by (simp add: assms(6) matter_consume_def make_event_def Let_def cong: option.case_cong)
  have known: "filter sends_out effs = fst (run_matter_command shown client n (JStr c) (JObj []))
      \<and> (agent_callback_secret cfg = []
          \<and> is_ok (require_internal_or_bootstrap (internal cfg) (now env) key token)
          \<and> tbl_get ex_id (ex_id e) (executions st) = Some e \<and> ex_status e = ''dispatched'' \<longrightarrow>
        (\<exists>e'. tbl_get ex_id (ex_id e) (executions (fold (deliver_bridge cfg env key token) effs st)) = Some e'
          \<and> ex_status e' = ''failed'' \<and> ex_exit_code e' = JInt 1))"
    if node: "node_id_for_device (JStr i) mst = Some n"
  proof -
    let ?sent = "fst (run_matter_command shown client n (JStr c) (JObj []))"
    obtain err where d: "effs = Callback (JStr (ex_id e)) (bridge_callback ''running'' None None None) # ?sent
        @ [Callback (JStr (ex_id e)) (bridge_callback ''failed'' (Some 1) None (Some err))]"
      using dispatch_fails [of shown show_value client ms "JStr (ex_id e)" n "JStr c" envelope]
      unfolding effs get node option.case by blast
    have sent: "list_all sends_out ?sent" by (rule run_sends)
    then have "filter sends_out ?sent = ?sent" by (simp add: list_all_iff)
    then have "filter sends_out effs = ?sent" by (simp add: d) (simp add: sends_out_def)
    moreover have "ex_exit_code (apply_callback env (bridge_callback ''failed'' (Some 1) None (Some err)) ''failed'' x) = JInt 1" for x
      by (simp add: apply_callback_def bridge_callback_def dhas_def dget_def)
    ultimately show ?thesis
      using bridge_report [OF sent, where s = "''failed''" and i = "ex_id e" and c = "Some 1" and out = None
          and err = "Some err" and cfg = cfg and env = env and key = key and token = token and st = st and e = e]
      unfolding d by auto
  qed
  show ?thesis using known run_plain [of shown client n c] by (simp add: effs)
qed

definition demo_matter_execution :: execution where
  "demo_matter_execution = demo_dispatched_execution\<lparr>ex_device_id := Some ''u0'', ex_command := Some ''OnOff.On''\<rparr>"

lemma matter_commands_witness:
  "filter sends_out (matter_consume (\<lambda>e. []) (\<lambda>v. []) (Client None) 7 (JObj (event_value
        (make_event demo_publisher 0 ''dispatched'' [] (base_envelope demo_env demo_matter_execution)))) demo_matter)
     = [Invoke 1 ''OnOff'' ''on'' []]
   \<and> (\<exists>e'. tbl_get ex_id [] (executions (fold (deliver_bridge demo_cfg demo_env None None)
        (matter_consume (\<lambda>e. []) (\<lambda>v. []) (Client None) 7 (JObj (event_value
          (make_event demo_publisher 0 ''dispatched'' [] (base_envelope demo_env demo_matter_execution)))) demo_matter)
        (demo_state\<lparr>executions := [demo_matter_execution]\<rparr>))) = Some e' \<and> ex_status e' = ''failed'')"
proof -
  have e: "ex_device_id demo_matter_execution = Some ''u0''" "ex_command demo_matter_execution = Some ''OnOff.On''"
    "ex_id demo_matter_execution = []" "ex_status demo_matter_execution = ''dispatched''"
    "ex_execution_type demo_matter_execution = ex_execution_type demo_dispatched_execution"
    by (simp_all add: demo_matter_execution_def demo_dispatched_row)
  have plain: "\<not> is_function_type (Some (sor (ex_execution_type demo_matter_execution) ''command''))"
    using demo_plain(1) by (simp add: e(5))
  then have env: "complete_envelope demo_env demo_matter_execution = Inr (base_envelope demo_env demo_matter_execution)"
    by (simp add: complete_envelope_def)
  have row: "tbl_get ex_id [] (executions (demo_state\<lparr>executions := [demo_matter_execution]\<rparr>)) = Some demo_matter_execution"
    by (simp add: tbl_get_Cons e(3))
  have "matter_command ''OnOff.On'' (JObj []) = Some (''OnOff'', ''on'', Inr [])" by (simp add: matter_command_def)
  then show ?thesis
    using matter_commands [OF e(1,2) plain env demo_plain(3) refl, where mst = demo_matter and shown = "\<lambda>e. []"
        and show_value = "\<lambda>v. []" and client = "Client None" and ms = 7 and pcfg = demo_publisher and t = 0 and n = 1
        and cfg = demo_cfg and env = demo_env and key = None and token = None
        and st = "demo_state\<lparr>executions := [demo_matter_execution]\<rparr>"]
      demo_matter_session(2) row demo_callback_open e(3,4) by auto
qed

end
