(* ===== verification/AiDrafts.thy ===== *)
theory AiDrafts
  imports AiPipeline
begin

text \<open>
  The AI pipeline, last part: the drafts of functions (\<open>core/function_builder.py\<close>,
  \<open>api/functions.py\<close>) and the questions in free text (\<open>api/query.py\<close>). The generated source is kept
  as its lines; the JSON columns keep the values they serialise; the parts of f-strings with values
  that are no text stay apart. The table of drafts is a list of rows, and the insights are read only.
\<close>

subsection \<open>The name and the source\<close>

definition is_letter :: "char \<Rightarrow> bool" where
  "is_letter c \<longleftrightarrow> (97 \<le> code c \<and> code c \<le> 122) \<or> (65 \<le> code c \<and> code c \<le> 90)"

definition is_word_char :: "char \<Rightarrow> bool" where
  "is_word_char c \<longleftrightarrow> is_letter c \<or> is_digit c"

text \<open>\<open>re.findall(r"[a-zA-Z0-9]+", s)\<close>.\<close>

function word_runs :: "string \<Rightarrow> string list" where
  "word_runs [] = []"
| "word_runs (c # cs) =
     (if is_word_char c then (c # takeWhile is_word_char cs) # word_runs (dropWhile is_word_char cs)
      else word_runs cs)"
  by pat_completeness auto
termination
  by (relation "measure length") (auto simp: le_imp_less_Suc length_dropWhile_le)

definition slugify_name :: "string \<Rightarrow> string" where
  "slugify_name prompt =
     (let ws = word_runs (lower prompt);
          joined = join ''_'' (take 5 ws);
          base = (if joined = [] then ''ai_function'' else joined);
          base1 = (if is_letter (hd base) then base else ''fn_'' @ base)
      in take 64 base1)"

text \<open>\<open>re.search(r"(\d+(?:\.\d+)?)", s)\<close>.\<close>

definition find_number :: "string \<Rightarrow> string option" where
  "find_number s =
     (case dropWhile (\<lambda>c. \<not> is_digit c) s of
        [] \<Rightarrow> None
      | t \<Rightarrow>
          Some (takeWhile is_digit t
            @ (case dropWhile is_digit t of
                 [] \<Rightarrow> []
               | p # q \<Rightarrow> if p = CHR ''.'' \<and> takeWhile is_digit q \<noteq> [] then p # takeWhile is_digit q else [])))"

definition source_lines :: "string \<Rightarrow> string \<Rightarrow> string list" where
  "source_lines threshold name =
     [''// Generated draft for Nexora. Review and compile to WASM before deployment.'',
      ''export function main(inputJson: string): string {'',
      ''  const input = JSON.parse(inputJson);'',
      ''  const value = Number(input.value ?? input.temperature ?? input.metric_value ?? 0);'',
      ''  const threshold = Number(input.threshold ?? '' @ threshold @ '');'',
      ''  const triggered = value > threshold;'',
      ''  return JSON.stringify({'',
      ''    function_name: \"'' @ name @ ''\",'',
      ''    status: triggered ? \"alert\" : \"ok\",'',
      ''    observed_value: value,'',
      ''    threshold,'',
      ''    message: triggered ? \"Threshold exceeded\" : \"Within expected range\"'',
      ''  });'',
      ''}'']"

definition generate_assemblyscript :: "string \<Rightarrow> string \<Rightarrow> string list" where
  "generate_assemblyscript prompt name =
     source_lines (case find_number prompt of None \<Rightarrow> ''80'' | Some n \<Rightarrow> n) name"

subsection \<open>Drafts\<close>

record draft =
  dr_id :: string
  dr_prompt :: string
  dr_function_name :: string
  dr_language :: string
  dr_source_code :: "string list"
  dr_plugin_metadata :: dict
  dr_input_schema :: dict
  dr_review :: dict
  dr_placement_result :: "dict option"
  dr_status :: string
  dr_created_at :: int
  dr_updated_at :: int

definition draft_metadata :: "string \<Rightarrow> dict \<Rightarrow> dict" where
  "draft_metadata name constraints =
     [(''name'', JStr name), (''version'', JStr ''0.1.0''), (''module_type'', JStr ''function''),
      (''runtime_type'', JStr ''wasm-wasi''), (''entrypoint'', JStr ''_start''),
      (''artifact_uri'', JNull), (''artifact_checksum'', JNull),
      (''timeout_seconds'', dget_or constraints ''timeout_seconds'' (JInt 30)),
      (''memory_limit_mb'', dget_or constraints ''memory_limit_mb'' (JInt 64)),
      (''permissions'', JArr []), (''required_capabilities'', JArr [JStr ''wasm_wasi''])]"

definition input_schema :: dict where
  "input_schema =
     [(''type'', JStr ''object''),
      (''properties'', JObj [(''value'', JObj [(''type'', JStr ''number'')]),
         (''temperature'', JObj [(''type'', JStr ''number'')]), (''threshold'', JObj [(''type'', JStr ''number'')])]),
      (''additionalProperties'', JBool True)]"

definition draft_review :: dict where
  "draft_review =
     [(''risk'', JStr ''medium''),
      (''notes'', JArr
         [JStr ''Draft source must be reviewed and compiled to WASM before deployment.'',
          JStr ''artifact_uri and artifact_checksum are intentionally empty in v1.'',
          JStr ''No network or filesystem permission is requested by default.'']),
      (''tests'', JArr
         [JStr ''Invoke with value below threshold and expect status ok.'',
          JStr ''Invoke with value above threshold and expect status alert.''])]"

definition new_draft :: "ai_env \<Rightarrow> string \<Rightarrow> dict option \<Rightarrow> draft" where
  "new_draft env prompt constraints =
     (let name = slugify_name prompt in
      \<lparr>dr_id = ae_uuid env, dr_prompt = prompt, dr_function_name = name, dr_language = ''assemblyscript'',
       dr_source_code = generate_assemblyscript prompt name,
       dr_plugin_metadata = draft_metadata name (case constraints of None \<Rightarrow> [] | Some c \<Rightarrow> c),
       dr_input_schema = input_schema, dr_review = draft_review, dr_placement_result = None,
       dr_status = ''draft'', dr_created_at = ae_now env, dr_updated_at = ae_now env\<rparr>)"

definition build_draft :: "ai_env \<Rightarrow> string \<Rightarrow> dict option \<Rightarrow> draft list \<Rightarrow> draft res \<times> draft list" where
  "build_draft env prompt constraints db =
     (let d = new_draft env prompt constraints in
      if tbl_get dr_id (dr_id d) db \<noteq> None then (Inl (PyExc ''IntegrityError''), db)
      else (Inr d, tbl_add d db))"

definition draft_to_response :: "draft \<Rightarrow> dict" where
  "draft_to_response d =
     [(''id'', JStr (dr_id d)), (''prompt'', JStr (dr_prompt d)), (''function_name'', JStr (dr_function_name d)),
      (''language'', JStr (dr_language d)), (''source_code'', JArr (map JStr (dr_source_code d))),
      (''plugin_metadata'', JObj (dr_plugin_metadata d)), (''input_schema'', JObj (dr_input_schema d)),
      (''review'', JObj (dr_review d)),
      (''placement_result'', (case dr_placement_result d of None \<Rightarrow> JNull | Some r \<Rightarrow> JObj r)),
      (''status'', JStr (dr_status d))]"

definition draft_not_found :: error where
  "draft_not_found = http 404 ''function draft not found''"

text \<open>A prompt of less than five characters is refused by the schema.\<close>

definition create_function_draft ::
  "ai_env \<Rightarrow> string \<Rightarrow> dict option \<Rightarrow> draft list \<Rightarrow> dict res \<times> draft list" where
  "create_function_draft env prompt constraints db =
     (if length prompt < 5 then (Inl (http 422 ''String should have at least 5 characters''), db)
      else case build_draft env prompt constraints db of
        (Inl err, db1) \<Rightarrow> (Inl err, db1)
      | (Inr d, db1) \<Rightarrow> (Inr (draft_to_response d), db1))"

definition placement_item :: "placement \<Rightarrow> json" where
  "placement_item p = JObj
     [(''device_id'', JStr (pl_device_id p)), (''score'', JInt (pl_score p)),
      (''risk_level'', JStr (pl_risk_level p)),
      (''reason'', if pl_reasons p = [] then JStr ''online, wasm_wasi capable, acceptable recent risk''
                   else JArr (pl_reasons p))]"

definition placement_result :: "placement list \<times> placement list \<Rightarrow> dict" where
  "placement_result r =
     [(''recommended_targets'', JArr (map placement_item (fst r))),
      (''avoid_targets'', JArr (map placement_item (snd r)))]"

definition calculate_placement ::
  "ai_env \<Rightarrow> ai_state \<Rightarrow> string \<Rightarrow> string list \<Rightarrow> draft list \<Rightarrow> dict res \<times> draft list" where
  "calculate_placement env st draft_id devices db = (case tbl_get dr_id draft_id db of
     None \<Rightarrow> (Inl draft_not_found, db)
   | Some d \<Rightarrow>
       (case placement_for_draft env devices st of
          Inl err \<Rightarrow> (Inl err, db)
        | Inr r \<Rightarrow> (Inr (placement_result r),
            tbl_put dr_id (d\<lparr>dr_placement_result := Some (placement_result r), dr_updated_at := ae_now env\<rparr>) db)))"

text \<open>The review: the flag is set and a note appended; notes that are no list have no \<open>append\<close>.\<close>

definition approval_note :: json where
  "approval_note = JStr ''Human approval is required before creating plugin metadata or deployments.''"

definition reviewed :: "dict \<Rightarrow> dict res" where
  "reviewed review =
     (let r = dset review ''reviewed'' (JBool True) in
      case dget_or r ''notes'' (JArr []) of
        JArr notes \<Rightarrow> Inr (dset r ''notes'' (JArr (notes @ [approval_note])))
      | _ \<Rightarrow> Inl (PyExc ''AttributeError''))"

definition review_function_draft :: "ai_env \<Rightarrow> string \<Rightarrow> draft list \<Rightarrow> dict res \<times> draft list" where
  "review_function_draft env draft_id db = (case tbl_get dr_id draft_id db of
     None \<Rightarrow> (Inl draft_not_found, db)
   | Some d \<Rightarrow>
       (case reviewed (dr_review d) of
          Inl err \<Rightarrow> (Inl err, db)
        | Inr r \<Rightarrow>
            let d1 = d\<lparr>dr_review := r, dr_status := ''reviewed'', dr_updated_at := ae_now env\<rparr>
            in (Inr (draft_to_response d1), tbl_put dr_id d1 db)))"

subsection \<open>Questions\<close>

definition write_words :: "string list" where
  "write_words = [''delete'', ''remove'', ''deploy'', ''create'', ''update'', ''modify'', ''cancel'']"

definition query_intent :: "string \<Rightarrow> string" where
  "query_intent query =
     (let q = lower query in
      if \<exists>w \<in> set write_words. contains q w then ''unsupported''
      else if contains q ''critical'' \<or> contains q ''critici'' then ''list_critical_insights''
      else if contains q ''risky'' \<or> contains q ''risch'' then ''show_risky_devices''
      else if contains q ''failure'' \<or> contains q ''failed'' \<or> contains q ''fall'' then ''show_recent_failures''
      else if contains q ''device'' \<or> contains q ''dispositivo'' then ''explain_device''
      else if contains q ''fleet'' then ''summarize_fleet''
      else ''unsupported'')"

definition query_selects :: "string \<Rightarrow> insight \<Rightarrow> bool" where
  "query_selects intent x \<longleftrightarrow>
     (if intent = ''list_critical_insights'' then ai_severity x = ''critical''
      else if intent = ''show_recent_failures'' then ai_category x = ''execution_failure''
      else if intent = ''show_risky_devices'' then ai_severity x \<in> {''critical'', ''warning''}
      else True)"

record query_response =
  qr_intent :: string
  qr_answer :: string
  qr_items :: "insight list"

definition ai_query :: "string \<Rightarrow> ai_state \<Rightarrow> query_response res" where
  "ai_query query st =
     (let intent = query_intent query in
      if intent = ''unsupported'' then Inl (http 400 ''unsupported query intent'')
      else
        let items = take 10 (newest_insights (filter (query_selects intent) (insights st)))
        in Inr \<lparr>qr_intent = intent,
             qr_answer = ''Found '' @ show_nat (length items) @ '' matching operational records for intent '' @ intent @ ''.'',
             qr_items = items\<rparr>)"

end
