(* ===== verification/AiDraftProperties.thy ===== *)
theory AiDraftProperties
  imports AiDrafts AiProperties "HOL-Library.Multiset"
begin

text \<open>
  What the drafts of functions keep, whatever the prompts, reviews and placements, and what a question
  in free text is answered.
\<close>

subsection \<open>Names\<close>

definition slug_char :: "char \<Rightarrow> bool" where
  "slug_char c \<longleftrightarrow> (97 \<le> code c \<and> code c \<le> 122) \<or> is_digit c \<or> c = CHR ''_''"

definition valid_name :: "string \<Rightarrow> bool" where
  "valid_name s \<longleftrightarrow> s \<noteq> [] \<and> length s \<le> 64 \<and> 97 \<le> code (hd s) \<and> code (hd s) \<le> 122 \<and> list_all slug_char s"

lemma word_runs_chars: "w \<in> set (word_runs s) \<Longrightarrow> w \<noteq> [] \<and> (\<forall>c \<in> set w. is_word_char c \<and> c \<in> set s)"
proof (induction s rule: word_runs.induct)
  case (2 c cs)
  show ?case
  proof (cases "is_word_char c")
    case True
    then have "w = c # takeWhile is_word_char cs \<or> w \<in> set (word_runs (dropWhile is_word_char cs))"
      using "2.prems" by simp
    then show ?thesis
      using "2.IH"(1) [OF True] True by (auto dest: set_takeWhileD set_dropWhileD)
  next
    case False
    then show ?thesis using "2.prems" "2.IH"(2) [OF False] by auto
  qed
qed simp

lemma code_lower_char: "code (lower_char c) = (if 65 \<le> code c \<and> code c \<le> 90 then code c + 32 else code c)"
proof -
  have "of_char (char_of (code c + 32) :: char) = (code c + 32 :: nat)" if "code c \<le> 90"
    using that by (simp add: of_char_of)
  then show ?thesis by (simp add: lower_char_def code_def)
qed

lemma lower_slug: "c \<in> set (lower s) \<Longrightarrow> is_word_char c \<Longrightarrow> slug_char c"
  by (auto simp: lower_def is_word_char_def is_letter_def slug_char_def code_lower_char split: if_splits)

lemma join_chars: "\<forall>w \<in> set ws. list_all P w \<Longrightarrow> list_all P sep \<Longrightarrow> list_all P (join sep ws)"
  by (induction sep ws rule: join.induct) simp_all

lemma joined_slug: "list_all slug_char (join ''_'' (take 5 (word_runs (lower prompt))))"
proof (rule join_chars)
  show "\<forall>w \<in> set (take 5 (word_runs (lower prompt))). list_all slug_char w"
    using word_runs_chars [of _ "lower prompt"] lower_slug [of _ prompt]
    by (auto simp: list_all_iff dest!: in_set_takeD)
qed (simp add: slug_char_def)

lemma slug_valid: "valid_name (slugify_name prompt)"
proof -
  define joined where "joined = join ''_'' (take 5 (word_runs (lower prompt)))"
  define base where "base = (if joined = [] then ''ai_function'' else joined)"
  have base: "base \<noteq> []" "list_all slug_char base"
    using joined_slug [of prompt] by (auto simp: base_def joined_def slug_char_def is_digit_def code_def)
  define base1 where "base1 = (if is_letter (hd base) then base else ''fn_'' @ base)"
  have base1: "base1 \<noteq> []" "list_all slug_char base1" "97 \<le> code (hd base1)" "code (hd base1) \<le> 122"
    using base by (auto simp: base1_def is_letter_def slug_char_def is_digit_def code_def list_all_iff neq_Nil_conv)
  have "slugify_name prompt = take 64 base1"
    by (simp add: slugify_name_def base1_def base_def joined_def Let_def)
  then show ?thesis
    using base1 by (auto simp: valid_name_def list_all_iff hd_take dest: in_set_takeD)
qed

subsection \<open>Numbers\<close>

definition decimal :: "string \<Rightarrow> bool" where
  "decimal s \<longleftrightarrow> (\<exists>a b. a \<noteq> [] \<and> list_all is_digit a \<and> list_all is_digit b
     \<and> (s = a \<or> (b \<noteq> [] \<and> s = a @ ''.'' @ b)))"

lemma find_number_decimal: "find_number s = Some n \<Longrightarrow> decimal n"
proof -
  assume n: "find_number s = Some n"
  obtain c t where t: "dropWhile (\<lambda>c. \<not> is_digit c) s = c # t"
    using n by (auto simp: find_number_def split: list.splits)
  have c: "is_digit c" using hd_dropWhile [of "\<lambda>c. \<not> is_digit c" s] t by simp
  define a where "a = takeWhile is_digit (c # t)"
  have a: "a \<noteq> []" "list_all is_digit a"
    using c by (simp_all add: a_def list_all_iff) (auto dest: set_takeWhileD)
  show ?thesis
  proof (cases "dropWhile is_digit (c # t)")
    case Nil
    then have "n = a" using n t by (simp add: find_number_def a_def)
    then show ?thesis using a unfolding decimal_def by (metis list.pred_inject(1))
  next
    case (Cons p q)
    define b where "b = takeWhile is_digit q"
    have b: "list_all is_digit b" by (auto simp: b_def list_all_iff dest: set_takeWhileD)
    have "n = a @ (if p = CHR ''.'' \<and> b \<noteq> [] then p # b else [])"
      using n t c Cons by (auto simp: find_number_def a_def b_def split: list.splits)
    then show ?thesis using a b unfolding decimal_def by (intro exI [of _ a] exI [of _ b]) auto
  qed
qed

lemma decimal_default: "decimal ''80''"
  unfolding decimal_def by (rule exI [of _ "''80''"], rule exI [of _ "[]"]) (simp add: is_digit_def code_def)

subsection \<open>Drafts\<close>

interpretation draft_rows: keyed_store "tbl_get dr_id" "tbl_put dr_id" tbl_add "tbl_del dr_id" dr_id
  by (rule keyed_table)

inductive draft_step :: "draft list \<Rightarrow> draft list \<Rightarrow> bool" where
  create: "draft_step db (snd (create_function_draft env prompt constraints db))"
| place: "draft_step db (snd (calculate_placement env st i devices db))"
| review: "draft_step db (snd (review_function_draft env i db))"

inductive draft_reach :: "draft list \<Rightarrow> bool" where
  start: "draft_reach []"
| step: "draft_reach db \<Longrightarrow> draft_step db db' \<Longrightarrow> draft_reach db'"

definition review_notes :: "json list" where
  "review_notes = (case dget draft_review ''notes'' of JArr notes \<Rightarrow> notes | _ \<Rightarrow> [])"

definition draft_ok :: "draft \<Rightarrow> bool" where
  "draft_ok d \<longleftrightarrow>
     valid_name (dr_function_name d)
   \<and> (\<exists>n. decimal n \<and> dr_source_code d = source_lines n (dr_function_name d))
   \<and> dget (dr_plugin_metadata d) ''name'' = JStr (dr_function_name d)
   \<and> dget (dr_plugin_metadata d) ''artifact_uri'' = JNull \<and> dget (dr_plugin_metadata d) ''permissions'' = JArr []
   \<and> (\<exists>k. dget (dr_review d) ''notes'' = JArr (review_notes @ replicate k approval_note)
        \<and> dr_status d = (if k = 0 then ''draft'' else ''reviewed'')
        \<and> dget (dr_review d) ''reviewed'' = (if k = 0 then JNull else JBool True))"

lemma new_draft_ok: "draft_ok (new_draft env prompt constraints)"
proof -
  let ?d = "new_draft env prompt constraints"
  have "valid_name (dr_function_name ?d)" using slug_valid by (simp add: new_draft_def Let_def)
  moreover have "\<exists>n. decimal n \<and> dr_source_code ?d = source_lines n (dr_function_name ?d)"
    using find_number_decimal [of prompt] decimal_default
    by (auto simp: new_draft_def Let_def generate_assemblyscript_def split: option.split)
  moreover have "dget (dr_plugin_metadata ?d) ''name'' = JStr (dr_function_name ?d)"
    "dget (dr_plugin_metadata ?d) ''artifact_uri'' = JNull" "dget (dr_plugin_metadata ?d) ''permissions'' = JArr []"
    by (simp_all add: new_draft_def Let_def draft_metadata_def dget_def)
  moreover have "dget (dr_review ?d) ''notes'' = JArr (review_notes @ replicate 0 approval_note)
      \<and> dr_status ?d = ''draft'' \<and> dget (dr_review ?d) ''reviewed'' = JNull"
    by (simp add: new_draft_def Let_def review_notes_def draft_review_def dget_def)
  ultimately show ?thesis unfolding draft_ok_def by (intro conjI exI [of _ 0]) auto
qed

lemma reviewed_notes:
  assumes "dget r ''notes'' = JArr notes"
  shows "\<exists>r'. reviewed r = Inr r' \<and> dget r' ''notes'' = JArr (notes @ [approval_note])
    \<and> dget r' ''reviewed'' = JBool True"
proof -
  have "dhas r ''notes''" using assms by (cases "dhas r ''notes''") (simp_all add: dget_def dhas_def)
  then have "map_of (dset r ''reviewed'' (JBool True)) ''notes'' = Some (JArr notes)"
    using assms by (auto simp: dset_def update_conv' dget_def dhas_def split: option.splits)
  then show ?thesis by (simp add: reviewed_def Let_def dget_or_def dget_dset)
qed

lemma review_ok:
  assumes "draft_ok d"
  shows "\<exists>r. reviewed (dr_review d) = Inr r
    \<and> draft_ok (d\<lparr>dr_review := r, dr_status := ''reviewed'', dr_updated_at := t\<rparr>)"
proof -
  obtain k where k: "dget (dr_review d) ''notes'' = JArr (review_notes @ replicate k approval_note)"
    using assms by (auto simp: draft_ok_def)
  obtain r where r: "reviewed (dr_review d) = Inr r"
    "dget r ''notes'' = JArr ((review_notes @ replicate k approval_note) @ [approval_note])"
    "dget r ''reviewed'' = JBool True"
    using reviewed_notes [OF k] by blast
  have "dget r ''notes'' = JArr (review_notes @ replicate (Suc k) approval_note)"
    using r(2) by (simp add: replicate_append_same)
  then have "draft_ok (d\<lparr>dr_review := r, dr_status := ''reviewed'', dr_updated_at := t\<rparr>)"
    using assms r(3) unfolding draft_ok_def by (auto intro!: exI [of _ "Suc k"])
  then show ?thesis using r(1) by blast
qed

definition drafts_ok :: "draft list \<Rightarrow> bool" where
  "drafts_ok db \<longleftrightarrow> (\<forall>i d. tbl_get dr_id i db = Some d \<longrightarrow> draft_ok d)"

lemma draft_step_ok: "draft_step db db' \<Longrightarrow> drafts_ok db \<Longrightarrow> drafts_ok db'"
proof (induction rule: draft_step.induct)
  case (create db env prompt constraints)
  then show ?case
    using draft_rows.all_add [of db draft_ok "new_draft env prompt constraints"] new_draft_ok
    by (auto simp: drafts_ok_def create_function_draft_def build_draft_def Let_def)
next
  case (place db env st i devices)
  have "draft_ok (d\<lparr>dr_placement_result := r, dr_updated_at := t\<rparr>)" if "draft_ok d" for d r t
    using that unfolding draft_ok_def by simp
  moreover have rows: "\<forall>k x. tbl_get dr_id k db = Some x \<longrightarrow> draft_ok x" using place by (simp add: drafts_ok_def)
  ultimately have put: "drafts_ok (tbl_put dr_id (d\<lparr>dr_placement_result := r, dr_updated_at := t\<rparr>) db)"
    if "tbl_get dr_id i db = Some d" for d r t
    using draft_rows.all_put [OF rows] that unfolding drafts_ok_def by blast
  show ?case
  proof (cases "tbl_get dr_id i db")
    case (Some d)
    then show ?thesis using place put [OF Some]
      by (cases "placement_for_draft env devices st") (simp_all add: calculate_placement_def)
  qed (use place in \<open>simp add: calculate_placement_def\<close>)
next
  case (review db env i)
  have rows: "\<forall>k x. tbl_get dr_id k db = Some x \<longrightarrow> draft_ok x" using review by (simp add: drafts_ok_def)
  show ?case
  proof (cases "tbl_get dr_id i db")
    case (Some d)
    then have "draft_ok d" using rows by blast
    then obtain r where r: "reviewed (dr_review d) = Inr r"
      "draft_ok (d\<lparr>dr_review := r, dr_status := ''reviewed'', dr_updated_at := ae_now env\<rparr>)"
      using review_ok by blast
    have "drafts_ok (tbl_put dr_id (d\<lparr>dr_review := r, dr_status := ''reviewed'', dr_updated_at := ae_now env\<rparr>) db)"
      using draft_rows.all_put [OF rows r(2)] unfolding drafts_ok_def .
    then show ?thesis using Some r(1) by (simp add: review_function_draft_def Let_def)
  qed (use review in \<open>simp add: review_function_draft_def\<close>)
qed

lemma draft_reach_ok: "draft_reach db \<Longrightarrow> drafts_ok db"
  by (induction rule: draft_reach.induct) (simp_all add: drafts_ok_def [of "[]"] draft_step_ok)

text \<open>Every draft of a function, in every reachable state and whatever the prompts were: its name is a
  lower-case identifier of at most 64 characters and the source is the template with that name and a
  decimal number, so no other text of the prompt gets into it; it names no artifact and asks no
  permission; and it is a draft until its first review, then reviewed for ever, with one more note for
  every review.\<close>

theorem drafts_safe:
  assumes "draft_reach db" "tbl_get dr_id i db = Some d"
  shows "valid_name (dr_function_name d)
   \<and> (\<exists>n. decimal n \<and> dr_source_code d = source_lines n (dr_function_name d))
   \<and> dget (dr_plugin_metadata d) ''artifact_uri'' = JNull \<and> dget (dr_plugin_metadata d) ''permissions'' = JArr []
   \<and> (\<exists>k. dget (dr_review d) ''notes'' = JArr (review_notes @ replicate k approval_note)
        \<and> dr_status d = (if k = 0 then ''draft'' else ''reviewed'')
        \<and> (\<exists>r. review_function_draft env i db = (Inr r, tbl_put dr_id (d
             \<lparr>dr_review := dset (dset (dr_review d) ''reviewed'' (JBool True)) ''notes''
                (JArr (review_notes @ replicate (Suc k) approval_note)),
              dr_status := ''reviewed'', dr_updated_at := ae_now env\<rparr>) db)))"
proof -
  have d: "draft_ok d" using draft_reach_ok [OF assms(1)] assms(2) by (simp add: drafts_ok_def)
  then obtain k where k: "dget (dr_review d) ''notes'' = JArr (review_notes @ replicate k approval_note)"
    "dr_status d = (if k = 0 then ''draft'' else ''reviewed'')" by (auto simp: draft_ok_def)
  let ?r = "dset (dr_review d) ''reviewed'' (JBool True)"
  have "dhas (dr_review d) ''notes''" using k(1) by (cases "dhas (dr_review d) ''notes''") (simp_all add: dget_def dhas_def)
  then have "dget_or ?r ''notes'' (JArr []) = JArr (review_notes @ replicate k approval_note)"
    using k(1) by (auto simp: dget_or_def dset_def update_conv' dget_def dhas_def split: option.splits)
  then have "reviewed (dr_review d) = Inr (dset ?r ''notes'' (JArr (review_notes @ replicate (Suc k) approval_note)))"
    by (simp add: reviewed_def Let_def replicate_append_same)
  then have "\<exists>r. review_function_draft env i db = (Inr r, tbl_put dr_id (d
       \<lparr>dr_review := dset ?r ''notes'' (JArr (review_notes @ replicate (Suc k) approval_note)),
        dr_status := ''reviewed'', dr_updated_at := ae_now env\<rparr>) db)"
    using assms(2) by (simp add: review_function_draft_def Let_def)
  with d k show ?thesis unfolding draft_ok_def by blast
qed

lemma drafts_safe_witness:
  "\<exists>d. tbl_get dr_id ''i1'' (snd (create_function_draft demo_ai_env ''Alert over 75.5 degrees'' None [])) = Some d
     \<and> dr_function_name d = ''alert_over_75_5_degrees'' \<and> valid_name (dr_function_name d)"
proof -
  let ?db = "snd (create_function_draft demo_ai_env ''Alert over 75.5 degrees'' None [])"
  let ?d = "new_draft demo_ai_env ''Alert over 75.5 degrees'' None"
  have name: "slugify_name ''Alert over 75.5 degrees'' = ''alert_over_75_5_degrees''" by code_simp
  have "?db = [?d]"
    by (simp add: create_function_draft_def build_draft_def Let_def tbl_add_def)
  moreover have "dr_id ?d = ''i1''" by (simp add: new_draft_def demo_ai_env_def Let_def)
  ultimately have row: "tbl_get dr_id ''i1'' ?db = Some ?d" by (simp add: tbl_get_Cons)
  have "draft_reach ?db" by (rule draft_reach.step [OF draft_reach.start draft_step.create])
  from drafts_safe [OF this row] row name show ?thesis by (simp add: new_draft_def Let_def)
qed

subsection \<open>Questions\<close>

lemma newest_sorted: "sorted_wrt (\<lambda>x y. ai_created_at y \<le> ai_created_at x) (newest_insights xs)"
  using sorted_sort_key [of "\<lambda>x. - ai_created_at x" xs] by (simp add: newest_insights_def sorted_map)

lemma newest_split: "mset xs = mset (take n (newest_insights xs)) + mset (drop n (newest_insights xs))"
proof -
  have "mset xs = mset (newest_insights xs)" by (simp add: newest_insights_def)
  also have "\<dots> = mset (take n (newest_insights xs) @ drop n (newest_insights xs))" by (simp only: append_take_drop_id)
  finally show ?thesis by (simp only: mset_append)
qed

lemma take_newest:
  assumes "x \<in> set (take n (newest_insights xs))" "y \<in># mset xs - mset (take n (newest_insights xs))"
  shows "ai_created_at y \<le> ai_created_at x"
proof -
  have "mset xs - mset (take n (newest_insights xs)) = mset (drop n (newest_insights xs))"
    using newest_split [of xs n] by simp
  then have "y \<in> set (drop n (newest_insights xs))" using assms(2) by simp
  moreover have newest: "sorted_wrt (\<lambda>x y. ai_created_at y \<le> ai_created_at x)
      (take n (newest_insights xs) @ drop n (newest_insights xs))"
    unfolding append_take_drop_id by (rule newest_sorted)
  ultimately show ?thesis
    using assms(1) by (auto simp only: sorted_wrt_append)
qed

text \<open>A question is refused with status 400 exactly when no intent is found in it, in particular when it
  holds a word that asks for a change; otherwise the answer lists the newest insights of the class of
  its intent, at most ten, newest first, and counts them. Every tenant and every device is read.\<close>

theorem query_answers:
  "case ai_query query st of
     Inl e \<Rightarrow> query_intent query = ''unsupported'' \<and> e = http 400 ''unsupported query intent''
   | Inr r \<Rightarrow> qr_intent r = query_intent query \<and> qr_intent r \<noteq> ''unsupported''
       \<and> (\<forall>w \<in> set write_words. \<not> contains (lower query) w)
       \<and> (let cls = filter (query_selects (qr_intent r)) (insights st) in
            mset (qr_items r) \<subseteq># mset cls \<and> length (qr_items r) = min 10 (length cls)
          \<and> sorted_wrt (\<lambda>x y. ai_created_at y \<le> ai_created_at x) (qr_items r)
          \<and> (\<forall>x \<in> set (qr_items r). \<forall>y \<in># mset cls - mset (qr_items r). ai_created_at y \<le> ai_created_at x))"
proof (cases "query_intent query = ''unsupported''")
  case True
  then show ?thesis by (simp add: ai_query_def Let_def)
next
  case False
  let ?cls = "filter (query_selects (query_intent query)) (insights st)"
  let ?items = "take 10 (newest_insights ?cls)"
  have "\<forall>w \<in> set write_words. \<not> contains (lower query) w"
  proof (rule ccontr)
    assume "\<not> (\<forall>w \<in> set write_words. \<not> contains (lower query) w)"
    then have "\<exists>w \<in> set write_words. contains (lower query) w" by blast
    then show False using False by (simp add: query_intent_def Let_def)
  qed
  moreover have "mset ?items \<subseteq># mset ?cls"
    using newest_split [of ?cls 10] by simp
  moreover have "length ?items = min 10 (length ?cls)" by (simp add: newest_insights_def min.commute)
  moreover have "sorted_wrt (\<lambda>x y. ai_created_at y \<le> ai_created_at x) ?items"
    by (rule sorted_wrt_take [OF newest_sorted])
  ultimately show ?thesis using False take_newest [of _ 10 ?cls] by (simp add: ai_query_def Let_def)
qed

text \<open>A question about one device is answered with the insight of another.\<close>

definition demo_asked :: ai_state where
  "demo_asked = demo_ai_state\<lparr>insights := [new_insight demo_ai_env (manual_device_analysis demo_ai_env ''d2'')]\<rparr>"

lemma query_answers_witness:
  "\<exists>r. ai_query ''Explain device d1'' demo_asked = Inr r \<and> length (qr_items r) = 1
     \<and> (\<forall>x \<in> set (qr_items r). ai_scope_id x = ''d2'')"
proof -
  have "query_intent ''Explain device d1'' = ''explain_device''" by code_simp
  moreover have "length (insights demo_asked) = 1" "\<forall>x \<in> set (insights demo_asked). ai_scope_id x = ''d2''"
    by (simp_all add: demo_asked_def new_insight_def manual_device_analysis_def demo_ai_env_def)
  moreover have "filter (query_selects ''explain_device'') xs = xs" for xs
    by (simp add: query_selects_def filter_id_conv)
  ultimately show ?thesis
    using query_answers [of "''Explain device d1''" demo_asked]
    by (cases "ai_query ''Explain device d1'' demo_asked")
      (auto simp: Let_def dest!: mset_subset_eqD)
qed

end
