(* ===== verification/AgentPairing.thy ===== *)
theory AgentPairing
  imports DeviceApi Discovery
begin

text \<open>
  Pairing and the credentials of the device agent (\<open>packages/nexora-agent\<close>: \<open>pairing.py\<close>,
  \<open>credentials.py\<close>). The TPM is the value of one index, with the outcomes of its library calls as
  parameters, the file of credentials what it holds; JSON texts are kept as the values they stand for.
  The requests go to functions on a state of any type \<open>'w\<close>; \<open>pe_clock\<close> is the clock of the event loop
  by reading, \<open>pe_others\<close> what the world does during a sleep. The loop of polls has fuel.
\<close>

subsection \<open>Credentials\<close>

text \<open>\<open>tp_present\<close>: a TPM device and its library; \<open>tp_opens\<close>: a session can be opened;
  \<open>tp_undefines\<close>, \<open>tp_defines\<close>, \<open>tp_writes\<close>: whether these calls work; \<open>fs_writes\<close>: whether
  the file can be written.\<close>

record cred_env =
  tp_present :: bool
  tp_opens :: bool
  tp_undefines :: bool
  tp_defines :: bool
  tp_writes :: bool
  fs_writes :: bool
  ce_now :: json

text \<open>The index holds nothing, an area not written to, or credentials; the file is missing, holds
  credentials, or what is no JSON.\<close>

datatype nv_index = No_index | Unwritten | Sealed dict

datatype cred_file = No_file | Broken_file | Cred_file dict

record cred_store =
  cs_index :: nv_index
  cs_file :: cred_file

definition tpm_save :: "cred_env \<Rightarrow> dict \<Rightarrow> cred_store \<Rightarrow> bool \<times> cred_store" where
  "tpm_save env data cs =
     (if \<not> tp_opens env then (False, cs)
      else
        let cs1 = (if tp_undefines env then cs\<lparr>cs_index := No_index\<rparr> else cs)
        in if cs_index cs1 \<noteq> No_index \<or> \<not> tp_defines env then (False, cs1)
           else if \<not> tp_writes env then (False, cs1\<lparr>cs_index := Unwritten\<rparr>)
           else (True, cs1\<lparr>cs_index := Sealed data\<rparr>))"

text \<open>\<open>_tpm_load\<close>: only opening the session is outside its \<open>try\<close>.\<close>

definition tpm_load :: "cred_env \<Rightarrow> cred_store \<Rightarrow> dict option res" where
  "tpm_load env cs =
     (if \<not> tp_opens env then Inl (PyExc ''TSS2_Exception'')
      else Inr (case cs_index cs of Sealed d \<Rightarrow> Some d | _ \<Rightarrow> None))"

definition tpm_clear :: "cred_env \<Rightarrow> cred_store \<Rightarrow> cred_store" where
  "tpm_clear env cs = (if tp_opens env \<and> tp_undefines env then cs\<lparr>cs_index := No_index\<rparr> else cs)"

definition file_load :: "cred_store \<Rightarrow> dict option" where
  "file_load cs = (case cs_file cs of Cred_file d \<Rightarrow> Some d | _ \<Rightarrow> None)"

text \<open>The file is written beside and renamed, so a failure leaves the old one.\<close>

definition file_save :: "cred_env \<Rightarrow> dict \<Rightarrow> cred_store \<Rightarrow> unit res \<times> cred_store" where
  "file_save env data cs =
     (if fs_writes env then (Inr (), cs\<lparr>cs_file := Cred_file data\<rparr>) else (Inl (PyExc ''OSError''), cs))"

definition cred_load :: "cred_env \<Rightarrow> cred_store \<Rightarrow> dict option" where
  "cred_load env cs =
     (if tp_present env then (case tpm_load env cs of Inl err \<Rightarrow> file_load cs | Inr r \<Rightarrow> r)
      else file_load cs)"

text \<open>\<open>save\<close> stamps the caller's dict; the answer is that dict.\<close>

definition cred_save :: "cred_env \<Rightarrow> dict \<Rightarrow> cred_store \<Rightarrow> dict res \<times> cred_store" where
  "cred_save env data cs =
     (let d = (if dhas data ''saved_at'' then data else dset data ''saved_at'' (ce_now env)) in
      case (if tp_present env then tpm_save env d cs else (False, cs)) of
        (True, cs1) \<Rightarrow> (Inr d, cs1)
      | (False, cs1) \<Rightarrow>
          (case file_save env d cs1 of (Inl err, cs2) \<Rightarrow> (Inl err, cs2) | (Inr _, cs2) \<Rightarrow> (Inr d, cs2)))"

definition cred_clear :: "cred_env \<Rightarrow> cred_store \<Rightarrow> cred_store" where
  "cred_clear env cs = (if tp_present env then tpm_clear env cs else cs)\<lparr>cs_file := No_file\<rparr>"

definition is_paired :: "cred_env \<Rightarrow> cred_store \<Rightarrow> bool" where
  "is_paired env cs = (case cred_load env cs of None \<Rightarrow> False | Some d \<Rightarrow> truthy (dget d ''device_id''))"

subsection \<open>Pairing\<close>

record 'w pairing_env =
  pe_announce :: "dict \<Rightarrow> 'w \<Rightarrow> answer \<times> 'w"
  pe_poll :: "json \<Rightarrow> 'w \<Rightarrow> answer \<times> 'w"
  pe_post :: "target \<Rightarrow> dict \<Rightarrow> 'w \<Rightarrow> answer \<times> 'w"
  pe_others :: "nat \<Rightarrow> 'w \<Rightarrow> 'w"
  pe_clock :: "nat \<Rightarrow> rat"
  pe_float :: "string \<Rightarrow> rat option"
  pe_agent_version :: string
  pe_platform :: dict
  pe_poll_interval :: rat
  pe_creds :: cred_env

text \<open>\<open>raise_for_status\<close> and \<open>json()\<close>; \<open>d[k]\<close> on what was answered.\<close>

definition answered :: "answer \<Rightarrow> json res" where
  "answered a = (case a of
     NoAnswer e \<Rightarrow> Inl (PyExc ''RequestError'')
   | Answer s b \<Rightarrow> if success s then Inr b else Inl (PyExc ''HTTPStatusError''))"

definition py_item :: "json \<Rightarrow> string \<Rightarrow> json res" where
  "py_item v k = (case v of
     JObj d \<Rightarrow> if dhas d k then Inr (dget d k) else Inl (PyExc ''KeyError'')
   | _ \<Rightarrow> Inl (PyExc ''TypeError''))"

definition announce_body :: "string \<Rightarrow> string \<Rightarrow> dict" where
  "announce_body name device_type =
     [(''name'', JStr name), (''device_type'', JStr device_type), (''connection_protocol'', JStr ''nexora-agent'')]"

definition pairing_body :: "'w pairing_env \<Rightarrow> string \<Rightarrow> string \<Rightarrow> dict" where
  "pairing_body env name device_type =
     [(''name'', JStr name), (''device_type'', JStr device_type), (''connection_protocol'', JStr ''nexora-agent''),
      (''protocol_meta'', JObj [(''agent_version'', JStr (pe_agent_version env)),
         (''platform'', JObj (pe_platform env))])]"

text \<open>What the announcement gives: the device code, the seconds the code lives, and a check of the fields
  that must be there; a lifetime or interval that is no number raises.\<close>

definition read_announcement :: "'w pairing_env \<Rightarrow> json \<Rightarrow> (json \<times> rat) res" where
  "read_announcement env v =
     (case (py_item v ''device_code'', py_item v ''user_code'') of
        (Inl err, _) \<Rightarrow> Inl err
      | (_, Inl err) \<Rightarrow> Inl err
      | (Inr c, Inr u) \<Rightarrow>
          (case v of
             JObj d \<Rightarrow>
               (case py_float (pe_float env) (dget_or d ''interval'' (JNum (pe_poll_interval env))) of
                  Inl err \<Rightarrow> Inl err
                | Inr i \<Rightarrow>
                    (case num_of (dget_or d ''expires_in'' (JInt 300)) of
                       None \<Rightarrow> Inl (PyExc ''TypeError'') | Some e \<Rightarrow> Inr (c, e)))
           | _ \<Rightarrow> Inl (PyExc ''TypeError'')))"

text \<open>What one poll comes to: the approval with its token, an error, or the next turn.\<close>

datatype poll_outcome = Approved json | Fails error | Again

definition poll_outcome_of :: "answer \<Rightarrow> poll_outcome" where
  "poll_outcome_of a = (case a of
     NoAnswer e \<Rightarrow> Fails (PyExc ''RequestError'')
   | Answer s b \<Rightarrow>
       if s = 200 then
         (case b of
            JObj d \<Rightarrow>
              (let status = dget_or d ''status'' (JStr ''pending'') in
               if status = JStr ''approved'' then
                 (case (py_item b ''bootstrap_token'', py_item b ''device_id'') of
                    (Inl err, _) \<Rightarrow> Fails err | (_, Inl err) \<Rightarrow> Fails err
                  | (Inr t, Inr i) \<Rightarrow> Approved t)
               else if status = JStr ''denied'' then Fails (PyExc ''PairingDenied'') else Again)
          | _ \<Rightarrow> Fails (PyExc ''AttributeError''))
       else if s = 404 then Fails (PyExc ''PairingExpired'') else Again)"

text \<open>The loop, with the reading of the clock that is next.\<close>

fun poll_loop :: "'w pairing_env \<Rightarrow> json \<Rightarrow> rat \<Rightarrow> nat \<Rightarrow> nat \<Rightarrow> 'w \<Rightarrow> (json res \<times> 'w) option" where
  "poll_loop env c deadline n 0 w = None"
| "poll_loop env c deadline n (Suc fuel) w =
     (if pe_clock env n < deadline then
        (case pe_poll env c (pe_others env n w) of
           (a, w1) \<Rightarrow>
             (case poll_outcome_of a of
                Approved t \<Rightarrow> Some (Inr t, w1)
              | Fails err \<Rightarrow> Some (Inl err, w1)
              | Again \<Rightarrow> poll_loop env c deadline (Suc n) fuel w1))
      else Some (Inl (PyExc ''PairingExpired''), w))"

definition paired_credentials :: "json \<Rightarrow> json \<Rightarrow> string \<Rightarrow> string \<Rightarrow> string \<Rightarrow> string \<Rightarrow> dict" where
  "paired_credentials i token server_url gateway_url name device_type =
     [(''device_id'', i), (''bootstrap_token'', token), (''server_url'', JStr server_url),
      (''gateway_url'', JStr gateway_url), (''device_name'', JStr name), (''device_type'', JStr device_type)]"

text \<open>The registration and the end: a token that is no text cannot be a header.\<close>

definition finish_pairing ::
  "'w pairing_env \<Rightarrow> string \<Rightarrow> string \<Rightarrow> string \<Rightarrow> string \<Rightarrow> json \<Rightarrow> 'w \<Rightarrow> cred_store \<Rightarrow>
     dict res \<times> 'w \<times> cred_store" where
  "finish_pairing env server_url gateway_url name device_type token w cs = (case token of
     JStr t \<Rightarrow>
       (case pe_post env (Register_agent t) (pairing_body env name device_type) w of
          (a, w1) \<Rightarrow>
            (case answered a of
               Inl err \<Rightarrow> (Inl err, w1, cs)
             | Inr reg \<Rightarrow>
                 (case py_item reg ''device_id'' of
                    Inl err \<Rightarrow> (Inl err, w1, cs)
                  | Inr i \<Rightarrow>
                      (case cred_save (pe_creds env)
                              (paired_credentials i token server_url gateway_url name device_type) cs of
                         (r, cs1) \<Rightarrow> (r, w1, cs1)))))
   | _ \<Rightarrow> (Inl (PyExc ''TypeError''), w, cs))"

definition run_pairing ::
  "'w pairing_env \<Rightarrow> string \<Rightarrow> string \<Rightarrow> string \<Rightarrow> string \<Rightarrow> nat \<Rightarrow> 'w \<Rightarrow> cred_store \<Rightarrow>
     (dict res \<times> 'w \<times> cred_store) option" where
  "run_pairing env server_url gateway_url name device_type fuel w cs =
     (case pe_announce env (announce_body name device_type) w of
        (a, w1) \<Rightarrow>
          (case answered a of
             Inl err \<Rightarrow> Some (Inl err, w1, cs)
           | Inr v \<Rightarrow>
               (case read_announcement env v of
                  Inl err \<Rightarrow> Some (Inl err, w1, cs)
                | Inr (c, expires_in) \<Rightarrow>
                    (case poll_loop env c (pe_clock env 0 + expires_in) 1 fuel w1 of
                       None \<Rightarrow> None
                     | Some (Inl err, w2) \<Rightarrow> Some (Inl err, w2, cs)
                     | Some (Inr token, w2) \<Rightarrow>
                         Some (finish_pairing env server_url gateway_url name device_type token w2 cs)))))"

subsection \<open>The device service as the server\<close>

definition parse_announce :: "dict \<Rightarrow> announce_request option" where
  "parse_announce d =
     (case (dget d ''hardware_id'', dget d ''device_type'', opt_str d ''firmware_version'') of
        (JStr hw, JStr t, Some fw) \<Rightarrow>
          Some \<lparr>an_hardware_id = hw, an_device_type = t, an_firmware_version = fw\<rparr>
      | _ \<Rightarrow> None)"

definition post_announce ::
  "device_settings \<Rightarrow> device_env \<Rightarrow> dict \<Rightarrow> device_state \<Rightarrow> answer \<times> device_state" where
  "post_announce cfg env body st = (case parse_announce body of
     None \<Rightarrow> (unprocessable, st)
   | Some r \<Rightarrow>
       (case announce cfg env r st of
          (Inl err, st1) \<Rightarrow> (error_answer err, st1)
        | (Inr x, st1) \<Rightarrow> (Answer 200 (JObj [(''discovery_id'', JStr (ar_discovery_id x)),
             (''device_code'', JStr (ar_device_code x)), (''user_code'', JStr (ar_user_code x)),
             (''verification_uri'', JStr (ar_verification_uri x)), (''expires_in'', JInt (ar_expires_in x)),
             (''poll_interval'', JInt (ar_poll_interval x))]), st1)))"

definition get_poll :: "device_env \<Rightarrow> json \<Rightarrow> device_state \<Rightarrow> answer \<times> device_state" where
  "get_poll env c st = (case c of
     JStr dcode \<Rightarrow>
       (case poll env dcode st of
          (Inl err, st1) \<Rightarrow> (error_answer err, st1)
        | (Inr r, st1) \<Rightarrow> (Answer 200 (JObj [(''status'', JStr (po_status r)),
             (''bootstrap_token'', jstr (po_bootstrap_token r)), (''device_id'', jstr (po_device_id r))]), st1))
   | _ \<Rightarrow> (unprocessable, st))"

end
