(* ===== verification/PairingProperties.thy ===== *)
theory PairingProperties
  imports AgentPairing
begin

text \<open>
  The credentials an agent keeps, and how its pairing ends: the loop of polls returns, and with the
  device service as the server.
\<close>

subsection \<open>Credentials\<close>

text \<open>Whether the TPM takes the credentials.\<close>

definition seals :: "cred_env \<Rightarrow> cred_store \<Rightarrow> bool" where
  "seals env cs \<longleftrightarrow> tp_opens env \<and> (tp_undefines env \<or> cs_index cs = No_index) \<and> tp_defines env \<and> tp_writes env"

definition sealed :: "cred_store \<Rightarrow> dict option" where
  "sealed cs = (case cs_index cs of Sealed d \<Rightarrow> Some d | _ \<Rightarrow> None)"

lemma saved_dict:
  assumes "cred_save env d cs = (Inr d', cs')"
  shows "d' = (if dhas d ''saved_at'' then d else dset d ''saved_at'' (ce_now env))"
  using assms by (auto simp: cred_save_def Let_def split: prod.splits bool.splits sum.splits)

lemma saved_load:
  assumes "cred_save env d cs = (Inr d', cs')"
  shows "cred_load env cs' = (if tp_present env \<and> tp_opens env \<and> \<not> seals env cs
      then if tp_undefines env then None else sealed cs else Some d')"
  using assms
  by (auto simp: cred_save_def cred_load_def tpm_save_def tpm_load_def file_save_def file_load_def seals_def sealed_def
      Let_def split: if_splits nv_index.splits)

text \<open>Saved credentials are stamped and can be loaded again, whichever store took them, unless there is a
  TPM that opens but does not take them: then they are in the file, where \<open>load\<close> does not look, and it
  answers nothing or the older credentials of the TPM. After \<open>clear\<close> the agent is not paired, unless
  the TPM keeps its index.\<close>

theorem credentials_roundtrip:
  assumes "cred_save env d cs = (Inr d', cs')"
  shows "dhas d' ''saved_at'' \<and> (\<forall>k. k \<noteq> ''saved_at'' \<or> dhas d k \<longrightarrow> dget d' k = dget d k)
   \<and> cred_load env cs' = (if tp_present env \<and> tp_opens env \<and> \<not> seals env cs
        then if tp_undefines env then None else sealed cs else Some d')
   \<and> (is_paired env (cred_clear env cs') \<longleftrightarrow> tp_present env \<and> tp_opens env \<and> \<not> tp_undefines env
        \<and> (\<exists>x. sealed cs' = Some x \<and> truthy (dget x ''device_id'')))"
proof -
  have "is_paired env (cred_clear env cs') \<longleftrightarrow> tp_present env \<and> tp_opens env \<and> \<not> tp_undefines env
        \<and> (\<exists>x. sealed cs' = Some x \<and> truthy (dget x ''device_id''))"
    by (auto simp: is_paired_def cred_load_def cred_clear_def tpm_clear_def tpm_load_def file_load_def sealed_def
        split: nv_index.splits)
  then show ?thesis
    unfolding saved_load [OF assms] using saved_dict [OF assms] by (auto simp: dhas_dset dget_dset)
qed

definition demo_cred_env :: cred_env where
  "demo_cred_env = \<lparr>tp_present = True, tp_opens = True, tp_undefines = True, tp_defines = True, tp_writes = False,
     fs_writes = True, ce_now = JIso 0\<rparr>"

text \<open>A TPM whose index is too small for the credentials: saved, and not found again.\<close>

lemma credentials_roundtrip_witness:
  "\<exists>d' cs'. cred_save demo_cred_env [(''device_id'', JStr ''d1'')] \<lparr>cs_index = No_index, cs_file = No_file\<rparr> = (Inr d', cs')
     \<and> cs_file cs' = Cred_file d' \<and> cred_load demo_cred_env cs' = None"
proof -
  obtain d' cs' where s: "cred_save demo_cred_env [(''device_id'', JStr ''d1'')] \<lparr>cs_index = No_index, cs_file = No_file\<rparr>
      = (Inr d', cs')" "cs_file cs' = Cred_file d'"
    by (simp add: cred_save_def tpm_save_def file_save_def demo_cred_env_def Let_def dhas_def)
  from credentials_roundtrip [OF s(1)] s show ?thesis by (simp add: seals_def demo_cred_env_def)
qed

subsection \<open>The loop of polls\<close>

lemma poll_loop_more: "poll_loop env c deadline n fuel w = Some r \<Longrightarrow> fuel \<le> fuel' \<Longrightarrow> poll_loop env c deadline n fuel' w = Some r"
proof (induction fuel arbitrary: n w fuel')
  case (Suc fuel)
  then obtain k where k: "fuel' = Suc k" "fuel \<le> k" by (cases fuel') auto
  then show ?case using Suc.prems(1) Suc.IH [OF _ k(2)]
    by (auto split: if_splits prod.splits poll_outcome.splits)
qed simp

lemma poll_loop_ends:
  fixes d :: rat
  assumes tick: "\<And>k. pe_clock env 0 + of_nat k * d \<le> pe_clock env k"
  shows "deadline \<le> pe_clock env 0 + of_nat (n + fuel) * d \<Longrightarrow> poll_loop env c deadline n (Suc fuel) w \<noteq> None"
proof (induction fuel arbitrary: n w)
  case 0
  then have "\<not> pe_clock env n < deadline" using tick [of n] by simp
  then show ?case by simp
next
  case (Suc fuel)
  have "poll_loop env c deadline (Suc n) (Suc fuel) w' \<noteq> None" for w'
    using Suc.IH [of "Suc n" w'] Suc.prems by simp
  then show ?case by (simp split: prod.split poll_outcome.split del: poll_loop.simps(2)) (simp split: prod.split poll_outcome.split)
qed

lemma poll_loop_returns:
  fixes d :: rat
  assumes tick: "\<And>k. pe_clock env 0 + of_nat k * d \<le> pe_clock env k" and d: "0 < d"
  shows "\<exists>N r w'. \<forall>fuel \<ge> N. poll_loop env c deadline n fuel w = Some (r, w')"
proof -
  obtain m where m: "(deadline - pe_clock env 0) / d < of_nat m" using reals_Archimedean2 by blast
  then have "deadline \<le> pe_clock env 0 + of_nat m * d" using d by (simp add: field_simps)
  also have "\<dots> \<le> pe_clock env 0 + of_nat (n + m) * d" using d by simp
  finally obtain r w' where r: "poll_loop env c deadline n (Suc m) w = Some (r, w')"
    using poll_loop_ends [OF tick, of deadline n m c w] by fastforce
  show ?thesis using poll_loop_more [OF r] by blast
qed

subsection \<open>Pairing\<close>

lemma pairing_body_no_id: "dget (pairing_body env name device_type) ''device_id'' = JNull"
  by (simp add: pairing_body_def dget_def)

lemma finish_pairing_id:
  assumes "pe_post env = device_post api dcfg denv"
    and "finish_pairing env server_url gateway_url name device_type token w cs = (Inr creds, w', cs')"
  shows "\<exists>t i data. token = JStr t \<and> w' = snd (device_post api dcfg denv (Register_agent t) (pairing_body env name device_type) w)
    \<and> dget creds ''device_id'' = JStr i \<and> \<not> device_exists i w \<and> device_exists i w'
    \<and> cred_save (pe_creds env) data cs = (Inr creds, cs')"
proof -
  obtain t where t: "token = JStr t" using assms(2) by (cases token) (simp_all add: finish_pairing_def)
  obtain a w1 where a: "device_post api dcfg denv (Register_agent t) (pairing_body env name device_type) w = (a, w1)"
    by fastforce
  obtain reg v where reg: "answered a = Inr reg" "py_item reg ''device_id'' = Inr v" "w' = w1"
    and save: "cred_save (pe_creds env) (paired_credentials v token server_url gateway_url name device_type) cs = (Inr creds, cs')"
    using assms(2) t a by (auto simp: finish_pairing_def assms(1) split: sum.splits prod.splits)
  obtain i where i: "v = JStr i" "answered_id a = Some i"
    using a reg by (auto simp: device_post_def post_register_def unprocessable_def error_answer_def answered_def
        py_item_def answered_id_def success_def dhas_def dget_def split: option.splits sum.splits prod.splits error.splits
        if_splits)
  have "\<not> device_exists i w \<and> device_exists i w1" by (rule registry.registered_id [OF a i(2) pairing_body_no_id])
  moreover have "dget (paired_credentials v token server_url gateway_url name device_type) ''device_id'' = v"
    by (simp add: paired_credentials_def dget_def)
  then have "dget creds ''device_id'' = JStr i"
    using saved_dict [OF save] i(1) by (simp add: dget_dset)
  ultimately show ?thesis using t a reg(3) save by (intro exI [of _ t] exI [of _ i]) auto
qed

lemma run_pairing_returns:
  fixes d :: rat
  assumes "\<And>k. pe_clock env 0 + of_nat k * d \<le> pe_clock env k" "0 < d"
  shows "\<exists>N r w' cs'. \<forall>fuel \<ge> N. run_pairing env server_url gateway_url name device_type fuel w cs = Some (r, w', cs')"
proof -
  obtain a w1 where a: "pe_announce env (announce_body name device_type) w = (a, w1)" by fastforce
  show ?thesis
  proof (cases "\<exists>v x y. answered a = Inr v \<and> read_announcement env v = Inr (x, y)")
    case True
    then obtain v x y where v: "answered a = Inr v" "read_announcement env v = Inr (x, y)" by blast
    obtain N r w2 where loop: "\<And>fuel. fuel \<ge> N \<Longrightarrow> poll_loop env x (pe_clock env 0 + y) 1 fuel w1 = Some (r, w2)"
      using poll_loop_returns [OF assms, of x "pe_clock env 0 + y" 1 w1] by blast
    define out where "out = (case r of Inl err \<Rightarrow> (Inl err, w2, cs)
      | Inr token \<Rightarrow> finish_pairing env server_url gateway_url name device_type token w2 cs)"
    have "run_pairing env server_url gateway_url name device_type fuel w cs = Some out" if "fuel \<ge> N" for fuel
      using loop [OF that] by (cases r) (simp_all add: run_pairing_def a v out_def)
    then show ?thesis by (cases out) blast
  next
    case False
    then have "\<exists>err. \<forall>fuel. run_pairing env server_url gateway_url name device_type fuel w cs = Some (Inl err, w1, cs)"
      by (cases "answered a"; cases "read_announcement env (projr (answered a))") (auto simp: run_pairing_def a)
    then show ?thesis by blast
  qed
qed

lemma run_pairing_success:
  assumes "pe_post env = device_post api dcfg denv"
    and run: "run_pairing env server_url gateway_url name device_type fuel w cs = Some (Inr creds, w', cs')"
  shows "\<exists>i t before data. w' = snd (device_post api dcfg denv (Register_agent t) (pairing_body env name device_type) before)
    \<and> dget creds ''device_id'' = JStr i \<and> \<not> device_exists i before \<and> device_exists i w'
    \<and> cred_save (pe_creds env) data cs = (Inr creds, cs')"
proof -
  obtain token w2 where "finish_pairing env server_url gateway_url name device_type token w2 cs = (Inr creds, w', cs')"
    using run by (auto simp: run_pairing_def split: prod.splits sum.splits option.splits)
  from finish_pairing_id [OF assms(1) this] show ?thesis by blast
qed

lemma run_pairing_refused:
  assumes "pe_announce env = post_announce dcfg denv"
  shows "run_pairing env server_url gateway_url name device_type fuel w cs
    = Some (Inl (PyExc ''HTTPStatusError''), w, cs)"
proof -
  have "parse_announce (announce_body name device_type) = None"
    by (simp add: parse_announce_def announce_body_def dget_def)
  then show ?thesis
    by (simp add: run_pairing_def assms post_announce_def answered_def unprocessable_def success_def)
qed

text \<open>C32. How pairing ends. When the clock moves on during the sleeps, the loop of polls returns, whatever
  the server answers. If it ends with credentials, and the agent registers at the device service, they
  hold the id of a record this registration made: no device that was there before, so not the one the
  owner approved; and they are the ones saved. And the device service itself refuses every
  announcement of the agent, so pairing with it ends with the error of that answer at once, and
  nothing is changed or stored.\<close>

theorem agent_pairing:
  fixes env :: "device_state pairing_env" and d :: rat
  assumes "\<And>k. pe_clock env 0 + of_nat k * d \<le> pe_clock env k" "0 < d"
    and "pe_post env = device_post api dcfg denv"
  shows "\<exists>N r w' cs'. (\<forall>fuel \<ge> N. run_pairing env server_url gateway_url name device_type fuel w cs = Some (r, w', cs'))
    \<and> (\<forall>creds. r = Inr creds \<longrightarrow>
        (\<exists>i t before data. w' = snd (device_post api dcfg denv (Register_agent t) (pairing_body env name device_type) before)
          \<and> dget creds ''device_id'' = JStr i \<and> \<not> device_exists i before \<and> device_exists i w'
          \<and> cred_save (pe_creds env) data cs = (Inr creds, cs')))
    \<and> (pe_announce env = post_announce dcfg denv \<longrightarrow> (r, w', cs') = (Inl (PyExc ''HTTPStatusError''), w, cs))"
proof -
  obtain N r w' cs' where run:
    "\<And>fuel. fuel \<ge> N \<Longrightarrow> run_pairing env server_url gateway_url name device_type fuel w cs = Some (r, w', cs')"
    using run_pairing_returns [OF assms(1,2)] by blast
  have "\<exists>i t before data. w' = snd (device_post api dcfg denv (Register_agent t) (pairing_body env name device_type) before)
      \<and> dget creds ''device_id'' = JStr i \<and> \<not> device_exists i before \<and> device_exists i w'
      \<and> cred_save (pe_creds env) data cs = (Inr creds, cs')" if "r = Inr creds" for creds
    by (rule run_pairing_success [OF assms(3)]) (use run [of N] that in simp)
  moreover have "(r, w', cs') = (Inl (PyExc ''HTTPStatusError''), w, cs)" if "pe_announce env = post_announce dcfg denv"
    using run_pairing_refused [OF that] run [of N] by simp
  ultimately show ?thesis using run by blast
qed

definition demo_pairing_env :: "device_state pairing_env" where
  "demo_pairing_env = \<lparr>pe_announce = post_announce demo_device_settings (demo_device_env 1),
     pe_poll = get_poll (demo_device_env 1),
     pe_post = device_post \<lparr>ap_uuid = Some, ap_float = (\<lambda>s. None), ap_stamp = (\<lambda>v. None)\<rparr>
       demo_device_settings (demo_device_env 1),
     pe_others = (\<lambda>n w. w), pe_clock = (\<lambda>n. of_nat n * 5), pe_float = (\<lambda>s. None),
     pe_agent_version = ''1.0'', pe_platform = [], pe_poll_interval = 5, pe_creds = demo_cred_env\<rparr>"

lemma agent_pairing_witness:
  "\<exists>N. \<forall>fuel \<ge> N. run_pairing demo_pairing_env ''s'' ''g'' ''pi'' ''linux-agent'' fuel empty_device_state
     \<lparr>cs_index = No_index, cs_file = No_file\<rparr>
   = Some (Inl (PyExc ''HTTPStatusError''), empty_device_state, \<lparr>cs_index = No_index, cs_file = No_file\<rparr>)"
proof -
  let ?api = "\<lparr>ap_uuid = Some, ap_float = (\<lambda>s. None), ap_stamp = (\<lambda>v. None)\<rparr>"
  have tick: "pe_clock demo_pairing_env 0 + of_nat k * 5 \<le> pe_clock demo_pairing_env k" for k
    by (simp add: demo_pairing_env_def)
  have post: "pe_post demo_pairing_env = device_post ?api demo_device_settings (demo_device_env 1)"
    and announce: "pe_announce demo_pairing_env = post_announce demo_device_settings (demo_device_env 1)"
    by (simp_all add: demo_pairing_env_def)
  show ?thesis
    using agent_pairing [OF tick _ post, of "''s''" "''g''" "''pi''" "''linux-agent''" empty_device_state
        "\<lparr>cs_index = No_index, cs_file = No_file\<rparr>"] announce by auto
qed

end
