(* ===== verification/Emulator.thy ===== *)
theory Emulator
  imports Prelude
begin

text \<open>
  The device emulator (\<open>services/nexora-device-emulator/emulator.py\<close>): how a board registers, asks for
  its executions or is pushed them, carries them out and reports. The services it talks to are one
  function on a state of any type \<open>'w\<close>, which answers with JSON or an exception (also for every status
  that is no success); random numbers, delays and the log are left out, an injected failure is a flag
  per execution.
\<close>

datatype board_request =
    Register_board dict
  | Register_session dict
  | Device_heartbeat string
  | Gateway_heartbeat string
  | List_executions
  | Deliver_dispatch json
  | Report json dict
  | Install_module dict
  | Invoke_module json dict

type_synonym 'w net = "board_request \<Rightarrow> 'w \<Rightarrow> json res \<times> 'w"

record board_env =
  be_name :: string
  be_type :: string
  be_fail_rate :: string
  be_injected :: "json \<Rightarrow> bool"
  be_show :: "json \<Rightarrow> string"
  be_text :: "error \<Rightarrow> string"

definition newline :: string where
  "newline = [CHR 0x0A]"

subsection \<open>Registration\<close>

definition register_board :: "'w net \<Rightarrow> board_env \<Rightarrow> 'w \<Rightarrow> json res \<times> 'w" where
  "register_board net env w =
     (case net (Register_board [(''name'', JStr (be_name env)), (''device_type'', JStr (be_type env))]) w of
        (Inl err, w1) \<Rightarrow> (Inl err, w1)
      | (Inr (JObj d), w1) \<Rightarrow>
          (if dhas d ''device_id'' then Inr (dget d ''device_id'') else Inl (PyExc ''KeyError''), w1)
      | (Inr v, w1) \<Rightarrow> (Inl (PyExc ''TypeError''), w1))"

definition register_session :: "'w net \<Rightarrow> board_env \<Rightarrow> json \<Rightarrow> 'w \<Rightarrow> json res \<times> 'w" where
  "register_session net env device_id w =
     net (Register_session [(''device_id'', device_id), (''board_name'', JStr (be_name env)),
       (''type'', JStr (be_type env))]) w"

text \<open>One turn of the loop that repeats both until they work.\<close>

definition launch_turn :: "'w net \<Rightarrow> board_env \<Rightarrow> 'w \<Rightarrow> json res \<times> 'w" where
  "launch_turn net env w = (case register_board net env w of
     (Inl err, w1) \<Rightarrow> (Inl err, w1)
   | (Inr i, w1) \<Rightarrow>
       (case register_session net env i w1 of (Inl err, w2) \<Rightarrow> (Inl err, w2) | (Inr _, w2) \<Rightarrow> (Inr i, w2)))"

definition board_heartbeat :: "'w net \<Rightarrow> string \<Rightarrow> 'w \<Rightarrow> unit res \<times> 'w" where
  "board_heartbeat net device_id w = (case net (Device_heartbeat device_id) w of
     (Inl err, w1) \<Rightarrow> (Inl err, w1)
   | (Inr _, w1) \<Rightarrow>
       (case net (Gateway_heartbeat device_id) w1 of (Inl err, w2) \<Rightarrow> (Inl err, w2) | (Inr _, w2) \<Rightarrow> (Inr (), w2)))"

subsection \<open>Functions\<close>

definition result_of :: "string \<Rightarrow> int \<Rightarrow> string \<Rightarrow> string \<Rightarrow> dict" where
  "result_of status exit_code out err =
     [(''status'', JStr status), (''exit_code'', JInt exit_code), (''stdout'', JStr out), (''stderr'', JStr err)]"

definition install_request :: "dict \<Rightarrow> dict" where
  "install_request plugin =
     [(''id'', dget plugin ''id''), (''name'', dget_or plugin ''name'' (JStr [])),
      (''version'', dget_or plugin ''version'' (JStr ''1.0.0'')),
      (''runtime_type'', dget_or plugin ''runtime_type'' (JStr ''wasm-wasi'')),
      (''artifact_uri'', dget plugin ''artifact_uri''), (''artifact_checksum'', dget plugin ''artifact_checksum''),
      (''entrypoint'', dget_or plugin ''entrypoint'' (JStr ''_start'')),
      (''timeout_seconds'', dget_or plugin ''timeout_seconds'' (JInt 30)),
      (''memory_limit_mb'', dget_or plugin ''memory_limit_mb'' (JInt 64)),
      (''permissions'', dget_or plugin ''permissions'' (JArr []))]"

definition handle_function_install :: "'w net \<Rightarrow> board_env \<Rightarrow> dict \<Rightarrow> 'w \<Rightarrow> dict res \<times> 'w" where
  "handle_function_install net env payload w =
     (case as_object (jor (dget payload ''plugin'') (JObj [])) of
        Inl err \<Rightarrow> (Inr (result_of ''failed'' 1 [] (be_text env err)), w)
      | Inr plugin \<Rightarrow>
          (case net (Install_module (install_request plugin)) w of
             (Inl err, w1) \<Rightarrow> (Inr (result_of ''failed'' 1 [] (be_text env err)), w1)
           | (Inr _, w1) \<Rightarrow>
               (Inr (result_of ''succeeded'' 0 (''installed '' @ py_str (be_show env) (dget plugin ''id'') @ newline) []), w1)))"

definition invoke_failed :: "string \<Rightarrow> dict" where
  "invoke_failed err = [(''status'', JStr ''failed''), (''exit_code'', JInt 1), (''stderr'', JStr err)]"

text \<open>Only the request and the reading of its answer are inside the \<open>try\<close>.\<close>

definition handle_function_invoke :: "'w net \<Rightarrow> board_env \<Rightarrow> dict \<Rightarrow> 'w \<Rightarrow> dict res \<times> 'w" where
  "handle_function_invoke net env payload w =
     (case as_object (jor (dget payload ''plugin'') (JObj [])) of
        Inl err \<Rightarrow> (Inl err, w)
      | Inr plugin \<Rightarrow>
          let function_id = dget plugin ''id'' in
          if \<not> truthy function_id then (Inr (invoke_failed ''missing plugin id in dispatch payload''), w)
          else
            (case net (Invoke_module function_id
                    [(''args'', jor (dget payload ''args'') (JObj [])),
                     (''entrypoint'', dget_or plugin ''entrypoint'' (JStr ''_start''))]) w of
               (Inl err, w1) \<Rightarrow> (Inr (invoke_failed (be_text env err) @ [(''function_result'', JNull)]), w1)
             | (Inr v, w1) \<Rightarrow>
                 (case as_object v of
                    Inl err \<Rightarrow> (Inr (invoke_failed (be_text env err) @ [(''function_result'', JNull)]), w1)
                  | Inr resp \<Rightarrow>
                      (Inr [(''status'', JStr ''succeeded''), (''exit_code'', dget_or resp ''exit_code'' (JInt 0)),
                            (''stdout'', dget_or resp ''stdout'' (JStr [])), (''stderr'', dget_or resp ''stderr'' (JStr [])),
                            (''function_result'', dget resp ''function_result'')], w1))))"

subsection \<open>Executions\<close>

definition carry_out :: "'w net \<Rightarrow> board_env \<Rightarrow> json \<Rightarrow> json \<Rightarrow> dict \<Rightarrow> 'w \<Rightarrow> dict res \<times> 'w" where
  "carry_out net env execution_id exec_type payload w =
     (if be_injected env execution_id
      then (Inr (result_of ''failed'' 1 [] (''injected failure (fail_rate='' @ be_fail_rate env @ '')'')), w)
      else if exec_type = JStr ''function.install'' then handle_function_install net env payload w
      else if exec_type = JStr ''function.invoke'' then handle_function_invoke net env payload w
      else (Inr (result_of ''succeeded'' 0 (''ok from '' @ be_name env @ newline) []), w))"

definition final_report :: "dict \<Rightarrow> dict" where
  "final_report result = filter (\<lambda>(k, v). v \<noteq> JNull) result"

definition running_report :: dict where
  "running_report = [(''status'', JStr ''running'')]"

text \<open>An execution of the list: delivered through the gateway, whose error ends it; the other
  requests raise.\<close>

definition handle_execution :: "'w net \<Rightarrow> board_env \<Rightarrow> dict \<Rightarrow> 'w \<Rightarrow> unit res \<times> 'w" where
  "handle_execution net env execution w =
     (if \<not> dhas execution ''id'' then (Inl (PyExc ''KeyError''), w)
      else if dget execution ''status'' \<notin> {JStr ''dispatched'', JStr ''queued''} then (Inr (), w)
      else
        let i = dget execution ''id'' in
        case net (Deliver_dispatch i) w of
          (Inl err, w1) \<Rightarrow> (Inr (), w1)
        | (Inr resp, w1) \<Rightarrow>
            (case as_object resp of
               Inl err \<Rightarrow> (Inl err, w1)
             | Inr d \<Rightarrow>
                 (case as_object (jor (dget d ''payload'') (JObj execution)) of
                    Inl err \<Rightarrow> (Inl err, w1)
                  | Inr payload \<Rightarrow>
                      let exec_type = jor (dget payload ''execution_type'')
                            (dget_or execution ''execution_type'' (JStr ''command'')) in
                      case net (Report i running_report) w1 of
                        (Inl err, w2) \<Rightarrow> (Inl err, w2)
                      | (Inr _, w2) \<Rightarrow>
                          (case carry_out net env i exec_type payload w2 of
                             (Inl err, w3) \<Rightarrow> (Inl err, w3)
                           | (Inr result, w3) \<Rightarrow>
                               (case net (Report i (final_report result)) w3 of
                                  (Inl err, w4) \<Rightarrow> (Inl err, w4) | (Inr _, w4) \<Rightarrow> (Inr (), w4))))))"

text \<open>An execution pushed over the WebSocket: what is sent there, and the outcome.\<close>

definition ack_message :: "json \<Rightarrow> dict" where
  "ack_message i = [(''type'', JStr ''ack''), (''execution_id'', i)]"

definition handle_execution_ws :: "'w net \<Rightarrow> board_env \<Rightarrow> bool \<Rightarrow> dict \<Rightarrow> 'w \<Rightarrow> dict list \<times> unit res \<times> 'w" where
  "handle_execution_ws net env ws_ok msg w =
     (let i = dget_or msg ''execution_id'' (JStr []) in
      case as_object (dget_or msg ''payload'' (JObj [])) of
        Inl err \<Rightarrow> ([], Inl err, w)
      | Inr payload \<Rightarrow>
          let exec_type = dget_or payload ''execution_type'' (JStr ''command'');
              w1 = snd (net (Report i running_report) w)
          in case carry_out net env i exec_type payload w1 of
               (Inl err, w2) \<Rightarrow> ([], Inl err, w2)
             | (Inr result, w2) \<Rightarrow>
                 (if ws_ok then [ack_message i] else [], Inr (), snd (net (Report i (final_report result)) w2)))"

definition ws_message :: "'w net \<Rightarrow> board_env \<Rightarrow> bool \<Rightarrow> json \<Rightarrow> 'w \<Rightarrow> dict list \<times> unit res \<times> 'w" where
  "ws_message net env ws_ok v w = (case as_object v of
     Inl err \<Rightarrow> ([], Inl err, w)
   | Inr msg \<Rightarrow>
       if dget msg ''type'' = JStr ''control'' then handle_execution_ws net env ws_ok msg w
       else if dget msg ''type'' = JStr ''ping''
       then (if ws_ok then ([[(''type'', JStr ''pong'')]], Inr (), w) else ([], Inl (PyExc ''ConnectionClosed''), w))
       else ([], Inr (), w))"

subsection \<open>The loop that polls\<close>

fun handle_all :: "'w net \<Rightarrow> board_env \<Rightarrow> string \<Rightarrow> json list \<Rightarrow> 'w \<Rightarrow> unit res \<times> 'w" where
  "handle_all net env device_id [] w = (Inr (), w)"
| "handle_all net env device_id (v # vs) w = (case as_object v of
     Inl err \<Rightarrow> (Inl err, w)
   | Inr execution \<Rightarrow>
       if dget execution ''device_id'' = JStr device_id
       then (case handle_execution net env execution w of
               (Inl err, w1) \<Rightarrow> (Inl err, w1)
             | (Inr _, w1) \<Rightarrow> handle_all net env device_id vs w1)
       else handle_all net env device_id vs w)"

definition list_items :: "json \<Rightarrow> json list res" where
  "list_items v = (case as_object v of
     Inl err \<Rightarrow> Inl err
   | Inr d \<Rightarrow> (case dget_or d ''items'' (JArr []) of JArr xs \<Rightarrow> Inr xs | _ \<Rightarrow> Inl (PyExc ''TypeError'')))"

text \<open>One turn: a heartbeat when it is due, then the executions of the board; an exception ends the turn.\<close>

definition board_turn :: "'w net \<Rightarrow> board_env \<Rightarrow> string \<Rightarrow> bool \<Rightarrow> 'w \<Rightarrow> unit res \<times> 'w" where
  "board_turn net env device_id due w =
     (case (if due then board_heartbeat net device_id w else (Inr (), w)) of
        (Inl err, w1) \<Rightarrow> (Inl err, w1)
      | (Inr _, w1) \<Rightarrow>
          (case net List_executions w1 of
             (Inl err, w2) \<Rightarrow> (Inl err, w2)
           | (Inr v, w2) \<Rightarrow>
               (case list_items v of Inl err \<Rightarrow> (Inl err, w2) | Inr xs \<Rightarrow> handle_all net env device_id xs w2)))"

end
