(* ===== verification/EmulatorProperties.thy ===== *)
theory EmulatorProperties
  imports Emulator Callbacks FunctionRuntime
begin

text \<open>
  A board of the emulator beside the execution service and the function runtime: its reports are the
  callbacks of the one, its functions run in the other; the requests to other services are a parameter
  that leaves both alone.
\<close>

subsection \<open>The platform\<close>

type_synonym platform = "exec_state \<times> function_state"

definition runtime_call ::
  "function_cfg \<Rightarrow> (function_state \<Rightarrow> dict res \<times> function_state) \<Rightarrow> platform \<Rightarrow> json res \<times> platform" where
  "runtime_call fcfg f w = (case require_api_key fcfg [] of
     Inl err \<Rightarrow> (Inl err, w)
   | Inr _ \<Rightarrow> (case f (snd w) of (r, fs) \<Rightarrow> (map_sum id JObj r, (fst w, fs))))"

definition platform_net ::
  "exec_cfg \<Rightarrow> exec_env \<Rightarrow> string \<Rightarrow> function_cfg \<Rightarrow> function_env \<Rightarrow> (board_request \<Rightarrow> json res) \<Rightarrow> platform net" where
  "platform_net cfg xenv token fcfg fenv rest r w = (case r of
     Report (JStr i) b \<Rightarrow> (case callback_execution cfg xenv None (Some token) i b (fst w) of
        (x, st) \<Rightarrow> (map_sum id JObj x, (st, snd w)))
   | Install_module d \<Rightarrow> runtime_call fcfg (install_function fcfg fenv d) w
   | Invoke_module (JStr f) d \<Rightarrow> runtime_call fcfg (invoke_installed fcfg fenv f d) w
   | _ \<Rightarrow> (rest r, w))"

lemma runtime_call_exec: "fst (snd (runtime_call fcfg f w)) = fst w"
  by (simp add: runtime_call_def split: sum.split prod.split)

lemma platform_exec:
  assumes "\<And>i b. r \<noteq> Report i b"
  shows "fst (snd (platform_net cfg xenv token fcfg fenv rest r w)) = fst w"
  using assms by (cases r) (auto simp: platform_net_def runtime_call_exec split: json.split)

lemma platform_report:
  "snd (platform_net cfg xenv token fcfg fenv rest (Report (JStr i) b) w)
     = (snd (callback_execution cfg xenv None (Some token) i b (fst w)), snd w)"
  by (simp add: platform_net_def split: prod.split)

subsection \<open>What is carried out\<close>

text \<open>A result that is reported: only fields a callback may have, and a final status.\<close>

definition reportable :: "string \<Rightarrow> dict \<Rightarrow> bool" where
  "reportable s r \<longleftrightarrow> fst ` set (final_report r) \<subseteq> set callback_allowed_fields
     \<and> dget (final_report r) ''status'' = JStr s \<and> s \<in> {''succeeded'', ''failed''}
     \<and> dget (final_report r) ''callback_key'' = JNull"

lemma reportable_results:
  "s \<in> {''succeeded'', ''failed''} \<Longrightarrow> reportable s (result_of s c out err)"
  "reportable ''failed'' (invoke_failed err)"
  "reportable ''failed'' (invoke_failed err @ [(''function_result'', JNull)])"
  "reportable ''succeeded'' [(''status'', JStr ''succeeded''), (''exit_code'', a), (''stdout'', b), (''stderr'', c'),
     (''function_result'', r)]"
  by (auto simp: reportable_def result_of_def invoke_failed_def final_report_def callback_allowed_fields_def dget_def)

definition plugin_of :: "dict \<Rightarrow> dict" where
  "plugin_of p = (case jor (dget p ''plugin'') (JObj []) of JObj d \<Rightarrow> d | _ \<Rightarrow> [])"

definition invoke_body :: "dict \<Rightarrow> dict" where
  "invoke_body p = [(''args'', jor (dget p ''args'') (JObj [])),
     (''entrypoint'', dget_or (plugin_of p) ''entrypoint'' (JStr ''_start''))]"

text \<open>What the runtime answers, and the status that follows.\<close>

definition runtime_answer :: "'w net \<Rightarrow> json \<Rightarrow> dict \<Rightarrow> 'w \<Rightarrow> json res" where
  "runtime_answer net t p w =
     (if t = JStr ''function.install'' then fst (net (Install_module (install_request (plugin_of p))) w)
      else fst (net (Invoke_module (dget (plugin_of p) ''id'') (invoke_body p)) w))"

definition board_status :: "'w net \<Rightarrow> board_env \<Rightarrow> json \<Rightarrow> json \<Rightarrow> dict \<Rightarrow> 'w \<Rightarrow> string" where
  "board_status net env i t p w =
     (if be_injected env i then ''failed''
      else if t = JStr ''function.install''
      then if is_ok (runtime_answer net t p w) then ''succeeded'' else ''failed''
      else if t = JStr ''function.invoke''
      then if truthy (dget (plugin_of p) ''id'') \<and> (\<exists>d. runtime_answer net t p w = Inr (JObj d))
           then ''succeeded'' else ''failed''
      else ''succeeded'')"

lemma plugin_object:
  assumes "dget p ''plugin'' = JNull \<or> (\<exists>d. dget p ''plugin'' = JObj d)"
  shows "as_object (jor (dget p ''plugin'') (JObj [])) = Inr (plugin_of p)"
  using assms by (auto simp: plugin_of_def jor_def)

lemma carry_out_reportable:
  assumes plugin: "dget p ''plugin'' = JNull \<or> (\<exists>d. dget p ''plugin'' = JObj d)"
  shows "\<exists>r w'. carry_out net env i t p w = (Inr r, w') \<and> reportable (board_status net env i t p w) r
    \<and> (t = JStr ''function.invoke'' \<and> \<not> be_injected env i \<and> truthy (dget (plugin_of p) ''id'') \<longrightarrow>
        (\<forall>d n. runtime_answer net t p w = Inr (JObj d) \<and> dget d ''exit_code'' = JInt n \<longrightarrow>
           dhas (final_report r) ''exit_code'' \<and> dget (final_report r) ''exit_code'' = JInt n))"
proof -
  note plugin = plugin_object [OF plugin]
  have code: "dget_or d ''exit_code'' (JInt 0) = JInt n" if "dget d ''exit_code'' = JInt n" for d n
    using that by (auto simp: dget_or_def dget_def split: option.splits)
  show ?thesis
  proof (cases "\<not> be_injected env i \<and> t = JStr ''function.invoke'' \<and> truthy (dget (plugin_of p) ''id'')")
    case True
    obtain a w1 where a: "net (Invoke_module (dget (plugin_of p) ''id'') (invoke_body p)) w = (a, w1)" by fastforce
    then have answer: "runtime_answer net t p w = a" using True by (simp add: runtime_answer_def)
    note invoke = handle_function_invoke_def plugin a [unfolded invoke_body_def]
    show ?thesis
    proof (cases "\<exists>d. a = Inr (JObj d)")
      case obj: True
      then obtain d where d: "a = Inr (JObj d)" by blast
      let ?r = "[(''status'', JStr ''succeeded''), (''exit_code'', dget_or d ''exit_code'' (JInt 0)),
        (''stdout'', dget_or d ''stdout'' (JStr [])), (''stderr'', dget_or d ''stderr'' (JStr [])),
        (''function_result'', dget d ''function_result'')]"
      have "carry_out net env i t p w = (Inr ?r, w1)" using True d by (simp add: carry_out_def invoke)
      moreover have "board_status net env i t p w = ''succeeded''" using True answer d by (simp add: board_status_def)
      moreover have "dhas (final_report ?r) ''exit_code'' \<and> dget (final_report ?r) ''exit_code'' = JInt n"
        if "dget d ''exit_code'' = JInt n" for n
        unfolding code [OF that] by (simp add: final_report_def dhas_def dget_def)
      ultimately show ?thesis using reportable_results(4) answer d by auto
    next
      case False
      have "carry_out net env i t p w = (Inr (invoke_failed (be_text env err) @ [(''function_result'', JNull)]), w1)"
        if "a = Inl err \<or> (\<exists>v. a = Inr v \<and> as_object v = Inl err)" for err
        using True that by (auto simp: carry_out_def invoke)
      moreover have "\<exists>err. a = Inl err \<or> (\<exists>v. a = Inr v \<and> as_object v = Inl err)"
        using False by (cases a) (auto simp: as_object_def split: json.split)
      moreover have "board_status net env i t p w = ''failed''" using True False answer by (simp add: board_status_def)
      ultimately show ?thesis using reportable_results(3) False answer by auto
    qed
  next
    case False
    then show ?thesis
      using reportable_results(1,2)
      by (auto simp: carry_out_def board_status_def handle_function_invoke_def handle_function_install_def plugin
          runtime_answer_def split: prod.split sum.split)
  qed
qed

subsection \<open>Reports\<close>

lemma platform_runtime:
  assumes "snd w = snd w'"
  shows "runtime_answer (platform_net cfg xenv token fcfg fenv rest) t p w
    = runtime_answer (platform_net cfg xenv token fcfg fenv rest) t p w'"
  using assms by (simp add: runtime_answer_def platform_net_def runtime_call_def split: sum.split prod.split json.split)

lemma platform_status:
  assumes "snd w = snd w'"
  shows "board_status (platform_net cfg xenv token fcfg fenv rest) env i t p w
    = board_status (platform_net cfg xenv token fcfg fenv rest) env i t p w'"
  by (simp add: board_status_def platform_runtime [OF assms])

lemma carry_out_exec:
  assumes "carry_out (platform_net cfg xenv token fcfg fenv rest) env i t p w = (r, w')"
  shows "fst w' = fst w"
proof -
  have "fst w1 = fst w" if "platform_net cfg xenv token fcfg fenv rest q w = (a, w1)" "\<And>i b. q \<noteq> Report i b" for q a w1
    using platform_exec [OF that(2), where w = w] that(1) by (metis snd_conv)
  then show ?thesis using assms
    by (auto simp: carry_out_def handle_function_install_def handle_function_invoke_def Let_def
        split: if_splits sum.splits prod.splits)
qed

text \<open>A board that is pushed a dispatched execution acknowledges it at the gateway in every case. Where the
  callbacks need a key, the board has none: the execution stays dispatched. Otherwise it ends succeeded,
  unless a failure was injected or the request to the function runtime raised; in particular a function
  that the runtime ran ends succeeded with the exit code of the run, whatever that is.\<close>

theorem emulator_reports:
  fixes st :: exec_state and fs :: function_state and cfg :: exec_cfg and xenv :: exec_env and token :: string
    and fcfg :: function_cfg and fenv :: function_env and rest :: "board_request \<Rightarrow> json res"
  defines "net \<equiv> platform_net cfg xenv token fcfg fenv rest"
  assumes row: "tbl_get ex_id i (executions st) = Some e" "ex_status e = ''dispatched''"
    and msg: "dget msg ''type'' = JStr ''control''" "dget msg ''execution_id'' = JStr i" "dget msg ''payload'' = JObj p"
    and plugin: "dget p ''plugin'' = JNull \<or> (\<exists>d. dget p ''plugin'' = JObj d)"
    and t: "t = dget_or p ''execution_type'' (JStr ''command'')"
  shows "\<exists>st' fs'. ws_message net env ws_ok (JObj msg) (st, fs)
      = (if ws_ok then [ack_message (JStr i)] else [], Inr (), (st', fs'))
    \<and> (agent_callback_secret cfg \<noteq> [] \<longrightarrow> st' = st)
    \<and> (agent_callback_secret cfg = []
        \<and> is_ok (require_internal_or_bootstrap (internal cfg) (now xenv) None (Some token)) \<longrightarrow>
       (\<exists>e'. tbl_get ex_id i (executions st') = Some e'
          \<and> ex_status e' = board_status net env (JStr i) t p (st, fs)
          \<and> (t = JStr ''function.invoke'' \<and> \<not> be_injected env (JStr i) \<and> truthy (dget (plugin_of p) ''id'') \<longrightarrow>
              (\<forall>d n. runtime_answer net t p (st, fs) = Inr (JObj d) \<and> dget d ''exit_code'' = JInt n \<longrightarrow>
                 ex_status e' = ''succeeded'' \<and> ex_exit_code e' = JInt n))))"
proof -
  have get: "dget_or msg ''execution_id'' (JStr []) = JStr i" "dget_or msg ''payload'' (JObj []) = JObj p"
    using msg by (auto simp: dget_def dget_or_def split: option.splits)
  let ?run = "snd (callback_execution cfg xenv None (Some token) i running_report st)"
  let ?s = "board_status net env (JStr i) t p (st, fs)"
  have same: "board_status net env (JStr i) t p (?run, fs) = ?s"
    "runtime_answer net t p (?run, fs) = runtime_answer net t p (st, fs)"
    unfolding net_def by (rule platform_status, simp, rule platform_runtime, simp)
  obtain r w' where r: "carry_out net env (JStr i) t p (?run, fs) = (Inr r, w')" "reportable ?s r"
    and code: "t = JStr ''function.invoke'' \<and> \<not> be_injected env (JStr i) \<and> truthy (dget (plugin_of p) ''id'') \<longrightarrow>
        (\<forall>d n. runtime_answer net t p (st, fs) = Inr (JObj d) \<and> dget d ''exit_code'' = JInt n \<longrightarrow>
           dhas (final_report r) ''exit_code'' \<and> dget (final_report r) ''exit_code'' = JInt n)"
    using carry_out_reportable [OF plugin, of net env "JStr i" t "(?run, fs)"] unfolding same by blast
  have "fst w' = ?run" using carry_out_exec [OF r(1) [unfolded net_def]] by simp
  then obtain fs' where w': "w' = (?run, fs')" by (cases w') auto
  let ?st' = "snd (callback_execution cfg xenv None (Some token) i (final_report r) ?run)"
  have run: "ws_message net env ws_ok (JObj msg) (st, fs)
      = (if ws_ok then [ack_message (JStr i)] else [], Inr (), (?st', fs'))"
    using r(1) w' by (simp add: ws_message_def msg(1) handle_execution_ws_def get t [symmetric] Let_def net_def platform_report)
  have "?st' = st" if "agent_callback_secret cfg \<noteq> []"
    using r(2) callback_needs_key [OF that] by (simp add: reportable_def running_report_def dget_def)
  moreover have "\<exists>e'. tbl_get ex_id i (executions ?st') = Some e' \<and> ex_status e' = ?s
      \<and> ex_exit_code e' = (if dhas (final_report r) ''exit_code'' then dget (final_report r) ''exit_code'' else ex_exit_code e)"
    if auth: "agent_callback_secret cfg = []" "is_ok (require_internal_or_bootstrap (internal cfg) (now xenv) None (Some token))"
  proof -
    have b1: "fst ` set running_report \<subseteq> set callback_allowed_fields" "dget running_report ''status'' = JStr ''running''"
      by (simp_all add: running_report_def callback_allowed_fields_def dget_def)
    have b2: "fst ` set (final_report r) \<subseteq> set callback_allowed_fields" "dget (final_report r) ''status'' = JStr ?s"
      "?s \<in> {''succeeded'', ''failed''}" using r(2) by (simp_all add: reportable_def)
    show ?thesis unfolding running_then_final [OF auth(2,1) row b1 b2]
      by (simp add: apply_callback_def running_report_def dhas_def)
  qed
  moreover have "?s = ''succeeded''" if "t = JStr ''function.invoke''" "\<not> be_injected env (JStr i)"
      "truthy (dget (plugin_of p) ''id'')" "runtime_answer net t p (st, fs) = Inr (JObj d)" for d
    using that by (simp add: board_status_def)
  ultimately show ?thesis using run code by (intro exI [of _ ?st'] exI [of _ fs'] conjI) (auto simp del: split_paired_Ex)
qed

text \<open>A function that traps ends succeeded, with exit code 1.\<close>

definition demo_trapping :: function_env where
  "demo_trapping = demo_function_env\<lparr>fe_wasmtime := Some (\<lambda>b p a m q. Ended [] [] (Some ''unreachable''))\<rparr>"

definition demo_installed :: function_state where
  "demo_installed = \<lparr>fs_files = [(''f.wasm'', Bytes ''b'')], fs_installed = [(JStr ''f'', [(''id'', JStr ''f'')])]\<rparr>"

definition demo_board :: board_env where
  "demo_board = \<lparr>be_name = ''b'', be_type = ''t'', be_fail_rate = ''0.0'', be_injected = (\<lambda>i. False),
     be_show = (\<lambda>v. []), be_text = (\<lambda>e. [])\<rparr>"

definition demo_control :: dict where
  "demo_control = [(''type'', JStr ''control''), (''execution_id'', JStr []), (''payload'', JObj
     [(''execution_type'', JStr ''function.invoke''), (''plugin'', JObj [(''id'', JStr ''f'')])])]"

lemma emulator_reports_witness:
  "\<exists>st' fs' e'. ws_message (platform_net demo_cfg demo_env [] demo_function_cfg demo_trapping (\<lambda>r. Inl (PyExc [])))
      demo_board True (JObj demo_control) (demo_dispatched, demo_installed)
      = ([ack_message (JStr [])], Inr (), (st', fs'))
    \<and> tbl_get ex_id [] (executions st') = Some e' \<and> ex_status e' = ''succeeded'' \<and> ex_exit_code e' = JInt 1"
proof -
  let ?net = "platform_net demo_cfg demo_env [] demo_function_cfg demo_trapping (\<lambda>r. Inl (PyExc []))"
  let ?p = "[(''execution_type'', JStr ''function.invoke''), (''plugin'', JObj [(''id'', JStr ''f'')])]"
  have msg: "dget demo_control ''type'' = JStr ''control''" "dget demo_control ''execution_id'' = JStr []"
    "dget demo_control ''payload'' = JObj ?p" by (simp_all add: demo_control_def dget_def)
  have plugin: "dget ?p ''plugin'' = JNull \<or> (\<exists>d. dget ?p ''plugin'' = JObj d)" by (simp add: dget_def)
  have t: "JStr ''function.invoke'' = dget_or ?p ''execution_type'' (JStr ''command'')" by (simp add: dget_or_def)
  have id: "plugin_of ?p = [(''id'', JStr ''f'')]" by (simp add: plugin_of_def jor_def dget_def)
  have answer: "\<exists>d. runtime_answer ?net (JStr ''function.invoke'') ?p (demo_dispatched, demo_installed) = Inr (JObj d)
      \<and> dget d ''exit_code'' = JInt 1"
    by (simp add: runtime_answer_def id dget_def platform_net_def runtime_call_def require_api_key_def
        demo_function_cfg_def demo_installed_def invoke_installed_def installed_fn_def wasm_path_def execute_wasm_def
        demo_trapping_def run_result_def plus_one_def dget_or_def Let_def)
  have "is_ok (require_internal_or_bootstrap (internal demo_cfg) (now demo_env) None (Some []))"
    using demo_callback_open by (simp add: demo_cfg_def require_internal_or_bootstrap_def valid_internal_key_def)
  moreover have "truthy (dget (plugin_of ?p) ''id'')" "\<not> be_injected demo_board (JStr [])"
    by (simp_all add: id dget_def demo_board_def)
  ultimately show ?thesis
    using emulator_reports [OF demo_dispatched_row(1,2) msg plugin t, of demo_cfg demo_env "[]" demo_function_cfg
        demo_trapping "\<lambda>r. Inl (PyExc [])" demo_board True demo_installed] answer demo_callback_open(1) by auto
qed

end
