(* ===== verification/CommonLib.thy ===== *)
theory CommonLib
  imports Prelude
begin

text \<open>
  Parts of the common library (\<open>libraries/common\<close>) that no service state hangs on: the health checker
  (\<open>health/health_checker.py\<close>), the error classes (\<open>errors/exceptions.py\<close>), the event bus client
  (\<open>events/event_bus.py\<close>) with the contracts and the key store beside it, the Redis cache client
  (\<open>cache/cache.py\<close>), the policy evaluator, tenancy and versioning. Redis, the brokers, JSON texts
  and the outcomes of check functions are parameters.
\<close>

subsection \<open>Health checks\<close>

text \<open>How a check function ends, within its time or not.\<close>

datatype check_run = Returned json | Timed_out | Raised string

record health_check =
  hk_name :: string
  hk_critical :: bool
  hk_timeout :: int
  hk_outcome :: check_run

definition verdict :: "string \<Rightarrow> string \<Rightarrow> dict" where
  "verdict status message = [(''status'', JStr status), (''message'', JStr message)]"

definition run_check :: "(json \<Rightarrow> string) \<Rightarrow> health_check \<Rightarrow> dict" where
  "run_check shown c = (case hk_outcome c of
     Timed_out \<Rightarrow> verdict ''unhealthy'' (''Health check timed out after '' @ show_int (hk_timeout c) @ ''s'')
   | Raised e \<Rightarrow> verdict ''unhealthy'' e
   | Returned v \<Rightarrow>
       (case v of
          JBool b \<Rightarrow> if b then verdict ''healthy'' ''OK'' else verdict ''unhealthy'' ''Check failed''
        | JObj d \<Rightarrow> d
        | _ \<Rightarrow> verdict ''healthy'' (py_str shown v)))"

text \<open>The loop of \<open>check_all\<close>, with the results and the overall status so far.\<close>

fun check_loop :: "(json \<Rightarrow> string) \<Rightarrow> health_check list \<Rightarrow> dict \<Rightarrow> string \<Rightarrow> (dict \<times> string) res" where
  "check_loop shown [] results overall = Inr (results, overall)"
| "check_loop shown (c # cs) results overall =
     (let result = run_check shown c; results1 = dset results (hk_name c) (JObj result) in
      if \<not> dhas result ''status'' then Inl (PyExc ''KeyError'')
      else if dget result ''status'' = JStr ''unhealthy''
      then check_loop shown cs results1 (if hk_critical c then ''unhealthy'' else ''degraded'')
      else check_loop shown cs results1 overall)"

definition check_all :: "(json \<Rightarrow> string) \<Rightarrow> health_check list \<Rightarrow> dict res" where
  "check_all shown cs = map_sum id (\<lambda>(results, overall). [(''status'', JStr overall), (''checks'', JObj results)])
     (check_loop shown cs [] ''healthy'')"

definition check_named :: "(json \<Rightarrow> string) \<Rightarrow> string \<Rightarrow> health_check list \<Rightarrow> dict option" where
  "check_named shown name cs = map_option (run_check shown) (find (\<lambda>c. hk_name c = name) cs)"

definition check_health :: "(json \<Rightarrow> string) \<Rightarrow> health_check list option \<Rightarrow> health_check list option \<Rightarrow> dict res" where
  "check_health shown checks checker = (case checker of
     Some cs \<Rightarrow> check_all shown cs
   | None \<Rightarrow> (case checks of
       Some (c # cs) \<Rightarrow> check_all shown (c # cs)
     | _ \<Rightarrow> Inr (verdict ''healthy'' ''Service is running'')))"

subsection \<open>Errors\<close>

datatype nxr_error =
    Nxr_error string "string option" "dict option"
  | Validation_error string "string option" "dict option"
  | Not_found_error string "string option"
  | Conflict_error string "string option" "dict option"
  | Unauthorized_error string
  | Forbidden_error string
  | Database_error string "string option"
  | External_service_error string string

definition with_field :: "string \<Rightarrow> string option \<Rightarrow> dict option \<Rightarrow> dict" where
  "with_field k v details =
     (let d = (case details of None \<Rightarrow> [] | Some d \<Rightarrow> d) in if nonempty v then dset d k (jstr v) else d)"

definition error_message :: "nxr_error \<Rightarrow> string" where
  "error_message e = (case e of
     Nxr_error m c d \<Rightarrow> m | Validation_error m f d \<Rightarrow> m
   | Not_found_error t i \<Rightarrow> t @ '' not found'' @ (if nonempty i then '': '' @ fstr i else [])
   | Conflict_error m t d \<Rightarrow> m | Unauthorized_error m \<Rightarrow> m | Forbidden_error m \<Rightarrow> m
   | Database_error m p \<Rightarrow> m | External_service_error s m \<Rightarrow> m)"

definition error_code :: "nxr_error \<Rightarrow> string" where
  "error_code e = (case e of
     Nxr_error m c d \<Rightarrow> sor c ''NxrError'' | Validation_error m f d \<Rightarrow> ''VALIDATION_ERROR''
   | Not_found_error t i \<Rightarrow> ''NOT_FOUND'' | Conflict_error m t d \<Rightarrow> ''CONFLICT''
   | Unauthorized_error m \<Rightarrow> ''UNAUTHORIZED'' | Forbidden_error m \<Rightarrow> ''FORBIDDEN''
   | Database_error m p \<Rightarrow> ''DATABASE_ERROR'' | External_service_error s m \<Rightarrow> ''EXTERNAL_SERVICE_ERROR'')"

definition error_details :: "nxr_error \<Rightarrow> dict" where
  "error_details e = (case e of
     Nxr_error m c d \<Rightarrow> (case d of None \<Rightarrow> [] | Some x \<Rightarrow> x)
   | Validation_error m f d \<Rightarrow> with_field ''field'' f d
   | Not_found_error t i \<Rightarrow> [(''resource_type'', JStr t), (''resource_id'', jstr i)]
   | Conflict_error m t d \<Rightarrow> with_field ''resource_type'' t d
   | Unauthorized_error m \<Rightarrow> [] | Forbidden_error m \<Rightarrow> []
   | Database_error m p \<Rightarrow> (if nonempty p then [(''operation'', jstr p)] else [])
   | External_service_error s m \<Rightarrow> [(''service_name'', JStr s)])"

definition error_to_dict :: "nxr_error \<Rightarrow> dict" where
  "error_to_dict e = [(''error'', JObj [(''code'', JStr (error_code e)), (''message'', JStr (error_message e)),
     (''details'', JObj (error_details e))])]"

definition error_status :: "nxr_error \<Rightarrow> nat" where
  "error_status e = (case e of
     Validation_error m f d \<Rightarrow> 422 | Not_found_error t i \<Rightarrow> 404 | Conflict_error m t d \<Rightarrow> 409
   | Unauthorized_error m \<Rightarrow> 401 | Forbidden_error m \<Rightarrow> 403 | _ \<Rightarrow> 500)"

definition to_http_exception :: "nxr_error \<Rightarrow> error" where
  "to_http_exception e = Http (error_status e) [JObj (error_to_dict e)]"

subsection \<open>Events\<close>

datatype bus_type = Kafka | Nats

text \<open>\<open>eb_producer\<close> is the Kafka producer, \<open>eb_client\<close> the NATS client; \<open>eb_connected\<close> the flag of the
  object.\<close>

record bus_client =
  eb_type :: bus_type
  eb_prefix :: string
  eb_connected :: bool
  eb_producer :: bool
  eb_client :: bool
  eb_sent :: "(string \<times> dict) list"

text \<open>The outcome of starting the client or of sending: an exception or not.\<close>

definition eb_connect :: "string option \<Rightarrow> bus_client \<Rightarrow> unit res \<times> bus_client" where
  "eb_connect failure st = (case failure of
     Some e \<Rightarrow> (Inl (PyExc e), if eb_type st = Kafka then st\<lparr>eb_producer := True\<rparr> else st)
   | None \<Rightarrow> (Inr (), if eb_type st = Kafka then st\<lparr>eb_producer := True, eb_connected := True\<rparr>
                      else st\<lparr>eb_client := True, eb_connected := True\<rparr>))"

definition eb_disconnect :: "bus_client \<Rightarrow> bus_client" where
  "eb_disconnect st = (if eb_type st = Kafka then st\<lparr>eb_producer := False, eb_connected := False\<rparr>
     else st\<lparr>eb_client := False, eb_connected := False\<rparr>)"

definition event_topic :: "string \<Rightarrow> string \<Rightarrow> string" where
  "event_topic prefix event_type = prefix @ ''.'' @ event_type"

definition eb_publish :: "string option \<Rightarrow> string \<Rightarrow> dict \<Rightarrow> bus_client \<Rightarrow> unit res \<times> bus_client" where
  "eb_publish failure event_type data st =
     (if \<not> eb_connected st then (Inr (), st)
      else if \<not> (if eb_type st = Kafka then eb_producer st else eb_client st) then (Inl (PyExc ''RuntimeError''), st)
      else case failure of
        Some e \<Rightarrow> (Inl (PyExc e), st)
      | None \<Rightarrow> (Inr (), st\<lparr>eb_sent := eb_sent st @ [(event_topic (eb_prefix st) event_type, data)]\<rparr>))"

text \<open>\<open>s.replace(p, "")\<close> for a text that is not empty: every occurrence goes, from the left.\<close>

function remove_all :: "string \<Rightarrow> string \<Rightarrow> string" where
  "remove_all p [] = []"
| "remove_all p (c # s) =
     (if p \<noteq> [] \<and> startswith (c # s) p then remove_all p (drop (length p) (c # s)) else c # remove_all p s)"
  by pat_completeness auto
termination
  by (relation "measure (\<lambda>(p, s). length s)") auto

definition received_type :: "string \<Rightarrow> string \<Rightarrow> string" where
  "received_type prefix topic = remove_all (prefix @ ''.'') topic"

definition make_resource_event :: "int \<Rightarrow> string \<Rightarrow> string \<Rightarrow> string \<Rightarrow> string \<Rightarrow> dict option \<Rightarrow> dict" where
  "make_resource_event t service resource action resource_id payload =
     [(''event_type'', JStr (resource @ ''.'' @ action)), (''service'', JStr service), (''resource'', JStr resource),
      (''action'', JStr action), (''resource_id'', JStr resource_id),
      (''payload'', JObj (case payload of None \<Rightarrow> [] | Some p \<Rightarrow> p)), (''occurred_at'', JIso t)]"

type_synonym 'v key_store = "(string \<times> 'v) list"

definition key_exists :: "string \<Rightarrow> 'v key_store \<Rightarrow> bool" where
  "key_exists k ks \<longleftrightarrow> map_of ks k \<noteq> None"

definition key_save :: "string \<Rightarrow> 'v \<Rightarrow> 'v key_store \<Rightarrow> 'v key_store" where
  "key_save k v ks = AList.update k v ks"

subsection \<open>The cache\<close>

text \<open>Redis as its client shows it: the calls the cache makes on a state of any type, which answer or
  raise; \<open>cl_dumps\<close> and \<open>cl_loads\<close> are the JSON library, \<open>cl_show\<close> the texts of floats.\<close>

record 'w redis =
  rd_get :: "string \<Rightarrow> 'w \<Rightarrow> string option res"
  rd_set :: "string \<Rightarrow> string \<Rightarrow> int option \<Rightarrow> 'w \<Rightarrow> unit res \<times> 'w"

record codec =
  cl_dumps :: "json \<Rightarrow> string"
  cl_loads :: "string \<Rightarrow> json option"
  cl_show :: "json \<Rightarrow> string"

definition py_text_of :: "codec \<Rightarrow> json \<Rightarrow> string" where
  "py_text_of c v = (case v of
     JNull \<Rightarrow> ''None'' | JBool b \<Rightarrow> if b then ''True'' else ''False''
   | JInt i \<Rightarrow> show_int i | JStr s \<Rightarrow> s | _ \<Rightarrow> cl_show c v)"

definition cache_text :: "codec \<Rightarrow> json \<Rightarrow> string" where
  "cache_text c v = (case v of JObj d \<Rightarrow> cl_dumps c v | JArr xs \<Rightarrow> cl_dumps c v | _ \<Rightarrow> py_text_of c v)"

text \<open>A time to live that is none or zero sets no expiry.\<close>

definition cache_set :: "codec \<Rightarrow> 'w redis option \<Rightarrow> string \<Rightarrow> json \<Rightarrow> int option \<Rightarrow> 'w \<Rightarrow> unit res \<times> 'w" where
  "cache_set c client key value ttl w = (case client of
     None \<Rightarrow> (Inl (PyExc ''RuntimeError''), w)
   | Some r \<Rightarrow> rd_set r key (cache_text c value) (if ttl = Some 0 then None else ttl) w)"

text \<open>An exception of the client is logged and answered like a key that is missing.\<close>

definition cache_get :: "codec \<Rightarrow> 'w redis option \<Rightarrow> string \<Rightarrow> 'w \<Rightarrow> json res" where
  "cache_get c client key w = (case client of
     None \<Rightarrow> Inl (PyExc ''RuntimeError'')
   | Some r \<Rightarrow> (case rd_get r key w of
       Inl err \<Rightarrow> Inr JNull
     | Inr None \<Rightarrow> Inr JNull
     | Inr (Some s) \<Rightarrow> Inr (case cl_loads c s of None \<Rightarrow> JStr s | Some v \<Rightarrow> v)))"

subsection \<open>Policy, tenancy, versions\<close>

definition policy_evaluate :: "string \<Rightarrow> string \<Rightarrow> string list \<Rightarrow> string \<Rightarrow> bool \<times> string" where
  "policy_evaluate write_role upper_method roles resource =
     (if upper_method \<in> {''GET'', ''HEAD'', ''OPTIONS''} then (True, ''read operation allowed'')
      else if write_role \<in> set roles then (True, ''role '' @ write_role @ '' granted for write'')
      else (False, ''missing role '' @ write_role @ '' for write on '' @ resource))"

definition extract_tenant_id :: "(string \<times> string) list \<Rightarrow> string res" where
  "extract_tenant_id headers =
     (let get = (\<lambda>k. map_of headers k);
          t = (if nonempty (get ''x-tenant-id'') then get ''x-tenant-id'' else get ''X-Tenant-Id'')
      in if nonempty t then Inr (fstr t) else Inl (PyExc ''ValueError''))"

definition build_deprecation_headers :: "string \<Rightarrow> string option \<Rightarrow> string option \<Rightarrow> (string \<times> string) list" where
  "build_deprecation_headers current sunset replacement =
     [(''x-api-version'', current)]
   @ (case sunset of None \<Rightarrow> [] | Some d \<Rightarrow> [(''sunset'', d)])
   @ (if nonempty replacement then [(''x-api-replacement-version'', fstr replacement)] else [])"

end
