(* ===== verification/CommonProperties.thy ===== *)
theory CommonProperties
  imports CommonLib
begin

text \<open>
  What the health checker, the event bus and the cache of the common library answer: the overall
  status as a function of the failing checks, the type a consumer reads back from a topic, and the
  value a cache gives back for the one that was stored.
\<close>

subsection \<open>Health\<close>

definition failing :: "(json \<Rightarrow> string) \<Rightarrow> health_check \<Rightarrow> bool" where
  "failing shown c \<longleftrightarrow> dget (run_check shown c) ''status'' = JStr ''unhealthy''"

definition overall_of :: "string \<Rightarrow> health_check list \<Rightarrow> string" where
  "overall_of o0 bad = (if bad = [] then o0 else if hk_critical (last bad) then ''unhealthy'' else ''degraded'')"

lemma overall_of_Cons:
  "overall_of o0 (c # bad) = overall_of (if hk_critical c then ''unhealthy'' else ''degraded'') bad"
  by (simp add: overall_of_def)

lemma check_loop_ends:
  "(\<forall>c \<in> set cs. dhas (run_check shown c) ''status'') \<longleftrightarrow> (\<exists>x. check_loop shown cs results o0 = Inr x)"
  by (induction cs arbitrary: results o0) (auto simp: Let_def)

lemma check_loop_answer:
  "check_loop shown cs results o0 = Inr (results', o1) \<Longrightarrow>
     o1 = overall_of o0 (filter (failing shown) cs)"
proof (induction cs arbitrary: results o0)
  case Nil
  then show ?case by (simp add: overall_of_def)
next
  case (Cons c cs)
  from Cons.prems have has: "dhas (run_check shown c) ''status''"
    by (simp add: Let_def split: if_splits)
  show ?case
  proof (cases "failing shown c")
    case True
    with Cons.prems has have "check_loop shown cs (dset results (hk_name c) (JObj (run_check shown c)))
        (if hk_critical c then ''unhealthy'' else ''degraded'') = Inr (results', o1)"
      by (simp add: Let_def failing_def)
    from Cons.IH [OF this] True show ?thesis by (simp add: overall_of_Cons)
  next
    case False
    with Cons.prems has have "check_loop shown cs (dset results (hk_name c) (JObj (run_check shown c))) o0
        = Inr (results', o1)"
      by (simp add: Let_def failing_def)
    from Cons.IH [OF this] False show ?thesis by simp
  qed
qed

lemma find_snoc: "find P (xs @ [x]) = (case find P xs of None \<Rightarrow> if P x then Some x else None | Some y \<Rightarrow> Some y)"
  by (induction xs) auto

lemma check_loop_results:
  "check_loop shown cs results o0 = Inr (results', o1) \<Longrightarrow>
     dget results' n = (case find (\<lambda>c. hk_name c = n) (rev cs) of
        None \<Rightarrow> dget results n | Some c \<Rightarrow> JObj (run_check shown c))"
proof (induction cs arbitrary: results o0)
  case Nil
  then show ?case by simp
next
  case (Cons c cs)
  then obtain o2 where
    "check_loop shown cs (dset results (hk_name c) (JObj (run_check shown c))) o2 = Inr (results', o1)"
    by (auto simp: Let_def split: if_splits)
  from Cons.IH [OF this] show ?case
    by (simp add: dget_dset find_snoc split: option.split)
qed

definition last_result :: "(json \<Rightarrow> string) \<Rightarrow> health_check list \<Rightarrow> string \<Rightarrow> json" where
  "last_result shown cs n =
     (case find (\<lambda>c. hk_name c = n) (rev cs) of None \<Rightarrow> JNull | Some c \<Rightarrow> JObj (run_check shown c))"

lemma check_all_ends: "(\<exists>r. check_all shown cs = Inr r) = (\<forall>c \<in> set cs. dhas (run_check shown c) ''status'')"
  unfolding check_loop_ends [of cs shown "[]" "''healthy''"]
  by (cases "check_loop shown cs [] ''healthy''") (auto simp: check_all_def)

lemma check_all_answer:
  assumes "check_all shown cs = Inr r"
  shows "dget r ''status'' = JStr (overall_of ''healthy'' (filter (failing shown) cs))"
    and "\<exists>d. dget r ''checks'' = JObj d \<and> (\<forall>n. dget d n = last_result shown cs n)"
proof -
  from assms obtain results o1 where run: "check_loop shown cs [] ''healthy'' = Inr (results, o1)"
    and r: "r = [(''status'', JStr o1), (''checks'', JObj results)]"
    by (cases "check_loop shown cs [] ''healthy''") (auto simp: check_all_def)
  show "dget r ''status'' = JStr (overall_of ''healthy'' (filter (failing shown) cs))"
    by (simp add: r dget_def check_loop_answer [OF run])
  have "dget results n = last_result shown cs n" for n
    unfolding check_loop_results [OF run] last_result_def by (simp add: dget_def split: option.split)
  moreover have "dget r ''checks'' = JObj results" by (simp add: r dget_def)
  ultimately show "\<exists>d. dget r ''checks'' = JObj d \<and> (\<forall>n. dget d n = last_result shown cs n)" by blast
qed

lemma failing_outcomes:
  "hk_outcome c = Timed_out \<or> hk_outcome c = Raised e \<or> hk_outcome c = Returned (JBool False) \<Longrightarrow> failing shown c"
  by (auto simp: failing_def run_check_def verdict_def dget_def)

text \<open>The health report exists exactly when every check that answers a dict names a status. Then it is
  healthy exactly when no check is unhealthy (a check that times out, raises or answers false is), and
  otherwise the last failing check alone decides: unhealthy if it is critical, degraded if not, whatever
  failed before it. Each name shows the result of its last check.\<close>

theorem health_verdict:
  "(\<exists>r. check_all shown cs = Inr r) = (\<forall>c \<in> set cs. dhas (run_check shown c) ''status'')
   \<and> (\<forall>r. check_all shown cs = Inr r \<longrightarrow>
        (dget r ''status'' = JStr ''healthy'') = (filter (failing shown) cs = [])
      \<and> (filter (failing shown) cs \<noteq> [] \<longrightarrow> dget r ''status'' =
           JStr (if hk_critical (last (filter (failing shown) cs)) then ''unhealthy'' else ''degraded''))
      \<and> (\<exists>d. dget r ''checks'' = JObj d \<and> (\<forall>n. dget d n = last_result shown cs n)))
   \<and> (\<forall>c e. hk_outcome c = Timed_out \<or> hk_outcome c = Raised e \<or> hk_outcome c = Returned (JBool False) \<longrightarrow>
        failing shown c)"
proof (intro conjI allI impI)
  show "(\<exists>r. check_all shown cs = Inr r) = (\<forall>c \<in> set cs. dhas (run_check shown c) ''status'')"
    by (rule check_all_ends)
next
  fix r assume ok: "check_all shown cs = Inr r"
  show "(dget r ''status'' = JStr ''healthy'') = (filter (failing shown) cs = [])"
    by (simp add: check_all_answer(1) [OF ok] overall_of_def)
  show "\<exists>d. dget r ''checks'' = JObj d \<and> (\<forall>n. dget d n = last_result shown cs n)"
    by (rule check_all_answer(2) [OF ok])
  show "dget r ''status'' = JStr (if hk_critical (last (filter (failing shown) cs)) then ''unhealthy'' else ''degraded'')"
    if "filter (failing shown) cs \<noteq> []"
    using that by (simp add: check_all_answer(1) [OF ok] overall_of_def)
next
  fix c :: health_check and e assume "hk_outcome c = Timed_out \<or> hk_outcome c = Raised e \<or> hk_outcome c = Returned (JBool False)"
  then show "failing shown c" by (rule failing_outcomes)
qed

text \<open>The database is down and then an optional cache is too: the report is degraded, not unhealthy.\<close>

definition two_down :: "health_check list" where
  "two_down = [\<lparr>hk_name = ''database'', hk_critical = True, hk_timeout = 5, hk_outcome = Timed_out\<rparr>,
     \<lparr>hk_name = ''cache'', hk_critical = False, hk_timeout = 5, hk_outcome = Returned (JBool False)\<rparr>]"

lemma two_down_answer:
  "\<exists>r. check_all (\<lambda>v. []) two_down = Inr r" "filter (failing (\<lambda>v. [])) two_down = two_down"
  by (simp_all add: two_down_def check_all_def failing_def run_check_def verdict_def dget_def dhas_def Let_def)

theorem health_verdict_witness:
  "\<exists>r. check_all (\<lambda>v. []) two_down = Inr r \<and> dget r ''status'' = JStr ''degraded''"
proof -
  from two_down_answer(1) obtain r where r: "check_all (\<lambda>v. []) two_down = Inr r" by blast
  from health_verdict [of "\<lambda>v. []" two_down] r have "dget r ''status'' = JStr ''degraded''"
    unfolding two_down_answer(2) by (simp add: two_down_def)
  with r show ?thesis by blast
qed

subsection \<open>Topics\<close>

lemma remove_all_absent: "\<not> contains s p \<Longrightarrow> remove_all p s = s"
  by (induction p s rule: remove_all.induct) auto

lemma remove_all_prefix: "p \<noteq> [] \<Longrightarrow> remove_all p (p @ s) = remove_all p s"
  by (cases p) (auto simp: startswith_def)

lemma received_type_of_topic: "received_type prefix (event_topic prefix t) = remove_all (prefix @ ''.'') t"
  using remove_all_prefix [of "prefix @ ''.''" t] by (simp add: received_type_def event_topic_def)

lemma received_type_roundtrip:
  "\<not> contains t (prefix @ ''.'') \<Longrightarrow> received_type prefix (event_topic prefix t) = t"
  by (simp add: received_type_of_topic remove_all_absent)

subsection \<open>The cache\<close>

text \<open>What JSON gives back for the text of a value, or the text itself.\<close>

definition read_back :: "codec \<Rightarrow> string \<Rightarrow> json" where
  "read_back c s = (case cl_loads c s of None \<Rightarrow> JStr s | Some v \<Rightarrow> v)"

lemma cache_set_then_get:
  assumes "cache_set c (Some r) k v ttl w = (Inr (), w')"
    and "\<And>s t. rd_set r k s t w = (Inr (), w') \<Longrightarrow> rd_get r k w' = Inr (Some s)"
  shows "cache_get c (Some r) k w' = Inr (read_back c (cache_text c v))"
  using assms(1) assms(2) [of "cache_text c v" "if ttl = Some 0 then None else ttl"]
  by (simp add: cache_set_def cache_get_def read_back_def)

text \<open>A value that was stored and is read while the key lives comes back as follows, if Redis answers the
  text it was last given and JSON reads back the dicts and lists it writes and no word like \<open>True\<close>: a dict or
  list is itself, but a truth value and none become the texts \<open>'True'\<close>, \<open>'False'\<close>, \<open>'None'\<close>, and a text that is
  valid JSON becomes the value it denotes. Without a connection both calls raise.\<close>

theorem cache_roundtrip:
  assumes stored: "cache_set c (Some r) k v ttl w = (Inr (), w')"
    and redis: "\<forall>s t. rd_set r k s t w = (Inr (), w') \<longrightarrow> rd_get r k w' = Inr (Some s)"
    and json: "case v of JObj d \<Rightarrow> cl_loads c (cl_dumps c v) = Some v
      | JArr xs \<Rightarrow> cl_loads c (cl_dumps c v) = Some v | _ \<Rightarrow> True"
    and words: "\<forall>s \<in> {''True'', ''False'', ''None''}. cl_loads c s = None"
  shows "cache_get c (Some r) k w' = Inr (case v of
           JNull \<Rightarrow> JStr ''None'' | JBool b \<Rightarrow> JStr (if b then ''True'' else ''False'')
         | JInt i \<Rightarrow> read_back c (show_int i) | JStr s \<Rightarrow> read_back c s
         | JObj d \<Rightarrow> v | JArr xs \<Rightarrow> v | _ \<Rightarrow> read_back c (cl_show c v))
    \<and> cache_get c None k w = Inl (PyExc ''RuntimeError'')
    \<and> cache_set c None k v ttl w = (Inl (PyExc ''RuntimeError''), w)"
proof -
  have "cache_get c (Some r) k w' = Inr (read_back c (cache_text c v))"
    by (rule cache_set_then_get [OF stored]) (simp add: redis)
  moreover have "read_back c (cache_text c v) = (case v of
           JNull \<Rightarrow> JStr ''None'' | JBool b \<Rightarrow> JStr (if b then ''True'' else ''False'')
         | JInt i \<Rightarrow> read_back c (show_int i) | JStr s \<Rightarrow> read_back c s
         | JObj d \<Rightarrow> v | JArr xs \<Rightarrow> v | _ \<Rightarrow> read_back c (cl_show c v))"
    using json words by (cases v) (simp_all add: cache_text_def py_text_of_def read_back_def)
  ultimately show ?thesis by (simp add: cache_get_def cache_set_def)
qed

text \<open>A Redis that is a map, and a JSON library that reads back one dict.\<close>

definition map_redis :: "(string \<Rightarrow> string option) redis" where
  "map_redis = \<lparr>rd_get = \<lambda>k m. Inr (m k), rd_set = \<lambda>k s t m. (Inr (), m(k := Some s))\<rparr>"

definition small_codec :: codec where
  "small_codec = \<lparr>cl_dumps = \<lambda>v. ''{}'', cl_loads = \<lambda>s. if s = ''{}'' then Some (JObj []) else None,
     cl_show = \<lambda>v. []\<rparr>"

theorem cache_roundtrip_witness:
  "let set = \<lambda>v. snd (cache_set small_codec (Some map_redis) ''k'' v None (\<lambda>k. None));
       get = \<lambda>w. cache_get small_codec (Some map_redis) ''k'' w
   in get (set (JBool True)) = Inr (JStr ''True'') \<and> get (set (JObj [])) = Inr (JObj [])"
proof -
  define set where "set = (\<lambda>v. snd (cache_set small_codec (Some map_redis) ''k'' v None (\<lambda>k. None)))"
  have stored: "cache_set small_codec (Some map_redis) ''k'' v None (\<lambda>k. None) = (Inr (), set v)" for v
    by (simp add: set_def cache_set_def map_redis_def)
  have redis: "\<forall>s t. rd_set map_redis ''k'' s t (\<lambda>k. None) = (Inr (), set v) \<longrightarrow>
      rd_get map_redis ''k'' (set v) = Inr (Some s)" for v
    by (simp add: map_redis_def del: fun_upd_apply) (metis fun_upd_same)
  have words: "\<forall>s \<in> {''True'', ''False'', ''None''}. cl_loads small_codec s = None"
    by (simp add: small_codec_def)
  have "cache_get small_codec (Some map_redis) ''k'' (set (JBool True)) = Inr (JStr ''True'')"
    using cache_roundtrip [OF stored redis _ words, of "JBool True"] by simp
  moreover have "cache_get small_codec (Some map_redis) ''k'' (set (JObj [])) = Inr (JObj [])"
    using cache_roundtrip [OF stored redis _ words, of "JObj []"] by (simp add: small_codec_def)
  ultimately show ?thesis by (simp add: set_def Let_def)
qed

end
