(* ===== verification/Sensors.thy ===== *)
theory Sensors
  imports Doubles "HOL-Library.Word"
begin

unbundle bit_operations_syntax

text \<open>
  The sensor drivers of the device agent (\<open>packages/nexora-agent/src/nexora_agent/hardware\<close>:
  \<open>i2c.py\<close>, \<open>sensors.py\<close>). The library of the bus is a record of its calls on a state of any type
  \<open>'w\<close>; bytes are words of eight bits, the raw values made of them Python's integers, and the readings
  doubles (\<open>Doubles\<close>). A value rounded to some decimals is the decimal number: the double next to it
  is written as that number. Delays and the log are left out.
\<close>

subsection \<open>The bus\<close>

text \<open>\<open>ic_open\<close> opens the bus, \<open>ic_probe\<close> reads a byte of an address, \<open>ic_command\<close> writes bytes with no
  register of their own, \<open>ic_range\<close> is the whole use of the library of the range sensor (none: it is not
  installed).\<close>

record 'w i2c =
  ic_open :: "'w \<Rightarrow> unit res \<times> 'w"
  ic_probe :: "int \<Rightarrow> 'w \<Rightarrow> unit res \<times> 'w"
  ic_read :: "int \<Rightarrow> int \<Rightarrow> 'w \<Rightarrow> 8 word res \<times> 'w"
  ic_write :: "int \<Rightarrow> int \<Rightarrow> int \<Rightarrow> 'w \<Rightarrow> unit res \<times> 'w"
  ic_block :: "int \<Rightarrow> int \<Rightarrow> nat \<Rightarrow> 'w \<Rightarrow> 8 word list res \<times> 'w"
  ic_command :: "int \<Rightarrow> int list \<Rightarrow> 'w \<Rightarrow> unit res \<times> 'w"
  ic_range :: "int \<Rightarrow> 'w \<Rightarrow> rat option res \<times> 'w"

definition bus_then :: "('w \<Rightarrow> 'a res \<times> 'w) \<Rightarrow> ('a \<Rightarrow> 'w \<Rightarrow> 'b res \<times> 'w) \<Rightarrow> 'w \<Rightarrow> 'b res \<times> 'w" where
  "bus_then call f w = (case call w of (Inl err, w1) \<Rightarrow> (Inl err, w1) | (Inr x, w1) \<Rightarrow> f x w1)"

text \<open>The scan: an address that does not answer raises \<open>OSError\<close>, any other exception ends it.\<close>

fun scan :: "'w i2c \<Rightarrow> int list \<Rightarrow> 'w \<Rightarrow> int list \<times> 'w" where
  "scan bus [] w = ([], w)"
| "scan bus (a # as) w = (case ic_probe bus a w of
     (Inr _, w1) \<Rightarrow> (case scan bus as w1 of (found, w2) \<Rightarrow> (a # found, w2))
   | (Inl err, w1) \<Rightarrow> if err = PyExc ''OSError'' then scan bus as w1 else ([], w1))"

definition scan_addresses :: "bool \<Rightarrow> 'w i2c \<Rightarrow> 'w \<Rightarrow> int list \<times> 'w" where
  "scan_addresses available bus w =
     (if \<not> available then ([], w)
      else case ic_open bus w of (Inl err, w1) \<Rightarrow> ([], w1) | (Inr _, w1) \<Rightarrow> scan bus [0x03..0x77] w1)"

subsection \<open>Decoding\<close>

text \<open>\<open>(a << 12) | (b << 4) | (c >> 4)\<close> and \<open>(a << 8) | b\<close>.\<close>

definition adc20 :: "8 word \<Rightarrow> 8 word \<Rightarrow> 8 word \<Rightarrow> int" where
  "adc20 a b c = push_bit 12 (uint a) OR push_bit 4 (uint b) OR drop_bit 4 (uint c)"

definition adc16 :: "8 word \<Rightarrow> 8 word \<Rightarrow> int" where
  "adc16 a b = push_bit 8 (uint a) OR uint b"

definition sample_of :: "string \<Rightarrow> rat \<Rightarrow> string \<Rightarrow> dict" where
  "sample_of metric v u = [(''metric'', JStr metric), (''value'', JNum v), (''unit'', JStr u)]"

definition bme280_samples :: "8 word list \<Rightarrow> dict list res" where
  "bme280_samples raw =
     (if length raw < 8 then Inl (PyExc ''IndexError'')
      else
        let press_raw = adc20 (raw ! 0) (raw ! 1) (raw ! 2);
            temp_raw = adc20 (raw ! 3) (raw ! 4) (raw ! 5);
            hum_raw = adc16 (raw ! 6) (raw ! 7);
            temp_c = double_add (double_div (of_int temp_raw) (double_round (524288 / 100))) (- 40);
            hum_pct = double_div (of_int hum_raw) 1024;
            press_hpa = double_div (of_int press_raw) 25600
        in Inr [sample_of ''temperature_celsius'' (round_to 2 temp_c) ''celsius'',
                sample_of ''humidity_percent'' (round_to 2 hum_pct) ''percent'',
                sample_of ''pressure_hpa'' (round_to 2 press_hpa) ''hpa''])"

definition sht31_samples :: "8 word list \<Rightarrow> dict list res" where
  "sht31_samples raw =
     (if length raw < 5 then Inl (PyExc ''IndexError'')
      else
        let temp_raw = adc16 (raw ! 0) (raw ! 1); hum_raw = adc16 (raw ! 3) (raw ! 4);
            temp_c = double_add (- 45) (double_div (of_int (175 * temp_raw)) 65535);
            hum_pct = double_div (of_int (100 * hum_raw)) 65535
        in Inr [sample_of ''temperature_celsius'' (round_to 2 temp_c) ''celsius'',
                sample_of ''humidity_percent'' (round_to 2 hum_pct) ''percent''])"

definition bh1750_samples :: "8 word list \<Rightarrow> dict list res" where
  "bh1750_samples raw =
     (if length raw < 2 then Inl (PyExc ''IndexError'')
      else let lux = double_div (of_int (adc16 (raw ! 0) (raw ! 1))) (double_round (12 / 10))
           in Inr [sample_of ''illuminance_lux'' (round_to 1 lux) ''lux''])"

subsection \<open>Reading\<close>

definition read_bme280 :: "'w i2c \<Rightarrow> int \<Rightarrow> 'w \<Rightarrow> dict list res \<times> 'w" where
  "read_bme280 bus addr =
     bus_then (ic_open bus) (\<lambda>_.
     bus_then (ic_read bus addr 0xD0) (\<lambda>chip_id.
       if chip_id \<noteq> 0x60 then Pair (Inr [])
       else
         bus_then (ic_write bus addr 0xF2 0x01) (\<lambda>_.
         bus_then (ic_write bus addr 0xF4 0x25) (\<lambda>_.
         bus_then (ic_block bus addr 0xF7 8) (\<lambda>raw. Pair (bme280_samples raw))))))"

definition read_sht31 :: "'w i2c \<Rightarrow> int \<Rightarrow> 'w \<Rightarrow> dict list res \<times> 'w" where
  "read_sht31 bus addr =
     bus_then (ic_open bus) (\<lambda>_.
     bus_then (ic_command bus addr [0x2C, 0x06]) (\<lambda>_.
     bus_then (ic_block bus addr 0x00 6) (\<lambda>raw. Pair (sht31_samples raw))))"

definition read_bh1750 :: "'w i2c \<Rightarrow> int \<Rightarrow> 'w \<Rightarrow> dict list res \<times> 'w" where
  "read_bh1750 bus addr =
     bus_then (ic_open bus) (\<lambda>_.
     bus_then (ic_command bus addr [0x10]) (\<lambda>_.
     bus_then (ic_block bus addr 0x00 2) (\<lambda>raw. Pair (bh1750_samples raw))))"

definition read_vl53l0x :: "'w i2c \<Rightarrow> int \<Rightarrow> 'w \<Rightarrow> dict list res \<times> 'w" where
  "read_vl53l0x bus addr =
     bus_then (ic_range bus addr) (\<lambda>mm.
       Pair (Inr (case mm of None \<Rightarrow> [] | Some v \<Rightarrow> [sample_of ''distance_mm'' v ''mm''])))"

definition address_map :: "int \<Rightarrow> string option" where
  "address_map a =
     (if a = 0x76 \<or> a = 0x77 then Some ''bme280'' else if a = 0x44 \<or> a = 0x45 then Some ''sht31''
      else if a = 0x23 \<or> a = 0x5C then Some ''bh1750'' else if a = 0x29 then Some ''vl53l0x'' else None)"

definition read_sensor :: "'w i2c \<Rightarrow> string \<Rightarrow> int \<Rightarrow> 'w \<Rightarrow> dict list res \<times> 'w" where
  "read_sensor bus t addr =
     (if t = ''bme280'' then read_bme280 bus addr else if t = ''sht31'' then read_sht31 bus addr
      else if t = ''bh1750'' then read_bh1750 bus addr else if t = ''vl53l0x'' then read_vl53l0x bus addr
      else Pair (Inr []))"

text \<open>The loop, with the types seen; a driver that raises gives nothing, and its type counts as seen.\<close>

fun read_loop :: "'w i2c \<Rightarrow> string list \<Rightarrow> int list \<Rightarrow> 'w \<Rightarrow> dict list \<times> 'w" where
  "read_loop bus seen [] w = ([], w)"
| "read_loop bus seen (a # as) w = (case address_map a of
     None \<Rightarrow> read_loop bus seen as w
   | Some t \<Rightarrow>
       if t \<in> set seen then read_loop bus seen as w
       else (case read_sensor bus t a w of
               (r, w1) \<Rightarrow>
                 (case read_loop bus (t # seen) as w1 of
                    (rest, w2) \<Rightarrow> ((case r of Inl err \<Rightarrow> [] | Inr xs \<Rightarrow> xs) @ rest, w2))))"

definition read_all :: "bool \<Rightarrow> 'w i2c \<Rightarrow> 'w \<Rightarrow> dict list \<times> 'w" where
  "read_all available bus w =
     (if \<not> available then ([], w)
      else case scan_addresses available bus w of (as, w1) \<Rightarrow> read_loop bus [] as w1)"

fun new_types :: "string list \<Rightarrow> int list \<Rightarrow> string list" where
  "new_types found [] = found"
| "new_types found (a # as) = (case address_map a of
     None \<Rightarrow> new_types found as
   | Some t \<Rightarrow> if t \<in> set found then new_types found as else new_types (found @ [t]) as)"

definition discover :: "bool \<Rightarrow> 'w i2c \<Rightarrow> 'w \<Rightarrow> string list \<times> 'w" where
  "discover available bus w =
     (if \<not> available then ([], w)
      else case scan_addresses available bus w of (as, w1) \<Rightarrow> (new_types [] as, w1))"

end
