(* ===== verification/SensorProperties.thy ===== *)
theory SensorProperties
  imports Sensors
begin

text \<open>
  What the sensor drivers read: the raw values as numbers, the distance of a reading from the formula
  of its driver, the ranges of all readings, and which sensors a pass reads.
\<close>

subsection \<open>Raw values\<close>

text \<open>An or of a shifted number and one below the shift is their sum.\<close>

lemma push_bit_or:
  fixes x y :: int
  assumes "0 \<le> y" "y < 2 ^ n"
  shows "push_bit n x OR y = x * 2 ^ n + y"
proof -
  have y: "take_bit n y = y" using assms by (simp add: take_bit_int_eq_self_iff)
  have "\<not> bit (push_bit n x) m \<or> \<not> bit y m" for m
  proof (cases "m < n")
    case False
    then have "\<not> bit (take_bit n y) m" by (simp add: bit_take_bit_iff)
    then show ?thesis using y by simp
  qed (simp add: bit_push_bit_iff)
  then have "push_bit n x + y = push_bit n x OR y" by (rule disjunctive_add)
  then show ?thesis by (simp add: push_bit_eq_mult)
qed

lemma byte_bounds: "0 \<le> uint b" "uint b < 256" for b :: "8 word"
  using uint_range_size [of b] by (simp_all add: word_size)

lemma nibble_bounds: "0 \<le> uint b div 16" "uint b div 16 < 16" for b :: "8 word"
  using byte_bounds [of b] by (simp_all add: pos_imp_zdiv_nonneg_iff)

lemma adc16_sum: "adc16 a b = uint a * 256 + uint b"
  using push_bit_or [of "uint b" 8 "uint a"] byte_bounds [of b] by (simp add: adc16_def)

lemma adc20_sum: "adc20 a b c = uint a * 4096 + uint b * 16 + uint c div 16"
proof -
  have c: "0 \<le> drop_bit 4 (uint c)" "drop_bit 4 (uint c) < 2 ^ 4" "drop_bit 4 (uint c) = uint c div 16"
    using nibble_bounds [of c] by (simp_all add: drop_bit_eq_div)
  have bc: "push_bit 4 (uint b) OR drop_bit 4 (uint c) = uint b * 16 + uint c div 16"
    using push_bit_or [OF c(1,2), of "uint b"] c(3) by simp
  have "uint b * 16 + uint c div 16 < 2 ^ 12" using byte_bounds [of b] nibble_bounds [of c] by simp
  moreover have "0 \<le> uint b * 16 + uint c div 16" using byte_bounds [of b] nibble_bounds [of c] by simp
  ultimately show ?thesis using push_bit_or [of "uint b * 16 + uint c div 16" 12 "uint a"]
    by (simp add: adc20_def bc)
qed

lemma adc16_bounds: "0 \<le> adc16 a b" "adc16 a b \<le> 65535"
  using byte_bounds [of a] byte_bounds [of b] by (simp_all add: adc16_sum)

lemma adc20_bounds: "0 \<le> adc20 a b c" "adc20 a b c \<le> 1048575"
  using byte_bounds [of a] byte_bounds [of b] nibble_bounds [of c] by (simp_all add: adc20_sum)

lemma adc16_rat: "0 \<le> (of_int (adc16 a b) :: rat)" "of_int (adc16 a b) \<le> (65535 :: rat)"
proof -
  have "(of_int 0 :: rat) \<le> of_int (adc16 a b)" "of_int (adc16 a b) \<le> (of_int 65535 :: rat)"
    by (simp_all only: of_int_le_iff adc16_bounds)
  then show "0 \<le> (of_int (adc16 a b) :: rat)" "of_int (adc16 a b) \<le> (65535 :: rat)"
    by (simp_all only: of_int_0 of_int_numeral)
qed

lemma adc20_rat: "0 \<le> (of_int (adc20 a b c) :: rat)" "of_int (adc20 a b c) \<le> (1048575 :: rat)"
proof -
  have "(of_int 0 :: rat) \<le> of_int (adc20 a b c)" "of_int (adc20 a b c) \<le> (of_int 1048575 :: rat)"
    by (simp_all only: of_int_le_iff adc20_bounds)
  then show "0 \<le> (of_int (adc20 a b c) :: rat)" "of_int (adc20 a b c) \<le> (1048575 :: rat)"
    by (simp_all only: of_int_0 of_int_numeral)
qed

subsection \<open>Readings\<close>

lemma round_half_even_ge: "of_int a - 1 / 2 < x \<Longrightarrow> a \<le> round_half_even x"
proof -
  assume "of_int a - 1 / 2 < x"
  then have "of_int a - 1 < (of_int (round_half_even x) :: rat)" using round_half_even_error [of x] by linarith
  then have "of_int (a - 1) < (of_int (round_half_even x) :: rat)" by simp
  then show "a \<le> round_half_even x" by (simp add: less_le_trans of_int_less_iff del: of_int_diff of_int_add)
qed

lemma round_half_even_le: "x < of_int b + 1 / 2 \<Longrightarrow> round_half_even x \<le> b"
proof -
  assume "x < of_int b + 1 / 2"
  then have "of_int (round_half_even x) < (of_int b + 1 :: rat)" using round_half_even_error [of x] by linarith
  then have "of_int (round_half_even x) < (of_int (b + 1) :: rat)" by simp
  then show "round_half_even x \<le> b" by (simp add: less_le_trans of_int_less_iff del: of_int_diff of_int_add)
qed

text \<open>A number near \<open>v\<close>, which lies between two integers, rounded to two decimals.\<close>

lemma round_to_2:
  assumes "\<bar>x - v\<bar> \<le> 1 / 1000" "of_int a \<le> v" "v \<le> of_int b"
  shows "\<bar>round_to 2 x - v\<bar> \<le> 1 / 100" "of_int a \<le> round_to 2 x" "round_to 2 x \<le> of_int b"
proof -
  have "\<bar>round_to 2 x - x\<bar> \<le> 1 / 200" using round_to_error [of 2 x] by simp
  then show "\<bar>round_to 2 x - v\<bar> \<le> 1 / 100" using assms(1) by linarith
  have "100 * of_int a - 1 / 2 < x * 100" "x * 100 < 100 * of_int b + 1 / 2"
    using assms unfolding abs_le_iff by linarith+
  then have "of_int (100 * a) - 1 / 2 < x * 100" "x * 100 < of_int (100 * b) + 1 / 2" by simp_all
  from round_half_even_ge [OF this(1)] round_half_even_le [OF this(2)] have "100 * a \<le> round_half_even (x * 100)" "round_half_even (x * 100) \<le> 100 * b"
    by simp_all
  then have "of_int (100 * a) \<le> (of_int (round_half_even (x * 100)) :: rat)"
    "of_int (round_half_even (x * 100)) \<le> (of_int (100 * b) :: rat)" by (simp_all only: of_int_le_iff)
  then show "of_int a \<le> round_to 2 x" "round_to 2 x \<le> of_int b" by (simp_all add: round_to_def divide_simps)
qed

lemma div_near: "\<bar>x / y\<bar> < 2 ^ 8 \<Longrightarrow> \<bar>double_div x y - x / y\<bar> \<le> 1 / 100000"
  using double_near [of "x / y" 8] by (simp add: double_div_def)

text \<open>The temperature of the first sensor: the divisor is itself a rounded number.\<close>

lemma bme_divisor: "\<bar>double_round (524288 / 100) - 524288 / 100\<bar> \<le> 1 / 2 ^ 41"
  using double_near [of "524288 / 100" 13] by simp

lemma bme_quotient:
  assumes "0 \<le> t" "t \<le> 1048575"
  shows "\<bar>double_div t (double_round (524288 / 100)) - t / (524288 / 100)\<bar> \<le> 1 / 10000"
    "0 \<le> t / (524288 / 100)" "t / (524288 / 100) \<le> 200"
proof -
  define d :: rat where "d = double_round (524288 / 100)"
  have d: "\<bar>d - 524288 / 100\<bar> \<le> 1 / 2 ^ 41" unfolding d_def by (rule bme_divisor)
  then have "\<bar>d - 524288 / 100\<bar> \<le> 1 / 2" by simp
  then have d5: "5242 < d" by linarith
  have "t / d - t / (524288 / 100) = t * (524288 / 100 - d) / (d * (524288 / 100))"
    using d5 by (simp add: field_simps)
  then have "\<bar>t / d - t / (524288 / 100)\<bar> = t * \<bar>d - 524288 / 100\<bar> / (d * (524288 / 100))"
    using assms d5 by (simp add: abs_mult abs_minus_commute)
  also have "\<dots> \<le> 1048575 * (1 / 2 ^ 41) / (5242 * (524288 / 100))"
    using assms d d5 by (intro frac_le mult_mono) simp_all
  finally have e: "\<bar>t / d - t / (524288 / 100)\<bar> \<le> 1 / 20000" by simp
  show "0 \<le> t / (524288 / 100)" "t / (524288 / 100) \<le> 200" using assms by simp_all
  then have "\<bar>t / d\<bar> < 256" using e by linarith
  then have "\<bar>t / d\<bar> < 2 ^ 8" by simp
  from div_near [OF this] e show "\<bar>double_div t (double_round (524288 / 100)) - t / (524288 / 100)\<bar> \<le> 1 / 10000"
    unfolding d_def [symmetric] by linarith
qed

lemma bme_temperature:
  assumes "0 \<le> t" "t \<le> 1048575"
  shows "\<bar>double_add (double_div t (double_round (524288 / 100))) (- 40) - (t / (524288 / 100) - 40)\<bar> \<le> 1 / 1000"
proof -
  let ?q = "double_div t (double_round (524288 / 100))"
  have "\<bar>?q + - 40\<bar> < 256" using bme_quotient [OF assms] by linarith
  then have "\<bar>?q + - 40\<bar> < 2 ^ 8" by simp
  from double_near [OF this] have "\<bar>double_add ?q (- 40) - (?q + - 40)\<bar> \<le> 1 / 10000"
    by (simp add: double_add_def)
  then show ?thesis using bme_quotient(1) [OF assms] by linarith
qed

lemma sht_temperature:
  assumes "0 \<le> t" "t \<le> 65535"
  shows "\<bar>double_add (- 45) (double_div (175 * t) 65535) - (- 45 + 175 * t / 65535)\<bar> \<le> 1 / 1000"
proof -
  let ?q = "double_div (175 * t) 65535"
  have "\<bar>175 * t / 65535\<bar> < 2 ^ 8" "0 \<le> 175 * t / 65535" "175 * t / 65535 \<le> 175" using assms by simp_all
  moreover from div_near [OF this(1)] have q: "\<bar>?q - 175 * t / 65535\<bar> \<le> 1 / 10000" by simp
  ultimately have "\<bar>- 45 + ?q\<bar> < 256" by linarith
  then have "\<bar>- 45 + ?q\<bar> < 2 ^ 8" by simp
  from double_near [OF this] have "\<bar>double_add (- 45) ?q - (- 45 + ?q)\<bar> \<le> 1 / 10000"
    by (simp add: double_add_def)
  then show ?thesis using q by linarith
qed

text \<open>The light sensor: the divisor is rounded, and the values are larger.\<close>

lemma lux_near:
  assumes "0 \<le> t" "t \<le> 65535"
  shows "\<bar>round_to 1 (double_div t (double_round (12 / 10))) - t / (12 / 10)\<bar> \<le> 1 / 10"
    "0 \<le> round_to 1 (double_div t (double_round (12 / 10)))"
proof -
  define d :: rat where "d = double_round (12 / 10)"
  have d: "\<bar>d - 12 / 10\<bar> \<le> 1 / 2 ^ 53" unfolding d_def using double_near [of "12 / 10" 1] by simp
  then have "\<bar>d - 12 / 10\<bar> \<le> 1 / 10" by simp
  then have d1: "1 < d" by linarith
  have "t / d - t / (12 / 10) = t * (12 / 10 - d) / (d * (12 / 10))"
    using d1 by (simp add: field_simps)
  then have "\<bar>t / d - t / (12 / 10)\<bar> = t * \<bar>d - 12 / 10\<bar> / (d * (12 / 10))"
    using assms d1 by (simp add: abs_mult abs_minus_commute)
  also have "\<dots> \<le> 65535 * (1 / 2 ^ 53) / (1 * (12 / 10))"
    using assms d d1 by (intro frac_le mult_mono) simp_all
  finally have e: "\<bar>t / d - t / (12 / 10)\<bar> \<le> 1 / 1000" by simp
  have t: "0 \<le> t / (12 / 10)" "t / (12 / 10) \<le> 54613" using assms by simp_all
  then have "\<bar>t / d\<bar> < 65536" using e by linarith
  then have "\<bar>t / d\<bar> < 2 ^ 16" by simp
  from double_near [OF this] have "\<bar>double_div t d - t / d\<bar> \<le> 1 / 1000" by (simp add: double_div_def)
  with e have near: "\<bar>double_div t d - t / (12 / 10)\<bar> \<le> 1 / 100" by linarith
  have r: "\<bar>round_to 1 (double_div t d) - double_div t d\<bar> \<le> 1 / 20" using round_to_error [of 1 "double_div t d"] by simp
  then show "\<bar>round_to 1 (double_div t (double_round (12 / 10))) - t / (12 / 10)\<bar> \<le> 1 / 10"
    unfolding d_def [symmetric] using near by linarith
  have "0 \<le> round_half_even (double_div t d * 10)"
    using near t(1) by (intro round_half_even_ge) (unfold of_int_0, linarith)
  then show "0 \<le> round_to 1 (double_div t (double_round (12 / 10)))"
    unfolding d_def [symmetric] by (simp add: round_to_def)
qed

subsection \<open>The samples of the drivers\<close>

text \<open>The numbers that two bytes, and two bytes and a half, spell; a number near a value and in a range.\<close>

definition spelled16 :: "8 word list \<Rightarrow> nat \<Rightarrow> rat" where
  "spelled16 raw i = of_int (uint (raw ! i) * 256 + uint (raw ! (i + 1)))"

definition spelled20 :: "8 word list \<Rightarrow> nat \<Rightarrow> rat" where
  "spelled20 raw i = of_int (uint (raw ! i) * 4096 + uint (raw ! (i + 1)) * 16 + uint (raw ! (i + 2)) div 16)"

definition near :: "rat \<Rightarrow> rat \<Rightarrow> rat \<Rightarrow> rat \<Rightarrow> rat \<Rightarrow> bool" where
  "near e lo hi v x \<longleftrightarrow> \<bar>x - v\<bar> \<le> e \<and> lo \<le> x \<and> x \<le> hi"

lemma nearI: "\<bar>x - v\<bar> \<le> e \<Longrightarrow> lo \<le> x \<Longrightarrow> x \<le> hi \<Longrightarrow> near e lo hi v x"
  by (simp add: near_def)

lemma spelled_adc: "spelled16 raw i = of_int (adc16 (raw ! i) (raw ! (i + 1)))"
    "spelled20 raw i = of_int (adc20 (raw ! i) (raw ! (i + 1)) (raw ! (i + 2)))"
  by (simp_all only: spelled16_def spelled20_def adc16_sum adc20_sum)

lemma spelled_bounds: "0 \<le> spelled16 raw i" "spelled16 raw i \<le> 65535" "0 \<le> spelled20 raw i" "spelled20 raw i \<le> 1048575"
  unfolding spelled_adc by (rule adc16_rat adc20_rat)+

lemma index_sums: "3 + 1 = (4 :: nat)" "3 + 2 = (5 :: nat)" "0 + 1 = (1 :: nat)" "0 + 2 = (2 :: nat)" "6 + 1 = (7 :: nat)"
  by simp_all

definition temperature :: "rat \<Rightarrow> dict" where "temperature t = sample_of ''temperature_celsius'' t ''celsius''"
definition humidity :: "rat \<Rightarrow> dict" where "humidity h = sample_of ''humidity_percent'' h ''percent''"
definition pressure :: "rat \<Rightarrow> dict" where "pressure p = sample_of ''pressure_hpa'' p ''hpa''"
definition illuminance :: "rat \<Rightarrow> dict" where "illuminance l = sample_of ''illuminance_lux'' l ''lux''"

lemma near_quotient:
  assumes "of_int a \<le> x / y" "x / y \<le> of_int b" "\<bar>x / y\<bar> < 2 ^ 8"
  shows "near (1 / 100) (of_int a) (of_int b) (x / y) (round_to 2 (double_div x y))"
proof -
  have "\<bar>double_div x y - x / y\<bar> \<le> 1 / 1000" using div_near [OF assms(3)] by linarith
  from round_to_2 [OF this assms(1,2)] show ?thesis by (rule nearI)
qed

lemma bme280_decoded:
  assumes "\<not> length raw < 8"
  shows "\<exists>t h p. bme280_samples raw = Inr [temperature t, humidity h, pressure p]
    \<and> near (1 / 100) (- 40) 160 (spelled20 raw 3 / (524288 / 100) - 40) t
    \<and> near (1 / 100) 0 64 (spelled16 raw 6 / 1024) h \<and> near (1 / 100) 0 41 (spelled20 raw 0 / 25600) p"
proof -
  let ?T = "spelled20 raw 3" and ?P = "spelled20 raw 0" and ?H = "spelled16 raw 6"
  note b = spelled_bounds [of raw]
  have t: "of_int (- 40) \<le> ?T / (524288 / 100) - 40" "?T / (524288 / 100) - 40 \<le> of_int 160"
    using b(3,4) [of 3] by simp_all
  have "near (1 / 100) (of_int (- 40)) (of_int 160) (?T / (524288 / 100) - 40)
      (round_to 2 (double_add (double_div ?T (double_round (524288 / 100))) (- 40)))"
    using round_to_2 [OF bme_temperature [OF b(3,4)] t] by (rule nearI)
  moreover have "near (1 / 100) (of_int 0) (of_int 64) (?H / 1024) (round_to 2 (double_div ?H 1024))"
    using b(1,2) [of 6] by (intro near_quotient) simp_all
  moreover have "near (1 / 100) (of_int 0) (of_int 41) (?P / 25600) (round_to 2 (double_div ?P 25600))"
    using b(3,4) [of 0] by (intro near_quotient) simp_all
  moreover have "bme280_samples raw = Inr [
      temperature (round_to 2 (double_add (double_div ?T (double_round (524288 / 100))) (- 40))),
      humidity (round_to 2 (double_div ?H 1024)), pressure (round_to 2 (double_div ?P 25600))]"
    unfolding bme280_samples_def Let_def spelled_adc index_sums temperature_def humidity_def pressure_def
    using assms by (simp only: if_False)
  ultimately show ?thesis unfolding of_int_minus of_int_numeral of_int_0 by blast
qed

lemma sht31_decoded:
  assumes "\<not> length raw < 5"
  shows "\<exists>t h. sht31_samples raw = Inr [temperature t, humidity h]
    \<and> near (1 / 100) (- 45) 130 (- 45 + 175 * spelled16 raw 0 / 65535) t
    \<and> near (1 / 100) 0 100 (100 * spelled16 raw 3 / 65535) h"
proof -
  let ?T = "spelled16 raw 0" and ?H = "spelled16 raw 3"
  note b = spelled_bounds [of raw]
  have t: "of_int (- 45) \<le> - 45 + 175 * ?T / 65535" "- 45 + 175 * ?T / 65535 \<le> of_int 130"
    using b(1,2) [of 0] by simp_all
  have "near (1 / 100) (of_int (- 45)) (of_int 130) (- 45 + 175 * ?T / 65535)
      (round_to 2 (double_add (- 45) (double_div (175 * ?T) 65535)))"
    using round_to_2 [OF sht_temperature [OF b(1,2)] t] by (rule nearI)
  moreover have "near (1 / 100) (of_int 0) (of_int 100) (100 * ?H / 65535) (round_to 2 (double_div (100 * ?H) 65535))"
    using b(1,2) [of 3] by (intro near_quotient) simp_all
  moreover have "sht31_samples raw = Inr [temperature (round_to 2 (double_add (- 45) (double_div (175 * ?T) 65535))),
      humidity (round_to 2 (double_div (100 * ?H) 65535))]"
    unfolding sht31_samples_def Let_def spelled_adc index_sums temperature_def humidity_def of_int_mult of_int_numeral
    using assms by (simp only: if_False)
  ultimately show ?thesis unfolding of_int_minus of_int_numeral of_int_0 by blast
qed

lemma bh1750_decoded:
  assumes "\<not> length raw < 2"
  shows "\<exists>l. bh1750_samples raw = Inr [illuminance l] \<and> near (1 / 10) 0 54613 (spelled16 raw 0 / (12 / 10)) l"
proof -
  let ?L = "spelled16 raw 0" and ?l = "round_to 1 (double_div (spelled16 raw 0) (double_round (12 / 10)))"
  note b = spelled_bounds(1,2) [of raw 0]
  have "?L / (12 / 10) \<le> 65535 / (12 / 10)" using b by (simp add: divide_right_mono)
  then have "?L / (12 / 10) \<le> 546125 / 10" by simp
  with lux_near [OF b] have "?l \<le> 54613" by linarith
  with lux_near [OF b] have "near (1 / 10) 0 54613 (?L / (12 / 10)) ?l" by (intro nearI)
  moreover have "bh1750_samples raw = Inr [illuminance ?l]"
    unfolding bh1750_samples_def Let_def spelled_adc index_sums illuminance_def using assms by (simp only: if_False)
  ultimately show ?thesis by blast
qed

text \<open>What the drivers make of the bytes, which spell numbers most significant first: the readings are
  those of the formulas written in the drivers, up to a hundredth (a tenth for light), in spite of the
  rounding of doubles. So the temperatures are from -40 to 160 and from -45 to 130 degrees, a humidity
  never exceeds 64 percent on the first sensor and 100 on the second, and no pressure exceeds 41 hPa, a
  twenty-fifth of that of the air. Too few bytes raise.\<close>

theorem sensor_decoding:
  "(if length raw < 8 then bme280_samples raw = Inl (PyExc ''IndexError'')
    else \<exists>t h p. bme280_samples raw = Inr [temperature t, humidity h, pressure p]
      \<and> near (1 / 100) (- 40) 160 (spelled20 raw 3 / (524288 / 100) - 40) t
      \<and> near (1 / 100) 0 64 (spelled16 raw 6 / 1024) h \<and> near (1 / 100) 0 41 (spelled20 raw 0 / 25600) p)
   \<and> (if length raw < 5 then sht31_samples raw = Inl (PyExc ''IndexError'')
    else \<exists>t h. sht31_samples raw = Inr [temperature t, humidity h]
      \<and> near (1 / 100) (- 45) 130 (- 45 + 175 * spelled16 raw 0 / 65535) t
      \<and> near (1 / 100) 0 100 (100 * spelled16 raw 3 / 65535) h)
   \<and> (if length raw < 2 then bh1750_samples raw = Inl (PyExc ''IndexError'')
    else \<exists>l. bh1750_samples raw = Inr [illuminance l] \<and> near (1 / 10) 0 54613 (spelled16 raw 0 / (12 / 10)) l)"
  using bme280_decoded [of raw] sht31_decoded [of raw] bh1750_decoded [of raw]
  by (simp add: bme280_samples_def [of raw] sht31_samples_def [of raw] bh1750_samples_def [of raw]
      cong del: if_weak_cong del: One_nat_def) 

subsection \<open>A pass over the sensors\<close>

text \<open>The sensors of a scan: each type with the first address of it.\<close>

fun first_addresses :: "string list \<Rightarrow> int list \<Rightarrow> (string \<times> int) list" where
  "first_addresses seen [] = []"
| "first_addresses seen (a # as) = (case address_map a of
     None \<Rightarrow> first_addresses seen as
   | Some t \<Rightarrow> if t \<in> set seen then first_addresses seen as else (t, a) # first_addresses (t # seen) as)"

text \<open>One after the other; one that raises gives nothing.\<close>

fun read_each :: "'w i2c \<Rightarrow> (string \<times> int) list \<Rightarrow> 'w \<Rightarrow> dict list \<times> 'w" where
  "read_each bus [] w = ([], w)"
| "read_each bus ((t, a) # ps) w = (case read_sensor bus t a w of
     (r, w1) \<Rightarrow> (case read_each bus ps w1 of (rest, w2) \<Rightarrow> (case_sum (\<lambda>err. []) id r @ rest, w2)))"

lemma read_loop_each: "read_loop bus seen as w = read_each bus (first_addresses seen as) w"
  by (induction as arbitrary: seen w) (auto split: option.splits prod.splits sum.splits)

lemma new_types_first: "set seen = set found \<Longrightarrow> new_types found as = found @ map fst (first_addresses seen as)"
proof (induction as arbitrary: seen found)
  case (Cons a as)
  show ?case
  proof (cases "address_map a")
    case (Some t)
    show ?thesis
    proof (cases "t \<in> set found")
      case False
      have "new_types (found @ [t]) as = (found @ [t]) @ map fst (first_addresses (t # seen) as)"
        using Cons.prems by (intro Cons.IH) simp
      with Some False Cons.prems show ?thesis by simp
    next
      case True
      have "new_types found as = found @ map fst (first_addresses seen as)" using Cons.prems by (rule Cons.IH)
      with Some True Cons.prems show ?thesis by simp
    qed
  next
    case None
    have "new_types found as = found @ map fst (first_addresses seen as)" using Cons.prems by (rule Cons.IH)
    with None show ?thesis by simp
  qed
qed simp

lemma first_addresses_fresh: "(t, a) \<in> set (first_addresses seen as) \<Longrightarrow> t \<notin> set seen"
proof (induction as arbitrary: seen)
  case (Cons b bs)
  then show ?case using Cons.IH [of seen] Cons.IH [of "the (address_map b) # seen"]
    by (auto split: option.splits if_splits)
qed simp

lemma first_addresses_distinct: "distinct (map fst (first_addresses seen as))"
proof (induction as arbitrary: seen)
  case (Cons b bs)
  then show ?case using first_addresses_fresh [where seen = "the (address_map b) # seen" and as = bs]
    by (auto split: option.split dest: first_addresses_fresh)
qed simp

lemma first_addresses_first:
  "(t, a) \<in> set (first_addresses seen as) \<Longrightarrow> find (\<lambda>b. address_map b = Some t) as = Some a"
proof (induction as arbitrary: seen)
  case (Cons b bs)
  show ?case
  proof (cases "address_map b = Some t")
    case True
    then have "t \<notin> set seen" using first_addresses_fresh [OF Cons.prems] by simp
    with True Cons.prems have "(t, a) = (t, b) \<or> (t, a) \<in> set (first_addresses (t # seen) bs)" by simp
    then have "a = b" using first_addresses_fresh [of t a "t # seen" bs] by auto
    with True show ?thesis by simp
  next
    case False
    then obtain seen' where "(t, a) \<in> set (first_addresses seen' bs)"
      using Cons.prems by (auto split: option.splits if_splits)
    from Cons.IH [OF this] False show ?thesis by simp
  qed
qed simp

text \<open>The samples a pass can give.\<close>

definition plausible :: "dict \<Rightarrow> bool" where
  "plausible s \<longleftrightarrow> (\<exists>v. (s = temperature v \<and> - 45 \<le> v \<and> v \<le> 160) \<or> (s = humidity v \<and> 0 \<le> v \<and> v \<le> 100)
     \<or> (s = pressure v \<and> 0 \<le> v \<and> v \<le> 41) \<or> (s = illuminance v \<and> 0 \<le> v \<and> v \<le> 54613)
     \<or> s = sample_of ''distance_mm'' v ''mm'')"

lemma plausible_simps:
  "- 45 \<le> v \<Longrightarrow> v \<le> 160 \<Longrightarrow> plausible (temperature v)" "0 \<le> v \<Longrightarrow> v \<le> 100 \<Longrightarrow> plausible (humidity v)"
  "0 \<le> v \<Longrightarrow> v \<le> 41 \<Longrightarrow> plausible (pressure v)" "0 \<le> v \<Longrightarrow> v \<le> 54613 \<Longrightarrow> plausible (illuminance v)"
  "plausible (sample_of ''distance_mm'' v ''mm'')"
  by (auto simp: plausible_def)

lemma bme280_plausible: "bme280_samples raw = Inr xs \<Longrightarrow> s \<in> set xs \<Longrightarrow> plausible s"
  using bme280_decoded [of raw]
  by (cases "length raw < 8") (auto simp: bme280_samples_def [of raw] near_def intro!: plausible_simps)

lemma sht31_plausible: "sht31_samples raw = Inr xs \<Longrightarrow> s \<in> set xs \<Longrightarrow> plausible s"
  using sht31_decoded [of raw]
  by (cases "length raw < 5") (auto simp: sht31_samples_def [of raw] near_def intro!: plausible_simps)

lemma bh1750_plausible: "bh1750_samples raw = Inr xs \<Longrightarrow> s \<in> set xs \<Longrightarrow> plausible s"
  using bh1750_decoded [of raw]
  by (cases "length raw < 2") (auto simp: bh1750_samples_def [of raw] near_def intro!: plausible_simps)

lemma bus_then_Inr: "bus_then call f w = (Inr y, w') \<longleftrightarrow> (\<exists>x w1. call w = (Inr x, w1) \<and> f x w1 = (Inr y, w'))"
  by (auto simp: bus_then_def split: prod.splits sum.splits)

lemma read_sensor_plausible:
  assumes "read_sensor bus t a w = (Inr xs, w')" "s \<in> set xs"
  shows "plausible s"
  using assms
  by (auto simp: read_sensor_def read_bme280_def read_sht31_def read_bh1750_def read_vl53l0x_def bus_then_Inr
      plausible_simps(5)
      split: if_splits option.splits intro: bme280_plausible sht31_plausible bh1750_plausible plausible_simps)

lemma read_each_plausible: "s \<in> set (fst (read_each bus ps w)) \<Longrightarrow> plausible s"
proof (induction bus ps w rule: read_each.induct)
  case (2 bus t a ps w)
  obtain r w1 where r: "read_sensor bus t a w = (r, w1)" by fastforce
  obtain rest w2 where rest: "read_each bus ps w1 = (rest, w2)" by fastforce
  from "2.prems" r rest consider xs where "r = Inr xs" "s \<in> set xs" | "s \<in> set rest"
    by (cases r) auto
  then show ?case
  proof cases
    case 1
    then show ?thesis using r by (auto intro: read_sensor_plausible)
  next
    case 2
    then show ?thesis using "2.IH" [OF r [symmetric]] rest by simp
  qed
qed simp

text \<open>A pass over the sensors reads each type that was discovered once, at the first address that answered
  and could be it, in the order of the discovery; a driver that raises adds nothing, and its type is not
  tried at another address. Whatever the bus answers, every sample is in the range of its metric.\<close>

theorem sensor_pass:
  assumes "scan_addresses True bus w = (as, w1)"
  shows "discover True bus w = (map fst (first_addresses [] as), w1)
   \<and> distinct (map fst (first_addresses [] as))
   \<and> (\<forall>(t, a) \<in> set (first_addresses [] as). find (\<lambda>b. address_map b = Some t) as = Some a)
   \<and> read_all True bus w = read_each bus (first_addresses [] as) w1
   \<and> (\<forall>s \<in> set (fst (read_all True bus w)). plausible s)"
proof -
  have all: "read_all True bus w = read_each bus (first_addresses [] as) w1"
    by (simp add: read_all_def assms read_loop_each)
  have "discover True bus w = (map fst (first_addresses [] as), w1)"
    by (simp add: discover_def assms new_types_first [of "[]" "[]"])
  moreover have "\<forall>s \<in> set (fst (read_all True bus w)). plausible s"
    unfolding all by (intro ballI) (rule read_each_plausible)
  moreover have "\<forall>(t, a) \<in> set (first_addresses [] as). find (\<lambda>b. address_map b = Some t) as = Some a"
    using first_addresses_first [where seen = "[]" and as = as] by auto
  ultimately show ?thesis using all first_addresses_distinct [of "[]" as] by simp
qed

text \<open>A bus on which the first address of a type does not work: the sensor at the second is not read.\<close>

definition demo_bus :: "unit i2c" where
  "demo_bus = \<lparr>ic_open = Pair (Inr ()),
     ic_probe = (\<lambda>a. Pair (if a = 0x44 \<or> a = 0x45 then Inr () else Inl (PyExc ''OSError''))),
     ic_read = (\<lambda>a r. Pair (Inr 0)), ic_write = (\<lambda>a r v. Pair (Inr ())),
     ic_block = (\<lambda>a r n. Pair (if a = 0x44 then Inl (PyExc ''OSError'') else Inr (replicate n 0))),
     ic_command = (\<lambda>a c. Pair (Inr ())), ic_range = (\<lambda>a. Pair (Inr None))\<rparr>"

lemma demo_scan: "scan_addresses True demo_bus () = ([0x44, 0x45], ())"
  by (simp add: scan_addresses_def demo_bus_def upto_rec1)

theorem sensor_pass_witness:
  "discover True demo_bus () = ([''sht31''], ()) \<and> fst (read_all True demo_bus ()) = []"
  using sensor_pass [OF demo_scan]
  by (simp add: address_map_def read_sensor_def read_sht31_def bus_then_def demo_bus_def)

end
