(* ===== verification/Sdk.thy ===== *)
theory Sdk
  imports DeviceApi
begin

text \<open>
  The Python SDK (\<open>libraries/sdk/src/sdk\<close>: \<open>api/client.py\<close>, \<open>types/__init__.py\<close>) and the routes
  of the services it is written for. A request is kept as the verb, the segments of the path behind
  the base URL, the query and the body; an id is one segment (ids with characters that mean something in a
  URL are left out). What pydantic takes for a time or a number beside a JSON one is a parameter, and so is
  the HTTP client: a function on a state of any type \<open>'w\<close>.
\<close>

subsection \<open>Types\<close>

datatype py_type =
    Py_str | Py_int | Py_time | Py_dict | Py_list | Py_strs | Py_enum "string list" | Py_opt py_type

record pydantic =
  pd_time :: "json \<Rightarrow> bool"
  pd_int :: "json \<Rightarrow> bool"

definition is_text :: "json \<Rightarrow> bool" where
  "is_text v = (case v of JStr s \<Rightarrow> True | JIso t \<Rightarrow> True | _ \<Rightarrow> False)"

fun conforms :: "pydantic \<Rightarrow> py_type \<Rightarrow> json \<Rightarrow> bool" where
  "conforms pd Py_str v = is_text v"
| "conforms pd Py_int v = (case v of JInt i \<Rightarrow> True | _ \<Rightarrow> pd_int pd v)"
| "conforms pd Py_time v = (case v of JIso t \<Rightarrow> True | _ \<Rightarrow> pd_time pd v)"
| "conforms pd Py_dict v = (case v of JObj d \<Rightarrow> True | _ \<Rightarrow> False)"
| "conforms pd Py_list v = (case v of JArr xs \<Rightarrow> True | _ \<Rightarrow> False)"
| "conforms pd Py_strs v = (case v of JArr xs \<Rightarrow> list_all is_text xs | _ \<Rightarrow> False)"
| "conforms pd (Py_enum names) v = (case v of JStr s \<Rightarrow> s \<in> set names | _ \<Rightarrow> False)"
| "conforms pd (Py_opt t) v = (v = JNull \<or> conforms pd t v)"

text \<open>A field: its name, its default (none: it is required), its type.\<close>

type_synonym py_model = "(string \<times> json option \<times> py_type) list"

definition sdk_device_status :: "string list" where
  "sdk_device_status = [''online'', ''offline'', ''maintenance'', ''error'']"

definition sdk_execution_status :: "string list" where
  "sdk_execution_status = [''pending'', ''running'', ''completed'', ''failed'', ''cancelled'']"

definition sdk_device :: py_model where
  "sdk_device =
     [(''id'', None, Py_str), (''name'', None, Py_str), (''device_type'', None, Py_str),
      (''description'', Some JNull, Py_opt Py_str), (''status'', Some (JStr ''offline''), Py_enum sdk_device_status),
      (''last_seen'', Some JNull, Py_opt Py_time), (''metadata'', Some JNull, Py_opt Py_dict),
      (''tags'', Some JNull, Py_opt Py_strs), (''created_at'', None, Py_time), (''updated_at'', None, Py_time)]"

definition sdk_fleet :: py_model where
  "sdk_fleet =
     [(''id'', None, Py_str), (''name'', None, Py_str), (''description'', Some JNull, Py_opt Py_str),
      (''device_ids'', None, Py_strs), (''metadata'', Some JNull, Py_opt Py_dict),
      (''created_at'', None, Py_time), (''updated_at'', None, Py_time)]"

definition sdk_network :: py_model where
  "sdk_network =
     [(''id'', None, Py_str), (''name'', None, Py_str), (''cidr'', None, Py_str),
      (''gateway'', Some JNull, Py_opt Py_str), (''dns_servers'', Some JNull, Py_opt Py_strs),
      (''metadata'', Some JNull, Py_opt Py_dict), (''created_at'', None, Py_time), (''updated_at'', None, Py_time)]"

definition sdk_execution :: py_model where
  "sdk_execution =
     [(''id'', None, Py_str), (''device_id'', None, Py_str), (''plugin_id'', None, Py_str),
      (''status'', Some (JStr ''pending''), Py_enum sdk_execution_status), (''input'', Some JNull, Py_opt Py_dict),
      (''output'', Some JNull, Py_opt Py_dict), (''error'', Some JNull, Py_opt Py_str),
      (''started_at'', Some JNull, Py_opt Py_time), (''completed_at'', Some JNull, Py_opt Py_time),
      (''created_at'', None, Py_time), (''updated_at'', None, Py_time)]"

definition sdk_page :: py_model where
  "sdk_page =
     [(''items'', None, Py_list), (''total'', None, Py_int), (''page'', None, Py_int),
      (''page_size'', None, Py_int), (''pages'', None, Py_int)]"

definition field_ok :: "pydantic \<Rightarrow> dict \<Rightarrow> string \<times> json option \<times> py_type \<Rightarrow> bool" where
  "field_ok pd d = (\<lambda>(k, dflt, t). if dhas d k then conforms pd t (dget d k) else dflt \<noteq> None)"

text \<open>\<open>Model(**response.json())\<close>: the fields that are not declared are dropped.\<close>

definition parse_model :: "pydantic \<Rightarrow> py_model \<Rightarrow> json \<Rightarrow> dict res" where
  "parse_model pd m v = (case v of
     JObj d \<Rightarrow>
       if list_all (field_ok pd d) m
       then Inr (map (\<lambda>(k, dflt, t). (k, dget_or d k (case dflt of None \<Rightarrow> JNull | Some x \<Rightarrow> x))) m)
       else Inl (PyExc ''ValidationError'')
   | _ \<Rightarrow> Inl (PyExc ''TypeError''))"

subsection \<open>Requests\<close>

datatype verb = Verb_get | Verb_post | Verb_put | Verb_patch | Verb_delete

record sdk_request =
  sq_verb :: verb
  sq_path :: "string list"
  sq_params :: dict
  sq_body :: "dict option"

definition new_request :: "verb \<Rightarrow> string list \<Rightarrow> dict \<Rightarrow> dict option \<Rightarrow> sdk_request" where
  "new_request v p params body = \<lparr>sq_verb = v, sq_path = p, sq_params = params, sq_body = body\<rparr>"

type_synonym 'w http_client = "sdk_request \<Rightarrow> 'w \<Rightarrow> answer \<times> 'w"

text \<open>\<open>raise_for_status\<close> lets a success pass; other statuses and the client's own exceptions raise.\<close>

definition sdk_send :: "'w http_client \<Rightarrow> sdk_request \<Rightarrow> 'w \<Rightarrow> json res \<times> 'w" where
  "sdk_send client r w = (case client r w of
     (Answer s b, w1) \<Rightarrow> (if success s then Inr b else Inl (PyExc ''HTTPStatusError''), w1)
   | (NoAnswer e, w1) \<Rightarrow> (Inl (PyExc ''RequestError''), w1))"

definition sdk_fetch :: "'w http_client \<Rightarrow> pydantic \<Rightarrow> py_model \<Rightarrow> sdk_request \<Rightarrow> 'w \<Rightarrow> dict res \<times> 'w" where
  "sdk_fetch client pd m r w = (case sdk_send client r w of
     (Inl err, w1) \<Rightarrow> (Inl err, w1) | (Inr v, w1) \<Rightarrow> (parse_model pd m v, w1))"

definition page_params :: "int \<Rightarrow> int \<Rightarrow> dict" where
  "page_params page page_size = [(''page'', JInt page), (''page_size'', JInt page_size)]"

definition optional_param :: "string \<Rightarrow> string option \<Rightarrow> dict" where
  "optional_param k v = (if nonempty v then [(k, JStr (fstr v))] else [])"

text \<open>The four kinds of resources use the same calls, on these paths and models.\<close>

definition list_request :: "string \<Rightarrow> int \<Rightarrow> int \<Rightarrow> dict \<Rightarrow> sdk_request" where
  "list_request path page page_size filters = new_request Verb_get [path] (page_params page page_size @ filters) None"

definition get_request :: "string \<Rightarrow> string \<Rightarrow> sdk_request" where
  "get_request path i = new_request Verb_get [path, i] [] None"

definition create_request :: "string \<Rightarrow> dict \<Rightarrow> sdk_request" where
  "create_request path body = new_request Verb_post [path] [] (Some body)"

definition update_request :: "string \<Rightarrow> string \<Rightarrow> dict \<Rightarrow> sdk_request" where
  "update_request path i body = new_request Verb_put [path, i] [] (Some body)"

definition delete_request :: "string \<Rightarrow> string \<Rightarrow> sdk_request" where
  "delete_request path i = new_request Verb_delete [path, i] [] None"

definition devices_list ::
  "'w http_client \<Rightarrow> pydantic \<Rightarrow> int \<Rightarrow> int \<Rightarrow> string option \<Rightarrow> string option \<Rightarrow> 'w \<Rightarrow> dict res \<times> 'w" where
  "devices_list client pd page page_size status device_type =
     sdk_fetch client pd sdk_page (list_request ''devices'' page page_size
       (optional_param ''status'' status @ optional_param ''device_type'' device_type))"

definition devices_get :: "'w http_client \<Rightarrow> pydantic \<Rightarrow> string \<Rightarrow> 'w \<Rightarrow> dict res \<times> 'w" where
  "devices_get client pd i = sdk_fetch client pd sdk_device (get_request ''devices'' i)"

record sdk_device_create =
  sdc_name :: string
  sdc_device_type :: string
  sdc_description :: "string option"
  sdc_metadata :: "dict option"
  sdc_tags :: "string list option"

definition jdict :: "dict option \<Rightarrow> json" where
  "jdict d = (case d of None \<Rightarrow> JNull | Some x \<Rightarrow> JObj x)"

definition jstrs :: "string list option \<Rightarrow> json" where
  "jstrs xs = (case xs of None \<Rightarrow> JNull | Some ys \<Rightarrow> JArr (map JStr ys))"

definition device_create_dump :: "sdk_device_create \<Rightarrow> dict" where
  "device_create_dump p =
     [(''name'', JStr (sdc_name p)), (''device_type'', JStr (sdc_device_type p)),
      (''description'', jstr (sdc_description p)), (''metadata'', jdict (sdc_metadata p)), (''tags'', jstrs (sdc_tags p))]"

definition devices_create :: "'w http_client \<Rightarrow> pydantic \<Rightarrow> sdk_device_create \<Rightarrow> 'w \<Rightarrow> dict res \<times> 'w" where
  "devices_create client pd p = sdk_fetch client pd sdk_device (create_request ''devices'' (device_create_dump p))"

text \<open>The body holds the fields that were set.\<close>

definition devices_update :: "'w http_client \<Rightarrow> pydantic \<Rightarrow> string \<Rightarrow> dict \<Rightarrow> 'w \<Rightarrow> dict res \<times> 'w" where
  "devices_update client pd i body = sdk_fetch client pd sdk_device (update_request ''devices'' i body)"

definition devices_delete :: "'w http_client \<Rightarrow> string \<Rightarrow> 'w \<Rightarrow> unit res \<times> 'w" where
  "devices_delete client i w = (case sdk_send client (delete_request ''devices'' i) w of
     (Inl err, w1) \<Rightarrow> (Inl err, w1) | (Inr _, w1) \<Rightarrow> (Inr (), w1))"

text \<open>\<open>remove_devices\<close> gives the client's \<open>delete\<close> an argument that it does not have.\<close>

definition fleet_remove_devices :: "string \<Rightarrow> string list \<Rightarrow> 'w \<Rightarrow> dict res \<times> 'w" where
  "fleet_remove_devices i device_ids w = (Inl (PyExc ''TypeError''), w)"

definition fleet_add_request :: "string \<Rightarrow> string list \<Rightarrow> sdk_request" where
  "fleet_add_request i device_ids =
     new_request Verb_post [''fleet'', i, ''devices''] [] (Some [(''device_ids'', JArr (map JStr device_ids))])"

definition cancel_request :: "string \<Rightarrow> sdk_request" where
  "cancel_request i = new_request Verb_post [''execution'', i, ''cancel''] [] None"

definition health_request :: sdk_request where
  "health_request = new_request Verb_get [''health''] [] None"

definition version_request :: sdk_request where
  "version_request = new_request Verb_get [''version''] [] None"

subsection \<open>Routes\<close>

text \<open>A route: its verb, its path behind the host, where \<open>Par\<close> takes one segment, and its handler.\<close>

datatype seg = Lit string | Par

type_synonym route = "verb \<times> seg list \<times> string"

fun seg_match :: "seg list \<Rightarrow> string list \<Rightarrow> string list option" where
  "seg_match [] [] = Some []"
| "seg_match (Lit l # ps) (s # ss) = (if s = l then seg_match ps ss else None)"
| "seg_match (Par # ps) (s # ss) = (if s = [] then None else map_option (Cons s) (seg_match ps ss))"
| "seg_match _ _ = None"

text \<open>The first route whose path and verb match; a path that matches with other verbs only is a 405.\<close>

fun find_route :: "route list \<Rightarrow> verb \<Rightarrow> string list \<Rightarrow> bool \<Rightarrow> nat + (string \<times> string list)" where
  "find_route [] v path other = Inl (if other then 405 else 404)"
| "find_route ((m, pat, handler) # rs) v path other = (case seg_match pat path of
     None \<Rightarrow> find_route rs v path other
   | Some args \<Rightarrow> if m = v then Inr (handler, args) else find_route rs v path True)"

definition api_v2 :: "seg list \<Rightarrow> seg list" where
  "api_v2 p = Lit ''api'' # Lit ''v2'' # p"

definition of_device :: "string list \<Rightarrow> seg list" where
  "of_device p = api_v2 (Lit ''devices'' # Par # map Lit p)"

definition service_routes :: "route list" where
  "service_routes = [(Verb_get, [Lit ''health''], ''health''), (Verb_get, [Lit ''ready''], ''ready''),
     (Verb_get, [Lit ''metrics''], ''metrics'')]"

definition device_routes :: "route list" where
  "device_routes =
     [(Verb_post, api_v2 [Lit ''devices'', Lit ''announce''], ''announce''),
      (Verb_get, api_v2 [Lit ''devices'', Lit ''announce'', Lit ''poll''], ''poll''),
      (Verb_get, api_v2 [Lit ''devices'', Lit ''pending''], ''list_pending''),
      (Verb_post, of_device [''claim''], ''claim''),
      (Verb_post, of_device [''reject''], ''reject''),
      (Verb_post, api_v2 [Lit ''devices'', Lit ''matter'', Lit ''commission''], ''matter_commission''),
      (Verb_get, api_v2 [Lit ''devices'', Lit ''matter'', Lit ''commission'', Par], ''matter_commission_status''),
      (Verb_get, of_device [''privacy''], ''get_privacy''),
      (Verb_post, of_device [''privacy'', ''consent''], ''grant_consent''),
      (Verb_delete, of_device [''privacy'', ''consent''] @ [Par], ''revoke_consent''),
      (Verb_get, of_device [''privacy'', ''events''], ''get_ownership_events''),
      (Verb_get, of_device [''shadow''], ''get_shadow''),
      (Verb_patch, of_device [''shadow'', ''desired''], ''update_desired''),
      (Verb_post, of_device [''shadow'', ''reported''], ''update_reported''),
      (Verb_delete, of_device [''shadow''], ''delete_shadow''),
      (Verb_get, of_device [''matter'', ''clusters''], ''get_matter_clusters''),
      (Verb_post, of_device [''telemetry''], ''ingest_telemetry''),
      (Verb_get, of_device [''telemetry''], ''query_telemetry''),
      (Verb_get, of_device [''telemetry'', ''latest''], ''latest_telemetry''),
      (Verb_post, of_device [''slos''], ''create_slo''),
      (Verb_get, of_device [''slos''], ''list_slos''),
      (Verb_patch, of_device [''slos''] @ [Par], ''update_slo''),
      (Verb_delete, of_device [''slos''] @ [Par], ''delete_slo''),
      (Verb_get, of_device [''slos'', ''violations''], ''list_violations''),
      (Verb_get, of_device [''slos'', ''assistant''], ''slo_assistant''),
      (Verb_get, api_v2 [Lit ''devices''], ''list_devices''),
      (Verb_get, of_device [], ''get_device''),
      (Verb_post, api_v2 [Lit ''devices''], ''create_device''),
      (Verb_patch, of_device [], ''update_device''),
      (Verb_delete, of_device [], ''delete_device''),
      (Verb_post, api_v2 [Lit ''agents'', Lit ''register''], ''agent_register''),
      (Verb_post, api_v2 [Lit ''agents'', Par, Lit ''heartbeat''], ''agent_heartbeat''),
      (Verb_post, of_device [''runtime-config''], ''set_device_runtime_config'')]
   @ service_routes
   @ [(Verb_get, api_v2 [Lit ''audit'', Lit ''events''], ''list_audit_events''),
      (Verb_get, api_v2 [Lit ''audit'', Lit ''events'', Lit ''export''], ''export_audit_events'')]"

definition fleet_routes :: "route list" where
  "fleet_routes = service_routes @
     [(Verb_get, api_v2 [Lit ''fleets''], ''list_fleets''), (Verb_post, api_v2 [Lit ''fleets''], ''create_fleet''),
      (Verb_get, api_v2 [Lit ''fleets'', Par], ''get_fleet''), (Verb_patch, api_v2 [Lit ''fleets'', Par], ''update_fleet''),
      (Verb_delete, api_v2 [Lit ''fleets'', Par], ''delete_fleet''),
      (Verb_post, api_v2 [Lit ''fleets'', Par, Lit ''members''], ''add_fleet_member''),
      (Verb_get, api_v2 [Lit ''fleets'', Par, Lit ''members''], ''list_fleet_members''),
      (Verb_delete, api_v2 [Lit ''fleets'', Par, Lit ''members'', Par], ''remove_fleet_member''),
      (Verb_get, api_v2 [Lit ''devices'', Par, Lit ''fleets''], ''list_device_fleets''),
      (Verb_get, api_v2 [Lit ''fleets'', Par, Lit ''health''], ''fleet_health''),
      (Verb_get, api_v2 [Lit ''fleets'', Par, Lit ''telemetry'', Lit ''latest''], ''fleet_telemetry_latest'')]"

definition network_routes :: "route list" where
  "network_routes = service_routes @
     [(Verb_get, api_v2 [Lit ''ports''], ''list_ports''), (Verb_post, api_v2 [Lit ''ports''], ''create_port''),
      (Verb_get, api_v2 [Lit ''ports'', Par], ''get_port''), (Verb_patch, api_v2 [Lit ''ports'', Par], ''update_port''),
      (Verb_delete, api_v2 [Lit ''ports'', Par], ''delete_port'')]"

definition execution_routes :: "route list" where
  "execution_routes = service_routes @
     [(Verb_get, api_v2 [Lit ''executions''], ''list_executions''),
      (Verb_post, api_v2 [Lit ''executions''], ''create_execution''),
      (Verb_get, api_v2 [Lit ''executions'', Par], ''get_execution''),
      (Verb_delete, api_v2 [Lit ''executions'', Par], ''delete_execution''),
      (Verb_post, api_v2 [Lit ''executions'', Par, Lit ''dispatch''], ''dispatch_execution''),
      (Verb_post, api_v2 [Lit ''executions'', Par, Lit ''callback''], ''callback_execution''),
      (Verb_post, api_v2 [Lit ''functions'', Par, Lit ''invoke''], ''invoke_function''),
      (Verb_post, api_v2 [Lit ''devices'', Par, Lit ''functions'', Par, Lit ''invoke''], ''invoke_function_on_device''),
      (Verb_post, api_v2 [Lit ''executions'', Par, Lit ''cancel''], ''cancel_execution''),
      (Verb_post, api_v2 [Lit ''drift'', Lit ''analyze''], ''analyze_drift''),
      (Verb_post, api_v2 [Lit ''runbooks'', Lit ''execute''], ''execute_runbook''),
      (Verb_post, api_v2 [Lit ''triggers''], ''create_trigger''), (Verb_get, api_v2 [Lit ''triggers''], ''list_triggers''),
      (Verb_get, api_v2 [Lit ''triggers'', Par], ''get_trigger''), (Verb_delete, api_v2 [Lit ''triggers'', Par], ''delete_trigger''),
      (Verb_patch, api_v2 [Lit ''triggers'', Par, Lit ''enable''], ''enable_trigger''),
      (Verb_patch, api_v2 [Lit ''triggers'', Par, Lit ''disable''], ''disable_trigger''),
      (Verb_post, api_v2 [Lit ''fleets'', Par, Lit ''executions'', Lit ''rollout''], ''rollout_execution_to_fleet''),
      (Verb_post, api_v2 [Lit ''fleets'', Par, Lit ''functions'', Par, Lit ''deploy''], ''deploy_function_to_fleet''),
      (Verb_get, api_v2 [Lit ''fleets'', Par, Lit ''functions'', Par, Lit ''deploy'', Lit ''status''], ''fleet_deploy_status''),
      (Verb_post, api_v2 [Lit ''fleets'', Par, Lit ''functions'', Par, Lit ''invoke''], ''invoke_function_on_fleet''),
      (Verb_get, api_v2 [Lit ''operator'', Lit ''functions'', Lit ''deployments''], ''operator_function_deployments''),
      (Verb_get, api_v2 [Lit ''operator'', Lit ''functions'', Lit ''invocations''], ''operator_function_invocations''),
      (Verb_get, api_v2 [Lit ''operator'', Lit ''functions'', Lit ''failures''], ''operator_function_failures''),
      (Verb_get, api_v2 [Lit ''operator'', Lit ''runtime'', Lit ''health''], ''operator_runtime_health'')]"

text \<open>The base URL of the SDK ends in \<open>/api/v2\<close>.\<close>

definition routed :: "route list \<Rightarrow> sdk_request \<Rightarrow> nat + (string \<times> string list)" where
  "routed rs r = find_route rs (sq_verb r) (''api'' # ''v2'' # sq_path r) False"

subsection \<open>The device endpoints behind the routes\<close>

text \<open>\<open>DeviceResponse\<close> as JSON.\<close>

definition device_json :: "device \<Rightarrow> json" where
  "device_json d = JObj
     [(''name'', JStr (dv_name d)), (''device_type'', JStr (dv_device_type d)), (''description'', jstr (dv_description d)),
      (''metadata'', jdict (dv_meta d)), (''tags'', jstrs (dv_tags d)),
      (''connection_protocol'', JStr (dv_connection_protocol d)), (''id'', JStr (dv_id d)),
      (''status'', JStr (dv_status d)), (''last_seen'', jtime (dv_last_seen d)),
      (''created_at'', JIso (dv_created_at d)), (''updated_at'', JIso (dv_updated_at d)),
      (''owner_id'', jstr (dv_owner_id d)), (''tenant_id'', jstr (dv_tenant_id d)),
      (''privacy_level'', JInt (dv_privacy_level d)), (''capabilities'', jdict (dv_capabilities d)),
      (''protocol_meta'', jdict (dv_protocol_meta d))]"

definition page_json :: "device_page \<Rightarrow> json" where
  "page_json p = JObj [(''items'', JArr (map device_json (pg_items p))), (''total'', JInt (int (pg_total p))),
     (''page'', JInt (pg_page p)), (''page_size'', JInt (pg_page_size p))]"

definition int_param :: "dict \<Rightarrow> string \<Rightarrow> int \<Rightarrow> int" where
  "int_param d k dflt = (case dget d k of JInt i \<Rightarrow> i | _ \<Rightarrow> dflt)"

definition str_param :: "dict \<Rightarrow> string \<Rightarrow> string option" where
  "str_param d k = (case dget d k of JStr s \<Rightarrow> Some s | _ \<Rightarrow> None)"

definition device_query_of :: "dict \<Rightarrow> device_query" where
  "device_query_of d = \<lparr>q_page = int_param d ''page'' 1, q_page_size = int_param d ''page_size'' 50,
     q_status = str_param d ''status'', q_device_type = str_param d ''device_type'',
     q_tenant_id = str_param d ''tenant_id'', q_owner_id = str_param d ''owner_id'',
     q_connection_protocol = str_param d ''connection_protocol''\<rparr>"

definition texts_of :: "dict \<Rightarrow> string \<Rightarrow> string list option option" where
  "texts_of d k = (case dget d k of
     JNull \<Rightarrow> Some None
   | JArr xs \<Rightarrow> map_option Some (parse_all (\<lambda>v. case v of JStr s \<Rightarrow> Some s | _ \<Rightarrow> None) xs)
   | _ \<Rightarrow> None)"

definition parse_create :: "dict \<Rightarrow> device_create option" where
  "parse_create d =
     (case (str_field d ''name'' 1 255, str_field d ''device_type'' 1 100, opt_str d ''description'') of
        (Some n, Some t, Some de) \<Rightarrow>
          (case (opt_dict d ''metadata'', texts_of d ''tags'', protocol_field d) of
             (Some m, Some tg, Some p) \<Rightarrow>
               Some \<lparr>dp_name = n, dp_device_type = t, dp_description = de, dp_metadata = m, dp_tags = tg,
                     dp_connection_protocol = p\<rparr>
           | _ \<Rightarrow> None)
      | _ \<Rightarrow> None)"

definition answer_of :: "nat \<Rightarrow> ('a \<Rightarrow> json) \<Rightarrow> 'a res \<Rightarrow> answer" where
  "answer_of status shown r = (case r of Inl err \<Rightarrow> error_answer err | Inr x \<Rightarrow> Answer status (shown x))"

text \<open>The device service as an HTTP client sees it; the handlers the SDK does not reach are \<open>rest\<close>.\<close>

definition device_http ::
  "api_env \<Rightarrow> device_settings \<Rightarrow> device_env \<Rightarrow> device_user \<Rightarrow> (string \<Rightarrow> device_state http_client) \<Rightarrow> device_state http_client" where
  "device_http api cfg env u rest r st = (case routed device_routes r of
     Inl s \<Rightarrow> (Answer s JNull, st)
   | Inr (handler, args) \<Rightarrow>
       if handler = ''list_devices''
       then (answer_of 200 page_json (list_devices u (device_query_of (sq_params r)) st), st)
       else if handler = ''create_device''
       then (case Option.bind (sq_body r) parse_create of
               None \<Rightarrow> (unprocessable, st)
             | Some p \<Rightarrow> map_prod (answer_of 201 device_json) id (create_device cfg env u p st))
       else if handler \<in> {''get_device'', ''delete_device''}
       then (case ap_uuid api (hd args) of
               None \<Rightarrow> (unprocessable, st)
             | Some i \<Rightarrow>
                 if handler = ''get_device'' then (answer_of 200 device_json (get_device u i st), st)
                 else map_prod (answer_of 204 (\<lambda>x. JNull)) id (delete_device cfg env u i st))
       else rest handler r st)"

end
