(* ===== verification/SdkProperties.thy ===== *)
theory SdkProperties
  imports Sdk
begin

text \<open>
  What the calls of the SDK come to at the services: which requests have a route, and what the device
  calls return from the device service.
\<close>

subsection \<open>Routes\<close>

lemmas route_lists = device_routes_def fleet_routes_def network_routes_def execution_routes_def service_routes_def
  of_device_def api_v2_def

lemmas sdk_requests = list_request_def get_request_def create_request_def update_request_def delete_request_def
  fleet_add_request_def cancel_request_def health_request_def version_request_def new_request_def

text \<open>The first segment behind the version decides: no route has another one than these.\<close>

fun heads :: "seg list \<Rightarrow> string list \<Rightarrow> bool" where
  "heads (Lit a # Lit b # Lit c # ps) names \<longleftrightarrow> (a = ''api'' \<and> b = ''v2'' \<longrightarrow> c \<in> set names)"
| "heads (Lit a # ps) names \<longleftrightarrow> a \<noteq> ''api''"
| "heads ps names \<longleftrightarrow> False"

lemma heads_no_match:
  "heads pat names \<Longrightarrow> s \<notin> set names \<Longrightarrow> seg_match pat (''api'' # ''v2'' # s # ss) = None"
  by (induction pat names rule: heads.induct) auto

lemma find_route_404:
  "list_all (\<lambda>(v, pat, h). heads pat names) rs \<Longrightarrow> s \<notin> set names \<Longrightarrow>
     find_route rs v (''api'' # ''v2'' # s # ss) b = Inl (if b then 405 else 404)"
  by (induction rs) (auto simp: heads_no_match)

definition known_heads :: "string list" where
  "known_heads = [''devices'', ''agents'', ''audit'', ''fleets'', ''ports'', ''executions'', ''functions'', ''drift'',
     ''runbooks'', ''triggers'', ''operator'']"

lemma route_heads:
  "rs \<in> {device_routes, fleet_routes, network_routes, execution_routes} \<Longrightarrow> list_all (\<lambda>(v, pat, h). heads pat known_heads) rs"
  by (elim insertE emptyE) (simp_all add: route_lists known_heads_def)

text \<open>The requests of the SDK that are not about devices.\<close>

definition other_requests :: "string \<Rightarrow> dict \<Rightarrow> string list \<Rightarrow> int \<Rightarrow> int \<Rightarrow> dict \<Rightarrow> sdk_request list" where
  "other_requests i body ids page page_size filters =
     concat (map (\<lambda>path. [list_request path page page_size filters, get_request path i, create_request path body,
        update_request path i body, delete_request path i]) [''fleet'', ''network'', ''execution''])
   @ [fleet_add_request i ids, cancel_request i, health_request, version_request]"

text \<open>No call of the SDK on fleets, networks or executions, nor its health and version calls, has a route at
  the device, fleet, network or execution service, whichever the base URL names: each is answered 404. (The
  services serve \<open>fleets\<close>, \<open>ports\<close> and \<open>executions\<close>.) And removing devices from a fleet raises before it sends.\<close>

theorem sdk_unrouted:
  "(\<forall>rs \<in> {device_routes, fleet_routes, network_routes, execution_routes}.
      \<forall>r \<in> set (other_requests i body ids page page_size filters). routed rs r = Inl 404)
   \<and> fleet_remove_devices i ids w = (Inl (PyExc ''TypeError''), w)"
proof (intro conjI ballI)
  fix rs r
  assume rs: "rs \<in> {device_routes, fleet_routes, network_routes, execution_routes}"
    and "r \<in> set (other_requests i body ids page page_size filters)"
  then obtain s ss where "sq_path r = s # ss" "s \<in> {''fleet'', ''network'', ''execution'', ''health'', ''version''}"
    by (auto simp: other_requests_def sdk_requests)
  moreover from this have "s \<notin> set known_heads" by (auto simp: known_heads_def)
  ultimately show "routed rs r = Inl 404" using find_route_404 [OF route_heads [OF rs]] by (simp add: routed_def)
qed (simp add: fleet_remove_devices_def)

theorem sdk_unrouted_witness: "routed fleet_routes (get_request ''fleet'' ''f1'') = Inl 404"
  using sdk_unrouted [of "''f1''" "[]" "[]" 1 20 "[]" "()"] by (simp add: other_requests_def)

subsection \<open>Devices\<close>

lemma routed_list: "routed device_routes (list_request ''devices'' n k f) = Inr (''list_devices'', [])"
  by (simp add: routed_def route_lists sdk_requests)

lemma routed_create: "routed device_routes (create_request ''devices'' body) = Inr (''create_device'', [])"
  by (simp add: routed_def route_lists sdk_requests)

lemma routed_id:
  assumes "i \<noteq> []" "i \<noteq> ''pending''" "i \<noteq> ''announce''"
  shows "routed device_routes (get_request ''devices'' i) = Inr (''get_device'', [i])"
    and "routed device_routes (delete_request ''devices'' i) = Inr (''delete_device'', [i])"
    and "routed device_routes (update_request ''devices'' i body) = Inl 405"
  using assms by (simp_all add: routed_def route_lists sdk_requests)

text \<open>A device as the SDK shows it.\<close>

definition sdk_view :: "device \<Rightarrow> dict" where
  "sdk_view d =
     [(''id'', JStr (dv_id d)), (''name'', JStr (dv_name d)), (''device_type'', JStr (dv_device_type d)),
      (''description'', jstr (dv_description d)), (''status'', JStr (dv_status d)), (''last_seen'', jtime (dv_last_seen d)),
      (''metadata'', jdict (dv_meta d)), (''tags'', jstrs (dv_tags d)),
      (''created_at'', JIso (dv_created_at d)), (''updated_at'', JIso (dv_updated_at d))]"

lemma conforms_device:
  "conforms pd (Py_opt Py_str) (jstr x)" "conforms pd (Py_opt Py_time) (jtime y)"
  "conforms pd (Py_opt Py_dict) (jdict d)" "conforms pd (Py_opt Py_strs) (jstrs xs)"
  by (cases x; cases y; cases d; cases xs; simp add: jdict_def jstrs_def is_text_def list_all_iff)+

lemma parse_device:
  "parse_model pd sdk_device (device_json d) =
     (if dv_status d \<in> set sdk_device_status then Inr (sdk_view d) else Inl (PyExc ''ValidationError''))"
  by (simp add: parse_model_def sdk_device_def device_json_def field_ok_def dhas_def dget_def dget_or_def sdk_view_def
      is_text_def conforms_device del: conforms.simps(8))

lemma parse_page: "parse_model pd sdk_page (page_json p) = Inl (PyExc ''ValidationError'')"
  by (simp add: parse_model_def sdk_page_def page_json_def field_ok_def dhas_def)

lemma create_accepted:
  assumes "sdc_name p \<noteq> []" "length (sdc_name p) \<le> 255" "sdc_device_type p \<noteq> []" "length (sdc_device_type p) \<le> 100"
  shows "parse_create (device_create_dump p) = Some \<lparr>dp_name = sdc_name p, dp_device_type = sdc_device_type p,
    dp_description = sdc_description p, dp_metadata = sdc_metadata p, dp_tags = sdc_tags p,
    dp_connection_protocol = ''nexora-agent''\<rparr>"
proof -
  have "parse_all (\<lambda>v. case v of JStr s \<Rightarrow> Some s | _ \<Rightarrow> None) (map JStr xs) = Some xs" for xs
    by (induction xs) simp_all
  then show ?thesis using assms
    by (cases "sdc_description p"; cases "sdc_metadata p"; cases "sdc_tags p")
      (simp_all add: parse_create_def device_create_dump_def str_field_def opt_str_def opt_dict_def texts_of_def
        protocol_field_def dget_def dget_or_def jdict_def jstrs_def Suc_le_eq)
qed

definition refused :: "error \<Rightarrow> bool" where
  "refused e \<longleftrightarrow> (case e of Http c d \<Rightarrow> \<not> success c | PyExc n \<Rightarrow> True)"

lemma error_not_success: "refused e \<Longrightarrow> error_answer e = Answer s v \<Longrightarrow> \<not> success s"
  by (auto simp: refused_def error_answer_def success_def split: error.splits)

lemma send_answer_of:
  assumes "client r w = (answer_of status shown x, w')" "success status" "\<And>e. x = Inl e \<Longrightarrow> refused e"
  shows "sdk_send client r w = (case x of Inl e \<Rightarrow> Inl (PyExc ''HTTPStatusError'') | Inr y \<Rightarrow> Inr (shown y), w')"
proof (cases x)
  case (Inl e)
  obtain s v where "error_answer e = Answer s v" by (cases e) (simp_all add: error_answer_def)
  with Inl assms error_not_success [of e s v] show ?thesis by (simp add: sdk_send_def answer_of_def)
qed (use assms in \<open>simp add: sdk_send_def answer_of_def\<close>)

lemma refused_simps: "refused (PyExc n)" "\<not> success c \<Longrightarrow> refused (Http c d)" "refused device_not_found"
  by (simp_all add: refused_def device_not_found_def success_def)

lemma list_refused: "list_devices u q st = Inl e \<Longrightarrow> refused e"
  by (auto simp: list_devices_def service_list_devices_def Let_def refused_simps success_def split: if_splits)

lemma get_refused: "get_device u i st = Inl e \<Longrightarrow> refused e"
  by (auto simp: get_device_def refused_simps split: option.splits)

lemma create_refused: "create_device cfg env u p st = (Inl e, st') \<Longrightarrow> refused e"
  by (auto simp: create_device_def insert_device_def Let_def refused_simps split: sum.splits prod.splits if_splits)

lemma delete_refused: "delete_device cfg env u i st = (Inl e, st') \<Longrightarrow> refused e"
  by (auto simp: delete_device_def owner_guard_def refused_simps split: option.splits sum.splits prod.splits bool.splits
      if_splits)

text \<open>The device calls of the SDK against the device service. Listing never works: the service does not
  answer the number of pages, which the SDK requires, so a page that was read is a validation error.
  Updating never works: the service has PATCH where the SDK sends PUT. Getting and creating give the fields of
  the row, unless its status is none of the four the SDK knows; creating makes the row of the service's own create;
  and deleting does what the service's own delete does, and tells no failure from another.\<close>

theorem sdk_devices:
  fixes st :: device_state and api :: api_env and cfg :: device_settings and env :: device_env and u :: device_user
    and rest :: "string \<Rightarrow> device_state http_client"
  defines "client \<equiv> device_http api cfg env u rest"
    and "create \<equiv> \<lambda>p. create_device cfg env u \<lparr>dp_name = sdc_name p, dp_device_type = sdc_device_type p,
      dp_description = sdc_description p, dp_metadata = sdc_metadata p, dp_tags = sdc_tags p,
      dp_connection_protocol = ''nexora-agent''\<rparr> st"
    and "shown \<equiv> \<lambda>d. if dv_status d \<in> set sdk_device_status then Inr (sdk_view d) else Inl (PyExc ''ValidationError'')"
  assumes i: "i \<noteq> []" "i \<noteq> ''pending''" "i \<noteq> ''announce''" "ap_uuid api i = Some i"
    and p: "sdc_name p \<noteq> []" "length (sdc_name p) \<le> 255" "sdc_device_type p \<noteq> []" "length (sdc_device_type p) \<le> 100"
  shows "(\<exists>e. devices_list client pd n k status t st = (Inl (PyExc e), st) \<and> e \<in> {''ValidationError'', ''HTTPStatusError''})
   \<and> devices_update client pd i body st = (Inl (PyExc ''HTTPStatusError''), st)
   \<and> devices_get client pd i st =
       (case find_device i st of None \<Rightarrow> Inl (PyExc ''HTTPStatusError'') | Some d \<Rightarrow> shown (to_response d), st)
   \<and> devices_create client pd p st =
       (case fst (create p) of Inl err \<Rightarrow> Inl (PyExc ''HTTPStatusError'') | Inr d \<Rightarrow> shown d, snd (create p))
   \<and> devices_delete client i st =
       (case fst (delete_device cfg env u i st) of Inl err \<Rightarrow> Inl (PyExc ''HTTPStatusError'') | Inr x \<Rightarrow> Inr (),
        snd (delete_device cfg env u i st))"
proof (intro conjI)
  let ?r = "list_request ''devices'' n k (optional_param ''status'' status @ optional_param ''device_type'' t)"
  have "client ?r st = (answer_of 200 page_json (list_devices u (device_query_of (sq_params ?r)) st), st)"
    by (simp add: client_def device_http_def routed_list)
  then have sent: "sdk_send client ?r st = (case list_devices u (device_query_of (sq_params ?r)) st of
      Inl e \<Rightarrow> Inl (PyExc ''HTTPStatusError'') | Inr y \<Rightarrow> Inr (page_json y), st)"
    by (rule send_answer_of) (simp add: success_def, erule list_refused)
  show "\<exists>e. devices_list client pd n k status t st = (Inl (PyExc e), st) \<and> e \<in> {''ValidationError'', ''HTTPStatusError''}"
    by (cases "list_devices u (device_query_of (sq_params ?r)) st")
      (simp_all add: devices_list_def sdk_fetch_def sent success_def parse_page)
next
  show "devices_update client pd i body st = (Inl (PyExc ''HTTPStatusError''), st)"
    by (simp add: devices_update_def sdk_fetch_def sdk_send_def client_def device_http_def routed_id(3) [OF i(1-3)] success_def)
next
  have "client (get_request ''devices'' i) st = (answer_of 200 device_json (get_device u i st), st)"
    by (simp add: client_def device_http_def routed_id(1) [OF i(1-3)] i(4))
  then have sent: "sdk_send client (get_request ''devices'' i) st = (case get_device u i st of
      Inl e \<Rightarrow> Inl (PyExc ''HTTPStatusError'') | Inr y \<Rightarrow> Inr (device_json y), st)"
    by (rule send_answer_of) (simp add: success_def, erule get_refused)
  show "devices_get client pd i st =
       (case find_device i st of None \<Rightarrow> Inl (PyExc ''HTTPStatusError'') | Some d \<Rightarrow> shown (to_response d), st)"
    by (simp add: devices_get_def sdk_fetch_def sent success_def get_device_def parse_device shown_def split: option.split)
next
  obtain x st' where c: "create p = (x, st')" by fastforce
  then have "client (create_request ''devices'' (device_create_dump p)) st = (answer_of 201 device_json x, st')"
    by (simp add: client_def device_http_def routed_create create_accepted [OF p] create_def)
       (simp add: create_request_def new_request_def create_accepted [OF p])
  then have "sdk_send client (create_request ''devices'' (device_create_dump p)) st = (case x of
      Inl e \<Rightarrow> Inl (PyExc ''HTTPStatusError'') | Inr y \<Rightarrow> Inr (device_json y), st')"
    by (rule send_answer_of) (use c create_refused in \<open>auto simp: success_def create_def\<close>)
  then show "devices_create client pd p st =
       (case fst (create p) of Inl err \<Rightarrow> Inl (PyExc ''HTTPStatusError'') | Inr d \<Rightarrow> shown d, snd (create p))"
    by (simp add: devices_create_def sdk_fetch_def success_def c parse_device shown_def split: sum.split)
next
  obtain x st' where c: "delete_device cfg env u i st = (x, st')" by fastforce
  then have "client (delete_request ''devices'' i) st = (answer_of 204 (\<lambda>x. JNull) x, st')"
    by (simp add: client_def device_http_def routed_id(2) [OF i(1-3)] i(4))
  then have "sdk_send client (delete_request ''devices'' i) st = (case x of
      Inl e \<Rightarrow> Inl (PyExc ''HTTPStatusError'') | Inr y \<Rightarrow> Inr JNull, st')"
    by (rule send_answer_of) (use c delete_refused in \<open>auto simp: success_def\<close>)
  then show "devices_delete client i st =
       (case fst (delete_device cfg env u i st) of Inl err \<Rightarrow> Inl (PyExc ''HTTPStatusError'') | Inr x \<Rightarrow> Inr (),
        snd (delete_device cfg env u i st))"
    by (simp add: devices_delete_def success_def c split: sum.split)
qed

definition demo_api :: api_env where
  "demo_api = \<lparr>ap_uuid = Some, ap_float = (\<lambda>s. None), ap_stamp = (\<lambda>v. None)\<rparr>"

definition demo_pydantic :: pydantic where
  "demo_pydantic = \<lparr>pd_time = (\<lambda>v. False), pd_int = (\<lambda>v. False)\<rparr>"

definition demo_client :: "device_state http_client" where
  "demo_client = device_http demo_api demo_device_settings (demo_device_env 1) device_dev_user (\<lambda>h r st. (unprocessable, st))"

theorem sdk_devices_witness:
  "(\<exists>e. fst (devices_list demo_client demo_pydantic 1 20 None None empty_device_state) = Inl (PyExc e))
   \<and> devices_update demo_client demo_pydantic ''d1'' [] empty_device_state = (Inl (PyExc ''HTTPStatusError''), empty_device_state)"
proof -
  have api: "ap_uuid demo_api ''d1'' = Some ''d1''" by (simp add: demo_api_def)
  show ?thesis unfolding demo_client_def
    using sdk_devices [of "''d1''" demo_api "\<lparr>sdc_name = ''pi'', sdc_device_type = ''linux'', sdc_description = None,
        sdc_metadata = None, sdc_tags = None\<rparr>" demo_device_settings "demo_device_env 1" device_dev_user
        "\<lambda>h r st. (unprocessable, st)" demo_pydantic 1 20 None None empty_device_state "[]"] api
    by (simp, metis fst_conv)
qed

end
