(* ===== verification/ExecAuth.thy ===== *)
theory ExecAuth
  imports Resources Callbacks Agent
begin

text \<open>
  The middleware of the execution service (\<open>execution-service/main.py\<close>, \<open>auth_middleware\<close>): the checks,
  which are word for word those of the DNS service (\<open>Resources\<close>), and the identity it leaves to the
  handlers; the headers that agents and services send; and a callback as it goes through the
  middleware to its handler. Claims are JSON values: without an issuer nobody has checked them.
\<close>

subsection \<open>The middleware\<close>

record exec_auth =
  xa_checks :: dns_auth
  xa_operator_role :: string

text \<open>The state of a request: what is not set is null or none.\<close>

record identity =
  xi_user :: json
  xi_tenant :: json
  xi_operator :: "bool option"
  xi_roles :: json

definition no_identity :: identity where
  "no_identity = \<lparr>xi_user = JNull, xi_tenant = JNull, xi_operator = None, xi_roles = JNull\<rparr>"

definition exec_dev_identity :: identity where
  "exec_dev_identity = \<lparr>xi_user = JStr ''dev-user'', xi_tenant = JStr ''dev'', xi_operator = Some True, xi_roles = JNull\<rparr>"

text \<open>\<open>groups[0].lstrip("/") if groups else "global"\<close>, and \<open>role in roles\<close>.\<close>

definition first_group :: "json \<Rightarrow> string res" where
  "first_group v =
     (if \<not> truthy v then Inr ''global''
      else case v of
        JArr (JStr g # gs) \<Rightarrow> Inr (dropWhile (\<lambda>c. c = CHR ''/'') g)
      | JArr gs \<Rightarrow> Inl (PyExc ''AttributeError'')
      | JStr (c # cs) \<Rightarrow> Inr (dropWhile (\<lambda>c. c = CHR ''/'') [c])
      | JObj d \<Rightarrow> Inl (PyExc ''KeyError'')
      | _ \<Rightarrow> Inl (PyExc ''TypeError''))"

definition role_in :: "string \<Rightarrow> json \<Rightarrow> bool res" where
  "role_in r v = (case v of
     JArr xs \<Rightarrow> Inr (JStr r \<in> set xs) | JStr s \<Rightarrow> Inr (contains s r) | JObj d \<Rightarrow> Inr (dhas d r)
   | _ \<Rightarrow> Inl (PyExc ''TypeError''))"

definition identity_of :: "exec_auth \<Rightarrow> dict \<Rightarrow> identity res" where
  "identity_of cfg claims = (case dget_or claims ''realm_access'' (JObj []) of
     JObj access \<Rightarrow>
       (let roles_list = dget_or access ''roles'' (JArr []) in
        case first_group (dget_or claims ''groups'' (JArr [])) of
          Inl err \<Rightarrow> Inl err
        | Inr tenant \<Rightarrow>
            (case role_in (xa_operator_role cfg) roles_list of
               Inl err \<Rightarrow> Inl err
             | Inr op \<Rightarrow> Inr \<lparr>xi_user = dget_or claims ''sub'' (JStr []), xi_tenant = JStr tenant,
                 xi_operator = Some op, xi_roles = roles_list\<rparr>))
   | _ \<Rightarrow> Inl (PyExc ''AttributeError''))"

definition bearer_token :: "auth_request \<Rightarrow> string" where
  "bearer_token r = drop (length ''Bearer '') (case ar_authorization r of None \<Rightarrow> [] | Some a \<Rightarrow> a)"

definition exec_auth_middleware ::
  "exec_auth \<Rightarrow> (string \<Rightarrow> json option) \<Rightarrow> (string \<Rightarrow> json option) \<Rightarrow> (string \<Rightarrow> rat option) \<Rightarrow> rat \<Rightarrow>
     auth_request \<Rightarrow> identity res" where
  "exec_auth_middleware cfg verify parse flt t r =
     (case dns_auth_middleware (xa_checks cfg) verify parse flt t r of
        Inl err \<Rightarrow> Inl err
      | Inr _ \<Rightarrow>
          if \<not> da_enabled (xa_checks cfg) then Inr exec_dev_identity
          else if ar_path r \<in> set public_paths then Inr no_identity
          else if da_dev_bypass (xa_checks cfg) \<and> bearer_token r = da_dev_token (xa_checks cfg)
          then Inr (exec_dev_identity\<lparr>xi_roles := JArr [JStr (xa_operator_role cfg), JStr (da_write_role (xa_checks cfg))]\<rparr>)
          else case decode_jwt_payload (xa_checks cfg) verify parse (bearer_token r) of
            JObj claims \<Rightarrow> identity_of cfg claims
          | _ \<Rightarrow> Inl (http 401 ''invalid token''))"

subsection \<open>The callers\<close>

text \<open>The headers of the calls between services; those of an agent are \<open>auth_headers\<close>.\<close>

definition service_headers :: "string \<Rightarrow> (string \<times> json) list" where
  "service_headers key = (if key \<noteq> [] then [(''X-Internal-Key'', JStr key)] else [])"

definition header :: "(string \<times> json) list \<Rightarrow> string \<Rightarrow> string option" where
  "header hs k = (case map_of hs k of Some (JStr s) \<Rightarrow> Some s | _ \<Rightarrow> None)"

definition callback_request :: "(string \<times> json) list \<Rightarrow> string \<Rightarrow> auth_request" where
  "callback_request hs i =
     \<lparr>ar_path = ''/api/v2/executions/'' @ i @ ''/callback'', ar_method = ''POST'',
      ar_internal_key = header hs ''X-Internal-Key'', ar_authorization = header hs ''Authorization''\<rparr>"

text \<open>The callback through the middleware to its handler.\<close>

definition post_callback ::
  "exec_auth \<Rightarrow> (string \<Rightarrow> json option) \<Rightarrow> (string \<Rightarrow> json option) \<Rightarrow> (string \<Rightarrow> rat option) \<Rightarrow> rat \<Rightarrow>
     exec_cfg \<Rightarrow> exec_env \<Rightarrow> (string \<times> json) list \<Rightarrow> string \<Rightarrow> dict \<Rightarrow> exec_state \<Rightarrow> dict res \<times> exec_state" where
  "post_callback acfg verify parse flt t cfg env hs i payload st =
     (case exec_auth_middleware acfg verify parse flt t (callback_request hs i) of
        Inl err \<Rightarrow> (Inl err, st)
      | Inr _ \<Rightarrow> callback_execution cfg env (header hs ''X-Internal-Key'') (header hs ''X-Bootstrap-Token'') i payload st)"

subsection \<open>Properties\<close>

lemma bearer_prefix: "startswith h ''Bearer '' \<Longrightarrow> h = ''Bearer '' @ drop (length ''Bearer '') h"
  unfolding startswith_def by (metis append_take_drop_id)

lemma checked_claims:
  assumes "dns_auth_middleware cfg verify parse flt t r = Inr ()" "da_enabled cfg" "ar_path r \<notin> set public_paths"
    and "\<not> da_dev_bypass cfg" "da_issuer cfg \<noteq> []"
  shows "\<exists>claims. ar_authorization r = Some (''Bearer '' @ bearer_token r)
    \<and> decode_jwt_payload cfg verify parse (bearer_token r) = JObj claims
    \<and> verify (bearer_token r) = Some (JObj claims) \<and> dget claims ''iss'' = JStr (da_issuer cfg)
    \<and> (truthy (dget claims ''exp'') \<longrightarrow> (\<exists>e. py_float flt (dget claims ''exp'') = Inr e \<and> t \<le> e))
    \<and> (ar_method r \<in> set write_methods \<longrightarrow> (\<exists>access granted. dget_or claims ''realm_access'' (JObj []) = JObj access
        \<and> role_set (dget_or access ''roles'' (JArr [])) = Inr granted
        \<and> (da_write_role cfg = [] \<or> JStr (da_write_role cfg) \<in> set granted)))"
proof -
  let ?a = "case ar_authorization r of None \<Rightarrow> [] | Some a \<Rightarrow> a"
  have b: "startswith ?a ''Bearer ''"
    using assms by (simp add: dns_auth_middleware_def Let_def split: if_splits)
  then obtain a where a: "ar_authorization r = Some a" by (cases "ar_authorization r") (simp_all add: startswith_def)
  have token: "a = ''Bearer '' @ bearer_token r" using bearer_prefix [OF b] a by (simp add: bearer_token_def)
  let ?d = "decode_jwt_payload cfg verify parse (bearer_token r)"
  obtain claims where c: "?d = JObj claims"
    using assms a by (cases ?d) (simp_all add: dns_auth_middleware_def Let_def bearer_token_def split: if_splits)
  then have "verify (bearer_token r) = Some (JObj claims)"
    using assms(5) by (simp add: decode_jwt_payload_def split: option.splits)
  moreover have "dget claims ''iss'' = JStr (da_issuer cfg)"
    and "truthy (dget claims ''exp'') \<longrightarrow> (\<exists>e. py_float flt (dget claims ''exp'') = Inr e \<and> t \<le> e)"
    and "ar_method r \<in> set write_methods \<longrightarrow> (\<exists>access granted. dget_or claims ''realm_access'' (JObj []) = JObj access
        \<and> role_set (dget_or access ''roles'' (JArr [])) = Inr granted
        \<and> (da_write_role cfg = [] \<or> JStr (da_write_role cfg) \<in> set granted))"
    using assms a c
    by (auto simp: dns_auth_middleware_def Let_def bearer_token_def map_sum_Inr split: if_splits sum.splits json.splits)
  ultimately show ?thesis using a token c by blast
qed

lemma no_bearer:
  assumes "da_enabled (xa_checks cfg)" "ar_path r \<notin> set public_paths" "ar_authorization r = None"
  shows "exec_auth_middleware cfg verify parse flt t r = Inl (http 401 ''missing bearer token'')"
  using assms by (simp add: exec_auth_middleware_def dns_auth_middleware_def Let_def startswith_def)

lemma callback_not_public: "ar_path (callback_request hs i) \<notin> set public_paths"
  by (simp add: callback_request_def public_paths_def)

text \<open>C33. Where authentication is on, with an issuer and without the bypass: a request to a path that is not
  public reaches its handler only with a bearer token that the issuer signed for it and that has not expired,
  for a verb that writes only with the write role, and the handler sees the subject of the token, its first
  group as the tenant and the operator role as the token has it. So no callback of an agent or of another
  service, which carry a bootstrap token or the internal key instead, ever reaches its handler,
  although the handler accepts exactly these: each is answered 401, and the execution stays as it is.\<close>

theorem exec_requests:
  assumes "da_enabled (xa_checks acfg)" "da_issuer (xa_checks acfg) \<noteq> []" "\<not> da_dev_bypass (xa_checks acfg)"
  shows "(exec_auth_middleware acfg verify parse flt t r = Inr ident \<and> ar_path r \<notin> set public_paths \<longrightarrow>
      (\<exists>token claims access. ar_authorization r = Some (''Bearer '' @ token) \<and> verify token = Some (JObj claims)
        \<and> dget claims ''iss'' = JStr (da_issuer (xa_checks acfg))
        \<and> (truthy (dget claims ''exp'') \<longrightarrow> (\<exists>e. py_float flt (dget claims ''exp'') = Inr e \<and> t \<le> e))
        \<and> dget_or claims ''realm_access'' (JObj []) = JObj access \<and> xi_roles ident = dget_or access ''roles'' (JArr [])
        \<and> (ar_method r \<in> set write_methods \<and> da_write_role (xa_checks acfg) \<noteq> [] \<longrightarrow>
            (\<exists>granted. role_set (xi_roles ident) = Inr granted \<and> JStr (da_write_role (xa_checks acfg)) \<in> set granted))
        \<and> xi_user ident = dget_or claims ''sub'' (JStr [])
        \<and> (\<exists>tenant. first_group (dget_or claims ''groups'' (JArr [])) = Inr tenant \<and> xi_tenant ident = JStr tenant)
        \<and> (\<exists>op. role_in (xa_operator_role acfg) (xi_roles ident) = Inr op \<and> xi_operator ident = Some op)))
   \<and> (hs = auth_headers creds \<or> hs = service_headers key \<longrightarrow>
        post_callback acfg verify parse flt t cfg env hs i payload st = (Inl (http 401 ''missing bearer token''), st))"
proof (intro conjI impI)
  assume "exec_auth_middleware acfg verify parse flt t r = Inr ident \<and> ar_path r \<notin> set public_paths"
  then have ok: "exec_auth_middleware acfg verify parse flt t r = Inr ident" and path: "ar_path r \<notin> set public_paths" by simp_all
  from ok have "dns_auth_middleware (xa_checks acfg) verify parse flt t r = Inr ()"
    by (simp add: exec_auth_middleware_def split: sum.splits)
  from checked_claims [OF this assms(1) path assms(3,2)] obtain claims
    where c: "ar_authorization r = Some (''Bearer '' @ bearer_token r)"
      "decode_jwt_payload (xa_checks acfg) verify parse (bearer_token r) = JObj claims"
      "verify (bearer_token r) = Some (JObj claims)" "dget claims ''iss'' = JStr (da_issuer (xa_checks acfg))"
      "truthy (dget claims ''exp'') \<longrightarrow> (\<exists>e. py_float flt (dget claims ''exp'') = Inr e \<and> t \<le> e)"
      "ar_method r \<in> set write_methods \<longrightarrow> (\<exists>access granted. dget_or claims ''realm_access'' (JObj []) = JObj access
        \<and> role_set (dget_or access ''roles'' (JArr [])) = Inr granted
        \<and> (da_write_role (xa_checks acfg) = [] \<or> JStr (da_write_role (xa_checks acfg)) \<in> set granted))" by blast
  have "identity_of acfg claims = Inr ident"
    using ok assms path c(2) by (simp add: exec_auth_middleware_def split: sum.splits)
  then obtain access tenant op where "dget_or claims ''realm_access'' (JObj []) = JObj access"
    "first_group (dget_or claims ''groups'' (JArr [])) = Inr tenant"
    "role_in (xa_operator_role acfg) (dget_or access ''roles'' (JArr [])) = Inr op"
    "ident = \<lparr>xi_user = dget_or claims ''sub'' (JStr []), xi_tenant = JStr tenant, xi_operator = Some op,
       xi_roles = dget_or access ''roles'' (JArr [])\<rparr>"
    by (auto simp: identity_of_def Let_def split: json.splits sum.splits)
  with c show "\<exists>token claims access. ar_authorization r = Some (''Bearer '' @ token) \<and> verify token = Some (JObj claims)
        \<and> dget claims ''iss'' = JStr (da_issuer (xa_checks acfg))
        \<and> (truthy (dget claims ''exp'') \<longrightarrow> (\<exists>e. py_float flt (dget claims ''exp'') = Inr e \<and> t \<le> e))
        \<and> dget_or claims ''realm_access'' (JObj []) = JObj access \<and> xi_roles ident = dget_or access ''roles'' (JArr [])
        \<and> (ar_method r \<in> set write_methods \<and> da_write_role (xa_checks acfg) \<noteq> [] \<longrightarrow>
            (\<exists>granted. role_set (xi_roles ident) = Inr granted \<and> JStr (da_write_role (xa_checks acfg)) \<in> set granted))
        \<and> xi_user ident = dget_or claims ''sub'' (JStr [])
        \<and> (\<exists>tenant. first_group (dget_or claims ''groups'' (JArr [])) = Inr tenant \<and> xi_tenant ident = JStr tenant)
        \<and> (\<exists>op. role_in (xa_operator_role acfg) (xi_roles ident) = Inr op \<and> xi_operator ident = Some op)"
    by (intro exI [of _ "bearer_token r"] exI [of _ claims] exI [of _ access]) auto
next
  assume "hs = auth_headers creds \<or> hs = service_headers key"
  then have "header hs ''Authorization'' = None"
    by (auto simp: header_def auth_headers_def service_headers_def Let_def)
  then have "exec_auth_middleware acfg verify parse flt t (callback_request hs i) = Inl (http 401 ''missing bearer token'')"
    using assms(1) callback_not_public by (intro no_bearer) (simp_all add: callback_request_def)
  then show "post_callback acfg verify parse flt t cfg env hs i payload st = (Inl (http 401 ''missing bearer token''), st)"
    by (simp add: post_callback_def)
qed

definition demo_exec_auth :: exec_auth where
  "demo_exec_auth = \<lparr>xa_checks = \<lparr>da_enabled = True, da_dev_bypass = False, da_dev_token = ''t'', da_write_role = ''writer'',
     da_issuer = ''https://kc''\<rparr>, xa_operator_role = ''operator''\<rparr>"

theorem exec_requests_witness:
  "fst (post_callback demo_exec_auth (\<lambda>s. None) (\<lambda>s. None) (\<lambda>s. None) 0 demo_cfg demo_env
      (auth_headers [(''bootstrap_token'', JStr ''id:secret'')]) ''e1'' [(''status'', JStr ''running'')] demo_state)
   = Inl (http 401 ''missing bearer token'')"
  using exec_requests [of demo_exec_auth "\<lambda>s. None" "\<lambda>s. None" "\<lambda>s. None" 0 undefined undefined
      "auth_headers [(''bootstrap_token'', JStr ''id:secret'')]" "[(''bootstrap_token'', JStr ''id:secret'')]"
      "[]" demo_cfg demo_env "''e1''" "[(''status'', JStr ''running'')]" demo_state]
  by (simp add: demo_exec_auth_def)

end
