(* ===== verification/AgentTunnel.thy ===== *)
theory AgentTunnel
  imports Agent
begin

text \<open>
  The loop of the agent's tunnel (\<open>tunnel.py\<close>, \<open>run\<close>): one turn is one attempt to connect, with what the
  gateway sends until the connection ends, and the wait after it. Frames are JSON values or bytes that
  are none; the tasks of control messages are collected, and \<open>handle_control\<close> runs them. The
  heartbeats, which go on beside the loop, and the messages to systemd are left out.
\<close>

subsection \<open>Requests\<close>

definition callback_accepted :: "call \<Rightarrow> bool" where
  "callback_accepted a = (case a of Status c text \<Rightarrow> c \<in> {200, 202, 204} | Raised e \<Rightarrow> False)"

text \<open>\<open>_send_callback\<close>: the body of a callback that was queued.\<close>

definition resent_body :: "dict \<Rightarrow> dict" where
  "resent_body p =
     [(''status'', dget_or p ''status'' (JStr ''failed''))]
   @ (if truthy (dget p ''stdout'') then [(''stdout'', dget p ''stdout'')] else [])
   @ (if truthy (dget p ''stderr'') then [(''stderr'', dget p ''stderr'')] else [])
   @ (if dget p ''exit_code'' \<noteq> JNull then [(''exit_code'', dget p ''exit_code'')] else [])"

definition telemetry_accepted :: "call \<Rightarrow> bool" where
  "telemetry_accepted a = (case a of Status c text \<Rightarrow> c = 200 \<or> c = 202 | Raised e \<Rightarrow> False)"

definition samples_body :: "dict \<Rightarrow> dict" where
  "samples_body p = [(''samples'', dget_or p ''samples'' (JArr []))]"

text \<open>What the drain of the queue sends, through a network that answers the n-th request.\<close>

definition queue_sender :: "(nat \<Rightarrow> json \<Rightarrow> dict \<Rightarrow> call) \<Rightarrow> (nat \<Rightarrow> dict \<Rightarrow> call) \<Rightarrow> sender" where
  "queue_sender callback telemetry n kind p =
     Some (if kind = ''callback'' then callback_accepted (callback n (dget_or p ''execution_id'' (JStr [])) (resent_body p))
           else telemetry_accepted (telemetry n (samples_body p)))"

definition agent_capabilities :: "bool \<Rightarrow> bool \<Rightarrow> dict list option \<Rightarrow> dict" where
  "agent_capabilities runtime hardware discovered =
     [(''protocol'', JStr ''nexora-agent''), (''wasm'', JBool runtime), (''hardware'', JBool hardware)]
   @ (if hardware
      then [(''sensors'', JArr (case discovered of None \<Rightarrow> [] | Some ds \<Rightarrow> map JObj ds))] else [])"

definition session_request :: "string \<Rightarrow> dict \<Rightarrow> dict" where
  "session_request device_id caps = [(''device_id'', JStr device_id), (''capabilities'', JObj caps)]"

subsection \<open>The loop\<close>

text \<open>The state of the loop; \<open>tn_ok\<close> tells which of the sends on a socket raise.\<close>

record tunnel_state =
  tn_backoff :: rat
  tn_attempts :: nat
  tn_queue :: queue_state
  tn_tasks :: "dict list"
  tn_pongs :: nat
  tn_waits :: "rat list"

text \<open>The receive loop. A frame that is no JSON is skipped; a JSON value that is no object raises, and so
  does an answer to a ping on a broken socket; both leave the loop.\<close>

fun receive_frames :: "bool \<Rightarrow> json option list \<Rightarrow> tunnel_state \<Rightarrow> unit res \<times> tunnel_state" where
  "receive_frames ok [] st = (Inr (), st)"
| "receive_frames ok (None # fs) st = receive_frames ok fs st"
| "receive_frames ok (Some (JObj msg) # fs) st =
     (if dget msg ''type'' = JStr ''control''
      then receive_frames ok fs (st\<lparr>tn_tasks := tn_tasks st @ [msg]\<rparr>)
      else if dget msg ''type'' = JStr ''ping''
      then (if ok then receive_frames ok fs (st\<lparr>tn_pongs := Suc (tn_pongs st)\<rparr>)
            else (Inl (PyExc ''ConnectionClosed''), st))
      else receive_frames ok fs st)"
| "receive_frames ok (Some v # fs) st = (Inl (PyExc ''AttributeError''), st)"

text \<open>An attempt fails, or the socket is open: then the queue is drained and frames arrive.\<close>

datatype attempt = Not_connected | Connected sender bool "json option list"

definition tunnel_attempt :: "rat \<Rightarrow> attempt \<Rightarrow> tunnel_state \<Rightarrow> tunnel_state" where
  "tunnel_attempt base a st =
     (let st1 = st\<lparr>tn_attempts := Suc (tn_attempts st)\<rparr> in
      case a of
        Not_connected \<Rightarrow> st1
      | Connected send ok frames \<Rightarrow>
          snd (receive_frames ok frames (st1\<lparr>tn_backoff := base, tn_queue := drain send (tn_queue st1)\<rparr>)))"

definition tunnel_turn :: "rat \<Rightarrow> rat \<Rightarrow> attempt \<Rightarrow> tunnel_state \<Rightarrow> tunnel_state" where
  "tunnel_turn base cap a st =
     (let st1 = tunnel_attempt base a st
      in st1\<lparr>tn_waits := tn_waits st1 @ [tn_backoff st1], tn_backoff := next_backoff cap (tn_backoff st1)\<rparr>)"

definition tunnel_run :: "rat \<Rightarrow> rat \<Rightarrow> attempt list \<Rightarrow> tunnel_state \<Rightarrow> tunnel_state" where
  "tunnel_run base cap attempts st = fold (tunnel_turn base cap) attempts st"

subsection \<open>Lemmas\<close>

text \<open>A callback that waited in the queue is sent with the body it would have had at once.\<close>

lemma resent_final: "resent_body (queued_callback eid r) = final_body r"
  by (simp add: resent_body_def queued_callback_def final_body_def callback_body_def dget_def dget_or_def)

lemma queued_execution_id: "dget_or (queued_callback eid r) ''execution_id'' (JStr []) = eid"
  by (simp add: queued_callback_def dget_or_def)

lemma receive_waits [simp]:
  "tn_waits (snd (receive_frames ok fs st)) = tn_waits st"
  "tn_backoff (snd (receive_frames ok fs st)) = tn_backoff st"
  "tn_queue (snd (receive_frames ok fs st)) = tn_queue st"
  "tn_attempts (snd (receive_frames ok fs st)) = tn_attempts st"
  by (induction ok fs st rule: receive_frames.induct) simp_all

text \<open>The tasks of a connection: the control messages in the order they arrive.\<close>

definition control_frames :: "json option list \<Rightarrow> dict list" where
  "control_frames fs = List.map_filter (\<lambda>f. case f of
     Some (JObj msg) \<Rightarrow> if dget msg ''type'' = JStr ''control'' then Some msg else None | _ \<Rightarrow> None) fs"

definition is_frame :: "json option \<Rightarrow> bool" where
  "is_frame f = (case f of None \<Rightarrow> True | Some (JObj msg) \<Rightarrow> True | _ \<Rightarrow> False)"

lemma receive_controls:
  "list_all is_frame fs \<Longrightarrow> tn_tasks (snd (receive_frames True fs st)) = tn_tasks st @ control_frames fs"
  by (induction True fs st rule: receive_frames.induct)
     (simp_all add: control_frames_def List.map_filter_simps is_frame_def)

text \<open>The wait after a turn is the base after a connection, and else twice the one before, up to the
  maximum; so it never leaves the two bounds.\<close>

lemma turn_wait:
  "tn_waits (tunnel_turn base cap a st) = tn_waits st @ [case a of Not_connected \<Rightarrow> tn_backoff st | _ \<Rightarrow> base]"
  by (cases a) (simp_all add: tunnel_turn_def tunnel_attempt_def)

lemma turn_backoff:
  "tn_backoff (tunnel_turn base cap a st) = next_backoff cap (case a of Not_connected \<Rightarrow> tn_backoff st | _ \<Rightarrow> base)"
  by (cases a) (simp_all add: tunnel_turn_def tunnel_attempt_def)

lemma failures_wait:
  assumes "tn_backoff st = (next_backoff cap ^^ m) base"
  shows "tn_waits (tunnel_run base cap (replicate n Not_connected) st)
       = tn_waits st @ map (\<lambda>k. (next_backoff cap ^^ k) base) [m..<m + n]"
  using assms
proof (induction n arbitrary: st m)
  case (Suc n)
  let ?st = "tunnel_turn base cap Not_connected st"
  have "tn_backoff ?st = (next_backoff cap ^^ Suc m) base" using Suc.prems by (simp add: turn_backoff)
  from Suc.IH [OF this] Suc.prems show ?case by (simp add: tunnel_run_def turn_wait upt_rec [of m])
qed (simp add: tunnel_run_def)

end
