(* ===== verification/EndToEnd.thy ===== *)
theory EndToEnd
  imports AgentTunnel AgentProperties EdgeDelivery
begin

text \<open>
  The way of a command through the platform: the execution service dispatches it, the gateway caches the
  event and relays it to the device, at once or when it connects again, the agent runs it, and its
  callbacks end the execution, at once or from the offline queue. The models of the three programs are
  put together here; the broker delivers the event it confirmed, the gateway runs without Redis.
\<close>

subsection \<open>From the service to the socket\<close>

text \<open>The control message of a dispatch, as far as the agent reads it.\<close>

definition relays :: "string \<Rightarrow> dict \<Rightarrow> dict \<Rightarrow> bool" where
  "relays i envelope m \<longleftrightarrow> dget m ''type'' = JStr ''control'' \<and> dget_or m ''execution_id'' (JStr []) = JStr i
     \<and> dget_or m ''payload'' (JObj m) = JObj envelope"

text \<open>What the gateway reads from the event of a plain command.\<close>

lemma event_fields:
  fixes env :: exec_env and p :: publisher_cfg and t :: int
  assumes "ex_device_id e = Some d" "ex_id e = i" "i \<noteq> []"
  defines "ev \<equiv> make_event p t ''dispatched'' i (base_envelope env e)"
  shows "get2 (JObj (event_value ev)) ''payload'' ''device_id'' = Inr (JStr d)"
    and "kafka_dispatched_at (JObj (event_value ev)) = Inr (JNum (of_int (if now env = 0 then t else now env) / 1000000))"
    and "event_execution_id genv (event_value ev) = JStr i"
    and "dget_or (event_value ev) ''payload'' (JObj []) = JObj (base_envelope env e)"
  using assms(1-3)
  by (simp_all add: ev_def get2_def base_envelope_def event_value_def make_event_def dget_or_def dget_def
      kafka_dispatched_at_def event_execution_id_def jor_def Let_def)

text \<open>The cached record of such an event can always be pushed.\<close>

lemma control_relays:
  assumes "get2 (JObj ev) ''payload'' ''device_id'' = Inr (JStr d)" "kafka_dispatched_at (JObj ev) = Inr (JNum x)"
    and "dget_or ev ''payload'' (JObj []) = JObj envelope"
  shows "\<exists>m. control_message genv2 d (dispatch_data genv (JStr i) (JStr d) ev ts) = Inr m \<and> relays i envelope m"
  using assms
  by (simp add: control_message_def dispatch_data_def dget_or_def dget_def opt_float_def relays_def)

lemma push_open:
  assumes "control_message genv d data = Inr m" "ws_ok genv (ws_tries g)"
  shows "ws_sent (snd (ws_push_dispatch genv d data ws g)) = ws_sent g @ [(ws, m)]"
    and "fst (ws_push_dispatch genv d data ws g) = Inr ()"
  using assms by (simp_all add: ws_push_dispatch_def)

text \<open>A replay whose records can all be pushed pushes all of them.\<close>

lemma replay_sends:
  assumes "\<forall>n. ws_ok genv n"
  shows "\<forall>data \<in> set ds. is_ok (control_message genv d data) \<Longrightarrow> data \<in> set ds \<Longrightarrow> for_device d data
     \<Longrightarrow> control_message genv d data = Inr m \<Longrightarrow> (ws, m) \<in> set (ws_sent (snd (replay_local genv d ws ds g)))"
proof (induction ds arbitrary: g)
  case (Cons x ds)
  have keep: "set (ws_sent h) \<subseteq> set (ws_sent (snd (replay_local genv d ws ds' h)))" for ds' h
  proof (induction ds' arbitrary: h)
    case (Cons y ds')
    show ?case
    proof (cases "ws_push_dispatch genv d y ws h")
      case (Pair r h')
      then have "set (ws_sent h) \<subseteq> set (ws_sent h')"
        by (auto simp: ws_push_dispatch_def split: sum.splits)
      with Cons [of h] Cons [of h'] Pair show ?thesis by (cases r) auto
    qed
  qed simp
  obtain mx where mx: "control_message genv d x = Inr mx" using Cons.prems(1) by (auto simp: is_ok_def split: sum.splits)
  obtain g' where push: "ws_push_dispatch genv d x ws g = (Inr (), g')" "ws_sent g' = ws_sent g @ [(ws, mx)]"
    using push_open [OF mx, of g ws] assms by (cases "ws_push_dispatch genv d x ws g") auto
  show ?case
  proof (cases "data = x")
    case True
    then have "m = mx" using mx Cons.prems(4) by simp
    with True push keep [of g' ds] Cons.prems(3) show ?thesis by auto
  next
    case False
    then show ?thesis using Cons.IH [of g'] Cons.IH [of g] Cons.prems push(1) by (cases "for_device d x") auto
  qed
qed simp

text \<open>Consuming the event: it is cached, and sent at once where the device is connected.\<close>

lemma consume_relays:
  fixes ev :: dict and i d :: string and ts :: json and genv :: edge_env and g :: edge_state
  defines "data \<equiv> dispatch_data genv (JStr i) (JStr d) ev ts"
    and "g1 \<equiv> consume_dispatched genv (JObj ev) ts g"
  assumes ev: "get2 (JObj ev) ''payload'' ''device_id'' = Inr (JStr d)" "kafka_dispatched_at (JObj ev) = Inr (JNum x)"
      "event_execution_id genv ev = JStr i" "dget_or ev ''payload'' (JObj []) = JObj envelope"
    and up: "consumer_on g" "\<not> redis_on g" "d \<noteq> []"
  shows "consumer_on g1" and "\<not> redis_on g1"
    and "dispatches g1 = dual_set False i data (dispatches g)"
    and "map_of (ws_connections g) d = Some ws \<Longrightarrow> ws_ok genv (ws_tries g)
      \<Longrightarrow> \<exists>m. ws_sent g1 = ws_sent g @ [(ws, m)] \<and> relays i envelope m"
proof -
  let ?g = "dispatch_set genv i data g"
  have g: "redis_up genv g = False" "ws_connections ?g = ws_connections g" "ws_tries ?g = ws_tries g"
    using up(2) by (simp_all add: redis_up_def dispatch_set_def)
  have ps: "py_str (shw genv) (JStr s) = s" for s by (simp add: py_str_def)
  have h: "handle_dispatched genv ev ts g = (case map_of (ws_connections g) d of
      None \<Rightarrow> (Inr (), ?g) | Some ws \<Rightarrow> ws_push_dispatch genv d data ws ?g)"
    using ev(1-3) up(2,3) g by (simp add: handle_dispatched_def Let_def opt_float_def ps data_def split: option.split)
  obtain m where m: "control_message genv d data = Inr m" "relays i envelope m"
    using control_relays [OF ev(1,2,4), of genv genv i ts] by (auto simp: data_def)
  show "consumer_on g1" "\<not> redis_on g1" "dispatches g1 = dual_set False i data (dispatches g)"
    using h m g up by (auto simp: g1_def consume_dispatched_def ws_push_dispatch_def split: option.splits)
  show "\<exists>m. ws_sent g1 = ws_sent g @ [(ws, m)] \<and> relays i envelope m"
    if "map_of (ws_connections g) d = Some ws" "ws_ok genv (ws_tries g)"
    using h m g that up(1) by (auto simp: g1_def consume_dispatched_def ws_push_dispatch_def)
qed

text \<open>A device that connects later is sent what is cached for it.\<close>

lemma connect_relays:
  assumes off: "\<not> redis_on g1" and all: "\<forall>n. ws_ok genv n"
    and cached: "map_of (fallback (dispatches g1)) i = Some data" "for_device d data"
    and good: "\<forall>data \<in> set (map snd (fallback (dispatches g1))). is_ok (control_message genv d data)"
    and m: "control_message genv d data = Inr m"
  shows "(ws, m) \<in> set (ws_sent (snd (ws_connect gcfg genv d ws g1)))"
proof (rule connect_cases [of g1 d ws genv gcfg])
  fix st3 r st4
  assume st3: "dispatches st3 = dispatches g1" "redis_on st3 = redis_on g1"
    and r: "ws_replay_pending genv d ws st3 = (r, st4)"
    and c: "ws_connect gcfg genv d ws g1 = (case r of Inl err \<Rightarrow> (Inl err, st4)
       | Inr _ \<Rightarrow> (Inr (), st4\<lparr>ws_open := ws # ws_open st4,
            listeners := (if redis_on st4 then (d, ws) # listeners st4 else listeners st4)\<rparr>))"
  have "data \<in> set (map snd (fallback (dispatches g1)))" using cached(1) by (force dest: map_of_SomeD)
  from replay_sends [OF all good this cached(2) m, of ws st3] r st3 off
  have "(ws, m) \<in> set (ws_sent st4)" by (simp add: ws_replay_pending_def)
  with c show ?thesis by (cases r) auto
qed

subsection \<open>On the device\<close>

text \<open>What an agent makes of a plain command: one process whose only word is the whole text of the
  command, and none for a text with a character of the shell.\<close>

definition plain_result :: "agent_cfg \<Rightarrow> agent_env \<Rightarrow> string option \<Rightarrow> agent_result" where
  "plain_result acfg aenv command =
     (if \<not> nonempty command then failed 1 ''No command specified''
      else let c = fstr command; t = ac_command_timeout acfg
           in command_result acfg aenv c t
                (if use_shell c then Broken (ae_text aenv [JStr ''TypeError'']) else ae_run aenv [c] [] t))"

definition plain_headers :: "exec_env \<Rightarrow> bool" where
  "plain_headers env \<longleftrightarrow> list_all (\<lambda>k. \<not> dhas (trace_headers env) k) [''payload'', ''args'', ''env'', ''timeout_seconds'']"

lemma execute_plain:
  assumes "\<not> is_function_type (Some (sor (ex_execution_type e) ''command''))" "plain_headers env"
  defines "typed \<equiv> dset (base_envelope env e) ''execution_type'' (JStr (sor (ex_execution_type e) ''command''))"
  shows "execute acfg aenv typed = Inr (plain_result acfg aenv (ex_command e))"
proof -
  have base: "dget_or typed ''payload'' v = v" "dget_or typed ''args'' v = v" "dget_or typed ''env'' v = v"
      "dget_or typed ''timeout_seconds'' v = v" "dget_or typed ''command'' v = jstr (ex_command e)"
      "dget_or typed ''execution_type'' v = JStr (sor (ex_execution_type e) ''command'')" for v
    using assms(2) by (simp_all add: typed_def base_envelope_def plain_headers_def dset_def dget_or_def dhas_def)
  have "execute acfg aenv typed = run_command acfg aenv typed"
    using assms(1) by (simp add: execute_def base is_function_type_def)
  also have "\<dots> = Inr (plain_result acfg aenv (ex_command e))"
    by (cases "ex_command e")
       (auto simp: run_command_def base plain_result_def Let_def build_argv_def iter_json_def start_process_def fstr_def)
  finally show ?thesis .
qed

text \<open>The three effects of the message of such a command, and the queue after them.\<close>

lemma agent_runs:
  fixes acfg :: agent_cfg and aenv :: agent_env
  assumes "relays i (base_envelope env e) m" "plain_headers env"
    and "\<not> is_function_type (Some (sor (ex_execution_type e) ''command''))"
  defines "r \<equiv> plain_result acfg aenv (ex_command e)"
  shows "handle_control acfg aenv answered m q =
     ([Posted (JStr i) (callback_body ''running'' None None None), Acked (JStr i), Posted (JStr i) (final_body r)],
      Inr (if answered then q else enqueue ''callback'' (queued_callback (JStr i) r) q))"
proof -
  have t: "dget_or (base_envelope env e) ''execution_type'' v = JStr (sor (ex_execution_type e) ''command'')" for v
    by (simp add: base_envelope_def dget_or_def)
  show ?thesis
    using assms(1) execute_plain [OF assms(3,2), of acfg aenv]
    by (simp add: handle_control_def Let_def relays_def t r_def)
qed

lemma plain_result_ok: "result_ok (plain_result acfg aenv command)"
  by (auto simp: plain_result_def Let_def intro: failed_ok command_result_ok)

subsection \<open>The way of a command\<close>

text \<open>The execution after the callbacks, the last of which may have waited in the queue; and the gateway
  after the acknowledgement.\<close>

lemma reported:
  assumes "is_ok (require_internal_or_bootstrap (internal cfg) (now env) key token)" "agent_callback_secret cfg = []"
    and "tbl_get ex_id i (executions st1) = Some e1" "ex_status e1 = ''dispatched''" "result_ok r"
  defines "running \<equiv> deliver_effect cfg env key token (Posted (JStr i) (callback_body ''running'' None None None)) st1"
  shows "\<exists>e2. tbl_get ex_id i (executions (snd (callback_execution cfg env key token i (final_body r) running))) = Some e2
     \<and> ex_status e2 = re_status r \<and> ex_exit_code e2 = JInt (re_exit_code r)"
  using two_callbacks [OF assms(1-5)] unfolding running_def by (simp add: deliver_effect_def [where f = "Posted _ (final_body r)"])

lemma acknowledged:
  assumes "\<not> redis_on g1" "i \<noteq> []"
  shows "fst (dispatch_get genv i (ws_receive genv d ws [(''type'', JStr ''ack''), (''execution_id'', JStr i)] g1)) = None"
  using assms by (simp add: ws_receive_def dget_def py_str_def dispatch_get_def redis_up_def dual_get_del)

lemma subset_imp_ball: "A \<subseteq> B \<Longrightarrow> \<forall>x \<in> B. P x \<Longrightarrow> \<forall>x \<in> A. P x"
  by blast

lemma update_values: "set (map snd (AList.update k v xs)) \<subseteq> insert v (set (map snd xs))"
  by (induction xs) auto

lemma dispatched_event:
  assumes "tbl_get ex_id i (executions st) = Some e" "dispatch_execution cfg env i req st = (Inr x, st1)"
    and "\<not> is_function_type (Some (sor (ex_execution_type e) ''command''))" "published st1 = published st @ [ev]"
  shows "tbl_get ex_id i (executions st1) = Some (mark_dispatched env e)"
    and "ev = make_event (publisher cfg) (now env) ''dispatched'' i (base_envelope env (mark_dispatched env e))"
proof -
  have "complete_envelope env (mark_dispatched env e) = Inr (base_envelope env (mark_dispatched env e))"
    using assms(3) by (simp add: complete_envelope_def mark_dispatched_def)
  with dispatch_success_cond [OF assms(1), of cfg env req] assms(2,4)
  show "tbl_get ex_id i (executions st1) = Some (mark_dispatched env e)"
    "ev = make_event (publisher cfg) (now env) ''dispatched'' i (base_envelope env (mark_dispatched env e))"
    by (auto split: if_splits)
qed


text \<open>The command \<open>ls\<close> for a device that is connected.\<close>

definition demo_way_row :: execution where
  "demo_way_row = (new_execution demo_cfg demo_env demo_request None demo_payload 0)\<lparr>ex_id := ''e1''\<rparr>"

definition demo_way_state :: exec_state where
  "demo_way_state = demo_state\<lparr>executions := [demo_way_row]\<rparr>"

definition demo_way_edge :: edge_state where
  "demo_way_edge = demo_edge\<lparr>dispatches := \<lparr>primary = [], fallback = []\<rparr>, ws_connections := [(''d1'', 1)]\<rparr>"

lemma demo_way_dispatch:
  "\<exists>x st1 ev. dispatch_execution demo_cfg demo_env ''e1'' None demo_way_state = (Inr x, st1)
     \<and> published st1 = published demo_way_state @ [ev]"
proof -
  have row: "tbl_get ex_id ''e1'' (executions demo_way_state) = Some demo_way_row"
    by (simp add: demo_way_state_def demo_way_row_def tbl_get_Cons)
  have "guardrails_violation demo_cfg (Some (sor (ex_execution_type demo_way_row) ''command'')) (ex_command demo_way_row) = None"
    by (simp add: demo_way_row_def new_execution_def guardrails_violation_def demo_defs sor_def strip_def lstrip_def
      lower_def lower_char_def is_space_def code_def startswith_def)
  moreover have "is_ok (complete_envelope demo_env (mark_dispatched demo_env demo_way_row))"
    by (simp add: complete_envelope_def mark_dispatched_def demo_way_row_def new_execution_def demo_payload_def
      empty_payload_def is_function_type_def)
  moreover have "ex_status demo_way_row = ''queued''" by (simp add: demo_way_row_def new_execution_def)
  moreover have "producer_up demo_way_state" "\<exists>k < nat (kafka_retry_attempts (publisher demo_cfg)). send_ok demo_env (sends demo_way_state + k)"
    by (auto simp: demo_way_state_def demo_defs intro: exI [of _ 0])
  ultimately show ?thesis
    using dispatch_success_cond [OF row, of demo_cfg demo_env None]
    by (cases "dispatch_execution demo_cfg demo_env ''e1'' None demo_way_state") (auto elim!: is_okE)
qed


end
