(* ===== verification/MatterDevice.thy ===== *)
theory MatterDevice
  imports MatterProperties
begin

text \<open>
  Matter devices as their owners see them through the device service: the two commissioning endpoints
  (\<open>api/discovery.py\<close>), which forward to the Matter bridge, and the cluster reader (\<open>api/shadow.py\<close>).
  The bridge is first any function on a state of type \<open>'w\<close> that answers, then the model of
  \<open>MatterBridge\<close> behind its HTTP interface; the device service sends it no header.
\<close>

subsection \<open>The endpoints of the device service\<close>

record matter_commission_body =
  mb_setup_code :: "string option"
  mb_manual_code :: "string option"
  mb_name :: string
  mb_description :: "string option"

record matter_commission_response =
  mr_commissioning_id :: string
  mr_status :: json
  mr_node_id :: json
  mr_device_id :: json
  mr_error :: json

text \<open>What the device service asks the bridge; an answer is a status with JSON, or none (it cannot be
  reached or takes too long).\<close>

datatype bridge_request = Start_commission commission_request | Get_commission string

type_synonym 'w bridge = "bridge_request \<Rightarrow> 'w \<Rightarrow> answer \<times> 'w"

definition commission_payload :: "string \<Rightarrow> device_user \<Rightarrow> matter_commission_body \<Rightarrow> commission_request" where
  "commission_payload c u b = \<lparr>cr_commissioning_id = c, cr_name = mb_name b, cr_description = mb_description b,
     cr_owner_id = user_id u, cr_tenant_id = Some (tenant_id u)\<rparr>"

definition bridge_unavailable :: error where
  "bridge_unavailable = http 503 ''matter-bridge is unavailable''"

definition matter_commission ::
  "'w bridge \<Rightarrow> string \<Rightarrow> device_user \<Rightarrow> matter_commission_body \<Rightarrow> 'w \<Rightarrow> matter_commission_response res \<times> 'w" where
  "matter_commission bridge c u b w =
     (if \<not> nonempty (mb_setup_code b) \<and> \<not> nonempty (mb_manual_code b)
      then (Inl (http 422 ''Provide setup_code or manual_code''), w)
      else case bridge (Start_commission (commission_payload c u b)) w of
        (NoAnswer e, w1) \<Rightarrow> (Inl bridge_unavailable, w1)
      | (Answer s v, w1) \<Rightarrow>
          (if s \<noteq> 200 \<and> s \<noteq> 202 then Inl (Http 502 [JStr ''matter-bridge returned '', JInt (int s)])
           else case v of
             JObj d \<Rightarrow> Inr \<lparr>mr_commissioning_id = c, mr_status = dget_or d ''status'' (JStr ''pending''),
                           mr_node_id = dget d ''node_id'', mr_device_id = JNull, mr_error = JNull\<rparr>
           | _ \<Rightarrow> Inl (PyExc ''AttributeError''), w1))"

definition matter_commission_status ::
  "'w bridge \<Rightarrow> device_user \<Rightarrow> string \<Rightarrow> 'w \<Rightarrow> matter_commission_response res \<times> 'w" where
  "matter_commission_status bridge u c w = (case bridge (Get_commission c) w of
     (NoAnswer e, w1) \<Rightarrow> (Inl bridge_unavailable, w1)
   | (Answer s v, w1) \<Rightarrow>
       (if s = 404 then Inl (http 404 ''Commissioning not found'')
        else if s \<noteq> 200 then Inl (http 502 ''matter-bridge error'')
        else case v of
          JObj d \<Rightarrow> Inr \<lparr>mr_commissioning_id = c, mr_status = dget_or d ''status'' (JStr ''unknown''),
                        mr_node_id = dget d ''node_id'', mr_device_id = dget d ''device_id'', mr_error = dget d ''error''\<rparr>
        | _ \<Rightarrow> Inl (PyExc ''AttributeError''), w1))"

text \<open>\<open>get_matter_clusters\<close>: the endpoints and the attributes of the metadata.\<close>

definition get_matter_clusters :: "string \<Rightarrow> device_state \<Rightarrow> (json \<times> json) res" where
  "get_matter_clusters i st = (case find_device i st of
     None \<Rightarrow> Inl (http 404 ''Device not found'')
   | Some d \<Rightarrow>
       if dv_connection_protocol d \<noteq> ''matter''
       then Inl (Http 409 [JStr ''Device uses protocol '', JStr (dv_connection_protocol d), JStr '', not matter''])
       else let meta = (case dv_protocol_meta d of None \<Rightarrow> [] | Some m \<Rightarrow> m)
            in Inr (dget_or meta ''endpoints'' (JArr []), dget_or meta ''attributes'' (JObj [])))"

subsection \<open>The bridge behind its interface\<close>

text \<open>\<open>CommissionResponse\<close>, of a new session and of a poll.\<close>

definition started_json :: "session \<Rightarrow> json" where
  "started_json s = JObj [(''commissioning_id'', JStr (se_commissioning_id s)), (''status'', JStr (se_status s)),
     (''node_id'', JInt (se_node_id s)), (''device_id'', JNull), (''error'', JNull)]"

definition session_json :: "string \<Rightarrow> session \<Rightarrow> json" where
  "session_json c s = JObj [(''commissioning_id'', JStr c), (''status'', JStr (se_status s)),
     (''node_id'', JInt (se_node_id s)), (''device_id'', jstr (se_device_id s)), (''error'', jstr (se_error s))]"

definition matter_http :: "matter_cfg \<Rightarrow> int \<Rightarrow> 'w matter_state bridge" where
  "matter_http cfg t r st = (case r of
     Start_commission p \<Rightarrow>
       (case commission cfg t None p st of
          (Inl err, st1) \<Rightarrow> (error_answer err, st1) | (Inr s, st1) \<Rightarrow> (Answer 202 (started_json s), st1))
   | Get_commission c \<Rightarrow>
       (case commission_status cfg None c st of
          (Inl err, st1) \<Rightarrow> (error_answer err, st1) | (Inr s, st1) \<Rightarrow> (Answer 200 (session_json c s), st1)))"

lemma refused_without_key:
  "mt_internal_key cfg \<noteq> [] \<Longrightarrow> matter_http cfg t r st = (Answer 403 (JArr [JStr ''Missing or invalid internal authentication'']), st)"
  by (simp add: matter_http_def commission_def commission_status_def MatterBridge.require_internal_def error_answer_def
      split: bridge_request.split)

subsection \<open>Commissioning through both services\<close>

lemma matter_parsed:
  assumes "parse_register api (matter_body s meta) = Some p"
  shows "ag_owner_id p = Some (se_owner_id s)" "ag_connection_protocol p = ''matter''" "ag_protocol_meta p = Some meta"
  using assms
  by (auto simp: parse_register_def matter_body_def dget_def dget_or_def opt_str_def opt_dict_def protocol_field_def
      split: option.splits)

text \<open>A task that runs without a Matter server, at a service that accepts the registration.\<close>

lemma mock_task:
  fixes st :: "device_state matter_state" and denv :: device_env and shown :: "answer \<Rightarrow> string"
    and api :: api_env and dcfg :: device_settings and cfg :: matter_cfg
  assumes s: "tbl_get se_node_id n (ma_objects st) = Some s" "se_node_id s = n"
    and ids: "ids_fresh denv (ma_service st)"
    and ok: "accepted_registration api dcfg denv (mt_bootstrap_token cfg) (matter_body s (mock_meta s))"
  defines "i \<equiv> dn_uuid4 denv (dv_ids (ma_service st))"
    and "st2 \<equiv> run_commissioning (device_post api dcfg denv) cfg shown Absent_server n st"
  shows "\<exists>d. tbl_get se_node_id n (ma_objects st2) = Some (s\<lparr>se_status := ''commissioned'', se_device_id := Some i\<rparr>)
      \<and> ma_sessions st2 = ma_sessions st \<and> find_device i (ma_service st2) = Some d
      \<and> dv_owner_id d = Some (se_owner_id s) \<and> dv_connection_protocol d = ''matter'' \<and> dv_protocol_meta d = Some (mock_meta s)"
proof -
  obtain p w where p: "parse_register api (matter_body s (mock_meta s)) = Some p"
    and post: "device_post api dcfg denv (Register_agent (mt_bootstrap_token cfg)) (matter_body s (mock_meta s)) (ma_service st)
      = (Answer 201 (JObj [(''device_id'', JStr i), (''status'', JStr ''online''), (''last_seen'', jtime (Some (dn_now denv)))]), w)"
    and w: "devices w = devices (ma_service st) @ [registered denv i p]"
    using registers_new [OF ids ok] unfolding i_def by blast
  have a: "answered_id (Answer 201 (JObj [(''device_id'', JStr i), (''status'', JStr ''online''),
      (''last_seen'', jtime (Some (dn_now denv)))])) = Some i"
    by (simp add: answered_id_def success_def dget_def)
  have st2: "st2 = st\<lparr>ma_tasks := remove1 n (ma_tasks st), ma_objects := tbl_put se_node_id
      (s\<lparr>se_status := ''commissioned'', se_device_id := Some i\<rparr>) (ma_objects st), ma_service := w\<rparr>"
    using s(1) post a by (simp add: st2_def run_commissioning_def finish_session_def Let_def)
  have "\<not> device_exists i (ma_service st)" using ids by (simp add: ids_fresh_def i_def)
  then have "find_device i w = Some (registered denv i p)"
    using w tbl_get_append_new [of dv_id "registered denv i p" "devices (ma_service st)"]
    by (simp add: find_device_def device_exists_def tbl_get_None)
  then show ?thesis using s matter_parsed [OF p] by (simp add: st2 tbl_get_put) (simp add: registered_def)
qed

lemma started_session:
  assumes "matter_reach st" "mt_internal_key cfg = []"
  defines "n \<equiv> ma_next_node st"
  shows "\<exists>st1. commission cfg t header r st = (Inr (new_session t r n), st1) \<and> ma_service st1 = ma_service st
     \<and> tbl_get se_node_id n (ma_objects st1) = Some (new_session t r n) \<and> map_of (ma_sessions st1) (cr_commissioning_id r) = Some n"
proof -
  have "tbl_get se_node_id n (ma_objects st) = None"
    using matter_okD(1) [OF matter_reach_ok [OF assms(1)], of n] by (cases "the_session n st") (auto simp: n_def)
  then show ?thesis
    using assms(2) by (simp add: commission_def MatterBridge.require_internal_def start_commissioning_def Let_def
      tbl_get_add update_conv' n_def [symmetric]) (simp add: new_session_def)
qed

lemma attribute_keeps_devices:
  "devices (ma_service (snd (handle_attribute_change (device_post api dcfg denv) cfg flt producer t ev st))) = devices (ma_service st)"
  by (auto simp: handle_attribute_change_def device_post_def post_reported_def devices_reported
      split: option.split sum.split prod.split) (metis devices_reported snd_conv)+


definition demo_matter_denv :: device_env where
  "demo_matter_denv = (demo_device_env 1)\<lparr>dn_uuid4 := (\<lambda>k. replicate (Suc k) CHR ''u'')\<rparr>"

definition demo_matter_ask :: matter_commission_body where
  "demo_matter_ask = \<lparr>mb_setup_code = Some ''MT:Y'', mb_manual_code = None, mb_name = ''light'', mb_description = None\<rparr>"


end
