(* ===== verification/EmulatorLoops.thy ===== *)
theory EmulatorLoops
  imports Emulator AgentPairing MatterDevice
begin

text \<open>
  The rest of the device emulator (\<open>emulator.py\<close>): the loops of a board that polls and of one with a
  WebSocket, the launcher with its exit code, the pairing page, and the simulated Matter device. Time is
  what the clock answers at each reading; a loop without an end is given the number of its turns.
\<close>

subsection \<open>The launcher\<close>

record launch_args =
  la_boards :: int
  la_fail_rate :: rat
  la_delay_ms :: rat
  la_kill_after :: rat
  la_reconnect :: rat
  la_ui_port :: int

text \<open>The values of the options are brought into their ranges.\<close>

definition effective :: "launch_args \<Rightarrow> launch_args" where
  "effective a = a\<lparr>la_fail_rate := max 0 (min 1 (la_fail_rate a)), la_delay_ms := max 0 (la_delay_ms a),
     la_kill_after := max 0 (la_kill_after a), la_reconnect := max 0 (la_reconnect a),
     la_ui_port := max 1 (min 65535 (la_ui_port a))\<rparr>"

definition pad3 :: "nat \<Rightarrow> string" where
  "pad3 n = (let s = show_nat n in replicate (3 - length s) CHR ''0'' @ s)"

definition board_names :: "string \<Rightarrow> nat \<Rightarrow> string list" where
  "board_names stem n = map (\<lambda>i. stem @ ''-'' @ pad3 (i + 1)) [0..<n]"

text \<open>Registering until it works; the outcome of turn k is the world's.\<close>

fun launch_board :: "'w net \<Rightarrow> board_env \<Rightarrow> nat \<Rightarrow> 'w \<Rightarrow> (json \<times> 'w) option" where
  "launch_board net env 0 w = None"
| "launch_board net env (Suc fuel) w = (case launch_turn net env w of
     (Inl err, w1) \<Rightarrow> launch_board net env fuel w1 | (Inr i, w1) \<Rightarrow> Some (i, w1))"

text \<open>The exit code: of one board whether it ended well, of several whether any ended with an error.\<close>

definition exit_code :: "string list list \<Rightarrow> nat" where
  "exit_code results = (case results of
     [r] \<Rightarrow> (case r of x # _ \<Rightarrow> if x \<in> {''ok'', ''killed''} then 0 else 1 | [] \<Rightarrow> 1)
   | _ \<Rightarrow> if \<exists>r \<in> set results. r \<noteq> [] \<and> hd r = ''error'' then 1 else 0)"

subsection \<open>A board that polls\<close>

record board_clock =
  bc_start :: rat
  bc_check :: "nat \<Rightarrow> rat"
  bc_now :: "nat \<Rightarrow> rat"

definition killed :: "rat \<Rightarrow> rat \<Rightarrow> rat \<Rightarrow> bool" where
  "killed kill_after start t \<longleftrightarrow> 0 < kill_after \<and> kill_after \<le> t - start"

text \<open>Turn k of the loop; the time of the last heartbeat moves only when one got through.\<close>

fun run_board :: "'w net \<Rightarrow> board_env \<Rightarrow> rat \<Rightarrow> rat \<Rightarrow> board_clock \<Rightarrow> string \<Rightarrow> nat \<Rightarrow> nat \<Rightarrow> rat \<Rightarrow> 'w \<Rightarrow> (string \<times> 'w) option" where
  "run_board net env heartbeat kill_after cl d 0 k beat w = None"
| "run_board net env heartbeat kill_after cl d (Suc fuel) k beat w =
     (if killed kill_after (bc_start cl) (bc_check cl k) then Some (''killed'', w)
      else
        let due = heartbeat \<le> bc_now cl k - beat;
            beat1 = (if due \<and> is_ok (fst (board_heartbeat net d w)) then bc_now cl k else beat)
        in run_board net env heartbeat kill_after cl d fuel (Suc k) beat1 (snd (board_turn net env d due w)))"

subsection \<open>A board with a WebSocket\<close>

text \<open>What \<open>recv\<close> comes to, with the time of the turn and whether a send on the socket works: a frame
  (none: it is no JSON), a second of silence, the end of the connection.\<close>

datatype ws_event = Ws_frame "json option" | Ws_quiet | Ws_closed

definition ws_heartbeat :: dict where
  "ws_heartbeat = [(''type'', JStr ''heartbeat'')]"

fun ws_session ::
  "'w net \<Rightarrow> board_env \<Rightarrow> rat \<Rightarrow> rat \<Rightarrow> rat \<Rightarrow> rat \<Rightarrow> (rat \<times> bool \<times> ws_event) list \<Rightarrow> 'w \<Rightarrow> dict list \<times> unit res \<times> 'w" where
  "ws_session net env kill_after start reconnect opened [] w = ([], Inr (), w)"
| "ws_session net env kill_after start reconnect opened ((t, ok, ev) # evs) w =
     (if killed kill_after start t \<or> killed reconnect opened t then ([], Inr (), w)
      else case ev of
        Ws_frame None \<Rightarrow> ([], Inl (PyExc ''JSONDecodeError''), w)
      | Ws_frame (Some v) \<Rightarrow>
          (case ws_message net env ok v w of
             (sent, Inl err, w1) \<Rightarrow> (sent, Inl err, w1)
           | (sent, Inr _, w1) \<Rightarrow>
               (case ws_session net env kill_after start reconnect opened evs w1 of (further, r, w2) \<Rightarrow> (sent @ further, r, w2)))
      | Ws_quiet \<Rightarrow>
          if ok then (case ws_session net env kill_after start reconnect opened evs w of (further, r, w2) \<Rightarrow> (ws_heartbeat # further, r, w2))
          else ([], Inr (), w)
      | Ws_closed \<Rightarrow> ([], Inl (PyExc ''ConnectionClosed''), w))"

text \<open>The loop over connections: the time of the check, and the connection with the time it was opened
  (none: it was refused). However a connection ends, the next is tried.\<close>

fun run_board_ws ::
  "'w net \<Rightarrow> board_env \<Rightarrow> rat \<Rightarrow> rat \<Rightarrow> rat \<Rightarrow> (rat \<times> (rat \<times> (rat \<times> bool \<times> ws_event) list) option) list \<Rightarrow> 'w \<Rightarrow>
     dict list list \<times> string option \<times> 'w" where
  "run_board_ws net env kill_after start reconnect [] w = ([], None, w)"
| "run_board_ws net env kill_after start reconnect ((t, c) # cs) w =
     (if killed kill_after start t then ([], Some ''killed'', w)
      else case c of
        None \<Rightarrow> run_board_ws net env kill_after start reconnect cs w
      | Some (opened, evs) \<Rightarrow>
          (case ws_session net env kill_after start reconnect opened evs w of
             (sent, r, w1) \<Rightarrow> (case run_board_ws net env kill_after start reconnect cs w1 of
                (further, out, w2) \<Rightarrow> (sent # further, out, w2))))"

subsection \<open>The pairing page\<close>

text \<open>\<open>_http_json\<close>: only a success has a body to read.\<close>

definition http_json :: "answer \<Rightarrow> json res" where
  "http_json a = (case a of
     Answer s v \<Rightarrow> if success s then Inr v else Inl (PyExc ''HTTPError'') | NoAnswer e \<Rightarrow> Inl (PyExc ''URLError''))"

text \<open>The requests of the page to the device service: an announcement, a poll.\<close>

record 'w pairing_service =
  ps_announce :: "dict \<Rightarrow> 'w \<Rightarrow> answer \<times> 'w"
  ps_poll :: "json \<Rightarrow> 'w \<Rightarrow> answer \<times> 'w"

record page_env =
  pg_random_id :: string
  pg_board_type :: string
  pg_show :: "json \<Rightarrow> string"
  pg_text :: "error \<Rightarrow> string"

definition detail :: "string \<Rightarrow> json" where
  "detail s = JObj [(''detail'', JStr s)]"

definition relay :: "page_env \<Rightarrow> answer \<times> 'w \<Rightarrow> (nat \<times> json) \<times> 'w" where
  "relay env aw = (case http_json (fst aw) of
     Inl err \<Rightarrow> (502, detail (pg_text env err)) | Inr v \<Rightarrow> (200, v), snd aw)"

text \<open>\<open>do_GET\<close>: the path, and the values of \<open>device_code\<close> in the query.\<close>

definition page_get :: "'w pairing_service \<Rightarrow> page_env \<Rightarrow> string \<Rightarrow> string list \<Rightarrow> 'w \<Rightarrow> (nat \<times> json) \<times> 'w" where
  "page_get svc env path values w =
     (if path = ''/'' then ((200, JStr ''html''), w)
      else if path = ''/api/poll'' then
        let dcode = strip (case values of [] \<Rightarrow> [] | v # _ \<Rightarrow> v)
        in if dcode = [] then ((400, detail ''device_code is required''), w)
           else relay env (ps_poll svc (JStr dcode) w)
      else ((404, detail ''not found''), w))"

text \<open>\<open>do_POST\<close>: the body as JSON (none: it cannot be read); a body that is no object raises.\<close>

definition page_announcement :: "page_env \<Rightarrow> dict \<Rightarrow> dict" where
  "page_announcement env b =
     [(''hardware_id'', JStr (py_str (pg_show env) (jor (dget b ''hardware_id'') (JStr (''hw-'' @ pg_random_id env))))),
      (''device_type'', JStr (py_str (pg_show env) (jor (dget b ''device_type'') (JStr (pg_board_type env))))),
      (''firmware_version'', dget b ''firmware_version'')]"

definition page_post :: "'w pairing_service \<Rightarrow> page_env \<Rightarrow> string \<Rightarrow> json option \<Rightarrow> 'w \<Rightarrow> (nat \<times> json) res \<times> 'w" where
  "page_post svc env path body w =
     (if path \<noteq> ''/api/announce'' then (Inr (404, detail ''not found''), w)
      else case body of
        None \<Rightarrow> (Inr (400, detail ''invalid JSON payload''), w)
      | Some (JObj b) \<Rightarrow> (case relay env (ps_announce svc (page_announcement env b) w) of (r, w1) \<Rightarrow> (Inr r, w1))
      | Some v \<Rightarrow> (Inl (PyExc ''AttributeError''), w))"

subsection \<open>The simulated Matter device\<close>

definition mock_request :: "string \<Rightarrow> string \<Rightarrow> commission_request" where
  "mock_request board c = \<lparr>cr_commissioning_id = c, cr_name = board, cr_description = Some (''Mock Matter device: '' @ board),
     cr_owner_id = ''emulator'', cr_tenant_id = None\<rparr>"

datatype mock_end = Mock_failed | Mock_timeout | Mock_device json

text \<open>At most the given number of polls; what happens in the second before each is \<open>pause\<close>. Answers that
  cannot be read are passed over.\<close>

fun mock_poll :: "'w bridge \<Rightarrow> (nat \<Rightarrow> 'w \<Rightarrow> 'w) \<Rightarrow> string \<Rightarrow> nat \<Rightarrow> 'w \<Rightarrow> mock_end \<times> 'w" where
  "mock_poll bridge pause c 0 w = (Mock_timeout, w)"
| "mock_poll bridge pause c (Suc n) w = (case bridge (Get_commission c) (pause n w) of
     (a, w1) \<Rightarrow> (case http_json a of
        Inr (JObj d) \<Rightarrow>
          if dget d ''status'' = JStr ''commissioned''
          then (if truthy (dget d ''device_id'') then Mock_device (dget d ''device_id'') else Mock_timeout, w1)
          else if dget d ''status'' = JStr ''failed'' then (Mock_failed, w1)
          else mock_poll bridge pause c n w1
      | _ \<Rightarrow> mock_poll bridge pause c n w1))"

definition mock_commission :: "'w bridge \<Rightarrow> (nat \<Rightarrow> 'w \<Rightarrow> 'w) \<Rightarrow> string \<Rightarrow> string \<Rightarrow> 'w \<Rightarrow> mock_end res \<times> 'w" where
  "mock_commission bridge pause board c w = (case bridge (Start_commission (mock_request board c)) w of
     (a, w1) \<Rightarrow> (case http_json a of
        Inl err \<Rightarrow> (Inr Mock_failed, w1)
      | Inr (JObj d) \<Rightarrow> (case mock_poll bridge pause c 30 w1 of (e, w2) \<Rightarrow> (Inr e, w2))
      | Inr v \<Rightarrow> (Inl (PyExc ''AttributeError''), w1)))"

text \<open>The samples of one tick, all of them exact in floating point.\<close>

definition mock_samples :: "nat \<Rightarrow> dict" where
  "mock_samples tick = [(''samples'', JArr
     [JObj [(''metric'', JStr ''temperature_celsius''), (''value'', JNum (20 + of_nat (tick mod 10) / 2)), (''unit'', JStr ''celsius'')],
      JObj [(''metric'', JStr ''power_state''), (''value'', JNum (if tick mod 2 = 0 then 1 else 0)), (''unit'', JStr ''bool'')],
      JObj [(''metric'', JStr ''brightness_level''), (''value'', JNum (of_nat (128 + tick mod 127))), (''unit'', JStr ''level'')]])]"

text \<open>The given number of ticks; an error is only logged.\<close>

fun mock_ticks :: "(target \<Rightarrow> dict \<Rightarrow> 'w \<Rightarrow> answer \<times> 'w) \<Rightarrow> string \<Rightarrow> nat \<Rightarrow> nat \<Rightarrow> 'w \<Rightarrow> 'w" where
  "mock_ticks post d 0 tick w = w"
| "mock_ticks post d (Suc n) tick w = mock_ticks post d n (Suc tick) (snd (post (Telemetry_of d) (mock_samples tick) w))"

subsection \<open>Lemmas\<close>

lemma runs_on: "\<not> 0 < kill_after \<Longrightarrow> run_board net env hb kill_after cl d fuel k beat w = None"
  by (induction fuel arbitrary: k beat w) (simp_all add: killed_def Let_def)

lemma run_board_killed:
  "killed kill_after (bc_start cl) (bc_check cl (k + n)) \<Longrightarrow>
     \<exists>w'. run_board net env hb kill_after cl d (Suc n) k beat w = Some (''killed'', w')"
proof (induction n arbitrary: k beat w)
  case (Suc n)
  then show ?case by (cases "killed kill_after (bc_start cl) (bc_check cl k)") (simp_all add: Let_def)
qed simp

text \<open>A board that polls ends when it has a time to live and its clock advances, and never otherwise.\<close>

lemma run_board_ends:
  assumes "0 < step" "\<And>k. bc_start cl + of_nat k * step \<le> bc_check cl k"
  shows "if 0 < kill_after
    then \<exists>w'. run_board net env hb kill_after cl d (Suc (nat \<lceil>kill_after / step\<rceil>)) 0 beat w = Some (''killed'', w')
    else \<forall>fuel. run_board net env hb kill_after cl d fuel 0 beat w = None"
proof (cases "0 < kill_after")
  case True
  let ?n = "nat \<lceil>kill_after / step\<rceil>"
  have "kill_after / step \<le> of_int \<lceil>kill_after / step\<rceil>" by (rule le_of_int_ceiling)
  also have "\<dots> \<le> of_nat ?n" by (simp add: of_nat_nat)
  finally have "kill_after \<le> of_nat ?n * step" using assms(1) by (simp add: pos_divide_le_eq)
  also have "\<dots> \<le> bc_check cl ?n - bc_start cl" using assms(2) [of ?n] by simp
  finally have "killed kill_after (bc_start cl) (bc_check cl (0 + ?n))" using True by (simp add: killed_def)
  from run_board_killed [OF this] True show ?thesis by (simp del: run_board.simps)
qed (simp add: runs_on)

text \<open>The options in their ranges; bringing them there twice changes nothing.\<close>

lemma effective_range:
  "0 \<le> la_fail_rate (effective a)" "la_fail_rate (effective a) \<le> 1" "0 \<le> la_kill_after (effective a)"
  "1 \<le> la_ui_port (effective a)" "la_ui_port (effective a) \<le> 65535" "effective (effective a) = effective a"
  by (simp_all add: effective_def)

subsection \<open>Against the services\<close>

text \<open>The page in front of the device service: an announcement that clashes with none is answered with the
  codes, and the poll with its device code finds it waiting for its owner. The agent's own announcement,
  which has no hardware id, is refused there.\<close>

definition page_service :: "device_settings \<Rightarrow> device_env \<Rightarrow> device_state pairing_service" where
  "page_service cfg denv = \<lparr>ps_announce = post_announce cfg denv, ps_poll = get_poll denv\<rparr>"

lemma pairing_page:
  fixes st :: device_state and cfg :: device_settings and denv :: device_env
  assumes b: "dget b ''hardware_id'' = JStr hw" "hw \<noteq> []" "opt_str b ''firmware_version'' = Some fw"
    and device_type: "py_str (pg_show env) (jor (dget b ''device_type'') (JStr (pg_board_type env))) = ty"
  defines "x \<equiv> new_discovery cfg denv \<lparr>an_hardware_id = hw, an_device_type = ty, an_firmware_version = fw\<rparr> (dv_ids st)"
  assumes new: "\<not> list_ex (discovery_clash x) (discoveries st)"
    and dcode: "strip (dc_device_code x) = dc_device_code x" "dc_device_code x \<noteq> []" "0 \<le> ds_discovery_expiry_seconds cfg"
  shows "\<exists>d st1. page_post (page_service cfg denv) env ''/api/announce'' (Some (JObj b)) st = (Inr (200, JObj d), st1)
    \<and> dget d ''device_code'' = JStr (dc_device_code x) \<and> dget d ''user_code'' = JStr (dc_user_code x)
    \<and> page_get (page_service cfg denv) env ''/api/poll'' [dc_device_code x] st1 =
        ((200, JObj [(''status'', JStr ''announced''), (''bootstrap_token'', JNull), (''device_id'', JNull)]), st1)"
proof -
  let ?r = "\<lparr>an_hardware_id = hw, an_device_type = ty, an_firmware_version = fw\<rparr>"
  have "parse_announce (page_announcement env b) = Some ?r"
    using b device_type
    by (simp add: parse_announce_def page_announcement_def opt_str_def dget_def jor_def py_str_def)
  moreover obtain a st1 where a: "announce cfg denv ?r st = (Inr a, st1)" "ar_device_code a = dc_device_code x"
    "ar_user_code a = dc_user_code x"
    and st1: "discoveries st1 = tbl_add x (map (expire_stale hw) (discoveries st))"
    using new by (simp add: announce_def Let_def x_def [symmetric])
  ultimately obtain d where post: "post_announce cfg denv (page_announcement env b) st = (Answer 200 (JObj d), st1)"
    "dget d ''device_code'' = JStr (dc_device_code x)" "dget d ''user_code'' = JStr (dc_user_code x)"
    by (simp add: post_announce_def dget_def)
  have "tbl_get dc_device_code (dc_device_code x) (map (expire_stale hw) (discoveries st)) = None"
    using new by (auto simp: tbl_get_None list_ex_iff discovery_clash_def expire_stale_def split: if_splits)
  then have "find_code (dc_device_code x) st1 = Some x" by (simp add: find_code_def st1 tbl_get_add)
  moreover have "dc_status x = ''announced''" "\<not> dc_expires_at x < dn_now denv"
    using dcode(3) by (simp_all add: x_def new_discovery_def)
  ultimately have "get_poll denv (JStr (dc_device_code x)) st1 =
      (Answer 200 (JObj [(''status'', JStr ''announced''), (''bootstrap_token'', JNull), (''device_id'', JNull)]), st1)"
    by (simp add: get_poll_def poll_def Let_def)
  then show ?thesis
    using post dcode(1,2) by (simp add: page_post_def page_get_def relay_def http_json_def success_def page_service_def Let_def)
qed

text \<open>The simulated device at the bridge: refused where the key is asked for; commissioned when its task
  runs before the last poll.\<close>

lemma emulated_matter:
  fixes st :: "device_state matter_state" and denv :: device_env and t :: int and board c :: string
  assumes "matter_reach st"
  defines "n \<equiv> ma_next_node st" and "s \<equiv> new_session t (mock_request board c) (ma_next_node st)"
    and "i \<equiv> dn_uuid4 denv (dv_ids (ma_service st))"
  shows "(mt_internal_key cfg \<noteq> [] \<longrightarrow> mock_commission (matter_http cfg t) pause board c st = (Inr Mock_failed, st))
    \<and> (mt_internal_key cfg = [] \<and> ids_fresh denv (ma_service st) \<and> i \<noteq> []
       \<and> accepted_registration api dcfg denv (mt_bootstrap_token cfg) (matter_body s (mock_meta s))
       \<and> pause 29 = run_commissioning (device_post api dcfg denv) cfg shown Absent_server n \<longrightarrow>
         fst (mock_commission (matter_http cfg t) pause board c st) = Inr (Mock_device (JStr i)))"
proof (intro conjI impI; (elim conjE)?)
  assume "mt_internal_key cfg \<noteq> []"
  then show "mock_commission (matter_http cfg t) pause board c st = (Inr Mock_failed, st)"
    by (simp add: mock_commission_def refused_without_key http_json_def success_def)
next
  assume key: "mt_internal_key cfg = []" and ids: "ids_fresh denv (ma_service st)" and i: "i \<noteq> []"
    and ok: "accepted_registration api dcfg denv (mt_bootstrap_token cfg) (matter_body s (mock_meta s))"
    and pause: "pause 29 = run_commissioning (device_post api dcfg denv) cfg shown Absent_server n"
  obtain sx where sx: "commission cfg t None (mock_request board c) st = (Inr s, sx)" "ma_service sx = ma_service st"
    "tbl_get se_node_id n (ma_objects sx) = Some s" "map_of (ma_sessions sx) c = Some n"
    using started_session [OF assms(1) key, of t None "mock_request board c"] by (auto simp: s_def n_def mock_request_def)
  have fields: "se_node_id s = n" by (simp add: s_def n_def new_session_def)
  obtain d where d: "tbl_get se_node_id n (ma_objects (pause 29 sx)) = Some (s\<lparr>se_status := ''commissioned'', se_device_id := Some i\<rparr>)"
      "map_of (ma_sessions (pause 29 sx)) c = Some n"
    using mock_task [OF sx(3) fields, of denv api dcfg cfg shown] ids ok sx(2,4) by (auto simp: pause i_def)
  have p: "get_session c (pause 29 sx) = Some (s\<lparr>se_status := ''commissioned'', se_device_id := Some i\<rparr>)"
    using d by (simp add: get_session_def)
  have "fst (mock_poll (matter_http cfg t) pause c (Suc 29) sx) = Mock_device (JStr i)"
    using p key i by (subst mock_poll.simps(2)) (simp add: matter_http_def commission_status_def MatterBridge.require_internal_def http_json_def
      success_def session_json_def dget_def)
  then show "fst (mock_commission (matter_http cfg t) pause board c st) = Inr (Mock_device (JStr i))"
    using sx(1) by (auto simp: mock_commission_def matter_http_def http_json_def success_def started_json_def split: prod.split)
qed

end
