(* ===== verification/BridgeLoops.thy ===== *)
theory BridgeLoops
  imports MqttProperties ZigbeeProperties MatterBridge
begin

text \<open>
  The processes around the MQTT and the Zigbee bridge (their \<open>main.py\<close>): the loop that holds the
  connection to the broker, the client it leaves to the dispatcher of commands, the simulated messages of
  the Zigbee bridge, the connection to Kafka, and what the probes show. An event is what the awaits of a
  loop come to. The start of the Matter bridge is here as well.
\<close>

subsection \<open>The MQTT bridge\<close>

record 'b mqtt_process =
  mp_loop :: bool
  mp_client :: bool
  mp_bridge :: 'b

text \<open>The connection is opened or is not; a message arrives; the connection ends, by itself or with an
  exception. The loop makes one attempt: its \<open>finally\<close> takes the client away and the task is over.\<close>

datatype mqtt_event = Opened | Not_opened | Frame string string | Ended

definition mqtt_event_step :: "(string \<Rightarrow> string \<Rightarrow> 'b \<Rightarrow> 'b) \<Rightarrow> mqtt_event \<Rightarrow> 'b mqtt_process \<Rightarrow> 'b mqtt_process" where
  "mqtt_event_step handle ev p =
     (if \<not> mp_loop p then p
      else case ev of
        Opened \<Rightarrow> p\<lparr>mp_client := True\<rparr>
      | Not_opened \<Rightarrow> p\<lparr>mp_loop := False, mp_client := False\<rparr>
      | Frame topic payload \<Rightarrow> if mp_client p then p\<lparr>mp_bridge := handle topic payload (mp_bridge p)\<rparr> else p
      | Ended \<Rightarrow> p\<lparr>mp_loop := False, mp_client := False\<rparr>)"

definition mqtt_process_start :: "'b \<Rightarrow> 'b mqtt_process" where
  "mqtt_process_start b = \<lparr>mp_loop = True, mp_client = False, mp_bridge = b\<rparr>"

text \<open>\<open>_mqtt_publish\<close> of both bridges: without a client nothing is sent and nothing raised; \<open>answer\<close> is what
  the broker makes of a publication (none: it takes it).\<close>

definition link_of :: "bool \<Rightarrow> string option \<Rightarrow> link" where
  "link_of client answer = (if \<not> client then Offline else case answer of None \<Rightarrow> Accepts | Some e \<Rightarrow> Raises e)"

definition mqtt_health :: "string \<Rightarrow> bool \<Rightarrow> 'b mqtt_process \<Rightarrow> dict" where
  "mqtt_health broker kafka p =
     [(''status'', JStr ''ok''), (''mqtt_connected'', JBool (mp_client p)), (''broker'', JStr broker),
      (''kafka'', JStr (if kafka then ''enabled'' else ''disabled''))]"

text \<open>\<open>/devices\<close>, for internal callers where a key is set.\<close>

definition known_devices_endpoint :: "string \<Rightarrow> string option \<Rightarrow> 'w bridge \<Rightarrow> dict res" where
  "known_devices_endpoint key header b =
     (if key \<noteq> [] \<and> (header = None \<or> header = Some [] \<or> header \<noteq> Some key)
      then Inl (http 403 ''Missing or invalid internal authentication'')
      else Inr [(''known_devices'', JArr (map JStr (list_known_devices b)))])"

subsection \<open>Kafka\<close>

text \<open>What \<open>_connect_kafka\<close> gives: whether there is a producer and a consumer; the starts work or raise.\<close>

definition connect_kafka :: "bool \<Rightarrow> bool \<Rightarrow> bool \<Rightarrow> bool \<times> bool" where
  "connect_kafka enabled producer_ok consumer_ok =
     (if enabled \<and> producer_ok \<and> consumer_ok then (True, True) else (False, False))"

text \<open>\<open>_build_kafka_consumer\<close> of the Zigbee bridge.\<close>

definition build_kafka_consumer :: "bool \<Rightarrow> bool \<Rightarrow> bool" where
  "build_kafka_consumer enabled consumer_ok = (enabled \<and> consumer_ok)"

subsection \<open>The Zigbee bridge\<close>

record 'w zigbee_process =
  zp_connected :: bool
  zp_client :: bool
  zp_bridge :: "'w zigbee_state"
  zp_waits :: "nat list"

text \<open>How one attempt of the endless loop ends: with an MQTT error, another exception, or, after some
  messages, by itself; \<open>opened\<close> tells whether the connection was made.\<close>

datatype loop_end = Mqtt_error | Other_error | No_error

record zigbee_attempt =
  za_opened :: bool
  za_messages :: "(string \<times> string) list"
  za_end :: loop_end

definition handle_all_messages ::
  "'w service \<Rightarrow> zigbee_cfg \<Rightarrow> zigbee_env \<Rightarrow> (string \<times> string) list \<Rightarrow> 'w zigbee_state \<Rightarrow> 'w zigbee_state" where
  "handle_all_messages post cfg env ms st = fold (\<lambda>(topic, payload) b. snd (zigbee_message post cfg env topic payload b)) ms st"

definition zigbee_turn ::
  "'w service \<Rightarrow> zigbee_cfg \<Rightarrow> zigbee_env \<Rightarrow> zigbee_attempt \<Rightarrow> 'w zigbee_process \<Rightarrow> 'w zigbee_process" where
  "zigbee_turn post cfg env a p =
     (let p1 = (if za_opened a then p\<lparr>zp_connected := True, zp_client := True,
                   zp_bridge := handle_all_messages post cfg env (za_messages a) (zp_bridge p)\<rparr> else p)
      in case za_end a of
           No_error \<Rightarrow> p1
         | Mqtt_error \<Rightarrow> p1\<lparr>zp_connected := False, zp_client := False, zp_waits := zp_waits p1 @ [5]\<rparr>
         | Other_error \<Rightarrow> p1\<lparr>zp_connected := False, zp_client := False, zp_waits := zp_waits p1 @ [10]\<rparr>)"

definition zigbee_health :: "'w zigbee_process \<Rightarrow> dict" where
  "zigbee_health p = [(''status'', JStr ''ok''), (''mqtt_connected'', JBool (zp_connected p))]"

definition zigbee_devices :: "'w zigbee_process \<Rightarrow> dict" where
  "zigbee_devices p = [(''devices'', JArr (map JObj (zigbee_list_devices (zp_bridge p))))]"

text \<open>The inventory the mock mode starts with, and the two states it sends in every round, with the
  numbers drawn for it.\<close>

definition exposed :: "string \<Rightarrow> string \<Rightarrow> json" where
  "exposed name ty = JObj [(''name'', JStr name), (''type'', JStr ty)]"

definition mock_entry :: "string \<Rightarrow> string \<Rightarrow> string \<Rightarrow> string \<Rightarrow> json list \<Rightarrow> string list \<Rightarrow> json" where
  "mock_entry name ieee model vendor features clusters =
     JObj [(''friendly_name'', JStr name), (''ieee_address'', JStr ieee),
       (''definition'', JObj [(''model'', JStr model), (''vendor'', JStr vendor), (''exposes'', JArr features)]),
       (''endpoints'', JObj [(''1'', JObj [(''clusters'',
          JObj [(''input'', JArr (map JStr clusters)), (''output'', JArr [])])])])]"

definition mock_inventory :: json where
  "mock_inventory = JArr
     [mock_entry ''mock-bulb-01'' ''0x00158d000123abcd'' ''LED2003G10'' ''IKEA''
        [exposed ''state'' ''binary'', exposed ''brightness'' ''numeric'', exposed ''color_temp'' ''numeric'']
        [''genOnOff'', ''genLevelCtrl''],
      mock_entry ''mock-sensor-01'' ''0x00158d000456efgh'' ''SNZB-02'' ''SONOFF''
        [exposed ''temperature'' ''numeric'', exposed ''humidity'' ''numeric'', exposed ''battery'' ''numeric'']
        [''msTemperatureMeasurement'']]"

record mock_draw =
  md_brightness :: int
  md_color_temp :: int
  md_link1 :: int
  md_temperature :: rat
  md_humidity :: rat
  md_battery :: int
  md_link2 :: int

definition mock_round :: "mock_draw \<Rightarrow> (string \<times> json) list" where
  "mock_round m =
     [(''mock-bulb-01'', JObj [(''state'', JStr ''ON''), (''brightness'', JInt (md_brightness m)),
         (''color_temp'', JInt (md_color_temp m)), (''linkquality'', JInt (md_link1 m))]),
      (''mock-sensor-01'', JObj [(''temperature'', JNum (md_temperature m)), (''humidity'', JNum (md_humidity m)),
         (''battery'', JInt (md_battery m)), (''linkquality'', JInt (md_link2 m))])]"

text \<open>The messages as they arrive: \<open>dumps\<close> is the text of a JSON value.\<close>

definition mock_messages :: "zigbee_cfg \<Rightarrow> (json \<Rightarrow> string) \<Rightarrow> mock_draw list \<Rightarrow> (string \<times> string) list" where
  "mock_messages cfg dumps ms =
     (zc_base_topic cfg @ ''/bridge/devices'', dumps mock_inventory)
     # concat (map (\<lambda>m. map (\<lambda>(name, v). (zc_base_topic cfg @ ''/'' @ name, dumps v)) (mock_round m)) ms)"

definition mock_mqtt_loop ::
  "'w service \<Rightarrow> zigbee_cfg \<Rightarrow> zigbee_env \<Rightarrow> (json \<Rightarrow> string) \<Rightarrow> mock_draw list \<Rightarrow> 'w zigbee_process \<Rightarrow> 'w zigbee_process" where
  "mock_mqtt_loop post cfg env dumps ms p =
     p\<lparr>zp_connected := True, zp_bridge := handle_all_messages post cfg env (mock_messages cfg dumps ms) (zp_bridge p)\<rparr>"

subsection \<open>The Matter bridge\<close>

text \<open>\<open>_connect_matter_server\<close>: without the library or without an answer there is no client.\<close>

definition connect_matter_server :: "bool \<Rightarrow> bool \<Rightarrow> bool" where
  "connect_matter_server installed reachable = (installed \<and> reachable)"

definition matter_health :: "bool \<Rightarrow> bool \<Rightarrow> dict" where
  "matter_health client producer =
     [(''status'', JStr ''ok''), (''matter_mode'', JStr (if client then ''real'' else ''mock'')),
      (''kafka'', JStr (if producer then ''enabled'' else ''disabled''))]"

subsection \<open>After a loss of the broker\<close>

lemma mqtt_over: "\<not> mp_loop p \<Longrightarrow> fold (mqtt_event_step handle) evs p = p"
  by (induction evs arbitrary: p) (simp_all add: mqtt_event_step_def)

lemma mqtt_lost:
  "x \<in> set evs \<Longrightarrow> x \<in> {Ended, Not_opened} \<Longrightarrow> mp_client p \<longrightarrow> mp_loop p
    \<Longrightarrow> \<not> mp_loop (fold (mqtt_event_step handle) evs p) \<and> \<not> mp_client (fold (mqtt_event_step handle) evs p)"
proof (induction evs arbitrary: p)
  case (Cons y evs)
  let ?p = "mqtt_event_step handle y p"
  have keep: "mp_client ?p \<longrightarrow> mp_loop ?p" using Cons.prems(3) by (cases y) (auto simp: mqtt_event_step_def)
  show ?case
  proof (cases "mp_loop ?p")
    case True
    then have "y \<noteq> x" using Cons.prems(2) by (auto simp: mqtt_event_step_def split: if_splits)
    with Cons.IH [OF _ Cons.prems(2) keep] Cons.prems(1) show ?thesis by simp
  next
    case False
    with keep show ?thesis by (simp add: mqtt_over)
  qed
qed simp



end
