(* ===== verification/EdgeOps.thy ===== *)
theory EdgeOps
  imports EdgeDelivery
begin

text \<open>
  The gateway around its tunnel (\<open>nexora-edge/main.py\<close>): start-up with its conditions on Redis and
  Kafka, the probes, the counters behind the gauges, the lag of the consumer, and the headers of the
  middleware. The counters read the store, and fall back like every other access to it.
\<close>

subsection \<open>Start-up and probes\<close>

record edge_settings =
  es_environment :: string
  es_redis_enabled :: bool
  es_redis_required :: bool
  es_kafka_enabled :: bool
  es_kafka_required :: bool

text \<open>What is up after the start: Redis, the producer, the consumer task. An exception ends the process.\<close>

record edge_services =
  sv_redis :: bool
  sv_producer :: bool
  sv_consumer :: bool

definition start_redis :: "edge_settings \<Rightarrow> bool \<Rightarrow> bool res" where
  "start_redis s redis_answers =
     (if \<not> es_redis_enabled s then Inr False
      else if redis_answers then Inr True
      else if es_redis_required s then Inl (PyExc ''ConnectionError'') else Inr False)"

definition edge_startup :: "edge_settings \<Rightarrow> bool \<Rightarrow> bool \<Rightarrow> edge_services res" where
  "edge_startup s redis_answers kafka_answers =
     (if es_environment s = ''production'' \<and> (\<not> es_redis_enabled s \<or> \<not> es_redis_required s)
      then Inl (PyExc ''RuntimeError'')
      else case start_redis s redis_answers of
        Inl err \<Rightarrow> Inl err
      | Inr redis \<Rightarrow>
          if \<not> es_kafka_enabled s then Inr \<lparr>sv_redis = redis, sv_producer = False, sv_consumer = False\<rparr>
          else if kafka_answers then Inr \<lparr>sv_redis = redis, sv_producer = True, sv_consumer = True\<rparr>
          else if es_kafka_required s then Inl (PyExc ''KafkaConnectionError'')
          else Inr \<lparr>sv_redis = redis, sv_producer = False, sv_consumer = True\<rparr>)"

definition redis_status :: "edge_settings \<Rightarrow> edge_services \<Rightarrow> string" where
  "redis_status s v = (if sv_redis v then ''ok'' else if es_redis_enabled s then ''degraded'' else ''disabled'')"

definition edge_ready :: "edge_settings \<Rightarrow> edge_services \<Rightarrow> nat \<Rightarrow> dict res" where
  "edge_ready s v n =
     (if \<not> sv_producer v \<and> es_kafka_enabled s then Inl (http 503 ''Kafka producer not available'')
      else Inr [(''status'', JStr ''ready''), (''service'', JStr ''nexora-edge''),
        (''kafka'', JStr (if sv_producer v then ''ok'' else ''disabled'')), (''redis'', JStr (redis_status s v)),
        (''sessions'', JInt (int n))])"

subsection \<open>Counters\<close>

definition dual_count :: "bool \<Rightarrow> dual \<Rightarrow> nat" where
  "dual_count up d = length (if up then primary d else fallback d)"

definition session_count :: "edge_env \<Rightarrow> edge_state \<Rightarrow> nat \<times> edge_state" where
  "session_count env st = (dual_count (redis_up env st) (sessions st), tick st)"

definition dispatch_count :: "edge_env \<Rightarrow> edge_state \<Rightarrow> nat \<times> edge_state" where
  "dispatch_count env st = (dual_count (redis_up env st) (dispatches st), tick st)"

text \<open>The keys, then each value by a call of its own; a call that fails leaves for the local dict.\<close>

fun count_keys :: "edge_env \<Rightarrow> string \<Rightarrow> string list \<Rightarrow> nat \<Rightarrow> edge_state \<Rightarrow> nat option \<times> edge_state" where
  "count_keys env d [] n st = (Some n, st)"
| "count_keys env d (k # ks) n st =
     (if \<not> redis_up env st then (None, tick st)
      else count_keys env d ks
        (case map_of (primary (dispatches st)) k of
           Some data \<Rightarrow> if for_device d data then Suc n else n | None \<Rightarrow> n) (tick st))"

definition local_count :: "string \<Rightarrow> edge_state \<Rightarrow> nat" where
  "local_count d st = length (filter (for_device d) (map snd (fallback (dispatches st))))"

definition dispatch_count_for_device :: "edge_env \<Rightarrow> string \<Rightarrow> edge_state \<Rightarrow> nat \<times> edge_state" where
  "dispatch_count_for_device env d st =
     (if \<not> redis_on st then (local_count d st, st)
      else if \<not> redis_up env st then (local_count d st, tick st)
      else case count_keys env d (map fst (primary (dispatches st))) 0 (tick st) of
        (Some n, st1) \<Rightarrow> (n, st1) | (None, st1) \<Rightarrow> (local_count d st, st1))"

text \<open>The lag of a partition.\<close>

definition partition_lag :: "int \<Rightarrow> int \<Rightarrow> int" where
  "partition_lag end_offset position = max 0 (end_offset - position)"

subsection \<open>Tracing headers\<close>

text \<open>\<open>observability_middleware\<close>, the same in every service: the headers of the answer.\<close>

definition observed_headers :: "(string \<Rightarrow> string option) \<Rightarrow> string \<Rightarrow> (string \<times> string) list" where
  "observed_headers request drawn =
     (let trace = sor (request ''x-trace-id'') drawn
      in [(''x-trace-id'', trace),
          (''x-correlation-id'', (case request ''x-correlation-id'' of Some c \<Rightarrow> c | None \<Rightarrow> trace))])"

subsection \<open>Lemmas\<close>

text \<open>In production a gateway that starts has Redis.\<close>

lemma production_has_redis:
  "edge_startup s r k = Inr v \<Longrightarrow> es_environment s = ''production'' \<Longrightarrow> sv_redis v \<and> redis_status s v = ''ok''"
  by (auto simp: edge_startup_def start_redis_def redis_status_def split: if_splits)

text \<open>A gateway whose producer could not start, Kafka being optional, serves but is never ready.\<close>

lemma ready_iff: "is_ok (edge_ready s v n) \<longleftrightarrow> sv_producer v \<or> \<not> es_kafka_enabled s"
  by (simp add: edge_ready_def)

lemma count_keys_up:
  assumes "redis_stable env st" "redis_on st"
  shows "count_keys env d ks n st = (Some (n + length (filter (\<lambda>k. case map_of (primary (dispatches st)) k of
      Some data \<Rightarrow> for_device d data | None \<Rightarrow> False) ks)), (tick ^^ length ks) st)"
  using assms
proof (induction ks arbitrary: n st)
  case (Cons k ks)
  have up: "redis_up env st" using Cons.prems by (simp add: redis_stable_up)
  have "redis_stable env (tick st)" "redis_on (tick st)" using Cons.prems by (simp_all add: redis_stable_def)
  from Cons.IH [OF this] up show ?case by (auto simp: funpow_swap1 split: option.splits)
qed simp

text \<open>What is counted as pending for a device is what a replay to it would try to send, with Redis up and
  without it alike.\<close>

lemma filter_keys_count:
  "distinct (map fst xs) \<Longrightarrow> length (filter (\<lambda>k. case map_of xs k of Some v \<Rightarrow> P v | None \<Rightarrow> False) (map fst xs))
     = length (filter P (map snd xs))"
proof (induction xs)
  case (Cons x xs)
  have "filter (\<lambda>k. case map_of (x # xs) k of Some v \<Rightarrow> P v | None \<Rightarrow> False) (map fst xs)
      = filter (\<lambda>k. case map_of xs k of Some v \<Rightarrow> P v | None \<Rightarrow> False) (map fst xs)"
    using Cons.prems by (intro filter_cong) (auto simp: image_iff split: if_splits)
  with Cons show ?case by (cases x) simp
qed simp

lemma pending_counts_replay:
  assumes "redis_stable env st" "distinct (map fst (primary (dispatches st)))"
  shows "fst (dispatch_count_for_device env d st)
    = length (filter (for_device d) (map snd (if redis_on st then primary (dispatches st) else fallback (dispatches st))))"
proof (cases "redis_on st")
  case True
  have "redis_stable env (tick st)" "redis_on (tick st)" using assms(1) True by (simp_all add: redis_stable_def)
  from count_keys_up [OF this] True assms show ?thesis
    by (simp only: dispatch_count_for_device_def redis_stable_up filter_keys_count tick_simps) simp
qed (simp add: dispatch_count_for_device_def local_count_def)

end
