(* ===== verification/AgentCli.thy ===== *)
theory AgentCli
  imports PairingProperties Agent
begin

text \<open>
  The command line of the agent (\<open>packages/nexora-agent\<close>: \<open>cli.py\<close>): what a command prints and to which
  stream, how the process ends, and what it leaves in the credentials. A printed line is the list of its
  parts, without quotes and line breaks. The banner with the code of the pairing, parsing of the arguments and \<open>logs\<close>, which becomes another
  program, are left out.
\<close>

subsection \<open>Commands\<close>

datatype cli_line = Out "json list" | Err "json list"

text \<open>The process ends with a code or an exception, or goes on as the tunnel with these credentials.\<close>

datatype cli_outcome = Exit nat | Crash error | Serve dict

record pair_args =
  pa_server :: string
  pa_gateway :: string
  pa_name :: "string option"
  pa_device_type :: string

definition line :: "string \<Rightarrow> json \<Rightarrow> cli_line" where
  "line label v = Out [JStr label, v]"

definition note_line :: "string \<Rightarrow> cli_line" where
  "note_line label = Out [JStr label]"

definition pairing_failure :: "(error \<Rightarrow> string) \<Rightarrow> error \<Rightarrow> json list" where
  "pairing_failure shown err =
     (if err = PyExc ''PairingExpired'' then [JStr ''Pairing timed out''] else if err = PyExc ''PairingDenied''
      then [JStr ''Pairing was denied by the owner.''] else [JStr ''Pairing failed: '', JStr (shown err)])"

definition cmd_pair ::
  "'w pairing_env \<Rightarrow> string \<Rightarrow> (error \<Rightarrow> string) \<Rightarrow> pair_args \<Rightarrow> nat \<Rightarrow> 'w \<Rightarrow> cred_store \<Rightarrow>
     (cli_line list \<times> cli_outcome \<times> 'w \<times> cred_store) option" where
  "cmd_pair env host_name shown a fuel w cs =
     (let name = sor (pa_name a) host_name;
          start = [line ''Starting pairing for'' (JStr name), line ''Server'' (JStr (pa_server a)),
                   line ''Gateway'' (JStr (pa_gateway a))]
      in case run_pairing env (pa_server a) (pa_gateway a) name (pa_device_type a) fuel w cs of
           None \<Rightarrow> None
         | Some (Inr creds, w1, cs1) \<Rightarrow> Some (start @ [note_line ''Pairing complete'', line ''Device ID'' (dget creds ''device_id''),
             note_line ''Run nexora-agent start to connect.''], Exit 0, w1, cs1)
         | Some (Inl err, w1, cs1) \<Rightarrow> Some (start @ [Err (pairing_failure shown err)], Exit 1, w1, cs1))"

text \<open>\<open>if not creds\<close>: nothing loaded, or an empty dict.\<close>

definition loaded :: "cred_env \<Rightarrow> cred_store \<Rightarrow> dict option" where
  "loaded env cs = (case cred_load env cs of Some (x # d) \<Rightarrow> Some (x # d) | _ \<Rightarrow> None)"

text \<open>Printing fields with \<open>creds[k]\<close>: the lines up to the first that is missing.\<close>

fun print_items :: "dict \<Rightarrow> (string \<times> string) list \<Rightarrow> cli_line list \<times> unit res" where
  "print_items d [] = ([], Inr ())"
| "print_items d ((label, k) # ks) =
     (if dhas d k then (case print_items d ks of (ls, r) \<Rightarrow> (line label (dget d k) # ls, r)) else ([], Inl (PyExc ''KeyError'')))"

definition overridden :: "string \<Rightarrow> string option \<Rightarrow> dict \<Rightarrow> dict" where
  "overridden k v d = (if nonempty v then dset d k (JStr (fstr v)) else d)"

definition cmd_start :: "cred_env \<Rightarrow> string option \<Rightarrow> string option \<Rightarrow> cred_store \<Rightarrow> cli_line list \<times> cli_outcome" where
  "cmd_start env server gateway cs = (case loaded env cs of
     None \<Rightarrow> ([Err [JStr ''Device is not paired.'']], Exit 1)
   | Some creds \<Rightarrow>
       let d = overridden ''gateway_url'' gateway (overridden ''server_url'' server creds)
       in case print_items d [(''Starting nexora-agent'', ''device_id''), (''Server'', ''server_url''), (''Gateway'', ''gateway_url'')] of
            (ls, Inl err) \<Rightarrow> (ls, Crash err) | (ls, Inr _) \<Rightarrow> (ls, Serve d))"

definition cmd_status :: "cred_env \<Rightarrow> queue_state \<Rightarrow> cred_store \<Rightarrow> cli_line list" where
  "cmd_status env q cs = (case loaded env cs of
     None \<Rightarrow> [note_line ''Status: NOT PAIRED'', note_line ''Run nexora-agent pair to set up this device.'']
   | Some d \<Rightarrow>
       let get = (\<lambda>k. dget_or d k (JStr ''unknown''))
       in [note_line ''Status: PAIRED'', line ''Device ID'' (get ''device_id''), line ''Name'' (get ''device_name''),
           line ''Server'' (get ''server_url''), line ''Gateway'' (get ''gateway_url''),
           line ''Paired at'' (dget_or d ''paired_at'' (get ''saved_at''))]
        @ (if depth q \<noteq> 0 then [line ''Offline queue'' (JInt (int (depth q)))] else [])
        @ [line ''Credential store'' (JStr (if tp_present env then ''TPM 2.0'' else ''file''))])"

text \<open>The answer to the question; none is the end of the input.\<close>

definition cmd_reset :: "cred_env \<Rightarrow> string option \<Rightarrow> cred_store \<Rightarrow> cli_line list \<times> cli_outcome \<times> cred_store" where
  "cmd_reset env answer cs = (case loaded env cs of
     None \<Rightarrow> ([note_line ''Device is not paired: nothing to reset.''], Exit 0, cs)
   | Some d \<Rightarrow>
       let question = line ''Reset device'' (dget_or d ''device_name'' (dget d ''device_id''))
       in (case answer of
         None \<Rightarrow> ([question], Crash (PyExc ''EOFError''), cs)
       | Some s \<Rightarrow>
           if lower (strip s) \<noteq> ''y'' then ([question, note_line ''Aborted.''], Exit 0, cs)
           else ([question, note_line ''Credentials cleared.''], Exit 0, cred_clear env cs)))"

definition cmd_version :: "string option \<Rightarrow> cli_line" where
  "cmd_version installed = note_line (''nexora-agent '' @ (case installed of Some v \<Rightarrow> v | None \<Rightarrow> ''(version unknown)''))"

text \<open>\<open>main\<close>: one command on the host.\<close>

datatype cli_command =
    Pair pair_args | Start "string option" "string option" | Status | Reset "string option" | Version "string option"

record 'w agent_host =
  ho_world :: 'w
  ho_creds :: cred_store
  ho_queue :: queue_state

definition cli_main ::
  "'w pairing_env \<Rightarrow> string \<Rightarrow> (error \<Rightarrow> string) \<Rightarrow> nat \<Rightarrow> cli_command \<Rightarrow> 'w agent_host \<Rightarrow>
     (cli_line list \<times> cli_outcome \<times> 'w agent_host) option" where
  "cli_main env host_name shown fuel c h = (case c of
     Pair a \<Rightarrow> (case cmd_pair env host_name shown a fuel (ho_world h) (ho_creds h) of
         None \<Rightarrow> None | Some (ls, out, w1, cs1) \<Rightarrow> Some (ls, out, h\<lparr>ho_world := w1, ho_creds := cs1\<rparr>))
   | Start s g \<Rightarrow> (case cmd_start (pe_creds env) s g (ho_creds h) of (ls, out) \<Rightarrow> Some (ls, out, h))
   | Status \<Rightarrow> Some (cmd_status (pe_creds env) (ho_queue h) (ho_creds h), Exit 0, h)
   | Reset answer \<Rightarrow> (case cmd_reset (pe_creds env) answer (ho_creds h) of (ls, out, cs1) \<Rightarrow> Some (ls, out, h\<lparr>ho_creds := cs1\<rparr>))
   | Version v \<Rightarrow> Some ([cmd_version v], Exit 0, h))"

subsection \<open>Lemmas\<close>

lemma paired_saved:
  assumes "run_pairing env server_url gateway_url name device_type fuel w cs = Some (Inr creds, w', cs')"
  shows "\<exists>i t. cred_save (pe_creds env) (paired_credentials i t server_url gateway_url name device_type) cs = (Inr creds, cs')"
  using assms by (auto simp: run_pairing_def finish_pairing_def split: prod.splits sum.splits option.splits json.splits)

lemma failed_pairing_keeps:
  assumes "run_pairing env server_url gateway_url name device_type fuel w cs = Some (Inl err, w', cs')" "\<not> tp_present (pe_creds env)"
  shows "cs' = cs"
  using assms by (auto simp: run_pairing_def finish_pairing_def cred_save_def file_save_def Let_def
      split: prod.splits sum.splits option.splits json.splits if_splits)

text \<open>The fields of saved credentials.\<close>

lemma saved_fields:
  assumes "cred_save env (paired_credentials i t server_url gateway_url name device_type) cs = (Inr d, cs')"
  shows "dget d ''device_id'' = i" "dget d ''device_name'' = JStr name" "dget d ''server_url'' = JStr server_url"
    "dget d ''gateway_url'' = JStr gateway_url" "dget d ''saved_at'' = ce_now env"
    "\<not> dhas d ''paired_at''" "list_all (dhas d) [''device_id'', ''device_name'', ''server_url'', ''gateway_url'', ''saved_at'']"
    "d \<noteq> []"
proof -
  have d: "d = dset (paired_credentials i t server_url gateway_url name device_type) ''saved_at'' (ce_now env)"
    using saved_dict [OF assms] by (simp add: paired_credentials_def dhas_def)
  show "dget d ''device_id'' = i" "dget d ''device_name'' = JStr name" "dget d ''server_url'' = JStr server_url"
    "dget d ''gateway_url'' = JStr gateway_url" "dget d ''saved_at'' = ce_now env" "\<not> dhas d ''paired_at''"
    "list_all (dhas d) [''device_id'', ''device_name'', ''server_url'', ''gateway_url'', ''saved_at'']"
    by (simp_all add: d dget_dset dhas_dset) (simp_all add: paired_credentials_def dget_def dhas_def)
  then show "d \<noteq> []" by (auto simp: dhas_def)
qed

lemma dget_or_dhas: "dhas d k \<Longrightarrow> dget_or d k v = dget d k"
  by (auto simp: dhas_def dget_or_def dget_def)

lemma overridden_get: "dget (overridden k v d) k' = (if k' = k \<and> nonempty v then JStr (fstr v) else dget d k')"
  by (simp add: overridden_def dget_dset)

lemma overridden_has: "dhas d k' \<Longrightarrow> dhas (overridden k v d) k'"
  by (simp add: overridden_def dhas_dset)

subsection \<open>A life of an agent\<close>

lemma loaded_saved:
  assumes "cred_save env (paired_credentials i t server_url gateway_url name device_type) cs = (Inr d, cs')"
    and "tp_present env \<and> tp_opens env \<longrightarrow> seals env cs"
  shows "loaded env cs' = Some d"
  using saved_load [OF assms(1)] assms(2) saved_fields(8) [OF assms(1)] by (cases d) (auto simp: loaded_def)

lemma loaded_cleared:
  "loaded env (cred_clear env cs) = (if tp_present env \<and> tp_opens env \<and> \<not> tp_undefines env then loaded env cs else None)"
  by (auto simp: loaded_def cred_load_def cred_clear_def tpm_clear_def tpm_load_def file_load_def
      split: nv_index.splits list.splits)

lemma pair_exit:
  assumes "cli_main env hn shown fuel (Pair a) h = Some (ls, Exit c, h1)"
  shows "\<exists>r. run_pairing env (pa_server a) (pa_gateway a) (sor (pa_name a) hn) (pa_device_type a) fuel (ho_world h) (ho_creds h)
      = Some (r, ho_world h1, ho_creds h1) \<and> (case r of Inl err \<Rightarrow> c = 1 | Inr creds \<Rightarrow> c = 0)
      \<and> ho_queue h1 = ho_queue h"
  using assms by (auto simp: cli_main_def cmd_pair_def Let_def split: option.splits sum.splits prod.splits)

text \<open>C37. The commands of the agent in a row. Pairing ends with code 0 or 1. After 0, where the credentials are
  taken (a TPM that opens takes them, or there is none), status shows the device with the server, gateway and name of the
  pairing; start runs the tunnel with the device id, and the two URLs as paired or as given; reset
  clears the credentials on a yes and leaves them on any other answer; after it the agent is not paired and does
  not start, unless the TPM keeps its index. After 1, on a host without TPM, the credentials are the ones before.\<close>

theorem cli_life:
  fixes env :: "'w pairing_env" and h h1 :: "'w agent_host" and hn :: string and shown :: "error \<Rightarrow> string"
  defines "ce \<equiv> pe_creds env" and "main \<equiv> cli_main env hn shown"
  assumes pair: "main fuel (Pair a) h = Some (ls, Exit c, h1)"
    and taken: "tp_present ce \<and> tp_opens ce \<longrightarrow> seals ce (ho_creds h)"
  defines "h2 \<equiv> h1\<lparr>ho_creds := cred_clear ce (ho_creds h1)\<rparr>"
  shows "c \<le> 1
   \<and> (c = 0 \<longrightarrow> (\<exists>i. (\<exists>rest. main f (Status) h1 = Some ([note_line ''Status: PAIRED'', line ''Device ID'' i,
            line ''Name'' (JStr (sor (pa_name a) hn)), line ''Server'' (JStr (pa_server a)),
            line ''Gateway'' (JStr (pa_gateway a)), line ''Paired at'' (ce_now ce)] @ rest, Exit 0, h1))
        \<and> (\<exists>out d. main f (Start s g) h1 = Some (out, Serve d, h1) \<and> dget d ''device_id'' = i
             \<and> dget d ''server_url'' = JStr (sor s (pa_server a)) \<and> dget d ''gateway_url'' = JStr (sor g (pa_gateway a)))
        \<and> (\<exists>out. main f (Reset (Some yes)) h1 = Some (out, Exit 0, if lower (strip yes) = ''y'' then h2 else h1)))
      \<and> (\<not> (tp_present ce \<and> tp_opens ce \<and> \<not> tp_undefines ce) \<longrightarrow>
           main f (Start s g) h2 = Some ([Err [JStr ''Device is not paired.'']], Exit 1, h2)
         \<and> (\<exists>rest. main f (Status) h2 = Some (note_line ''Status: NOT PAIRED'' # rest, Exit 0, h2))))
   \<and> (c = 1 \<and> \<not> tp_present ce \<longrightarrow> ho_creds h1 = ho_creds h)"
proof -
  obtain r where run: "run_pairing env (pa_server a) (pa_gateway a) (sor (pa_name a) hn) (pa_device_type a) fuel (ho_world h) (ho_creds h)
      = Some (r, ho_world h1, ho_creds h1)" and c: "case r of Inl err \<Rightarrow> c = 1 | Inr creds \<Rightarrow> c = 0"
    using pair_exit [OF pair [unfolded main_def]] by blast
  show ?thesis
  proof (cases r)
    case (Inl err)
    with run c failed_pairing_keeps [of env] show ?thesis by (auto simp: ce_def)
  next
    case (Inr d)
    then obtain i t where save: "cred_save ce (paired_credentials i t (pa_server a) (pa_gateway a) (sor (pa_name a) hn) (pa_device_type a))
        (ho_creds h) = (Inr d, ho_creds h1)"
      using run paired_saved [of env] unfolding ce_def by blast
    note f = saved_fields [OF save] and l = loaded_saved [OF save taken]
    have "main f Status h1 = Some (cmd_status ce (ho_queue h1) (ho_creds h1), Exit 0, h1)"
      by (simp add: main_def cli_main_def ce_def)
    moreover have "\<exists>rest. cmd_status ce (ho_queue h1) (ho_creds h1) = [note_line ''Status: PAIRED'', line ''Device ID'' i,
            line ''Name'' (JStr (sor (pa_name a) hn)), line ''Server'' (JStr (pa_server a)),
            line ''Gateway'' (JStr (pa_gateway a)), line ''Paired at'' (ce_now ce)] @ rest"
      using f by (simp add: cmd_status_def l dget_or_dhas) (simp add: dget_or_def dhas_def)
    moreover have "\<exists>out d. main f (Start s g) h1 = Some (out, Serve d, h1) \<and> dget d ''device_id'' = i
             \<and> dget d ''server_url'' = JStr (sor s (pa_server a)) \<and> dget d ''gateway_url'' = JStr (sor g (pa_gateway a))"
      using f by (simp add: main_def cli_main_def ce_def [symmetric] cmd_start_def l Let_def overridden_get overridden_has)
        (cases s; cases g; simp add: fstr_def sor_def)
    moreover have "\<exists>out. main f (Reset (Some yes)) h1 = Some (out, Exit 0, if lower (strip yes) = ''y'' then h2 else h1)"
      by (simp add: main_def cli_main_def ce_def [symmetric] cmd_reset_def l Let_def h2_def)
    moreover have "loaded ce (ho_creds h2) = None" if "\<not> (tp_present ce \<and> tp_opens ce \<and> \<not> tp_undefines ce)"
      using that by (auto simp: h2_def loaded_cleared)
    then have "main f (Start s g) h2 = Some ([Err [JStr ''Device is not paired.'']], Exit 1, h2)
         \<and> (\<exists>rest. main f (Status) h2 = Some (note_line ''Status: NOT PAIRED'' # rest, Exit 0, h2))"
      if "\<not> (tp_present ce \<and> tp_opens ce \<and> \<not> tp_undefines ce)"
      using that by (simp add: main_def cli_main_def ce_def [symmetric] cmd_start_def cmd_status_def)
    ultimately show ?thesis using Inr c by auto
  qed
qed

text \<open>A server that approves at once, and an agent without TPM.\<close>

definition demo_agent_env :: "unit pairing_env" where
  "demo_agent_env = \<lparr>pe_announce = (\<lambda>b w. (Answer 200 (JObj [(''device_code'', JStr ''c''), (''user_code'', JStr ''u'')]), w)),
     pe_poll = (\<lambda>c w. (Answer 200 (JObj [(''status'', JStr ''approved''), (''bootstrap_token'', JStr ''t''), (''device_id'', JStr ''d'')]), w)),
     pe_post = (\<lambda>t b w. (Answer 201 (JObj [(''device_id'', JStr ''d1'')]), w)), pe_others = (\<lambda>n w. w), pe_clock = of_nat,
     pe_float = (\<lambda>s. None), pe_agent_version = ''1'', pe_platform = [], pe_poll_interval = 5,
     pe_creds = demo_cred_env\<lparr>tp_present := False\<rparr>\<rparr>"

definition demo_agent_host :: "unit agent_host" where
  "demo_agent_host = \<lparr>ho_world = (), ho_creds = \<lparr>cs_index = No_index, cs_file = No_file\<rparr>,
     ho_queue = \<lparr>q_items = [], q_next = 1, q_sends = 0, q_delivered = []\<rparr>\<rparr>"

definition demo_pair_args :: pair_args where
  "demo_pair_args = \<lparr>pa_server = ''s'', pa_gateway = ''g'', pa_name = Some ''pi'', pa_device_type = ''linux-agent''\<rparr>"

lemma demo_pair:
  "\<exists>ls h1. cli_main demo_agent_env ''pi'' (\<lambda>e. []) 1 (Pair demo_pair_args) demo_agent_host = Some (ls, Exit 0, h1)"
  by (simp add: cli_main_def cmd_pair_def run_pairing_def demo_agent_env_def demo_agent_host_def demo_pair_args_def answered_def
      success_def read_announcement_def py_item_def dhas_def dget_def dget_or_def
      poll_outcome_of_def finish_pairing_def cred_save_def file_save_def demo_cred_env_def Let_def)

theorem cli_life_witness:
  "\<exists>ls h1 out d. cli_main demo_agent_env ''pi'' (\<lambda>e. []) 1 (Pair demo_pair_args) demo_agent_host = Some (ls, Exit 0, h1)
     \<and> cli_main demo_agent_env ''pi'' (\<lambda>e. []) 1 (Start None (Some ''g2'')) h1 = Some (out, Serve d, h1)
     \<and> dget d ''server_url'' = JStr ''s'' \<and> dget d ''gateway_url'' = JStr ''g2''"
proof -
  obtain ls h1 where p: "cli_main demo_agent_env ''pi'' (\<lambda>e. []) 1 (Pair demo_pair_args) demo_agent_host = Some (ls, Exit 0, h1)"
    using demo_pair by blast
  have t: "tp_present (pe_creds demo_agent_env) \<and> tp_opens (pe_creds demo_agent_env) \<longrightarrow>
      seals (pe_creds demo_agent_env) (ho_creds demo_agent_host)" by (simp add: demo_agent_env_def)
  have a: "pa_server demo_pair_args = ''s''" by (simp add: demo_pair_args_def)
  from cli_life [OF p t, where f = 1 and s = None and g = "Some ''g2''"] p a show ?thesis by fastforce
qed

end
