(* ===== verification/SdkGrpc.thy ===== *)
theory SdkGrpc
  imports SdkProperties Execution Fleet
begin

text \<open>
  The second client of the SDK (\<open>libraries/sdk/src/sdk/grpc/client.py\<close>): for want of stubs every call is a
  plain HTTP request. It reads other fields of the answers than the REST client, and its paths are those of
  the services. Beside it are the endpoints it calls: PATCH of a device, and the creating and
  reading of executions and fleets.
\<close>

subsection \<open>The client\<close>

text \<open>\<open>str.replace\<close> with a needle that is not empty.\<close>

function replace_all :: "string \<Rightarrow> string \<Rightarrow> string \<Rightarrow> string" where
  "replace_all p q [] = []"
| "replace_all p q (c # s) =
     (if p \<noteq> [] \<and> startswith (c # s) p then q @ replace_all p q (drop (length p) (c # s)) else c # replace_all p q s)"
  by pat_completeness auto
termination by (relation "measure (\<lambda>(p, q, s). length s)") auto

definition grpc_http_base :: "string \<Rightarrow> nat \<Rightarrow> string" where
  "grpc_http_base host port =
     (if port = 50051 then ''http://'' @ replace_all ''50051'' ''8000'' host else ''http://'' @ host @ '':'' @ show_nat port)"

text \<open>\<open>[Model(**item) for item in r.json().get("items", [])]\<close>.\<close>

definition parse_items :: "pydantic \<Rightarrow> py_model \<Rightarrow> json \<Rightarrow> dict list res" where
  "parse_items pd m v = (case v of
     JObj d \<Rightarrow>
       (case dget_or d ''items'' (JArr []) of
          JArr xs \<Rightarrow> map_res (parse_model pd m) xs
        | JObj [] \<Rightarrow> Inr []
        | JStr [] \<Rightarrow> Inr []
        | _ \<Rightarrow> Inl (PyExc ''TypeError''))
   | _ \<Rightarrow> Inl (PyExc ''AttributeError''))"

definition grpc_list :: "'w http_client \<Rightarrow> pydantic \<Rightarrow> py_model \<Rightarrow> sdk_request \<Rightarrow> 'w \<Rightarrow> dict list res \<times> 'w" where
  "grpc_list client pd m r w = (case sdk_send client r w of
     (Inl err, w1) \<Rightarrow> (Inl err, w1) | (Inr v, w1) \<Rightarrow> (parse_items pd m v, w1))"

definition grpc_list_devices :: "'w http_client \<Rightarrow> pydantic \<Rightarrow> int \<Rightarrow> int \<Rightarrow> string option \<Rightarrow> 'w \<Rightarrow> dict list res \<times> 'w" where
  "grpc_list_devices client pd page page_size status =
     grpc_list client pd sdk_device (list_request ''devices'' page page_size (optional_param ''status'' status))"

definition grpc_get_device :: "'w http_client \<Rightarrow> pydantic \<Rightarrow> string \<Rightarrow> 'w \<Rightarrow> dict res \<times> 'w" where
  "grpc_get_device client pd i = sdk_fetch client pd sdk_device (get_request ''devices'' i)"

definition grpc_create_device :: "'w http_client \<Rightarrow> pydantic \<Rightarrow> sdk_device_create \<Rightarrow> 'w \<Rightarrow> dict res \<times> 'w" where
  "grpc_create_device client pd p = sdk_fetch client pd sdk_device (create_request ''devices'' (device_create_dump p))"

record sdk_device_update =
  sdu_name :: "string option"
  sdu_description :: "string option"
  sdu_metadata :: "dict option"
  sdu_tags :: "string list option"

text \<open>\<open>model_dump(exclude_none=True)\<close>.\<close>

definition device_update_dump :: "sdk_device_update \<Rightarrow> dict" where
  "device_update_dump p = filter (\<lambda>(k, v). v \<noteq> JNull)
     [(''name'', jstr (sdu_name p)), (''description'', jstr (sdu_description p)),
      (''metadata'', jdict (sdu_metadata p)), (''tags'', jstrs (sdu_tags p))]"

definition grpc_update_device :: "'w http_client \<Rightarrow> pydantic \<Rightarrow> string \<Rightarrow> sdk_device_update \<Rightarrow> 'w \<Rightarrow> dict res \<times> 'w" where
  "grpc_update_device client pd i p =
     sdk_fetch client pd sdk_device (new_request Verb_patch [''devices'', i] [] (Some (device_update_dump p)))"

definition grpc_delete_device :: "'w http_client \<Rightarrow> string \<Rightarrow> 'w \<Rightarrow> unit res \<times> 'w" where
  "grpc_delete_device client i w = (case sdk_send client (delete_request ''devices'' i) w of
     (Inl err, w1) \<Rightarrow> (Inl err, w1) | (Inr _, w1) \<Rightarrow> (Inr (), w1))"

definition grpc_list_fleets :: "'w http_client \<Rightarrow> pydantic \<Rightarrow> int \<Rightarrow> int \<Rightarrow> 'w \<Rightarrow> dict list res \<times> 'w" where
  "grpc_list_fleets client pd page page_size = grpc_list client pd sdk_fleet (list_request ''fleets'' page page_size [])"

definition grpc_get_fleet :: "'w http_client \<Rightarrow> pydantic \<Rightarrow> string \<Rightarrow> 'w \<Rightarrow> dict res \<times> 'w" where
  "grpc_get_fleet client pd i = sdk_fetch client pd sdk_fleet (get_request ''fleets'' i)"

record sdk_fleet_create =
  sfc_name :: string
  sfc_description :: "string option"
  sfc_device_ids :: "string list option"
  sfc_metadata :: "dict option"

definition fleet_create_dump :: "sdk_fleet_create \<Rightarrow> dict" where
  "fleet_create_dump p = [(''name'', JStr (sfc_name p)), (''description'', jstr (sfc_description p)),
     (''device_ids'', jstrs (sfc_device_ids p)), (''metadata'', jdict (sfc_metadata p))]"

definition grpc_create_fleet :: "'w http_client \<Rightarrow> pydantic \<Rightarrow> sdk_fleet_create \<Rightarrow> 'w \<Rightarrow> dict res \<times> 'w" where
  "grpc_create_fleet client pd p = sdk_fetch client pd sdk_fleet (create_request ''fleets'' (fleet_create_dump p))"

record sdk_execution_create =
  sec_device_id :: string
  sec_plugin_id :: string
  sec_input :: "dict option"

definition execution_create_dump :: "sdk_execution_create \<Rightarrow> dict" where
  "execution_create_dump p =
     [(''device_id'', JStr (sec_device_id p)), (''plugin_id'', JStr (sec_plugin_id p)), (''input'', jdict (sec_input p))]"

definition grpc_create_execution :: "'w http_client \<Rightarrow> pydantic \<Rightarrow> sdk_execution_create \<Rightarrow> 'w \<Rightarrow> dict res \<times> 'w" where
  "grpc_create_execution client pd p = sdk_fetch client pd sdk_execution (create_request ''executions'' (execution_create_dump p))"

definition grpc_get_execution :: "'w http_client \<Rightarrow> pydantic \<Rightarrow> string \<Rightarrow> 'w \<Rightarrow> dict res \<times> 'w" where
  "grpc_get_execution client pd i = sdk_fetch client pd sdk_execution (get_request ''executions'' i)"

subsection \<open>The endpoints\<close>

definition any_text :: "json \<Rightarrow> string option" where
  "any_text v = (case v of JStr s \<Rightarrow> Some s | _ \<Rightarrow> None)"

definition text_between :: "nat \<Rightarrow> nat \<Rightarrow> json \<Rightarrow> string option" where
  "text_between lo hi v = (case v of JStr s \<Rightarrow> if lo \<le> length s \<and> length s \<le> hi then Some s else None | _ \<Rightarrow> None)"

definition any_dict :: "json \<Rightarrow> dict option" where
  "any_dict v = (case v of JObj d \<Rightarrow> Some d | _ \<Rightarrow> None)"

definition any_texts :: "json \<Rightarrow> string list option" where
  "any_texts v = (case v of JArr xs \<Rightarrow> parse_all any_text xs | _ \<Rightarrow> None)"

definition field_of :: "(json \<Rightarrow> 'a option) \<Rightarrow> dict \<Rightarrow> string \<Rightarrow> 'a field option" where
  "field_of rd d k = (if \<not> dhas d k then Some Absent else if dget d k = JNull then Some Null else map_option Val (rd (dget d k)))"

text \<open>\<open>DeviceUpdate\<close> of the service.\<close>

definition parse_update :: "dict \<Rightarrow> device_update option" where
  "parse_update d =
     (case (field_of (text_between 1 255) d ''name'', field_of (text_between 1 100) d ''device_type'',
            field_of any_text d ''description'', field_of any_dict d ''metadata'') of
        (Some n, Some t, Some de, Some m) \<Rightarrow>
          (case (field_of any_texts d ''tags'', field_of any_text d ''connection_protocol'', field_of any_dict d ''protocol_meta'') of
             (Some tg, Some p, Some pm) \<Rightarrow> Some \<lparr>up_name = n, up_device_type = t, up_description = de, up_metadata = m,
                up_tags = tg, up_connection_protocol = p, up_protocol_meta = pm\<rparr>
           | _ \<Rightarrow> None)
      | _ \<Rightarrow> None)"

text \<open>PATCH of a device, for the handlers that \<open>device_http\<close> leaves to the rest.\<close>

definition patch_device ::
  "api_env \<Rightarrow> device_settings \<Rightarrow> device_env \<Rightarrow> device_user \<Rightarrow> (string \<Rightarrow> device_state http_client) \<Rightarrow>
     string \<Rightarrow> device_state http_client" where
  "patch_device api cfg env u rest handler r st =
     (if handler \<noteq> ''update_device'' then rest handler r st
      else case (ap_uuid api (last (sq_path r)), Option.bind (sq_body r) parse_update) of
        (Some i, Some p) \<Rightarrow> map_prod (answer_of 200 device_json) id (update_device cfg env u i p st)
      | _ \<Rightarrow> (unprocessable, st))"

text \<open>The execution service takes any object; here its texts are texts or null.\<close>

definition payload_of :: "dict \<Rightarrow> create_payload option" where
  "payload_of d =
     (case (field_of any_text d ''idempotency_key'', field_of any_text d ''device_id'', field_of any_text d ''type'',
            field_of any_text d ''execution_type'') of
        (Some k, Some i, Some t, Some et) \<Rightarrow>
          (case (field_of any_text d ''command'', field_of any_text d ''plugin_id'', field_of any_text d ''mode'') of
             (Some c, Some pl, Some m) \<Rightarrow> Some \<lparr>p_idempotency_key = k, p_device_id = i, p_type = t, p_execution_type = et,
                p_command = c, p_plugin_id = pl, p_args = (if dhas d ''args'' then Val (dget d ''args'') else Absent), p_mode = m\<rparr>
           | _ \<Rightarrow> None)
      | _ \<Rightarrow> None)"

definition execution_http ::
  "exec_cfg \<Rightarrow> exec_env \<Rightarrow> request \<Rightarrow> (string \<Rightarrow> exec_state http_client) \<Rightarrow> exec_state http_client" where
  "execution_http cfg env req rest r st = (case routed execution_routes r of
     Inl s \<Rightarrow> (Answer s JNull, st)
   | Inr (handler, args) \<Rightarrow>
       if handler = ''get_execution'' then (answer_of 200 JObj (get_execution req (hd args) st), st)
       else if handler = ''create_execution'' then
         (case Option.bind (sq_body r) payload_of of
            Some p \<Rightarrow> map_prod (answer_of 201 JObj) id (create_execution cfg env req None p st)
          | None \<Rightarrow> rest handler r st)
       else rest handler r st)"

definition fleet_http ::
  "auth_settings \<Rightarrow> publisher_cfg \<Rightarrow> fleet_env \<Rightarrow> current_user \<Rightarrow> (string \<Rightarrow> fleet_state http_client) \<Rightarrow> fleet_state http_client" where
  "fleet_http s cfg env u rest r st = (case routed fleet_routes r of
     Inl c \<Rightarrow> (Answer c JNull, st)
   | Inr (handler, args) \<Rightarrow>
       if handler = ''list_fleets'' then
         (let items = list_fleets s u (str_param (sq_params r) ''tenant_id'') st
          in (Answer 200 (JObj [(''items'', JArr (map JObj items)), (''total'', JInt (int (length items)))]), st))
       else if handler = ''get_fleet'' then (answer_of 200 JObj (get_fleet s u (hd args) st), st)
       else if handler = ''create_fleet'' then
         (case Option.bind (sq_body r) (\<lambda>d. Option.bind (field_of any_text d ''name'') (\<lambda>n.
                 map_option (Pair n) (field_of any_text d ''description''))) of
            Some (n, de) \<Rightarrow> map_prod (answer_of 201 JObj) id (create_fleet cfg env u n de st)
          | None \<Rightarrow> rest handler r st)
       else rest handler r st)"

end
