(* ===== verification/GrpcProperties.thy ===== *)
theory GrpcProperties
  imports SdkGrpc ExecInvariants
begin

text \<open>
  What the calls of the second client come to at the services, and in which of them it differs from the
  REST client.
\<close>

subsection \<open>Requests and answers\<close>

lemma grpc_routes:
  "i \<noteq> [] \<Longrightarrow> routed device_routes (new_request Verb_patch [''devices'', i] [] body) = Inr (''update_device'', [i])"
  "i \<noteq> [] \<Longrightarrow> routed execution_routes (get_request ''executions'' i) = Inr (''get_execution'', [i])"
  "routed execution_routes (create_request ''executions'' d) = Inr (''create_execution'', [])"
  "i \<noteq> [] \<Longrightarrow> routed fleet_routes (get_request ''fleets'' i) = Inr (''get_fleet'', [i])"
  "routed fleet_routes (create_request ''fleets'' d) = Inr (''create_fleet'', [])"
  "routed fleet_routes (list_request ''fleets'' n k f) = Inr (''list_fleets'', [])"
  by (simp_all add: routed_def route_lists sdk_requests)

lemma fetch_answer_of:
  assumes "client r w = (answer_of status shown x, w')" "success status" "\<And>e. x = Inl e \<Longrightarrow> refused e"
  shows "sdk_fetch client pd m r w = (case x of Inl e \<Rightarrow> Inl (PyExc ''HTTPStatusError'') | Inr y \<Rightarrow> parse_model pd m (shown y), w')"
proof -
  have "sdk_send client r w = (case x of Inl e \<Rightarrow> Inl (PyExc ''HTTPStatusError'') | Inr y \<Rightarrow> Inr (shown y), w')"
    by (rule send_answer_of) (rule assms(1), rule assms(2), erule assms(3))
  then show ?thesis by (simp add: sdk_fetch_def split: sum.split)
qed

text \<open>A host that does not contain the number of the port is kept, and then there is no port at all.\<close>

lemma replace_all_absent: "\<not> contains s p \<Longrightarrow> replace_all p q s = s"
  by (induction p q s rule: replace_all.induct) auto

lemma grpc_base_port: "\<not> contains host ''50051'' \<Longrightarrow> grpc_http_base host 50051 = ''http://'' @ host"
  by (simp add: grpc_http_base_def replace_all_absent)

subsection \<open>Devices\<close>

lemma parse_devices:
  "map_res (parse_model pd sdk_device) (map device_json ds) =
     (if \<forall>d \<in> set ds. dv_status d \<in> set sdk_device_status then Inr (map sdk_view ds) else Inl (PyExc ''ValidationError''))"
  by (induction ds) (auto simp: parse_device)

lemma parse_page_items:
  "parse_items pd sdk_device (page_json p) =
     (if \<forall>d \<in> set (pg_items p). dv_status d \<in> set sdk_device_status then Inr (map sdk_view (pg_items p))
      else Inl (PyExc ''ValidationError''))"
  by (simp add: parse_items_def page_json_def dget_or_def parse_devices)

definition given :: "'a option \<Rightarrow> 'a field" where
  "given x = (case x of None \<Rightarrow> Absent | Some v \<Rightarrow> Val v)"

text \<open>The body of a PATCH as the service reads it.\<close>

definition patch_of :: "sdk_device_update \<Rightarrow> device_update" where
  "patch_of p = \<lparr>up_name = given (sdu_name p), up_device_type = Absent, up_description = given (sdu_description p),
     up_metadata = given (sdu_metadata p), up_tags = given (sdu_tags p), up_connection_protocol = Absent,
     up_protocol_meta = Absent\<rparr>"

lemma texts_read: "parse_all any_text (map JStr xs) = Some xs"
  by (induction xs) (simp_all add: any_text_def)

lemma update_accepted:
  assumes "\<And>n. sdu_name p = Some n \<Longrightarrow> n \<noteq> [] \<and> length n \<le> 255"
  shows "parse_update (device_update_dump p) = Some (patch_of p)"
proof -
  have dump: "map_of (device_update_dump p) k =
      (if k = ''name'' \<and> sdu_name p \<noteq> None then Some (jstr (sdu_name p))
       else if k = ''description'' \<and> sdu_description p \<noteq> None then Some (jstr (sdu_description p))
       else if k = ''metadata'' \<and> sdu_metadata p \<noteq> None then Some (jdict (sdu_metadata p))
       else if k = ''tags'' \<and> sdu_tags p \<noteq> None then Some (jstrs (sdu_tags p)) else None)" for k
    by (cases "sdu_name p"; cases "sdu_description p"; cases "sdu_metadata p"; cases "sdu_tags p")
      (simp_all add: device_update_dump_def jdict_def jstrs_def)
  have f: "field_of rd (device_update_dump p) k = (case map_of (device_update_dump p) k of
      None \<Rightarrow> Some Absent | Some v \<Rightarrow> if v = JNull then Some Null else map_option Val (rd v))" for rd :: "json \<Rightarrow> 'x option" and k
    by (simp add: field_of_def dhas_def dget_def split: option.split)
  have "field_of (text_between 1 255) (device_update_dump p) ''name'' = Some (given (sdu_name p))"
    using assms by (cases "sdu_name p") (auto simp: f dump given_def text_between_def Suc_le_eq)
  moreover have "field_of any_text (device_update_dump p) ''description'' = Some (given (sdu_description p))"
    by (cases "sdu_description p") (simp_all add: f dump given_def any_text_def)
  moreover have "field_of any_dict (device_update_dump p) ''metadata'' = Some (given (sdu_metadata p))"
    by (cases "sdu_metadata p") (simp_all add: f dump given_def any_dict_def jdict_def)
  moreover have "field_of any_texts (device_update_dump p) ''tags'' = Some (given (sdu_tags p))"
    by (cases "sdu_tags p") (simp_all add: f dump given_def any_texts_def jstrs_def texts_read)
  ultimately show ?thesis by (simp add: parse_update_def patch_of_def f dump)
qed

lemma update_refused: "update_device cfg env u i p st = (Inl e, st') \<Longrightarrow> refused e"
  by (auto simp: update_device_def service_update_device_def apply_device_update_def owner_guard_def refused_simps Let_def
      split: option.splits sum.splits prod.splits if_splits)

subsection \<open>Executions and fleets\<close>

text \<open>What the services answer has no \<open>updated_at\<close>, which the SDK requires.\<close>

lemma parse_execution: "parse_model pd sdk_execution (JObj (execution_to_dict b e)) = Inl (PyExc ''ValidationError'')"
  by (simp add: parse_model_def sdk_execution_def field_ok_def dhas_def execution_to_dict_def)

lemma parse_fleet: "parse_model pd sdk_fleet (JObj (fleet_to_dict f)) = Inl (PyExc ''ValidationError'')"
  by (simp add: parse_model_def sdk_fleet_def field_ok_def dhas_def fleet_to_dict_def)

lemma execution_payload:
  "payload_of (execution_create_dump p) =
     Some (empty_payload\<lparr>p_device_id := Val (sec_device_id p), p_plugin_id := Val (sec_plugin_id p)\<rparr>)"
  by (simp add: payload_of_def execution_create_dump_def field_of_def dhas_def dget_def any_text_def empty_payload_def)

lemma execution_answers:
  "create_execution cfg env req x p st = (Inl e, st') \<Longrightarrow> refused e"
  "create_execution cfg env req x p st = (Inr d, st') \<Longrightarrow> \<exists>e. d = execution_to_dict True e"
  "get_execution req i st = Inl e' \<Longrightarrow> refused e'"
  "get_execution req i st = Inr d' \<Longrightarrow> \<exists>b e. d' = execution_to_dict b e"
  by (auto simp: create_execution_def insert_execution_def get_execution_def refused_simps success_def Let_def
      split: option.splits sum.splits prod.splits if_splits)

lemma fleet_answers:
  "create_fleet cfg env u n de st = (Inl e, st') \<Longrightarrow> refused e"
  "create_fleet cfg env u n de st = (Inr d, st') \<Longrightarrow> \<exists>f. d = fleet_to_dict f"
  "get_fleet s u i st = Inl e' \<Longrightarrow> refused e'"
  "get_fleet s u i st = Inr d' \<Longrightarrow> \<exists>f. d' = fleet_to_dict f"
  by (auto simp: create_fleet_def get_fleet_def ensure_fleet_visible_def refused_simps success_def Let_def
      split: option.splits sum.splits prod.splits if_splits)

text \<open>The row of an execution the client creates: a command, whatever the plugin.\<close>

lemma created_row:
  assumes "create_execution cfg env req x (empty_payload\<lparr>p_device_id := Val d, p_plugin_id := Val pl\<rparr>) st = (Inr a, st')"
  shows "\<exists>e. executions st' = executions st @ [e] \<and> ex_device_id e = Some d \<and> ex_plugin_id e = Some pl
    \<and> ex_command e = Some ''noop'' \<and> \<not> is_function_type (ex_execution_type e)"
proof -
  have "is_function_type (Some ''command'') = False" by (simp add: is_function_type_def)
  then show ?thesis using assms
    by (auto simp: create_execution_def find_idempotent_def insert_execution_def Let_def empty_payload_def new_execution_def
        frame_simps tbl_add_def split: if_splits sum.splits option.splits)
qed

subsection \<open>The calls\<close>

lemma client_lists:
  fixes st :: device_state and api cfg env u rest and n k :: int and status :: "string option"
  defines "client \<equiv> device_http api cfg env u (patch_device api cfg env u rest)"
    and "page \<equiv> list_devices u (device_query_of (sq_params (list_request ''devices'' n k (optional_param ''status'' status)))) st"
  shows "grpc_list_devices client pd n k status st = (case page of Inl e \<Rightarrow> Inl (PyExc ''HTTPStatusError'')
       | Inr y \<Rightarrow> if \<forall>d \<in> set (pg_items y). dv_status d \<in> set sdk_device_status then Inr (map sdk_view (pg_items y))
           else Inl (PyExc ''ValidationError''), st)"
proof -
  let ?r = "list_request ''devices'' n k (optional_param ''status'' status)"
  have "client ?r st = (answer_of 200 page_json page, st)" by (simp add: client_def device_http_def routed_list page_def)
  then have "sdk_send client ?r st = (case page of Inl e \<Rightarrow> Inl (PyExc ''HTTPStatusError'') | Inr y \<Rightarrow> Inr (page_json y), st)"
    by (rule send_answer_of) (simp add: success_def, simp add: page_def, erule list_refused)
  then show "grpc_list_devices client pd n k status st = (case page of Inl e \<Rightarrow> Inl (PyExc ''HTTPStatusError'')
       | Inr y \<Rightarrow> if \<forall>d \<in> set (pg_items y). dv_status d \<in> set sdk_device_status then Inr (map sdk_view (pg_items y))
           else Inl (PyExc ''ValidationError''), st)"
    by (simp add: grpc_list_devices_def grpc_list_def parse_page_items split: sum.split)
qed

lemma client_updates:
  fixes st :: device_state and api cfg env u rest i and p :: sdk_device_update
  defines "client \<equiv> device_http api cfg env u (patch_device api cfg env u rest)" and "patched \<equiv> update_device cfg env u i (patch_of p) st"
  assumes i: "i \<noteq> []" "ap_uuid api i = Some i" and p: "\<And>m. sdu_name p = Some m \<Longrightarrow> m \<noteq> [] \<and> length m \<le> 255"
  shows "grpc_update_device client pd i p st = (case fst patched of Inl e \<Rightarrow> Inl (PyExc ''HTTPStatusError'')
       | Inr d \<Rightarrow> if dv_status d \<in> set sdk_device_status then Inr (sdk_view d) else Inl (PyExc ''ValidationError''), snd patched)"
proof -
  obtain y st' where y: "patched = (y, st')" by fastforce
  let ?r = "new_request Verb_patch [''devices'', i] [] (Some (device_update_dump p))"
  have "client ?r st = (answer_of 200 device_json y, st')"
    using y by (simp add: client_def device_http_def grpc_routes(1) [OF i(1)] patch_device_def)
      (simp add: new_request_def i(2) update_accepted [OF p] patched_def)
  then have "grpc_update_device client pd i p st = (case y of Inl e \<Rightarrow> Inl (PyExc ''HTTPStatusError'')
      | Inr d \<Rightarrow> parse_model pd sdk_device (device_json d), st')"
    unfolding grpc_update_device_def
    by (rule fetch_answer_of) (simp add: success_def, use y update_refused in \<open>auto simp: patched_def\<close>)
  then show "grpc_update_device client pd i p st = (case fst patched of Inl e \<Rightarrow> Inl (PyExc ''HTTPStatusError'')
       | Inr d \<Rightarrow> if dv_status d \<in> set sdk_device_status then Inr (sdk_view d) else Inl (PyExc ''ValidationError''), snd patched)"
    by (simp add: y parse_device split: sum.split)
qed

lemma client_creates_execution:
  fixes xst :: exec_state and xcfg xenv req xrest and x :: sdk_execution_create
  defines "xclient \<equiv> execution_http xcfg xenv req xrest" and "created \<equiv> create_execution xcfg xenv req None
      (empty_payload\<lparr>p_device_id := Val (sec_device_id x), p_plugin_id := Val (sec_plugin_id x)\<rparr>) xst"
  shows "\<exists>e. grpc_create_execution xclient pd x xst = (Inl (PyExc e), snd created)"
proof -
  obtain y st' where y: "created = (y, st')" by fastforce
  have "xclient (create_request ''executions'' (execution_create_dump x)) xst = (answer_of 201 JObj y, st')"
    using y by (simp add: xclient_def execution_http_def grpc_routes(3))
      (simp add: create_request_def new_request_def execution_payload created_def)
  then have "grpc_create_execution xclient pd x xst = (case y of Inl e \<Rightarrow> Inl (PyExc ''HTTPStatusError'')
      | Inr d \<Rightarrow> parse_model pd sdk_execution (JObj d), st')"
    unfolding grpc_create_execution_def
    by (rule fetch_answer_of) (simp add: success_def, use y execution_answers(1) in \<open>auto simp: created_def\<close>)
  moreover have "\<exists>e. d = execution_to_dict True e" if "y = Inr d" for d
    by (rule execution_answers(2)) (use y that in \<open>simp add: created_def\<close>)
  ultimately show "\<exists>e. grpc_create_execution xclient pd x xst = (Inl (PyExc e), snd created)"
    by (cases y) (auto simp: y parse_execution)
qed

lemma client_gets_execution:
  fixes xst :: exec_state
  assumes i: "i \<noteq> []"
  shows "\<exists>e. grpc_get_execution (execution_http xcfg xenv req xrest) pd i xst = (Inl (PyExc e), xst)"
proof -
  let ?x = "execution_http xcfg xenv req xrest"
  have "?x (get_request ''executions'' i) xst = (answer_of 200 JObj (get_execution req i xst), xst)"
    by (simp add: execution_http_def grpc_routes(2) [OF i])
  then have "grpc_get_execution ?x pd i xst = (case get_execution req i xst of Inl e \<Rightarrow> Inl (PyExc ''HTTPStatusError'')
      | Inr d \<Rightarrow> parse_model pd sdk_execution (JObj d), xst)"
    unfolding grpc_get_execution_def by (rule fetch_answer_of) (simp add: success_def, erule execution_answers(3))
  then show "\<exists>e. grpc_get_execution ?x pd i xst = (Inl (PyExc e), xst)"
    using execution_answers(4) [of req i xst] by (cases "get_execution req i xst") (auto simp: parse_execution)
qed

lemma client_creates_fleet:
  fixes fst0 :: fleet_state
  shows "\<exists>e. grpc_create_fleet (fleet_http s pcfg fenv fu frest) pd f fst0 = (Inl (PyExc e), snd (create_fleet pcfg fenv fu (Val (sfc_name f))
          (case sfc_description f of None \<Rightarrow> Null | Some t \<Rightarrow> Val t) fst0))"
proof -
  let ?f = "fleet_http s pcfg fenv fu frest"
  let ?c = "create_fleet pcfg fenv fu (Val (sfc_name f)) (case sfc_description f of None \<Rightarrow> Null | Some t \<Rightarrow> Val t) fst0"
  obtain y st' where y: "?c = (y, st')" by fastforce
  have "?f (create_request ''fleets'' (fleet_create_dump f)) fst0 = (answer_of 201 JObj y, st')"
    using y by (simp add: fleet_http_def grpc_routes(5))
      (simp add: create_request_def new_request_def fleet_create_dump_def field_of_def dhas_def dget_def any_text_def
        split: option.splits)
  then have "grpc_create_fleet ?f pd f fst0 = (case y of Inl e \<Rightarrow> Inl (PyExc ''HTTPStatusError'')
      | Inr d \<Rightarrow> parse_model pd sdk_fleet (JObj d), st')"
    unfolding grpc_create_fleet_def by (rule fetch_answer_of) (simp add: success_def, use y fleet_answers(1) in blast)
  moreover have "\<exists>g. d = fleet_to_dict g" if "y = Inr d" for d by (rule fleet_answers(2)) (use y that in blast)
  ultimately show "\<exists>e. grpc_create_fleet ?f pd f fst0 = (Inl (PyExc e), snd ?c)"
    by (cases y) (auto simp: y parse_fleet)
qed

lemma client_gets_fleet:
  fixes fst0 :: fleet_state
  assumes i: "i \<noteq> []"
  shows "\<exists>e. grpc_get_fleet (fleet_http s pcfg fenv fu frest) pd i fst0 = (Inl (PyExc e), fst0)"
proof -
  let ?f = "fleet_http s pcfg fenv fu frest"
  have "?f (get_request ''fleets'' i) fst0 = (answer_of 200 JObj (get_fleet s fu i fst0), fst0)"
    by (simp add: fleet_http_def grpc_routes(4) [OF i])
  then have "grpc_get_fleet ?f pd i fst0 = (case get_fleet s fu i fst0 of Inl e \<Rightarrow> Inl (PyExc ''HTTPStatusError'')
      | Inr d \<Rightarrow> parse_model pd sdk_fleet (JObj d), fst0)"
    unfolding grpc_get_fleet_def by (rule fetch_answer_of) (simp add: success_def, erule fleet_answers(3))
  then show "\<exists>e. grpc_get_fleet ?f pd i fst0 = (Inl (PyExc e), fst0)"
    using fleet_answers(4) [of s fu i fst0] by (cases "get_fleet s fu i fst0") (auto simp: parse_fleet)
qed

lemma client_lists_fleets:
  fixes fst0 :: fleet_state
  shows "grpc_list_fleets (fleet_http s pcfg fenv fu frest) pd n k fst0
       = (if list_fleets s fu None fst0 = [] then Inr [] else Inl (PyExc ''ValidationError''), fst0)"
proof -
  let ?f = "fleet_http s pcfg fenv fu frest"
  have q: "str_param (sq_params (list_request ''fleets'' n k [])) ''tenant_id'' = None"
    by (simp add: str_param_def list_request_def new_request_def page_params_def dget_def)
  have "map_res (parse_model pd sdk_fleet) (map JObj ds) = (if ds = [] then Inr [] else Inl (PyExc ''ValidationError''))"
    if "set ds \<subseteq> range fleet_to_dict" for ds
    using that by (cases ds) (auto simp: parse_fleet)
  moreover have "set (list_fleets s fu None fst0) \<subseteq> range fleet_to_dict" by (auto simp: list_fleets_def)
  ultimately show "grpc_list_fleets ?f pd n k fst0
       = (if list_fleets s fu None fst0 = [] then Inr [] else Inl (PyExc ''ValidationError''), fst0)"
    by (simp add: grpc_list_fleets_def grpc_list_def sdk_send_def fleet_http_def grpc_routes(6) q Let_def success_def
        parse_items_def dget_or_def)
qed



end
