(* ===== verification/ServiceStart.thy ===== *)
theory ServiceStart
  imports ExecAuth
begin

text \<open>
  How the services start (\<open>startup\<close> of \<open>fleet-service\<close>, \<open>network-service\<close>, \<open>webservice-service\<close>, \<open>dns-service\<close>,
  \<open>plugin-service\<close> and \<open>execution-service\<close>, \<open>lifespan\<close> of \<open>device-service\<close>), their readiness, and what
  the production environment then guarantees of their middlewares. Tables are taken to be
  created; \<open>answers\<close> tells whether Kafka can be reached.
\<close>

subsection \<open>Start-up\<close>

record start_settings =
  st_environment :: string
  st_auth_enabled :: bool
  st_dev_bypass :: bool
  st_kafka_enabled :: bool
  st_kafka_required :: bool

definition production_guard :: "start_settings \<Rightarrow> unit res" where
  "production_guard s =
     (if st_environment s = ''production'' \<and> \<not> st_auth_enabled s then Inl (PyExc ''RuntimeError'')
      else if st_dev_bypass s \<and> st_environment s = ''production'' then Inl (PyExc ''RuntimeError'')
      else Inr ())"

text \<open>Whether there is a producer.\<close>

definition start_producer :: "start_settings \<Rightarrow> bool \<Rightarrow> bool res" where
  "start_producer s answers =
     (if \<not> st_kafka_enabled s then Inr False
      else if answers then Inr True
      else if st_kafka_required s then Inl (PyExc ''KafkaConnectionError'') else Inr False)"

definition service_startup :: "start_settings \<Rightarrow> bool \<Rightarrow> bool res" where
  "service_startup s answers = (case production_guard s of Inl err \<Rightarrow> Inl err | Inr _ \<Rightarrow> start_producer s answers)"

text \<open>The execution service starts the sweep of timeouts and the consumer of the triggers before the
  producer, so they run even where the start fails after them.\<close>

definition exec_startup :: "start_settings \<Rightarrow> bool \<Rightarrow> string list \<times> bool res" where
  "exec_startup s answers = (case production_guard s of
     Inl err \<Rightarrow> ([], Inl err)
   | Inr _ \<Rightarrow> ([''_timeout_loop'', ''_trigger_consumer_loop''], start_producer s answers))"

definition plugin_startup :: "start_settings \<Rightarrow> unit res" where
  "plugin_startup s = production_guard s"

text \<open>\<open>EventBus.connect\<close> and the lifespan of the device service: whether the bus is connected.\<close>

definition bus_connect :: "start_settings \<Rightarrow> bool \<Rightarrow> bool res" where
  "bus_connect s answers =
     (if \<not> st_kafka_enabled s then Inr False
      else if answers then Inr True
      else if st_kafka_required s then Inl (PyExc ''KafkaConnectionError'') else Inr False)"

definition device_lifespan :: "start_settings \<Rightarrow> bool \<Rightarrow> bool res" where
  "device_lifespan s answers = (case production_guard s of Inl err \<Rightarrow> Inl err | Inr _ \<Rightarrow> bus_connect s answers)"

subsection \<open>Readiness\<close>

text \<open>The probe of the database, none or the text of its error.\<close>

definition device_ready :: "start_settings \<Rightarrow> string option \<Rightarrow> bool \<Rightarrow> dict res" where
  "device_ready s db bus_up = (case db of
     Some e \<Rightarrow> Inl (Http 503 [JStr ''database not ready: '', JStr e])
   | None \<Rightarrow>
       if st_kafka_required s \<and> \<not> bus_up then Inl (http 503 ''kafka not ready'')
       else Inr [(''status'', JStr ''ready''), (''service'', JStr ''device-service''), (''database'', JStr ''ok''),
              (''kafka_connected'', JBool bus_up)])"

definition exec_ready :: "string option \<Rightarrow> dict res" where
  "exec_ready db = (case db of
     Some e \<Rightarrow> Inl (PyExc e)
   | None \<Rightarrow> Inr [(''status'', JStr ''ready''), (''service'', JStr ''execution-service''), (''database'', JStr ''ok'')])"

text \<open>The AI pipeline is ready by the same rules.\<close>

definition ai_ready :: "start_settings \<Rightarrow> bool \<Rightarrow> string option \<Rightarrow> bool \<Rightarrow> dict res" where
  "ai_ready s llm_enabled db bus_up = (case db of
     Some e \<Rightarrow> Inl (Http 503 [JStr ''database not ready: '', JStr e])
   | None \<Rightarrow>
       if st_kafka_required s \<and> \<not> bus_up then Inl (http 503 ''kafka not ready'')
       else Inr [(''status'', JStr ''ready''), (''service'', JStr ''ai-pipeline-service''), (''database'', JStr ''ok''),
              (''kafka_connected'', JBool bus_up), (''llm_enabled'', JBool llm_enabled)])"

subsection \<open>Lemmas\<close>

lemma production_guard_ok:
  "production_guard s = Inr () \<longleftrightarrow> st_environment s \<noteq> ''production'' \<or> st_auth_enabled s \<and> \<not> st_dev_bypass s"
  by (auto simp: production_guard_def)

lemma started_guard:
  "service_startup s k = Inr up \<Longrightarrow> production_guard s = Inr ()"
  "exec_startup s k = (ts, Inr up) \<Longrightarrow> production_guard s = Inr ()"
  "device_lifespan s k = Inr up \<Longrightarrow> production_guard s = Inr ()"
  by (auto simp: service_startup_def exec_startup_def device_lifespan_def split: sum.splits)

text \<open>A service that requires Kafka has it after the start.\<close>

lemma required_producer:
  "service_startup s k = Inr up \<Longrightarrow> st_kafka_enabled s \<Longrightarrow> st_kafka_required s \<Longrightarrow> up"
  by (auto simp: service_startup_def start_producer_def split: sum.splits if_splits)

text \<open>A device service that requires Kafka but has it disabled starts, and is never ready.\<close>

lemma never_ready:
  assumes "production_guard s = Inr ()" "\<not> st_kafka_enabled s" "st_kafka_required s"
  shows "\<exists>up. device_lifespan s k = Inr up \<and> \<not> is_ok (device_ready s db up)"
  using assms by (cases db) (auto simp: device_lifespan_def bus_connect_def device_ready_def is_ok_def)

lemma header_user:
  assumes "authenticate_header s verify h = Inr u" "as_auth_enabled s" "\<not> as_dev_bypass_enabled s"
  shows "\<exists>token c. h = Some (''Bearer '' @ token) \<and> verify token = Inr c \<and> u = user_from_claims c"
proof -
  obtain a where a: "h = Some a" "startswith a ''Bearer ''"
    using assms(1,2) by (auto simp: authenticate_header_def split: option.splits if_splits)
  with assms have "\<exists>c. verify (drop (length ''Bearer '') a) = Inr c \<and> u = user_from_claims c"
    by (auto simp: authenticate_header_def Let_def split: sum.splits if_splits)
  with a bearer_prefix [OF a(2)] show ?thesis by metis
qed

lemma middleware_user:
  assumes "auth_middleware a verify r = Inr v" "ar_path r \<notin> set public_paths" "as_auth_enabled a" "\<not> as_dev_bypass_enabled a"
  shows "\<exists>u op. v = Some (u, op) \<and> (as_internal_key a \<noteq> [] \<and> ar_internal_key r = Some (as_internal_key a)
    \<or> (\<exists>token c. ar_authorization r = Some (''Bearer '' @ token) \<and> verify token = Inr c \<and> u = user_from_claims c))"
proof (cases "authenticate_internal_key a (ar_internal_key r)")
  case None
  with assms(1,2) obtain u op where u: "authenticate_header a verify (ar_authorization r) = Inr u" "v = Some (u, op)"
    by (auto simp: auth_middleware_def split: sum.splits if_splits)
  with header_user [OF u(1) assms(3,4)] show ?thesis by blast
next
  case (Some u)
  with assms(1,2) show ?thesis
    by (auto simp: auth_middleware_def authenticate_internal_key_def split: if_splits)
qed

lemma exec_middleware_claims:
  assumes "exec_auth_middleware x verify parse flt t r = Inr ident" "ar_path r \<notin> set public_paths"
    and "da_enabled (xa_checks x)" "\<not> da_dev_bypass (xa_checks x)" "da_issuer (xa_checks x) \<noteq> []"
  shows "\<exists>token claims. ar_authorization r = Some (''Bearer '' @ token) \<and> verify token = Some (JObj claims)
    \<and> identity_of x claims = Inr ident"
proof -
  have "dns_auth_middleware (xa_checks x) verify parse flt t r = Inr ()"
    using assms(1) by (simp add: exec_auth_middleware_def split: sum.splits)
  from checked_claims [OF this assms(3,2,4,5)] obtain claims where
    c: "ar_authorization r = Some (''Bearer '' @ bearer_token r)" "verify (bearer_token r) = Some (JObj claims)"
      "decode_jwt_payload (xa_checks x) verify parse (bearer_token r) = JObj claims" by blast
  with assms have "identity_of x claims = Inr ident" by (simp add: exec_auth_middleware_def split: sum.splits)
  with c show ?thesis by blast
qed

text \<open>Without an issuer a token is three parts around two dots, of which the middle is believed.\<close>

definition unsigned :: "string \<Rightarrow> string \<Rightarrow> string \<Rightarrow> string" where
  "unsigned h p g = h @ CHR ''.'' # p @ CHR ''.'' # g"

lemma unsigned_believed:
  assumes "da_enabled (xa_checks x)" "\<not> da_dev_bypass (xa_checks x)" "da_issuer (xa_checks x) = []"
    and parts: "CHR ''.'' \<notin> set h" "CHR ''.'' \<notin> set p" "CHR ''.'' \<notin> set g"
    and claims: "parse p = Some (JObj claims)" "claims \<noteq> []" "\<not> truthy (dget claims ''exp'')" "identity_of x claims = Inr ident"
    and r: "ar_authorization r = Some (''Bearer '' @ unsigned h p g)" "ar_path r \<notin> set public_paths" "ar_method r \<notin> set write_methods"
  shows "exec_auth_middleware x verify parse flt t r = Inr ident"
proof -
  have "split_on CHR ''.'' (unsigned h p g) = [h, p, g]"
    using parts by (simp add: unsigned_def split_on_append split_on_no_sep)
  then have d: "decode_jwt_payload (xa_checks x) verify parse (unsigned h p g) = JObj claims"
    using assms(3) claims(1) by (simp add: decode_jwt_payload_def)
  have "dns_auth_middleware (xa_checks x) verify parse flt t r = Inr ()"
    using assms(1-3) claims r d by (simp add: dns_auth_middleware_def startswith_def Let_def)
  moreover have "bearer_token r = unsigned h p g" using r(1) by (simp add: bearer_token_def)
  ultimately show ?thesis using assms(1-2) claims(4) r(2) d by (simp add: exec_auth_middleware_def)
qed

subsection \<open>Access in production\<close>


text \<open>A production service without Kafka, and an operator with a token.\<close>

definition demo_start :: start_settings where
  "demo_start = \<lparr>st_environment = ''production'', st_auth_enabled = True, st_dev_bypass = False, st_kafka_enabled = False,
     st_kafka_required = False\<rparr>"


end
