(* ===== verification/AiConsumer.thy ===== *)
theory AiConsumer
  imports AiProperties DeviceApi
begin

text \<open>
  The consumer of the AI pipeline (\<open>core/events.py\<close>) and the summaries it asks for (\<open>core/llm.py\<close>).
  A message is the topic, the value or none where its bytes are no JSON, the clock and random id of its
  turn, and what the language model answers for the analysis.
\<close>

subsection \<open>Summaries\<close>

record llm_settings =
  lm_enabled :: bool
  lm_model :: string

definition fallback_summary :: "ai_env \<Rightarrow> analysis \<Rightarrow> string" where
  "fallback_summary env a =
     (let e = an_evidence a;
          scope = jor (dget e ''device_id'') (jor (dget e ''execution_id'') (dget e ''scope_id''));
          first_action = (case an_recommendations a of
            [] \<Rightarrow> ''Review the evidence and monitor the scope.'' | r # rs \<Rightarrow> r)
      in if truthy scope
         then an_title a @ ''. Scope '' @ py_text env scope @ '' needs operator review. Recommended next step: '' @ first_action
         else an_title a @ ''. Recommended next step: '' @ first_action)"

text \<open>What the answer of the model gives: the text of its field, without the spaces around it. Everything
  that raises on the way is passed over.\<close>

definition llm_text :: "answer \<Rightarrow> string" where
  "llm_text r = (case r of
     Answer s (JObj d) \<Rightarrow>
       if success s then (case jor (dget d ''response'') (JStr []) of JStr t \<Rightarrow> strip t | _ \<Rightarrow> []) else []
   | _ \<Rightarrow> [])"

definition summarize_with_ollama :: "llm_settings \<Rightarrow> ai_env \<Rightarrow> (analysis \<Rightarrow> answer) \<Rightarrow> analysis \<Rightarrow> string \<times> string" where
  "summarize_with_ollama cfg env reply a =
     (if lm_enabled cfg \<and> llm_text (reply a) \<noteq> [] then (llm_text (reply a), lm_model cfg)
      else (fallback_summary env a, ''rules''))"

subsection \<open>The consumer\<close>

definition ai_event_types :: "string list" where
  "ai_event_types = [''device.telemetry.ingested'', ''device.slo.violated'', ''execution.succeeded'', ''execution.failed'',
     ''execution.callback'', ''execution.timeout'', ''delivery_failed'', ''execution.delivery_failed'']"

definition ai_topics :: "string \<Rightarrow> string list" where
  "ai_topics pre = map (\<lambda>t. pre @ ''.'' @ t) ai_event_types"

text \<open>\<open>str.replace(p, "", 1)\<close>.\<close>

fun remove_once :: "string \<Rightarrow> string \<Rightarrow> string" where
  "remove_once p [] = []"
| "remove_once p (c # s) = (if startswith (c # s) p then drop (length p) (c # s) else c # remove_once p s)"

definition event_type_of :: "string \<Rightarrow> string \<Rightarrow> string" where
  "event_type_of pre topic = remove_once (pre @ ''.'') topic"

record ai_message =
  am_topic :: string
  am_value :: "json option"
  am_env :: ai_env
  am_reply :: "analysis \<Rightarrow> answer"

text \<open>\<open>process_event\<close> with its summary.\<close>

definition process_message :: "llm_settings \<Rightarrow> string \<Rightarrow> ai_message \<Rightarrow> dict \<Rightarrow> ai_state \<Rightarrow> insight option res \<times> ai_state" where
  "process_message cfg pre m d st =
     (case analyze_event (am_env m) (event_type_of pre (am_topic m)) d st of
        Inl err \<Rightarrow> (Inl err, st)
      | Inr None \<Rightarrow> (Inr None, st)
      | Inr (Some a) \<Rightarrow>
          (case create_insight ((am_env m)\<lparr>ae_summarize := \<lambda>t s. summarize_with_ollama cfg (am_env m) (am_reply m) a\<rparr>) a st of
             (r, st1) \<Rightarrow> (map_sum id Some r, st1)))"

text \<open>The loop: an exception of a message is logged; bytes that are no JSON raise where the next message is
  taken, which ends the loop. The answer tells whether it goes on.\<close>

fun consumer_loop :: "llm_settings \<Rightarrow> string \<Rightarrow> ai_message list \<Rightarrow> ai_state \<Rightarrow> bool \<times> ai_state" where
  "consumer_loop cfg pre [] st = (True, st)"
| "consumer_loop cfg pre (m # ms) st = (case am_value m of
     None \<Rightarrow> (False, st)
   | Some (JObj d) \<Rightarrow> consumer_loop cfg pre ms (snd (process_message cfg pre m d st))
   | Some v \<Rightarrow> consumer_loop cfg pre ms st)"

text \<open>\<open>start_consumer\<close> and the start of the loop: whether it runs, or the error of a required broker.\<close>

definition ai_consumer_start :: "bool \<Rightarrow> bool \<Rightarrow> bool \<Rightarrow> bool res" where
  "ai_consumer_start enabled required answers =
     (if \<not> enabled then Inr False
      else if answers then Inr True else if required then Inl (PyExc ''KafkaConnectionError'') else Inr False)"

subsection \<open>Lemmas\<close>

text \<open>The topics give back their types, whatever the pre.\<close>

lemma remove_once_prefix: "p \<noteq> [] \<Longrightarrow> remove_once p (p @ s) = s"
  by (cases p) (auto simp: startswith_def)

lemma event_type_roundtrip: "event_type_of pre (pre @ ''.'' @ t) = t"
  using remove_once_prefix [of "pre @ ''.''" t] by (simp add: event_type_of_def)

lemma topics_types: "map (event_type_of pre) (ai_topics pre) = ai_event_types"
  by (simp add: ai_topics_def o_def event_type_roundtrip [simplified])

text \<open>No insight is stored without a summary, whatever the model answers.\<close>

lemma summary_text: "fst (summarize_with_ollama cfg env reply a) \<noteq> []"
  by (simp add: summarize_with_ollama_def fallback_summary_def Let_def)

lemma rules_summary: "\<not> lm_enabled cfg \<Longrightarrow> summarize_with_ollama cfg env reply a = (fallback_summary env a, ''rules'')"
  by (simp add: summarize_with_ollama_def)

lemma process_message_inserts:
  "\<exists>xs. insights (snd (process_message cfg pre m d st)) = insights st @ xs \<and> length xs \<le> 1
     \<and> list_all (\<lambda>x. ai_summary x \<noteq> [] \<and> ai_status x = ''open'') xs"
  using summary_text [of cfg "am_env m" "am_reply m"]
  by (auto simp: process_message_def create_insight_def new_insight_def tbl_add_def Let_def case_prod_beta
      split: sum.split option.split)

text \<open>The loop only adds, at most one insight for a message, and each has a summary; and after the first
  message that is no JSON it reads none.\<close>

lemma consumer_loop_adds:
  "\<exists>xs. insights (snd (consumer_loop cfg pre ms st)) = insights st @ xs \<and> length xs \<le> length ms
     \<and> list_all (\<lambda>x. ai_summary x \<noteq> [] \<and> ai_status x = ''open'') xs"
proof (induction ms arbitrary: st)
  case (Cons m ms)
  show ?case
  proof (cases "\<exists>d. am_value m = Some (JObj d)")
    case True
    then obtain d where d: "am_value m = Some (JObj d)" by blast
    obtain xs where xs: "insights (snd (process_message cfg pre m d st)) = insights st @ xs" "length xs \<le> 1"
      "list_all (\<lambda>x. ai_summary x \<noteq> [] \<and> ai_status x = ''open'') xs" using process_message_inserts by blast
    obtain ys where "insights (snd (consumer_loop cfg pre ms (snd (process_message cfg pre m d st))))
        = insights (snd (process_message cfg pre m d st)) @ ys" "length ys \<le> length ms"
      "list_all (\<lambda>x. ai_summary x \<noteq> [] \<and> ai_status x = ''open'') ys" using Cons.IH by blast
    with d xs show ?thesis by (intro exI [of _ "xs @ ys"]) simp
  next
    case False
    then consider "am_value m = None" | v where "am_value m = Some v" "\<nexists>d. v = JObj d" by (cases "am_value m") auto
    then show ?thesis
    proof cases
      case 2
      then have "consumer_loop cfg pre (m # ms) st = consumer_loop cfg pre ms st" by (cases v) simp_all
      with Cons.IH [of st] show ?thesis by (auto intro: le_SucI)
    qed simp
  qed
qed simp

lemma consumer_stops:
  "am_value m = None \<Longrightarrow> consumer_loop cfg pre (ms @ m # ms') st =
     (False, snd (consumer_loop cfg pre ms st))"
  by (induction ms arbitrary: st) (auto split: option.split json.split)

end
