(* ===== verification/CommonClients.thy ===== *)
theory CommonClients
  imports CommonProperties
begin

text \<open>
  The rest of the clients of the common library: the cache with its connection and its other commands
  (\<open>common/cache/cache.py\<close>), and the receiving side of the event bus (\<open>common/events/event_bus.py\<close>). The
  commands of Redis and the handler of events are functions on a state of any type \<open>'w\<close>.
\<close>

subsection \<open>The cache object\<close>

record cache_settings =
  ca_host :: string
  ca_port :: int
  ca_password :: "string option"
  ca_db :: int

text \<open>The arguments of the constructor; whatever is none, empty or zero is taken from the settings.\<close>

record cache_args =
  cg_host :: "string option"
  cg_port :: "int option"
  cg_password :: "string option"
  cg_db :: "int option"

definition int_or :: "int option \<Rightarrow> int \<Rightarrow> int" where
  "int_or x d = (case x of None \<Rightarrow> d | Some i \<Rightarrow> if i = 0 then d else i)"

definition new_cache :: "cache_settings \<Rightarrow> cache_args \<Rightarrow> cache_settings" where
  "new_cache s a = \<lparr>ca_host = sor (cg_host a) (ca_host s), ca_port = int_or (cg_port a) (ca_port s),
     ca_password = (if nonempty (cg_password a) then cg_password a else ca_password s), ca_db = int_or (cg_db a) (ca_db s)\<rparr>"

text \<open>\<open>get_cache\<close>: one object for the process.\<close>

definition get_cache :: "cache_settings \<Rightarrow> cache_args \<Rightarrow> cache_settings option \<Rightarrow> cache_settings \<times> cache_settings option" where
  "get_cache s a g = (case g of Some c \<Rightarrow> (c, g) | None \<Rightarrow> (new_cache s a, Some (new_cache s a)))"

text \<open>The commands; \<open>rc_ping\<close> is also what the connection is tried with.\<close>

record 'w redis_commands =
  rc_delete :: "string \<Rightarrow> 'w \<Rightarrow> int res \<times> 'w"
  rc_exists :: "string \<Rightarrow> 'w \<Rightarrow> int res"
  rc_expire :: "string \<Rightarrow> int \<Rightarrow> 'w \<Rightarrow> unit res \<times> 'w"
  rc_incrby :: "string \<Rightarrow> int \<Rightarrow> 'w \<Rightarrow> int res \<times> 'w"
  rc_decrby :: "string \<Rightarrow> int \<Rightarrow> 'w \<Rightarrow> int res \<times> 'w"
  rc_keys :: "string \<Rightarrow> 'w \<Rightarrow> string list res"
  rc_flushdb :: "'w \<Rightarrow> unit res \<times> 'w"
  rc_ping :: "'w \<Rightarrow> unit res"

text \<open>The client is assigned before it is tried: a failure raises and leaves it.\<close>

definition cache_connect :: "'w redis_commands \<Rightarrow> 'w \<Rightarrow> unit res \<times> 'w redis_commands option" where
  "cache_connect r w = (rc_ping r w, Some r)"

definition cache_disconnect :: "'w redis_commands option \<Rightarrow> 'w redis_commands option" where
  "cache_disconnect client = None"

definition not_connected :: error where
  "not_connected = PyExc ''RuntimeError''"

definition cache_delete :: "'w redis_commands option \<Rightarrow> string \<Rightarrow> 'w \<Rightarrow> unit res \<times> 'w" where
  "cache_delete client key w = (case client of
     None \<Rightarrow> (Inl not_connected, w) | Some r \<Rightarrow> map_prod (map_sum id (\<lambda>n. ())) id (rc_delete r key w))"

definition cache_exists :: "'w redis_commands option \<Rightarrow> string \<Rightarrow> 'w \<Rightarrow> bool res" where
  "cache_exists client key w = (case client of
     None \<Rightarrow> Inl not_connected | Some r \<Rightarrow> (case rc_exists r key w of Inl e \<Rightarrow> Inr False | Inr n \<Rightarrow> Inr (0 < n)))"

definition cache_expire :: "'w redis_commands option \<Rightarrow> string \<Rightarrow> int \<Rightarrow> 'w \<Rightarrow> unit res \<times> 'w" where
  "cache_expire client key ttl w = (case client of None \<Rightarrow> (Inl not_connected, w) | Some r \<Rightarrow> rc_expire r key ttl w)"

definition cache_increment :: "'w redis_commands option \<Rightarrow> string \<Rightarrow> int \<Rightarrow> 'w \<Rightarrow> int res \<times> 'w" where
  "cache_increment client key amount w = (case client of None \<Rightarrow> (Inl not_connected, w) | Some r \<Rightarrow> rc_incrby r key amount w)"

definition cache_decrement :: "'w redis_commands option \<Rightarrow> string \<Rightarrow> int \<Rightarrow> 'w \<Rightarrow> int res \<times> 'w" where
  "cache_decrement client key amount w = (case client of None \<Rightarrow> (Inl not_connected, w) | Some r \<Rightarrow> rc_decrby r key amount w)"

definition cache_keys :: "'w redis_commands option \<Rightarrow> string \<Rightarrow> 'w \<Rightarrow> string list res" where
  "cache_keys client pattern w = (case client of
     None \<Rightarrow> Inl not_connected | Some r \<Rightarrow> (case rc_keys r pattern w of Inl e \<Rightarrow> Inr [] | Inr ks \<Rightarrow> Inr ks))"

definition cache_flush :: "'w redis_commands option \<Rightarrow> 'w \<Rightarrow> unit res \<times> 'w" where
  "cache_flush client w = (case client of None \<Rightarrow> (Inl not_connected, w) | Some r \<Rightarrow> rc_flushdb r w)"

definition cache_ping :: "'w redis_commands option \<Rightarrow> 'w \<Rightarrow> bool" where
  "cache_ping client w = (case client of None \<Rightarrow> False | Some r \<Rightarrow> (case rc_ping r w of Inl e \<Rightarrow> False | Inr x \<Rightarrow> True))"

subsection \<open>Receiving events\<close>

type_synonym 'w handler = "string \<Rightarrow> json \<Rightarrow> 'w \<Rightarrow> unit res \<times> 'w"

text \<open>What \<open>subscribe\<close> needs before it waits: the connection, and for Kafka a consumer that can be made and
  started (none, or the error).\<close>

definition eb_subscribe :: "string option \<Rightarrow> bus_client \<Rightarrow> unit res" where
  "eb_subscribe failure st =
     (if \<not> eb_connected st then Inl (PyExc ''RuntimeError'')
      else if eb_type st = Nats then (if eb_client st then Inr () else Inl (PyExc ''RuntimeError''))
      else case failure of Some e \<Rightarrow> Inl (PyExc e) | None \<Rightarrow> Inr ())"

text \<open>The Kafka loop: an exception of the handler is logged.\<close>

definition receive_kafka :: "bus_client \<Rightarrow> 'w handler \<Rightarrow> (string \<times> json) list \<Rightarrow> 'w \<Rightarrow> 'w" where
  "receive_kafka st handle msgs w = fold (\<lambda>(topic, v) w. snd (handle (received_type (eb_prefix st) topic) v w)) msgs w"

text \<open>\<open>message_handler\<close> of NATS: so are bytes that are no JSON.\<close>

definition receive_nats :: "bus_client \<Rightarrow> 'w handler \<Rightarrow> (string \<times> json option) list \<Rightarrow> 'w \<Rightarrow> 'w" where
  "receive_nats st handle msgs w =
     fold (\<lambda>(subject, d) w. case d of None \<Rightarrow> w | Some v \<Rightarrow> snd (handle (received_type (eb_prefix st) subject) v w)) msgs w"

definition subscribed_topics :: "bus_client \<Rightarrow> string list \<Rightarrow> string list" where
  "subscribed_topics st types = map (event_topic (eb_prefix st)) types"

definition new_bus :: "bus_type \<Rightarrow> string option \<Rightarrow> string \<Rightarrow> bus_client" where
  "new_bus t pre setting = \<lparr>eb_type = t, eb_prefix = sor pre setting, eb_connected = False, eb_producer = False,
     eb_client = False, eb_sent = []\<rparr>"

definition get_event_bus :: "bus_type option \<Rightarrow> string option \<Rightarrow> string \<Rightarrow> bus_client option \<Rightarrow> bus_client" where
  "get_event_bus t pre setting g = (case g of
     Some b \<Rightarrow> b | None \<Rightarrow> new_bus (case t of None \<Rightarrow> Kafka | Some x \<Rightarrow> x) pre setting)"

subsection \<open>Lemmas\<close>

text \<open>Which commands let an error of Redis through: all but the three that only read.\<close>

lemma cache_errors:
  assumes "rc_delete r k w = (Inl e, w)" "rc_exists r k w = Inl e" "rc_keys r p w = Inl e" "rc_ping r w = Inl e"
    "rc_incrby r k n w = (Inl e, w)" "rc_expire r k t w = (Inl e, w)"
  shows "cache_delete (Some r) k w = (Inl e, w) \<and> cache_increment (Some r) k n w = (Inl e, w)
    \<and> cache_expire (Some r) k t w = (Inl e, w)
    \<and> cache_exists (Some r) k w = Inr False \<and> cache_keys (Some r) p w = Inr [] \<and> \<not> cache_ping (Some r) w"
  using assms by (simp add: cache_delete_def cache_increment_def cache_expire_def cache_exists_def cache_keys_def cache_ping_def)

lemma cache_unconnected:
  "cache_delete None k w = (Inl not_connected, w)" "cache_exists None k w = Inl not_connected"
  "cache_keys None p w = Inl not_connected" "\<not> cache_ping None w"
  by (simp_all add: cache_delete_def cache_exists_def cache_keys_def cache_ping_def)

text \<open>After a connection that failed, the commands reach the broken client instead of saying that there is
  none: \<open>exists\<close> answers false.\<close>

lemma failed_connect:
  assumes "rc_ping r w = Inl e" "rc_exists r k w = Inl e"
  shows "fst (cache_connect r w) = Inl e \<and> cache_exists (snd (cache_connect r w)) k w = Inr False
    \<and> cache_exists (cache_disconnect (snd (cache_connect r w))) k w = Inl not_connected"
  using assms by (simp add: cache_connect_def cache_disconnect_def cache_exists_def)

text \<open>The database 0 cannot be asked for, and only the first call of the accessor counts.\<close>

lemma database_zero: "ca_db (new_cache s (a\<lparr>cg_db := Some 0\<rparr>)) = ca_db s"
  by (simp add: new_cache_def int_or_def)

lemma get_cache_once: "get_cache s b (snd (get_cache s a g)) = (fst (get_cache s a g), snd (get_cache s a g))"
  by (simp add: get_cache_def split: option.split)

text \<open>Increments add up, where Redis adds: a counter is what Redis holds under the key.\<close>

lemma counter_sums:
  assumes incr: "\<And>n w. rc_incrby r k n w = (Inr (counter w + n), put (counter w + n) w)" and get: "\<And>n w. counter (put n w) = (n :: int)"
  shows "counter (fold (\<lambda>n w. snd (cache_increment (Some r) k n w)) ns w) = counter w + sum_list ns"
  by (induction ns arbitrary: w) (simp_all add: cache_increment_def incr get)

text \<open>What one service publishes another receives under the same type, unless the type itself holds the prefix
  and its dot; every event is handled, whether or not the handling of another raises.\<close>

lemma published_received:
  assumes "eb_publish None t d st = (Inr (), st')" "eb_connected st" "eb_prefix rst = eb_prefix st"
    "\<not> contains t (eb_prefix st @ ''.'')"
  shows "receive_kafka rst handle (map (map_prod id JObj) (eb_sent st')) w
    = snd (handle t (JObj d) (receive_kafka rst handle (map (map_prod id JObj) (eb_sent st)) w))"
proof -
  have "eb_sent st' = eb_sent st @ [(event_topic (eb_prefix st) t, d)]"
    using assms(1,2) by (auto simp: eb_publish_def split: if_splits)
  then show ?thesis
    using received_type_roundtrip [of t "eb_prefix st"] assms(3,4) by (simp add: receive_kafka_def)
qed

lemma nats_kafka:
  "receive_nats st handle (map (\<lambda>(s, v). (s, Some v)) msgs) w = receive_kafka st handle msgs w"
  by (induction msgs arbitrary: w) (auto simp: receive_nats_def receive_kafka_def)

end
