(* ===== verification/ContractTests.thy ===== *)
theory ContractTests
  imports ExecProperties FleetProperties PluginProperties Devices EdgeDelivery ResourceProperties
begin

text \<open>
  The contract tests of the platform (\<open>scripts/contract-tests-api.py\<close>): a run of eleven requests over eight
  services, started without authentication, and what it checks of their answers. A request is the
  call of its handler with the body of the script; a run ends at the first check that fails.
\<close>

subsection \<open>The checks\<close>

datatype py_kind = Py_str | Py_int

fun is_instance :: "py_kind \<Rightarrow> json \<Rightarrow> bool" where
  "is_instance Py_str (JStr s) = True"
| "is_instance Py_int (JInt i) = True"
| "is_instance Py_int (JBool b) = True"
| "is_instance k v = False"

fun assert_fields :: "dict \<Rightarrow> (string \<times> py_kind) list \<Rightarrow> unit res" where
  "assert_fields d [] = Inr ()"
| "assert_fields d ((key, kind) # rest) =
     (if dhas d key \<and> is_instance kind (dget d key) then assert_fields d rest else Inl (PyExc ''AssertionError''))"

text \<open>\<open>_request_json\<close> raises on every answer that is no success; then the fields are looked at.\<close>

definition created_check :: "(string \<times> py_kind) list \<Rightarrow> dict res \<Rightarrow> unit res" where
  "created_check expected answer = (case answer of Inl err \<Rightarrow> Inl (PyExc ''HTTPError'') | Inr d \<Rightarrow> assert_fields d expected)"

text \<open>An exception of the handler is the answer 500.\<close>

definition expect_http_error :: "nat \<Rightarrow> 'a res \<Rightarrow> unit res" where
  "expect_http_error expected answer =
     (if (case answer of Inl (Http c detail) \<Rightarrow> c = expected | Inl (PyExc e) \<Rightarrow> expected = 500 | Inr x \<Rightarrow> False) then Inr ()
      else Inl (PyExc ''AssertionError''))"

primrec run_checks :: "('s \<Rightarrow> unit res \<times> 's) list \<Rightarrow> 's \<Rightarrow> unit res \<times> 's" where
  "run_checks [] s = (Inr (), s)"
| "run_checks (f # fs) s = (case f s of (Inl err, s1) \<Rightarrow> (Inl err, s1) | (Inr _, s1) \<Rightarrow> run_checks fs s1)"

subsection \<open>The services\<close>

record stack =
  sk_plugins :: plugin_state
  sk_executions :: exec_state
  sk_network :: network_state
  sk_dns :: dns_state
  sk_web :: webservice_state
  sk_fleets :: fleet_state
  sk_devices :: device_state
  sk_edge :: edge_state

record stack_env =
  se_user :: current_user
  se_request :: request
  se_plugin_cfg :: plugin_cfg
  se_plugin :: plugin_env
  se_exec_cfg :: exec_cfg
  se_exec :: exec_env
  se_publisher :: "string \<Rightarrow> publisher_cfg"
  se_resources :: "string \<Rightarrow> resource_env"
  se_fleet :: fleet_env
  se_device_cfg :: device_settings
  se_device :: device_env
  se_edge :: edge_env

subsection \<open>The requests\<close>

definition named_plugin :: "string \<Rightarrow> plugin_create" where
  "named_plugin n = \<lparr>pp_name = Some n, pp_version = Absent, pp_module_type = Absent, pp_artifact_uri = None,
     pp_artifact_checksum = None, pp_runtime_type = None, pp_entrypoint = None, pp_timeout_seconds = Absent,
     pp_memory_limit_mb = Absent, pp_permissions = JNull, pp_required_capabilities = JNull, pp_input_schema = JNull,
     pp_env_schema = JNull\<rparr>"

definition post_plugin :: "stack_env \<Rightarrow> stack \<Rightarrow> unit res \<times> stack" where
  "post_plugin env s = map_prod (created_check [(''id'', Py_str), (''name'', Py_str)]) (\<lambda>p. s\<lparr>sk_plugins := p\<rparr>)
     (create_plugin (se_plugin env) (se_user env) (named_plugin ''contract-plugin'') (sk_plugins s))"

definition post_execution :: "stack_env \<Rightarrow> stack \<Rightarrow> unit res \<times> stack" where
  "post_execution env s = map_prod
     (created_check [(''id'', Py_str), (''device_id'', Py_str), (''command'', Py_str), (''status'', Py_str)])
     (\<lambda>x. s\<lparr>sk_executions := x\<rparr>)
     (create_execution (se_exec_cfg env) (se_exec env) (se_request env) None
        (empty_payload\<lparr>p_device_id := Val ''contract-device'', p_command := Val ''noop''\<rparr>) (sk_executions s))"

definition post_port :: "stack_env \<Rightarrow> stack \<Rightarrow> unit res \<times> stack" where
  "post_port env s = map_prod
     (created_check [(''id'', Py_str), (''device_id'', Py_str), (''network_id'', Py_str), (''status'', Py_str)])
     (\<lambda>x. s\<lparr>sk_network := x\<rparr>)
     (create_port (se_publisher env ''network'') (se_resources env ''network'') (se_user env)
        \<lparr>pp_device_id = Val ''contract-device'', pp_network_id = Val ''contract-net'', pp_status = Absent, pp_ip_address = Absent\<rparr>
        (sk_network s))"

definition post_record :: "stack_env \<Rightarrow> stack \<Rightarrow> unit res \<times> stack" where
  "post_record env s = map_prod
     (created_check [(''id'', Py_str), (''name'', Py_str), (''type'', Py_str), (''value'', Py_str)])
     (\<lambda>x. s\<lparr>sk_dns := x\<rparr>)
     (create_record (se_publisher env ''dns'') (se_resources env ''dns'')
        \<lparr>dp_name = Val ''contract.example.org'', dp_type = Val ''A'', dp_value = Val ''10.0.0.99'', dp_ttl = Absent\<rparr> (sk_dns s))"

definition post_webservice :: "stack_env \<Rightarrow> stack \<Rightarrow> unit res \<times> stack" where
  "post_webservice env s = map_prod
     (created_check [(''id'', Py_str), (''device_id'', Py_str), (''port'', Py_int), (''status'', Py_str)])
     (\<lambda>x. s\<lparr>sk_web := x\<rparr>)
     (create_webservice (se_publisher env ''webservice'') (se_resources env ''webservice'') (se_user env)
        \<lparr>wp_device_id = Val ''contract-device'', wp_port = Val (JInt 9443), wp_status = Absent, wp_hostname = Absent,
         wp_tls_enabled = Absent\<rparr> (sk_web s))"

definition post_fleet :: "stack_env \<Rightarrow> stack \<Rightarrow> unit res \<times> stack" where
  "post_fleet env s = map_prod (created_check [(''id'', Py_str), (''name'', Py_str)]) (\<lambda>x. s\<lparr>sk_fleets := x\<rparr>)
     (create_fleet (se_publisher env ''fleet'') (se_fleet env) (se_user env) (Val ''contract-fleet'') (Val ''contract-check'')
        (sk_fleets s))"

definition nil_id :: string where
  "nil_id = ''00000000-0000-0000-0000-000000000000''"

definition missing_execution :: "stack_env \<Rightarrow> stack \<Rightarrow> unit res \<times> stack" where
  "missing_execution env s = (expect_http_error 404 (get_execution (se_request env) nil_id (sk_executions s)), s)"

definition missing_plugin :: "stack_env \<Rightarrow> stack \<Rightarrow> unit res \<times> stack" where
  "missing_plugin env s =
     (expect_http_error 404 (get_plugin (se_plugin_cfg env) None (se_user env) nil_id (sk_plugins s)), s)"

definition bad_secret :: "stack_env \<Rightarrow> stack \<Rightarrow> unit res \<times> stack" where
  "bad_secret env s = map_prod (expect_http_error 401) (\<lambda>x. s\<lparr>sk_devices := x\<rparr>)
     (agent_register_endpoint (se_device_cfg env) (se_device env) ''dev-bootstrap:WRONG-SECRET'' None
        \<lparr>ag_device_id = None, ag_name = ''bad'', ag_device_type = ''sensor'', ag_metadata = None, ag_capabilities = None,
         ag_connection_protocol = ''nexora-agent'', ag_protocol_meta = None, ag_owner_id = None, ag_tenant_id = None\<rparr>
        (sk_devices s))"

definition missing_callback :: "stack_env \<Rightarrow> stack \<Rightarrow> unit res \<times> stack" where
  "missing_callback env s = map_prod (expect_http_error 404) (\<lambda>x. s\<lparr>sk_executions := x\<rparr>)
     (callback_execution (se_exec_cfg env) (se_exec env) None None nil_id [(''status'', JStr ''succeeded'')] (sk_executions s))"

definition missing_session :: "stack_env \<Rightarrow> stack \<Rightarrow> unit res \<times> stack" where
  "missing_session env s = map_prod (expect_http_error 404) (\<lambda>x. s\<lparr>sk_edge := x\<rparr>)
     (get_session (se_edge env) ''nonexistent'' (sk_edge s))"

definition positive_checks :: "stack_env \<Rightarrow> (stack \<Rightarrow> unit res \<times> stack) list" where
  "positive_checks env = [post_plugin env, post_execution env, post_port env, post_record env, post_webservice env, post_fleet env]"

definition negative_contract_checks :: "stack_env \<Rightarrow> (stack \<Rightarrow> unit res \<times> stack) list" where
  "negative_contract_checks env = [missing_execution env, missing_plugin env, bad_secret env, missing_callback env, missing_session env]"

definition contract_main :: "stack_env \<Rightarrow> stack \<Rightarrow> unit res \<times> stack" where
  "contract_main env s = run_checks (positive_checks env @ negative_contract_checks env) s"

subsection \<open>Lemmas\<close>

lemma run_checks_append:
  "run_checks (fs @ gs) s = (case run_checks fs s of (Inl err, s1) \<Rightarrow> (Inl err, s1) | (Inr _, s1) \<Rightarrow> run_checks gs s1)"
  by (induction fs arbitrary: s) (auto split: prod.split sum.split)

lemma run_checks_Cons: "f s = (Inr (), s1) \<Longrightarrow> run_checks (f # fs) s = run_checks fs s1"
  by simp

lemma check_unit: "(r :: unit res) = Inr u \<longleftrightarrow> r = Inr ()"
  by simp

text \<open>Random ids that are new, and the absence of what the script takes to be absent.\<close>

definition new_ids :: "stack_env \<Rightarrow> stack \<Rightarrow> bool" where
  "new_ids env s \<longleftrightarrow>
     find_plugin (pe_uuid4 (se_plugin env) (pl_ids (sk_plugins s))) (sk_plugins s) = None
   \<and> uuid4 (se_exec env) (uuids (sk_executions s)) \<notin> ex_id ` set (executions (sk_executions s))
   \<and> tbl_get po_id (rs_uuid (se_resources env ''network'') (uuids (sk_network s))) (ports (sk_network s)) = None
   \<and> tbl_get dn_id (rs_uuid (se_resources env ''dns'') (uuids (sk_dns s))) (dns_records (sk_dns s)) = None
   \<and> tbl_get wb_id (rs_uuid (se_resources env ''webservice'') (uuids (sk_web s))) (webservices (sk_web s)) = None
   \<and> tbl_get fl_id (fe_uuid (se_fleet env) (uuids (sk_fleets s))) (fleets (sk_fleets s)) = None"

definition absent_ids :: "stack_env \<Rightarrow> stack \<Rightarrow> bool" where
  "absent_ids env s \<longleftrightarrow> find_plugin nil_id (sk_plugins s) = None \<and> tbl_get ex_id nil_id (executions (sk_executions s)) = None
   \<and> pe_uuid4 (se_plugin env) (pl_ids (sk_plugins s)) \<noteq> nil_id \<and> uuid4 (se_exec env) (uuids (sk_executions s)) \<noteq> nil_id
   \<and> fst (session_get (se_edge env) ''nonexistent'' (sk_edge s)) = None"

lemma plugin_posted:
  assumes "find_plugin (pe_uuid4 (se_plugin env) (pl_ids (sk_plugins s))) (sk_plugins s) = None"
  shows "post_plugin env s = (Inr (), s\<lparr>sk_plugins := sk_plugins (snd (post_plugin env s))\<rparr>)"
    and "find_plugin i (sk_plugins (snd (post_plugin env s))) = None
      \<longleftrightarrow> find_plugin i (sk_plugins s) = None \<and> i \<noteq> pe_uuid4 (se_plugin env) (pl_ids (sk_plugins s))"
  using assms
  by (auto simp: post_plugin_def create_plugin_def named_plugin_def Let_def created_check_def plugin_to_dict_def
      dhas_def dget_def new_plugin_def find_plugin_def plugin_audit_def tbl_get_add
      split: option.splits)

lemma execution_posted:
  assumes "uuid4 (se_exec env) (uuids (sk_executions s)) \<notin> ex_id ` set (executions (sk_executions s))"
    and "guardrails_violation (se_exec_cfg env) (Some ''command'') (Some ''noop'') = None"
    and "int (count_active_for_device (sk_executions s) ''contract-device'') < max_executions_per_device (se_exec_cfg env)"
  shows "\<exists>x e. post_execution env s = (Inr (), s\<lparr>sk_executions := x\<rparr>) \<and> executions x = executions (sk_executions s) @ [e]
    \<and> ex_id e = uuid4 (se_exec env) (uuids (sk_executions s)) \<and> ex_status e = ''queued'' \<and> ex_device_id e = Some ''contract-device''"
  using assms
  by (auto simp: post_execution_def create_execution_def find_idempotent_def Let_def empty_payload_def new_execution_def
      is_function_type_def insert_execution_def created_check_def execution_to_dict_def dhas_def dget_def frame_simps
      tbl_add_def image_iff)

lemma execution_refused:
  assumes "max_executions_per_device (se_exec_cfg env) \<le> int (count_active_for_device (sk_executions s) ''contract-device'')"
  shows "post_execution env s = (Inl (PyExc ''HTTPError''), s)"
  using assms by (simp add: post_execution_def create_execution_def find_idempotent_def Let_def empty_payload_def created_check_def)

lemma others_posted:
  "tbl_get po_id (rs_uuid (se_resources env ''network'') (uuids (sk_network s))) (ports (sk_network s)) = None \<Longrightarrow>
     post_port env s = (Inr (), s\<lparr>sk_network := sk_network (snd (post_port env s))\<rparr>)"
  "tbl_get dn_id (rs_uuid (se_resources env ''dns'') (uuids (sk_dns s))) (dns_records (sk_dns s)) = None \<Longrightarrow>
     post_record env s = (Inr (), s\<lparr>sk_dns := sk_dns (snd (post_record env s))\<rparr>)"
  "tbl_get wb_id (rs_uuid (se_resources env ''webservice'') (uuids (sk_web s))) (webservices (sk_web s)) = None \<Longrightarrow>
     post_webservice env s = (Inr (), s\<lparr>sk_web := sk_web (snd (post_webservice env s))\<rparr>)"
  "tbl_get fl_id (fe_uuid (se_fleet env) (uuids (sk_fleets s))) (fleets (sk_fleets s)) = None \<Longrightarrow>
     post_fleet env s = (Inr (), s\<lparr>sk_fleets := sk_fleets (snd (post_fleet env s))\<rparr>)"
  by (simp_all add: post_port_def create_port_def post_record_def create_record_def post_webservice_def create_webservice_def
      post_fleet_def create_fleet_def Let_def created_check_def port_to_dict_def record_to_dict_def ws_to_dict_def
      fleet_to_dict_def dhas_def dget_def ttl_column_def port_column_def flag_column_def valid_ws_statuses_def)

text \<open>The answers to the five requests that have to fail.\<close>

lemma missing_checks:
  "tbl_get ex_id nil_id (executions (sk_executions s)) = None \<Longrightarrow> missing_execution env s = (Inr (), s)"
  "find_plugin nil_id (sk_plugins s) = None \<Longrightarrow> missing_plugin env s = (Inr (), s)"
  "fst (session_get (se_edge env) ''nonexistent'' (sk_edge s)) = None \<Longrightarrow> \<exists>x. missing_session env s = (Inr (), s\<lparr>sk_edge := x\<rparr>)"
  by (auto simp: missing_execution_def get_execution_def expect_http_error_def missing_plugin_def get_plugin_def visible_plugin_def
      plugin_not_found_def missing_session_def get_session_def split: prod.splits)

lemma bad_secret_refused:
  assumes "validate_bootstrap_token (se_device_cfg env) (dn_now (se_device env)) ''dev-bootstrap:WRONG-SECRET'' \<noteq> Inr ()"
  shows "bad_secret env s = (Inr (), s)"
proof -
  obtain m where "validate_bootstrap_token (se_device_cfg env) (dn_now (se_device env)) ''dev-bootstrap:WRONG-SECRET'' = Inl (http 401 m)"
    using assms by (auto simp: validate_bootstrap_token_def split: list.splits option.splits if_splits)
  then show ?thesis by (simp add: bad_secret_def agent_register_endpoint_def expect_http_error_def)
qed

lemma callback_missing:
  assumes "tbl_get ex_id nil_id (executions (sk_executions s)) = None"
  shows "missing_callback env s = (if internal_service_key (internal (se_exec_cfg env)) = [] then Inr ()
    else Inl (PyExc ''AssertionError''), s)"
proof -
  have "require_internal_or_bootstrap (internal (se_exec_cfg env)) t None None =
      (if internal_service_key (internal (se_exec_cfg env)) = [] then Inr ()
       else Inl (http 403 ''Missing or invalid internal authentication''))" for t
    by (simp add: require_internal_or_bootstrap_def valid_internal_key_def valid_bootstrap_token_def)
  moreover have "validate_callback_payload [(''status'', JStr ''succeeded'')] = Inr None"
    by (simp add: validate_callback_payload_def dget_def dhas_def callback_allowed_fields_def valid_statuses_def)
  ultimately show ?thesis using assms
    by (simp add: missing_callback_def callback_execution_def expect_http_error_def dget_def)
qed

subsection \<open>The run\<close>

text \<open>After the six requests that create something, where ids are new.\<close>

lemma positive_run:
  assumes ids: "new_ids env s" and absent: "absent_ids env s"
    and guard: "guardrails_violation (se_exec_cfg env) (Some ''command'') (Some ''noop'') = None"
    and free: "int (count_active_for_device (sk_executions s) ''contract-device'') < max_executions_per_device (se_exec_cfg env)"
  shows "\<exists>s1 e. run_checks (positive_checks env) s = (Inr (), s1) \<and> sk_devices s1 = sk_devices s \<and> sk_edge s1 = sk_edge s
    \<and> find_plugin nil_id (sk_plugins s1) = None \<and> tbl_get ex_id nil_id (executions (sk_executions s1)) = None
    \<and> executions (sk_executions s1) = executions (sk_executions s) @ [e]
    \<and> ex_status e = ''queued'' \<and> ex_device_id e = Some ''contract-device''"
proof -
  have new: "find_plugin (pe_uuid4 (se_plugin env) (pl_ids (sk_plugins s))) (sk_plugins s) = None"
    using ids by (simp add: new_ids_def)
  obtain p where p: "post_plugin env s = (Inr (), s\<lparr>sk_plugins := p\<rparr>)" "find_plugin nil_id p = None"
  proof
    show "post_plugin env s = (Inr (), s\<lparr>sk_plugins := sk_plugins (snd (post_plugin env s))\<rparr>)" by (rule plugin_posted(1) [OF new])
    show "find_plugin nil_id (sk_plugins (snd (post_plugin env s))) = None"
      using absent by (auto simp: plugin_posted(2) [OF new] absent_ids_def)
  qed
  let ?s1 = "s\<lparr>sk_plugins := p\<rparr>"
  obtain x e where x: "post_execution env ?s1 = (Inr (), ?s1\<lparr>sk_executions := x\<rparr>)" "executions x = executions (sk_executions s) @ [e]"
    "ex_id e = uuid4 (se_exec env) (uuids (sk_executions s))" "ex_status e = ''queued''" "ex_device_id e = Some ''contract-device''"
    using execution_posted [of env ?s1] ids guard free unfolding new_ids_def by auto
  let ?s2 = "?s1\<lparr>sk_executions := x\<rparr>"
  obtain n where n: "post_port env ?s2 = (Inr (), ?s2\<lparr>sk_network := n\<rparr>)"
    using others_posted(1) [of env ?s2] ids by (auto simp: new_ids_def)
  let ?s3 = "?s2\<lparr>sk_network := n\<rparr>"
  obtain d where d: "post_record env ?s3 = (Inr (), ?s3\<lparr>sk_dns := d\<rparr>)"
    using others_posted(2) [of env ?s3] ids by (auto simp: new_ids_def)
  let ?s4 = "?s3\<lparr>sk_dns := d\<rparr>"
  obtain w where w: "post_webservice env ?s4 = (Inr (), ?s4\<lparr>sk_web := w\<rparr>)"
    using others_posted(3) [of env ?s4] ids by (auto simp: new_ids_def)
  let ?s5 = "?s4\<lparr>sk_web := w\<rparr>"
  obtain f where f: "post_fleet env ?s5 = (Inr (), ?s5\<lparr>sk_fleets := f\<rparr>)"
    using others_posted(4) [of env ?s5] ids by (auto simp: new_ids_def)
  have "run_checks (positive_checks env) s = (Inr (), ?s5\<lparr>sk_fleets := f\<rparr>)"
    unfolding positive_checks_def by (subst run_checks_Cons, (rule p(1) x(1) n d w f))+ simp
  moreover have "tbl_get ex_id nil_id (executions x) = None"
    using absent x(2,3) tbl_get_add [of ex_id nil_id e "executions (sk_executions s)"] by (simp add: absent_ids_def tbl_add_def)
  ultimately show ?thesis using p(2) x(2,4,5) by (intro exI [of _ "?s5\<lparr>sk_fleets := f\<rparr>"] exI [of _ e]) simp
qed

lemma negative_run:
  assumes "find_plugin nil_id (sk_plugins s) = None" "tbl_get ex_id nil_id (executions (sk_executions s)) = None"
    and "fst (session_get (se_edge env) ''nonexistent'' (sk_edge s)) = None"
    and "validate_bootstrap_token (se_device_cfg env) (dn_now (se_device env)) ''dev-bootstrap:WRONG-SECRET'' \<noteq> Inr ()"
  shows "\<exists>x. run_checks (negative_contract_checks env) s =
    (if internal_service_key (internal (se_exec_cfg env)) = [] then Inr () else Inl (PyExc ''AssertionError''), s\<lparr>sk_edge := x\<rparr>)"
proof -
  obtain x where x: "missing_session env s = (Inr (), s\<lparr>sk_edge := x\<rparr>)" using missing_checks(3) [OF assms(3)] by blast
  have c: "missing_callback env s = (if internal_service_key (internal (se_exec_cfg env)) = [] then Inr ()
    else Inl (PyExc ''AssertionError''), s)" by (rule callback_missing [OF assms(2)])
  have "s\<lparr>sk_edge := sk_edge s\<rparr> = s" by simp
  with x c show ?thesis
    by (cases "internal_service_key (internal (se_exec_cfg env)) = []")
      (auto simp: negative_contract_checks_def missing_checks(1) [OF assms(2)] missing_checks(2) [OF assms(1)]
        bad_secret_refused [OF assms(4)] intro: exI [of _ x] exI [of _ "sk_edge s"])
qed


text \<open>Empty services; the limit of the device is one.\<close>

definition demo_stack :: stack where
  "demo_stack = \<lparr>sk_plugins = \<lparr>plugins = [], pl_audit = [], pl_ids = 0\<rparr>, sk_executions = demo_state,
     sk_network = demo_network\<lparr>ports := []\<rparr>,
     sk_dns = \<lparr>producer_up = True, sends = 0, slept = 0, published = [], audit_log = [], uuids = 0, dns_records = []\<rparr>,
     sk_web = \<lparr>producer_up = True, sends = 0, slept = 0, published = [], audit_log = [], uuids = 0, webservices = []\<rparr>,
     sk_fleets = demo_fleet_state, sk_devices = empty_device_state, sk_edge = demo_edge\<rparr>"

definition demo_stack_env :: stack_env where
  "demo_stack_env = \<lparr>se_user = demo_plugin_user, se_request = demo_request, se_plugin_cfg = demo_plugin_cfg,
     se_plugin = demo_plugin_env, se_exec_cfg = demo_cfg, se_exec = demo_env, se_publisher = (\<lambda>n. demo_resource_cfg),
     se_resources = (\<lambda>n. demo_resource_env), se_fleet = demo_env_fleet, se_device_cfg = demo_device_settings,
     se_device = demo_device_env 1, se_edge = demo_edge_env\<rparr>"


end
