(* ===== verification/Oidc.thy ===== *)
theory Oidc
  imports AuthContext
begin

text \<open>
  The verifier of bearer tokens (\<open>common/auth/oidc.py\<close>), which the middlewares of the services take as a
  parameter: the keys of the identity provider, fetched and kept for a while, and the token checked
  with the key it names. The functions of PyJWT (header, key and signature) are parameters, as is what the address of the
  keys answers at each call.
\<close>

subsection \<open>The verifier\<close>

text \<open>\<open>jw_decode\<close> gets the token, the key, the algorithm, and the issuer and audience to check, if any;
  \<open>jw_str\<close> is \<open>str\<close>.\<close>

record 'k jwt_lib =
  jw_header :: "string \<Rightarrow> dict res"
  jw_from_jwk :: "dict \<Rightarrow> 'k res"
  jw_decode :: "string \<Rightarrow> 'k \<Rightarrow> json \<Rightarrow> string option \<Rightarrow> string option \<Rightarrow> dict res"
  jw_str :: "json \<Rightarrow> string"

record oidc_settings =
  oi_issuer :: "string option"
  oi_audience :: "string option"
  oi_ttl_seconds :: rat

record jwks_cache =
  jc_jwks :: "json option"
  jc_cached_at :: rat

definition new_verifier :: jwks_cache where
  "new_verifier = \<lparr>jc_jwks = None, jc_cached_at = 0\<rparr>"

definition load_jwks :: "oidc_settings \<Rightarrow> rat \<Rightarrow> json res \<Rightarrow> jwks_cache \<Rightarrow> json res \<times> jwks_cache" where
  "load_jwks cfg t fetched c =
     (let fetch = (case fetched of Inl err \<Rightarrow> (Inl err, c) | Inr v \<Rightarrow> (Inr v, \<lparr>jc_jwks = Some v, jc_cached_at = t\<rparr>))
      in case jc_jwks c of
           None \<Rightarrow> fetch
         | Some v \<Rightarrow> if truthy v \<and> t - jc_cached_at c < oi_ttl_seconds cfg then (Inr v, c) else fetch)"

fun key_for :: "json \<Rightarrow> json list \<Rightarrow> dict option res" where
  "key_for kid [] = Inr None"
| "key_for kid (JObj k # ks) = (if py_eq (dget k ''kid'') kid then Inr (Some k) else key_for kid ks)"
| "key_for kid (v # ks) = Inl (PyExc ''AttributeError'')"

text \<open>What \<open>jwks.get("keys", [])\<close> iterates over.\<close>

definition jwks_keys :: "json \<Rightarrow> json list res" where
  "jwks_keys v = (case v of
     JObj d \<Rightarrow> (case dget_or d ''keys'' (JArr []) of
         JArr ks \<Rightarrow> Inr ks
       | JObj m \<Rightarrow> Inr (map (\<lambda>(k, x). JStr k) m)
       | JStr s \<Rightarrow> Inr (map (\<lambda>ch. JStr [ch]) s)
       | _ \<Rightarrow> Inl (PyExc ''TypeError''))
   | _ \<Rightarrow> Inl (PyExc ''AttributeError''))"

record oidc_claims =
  oc_sub :: string
  oc_iss :: string
  oc_aud :: json
  oc_exp :: json
  oc_raw :: dict

definition claims_from :: "'k jwt_lib \<Rightarrow> dict \<Rightarrow> oidc_claims" where
  "claims_from lib d = \<lparr>oc_sub = jw_str lib (dget_or d ''sub'' (JStr [])), oc_iss = jw_str lib (dget_or d ''iss'' (JStr [])),
     oc_aud = dget d ''aud'', oc_exp = dget d ''exp'', oc_raw = d\<rparr>"

definition given_text :: "string option \<Rightarrow> string option" where
  "given_text s = (if nonempty s then s else None)"

text \<open>The check of a token with a set of keys: the first key of its kid, and the algorithm the token names.\<close>

definition check_token :: "'k jwt_lib \<Rightarrow> oidc_settings \<Rightarrow> dict \<Rightarrow> string \<Rightarrow> json \<Rightarrow> oidc_claims res" where
  "check_token lib cfg header token jwks = (case jwks_keys jwks of
     Inl err \<Rightarrow> Inl err
   | Inr ks \<Rightarrow>
       (case key_for (dget header ''kid'') ks of
          Inl err \<Rightarrow> Inl err
        | Inr None \<Rightarrow> Inl (PyExc ''ValueError'')
        | Inr (Some k) \<Rightarrow>
            if k = [] then Inl (PyExc ''ValueError'')
            else (case jw_from_jwk lib k of
                Inl err \<Rightarrow> Inl err
              | Inr public_key \<Rightarrow> map_sum id (claims_from lib)
                  (jw_decode lib token public_key (dget_or header ''alg'' (JStr ''RS256''))
                     (given_text (oi_issuer cfg)) (given_text (oi_audience cfg))))))"

definition verify_token ::
  "'k jwt_lib \<Rightarrow> oidc_settings \<Rightarrow> rat \<Rightarrow> json res \<Rightarrow> string \<Rightarrow> jwks_cache \<Rightarrow> oidc_claims res \<times> jwks_cache" where
  "verify_token lib cfg t fetched token c = (case jw_header lib token of
     Inl err \<Rightarrow> (Inl err, c)
   | Inr header \<Rightarrow> (case load_jwks cfg t fetched c of
       (Inl err, c1) \<Rightarrow> (Inl err, c1) | (Inr jwks, c1) \<Rightarrow> (check_token lib cfg header token jwks, c1)))"

text \<open>Calls one after the other: the clock, what the address of the keys would answer, and the token.\<close>

record oidc_call =
  ca_time :: rat
  ca_fetched :: "json res"
  ca_token :: string

fun verify_all :: "'k jwt_lib \<Rightarrow> oidc_settings \<Rightarrow> oidc_call list \<Rightarrow> jwks_cache \<Rightarrow> oidc_claims res list \<times> jwks_cache" where
  "verify_all lib cfg [] c = ([], c)"
| "verify_all lib cfg (x # xs) c =
     (case verify_token lib cfg (ca_time x) (ca_fetched x) (ca_token x) c of
        (r, c1) \<Rightarrow> (case verify_all lib cfg xs c1 of (rs, c2) \<Rightarrow> (r # rs, c2)))"

subsection \<open>Lemmas\<close>

definition signed_by :: "'k jwt_lib \<Rightarrow> oidc_settings \<Rightarrow> string \<Rightarrow> json \<Rightarrow> oidc_claims \<Rightarrow> bool" where
  "signed_by lib cfg token jwks r \<longleftrightarrow> (\<exists>header ks k pk d. jw_header lib token = Inr header \<and> jwks_keys jwks = Inr ks \<and> JObj k \<in> set ks
     \<and> py_eq (dget k ''kid'') (dget header ''kid'') \<and> jw_from_jwk lib k = Inr pk
     \<and> jw_decode lib token pk (dget_or header ''alg'' (JStr ''RS256'')) (given_text (oi_issuer cfg)) (given_text (oi_audience cfg)) = Inr d
     \<and> r = claims_from lib d)"

lemma key_for_member: "key_for kid ks = Inr (Some k) \<Longrightarrow> JObj k \<in> set ks \<and> py_eq (dget k ''kid'') kid"
  by (induction kid ks rule: key_for.induct) (auto split: if_splits)

lemma check_signed:
  assumes "check_token lib cfg header token jwks = Inr r" "jw_header lib token = Inr header"
  shows "signed_by lib cfg token jwks r"
  using assms key_for_member unfolding signed_by_def check_token_def
  by (auto simp: map_sum_Inr split: sum.splits option.splits if_splits)

lemma load_cases:
  assumes "load_jwks cfg t fetched c = (Inr v, c1)"
  shows "c1 = c \<and> jc_jwks c = Some v \<and> t - jc_cached_at c < oi_ttl_seconds cfg
    \<or> fetched = Inr v \<and> c1 = \<lparr>jc_jwks = Some v, jc_cached_at = t\<rparr>"
  using assms by (auto simp: load_jwks_def Let_def split: option.splits sum.splits if_splits)

lemma verify_cases:
  assumes "verify_token lib cfg t fetched token c = (r, c1)"
  shows "c1 = c \<or> (\<exists>v. fetched = Inr v \<and> c1 = \<lparr>jc_jwks = Some v, jc_cached_at = t\<rparr>)"
    and "r = Inr cl \<Longrightarrow> (\<exists>v. jc_jwks c = Some v \<and> t - jc_cached_at c < oi_ttl_seconds cfg \<and> signed_by lib cfg token v cl)
      \<or> (\<exists>v. fetched = Inr v \<and> signed_by lib cfg token v cl)"
proof -
  show "c1 = c \<or> (\<exists>v. fetched = Inr v \<and> c1 = \<lparr>jc_jwks = Some v, jc_cached_at = t\<rparr>)"
    using assms by (auto simp: verify_token_def load_jwks_def Let_def split: sum.splits prod.splits option.splits if_splits)
  assume "r = Inr cl"
  with assms obtain header v where h: "jw_header lib token = Inr header" "load_jwks cfg t fetched c = (Inr v, c1)"
    "check_token lib cfg header token v = Inr cl"
    by (auto simp: verify_token_def split: sum.splits prod.splits)
  with load_cases [OF h(2)] check_signed [OF h(3,1)]
  show "(\<exists>v. jc_jwks c = Some v \<and> t - jc_cached_at c < oi_ttl_seconds cfg \<and> signed_by lib cfg token v cl)
      \<or> (\<exists>v. fetched = Inr v \<and> signed_by lib cfg token v cl)" by blast
qed

text \<open>An accepted token, from any state of the cache.\<close>

lemma accepted_from:
  assumes "i < length xs" "fst (verify_all lib cfg xs c) ! i = Inr cl"
  shows "(\<exists>v. jc_jwks c = Some v \<and> ca_time (xs ! i) - jc_cached_at c < oi_ttl_seconds cfg \<and> signed_by lib cfg (ca_token (xs ! i)) v cl)
    \<or> (\<exists>j \<le> i. \<exists>v. ca_fetched (xs ! j) = Inr v \<and> (j = i \<or> ca_time (xs ! i) - ca_time (xs ! j) < oi_ttl_seconds cfg)
        \<and> signed_by lib cfg (ca_token (xs ! i)) v cl)"
  using assms
proof (induction xs arbitrary: c i)
  case (Cons x xs)
  obtain r c1 where v: "verify_token lib cfg (ca_time x) (ca_fetched x) (ca_token x) c = (r, c1)" by fastforce
  show ?case
  proof (cases i)
    case 0
    with Cons.prems v have "r = Inr cl" by (simp split: prod.splits)
    from verify_cases(2) [OF v this] 0 show ?thesis by auto
  next
    case (Suc k)
    with Cons.prems v have k: "k < length xs" "fst (verify_all lib cfg xs c1) ! k = Inr cl" by (auto split: prod.splits)
    from Cons.IH [OF k] consider (kept) w where "jc_jwks c1 = Some w" "ca_time (xs ! k) - jc_cached_at c1 < oi_ttl_seconds cfg"
        "signed_by lib cfg (ca_token (xs ! k)) w cl"
      | (later) j w where "j \<le> k" "ca_fetched (xs ! j) = Inr w" "signed_by lib cfg (ca_token (xs ! k)) w cl"
        "j = k \<or> ca_time (xs ! k) - ca_time (xs ! j) < oi_ttl_seconds cfg" by blast
    then show ?thesis
    proof cases
      case kept
      with verify_cases(1) [OF v] show ?thesis using Suc by (auto intro!: exI [of _ 0])
    next
      case later
      then show ?thesis using Suc by (intro disjI2 exI [of _ "Suc j"]) auto
    qed
  qed
qed simp

lemma verify_all_append:
  "verify_all lib cfg (xs @ ys) c = (case verify_all lib cfg xs c of (rs, c1) \<Rightarrow> (case verify_all lib cfg ys c1 of (qs, c2) \<Rightarrow> (rs @ qs, c2)))"
  by (induction xs arbitrary: c) (auto split: prod.split)

lemma kept_keys:
  assumes "jc_jwks c = Some v" "truthy v" "\<And>x. x \<in> set xs \<Longrightarrow> ca_time x - jc_cached_at c < oi_ttl_seconds cfg"
  shows "verify_all lib cfg xs c = (map (\<lambda>x. case jw_header lib (ca_token x) of
      Inl err \<Rightarrow> Inl err | Inr header \<Rightarrow> check_token lib cfg header (ca_token x) v) xs, c)"
  using assms(3) by (induction xs) (auto simp: assms(1,2) verify_token_def load_jwks_def Let_def split: sum.splits)

subsection \<open>The keys in use\<close>

text \<open>C39. With which keys a token is accepted. A verifier that starts without keys accepts a token only where its signature, issuer and
  audience are checked with a key of the token's kid, out of keys that were fetched at that call or less than
  the lifetime before it. While keys are kept, nothing else counts: for all calls within their
  lifetime the answer is that of the check with them, so a token of a key that has been withdrawn goes on being
  accepted, and a token of a new key is refused, whatever the address of the keys would answer.\<close>

theorem oidc_keys:
  fixes lib :: "'k jwt_lib" and cfg :: oidc_settings and xs ys :: "oidc_call list"
  defines "start \<equiv> verify_all lib cfg xs new_verifier"
  shows "(i < length xs \<and> fst start ! i = Inr cl \<longrightarrow>
      (\<exists>j \<le> i. \<exists>v. ca_fetched (xs ! j) = Inr v \<and> (j = i \<or> ca_time (xs ! i) - ca_time (xs ! j) < oi_ttl_seconds cfg)
        \<and> signed_by lib cfg (ca_token (xs ! i)) v cl))
    \<and> (jc_jwks (snd start) = Some v \<and> truthy v
        \<and> (\<forall>y \<in> set ys. ca_time y - jc_cached_at (snd start) < oi_ttl_seconds cfg) \<longrightarrow>
       fst (verify_all lib cfg (xs @ ys) new_verifier) = fst start @ map (\<lambda>y. case jw_header lib (ca_token y) of
         Inl err \<Rightarrow> Inl err | Inr header \<Rightarrow> check_token lib cfg header (ca_token y) v) ys)"
proof (intro conjI impI)
  assume "i < length xs \<and> fst start ! i = Inr cl"
  then show "\<exists>j \<le> i. \<exists>v. ca_fetched (xs ! j) = Inr v \<and> (j = i \<or> ca_time (xs ! i) - ca_time (xs ! j) < oi_ttl_seconds cfg)
        \<and> signed_by lib cfg (ca_token (xs ! i)) v cl"
    using accepted_from [of i xs lib cfg new_verifier cl] by (simp add: start_def new_verifier_def)
next
  assume h: "jc_jwks (snd start) = Some v \<and> truthy v
        \<and> (\<forall>y \<in> set ys. ca_time y - jc_cached_at (snd start) < oi_ttl_seconds cfg)"
  have "verify_all lib cfg ys (snd start) = (map (\<lambda>y. case jw_header lib (ca_token y) of
         Inl err \<Rightarrow> Inl err | Inr header \<Rightarrow> check_token lib cfg header (ca_token y) v) ys, snd start)"
    by (rule kept_keys) (use h in auto)
  then show "fst (verify_all lib cfg (xs @ ys) new_verifier) = fst start @ map (\<lambda>y. case jw_header lib (ca_token y) of
         Inl err \<Rightarrow> Inl err | Inr header \<Rightarrow> check_token lib cfg header (ca_token y) v) ys"
    by (simp add: verify_all_append start_def case_prod_beta)
qed

text \<open>A provider whose key \<open>a\<close> is replaced by \<open>b\<close>: three calls at 0, 10 and 310 seconds. The token is its own kid.\<close>

definition demo_jwt :: "string jwt_lib" where
  "demo_jwt = \<lparr>jw_header = (\<lambda>t. Inr [(''kid'', JStr t)]), jw_from_jwk = (\<lambda>k. Inr ''key''),
     jw_decode = (\<lambda>t k alg iss aud. Inr [(''sub'', JStr t)]), jw_str = (\<lambda>v. case v of JStr s \<Rightarrow> s | _ \<Rightarrow> [])\<rparr>"

definition demo_oidc :: oidc_settings where
  "demo_oidc = \<lparr>oi_issuer = Some ''iss'', oi_audience = None, oi_ttl_seconds = 300\<rparr>"

definition demo_jwks :: "string \<Rightarrow> json" where
  "demo_jwks k = JObj [(''keys'', JArr [JObj [(''kid'', JStr k)]])]"

definition demo_oidc_calls :: "oidc_call list" where
  "demo_oidc_calls = [\<lparr>ca_time = 0, ca_fetched = Inr (demo_jwks ''a''), ca_token = ''a''\<rparr>,
     \<lparr>ca_time = 10, ca_fetched = Inr (demo_jwks ''b''), ca_token = ''b''\<rparr>,
     \<lparr>ca_time = 310, ca_fetched = Inr (demo_jwks ''b''), ca_token = ''b''\<rparr>]"

lemma demo_rotation:
  "map is_ok (fst (verify_all demo_jwt demo_oidc demo_oidc_calls new_verifier)) = [True, False, True]"
  by (simp add: demo_oidc_calls_def verify_token_def load_jwks_def demo_jwt_def demo_oidc_def demo_jwks_def new_verifier_def
      check_token_def jwks_keys_def dget_or_def dget_def is_ok_def)

theorem oidc_keys_witness:
  "\<exists>j \<le> 2. \<exists>v cl. ca_fetched (demo_oidc_calls ! j) = Inr v \<and> signed_by demo_jwt demo_oidc ''b'' v cl"
proof -
  let ?r = "fst (verify_all demo_jwt demo_oidc demo_oidc_calls new_verifier)"
  have "length ?r = 3" using arg_cong [OF demo_rotation, of length] by simp
  moreover have "map is_ok ?r ! 2" by (simp add: demo_rotation)
  ultimately obtain cl where cl: "?r ! 2 = Inr cl" by (auto elim: is_okE)
  have "\<exists>j \<le> 2. \<exists>v. ca_fetched (demo_oidc_calls ! j) = Inr v
      \<and> (j = 2 \<or> ca_time (demo_oidc_calls ! 2) - ca_time (demo_oidc_calls ! j) < oi_ttl_seconds demo_oidc)
      \<and> signed_by demo_jwt demo_oidc (ca_token (demo_oidc_calls ! 2)) v cl"
    by (rule oidc_keys [THEN conjunct1, THEN mp, of _ _ _ _ _]) (use cl in \<open>simp add: demo_oidc_calls_def\<close>)
  then show ?thesis by (auto simp: demo_oidc_calls_def)
qed

end
