(* ===== verification/Spec2Isabelle.thy ===== *)
theory Spec2Isabelle
  imports Drift Triggers EdgeDelivery FleetProperties ShadowProperties DeviceProperties DiscoveryProperties TelemetryProperties Privacy PluginProperties AgentQueue AgentProperties Rbac FunctionStore FunctionRuntime ResourceProperties AiProperties AuditAccess MqttProperties ZigbeeProperties MatterProperties AiDraftProperties PairingProperties EmulatorProperties CommonProperties SensorProperties SdkProperties ExecAuth EndToEnd EmulatorLoops BridgeLoops EdgeOps AgentCli GrpcProperties ServiceStart AiConsumer CommonClients ContractTests Oidc
begin

text \<open>
  Nexora is a platform for fleets of edge devices: Python services (FastAPI over PostgreSQL,
  Redis and Kafka) keep devices, plugins, executions and fleets; a gateway holds the WebSocket
  tunnels of the devices; agents, bridges and an emulator stand at the other end. This library
  models the Python code of the services, the agents, the bridges, the common library and the
  SDK.

  \<^bold>\<open>How the parts interact.\<close> A client creates an execution at the execution service
  (\<open>services/execution-service\<close>), directly or through a rollout, a runbook, a fleet
  operation or an event trigger. Dispatching publishes \<open>execution.dispatched\<close> on Kafka. The
  edge gateway (\<open>services/nexora-edge\<close>) consumes it and delivers it on the tunnel of the
  device, or caches it for replay; the protocol bridges consume the same topic for MQTT,
  Zigbee and Matter devices. The agent (\<open>packages/nexora-agent\<close>) executes it, with
  \<open>packages/nexora-runtime\<close> or \<open>services/nexora-function-runtime\<close> for WASM functions, and
  reports with callbacks. The callback is published again and becomes an insight of
  \<open>services/ai-pipeline-service\<close>. The device service keeps devices, shadows, objectives, telemetry,
  consents and pairings; plugin, fleet, network, webservice, DNS and RBAC service are
  stores of their own.

  \<^bold>\<open>Conventions.\<close> They stand in \<open>Prelude\<close>. A handler is a function from the caller, the
  request and the state of its service to a result (\<open>error + 'a\<close>, the error an HTTP status or
  a Python exception) and the new state; every \<open>raise\<close> and early return is a branch. Tables are
  lists of records with a primary key, under the interface \<open>keyed_store\<close>, which each component
  instantiates with its own rows. Definitions carry the names of the Python functions.
  Other services, Redis, Kafka, HTTP clients, wasmtime, hashes, JSON and token verification are
  parameters of the definitions; clocks and random ids come from an environment record.

  \<^bold>\<open>Theories and code.\<close>
  \<^item> \<open>Prelude\<close>, \<open>Doubles\<close>: JSON, dicts, strings, results, tables; rounding of doubles.
  \<^item> \<open>Events\<close>, \<open>InternalAuth\<close>, \<open>AuthContext\<close>, \<open>CommonLib\<close>: Kafka publishing with retries and the
    audit log, shared keys and bootstrap tokens, the authentication middleware, and health checks,
    errors, event bus and cache of \<open>libraries/common\<close>. \<open>CommonProperties\<close> has the laws of the last.
  \<^item> \<open>Execution\<close>, \<open>ExecLifecycle\<close>, \<open>ExecInvariants\<close>, \<open>ExecProperties\<close>: the handlers of
    \<open>execution-service/main.py\<close>, the abstract machine \<open>row_step\<close> on rows that they refine, the
    reachable states and the properties that rest on it. \<open>ExecAuth\<close> is its middleware.
    \<open>Launch\<close>, \<open>Rollout\<close>, \<open>FleetOps\<close>, \<open>RolloutProperties\<close>: rollouts, runbooks and fleet
    operations through the interface \<open>launcher\<close>; \<open>Drift\<close> and \<open>Triggers\<close>: drift analysis and
    event triggers.
  \<^item> \<open>EdgeStore\<close>, \<open>Edge\<close>, \<open>EdgeDelivery\<close>, \<open>EdgeOps\<close>: the gateway and what becomes of a cached
    dispatch; its start, probes and counters. \<open>EndToEnd\<close> puts execution service, gateway and agent
    together and follows a command from its dispatch to its end.
  \<^item> \<open>DeviceModel\<close>, \<open>Devices\<close>, \<open>Shadow\<close>, \<open>Discovery\<close>, \<open>Telemetry\<close>, \<open>Privacy\<close>, \<open>AuditAccess\<close> and
    their \<open>Properties\<close>: the device service. \<open>DeviceApi\<close> is the interface (\<open>device_api\<close>,
    \<open>device_registry\<close>) that the bridges rely on, interpreted on the handlers of \<open>Devices\<close>.
  \<^item> \<open>Plugins\<close>, \<open>Fleet\<close>, \<open>Resources\<close>, \<open>Rbac\<close> and their \<open>Properties\<close>: plugin, fleet, network,
    webservice, DNS and RBAC service.
  \<^item> \<open>Agent\<close>, \<open>AgentTunnel\<close>, \<open>AgentQueue\<close>, \<open>AgentPairing\<close>, \<open>Callbacks\<close>, \<open>AgentProperties\<close>, \<open>PairingProperties\<close>,
    \<open>Sensors\<close>, \<open>SensorProperties\<close>: the agent, its tunnel, offline queue, pairing and sensor drivers, and
    the agent against the execution service.
  \<^item> \<open>FunctionStore\<close> and \<open>FunctionRuntime\<close>: the two runtimes of WASM functions.
  \<^item> \<open>Bridges\<close>, \<open>MqttBridge\<close>, \<open>ZigbeeBridge\<close>, \<open>MatterBridge\<close>, \<open>Emulator\<close> and their
    \<open>Properties\<close>: the bridges and the device emulator, against device and execution service.
    \<open>BridgeLoops\<close> and \<open>EmulatorLoops\<close> are the loops around them, \<open>MatterDevice\<close> the
    commissioning of a Matter device through the device service.
  \<^item> \<open>AiPipeline\<close>, \<open>AiDrafts\<close> and their \<open>Properties\<close>: insights, risk scores, drafts.
  \<^item> \<open>Sdk\<close>, \<open>SdkProperties\<close>, \<open>SdkGrpc\<close>, \<open>GrpcProperties\<close>: the two clients of the SDK and what their calls
    come to at the services.
  \<^item> \<open>Oidc\<close>: the verifier of tokens with its kept keys. \<open>ContractTests\<close>: the contract tests over eight services.
  \<^item> \<open>ServiceStart\<close>: start-up and readiness of the services, and access in production. \<open>AgentCli\<close>: the
    commands of the agent. \<open>AiConsumer\<close>: summaries and the consumer of the AI pipeline.
    \<open>CommonClients\<close>: cache commands and the receiving side of the event bus.

  \<^bold>\<open>What the lemmas show.\<close> For stores with a life cycle (executions, plugins, pairings, shadows,
  consents, functions, drafts, Matter sessions), an inductive step relation collects the
  handlers, and an invariant of the reachable states is proved by rule induction. Isolation
  between tenants is proved for arbitrary sequences of requests of others. Where two
  components meet (agent and callback handler, bridge and device service, publisher and
  consumer, SDK and routes) the theorem is about the composition of both models.

  \<^bold>\<open>Bounds and fuel.\<close> Loops over lists are structural. The polling loop of pairing has fuel, and
  \<open>agent_pairing\<close> shows that some fuel is enough, and every larger one, when the clock
  advances. The offline queue is emptied by at most ten drains per item (\<open>queue_drains\<close>), the
  attempts left being the measure. Retries are bounded by the source. Endless loops (tunnel, broker connections, boards of the
  emulator) run over the list of what their turns meet, or for a number of turns; \<open>run_board_ends\<close>
  says when a board ends. Sensor bytes are words
  of eight bits, read as the drivers read them.

  \<^bold>\<open>Not modelled.\<close> Threads, the set-up of clients, metrics, tracing and logging; SQL isolation (a handler is one step, or the steps between the awaits that matter);
  the texts of HTML and of prompts; the migrations, the scripts that measure, deployment files and the
  TypeScript front end. Each component of the manifest says what it leaves out.
\<close>

end
